(* ===== verification/VP_Prelude.thy ===== *)
theory VP_Prelude
  imports Main "HOL-Library.Word"
begin

unbundle bit_operations_syntax

text \<open>
  Shared vocabulary of the RISC-V virtual platform model: the names of the
  machine words of the sources, bit-field selection as the sources write it
  (SystemC's \<^verbatim>\<open>range(hi, lo)\<close>), little-endian byte sequences (the layout of
  every TLM payload), byte-addressed memories as functions, and the arithmetic
  of the circular buffers that ROB.h, Scoreboard.h and StoreBuffer.h share.
  The component theories rest on the lemmas collected here in
  \<^verbatim>\<open>ring_simps\<close>, \<^verbatim>\<open>byte_simps\<close> and \<^verbatim>\<open>vp_eval\<close>.
\<close>

named_theorems ring_simps \<open>circular-buffer arithmetic\<close>
named_theorems byte_simps \<open>little-endian byte sequences and byte memories\<close>
named_theorems vp_eval \<open>definitions unfolded to evaluate the model on concrete inputs\<close>

section \<open>Machine words\<close>

type_synonym u8 = "8 word"
type_synonym u16 = "16 word"
type_synonym u32 = "32 word"
type_synonym u64 = "64 word"

definition range_bits :: "nat \<Rightarrow> nat \<Rightarrow> 'a::len word \<Rightarrow> 'a word" where
  "range_bits hi lo w = take_bit (Suc hi - lo) (drop_bit lo w)"

definition sext :: "nat \<Rightarrow> 'a::len word \<Rightarrow> 'a word" where
  "sext n w = (if bit w (n - 1) then w OR NOT (mask n) else take_bit n w)"

lemma bit_range_bits [simp]:
  "bit (range_bits hi lo (w :: 'a::len word)) k \<longleftrightarrow> k < Suc hi - lo \<and> bit w (lo + k)"
  by (auto simp: range_bits_def bit_simps)

lemma unat_range_bits:
  "unat (range_bits hi lo (w :: 'a::len word)) = (unat w div 2 ^ lo) mod 2 ^ (Suc hi - lo)"
proof -
  have "unat (range_bits hi lo w) = take_bit (Suc hi - lo) (drop_bit lo (unat w))"
    by (simp add: range_bits_def unsigned_take_bit_eq unat_drop_bit_eq)
  then show ?thesis by (simp add: take_bit_eq_mod drop_bit_eq_div)
qed

lemma unat_range_bits_less: "unat (range_bits hi lo (w :: 'a::len word)) < 2 ^ (Suc hi - lo)"
  by (simp add: unat_range_bits)

text \<open>Single-bit tests and constants, as the sources write them with shifts and masks.\<close>

lemma word_neq_0_bit: "(w :: 'a::len word) \<noteq> 0 \<longleftrightarrow> (\<exists>k < LENGTH('a). bit w k)"
  by (metis bit_0_eq bit_imp_le_length bit_word_eqI bot_apply bot_bool_def)

lemma and_push_bit_1: "(w AND push_bit n 1 \<noteq> 0) \<longleftrightarrow> bit (w :: 'a::len word) n"
  unfolding word_neq_0_bit push_bit_of_1
  by (auto simp: bit_and_iff bit_exp_iff dest: bit_imp_le_length)

lemma drop_bit_and_1: "(drop_bit n w AND 1 \<noteq> 0) \<longleftrightarrow> bit (w :: 'a::len word) n"
  by (simp add: and_one_eq bit_iff_odd_drop_bit odd_iff_mod_2_eq_one)

lemma bit_flag: "bit (push_bit n (1 :: 'a::len word)) k \<longleftrightarrow> k = n \<and> n < LENGTH('a)"
  unfolding push_bit_of_1 by (auto simp: bit_exp_iff)

lemma bit_pair: "bit (push_bit n (3 :: 'a::len word)) k \<longleftrightarrow> (k = n \<or> k = Suc n) \<and> k < LENGTH('a)"
proof -
  have "(3 :: 'a word) = 1 + 2" by simp
  also have "\<dots> = mask 2" by (simp only: mask_eq_exp_minus_1) simp
  finally have three: "(3 :: 'a word) = mask 2" .
  have "bit (3 :: 'a word) j \<longleftrightarrow> j < LENGTH('a) \<and> j < 2" for j
    unfolding three bit_mask_iff possible_bit_word by blast
  then show ?thesis
    unfolding bit_push_bit_iff possible_bit_word by (simp only:) linarith
qed

section \<open>Little-endian byte sequences\<close>

definition to_bytes :: "nat \<Rightarrow> 'a::len word \<Rightarrow> u8 list" where
  "to_bytes n w = map (\<lambda>i. ucast (drop_bit (8 * i) w)) [0..<n]"

primrec of_bytes :: "u8 list \<Rightarrow> 'a::len word" where
  "of_bytes [] = 0"
| "of_bytes (b # bs) = ucast b OR push_bit 8 (of_bytes bs)"

lemma length_to_bytes [simp, byte_simps]: "length (to_bytes n w) = n"
  by (simp add: to_bytes_def)

lemma to_bytes_nth [byte_simps]: "i < n \<Longrightarrow> to_bytes n w ! i = ucast (drop_bit (8 * i) w)"
  by (simp add: to_bytes_def)

lemma bit_to_bytes_nth:
  "i < n \<Longrightarrow> bit (to_bytes n w ! i) k \<longleftrightarrow> k < 8 \<and> bit w (8 * i + k)"
  by (auto simp: to_bytes_nth bit_simps dest: bit_imp_le_length)

lemma bit_of_bytes:
  "bit (of_bytes bs :: 'a::len word) k \<longleftrightarrow>
     k < LENGTH('a) \<and> k div 8 < length bs \<and> bit (bs ! (k div 8)) (k mod 8)"
proof (induction bs arbitrary: k)
  case Nil
  then show ?case by simp
next
  case (Cons b bs)
  show ?case
  proof (cases "k < 8")
    case True
    then show ?thesis by (auto simp: bit_simps)
  next
    case False
    then obtain j where k: "k = 8 + j" by (metis le_add_diff_inverse not_less)
    have "\<not> bit b k" using False by (auto dest: bit_imp_le_length)
    moreover have "(8 + j) div 8 = Suc (j div 8)" by simp
    ultimately show ?thesis using Cons.IH[of j] by (auto simp: k bit_simps)
  qed
qed

lemma of_bytes_to_bytes [byte_simps]:
  "of_bytes (to_bytes n (w :: 'a::len word)) = take_bit (8 * n) w"
proof (rule bit_word_eqI)
  fix k assume "k < LENGTH('a)"
  moreover have "k div 8 < n \<longleftrightarrow> k < 8 * n"
    by (metis div_less_iff_less_mult mult.commute zero_less_numeral)
  ultimately show "bit (of_bytes (to_bytes n w) :: 'a word) k = bit (take_bit (8 * n) w) k"
    by (auto simp: bit_of_bytes bit_to_bytes_nth bit_take_bit_iff)
qed

lemma of_bytes_full:
  "LENGTH('a) \<le> 8 * n \<Longrightarrow> of_bytes (to_bytes n w) = (w :: 'a::len word)"
  by (simp add: of_bytes_to_bytes take_bit_word_eq_self)

lemma to_bytes_of_bytes:
  assumes "8 * length bs \<le> LENGTH('a::len)"
  shows "to_bytes (length bs) (of_bytes bs :: 'a word) = bs"
proof (rule nth_equalityI)
  show "length (to_bytes (length bs) (of_bytes bs :: 'a word)) = length bs" by simp
next
  fix i assume "i < length (to_bytes (length bs) (of_bytes bs :: 'a word))"
  then have i: "i < length bs" by simp
  show "to_bytes (length bs) (of_bytes bs :: 'a word) ! i = bs ! i"
  proof (rule bit_word_eqI)
    fix k assume k: "k < LENGTH(8)"
    then have "8 * i + k < LENGTH('a)" using assms i by auto
    moreover have "(8 * i + k) div 8 = i" "(8 * i + k) mod 8 = k" using k by auto
    ultimately show "bit (to_bytes (length bs) (of_bytes bs :: 'a word) ! i) k = bit (bs ! i) k"
      using i k by (simp add: bit_to_bytes_nth bit_of_bytes)
  qed
qed

section \<open>Byte-addressed memories\<close>

type_synonym bytemem = "nat \<Rightarrow> u8"

definition mem_read :: "bytemem \<Rightarrow> nat \<Rightarrow> nat \<Rightarrow> u8 list" where
  "mem_read m a n = map (\<lambda>i. m (a + i)) [0..<n]"

definition mem_write :: "bytemem \<Rightarrow> nat \<Rightarrow> u8 list \<Rightarrow> bytemem" where
  "mem_write m a bs = (\<lambda>x. if a \<le> x \<and> x < a + length bs then bs ! (x - a) else m x)"

lemma length_mem_read [simp, byte_simps]: "length (mem_read m a n) = n"
  by (simp add: mem_read_def)

lemma mem_read_write_same [simp, byte_simps]:
  "n = length bs \<Longrightarrow> mem_read (mem_write m a bs) a n = bs"
  by (auto simp: mem_read_def mem_write_def intro!: nth_equalityI)

lemma mem_read_write_disjoint [byte_simps]:
  "b + n \<le> a \<or> a + length bs \<le> b \<Longrightarrow> mem_read (mem_write m a bs) b n = mem_read m b n"
  by (auto simp: mem_read_def mem_write_def)

lemma mem_write_outside [byte_simps]:
  "x < a \<or> a + length bs \<le> x \<Longrightarrow> mem_write m a bs x = m x"
  by (auto simp: mem_write_def)

lemma mem_read_write_sub [byte_simps]:
  "a \<le> b \<Longrightarrow> b + n \<le> a + length bs \<Longrightarrow>
     mem_read (mem_write m a bs) b n = take n (drop (b - a) bs)"
  by (auto simp: mem_read_def mem_write_def intro!: nth_equalityI)

section \<open>Circular buffers\<close>

lemma nth_update_if: "xs[i := v] ! j = (if j = i \<and> i < length xs then v else xs ! j)"
  by (cases "i < length xs") (auto simp: nth_list_update list_update_beyond)

text \<open>The arithmetic of a circular buffer of \<^verbatim>\<open>n\<close> slots with head \<^verbatim>\<open>h\<close>, tail \<^verbatim>\<open>t\<close> and
  \<^verbatim>\<open>c\<close> live entries: its well-formedness, the live slot indices from oldest to
  youngest, and the live contents of a slot array.\<close>

definition ring_wf :: "nat \<Rightarrow> nat \<Rightarrow> nat \<Rightarrow> nat \<Rightarrow> bool" where
  "ring_wf n h t c \<longleftrightarrow> h < n \<and> c \<le> n \<and> t = (h + c) mod n"

definition ring_idx :: "nat \<Rightarrow> nat \<Rightarrow> nat \<Rightarrow> nat list" where
  "ring_idx n h c = map (\<lambda>k. (h + k) mod n) [0..<c]"

definition ring :: "'a list \<Rightarrow> nat \<Rightarrow> nat \<Rightarrow> 'a list" where
  "ring xs h c = map (\<lambda>i. xs ! i) (ring_idx (length xs) h c)"

lemma ring_wfD: "ring_wf n h t c \<Longrightarrow> h < n \<and> t < n \<and> c \<le> n"
  by (auto simp: ring_wf_def)

lemma ring_wf_push [ring_simps]:
  "ring_wf n h t c \<Longrightarrow> c < n \<Longrightarrow> ring_wf n h ((t + 1) mod n) (c + 1)"
  by (auto simp: ring_wf_def mod_simps)

lemma ring_wf_pop [ring_simps]:
  assumes "ring_wf n h t c" "0 < c" shows "ring_wf n ((h + 1) mod n) t (c - 1)"
proof -
  have "((h + 1) mod n + (c - 1)) mod n = (h + 1 + (c - 1)) mod n"
    by (rule mod_add_left_eq)
  also have "h + 1 + (c - 1) = h + c" using assms by simp
  finally show ?thesis using assms by (auto simp: ring_wf_def)
qed

lemma ring_prev:
  assumes "ring_wf n h t c" "0 < c" shows "(t + n - 1) mod n = (h + (c - 1)) mod n"
proof -
  from assms have "((h + c) mod n + n - 1) mod n = ((h + c) mod n + (n - 1)) mod n"
    by (simp add: ring_wf_def)
  also have "\<dots> = (h + c + (n - 1)) mod n" by (rule mod_add_left_eq)
  also have "h + c + (n - 1) = h + (c - 1) + n" using assms by (simp add: ring_wf_def)
  also have "(h + (c - 1) + n) mod n = (h + (c - 1)) mod n" by simp
  finally show ?thesis using assms by (simp add: ring_wf_def)
qed

lemma ring_wf_unpush [ring_simps]:
  "ring_wf n h t c \<Longrightarrow> 0 < c \<Longrightarrow> ring_wf n h ((t + n - 1) mod n) (c - 1)"
  using ring_prev[of n h t c] by (auto simp: ring_wf_def)

lemma ring_wf_empty [ring_simps]: "0 < n \<Longrightarrow> ring_wf n 0 0 0"
  by (simp add: ring_wf_def)

lemma length_ring_idx [simp]: "length (ring_idx n h c) = c"
  by (simp add: ring_idx_def)

lemma length_ring [simp]: "length (ring xs h c) = c"
  by (simp add: ring_def)

lemma ring_idx_0 [simp]: "ring_idx n h 0 = []"
  by (simp add: ring_idx_def)

lemma ring_0 [simp]: "ring xs h 0 = []"
  by (simp add: ring_def)

lemma ring_idx_nth [simp]: "k < c \<Longrightarrow> ring_idx n h c ! k = (h + k) mod n"
  by (simp add: ring_idx_def)

lemma ring_nth: "k < c \<Longrightarrow> ring xs h c ! k = xs ! ((h + k) mod length xs)"
  by (simp add: ring_def)

lemma ring_idx_push [ring_simps]: "ring_idx n h (Suc c) = ring_idx n h c @ [(h + c) mod n]"
  by (simp add: ring_idx_def)

lemma ring_idx_pop:
  assumes "h < n" "0 < c" shows "ring_idx n h c = h # ring_idx n ((h + 1) mod n) (c - 1)"
proof (rule nth_equalityI)
  show "length (ring_idx n h c) = length (h # ring_idx n ((h + 1) mod n) (c - 1))"
    using assms by simp
  fix i assume "i < length (ring_idx n h c)"
  then show "ring_idx n h c ! i = (h # ring_idx n ((h + 1) mod n) (c - 1)) ! i"
    using assms by (cases i) (auto simp: mod_simps)
qed

lemma ring_idx_less: "0 < n \<Longrightarrow> i \<in> set (ring_idx n h c) \<Longrightarrow> i < n"
  by (auto simp: ring_idx_def)

lemma ring_idx_inj:
  assumes "(h + a) mod n = (h + b) mod n" "a < n" "b < n" shows "a = (b::nat)"
proof (cases "a \<le> b")
  case True
  then have "n dvd b - a" using assms(1) mod_eq_dvd_iff_nat[of "h + a" "h + b" n] by auto
  then show ?thesis using assms True by (auto dest: dvd_imp_le)
next
  case False
  then have "n dvd a - b" using assms(1) mod_eq_dvd_iff_nat[of "h + b" "h + a" n] by auto
  then show ?thesis using assms False by (auto dest: dvd_imp_le)
qed

lemma distinct_ring_idx: "c \<le> n \<Longrightarrow> distinct (ring_idx n h c)"
  by (auto simp: ring_idx_def distinct_map inj_on_def dest: ring_idx_inj)

lemma tail_not_live:
  assumes "ring_wf n h t c" "c < n" shows "t \<notin> set (ring_idx n h c)"
  using assms distinct_ring_idx[of "Suc c" n h] by (simp add: ring_idx_push ring_wf_def)

lemma head_live: "ring_wf n h t c \<Longrightarrow> 0 < c \<Longrightarrow> h \<in> set (ring_idx n h c)"
  by (simp add: ring_idx_pop ring_wf_def)

lemma ring_idx_full:
  assumes "0 < n" shows "set (ring_idx n h n) = {..<n}"
proof (rule card_subset_eq)
  show "set (ring_idx n h n) \<subseteq> {..<n}" using assms by (auto dest: ring_idx_less)
  show "card (set (ring_idx n h n)) = card {..<n}"
    by (simp add: distinct_card distinct_ring_idx)
qed simp

lemma ring_update_dead [ring_simps]:
  "i \<notin> set (ring_idx (length xs) h c) \<Longrightarrow> ring (xs[i := v]) h c = ring xs h c"
  by (auto simp: ring_def intro!: nth_list_update_neq)

lemma ring_push [ring_simps]:
  assumes "ring_wf (length xs) h t c" "c < length xs"
  shows "ring (xs[t := v]) h (c + 1) = ring xs h c @ [v]"
proof -
  have "ring (xs[t := v]) h c = ring xs h c"
    using assms by (intro ring_update_dead tail_not_live)
  moreover have "t < length xs" "t = (h + c) mod length xs"
    using assms ring_wfD[OF assms(1)] by (auto simp: ring_wf_def)
  ultimately show ?thesis by (simp add: ring_def ring_idx_push)
qed

lemma ring_pop:
  "ring_wf (length xs) h t c \<Longrightarrow> 0 < c \<Longrightarrow>
     ring xs h c = xs ! h # ring xs ((h + 1) mod length xs) (c - 1)"
  by (simp add: ring_def ring_idx_pop ring_wf_def)

lemma head_not_in_popped:
  assumes "ring_wf n h t c" "0 < c"
  shows "h \<notin> set (ring_idx n ((h + 1) mod n) (c - 1))"
  using assms distinct_ring_idx[of c n h] by (simp add: ring_idx_pop ring_wf_def)

lemma ring_pop_clear [ring_simps]:
  assumes "ring_wf (length xs) h t c" "0 < c"
  shows "ring (xs[h := v]) ((h + 1) mod length xs) (c - 1) = tl (ring xs h c)"
  using assms ring_update_dead[OF head_not_in_popped[OF assms]] by (simp add: ring_pop)

lemma ring_unpush [ring_simps]:
  assumes "ring_wf (length xs) h t c" "0 < c"
  shows "ring (xs[(t + length xs - 1) mod length xs := v]) h (c - 1) = butlast (ring xs h c)"
proof -
  let ?p = "(t + length xs - 1) mod length xs"
  have "ring_wf (length xs) h ?p (c - 1)" by (rule ring_wf_unpush[OF assms])
  then have "?p \<notin> set (ring_idx (length xs) h (c - 1))"
    using assms by (intro tail_not_live) (auto simp: ring_wf_def)
  moreover have "ring xs h c = ring xs h (c - 1) @ [xs ! ((h + (c - 1)) mod length xs)]"
    using assms(2) by (cases c) (simp_all add: ring_def ring_idx_push)
  ultimately show ?thesis by (simp add: ring_update_dead)
qed

lemma ring_last:
  assumes "ring_wf (length xs) h t c" "0 < c"
  shows "last (ring xs h c) = xs ! ((t + length xs - 1) mod length xs)"
  using assms ring_prev[OF assms] by (cases c) (simp_all add: ring_def ring_idx_push)

section \<open>Computations that may fail\<close>

definition and_then :: "'e + 'a \<Rightarrow> ('a \<Rightarrow> 'e + 'b) \<Rightarrow> 'e + 'b" where
  "and_then x f = (case x of Inl e \<Rightarrow> Inl e | Inr y \<Rightarrow> f y)"

lemma and_then_simps [simp]: "and_then (Inl e) f = Inl e" "and_then (Inr y) f = f y"
  by (simp_all add: and_then_def)

lemma and_then_Inr: "and_then x f = Inr z \<longleftrightarrow> (\<exists>y. x = Inr y \<and> f y = Inr z)"
  by (cases x) auto

end
