(* ===== verification/Fifo.thy ===== *)
theory Fifo
  imports VP_Prelude
begin

text \<open>
  The contract of a bounded first-in-first-out buffer, as the pipeline relies
  on it: the reorder buffer (ROB.h), the scoreboard (Scoreboard.h) and both
  queues of the store buffer (StoreBuffer.h) promise it.  A client history is a
  list of operations run by \<^verbatim>\<open>fifo_run\<close>; the locale derives, once for all
  providers, that no history loses, duplicates or reorders an element.
\<close>

datatype ('i, 'u) fifo_op = Enq 'i | Deq | Upd 'u

fun fifo_run ::
  "('i \<Rightarrow> 's \<Rightarrow> ('e \<times> 's) option) \<Rightarrow> ('s \<Rightarrow> ('e \<times> 's) option) \<Rightarrow> ('u \<Rightarrow> 's \<Rightarrow> 's) \<Rightarrow>
   ('i, 'u) fifo_op list \<Rightarrow> 's \<Rightarrow> 'e list \<times> 'e list \<times> 's"
where
  "fifo_run enq deq upd [] s = ([], [], s)"
| "fifo_run enq deq upd (Enq i # ops) s =
     (case enq i s of
        None \<Rightarrow> fifo_run enq deq upd ops s
      | Some (e, s') \<Rightarrow>
          (let (ins, outs, t) = fifo_run enq deq upd ops s' in (e # ins, outs, t)))"
| "fifo_run enq deq upd (Deq # ops) s =
     (case deq s of
        None \<Rightarrow> fifo_run enq deq upd ops s
      | Some (e, s') \<Rightarrow>
          (let (ins, outs, t) = fifo_run enq deq upd ops s' in (ins, e # outs, t)))"
| "fifo_run enq deq upd (Upd u # ops) s = fifo_run enq deq upd ops (upd u s)"

locale bounded_fifo =
  fixes abs :: "'s \<Rightarrow> 'e list"
    and inv :: "'s \<Rightarrow> bool"
    and cap :: "'s \<Rightarrow> nat"
    and full :: "'s \<Rightarrow> bool"
    and stalled :: "'s \<Rightarrow> bool"
    and enq :: "'i \<Rightarrow> 's \<Rightarrow> ('e \<times> 's) option"
    and deq :: "'s \<Rightarrow> ('e \<times> 's) option"
    and upd :: "'u \<Rightarrow> 's \<Rightarrow> 's"
  assumes bounded: "inv s \<Longrightarrow> length (abs s) \<le> cap s"
    and enq_full: "inv s \<Longrightarrow> full s \<Longrightarrow> enq i s = None"
    and enq_room: "inv s \<Longrightarrow> \<not> full s \<Longrightarrow>
      \<exists>e s'. enq i s = Some (e, s') \<and> inv s' \<and> cap s' = cap s \<and> abs s' = abs s @ [e]"
    and deq_stalled: "inv s \<Longrightarrow> stalled s \<Longrightarrow> deq s = None"
    and deq_hd: "inv s \<Longrightarrow> \<not> stalled s \<Longrightarrow>
      \<exists>e s'. deq s = Some (e, s') \<and> inv s' \<and> cap s' = cap s \<and> abs s = e # abs s'"
    and upd_keeps: "inv s \<Longrightarrow> inv (upd u s) \<and> cap (upd u s) = cap s \<and> abs (upd u s) = abs s"
begin

lemma enq_cases:
  assumes "inv s"
  obtains "enq i s = None" "full s"
  | e s' where "enq i s = Some (e, s')" "inv s'" "cap s' = cap s" "abs s' = abs s @ [e]"
  using assms enq_full[of s i] enq_room[of s i] by (cases "full s") auto

lemma deq_cases:
  assumes "inv s"
  obtains "deq s = None" "stalled s"
  | e s' where "deq s = Some (e, s')" "inv s'" "cap s' = cap s" "abs s = e # abs s'"
  using assms deq_stalled[of s] deq_hd[of s] by (cases "stalled s") auto

lemma run_order:
  "inv s \<Longrightarrow> fifo_run enq deq upd ops s = (ins, outs, t) \<Longrightarrow>
     inv t \<and> cap t = cap s \<and> outs @ abs t = abs s @ ins"
proof (induction ops arbitrary: s ins outs)
  case Nil
  then show ?case by simp
next
  case (Cons op ops)
  show ?case
  proof (cases op)
    case (Enq i)
    show ?thesis
      using Cons.prems(1)
    proof (cases rule: enq_cases[of s i])
      case 1
      then show ?thesis using Cons.IH[of s ins outs] Cons.prems Enq by simp
    next
      case (2 e s')
      then show ?thesis
        using Cons.IH[of s'] Cons.prems Enq by (auto split: prod.splits)
    qed
  next
    case Deq
    show ?thesis
      using Cons.prems(1)
    proof (cases rule: deq_cases[of s])
      case 1
      then show ?thesis using Cons.IH[of s ins outs] Cons.prems Deq by simp
    next
      case (2 e s')
      then show ?thesis
        using Cons.IH[of s'] Cons.prems Deq by (auto split: prod.splits)
    qed
  next
    case (Upd u)
    then show ?thesis
      using Cons.IH[of "upd u s" ins outs] Cons.prems upd_keeps[of s u] by simp
  qed
qed

lemma run_bounded:
  "inv s \<Longrightarrow> fifo_run enq deq upd ops s = (ins, outs, t) \<Longrightarrow> length (abs t) \<le> cap s"
  using run_order[of s ops ins outs t] bounded[of t] by simp

end

end
