(* ===== verification/ROB.thy ===== *)
theory ROB
  imports Fifo
begin

text \<open>
  The reorder buffer (src/inc/ROB.h): a circular array of entries with head,
  tail and count.  The template parameter SIZE is the length of the entry list.
  The abstraction \<^verbatim>\<open>rob_inflight\<close> lists the live slots from oldest to youngest
  with the result each has delivered, and every operation refines the obvious
  operation on that list; \<^verbatim>\<open>rob\<close> is an instance of the bounded FIFO contract.
\<close>

section \<open>State and operations\<close>

record ROBEntry =
  rob_valid :: bool
  rob_ready :: bool
  rob_dest_reg :: u8
  rob_result :: u64
  rob_is_store :: bool
  rob_is_branch :: bool
  rob_exception :: bool
  rob_pc :: u64

definition ROBEntry_default :: ROBEntry where
  "ROBEntry_default = \<lparr>rob_valid = False, rob_ready = False, rob_dest_reg = 0, rob_result = 0,
     rob_is_store = False, rob_is_branch = False, rob_exception = False, rob_pc = 0\<rparr>"

record ReorderBuffer =
  rob_entries :: "ROBEntry list"
  rob_head :: nat
  rob_tail :: nat
  rob_count :: nat

definition rob_size :: "ReorderBuffer \<Rightarrow> nat" where
  "rob_size r = length (rob_entries r)"

definition rob_init :: "nat \<Rightarrow> ReorderBuffer" where
  "rob_init n = \<lparr>rob_entries = replicate n ROBEntry_default, rob_head = 0, rob_tail = 0,
     rob_count = 0\<rparr>"

definition rob_is_full :: "ReorderBuffer \<Rightarrow> bool" where
  "rob_is_full r \<longleftrightarrow> rob_count r = rob_size r"

definition rob_is_empty :: "ReorderBuffer \<Rightarrow> bool" where
  "rob_is_empty r \<longleftrightarrow> rob_count r = 0"

definition rob_allocate :: "ReorderBuffer \<Rightarrow> int \<times> ReorderBuffer" where
  "rob_allocate r =
     (if rob_is_full r then (-1, r)
      else (int (rob_tail r),
        r\<lparr>rob_entries := (rob_entries r)[rob_tail r := (rob_entries r ! rob_tail r)
             \<lparr>rob_valid := True, rob_ready := False, rob_exception := False\<rparr>],
          rob_tail := (rob_tail r + 1) mod rob_size r,
          rob_count := rob_count r + 1\<rparr>))"

definition rob_complete :: "int \<Rightarrow> u64 \<Rightarrow> u8 \<Rightarrow> ReorderBuffer \<Rightarrow> ReorderBuffer" where
  "rob_complete index result dest_reg r =
     (if index < 0 \<or> nat index \<ge> rob_size r then r
      else r\<lparr>rob_entries := (rob_entries r)[nat index := (rob_entries r ! nat index)
             \<lparr>rob_ready := True, rob_result := result, rob_dest_reg := dest_reg\<rparr>]\<rparr>)"

definition rob_get_head :: "ReorderBuffer \<Rightarrow> ROBEntry" where
  "rob_get_head r = rob_entries r ! rob_head r"

definition rob_head_ready :: "ReorderBuffer \<Rightarrow> bool" where
  "rob_head_ready r \<longleftrightarrow> rob_valid (rob_get_head r) \<and> rob_ready (rob_get_head r)"

definition rob_get_head_index :: "ReorderBuffer \<Rightarrow> int" where
  "rob_get_head_index r = int (rob_head r)"

definition rob_retire :: "ReorderBuffer \<Rightarrow> ReorderBuffer" where
  "rob_retire r =
     (if rob_is_empty r then r
      else r\<lparr>rob_entries := (rob_entries r)[rob_head r := (rob_entries r ! rob_head r)
               \<lparr>rob_valid := False\<rparr>],
          rob_head := (rob_head r + 1) mod rob_size r,
          rob_count := rob_count r - 1\<rparr>)"

definition rob_flush :: "ReorderBuffer \<Rightarrow> ReorderBuffer" where
  "rob_flush r =
     \<lparr>rob_entries = map (\<lambda>e. e\<lparr>rob_valid := False, rob_ready := False\<rparr>) (rob_entries r),
      rob_head = 0, rob_tail = 0, rob_count = 0\<rparr>"

section \<open>Invariant and abstraction\<close>

definition rob_slots :: "ReorderBuffer \<Rightarrow> nat list" where
  "rob_slots r = ring_idx (rob_size r) (rob_head r) (rob_count r)"

definition rob_wf :: "ReorderBuffer \<Rightarrow> bool" where
  "rob_wf r \<longleftrightarrow> ring_wf (rob_size r) (rob_head r) (rob_tail r) (rob_count r) \<and>
     (\<forall>i < rob_size r. rob_valid (rob_entries r ! i) \<longleftrightarrow> i \<in> set (rob_slots r))"

definition rob_outcome :: "ReorderBuffer \<Rightarrow> nat \<Rightarrow> (u8 \<times> u64) option" where
  "rob_outcome r i = (let e = rob_entries r ! i in
     if rob_ready e then Some (rob_dest_reg e, rob_result e) else None)"

definition rob_inflight :: "ReorderBuffer \<Rightarrow> (nat \<times> (u8 \<times> u64) option) list" where
  "rob_inflight r = map (\<lambda>i. (i, rob_outcome r i)) (rob_slots r)"

lemmas rob_op_defs = rob_is_full_def rob_is_empty_def rob_allocate_def rob_complete_def
  rob_get_head_def rob_head_ready_def rob_retire_def rob_flush_def rob_size_def

lemma rob_wf_ring: "rob_wf r \<Longrightarrow> ring_wf (length (rob_entries r)) (rob_head r) (rob_tail r) (rob_count r)"
  by (simp add: rob_wf_def rob_size_def)

lemma rob_valid_iff:
  "rob_wf r \<Longrightarrow> i < length (rob_entries r) \<Longrightarrow>
     rob_valid (rob_entries r ! i) \<longleftrightarrow> i \<in> set (ring_idx (length (rob_entries r)) (rob_head r) (rob_count r))"
  by (simp add: rob_wf_def rob_size_def rob_slots_def)

lemma rob_init_wf: "0 < n \<Longrightarrow> rob_wf (rob_init n)"
  by (simp add: rob_wf_def rob_init_def rob_size_def rob_slots_def ROBEntry_default_def ring_simps)

lemma rob_allocate_full: "rob_is_full r \<Longrightarrow> rob_allocate r = (-1, r)"
  by (simp add: rob_allocate_def)

lemma rob_allocate_slots:
  assumes "rob_wf r" "\<not> rob_is_full r"
  shows "rob_slots (snd (rob_allocate r)) = rob_slots r @ [rob_tail r]"
  using assms by (simp add: rob_op_defs rob_slots_def rob_wf_def ring_idx_push ring_wf_def)

lemma rob_allocate_wf:
  assumes wf: "rob_wf r" shows "rob_wf (snd (rob_allocate r))"
proof (cases "rob_is_full r")
  case True
  then show ?thesis using wf by (simp add: rob_allocate_full)
next
  case False
  note rw = rob_wf_ring[OF wf]
  have c: "rob_count r < length (rob_entries r)"
    using False ring_wfD[OF rw] by (simp add: rob_op_defs)
  show ?thesis
    unfolding rob_wf_def
  proof (intro conjI allI impI)
    show "ring_wf (rob_size (snd (rob_allocate r))) (rob_head (snd (rob_allocate r)))
            (rob_tail (snd (rob_allocate r))) (rob_count (snd (rob_allocate r)))"
      using False ring_wf_push[OF rw c] by (simp add: rob_op_defs)
  next
    fix i assume "i < rob_size (snd (rob_allocate r))"
    then have i: "i < length (rob_entries r)" by (simp add: rob_op_defs split: if_splits)
    have "rob_slots (snd (rob_allocate r)) = rob_slots r @ [rob_tail r]"
      by (rule rob_allocate_slots[OF wf False])
    then show "rob_valid (rob_entries (snd (rob_allocate r)) ! i) =
      (i \<in> set (rob_slots (snd (rob_allocate r))))"
      using False i rob_valid_iff[OF wf i] ring_wfD[OF rw]
      by (auto simp: rob_op_defs rob_slots_def nth_update_if)
  qed
qed

lemma rob_complete_wf: "rob_wf r \<Longrightarrow> rob_wf (rob_complete i v d r)"
  by (auto simp: rob_wf_def rob_complete_def rob_size_def rob_slots_def nth_list_update)

lemma rob_complete_slots: "rob_slots (rob_complete i v d r) = rob_slots r"
  by (simp add: rob_complete_def rob_size_def rob_slots_def)

lemma rob_retire_slots: "rob_wf r \<Longrightarrow> rob_slots (rob_retire r) = tl (rob_slots r)"
  by (simp add: rob_op_defs rob_slots_def rob_wf_def ring_wf_def ring_idx_pop)

lemma rob_retire_wf:
  assumes wf: "rob_wf r" shows "rob_wf (rob_retire r)"
proof (cases "rob_is_empty r")
  case True
  then show ?thesis using wf by (simp add: rob_retire_def)
next
  case False
  note rw = rob_wf_ring[OF wf]
  have c: "0 < rob_count r" using False by (simp add: rob_op_defs)
  have "rob_valid (rob_entries (rob_retire r) ! i) = (i \<in> set (rob_slots (rob_retire r)))"
    if i: "i < length (rob_entries r)" for i
    using False c i rob_valid_iff[OF wf i] head_not_in_popped[OF rw c] ring_wfD[OF rw]
    by (auto simp: rob_op_defs rob_slots_def nth_list_update ring_idx_pop)
  then show ?thesis
    using False ring_wf_pop[OF rw c] by (simp add: rob_wf_def rob_op_defs)
qed

lemma rob_flush_wf: "0 < rob_size r \<Longrightarrow> rob_wf (rob_flush r)"
  by (simp add: rob_wf_def rob_op_defs rob_slots_def ring_simps)

section \<open>The reorder buffer is a bounded FIFO of slots\<close>

definition rob_enq :: "unit \<Rightarrow> ReorderBuffer \<Rightarrow> (nat \<times> ReorderBuffer) option" where
  "rob_enq u r = (let (i, r') = rob_allocate r in if i < 0 then None else Some (nat i, r'))"

definition rob_deq :: "ReorderBuffer \<Rightarrow> (nat \<times> ReorderBuffer) option" where
  "rob_deq r = (if rob_is_empty r then None else Some (nat (rob_get_head_index r), rob_retire r))"

definition rob_upd :: "int \<times> u64 \<times> u8 \<Rightarrow> ReorderBuffer \<Rightarrow> ReorderBuffer" where
  "rob_upd p r = (case p of (i, v, d) \<Rightarrow> rob_complete i v d r)"

lemma rob_size_ops [simp]:
  "rob_size (snd (rob_allocate r)) = rob_size r"
  "rob_size (rob_retire r) = rob_size r"
  "rob_size (rob_complete i v d r) = rob_size r"
  "rob_size (rob_flush r) = rob_size r"
  by (simp_all add: rob_op_defs)

lemma rob_slots_Cons: "rob_wf s \<Longrightarrow> \<not> rob_is_empty s \<Longrightarrow> rob_slots s = rob_head s # tl (rob_slots s)"
  by (simp add: rob_slots_def rob_wf_def rob_is_empty_def ring_idx_pop ring_wf_def)

interpretation rob: bounded_fifo rob_slots rob_wf rob_size rob_is_full rob_is_empty rob_enq rob_deq rob_upd
proof
  fix s :: ReorderBuffer and i :: unit and u :: "int \<times> u64 \<times> u8"
  assume wf: "rob_wf s"
  show "length (rob_slots s) \<le> rob_size s"
    using rob_wf_ring[OF wf] by (simp add: rob_slots_def rob_size_def ring_wf_def)
  show "rob_enq i s = None" if "rob_is_full s"
    using that by (simp add: rob_enq_def rob_allocate_def)
  show "\<exists>e s'. rob_enq i s = Some (e, s') \<and> rob_wf s' \<and> rob_size s' = rob_size s \<and>
          rob_slots s' = rob_slots s @ [e]" if nf: "\<not> rob_is_full s"
  proof -
    have "rob_enq i s = Some (rob_tail s, snd (rob_allocate s))"
      using nf by (simp add: rob_enq_def rob_allocate_def)
    then show ?thesis using rob_allocate_wf[OF wf] rob_allocate_slots[OF wf nf] by simp
  qed
  show "rob_deq s = None" if "rob_is_empty s"
    using that by (simp add: rob_deq_def)
  show "\<exists>e s'. rob_deq s = Some (e, s') \<and> rob_wf s' \<and> rob_size s' = rob_size s \<and>
          rob_slots s = e # rob_slots s'" if "\<not> rob_is_empty s"
    using that rob_slots_Cons[OF wf that] rob_retire_wf[OF wf] rob_retire_slots[OF wf]
    by (simp add: rob_deq_def rob_get_head_index_def)
  show "rob_wf (rob_upd u s) \<and> rob_size (rob_upd u s) = rob_size s \<and> rob_slots (rob_upd u s) = rob_slots s"
    using rob_complete_wf[OF wf] by (auto simp: rob_upd_def rob_complete_slots split: prod.splits)
qed

section \<open>Properties\<close>

lemma rob_slots_facts:
  assumes "rob_wf r"
  shows "distinct (rob_slots r)" "\<And>i. i \<in> set (rob_slots r) \<Longrightarrow> i < length (rob_entries r)"
    "rob_slots r = [] \<longleftrightarrow> rob_count r = 0" "rob_count r \<noteq> 0 \<Longrightarrow> hd (rob_slots r) = rob_head r"
    "rob_count r \<noteq> 0 \<Longrightarrow> rob_head r \<notin> set (tl (rob_slots r))"
proof -
  note rw = rob_wf_ring[OF assms]
  have pos: "0 < length (rob_entries r)" using ring_wfD[OF rw] by linarith
  show "distinct (rob_slots r)" "\<And>i. i \<in> set (rob_slots r) \<Longrightarrow> i < length (rob_entries r)"
    using rw ring_idx_less[OF pos]
    by (auto simp: rob_slots_def rob_size_def ring_wf_def distinct_ring_idx)
  show "rob_slots r = [] \<longleftrightarrow> rob_count r = 0"
    by (metis length_0_conv length_ring_idx rob_slots_def)
  show "hd (rob_slots r) = rob_head r" "rob_head r \<notin> set (tl (rob_slots r))" if "rob_count r \<noteq> 0"
    using that rw head_not_in_popped[OF rw] by (auto simp: rob_slots_def rob_size_def ring_idx_pop ring_wf_def)
qed

lemma rob_tail_dead: "rob_wf r \<Longrightarrow> \<not> rob_is_full r \<Longrightarrow> rob_tail r \<notin> set (rob_slots r)"
  using rob_wf_ring[of r] tail_not_live[of "length (rob_entries r)" "rob_head r" "rob_tail r" "rob_count r"]
  by (auto simp: rob_slots_def rob_is_full_def rob_size_def ring_wf_def)

lemma rob_inflight_allocate:
  assumes wf: "rob_wf r" and nf: "\<not> rob_is_full r"
  shows "rob_inflight (snd (rob_allocate r)) = rob_inflight r @ [(rob_tail r, None)]"
proof -
  have "rob_outcome (snd (rob_allocate r)) i = (if i = rob_tail r then None else rob_outcome r i)" for i
    using nf ring_wfD[OF rob_wf_ring[OF wf]]
    by (simp add: rob_outcome_def rob_allocate_def nth_update_if Let_def)
  then show ?thesis
    using rob_tail_dead[OF wf nf] rob_allocate_slots[OF wf nf] by (auto simp: rob_inflight_def)
qed

lemma rob_inflight_complete:
  assumes wf: "rob_wf r"
  shows "rob_inflight (rob_complete i v d r) =
     map (\<lambda>(j, o_j). (j, if int j = i then Some (d, v) else o_j)) (rob_inflight r)"
proof -
  have "rob_outcome (rob_complete i v d r) j = (if int j = i then Some (d, v) else rob_outcome r j)"
    if "j \<in> set (rob_slots r)" for j
    using rob_slots_facts(2)[OF wf that]
    by (auto simp: rob_outcome_def rob_complete_def nth_update_if Let_def rob_size_def)
  then show ?thesis by (simp add: rob_inflight_def rob_complete_slots)
qed

lemma rob_inflight_retire:
  assumes wf: "rob_wf r" shows "rob_inflight (rob_retire r) = tl (rob_inflight r)"
proof (cases "rob_count r = 0")
  case True
  then show ?thesis using rob_slots_facts(3)[OF wf] by (simp add: rob_inflight_def rob_retire_def rob_is_empty_def)
next
  case False
  have "rob_outcome (rob_retire r) j = rob_outcome r j" for j
    by (simp add: rob_outcome_def rob_retire_def nth_update_if Let_def)
  then show ?thesis using rob_retire_slots[OF wf] by (simp add: rob_inflight_def map_tl)
qed

lemma rob_head_ready_iff:
  assumes wf: "rob_wf r"
  shows "rob_head_ready r \<longleftrightarrow> rob_inflight r \<noteq> [] \<and> snd (hd (rob_inflight r)) \<noteq> None"
proof -
  have h: "rob_head r < length (rob_entries r)" using ring_wfD[OF rob_wf_ring[OF wf]] by simp
  have v: "rob_valid (rob_entries r ! rob_head r) \<longleftrightarrow> rob_head r \<in> set (rob_slots r)"
    using wf h by (simp add: rob_wf_def rob_size_def)
  show ?thesis
  proof (cases "rob_slots r")
    case Nil
    then show ?thesis using v by (simp add: rob_head_ready_def rob_get_head_def rob_inflight_def)
  next
    case (Cons x xs)
    then have "x = rob_head r" using rob_slots_facts(3,4)[OF wf] by auto
    then show ?thesis using v Cons
      by (simp add: rob_head_ready_def rob_get_head_def rob_inflight_def rob_outcome_def Let_def)
  qed
qed

text \<open>The reorder buffer refines a list of in-flight instructions with optional
  outcomes: allocation appends one without outcome (or is refused when full),
  completion records the outcome of the addressed instruction only, retirement drops
  the oldest, and the head is ready exactly when the oldest has an outcome.\<close>
theorem rob_refines_inflight_list:
  assumes "rob_wf r"
  shows "rob_inflight (snd (rob_allocate r)) =
       (if rob_is_full r then rob_inflight r else rob_inflight r @ [(rob_tail r, None)])
     \<and> fst (rob_allocate r) = (if rob_is_full r then -1 else int (rob_tail r))
     \<and> rob_inflight (rob_complete i v d r) =
         map (\<lambda>(j, o_j). (j, if int j = i then Some (d, v) else o_j)) (rob_inflight r)
     \<and> rob_inflight (rob_retire r) = tl (rob_inflight r)
     \<and> (rob_head_ready r \<longleftrightarrow> rob_inflight r \<noteq> [] \<and> snd (hd (rob_inflight r)) \<noteq> None)
     \<and> rob_inflight (rob_flush r) = []"
  using rob_inflight_allocate[OF assms] rob_inflight_complete[OF assms] rob_inflight_retire[OF assms]
    rob_head_ready_iff[OF assms] rob_allocate_full[of r]
  by (simp add: rob_allocate_def rob_inflight_def rob_slots_def rob_flush_def)

theorem rob_refines_inflight_list_witness:
  "let r = snd (rob_allocate (rob_init 2)) in
     rob_wf r \<and> rob_inflight (rob_complete 0 7 5 r) = [(0, Some (5, 7))]"
proof -
  let ?r = "snd (rob_allocate (rob_init 2))"
  have "rob_wf ?r" by (intro rob_allocate_wf rob_init_wf) simp
  from this rob_refines_inflight_list[OF this, of 0 7 5] show ?thesis
    by (simp add: rob_init_def rob_allocate_def rob_inflight_def rob_slots_def rob_size_def
        rob_is_full_def rob_outcome_def ROBEntry_default_def ring_idx_def)
qed

text \<open>From an empty reorder buffer of any positive size, every history of allocate,
  complete and retire calls retires the slots in allocation order and never has more
  than SIZE of them in flight.\<close>
theorem rob_in_order_retire:
  "case fifo_run rob_enq rob_deq rob_upd ops (rob_init (Suc n)) of (allocated, retired, r) \<Rightarrow>
     rob_wf r \<and> retired @ rob_slots r = allocated \<and> length (rob_slots r) \<le> Suc n"
proof -
  obtain a rt r where run: "fifo_run rob_enq rob_deq rob_upd ops (rob_init (Suc n)) = (a, rt, r)"
    by (metis prod_cases3)
  have i: "rob_wf (rob_init (Suc n))" "rob_slots (rob_init (Suc n)) = []"
    "rob_size (rob_init (Suc n)) = Suc n"
    using rob_init_wf[of "Suc n"] by (simp_all add: rob_slots_def rob_init_def rob_size_def)
  show ?thesis using rob.run_order[OF i(1) run] rob.run_bounded[OF i(1) run] i by (simp add: run)
qed

end
