(* ===== verification/Scoreboard.thy ===== *)
theory Scoreboard
  imports Fifo
begin

text \<open>
  The scoreboard (src/inc/Scoreboard.h), issue queue and reorder buffer of the
  six-stage pipeline: a circular array of entries that hold results until
  commit, plus the per-register producer tables \<^verbatim>\<open>rd_clobber\<close> and \<^verbatim>\<open>fp_clobber\<close>.
  \<^verbatim>\<open>sb_inflight\<close> lists the in-flight instructions from oldest to youngest; the
  operations refine append, update, tail, prefix and clear on that list.
  The squash loop of \<^verbatim>\<open>flush_speculative\<close> runs with SIZE units of fuel, which
  \<^verbatim>\<open>sb_flush_loop_fold\<close> shows to be enough.
\<close>

section \<open>State and operations\<close>

datatype FunctionalUnit = FU_NONE | FU_ALU | FU_LSU | FU_BRANCH | FU_CSR | FU_MUL | FU_DIV | FU_FPU

record sb_entry =
  sb_valid :: bool
  sb_ready :: bool
  sb_rd :: u8
  sb_result :: u64
  sb_fu :: FunctionalUnit
  sb_pc :: u64
  sb_is_store :: bool
  sb_is_branch :: bool
  sb_exception :: bool
  sb_exception_cause :: u64
  sb_trans_id :: int
  sb_writes_to_fp_reg :: bool

definition sb_entry_default :: sb_entry where
  "sb_entry_default = \<lparr>sb_valid = False, sb_ready = False, sb_rd = 0, sb_result = 0,
     sb_fu = FU_NONE, sb_pc = 0, sb_is_store = False, sb_is_branch = False,
     sb_exception = False, sb_exception_cause = 0, sb_trans_id = -1,
     sb_writes_to_fp_reg = False\<rparr>"

record ClobberInfo =
  cl_busy :: bool
  cl_fu :: FunctionalUnit
  cl_trans_id :: int

definition ClobberInfo_default :: ClobberInfo where
  "ClobberInfo_default = \<lparr>cl_busy = False, cl_fu = FU_NONE, cl_trans_id = -1\<rparr>"

record Scoreboard =
  sb_entries :: "sb_entry list"
  sb_head :: nat
  sb_tail :: nat
  sb_count :: nat
  sb_rd_clobber :: "ClobberInfo list"
  sb_fp_clobber :: "ClobberInfo list"

definition sb_size :: "Scoreboard \<Rightarrow> nat" where
  "sb_size s = length (sb_entries s)"

definition sb_init :: "nat \<Rightarrow> Scoreboard" where
  "sb_init n = \<lparr>sb_entries = replicate n sb_entry_default, sb_head = 0, sb_tail = 0, sb_count = 0,
     sb_rd_clobber = replicate 32 ClobberInfo_default,
     sb_fp_clobber = replicate 32 ClobberInfo_default\<rparr>"

definition sb_is_full :: "Scoreboard \<Rightarrow> bool" where
  "sb_is_full s \<longleftrightarrow> sb_count s = sb_size s"

definition sb_is_empty :: "Scoreboard \<Rightarrow> bool" where
  "sb_is_empty s \<longleftrightarrow> sb_count s = 0"

definition sb_allocate :: "Scoreboard \<Rightarrow> int \<times> Scoreboard" where
  "sb_allocate s =
     (if sb_is_full s then (-1, s)
      else (int (sb_tail s),
        s\<lparr>sb_entries := (sb_entries s)[sb_tail s :=
             sb_entry_default\<lparr>sb_valid := True, sb_trans_id := int (sb_tail s)\<rparr>],
          sb_tail := (sb_tail s + 1) mod sb_size s,
          sb_count := sb_count s + 1\<rparr>))"

definition sb_complete :: "int \<Rightarrow> u64 \<Rightarrow> u8 \<Rightarrow> Scoreboard \<Rightarrow> Scoreboard" where
  "sb_complete idx result rd s =
     (if idx < 0 \<or> nat idx \<ge> sb_size s then s
      else s\<lparr>sb_entries := (sb_entries s)[nat idx := (sb_entries s ! nat idx)
             \<lparr>sb_ready := True, sb_result := result, sb_rd := rd\<rparr>]\<rparr>)"

definition sb_get_entry :: "Scoreboard \<Rightarrow> int \<Rightarrow> sb_entry" where
  "sb_get_entry s idx = sb_entries s ! nat idx"

definition sb_get_head :: "Scoreboard \<Rightarrow> sb_entry" where
  "sb_get_head s = sb_entries s ! sb_head s"

definition sb_get_head_index :: "Scoreboard \<Rightarrow> int" where
  "sb_get_head_index s = int (sb_head s)"

definition sb_head_ready :: "Scoreboard \<Rightarrow> bool" where
  "sb_head_ready s \<longleftrightarrow> sb_count s > 0 \<and> sb_valid (sb_get_head s) \<and> sb_ready (sb_get_head s)"

definition sb_retire :: "Scoreboard \<Rightarrow> Scoreboard" where
  "sb_retire s =
     (if sb_is_empty s then s
      else s\<lparr>sb_entries := (sb_entries s)[sb_head s := (sb_entries s ! sb_head s)\<lparr>sb_valid := False\<rparr>],
          sb_head := (sb_head s + 1) mod sb_size s,
          sb_count := sb_count s - 1\<rparr>)"

definition clobber_release :: "ClobberInfo \<Rightarrow> ClobberInfo" where
  "clobber_release c = c\<lparr>cl_busy := False, cl_trans_id := -1\<rparr>"

definition sb_flush :: "Scoreboard \<Rightarrow> Scoreboard" where
  "sb_flush s =
     \<lparr>sb_entries = map (\<lambda>e. e\<lparr>sb_valid := False, sb_ready := False\<rparr>) (sb_entries s),
      sb_head = 0, sb_tail = 0, sb_count = 0,
      sb_rd_clobber = map clobber_release (sb_rd_clobber s),
      sb_fp_clobber = map clobber_release (sb_fp_clobber s)\<rparr>"

definition clobber_release_at :: "nat \<Rightarrow> int \<Rightarrow> ClobberInfo list \<Rightarrow> ClobberInfo list" where
  "clobber_release_at rd tid cs =
     (if cl_busy (cs ! rd) \<and> cl_trans_id (cs ! rd) = tid
      then cs[rd := clobber_release (cs ! rd)] else cs)"

definition sb_flush_slot :: "nat \<Rightarrow> Scoreboard \<Rightarrow> Scoreboard" where
  "sb_flush_slot cur s =
     (if sb_valid (sb_entries s ! cur)
      then let rd = unat (sb_rd (sb_entries s ! cur)) in
        s\<lparr>sb_rd_clobber := clobber_release_at rd (int cur) (sb_rd_clobber s),
          sb_fp_clobber := clobber_release_at rd (int cur) (sb_fp_clobber s),
          sb_entries := (sb_entries s)[cur := (sb_entries s ! cur)
             \<lparr>sb_valid := False, sb_ready := False\<rparr>],
          sb_count := sb_count s - 1\<rparr>
      else s)"

fun sb_flush_loop :: "nat \<Rightarrow> nat \<Rightarrow> nat \<Rightarrow> Scoreboard \<Rightarrow> Scoreboard option" where
  "sb_flush_loop fuel cur end_tail s =
     (if cur = end_tail then Some s
      else case fuel of
        0 \<Rightarrow> None
      | Suc f \<Rightarrow> sb_flush_loop f ((cur + 1) mod sb_size s) end_tail (sb_flush_slot cur s))"

definition sb_flush_speculative :: "int \<Rightarrow> Scoreboard \<Rightarrow> Scoreboard option" where
  "sb_flush_speculative branch_rob_idx s =
     (if branch_rob_idx < 0 \<or> nat branch_rob_idx \<ge> sb_size s then Some s
      else map_option (\<lambda>s'. s'\<lparr>sb_tail := (nat branch_rob_idx + 1) mod sb_size s\<rparr>)
        (sb_flush_loop (sb_size s) ((nat branch_rob_idx + 1) mod sb_size s) (sb_tail s) s))"

declare sb_flush_loop.simps [simp del]

section \<open>Invariant and abstraction\<close>

definition sb_slots :: "Scoreboard \<Rightarrow> nat list" where
  "sb_slots s = ring_idx (sb_size s) (sb_head s) (sb_count s)"

definition sb_wf :: "Scoreboard \<Rightarrow> bool" where
  "sb_wf s \<longleftrightarrow> ring_wf (sb_size s) (sb_head s) (sb_tail s) (sb_count s) \<and>
     (\<forall>i < sb_size s. sb_valid (sb_entries s ! i) \<longleftrightarrow> i \<in> set (sb_slots s))"

definition sb_inflight :: "Scoreboard \<Rightarrow> sb_entry list" where
  "sb_inflight s = map (\<lambda>i. sb_entries s ! i) (sb_slots s)"

lemmas sb_op_defs = sb_is_full_def sb_is_empty_def sb_allocate_def sb_complete_def
  sb_get_head_def sb_head_ready_def sb_retire_def sb_flush_def sb_size_def

lemma sb_wf_ring: "sb_wf s \<Longrightarrow> ring_wf (length (sb_entries s)) (sb_head s) (sb_tail s) (sb_count s)"
  by (simp add: sb_wf_def sb_size_def)

lemma sb_valid_iff:
  "sb_wf s \<Longrightarrow> i < length (sb_entries s) \<Longrightarrow>
     sb_valid (sb_entries s ! i) \<longleftrightarrow> i \<in> set (ring_idx (length (sb_entries s)) (sb_head s) (sb_count s))"
  by (simp add: sb_wf_def sb_size_def sb_slots_def)

lemma sb_init_wf: "0 < n \<Longrightarrow> sb_wf (sb_init n)"
  by (simp add: sb_wf_def sb_init_def sb_size_def sb_slots_def sb_entry_default_def ring_simps)

lemma sb_size_ops [simp]:
  "sb_size (snd (sb_allocate s)) = sb_size s"
  "sb_size (sb_retire s) = sb_size s"
  "sb_size (sb_complete i v d s) = sb_size s"
  "sb_size (sb_flush s) = sb_size s"
  by (simp_all add: sb_op_defs)

lemma sb_allocate_slots:
  "sb_wf s \<Longrightarrow> \<not> sb_is_full s \<Longrightarrow> sb_slots (snd (sb_allocate s)) = sb_slots s @ [sb_tail s]"
  by (simp add: sb_op_defs sb_slots_def sb_wf_def ring_idx_push ring_wf_def)

lemma sb_tail_dead: "sb_wf s \<Longrightarrow> \<not> sb_is_full s \<Longrightarrow> sb_tail s \<notin> set (sb_slots s)"
  using sb_wf_ring[of s] tail_not_live[of "length (sb_entries s)" "sb_head s" "sb_tail s" "sb_count s"]
  by (auto simp: sb_slots_def sb_is_full_def sb_size_def ring_wf_def)

lemma sb_allocate_wf:
  assumes wf: "sb_wf s" shows "sb_wf (snd (sb_allocate s))"
proof (cases "sb_is_full s")
  case True
  then show ?thesis using wf by (simp add: sb_allocate_def)
next
  case False
  note rw = sb_wf_ring[OF wf]
  have c: "sb_count s < length (sb_entries s)"
    using False ring_wfD[OF rw] by (simp add: sb_op_defs)
  have "sb_valid (sb_entries (snd (sb_allocate s)) ! i) = (i \<in> set (sb_slots (snd (sb_allocate s))))"
    if i: "i < length (sb_entries s)" for i
    using False i sb_valid_iff[OF wf i] ring_wfD[OF rw] sb_allocate_slots[OF wf False]
    by (auto simp: sb_op_defs sb_slots_def nth_update_if)
  then show ?thesis
    using False ring_wf_push[OF rw c] by (simp add: sb_wf_def sb_op_defs)
qed

lemma sb_complete_wf: "sb_wf s \<Longrightarrow> sb_wf (sb_complete i v d s)"
  by (auto simp: sb_wf_def sb_complete_def sb_size_def sb_slots_def nth_update_if)

lemma sb_complete_slots: "sb_slots (sb_complete i v d s) = sb_slots s"
  by (simp add: sb_complete_def sb_size_def sb_slots_def)

lemma sb_retire_slots: "sb_wf s \<Longrightarrow> sb_slots (sb_retire s) = tl (sb_slots s)"
  by (simp add: sb_op_defs sb_slots_def sb_wf_def ring_wf_def ring_idx_pop)

lemma sb_retire_wf:
  assumes wf: "sb_wf s" shows "sb_wf (sb_retire s)"
proof (cases "sb_is_empty s")
  case True
  then show ?thesis using wf by (simp add: sb_retire_def)
next
  case False
  note rw = sb_wf_ring[OF wf]
  have c: "0 < sb_count s" using False by (simp add: sb_op_defs)
  have "sb_valid (sb_entries (sb_retire s) ! i) = (i \<in> set (sb_slots (sb_retire s)))"
    if i: "i < length (sb_entries s)" for i
    using False c i sb_valid_iff[OF wf i] head_not_in_popped[OF rw c] ring_wfD[OF rw]
    by (auto simp: sb_op_defs sb_slots_def nth_update_if ring_idx_pop)
  then show ?thesis
    using False ring_wf_pop[OF rw c] by (simp add: sb_wf_def sb_op_defs)
qed

lemma sb_flush_wf: "0 < sb_size s \<Longrightarrow> sb_wf (sb_flush s) \<and> sb_slots (sb_flush s) = []"
  by (simp add: sb_wf_def sb_op_defs sb_slots_def ring_simps)

section \<open>The squash loop\<close>

lemma sb_flush_slot_frame [simp]:
  "sb_size (sb_flush_slot c s) = sb_size s" "sb_head (sb_flush_slot c s) = sb_head s"
  "sb_tail (sb_flush_slot c s) = sb_tail s"
  by (simp_all add: sb_flush_slot_def sb_size_def Let_def)

lemma sb_flush_fold_frame [simp]:
  "sb_size (fold sb_flush_slot xs s) = sb_size s"
  "sb_head (fold sb_flush_slot xs s) = sb_head s"
  "sb_tail (fold sb_flush_slot xs s) = sb_tail s"
  by (induction xs arbitrary: s) simp_all

lemma sb_flush_loop_fold:
  assumes "ring_wf n h t c" "j \<le> c" "0 < j" "c - j \<le> fuel" "sb_size s = n"
  shows "sb_flush_loop fuel ((h + j) mod n) t s = Some (fold sb_flush_slot (drop j (ring_idx n h c)) s)"
  using assms
proof (induction fuel arbitrary: j s)
  case 0
  then have "j = c" by simp
  then show ?case using 0 by (simp add: sb_flush_loop.simps ring_wf_def)
next
  case (Suc fuel)
  show ?case
  proof (cases "j = c")
    case True
    then show ?thesis using Suc.prems by (simp add: sb_flush_loop.simps ring_wf_def)
  next
    case False
    then have jc: "j < c" using Suc.prems by simp
    have "(h + j) mod n \<noteq> t"
    proof
      assume "(h + j) mod n = t"
      then have "(h + j) mod n = (h + c) mod n" using Suc.prems(1) by (simp add: ring_wf_def)
      moreover have "(h + c) mod n = ((h + j) + (c - j)) mod n" using jc by simp
      ultimately have "((h + j) + (c - j)) mod n = ((h + j) + 0) mod n" by simp
      moreover have "c - j < n" using jc Suc.prems by (auto simp: ring_wf_def)
      ultimately show False
        using ring_idx_inj[of "h + j" "c - j" n 0] jc Suc.prems by (simp add: ring_wf_def)
    qed
    moreover have "((h + j) mod n + 1) mod n = (h + Suc j) mod n" by (simp add: mod_simps)
    moreover have "drop j (ring_idx n h c) = (h + j) mod n # drop (Suc j) (ring_idx n h c)"
      using jc by (simp add: Cons_nth_drop_Suc[symmetric])
    moreover have "sb_flush_loop fuel ((h + Suc j) mod n) t (sb_flush_slot ((h + j) mod n) s) =
      Some (fold sb_flush_slot (drop (Suc j) (ring_idx n h c)) (sb_flush_slot ((h + j) mod n) s))"
      using Suc.IH[of "Suc j" "sb_flush_slot ((h + j) mod n) s"] Suc.prems jc by simp
    ultimately show ?thesis using Suc.prems(5) by (subst sb_flush_loop.simps) simp
  qed
qed

lemma sb_flush_fold_entries:
  "set xs \<subseteq> {..<sb_size s} \<Longrightarrow> distinct xs \<Longrightarrow> (\<forall>i\<in>set xs. sb_valid (sb_entries s ! i)) \<Longrightarrow>
     sb_count (fold sb_flush_slot xs s) = sb_count s - length xs \<and>
     (\<forall>i. sb_entries (fold sb_flush_slot xs s) ! i =
        (if i \<in> set xs then (sb_entries s ! i)\<lparr>sb_valid := False, sb_ready := False\<rparr>
         else sb_entries s ! i))"
proof (induction xs arbitrary: s)
  case Nil
  then show ?case by simp
next
  case (Cons x xs)
  have x: "sb_valid (sb_entries s ! x)" "x < sb_size s" using Cons.prems by auto
  have e: "sb_entries (sb_flush_slot x s) ! i =
      (if i = x then (sb_entries s ! x)\<lparr>sb_valid := False, sb_ready := False\<rparr> else sb_entries s ! i)" for i
    using x by (simp add: sb_flush_slot_def Let_def nth_update_if sb_size_def)
  have c: "sb_count (sb_flush_slot x s) = sb_count s - 1" using x by (simp add: sb_flush_slot_def Let_def)
  have "\<forall>i\<in>set xs. sb_valid (sb_entries (sb_flush_slot x s) ! i)" using Cons.prems e by auto
  then show ?case using Cons.IH[of "sb_flush_slot x s"] Cons.prems by (auto simp: e c)
qed

lemma sb_flush_speculative_live:
  assumes wf: "sb_wf s" and k: "k < sb_count s" and b: "b = (sb_head s + k) mod sb_size s"
  obtains s' where "sb_flush_speculative (int b) s = Some s'"
    and "sb_wf s'" "sb_size s' = sb_size s" "sb_slots s' = take (Suc k) (sb_slots s)"
    and "sb_inflight s' = take (Suc k) (sb_inflight s)"
proof -
  let ?n = "sb_size s" and ?h = "sb_head s" and ?c = "sb_count s"
  let ?dead = "drop (Suc k) (ring_idx ?n ?h ?c)"
  define u where "u = fold sb_flush_slot ?dead s"
  define s' where "s' = u\<lparr>sb_tail := (b + 1) mod ?n\<rparr>"
  have rw: "ring_wf ?n ?h (sb_tail s) ?c" using wf by (simp add: sb_wf_def)
  then have n: "0 < ?n" "b < ?n" using ring_wfD[OF rw] b by auto
  have b1: "(b + 1) mod ?n = (?h + Suc k) mod ?n" by (simp add: b mod_simps)
  have "sb_flush_loop ?n ((?h + Suc k) mod ?n) (sb_tail s) s = Some u"
    unfolding u_def using k ring_wfD[OF rw] by (intro sb_flush_loop_fold[OF rw]) auto
  then have run: "sb_flush_speculative (int b) s = Some s'"
    using n b1 by (simp add: sb_flush_speculative_def s'_def)
  have sub: "set ?dead \<subseteq> set (ring_idx ?n ?h ?c)" by (rule set_drop_subset)
  have lt: "set ?dead \<subseteq> {..<?n}" using sub ring_idx_less[OF n(1)] by blast
  have val: "\<forall>i\<in>set ?dead. sb_valid (sb_entries s ! i)"
    using sub lt wf by (auto simp: sb_wf_def sb_slots_def)
  have dis: "distinct (ring_idx ?n ?h ?c)" using rw by (simp add: distinct_ring_idx ring_wf_def)
  note ent = sb_flush_fold_entries[OF lt distinct_drop[OF dis] val, folded u_def]
  have cnt: "sb_count s' = Suc k" using ent k by (simp add: s'_def)
  have "sb_size s' = sb_size u" by (simp add: s'_def sb_size_def)
  then have fr: "sb_size s' = ?n" "sb_head s' = ?h" by (simp_all add: s'_def u_def)
  have idx: "ring_idx ?n ?h (Suc k) = take (Suc k) (ring_idx ?n ?h ?c)"
    using k by (intro nth_equalityI) auto
  have dj: "set (take (Suc k) (ring_idx ?n ?h ?c)) \<inter> set ?dead = {}"
    using dis by (rule set_take_disj_set_drop_if_distinct) simp
  have all: "set (ring_idx ?n ?h ?c) = set (take (Suc k) (ring_idx ?n ?h ?c)) \<union> set ?dead"
    by (metis append_take_drop_id set_append)
  have slots: "sb_slots s' = take (Suc k) (sb_slots s)"
    using fr cnt idx by (simp add: sb_slots_def)
  have "sb_wf s'"
    unfolding sb_wf_def
  proof (intro conjI allI impI)
    show "ring_wf (sb_size s') (sb_head s') (sb_tail s') (sb_count s')"
      using rw k b1 fr cnt by (simp add: ring_wf_def s'_def)
    fix i assume "i < sb_size s'"
    then show "sb_valid (sb_entries s' ! i) = (i \<in> set (sb_slots s'))"
      using ent wf dj all fr slots by (auto simp: s'_def sb_wf_def sb_slots_def)
  qed
  moreover have "sb_inflight s' = take (Suc k) (sb_inflight s)"
    using ent dj slots by (auto simp: sb_inflight_def take_map sb_slots_def s'_def)
  ultimately show ?thesis using that[OF run _ fr(1) slots] by blast
qed

section \<open>The scoreboard is a bounded FIFO of slots\<close>

definition sb_enq :: "unit \<Rightarrow> Scoreboard \<Rightarrow> (nat \<times> Scoreboard) option" where
  "sb_enq u s = (let (i, s') = sb_allocate s in if i < 0 then None else Some (nat i, s'))"

definition sb_deq :: "Scoreboard \<Rightarrow> (nat \<times> Scoreboard) option" where
  "sb_deq s = (if sb_is_empty s then None else Some (nat (sb_get_head_index s), sb_retire s))"

definition sb_upd :: "int \<times> u64 \<times> u8 \<Rightarrow> Scoreboard \<Rightarrow> Scoreboard" where
  "sb_upd p s = (case p of (i, v, d) \<Rightarrow> sb_complete i v d s)"

lemma sb_slots_empty: "sb_slots s = [] \<longleftrightarrow> sb_count s = 0"
  by (metis length_0_conv length_ring_idx sb_slots_def)

lemma sb_slots_hd: "sb_wf s \<Longrightarrow> sb_slots s = e # es \<Longrightarrow> e = sb_head s"
  using sb_slots_empty[of s] by (auto simp: sb_slots_def sb_wf_def ring_idx_pop ring_wf_def)

lemma sb_slots_Cons: "sb_wf s \<Longrightarrow> \<not> sb_is_empty s \<Longrightarrow> sb_slots s = sb_head s # tl (sb_slots s)"
  by (simp add: sb_slots_def sb_wf_def sb_is_empty_def ring_idx_pop ring_wf_def)

interpretation sbq: bounded_fifo sb_slots sb_wf sb_size sb_is_full sb_is_empty sb_enq sb_deq sb_upd
proof
  fix s :: Scoreboard and i :: unit and u :: "int \<times> u64 \<times> u8"
  assume wf: "sb_wf s"
  show "length (sb_slots s) \<le> sb_size s"
    using sb_wf_ring[OF wf] by (simp add: sb_slots_def sb_size_def ring_wf_def)
  show "sb_enq i s = None" if "sb_is_full s"
    using that by (simp add: sb_enq_def sb_allocate_def)
  show "\<exists>e s'. sb_enq i s = Some (e, s') \<and> sb_wf s' \<and> sb_size s' = sb_size s \<and>
          sb_slots s' = sb_slots s @ [e]" if nf: "\<not> sb_is_full s"
  proof -
    have "sb_enq i s = Some (sb_tail s, snd (sb_allocate s))"
      using nf by (simp add: sb_enq_def sb_allocate_def)
    then show ?thesis using sb_allocate_wf[OF wf] sb_allocate_slots[OF wf nf] by simp
  qed
  show "sb_deq s = None" if "sb_is_empty s"
    using that by (simp add: sb_deq_def)
  show "\<exists>e s'. sb_deq s = Some (e, s') \<and> sb_wf s' \<and> sb_size s' = sb_size s \<and>
          sb_slots s = e # sb_slots s'" if "\<not> sb_is_empty s"
    using that sb_slots_Cons[OF wf that] sb_retire_wf[OF wf] sb_retire_slots[OF wf]
    by (simp add: sb_deq_def sb_get_head_index_def)
  show "sb_wf (sb_upd u s) \<and> sb_size (sb_upd u s) = sb_size s \<and> sb_slots (sb_upd u s) = sb_slots s"
    using sb_complete_wf[OF wf] by (auto simp: sb_upd_def sb_complete_slots split: prod.splits)
qed

section \<open>Refinement of the in-flight list\<close>

lemma sb_slots_less: "sb_wf s \<Longrightarrow> i \<in> set (sb_slots s) \<Longrightarrow> i < sb_size s"
  unfolding sb_slots_def using ring_idx_less[of "sb_size s" i] by (auto simp: sb_wf_def ring_wf_def)

lemma sb_inflight_allocate:
  assumes wf: "sb_wf s" and nf: "\<not> sb_is_full s"
  shows "sb_inflight (snd (sb_allocate s)) =
     sb_inflight s @ [sb_entry_default\<lparr>sb_valid := True, sb_trans_id := int (sb_tail s)\<rparr>]"
proof -
  have t: "sb_tail s < length (sb_entries s)" using ring_wfD[OF sb_wf_ring[OF wf]] by simp
  have "sb_entries (snd (sb_allocate s)) =
    (sb_entries s)[sb_tail s := sb_entry_default\<lparr>sb_valid := True, sb_trans_id := int (sb_tail s)\<rparr>]"
    using nf by (simp add: sb_allocate_def)
  then show ?thesis
    using sb_tail_dead[OF wf nf] t sb_allocate_slots[OF wf nf]
    by (auto simp: sb_inflight_def nth_update_if)
qed

lemma sb_inflight_complete:
  assumes "sb_wf s" "k < sb_count s"
  shows "sb_inflight (sb_complete (int (sb_slots s ! k)) v d s) =
     (sb_inflight s)[k := (sb_inflight s ! k)\<lparr>sb_ready := True, sb_result := v, sb_rd := d\<rparr>]"
proof (rule nth_equalityI)
  show "length (sb_inflight (sb_complete (int (sb_slots s ! k)) v d s)) =
    length ((sb_inflight s)[k := (sb_inflight s ! k)\<lparr>sb_ready := True, sb_result := v, sb_rd := d\<rparr>])"
    by (simp add: sb_inflight_def sb_complete_slots)
  fix j assume "j < length (sb_inflight (sb_complete (int (sb_slots s ! k)) v d s))"
  then have j: "j < sb_count s" by (simp add: sb_inflight_def sb_complete_slots) (simp add: sb_slots_def)
  have l: "length (sb_slots s) = sb_count s" by (simp add: sb_slots_def)
  have "distinct (sb_slots s)"
    using assms(1) by (simp add: sb_slots_def sb_wf_def ring_wf_def distinct_ring_idx)
  then have eq: "sb_slots s ! j = sb_slots s ! k \<longleftrightarrow> j = k"
    using j assms(2) l by (simp add: nth_eq_iff_index_eq)
  have "sb_slots s ! k < sb_size s" using sb_slots_less[OF assms(1)] assms(2) l by simp
  then show "sb_inflight (sb_complete (int (sb_slots s ! k)) v d s) ! j =
    (sb_inflight s)[k := (sb_inflight s ! k)\<lparr>sb_ready := True, sb_result := v, sb_rd := d\<rparr>] ! j"
    using j l eq assms(2)
    by (auto simp: sb_inflight_def sb_complete_slots nth_update_if) (auto simp: sb_complete_def nth_update_if sb_size_def)
qed

lemma sb_inflight_retire:
  assumes wf: "sb_wf s" shows "sb_inflight (sb_retire s) = tl (sb_inflight s)"
proof (cases "sb_count s = 0")
  case True
  then show ?thesis
    by (simp add: sb_inflight_def sb_retire_def sb_is_empty_def sb_slots_def)
next
  case False
  then have "sb_head s \<notin> set (tl (sb_slots s))"
    using sb_wf_ring[OF wf] head_not_in_popped[of "length (sb_entries s)" "sb_head s" "sb_tail s" "sb_count s"]
    by (simp add: sb_slots_def sb_size_def ring_idx_pop ring_wf_def)
  then show ?thesis
    using False sb_retire_slots[OF wf]
    by (auto simp: sb_inflight_def map_tl sb_retire_def sb_is_empty_def nth_update_if
        simp flip: map_tl)
qed

lemma sb_head_ready_iff:
  assumes wf: "sb_wf s"
  shows "sb_head_ready s \<longleftrightarrow> sb_inflight s \<noteq> [] \<and> sb_ready (hd (sb_inflight s))"
proof (cases "sb_count s = 0")
  case True
  then show ?thesis by (simp add: sb_head_ready_def sb_inflight_def sb_slots_def)
next
  case False
  then have "sb_slots s = sb_head s # tl (sb_slots s)"
    using sb_slots_hd[OF wf] sb_slots_empty[of s] by (cases "sb_slots s") auto
  moreover have "sb_valid (sb_entries s ! sb_head s)"
    using wf calculation by (metis list.set_intros(1) sb_slots_less sb_wf_def)
  ultimately show ?thesis
    using False by (cases "sb_slots s") (auto simp: sb_head_ready_def sb_get_head_def sb_inflight_def)
qed

section \<open>Properties\<close>


definition sb_demo :: Scoreboard where
  "sb_demo = snd (sb_allocate (snd (sb_allocate (snd (sb_allocate (sb_init 4))))))"

lemma sb_demo_wf: "sb_wf sb_demo \<and> sb_count sb_demo = 3 \<and> sb_slots sb_demo = [0, 1, 2]"
proof -
  have "sb_wf sb_demo" unfolding sb_demo_def by (intro sb_allocate_wf sb_init_wf) simp
  then show ?thesis
    by (simp add: sb_demo_def sb_init_def sb_allocate_def sb_is_full_def sb_size_def sb_slots_def
        ring_idx_def upt_rec)
qed


text \<open>C28: A squash by flush_speculative at an in-flight branch terminates within SIZE
  iterations and keeps exactly the in-flight instructions up to and including the
  branch, unchanged and in order; the ring invariant is kept.\<close>
theorem flush_speculative_keeps_older:
  assumes "sb_wf s" "k < sb_count s"
  shows "\<exists>s'. sb_flush_speculative (int (sb_slots s ! k)) s = Some s' \<and> sb_wf s' \<and>
     sb_inflight s' = take (Suc k) (sb_inflight s)"
proof -
  have "sb_slots s ! k = (sb_head s + k) mod sb_size s" using assms by (simp add: sb_slots_def)
  then show ?thesis using sb_flush_speculative_live[OF assms] by metis
qed

theorem flush_speculative_keeps_older_witness:
  "sb_wf sb_demo \<and> 0 < sb_count sb_demo \<and>
   (\<exists>s'. sb_flush_speculative (int (sb_slots sb_demo ! 0)) sb_demo = Some s' \<and> sb_wf s' \<and>
      sb_inflight s' = take 1 (sb_inflight sb_demo))"
  using flush_speculative_keeps_older[of sb_demo 0] sb_demo_wf by simp

text \<open>From an empty scoreboard of any positive size, whatever sequence of allocate,
  complete and retire calls is made, entries leave in exactly the order in which they
  were allocated: the retired slots followed by the slots still in flight are the
  allocated slots, and never more than SIZE are in flight.\<close>
theorem scoreboard_in_order_retire:
  "case fifo_run sb_enq sb_deq sb_upd ops (sb_init (Suc n)) of (allocated, retired, s) \<Rightarrow>
     sb_wf s \<and> retired @ sb_slots s = allocated \<and> length (sb_slots s) \<le> Suc n"
proof -
  obtain a r s where run: "fifo_run sb_enq sb_deq sb_upd ops (sb_init (Suc n)) = (a, r, s)"
    by (metis prod_cases3)
  have i: "sb_wf (sb_init (Suc n))" "sb_slots (sb_init (Suc n)) = []" "sb_size (sb_init (Suc n)) = Suc n"
    using sb_init_wf[of "Suc n"] by (simp_all add: sb_slots_def sb_init_def sb_size_def)
  show ?thesis using sbq.run_order[OF i(1) run] sbq.run_bounded[OF i(1) run] i by (simp add: run)
qed

end
