(* ===== verification/StoreBuffer.thy ===== *)
theory StoreBuffer
  imports Scoreboard
begin

unbundle bit_operations_syntax

text \<open>
  The split store buffer (src/inc/StoreBuffer.h): a speculative queue filled when
  a store's address is computed and a committed queue drained to memory, both
  circular.  The depths are the lengths of the entry lists; byte counts, which the
  code keeps in an \<^verbatim>\<open>int\<close> that is always 1, 2, 4 or 8, are naturals.
  \<^verbatim>\<open>stb_pending\<close> lists the buffered stores from oldest to youngest.  The main
  result is that store-to-load forwarding agrees with draining every buffered
  store first and reading memory afterwards.
\<close>

section \<open>State and operations\<close>

record StoreBufferEntry =
  st_valid :: bool
  st_address :: u64
  st_data :: u64
  st_size :: nat
  st_trans_id :: int

definition StoreBufferEntry_default :: StoreBufferEntry where
  "StoreBufferEntry_default =
     \<lparr>st_valid = False, st_address = 0, st_data = 0, st_size = 0, st_trans_id = -1\<rparr>"

record StoreBuffer =
  stb_spec :: "StoreBufferEntry list"
  stb_spec_head :: nat
  stb_spec_tail :: nat
  stb_spec_count :: nat
  stb_committed :: "StoreBufferEntry list"
  stb_commit_head :: nat
  stb_commit_tail :: nat
  stb_commit_count :: nat

definition SPEC_DEPTH :: "StoreBuffer \<Rightarrow> nat" where
  "SPEC_DEPTH b = length (stb_spec b)"

definition COMMIT_DEPTH :: "StoreBuffer \<Rightarrow> nat" where
  "COMMIT_DEPTH b = length (stb_committed b)"

definition stb_init :: "nat \<Rightarrow> nat \<Rightarrow> StoreBuffer" where
  "stb_init n m = \<lparr>stb_spec = replicate n StoreBufferEntry_default,
     stb_spec_head = 0, stb_spec_tail = 0, stb_spec_count = 0,
     stb_committed = replicate m StoreBufferEntry_default,
     stb_commit_head = 0, stb_commit_tail = 0, stb_commit_count = 0\<rparr>"

definition add_store :: "u64 \<Rightarrow> u64 \<Rightarrow> nat \<Rightarrow> int \<Rightarrow> StoreBuffer \<Rightarrow> int \<times> StoreBuffer" where
  "add_store address data sz trans_id b =
     (if stb_spec_count b = SPEC_DEPTH b then (-1, b)
      else (int (stb_spec_tail b),
        b\<lparr>stb_spec := (stb_spec b)[stb_spec_tail b :=
             \<lparr>st_valid = True, st_address = address, st_data = data, st_size = sz,
              st_trans_id = trans_id\<rparr>],
          stb_spec_tail := (stb_spec_tail b + 1) mod SPEC_DEPTH b,
          stb_spec_count := stb_spec_count b + 1\<rparr>))"

definition commit_store :: "int \<Rightarrow> StoreBuffer \<Rightarrow> bool \<times> StoreBuffer" where
  "commit_store trans_id b =
     (if stb_spec_count b = 0 then (False, b)
      else if stb_commit_count b = COMMIT_DEPTH b then (False, b)
      else (True,
        b\<lparr>stb_committed := (stb_committed b)[stb_commit_tail b :=
             (stb_spec b ! stb_spec_head b)\<lparr>st_valid := True\<rparr>],
          stb_commit_tail := (stb_commit_tail b + 1) mod COMMIT_DEPTH b,
          stb_commit_count := stb_commit_count b + 1,
          stb_spec := (stb_spec b)[stb_spec_head b :=
             (stb_spec b ! stb_spec_head b)\<lparr>st_valid := False\<rparr>],
          stb_spec_head := (stb_spec_head b + 1) mod SPEC_DEPTH b,
          stb_spec_count := stb_spec_count b - 1\<rparr>))"

definition stb_pop_committed :: "StoreBuffer \<Rightarrow> StoreBuffer" where
  "stb_pop_committed b =
     b\<lparr>stb_committed := (stb_committed b)[stb_commit_head b :=
          (stb_committed b ! stb_commit_head b)\<lparr>st_valid := False\<rparr>],
       stb_commit_head := (stb_commit_head b + 1) mod COMMIT_DEPTH b,
       stb_commit_count := stb_commit_count b - 1\<rparr>"

function drain_one :: "StoreBuffer \<Rightarrow> (u64 \<times> u64 \<times> nat) option \<times> StoreBuffer" where
  "drain_one b =
     (if stb_commit_count b = 0 then (None, b)
      else let e = stb_committed b ! stb_commit_head b in
        if st_valid e
        then (Some (st_address e, st_data e, st_size e), stb_pop_committed b)
        else drain_one (stb_pop_committed b))"
  by pat_completeness auto
termination
  by (relation "measure stb_commit_count") (auto simp: stb_pop_committed_def)

declare drain_one.simps [simp del]

datatype FwdResult = FWD_HIT u64 | FWD_PARTIAL_OVERLAP | FWD_MISS

definition fwd_entry :: "u64 \<Rightarrow> nat \<Rightarrow> StoreBufferEntry \<Rightarrow> FwdResult option" where
  "fwd_entry load_addr load_size e =
     (if st_valid e then
        let store_addr = st_address e; store_size = st_size e;
            overlap_start = max load_addr store_addr;
            overlap_end = min (load_addr + of_nat load_size) (store_addr + of_nat store_size)
        in if overlap_start < overlap_end then
             if load_addr \<ge> store_addr \<and>
                load_addr + of_nat load_size \<le> store_addr + of_nat store_size
             then let offset = unat (load_addr - store_addr);
                      shifted = drop_bit (offset * 8) (st_data e);
                      msk = (if load_size = 8 then NOT 0 else push_bit (load_size * 8) 1 - 1)
                  in Some (FWD_HIT (shifted AND msk))
             else Some FWD_PARTIAL_OVERLAP
           else None
      else None)"

fun fwd_loop :: "u64 \<Rightarrow> nat \<Rightarrow> StoreBufferEntry list \<Rightarrow> nat \<Rightarrow> nat \<Rightarrow> nat \<Rightarrow> FwdResult option" where
  "fwd_loop load_addr load_size es t k remaining =
     (case remaining of
        0 \<Rightarrow> None
      | Suc r \<Rightarrow>
          (case fwd_entry load_addr load_size (es ! ((t + length es - 1 - k) mod length es)) of
             Some res \<Rightarrow> Some res
           | None \<Rightarrow> fwd_loop load_addr load_size es t (k + 1) r))"

definition forward_load :: "u64 \<Rightarrow> nat \<Rightarrow> StoreBuffer \<Rightarrow> FwdResult" where
  "forward_load load_addr load_size b =
     (case fwd_loop load_addr load_size (stb_spec b) (stb_spec_tail b) 0 (stb_spec_count b) of
        Some res \<Rightarrow> res
      | None \<Rightarrow>
         (case fwd_loop load_addr load_size (stb_committed b) (stb_commit_tail b) 0 (stb_commit_count b) of
            Some res \<Rightarrow> res
          | None \<Rightarrow> FWD_MISS))"

declare fwd_loop.simps [simp del]

definition invalidate_entry :: "u64 \<Rightarrow> nat \<Rightarrow> StoreBufferEntry \<Rightarrow> StoreBufferEntry" where
  "invalidate_entry addr sz e =
     (if st_valid e \<and> addr < st_address e + of_nat (st_size e) \<and>
         addr + of_nat sz > st_address e
      then e\<lparr>st_valid := False\<rparr> else e)"

definition invalidate_address :: "u64 \<Rightarrow> nat \<Rightarrow> StoreBuffer \<Rightarrow> StoreBuffer" where
  "invalidate_address addr sz b =
     b\<lparr>stb_spec := map (invalidate_entry addr sz) (stb_spec b),
       stb_committed := map (invalidate_entry addr sz) (stb_committed b)\<rparr>"

definition spec_is_full :: "StoreBuffer \<Rightarrow> bool" where
  "spec_is_full b \<longleftrightarrow> stb_spec_count b = SPEC_DEPTH b"

definition commit_is_full :: "StoreBuffer \<Rightarrow> bool" where
  "commit_is_full b \<longleftrightarrow> stb_commit_count b = COMMIT_DEPTH b"

definition stb_is_empty :: "StoreBuffer \<Rightarrow> bool" where
  "stb_is_empty b \<longleftrightarrow> stb_spec_count b = 0 \<and> stb_commit_count b = 0"

definition stb_flush_speculative :: "StoreBuffer \<Rightarrow> StoreBuffer" where
  "stb_flush_speculative b =
     b\<lparr>stb_spec := map (\<lambda>e. e\<lparr>st_valid := False\<rparr>) (stb_spec b),
       stb_spec_head := 0, stb_spec_tail := 0, stb_spec_count := 0\<rparr>"

function stb_flush_squashed :: "Scoreboard \<Rightarrow> StoreBuffer \<Rightarrow> StoreBuffer" where
  "stb_flush_squashed scoreboard b =
     (if stb_spec_count b = 0 then b
      else let prev = (stb_spec_tail b + SPEC_DEPTH b - 1) mod SPEC_DEPTH b;
               tid = st_trans_id (stb_spec b ! prev)
           in if tid \<ge> 0 \<and> \<not> sb_valid (sb_get_entry scoreboard tid)
              then stb_flush_squashed scoreboard
                (b\<lparr>stb_spec := (stb_spec b)[prev := (stb_spec b ! prev)\<lparr>st_valid := False\<rparr>],
                   stb_spec_tail := prev,
                   stb_spec_count := stb_spec_count b - 1\<rparr>)
              else b)"
  by pat_completeness auto
termination
  by (relation "measure (\<lambda>(s, b). stb_spec_count b)") auto

declare stb_flush_squashed.simps [simp del]

definition stb_flush_all :: "StoreBuffer \<Rightarrow> StoreBuffer" where
  "stb_flush_all b = (stb_flush_speculative b)
     \<lparr>stb_committed := map (\<lambda>e. e\<lparr>st_valid := False\<rparr>) (stb_committed b),
      stb_commit_head := 0, stb_commit_tail := 0, stb_commit_count := 0\<rparr>"

section \<open>Invariant and abstraction\<close>

definition stb_spec_q :: "StoreBuffer \<Rightarrow> StoreBufferEntry list" where
  "stb_spec_q b = ring (stb_spec b) (stb_spec_head b) (stb_spec_count b)"

definition stb_commit_q :: "StoreBuffer \<Rightarrow> StoreBufferEntry list" where
  "stb_commit_q b = ring (stb_committed b) (stb_commit_head b) (stb_commit_count b)"

definition stb_pending :: "StoreBuffer \<Rightarrow> StoreBufferEntry list" where
  "stb_pending b = stb_commit_q b @ stb_spec_q b"

definition stb_wf :: "StoreBuffer \<Rightarrow> bool" where
  "stb_wf b \<longleftrightarrow>
     ring_wf (SPEC_DEPTH b) (stb_spec_head b) (stb_spec_tail b) (stb_spec_count b) \<and>
     ring_wf (COMMIT_DEPTH b) (stb_commit_head b) (stb_commit_tail b) (stb_commit_count b)"

definition stb_clean :: "StoreBuffer \<Rightarrow> bool" where
  "stb_clean b \<longleftrightarrow> stb_wf b \<and> list_all st_valid (stb_pending b)"

definition store_ok :: "StoreBufferEntry \<Rightarrow> bool" where
  "store_ok e \<longleftrightarrow> st_size e \<in> {1, 2, 4, 8} \<and> unat (st_address e) + st_size e < 2 ^ 64"

lemmas stb_defs = SPEC_DEPTH_def COMMIT_DEPTH_def stb_spec_q_def stb_commit_q_def

lemma stb_wf_rings:
  "stb_wf b \<Longrightarrow> ring_wf (length (stb_spec b)) (stb_spec_head b) (stb_spec_tail b) (stb_spec_count b)"
  "stb_wf b \<Longrightarrow> ring_wf (length (stb_committed b)) (stb_commit_head b) (stb_commit_tail b) (stb_commit_count b)"
  by (simp_all add: stb_wf_def stb_defs)

lemma stb_init_clean: "0 < n \<Longrightarrow> 0 < m \<Longrightarrow> stb_clean (stb_init n m) \<and> stb_pending (stb_init n m) = []"
  by (simp add: stb_clean_def stb_wf_def stb_pending_def stb_init_def stb_defs ring_simps)

lemma add_store_pending:
  assumes wf: "stb_wf b" and nf: "\<not> spec_is_full b"
  shows "stb_pending (snd (add_store a d n t b)) = stb_pending b @
     [\<lparr>st_valid = True, st_address = a, st_data = d, st_size = n, st_trans_id = t\<rparr>]"
    and "stb_wf (snd (add_store a d n t b))"
proof -
  note rw = stb_wf_rings(1)[OF wf]
  have c: "stb_spec_count b < length (stb_spec b)"
    using nf ring_wfD[OF rw] by (simp add: spec_is_full_def stb_defs)
  show "stb_pending (snd (add_store a d n t b)) = stb_pending b @
     [\<lparr>st_valid = True, st_address = a, st_data = d, st_size = n, st_trans_id = t\<rparr>]"
    using c ring_push[OF rw c] by (simp add: add_store_def stb_pending_def stb_defs)
  show "stb_wf (snd (add_store a d n t b))"
    using wf c ring_wf_push[OF rw c] by (simp add: add_store_def stb_wf_def stb_defs)
qed

lemma commit_store_pending:
  assumes cl: "stb_clean b"
  shows "stb_pending (snd (commit_store t b)) = stb_pending b \<and> stb_clean (snd (commit_store t b))"
proof (cases "stb_spec_count b = 0 \<or> stb_commit_count b = COMMIT_DEPTH b")
  case True
  then show ?thesis using cl by (auto simp: commit_store_def)
next
  case False
  have wf: "stb_wf b" using cl by (simp add: stb_clean_def)
  note rs = stb_wf_rings(1)[OF wf] and rc = stb_wf_rings(2)[OF wf]
  have sc: "0 < stb_spec_count b" and cc: "stb_commit_count b < length (stb_committed b)"
    using False ring_wfD[OF rc] by (auto simp: stb_defs)
  have q: "stb_spec_q b = stb_spec b ! stb_spec_head b # tl (stb_spec_q b)"
    using ring_pop[OF rs sc] by (simp add: stb_spec_q_def)
  then have "st_valid (stb_spec b ! stb_spec_head b)"
    using cl by (metis list.pred_inject(2) list_all_append stb_clean_def stb_pending_def)
  then have same: "(stb_spec b ! stb_spec_head b)\<lparr>st_valid := True\<rparr> = stb_spec b ! stb_spec_head b"
    by (cases "stb_spec b ! stb_spec_head b") simp
  have p: "stb_pending (snd (commit_store t b)) = stb_pending b"
    using False ring_push[OF rc cc] ring_pop_clear[OF rs sc] q
    by (simp add: commit_store_def stb_pending_def stb_defs same)
  moreover have "stb_wf (snd (commit_store t b))"
    using False ring_wf_push[OF rc cc] ring_wf_pop[OF rs sc]
    by (simp add: commit_store_def stb_wf_def stb_defs)
  ultimately show ?thesis using cl by (simp add: stb_clean_def)
qed

lemma stb_pop_committed_pending:
  assumes wf: "stb_wf b" and c: "0 < stb_commit_count b"
  shows "stb_wf (stb_pop_committed b)"
    and "stb_pending b = stb_committed b ! stb_commit_head b # stb_pending (stb_pop_committed b)"
proof -
  note rc = stb_wf_rings(2)[OF wf]
  show "stb_wf (stb_pop_committed b)"
    using wf ring_wf_pop[OF rc c] by (simp add: stb_pop_committed_def stb_wf_def stb_defs)
  show "stb_pending b = stb_committed b ! stb_commit_head b # stb_pending (stb_pop_committed b)"
    using ring_pop[OF rc c] ring_pop_clear[OF rc c]
    by (simp add: stb_pop_committed_def stb_pending_def stb_defs)
qed

lemma drain_one_empty: "stb_commit_count b = 0 \<Longrightarrow> drain_one b = (None, b)"
  by (simp add: drain_one.simps)

lemma drain_one_clean:
  assumes cl: "stb_clean b" and c: "0 < stb_commit_count b"
  shows "drain_one b = (let e = stb_committed b ! stb_commit_head b in
           (Some (st_address e, st_data e, st_size e), stb_pop_committed b))"
    and "stb_clean (stb_pop_committed b)"
  using cl c stb_pop_committed_pending[of b] by (auto simp: drain_one.simps stb_clean_def Let_def)

lemma stb_depths [simp]:
  "SPEC_DEPTH (snd (add_store a d n t b)) = SPEC_DEPTH b"
  "COMMIT_DEPTH (snd (add_store a d n t b)) = COMMIT_DEPTH b"
  "SPEC_DEPTH (snd (commit_store i b)) = SPEC_DEPTH b"
  "COMMIT_DEPTH (snd (commit_store i b)) = COMMIT_DEPTH b"
  "SPEC_DEPTH (stb_pop_committed b) = SPEC_DEPTH b"
  "COMMIT_DEPTH (stb_pop_committed b) = COMMIT_DEPTH b"
  by (simp_all add: add_store_def commit_store_def stb_pop_committed_def stb_defs)

section \<open>The store buffer is a bounded FIFO of stores\<close>

definition stb_enq :: "u64 \<times> u64 \<times> nat \<times> int \<Rightarrow> StoreBuffer \<Rightarrow> ((u64 \<times> u64 \<times> nat) \<times> StoreBuffer) option" where
  "stb_enq p b = (case p of (a, d, n, t) \<Rightarrow>
     (let (i, b') = add_store a d n t b in if i < 0 then None else Some ((a, d, n), b')))"

definition stb_deq :: "StoreBuffer \<Rightarrow> ((u64 \<times> u64 \<times> nat) \<times> StoreBuffer) option" where
  "stb_deq b = (case drain_one b of (None, _) \<Rightarrow> None | (Some x, b') \<Rightarrow> Some (x, b'))"

definition stb_upd :: "int \<Rightarrow> StoreBuffer \<Rightarrow> StoreBuffer" where
  "stb_upd t b = snd (commit_store t b)"

definition st_write :: "StoreBufferEntry \<Rightarrow> u64 \<times> u64 \<times> nat" where
  "st_write e = (st_address e, st_data e, st_size e)"

definition stb_writes :: "StoreBuffer \<Rightarrow> (u64 \<times> u64 \<times> nat) list" where
  "stb_writes b = map st_write (stb_pending b)"

definition stb_capacity :: "StoreBuffer \<Rightarrow> nat" where
  "stb_capacity b = COMMIT_DEPTH b + SPEC_DEPTH b"

definition stb_no_committed :: "StoreBuffer \<Rightarrow> bool" where
  "stb_no_committed b \<longleftrightarrow> stb_commit_count b = 0"

interpretation stb: bounded_fifo stb_writes stb_clean stb_capacity spec_is_full stb_no_committed
  stb_enq stb_deq stb_upd
proof
  fix b :: StoreBuffer and p :: "u64 \<times> u64 \<times> nat \<times> int" and t :: int
  assume cl: "stb_clean b"
  then have wf: "stb_wf b" by (simp add: stb_clean_def)
  show "length (stb_writes b) \<le> stb_capacity b"
    using stb_wf_rings[OF wf]
    by (simp add: stb_writes_def stb_pending_def stb_capacity_def stb_defs ring_wf_def)
  show "stb_enq p b = None" if "spec_is_full b"
    using that by (simp add: stb_enq_def add_store_def spec_is_full_def split: prod.splits)
  show "\<exists>e b'. stb_enq p b = Some (e, b') \<and> stb_clean b' \<and> stb_capacity b' = stb_capacity b \<and>
          stb_writes b' = stb_writes b @ [e]" if nf: "\<not> spec_is_full b"
  proof -
    obtain a d n i where p: "p = (a, d, n, i)" by (cases p)
    let ?b' = "snd (add_store a d n i b)"
    have "stb_enq p b = Some ((a, d, n), ?b')"
      using nf by (simp add: p stb_enq_def add_store_def spec_is_full_def)
    moreover have "stb_clean ?b'" "stb_writes ?b' = stb_writes b @ [(a, d, n)]"
      using add_store_pending[OF wf nf] cl by (auto simp: stb_clean_def stb_writes_def st_write_def)
    ultimately show ?thesis by (simp add: stb_capacity_def)
  qed
  show "stb_deq b = None" if "stb_no_committed b"
    using that by (simp add: stb_deq_def stb_no_committed_def drain_one_empty)
  show "\<exists>e b'. stb_deq b = Some (e, b') \<and> stb_clean b' \<and> stb_capacity b' = stb_capacity b \<and>
          stb_writes b = e # stb_writes b'" if "\<not> stb_no_committed b"
  proof -
    have c: "0 < stb_commit_count b" using that by (simp add: stb_no_committed_def)
    show ?thesis
      using drain_one_clean[OF cl c] stb_pop_committed_pending(2)[OF wf c]
      by (simp add: stb_deq_def Let_def stb_capacity_def stb_writes_def st_write_def)
  qed
  show "stb_clean (stb_upd t b) \<and> stb_capacity (stb_upd t b) = stb_capacity b \<and>
          stb_writes (stb_upd t b) = stb_writes b"
    using commit_store_pending[OF cl, of t] by (simp add: stb_upd_def stb_capacity_def stb_writes_def)
qed

section \<open>Draining to memory\<close>

definition write_back :: "u64 \<times> u64 \<times> nat \<Rightarrow> bytemem \<Rightarrow> bytemem" where
  "write_back x m = (case x of (addr, data, sz) \<Rightarrow>
     if sz = 8 then mem_write m (unat addr) (to_bytes sz data)
     else mem_write m (unat addr) (to_bytes sz (ucast data :: u32)))"

lemma drain_one_decreases:
  "drain_one b = (Some x, b') \<Longrightarrow> stb_commit_count b' < stb_commit_count b"
proof (induction b rule: drain_one.induct)
  case (1 b)
  show ?case
  proof (cases "st_valid (stb_committed b ! stb_commit_head b)")
    case True
    then show ?thesis using "1.prems"
      by (subst (asm) drain_one.simps) (auto simp: Let_def stb_pop_committed_def split: if_splits)
  next
    case False
    then have c: "stb_commit_count b \<noteq> 0" and d: "drain_one (stb_pop_committed b) = (Some x, b')"
      using "1.prems" by (subst (asm) drain_one.simps, simp add: Let_def split: if_splits)+
    show ?thesis using "1.IH"[OF c refl False d] c by (simp add: stb_pop_committed_def)
  qed
qed

function drain_all :: "bytemem \<Rightarrow> StoreBuffer \<Rightarrow> bytemem \<times> StoreBuffer" where
  "drain_all m b = (case drain_one b of
     (None, b') \<Rightarrow> (m, b')
   | (Some x, b') \<Rightarrow> drain_all (write_back x m) b')"
  by pat_completeness auto
termination
  by (relation "measure (\<lambda>(m, b). stb_commit_count b)") (auto dest: drain_one_decreases sym)

declare drain_all.simps [simp del]

definition st_apply :: "StoreBufferEntry \<Rightarrow> bytemem \<Rightarrow> bytemem" where
  "st_apply e m = (if st_valid e then mem_write m (unat (st_address e)) (to_bytes (st_size e) (st_data e)) else m)"

definition apply_stores :: "StoreBufferEntry list \<Rightarrow> bytemem \<Rightarrow> bytemem" where
  "apply_stores es m = fold st_apply es m"

lemma to_bytes_ucast32: "n \<le> 4 \<Longrightarrow> to_bytes n (ucast (d :: u64) :: u32) = to_bytes n d"
  by (auto simp: to_bytes_def bit_eq_iff bit_simps intro!: bit_word_eqI)

lemma write_back_st_apply: "store_ok e \<Longrightarrow> st_valid e \<Longrightarrow> write_back (st_write e) m = st_apply e m"
  by (auto simp: write_back_def st_write_def st_apply_def store_ok_def to_bytes_ucast32)

lemma drain_all_committed:
  "stb_clean b \<Longrightarrow> list_all store_ok (stb_commit_q b) \<Longrightarrow>
     fst (drain_all m b) = apply_stores (stb_commit_q b) m \<and>
     stb_clean (snd (drain_all m b)) \<and> stb_pending (snd (drain_all m b)) = stb_spec_q b"
proof (induction "stb_commit_count b" arbitrary: m b)
  case 0
  then have "stb_commit_q b = []" by (simp add: stb_commit_q_def)
  then show ?case
    using 0 by (simp add: drain_all.simps drain_one_empty apply_stores_def stb_pending_def)
next
  case (Suc c)
  let ?e = "stb_committed b ! stb_commit_head b" and ?b' = "stb_pop_committed b"
  have c0: "0 < stb_commit_count b" using Suc.hyps by simp
  have wf: "stb_wf b" using Suc.prems by (simp add: stb_clean_def)
  note d = drain_one_clean[OF Suc.prems(1) c0]
  have q: "stb_commit_q b = ?e # stb_commit_q ?b'" "stb_spec_q ?b' = stb_spec_q b"
    using ring_pop[OF stb_wf_rings(2)[OF wf] c0] ring_pop_clear[OF stb_wf_rings(2)[OF wf] c0]
    by (simp_all add: stb_pop_committed_def stb_defs)
  have v: "st_valid ?e" using Suc.prems q by (simp add: stb_clean_def stb_pending_def)
  have run: "drain_all m b = drain_all (write_back (st_write ?e) m) ?b'"
    using d(1) by (subst drain_all.simps) (simp add: Let_def st_write_def)
  have "c = stb_commit_count ?b'" using Suc.hyps(2) by (simp add: stb_pop_committed_def)
  from Suc.hyps(1)[OF this d(2), of "write_back (st_write ?e) m"] Suc.prems q v show ?case
    by (simp add: run write_back_st_apply apply_stores_def)
qed

section \<open>Store-to-load forwarding\<close>

fun first_hit :: "('a \<Rightarrow> 'b option) \<Rightarrow> 'a list \<Rightarrow> 'b option" where
  "first_hit f [] = None"
| "first_hit f (x # xs) = (case f x of Some r \<Rightarrow> Some r | None \<Rightarrow> first_hit f xs)"

lemma first_hit_append:
  "first_hit f (xs @ ys) = (case first_hit f xs of Some r \<Rightarrow> Some r | None \<Rightarrow> first_hit f ys)"
  by (induction xs) (auto split: option.splits)

lemma fwd_loop_scan_from:
  assumes "ring_wf (length es) h t c" "k \<le> c"
  shows "fwd_loop la ls es t k (c - k) = first_hit (fwd_entry la ls) (rev (ring es h (c - k)))"
  using assms(2)
proof (induction "c - k" arbitrary: k)
  case 0
  then show ?case by (simp add: fwd_loop.simps)
next
  case (Suc r)
  let ?n = "length es"
  have k: "k < c" "c - k = Suc r" "r = c - Suc k" using Suc by auto
  have n: "c \<le> ?n" "h < ?n" "t = (h + c) mod ?n" using assms(1) by (auto simp: ring_wf_def)
  have "(t + ?n - 1 - k) mod ?n = ((h + c) mod ?n + (?n - 1 - k)) mod ?n" using n k by simp
  also have "\<dots> = (h + c + (?n - 1 - k)) mod ?n" by (rule mod_add_left_eq)
  also have "h + c + (?n - 1 - k) = h + r + ?n" using n k by simp
  finally have i: "(t + ?n - 1 - k) mod ?n = (h + r) mod ?n" by simp
  have "rev (ring es h (Suc r)) = es ! ((h + r) mod ?n) # rev (ring es h r)"
    by (simp add: ring_def ring_idx_push)
  moreover have "fwd_loop la ls es t (Suc k) r = first_hit (fwd_entry la ls) (rev (ring es h r))"
    using Suc.hyps(1)[of "Suc k"] k by simp
  ultimately show ?case using k(2) i by (subst fwd_loop.simps) (simp split: option.split)
qed

lemma forward_load_scan:
  assumes "stb_wf b"
  shows "forward_load la ls b =
    (case first_hit (fwd_entry la ls) (rev (stb_pending b)) of Some r \<Rightarrow> r | None \<Rightarrow> FWD_MISS)"
  using fwd_loop_scan_from[OF stb_wf_rings(1)[OF assms], of 0 la ls]
    fwd_loop_scan_from[OF stb_wf_rings(2)[OF assms], of 0 la ls]
  by (simp add: forward_load_def stb_pending_def stb_defs first_hit_append split: option.split)

definition load_ok :: "u64 \<Rightarrow> nat \<Rightarrow> bool" where
  "load_ok la ls \<longleftrightarrow> ls \<in> {1, 2, 4, 8} \<and> unat la + ls < 2 ^ 64"

definition overlaps :: "u64 \<Rightarrow> nat \<Rightarrow> StoreBufferEntry \<Rightarrow> bool" where
  "overlaps la ls e \<longleftrightarrow> st_valid e \<and>
     unat la < unat (st_address e) + st_size e \<and> unat (st_address e) < unat la + ls"

lemma unat_add_size:
  "unat (a :: u64) + n < 2 ^ 64 \<Longrightarrow> unat (a + of_nat n) = unat a + n"
  by (simp add: unat_word_ariths take_bit_eq_mod unat_of_nat)

lemma fwd_entry_cases:
  assumes "load_ok la ls" "store_ok e"
  shows "fwd_entry la ls e =
    (if overlaps la ls e then
       if unat (st_address e) \<le> unat la \<and> unat la + ls \<le> unat (st_address e) + st_size e
       then Some (FWD_HIT (take_bit (8 * ls) (drop_bit (8 * (unat la - unat (st_address e))) (st_data e))))
       else Some FWD_PARTIAL_OVERLAP
     else None)"
proof -
  let ?sa = "st_address e" and ?ss = "st_size e"
  have l: "unat la + ls < 2 ^ 64" "0 < ls" "ls \<le> 8" and s: "unat ?sa + ?ss < 2 ^ 64" "0 < ?ss"
    using assms by (auto simp: load_ok_def store_ok_def)
  have u: "unat (la + of_nat ls) = unat la + ls" "unat (?sa + of_nat ?ss) = unat ?sa + ?ss"
    using l s by (simp_all add: unat_add_size)
  have ov: "max la ?sa < min (la + of_nat ls) (?sa + of_nat ?ss) \<longleftrightarrow>
      unat la < unat ?sa + ?ss \<and> unat ?sa < unat la + ls"
    using l s u by (auto simp: word_less_nat_alt max_def min_def word_le_nat_alt)
  have ct: "?sa \<le> la \<and> la + of_nat ls \<le> ?sa + of_nat ?ss \<longleftrightarrow>
      unat ?sa \<le> unat la \<and> unat la + ls \<le> unat ?sa + ?ss"
    using u by (auto simp: word_le_nat_alt)
  have off: "unat ?sa \<le> unat la \<Longrightarrow> unat (la - ?sa) = unat la - unat ?sa"
    by (simp add: unat_sub word_le_nat_alt)
  have m: "x AND (if ls = 8 then NOT 0 else push_bit (ls * 8) 1 - 1) = take_bit (8 * ls) x" for x :: u64
  proof (cases "ls = 8")
    case True
    then show ?thesis by (simp add: take_bit_word_eq_self)
  next
    case False
    then show ?thesis
      by (simp add: take_bit_eq_mask mask_eq_exp_minus_1 push_bit_eq_mult mult.commute)
  qed
  show ?thesis
    using ov ct off m by (auto simp: fwd_entry_def overlaps_def Let_def mult.commute)
qed

lemma st_apply_miss:
  "\<not> overlaps la ls e \<Longrightarrow> mem_read (st_apply e m) (unat la) ls = mem_read m (unat la) ls"
  by (auto simp: st_apply_def overlaps_def not_less intro!: mem_read_write_disjoint)

lemma take_drop_to_bytes:
  "k + n \<le> l \<Longrightarrow> take n (drop k (to_bytes l (w :: 'a::len word))) = to_bytes n (drop_bit (8 * k) w)"
  by (auto intro!: nth_equalityI simp: to_bytes_nth algebra_simps)

lemma st_apply_hit:
  assumes "overlaps la ls e" "unat (st_address e) \<le> unat la"
    "unat la + ls \<le> unat (st_address e) + st_size e"
  shows "of_bytes (mem_read (st_apply e m) (unat la) ls) =
     take_bit (8 * ls) (drop_bit (8 * (unat la - unat (st_address e))) (st_data e))"
  using assms
  by (simp add: st_apply_def overlaps_def mem_read_write_sub take_drop_to_bytes of_bytes_to_bytes)

lemma first_hit_forward:
  assumes "load_ok la ls" "list_all store_ok es"
  shows "case first_hit (fwd_entry la ls) (rev es) of
     Some (FWD_HIT d) \<Rightarrow> of_bytes (mem_read (apply_stores es m) (unat la) ls) = d
   | Some FWD_PARTIAL_OVERLAP \<Rightarrow> \<exists>e \<in> set es. overlaps la ls e
   | Some FWD_MISS \<Rightarrow> False
   | None \<Rightarrow> mem_read (apply_stores es m) (unat la) ls = mem_read m (unat la) ls"
  using assms(2)
proof (induction es rule: rev_induct)
  case Nil
  then show ?case by (simp add: apply_stores_def)
next
  case (snoc e es)
  have e: "store_ok e" using snoc.prems by simp
  show ?case
    using snoc st_apply_hit[of la ls e "apply_stores es m"] st_apply_miss[of la ls e "apply_stores es m"]
    by (auto simp: fwd_entry_cases[OF assms(1) e] apply_stores_def
        split: option.splits FwdResult.splits)
qed

section \<open>Properties\<close>

text \<open>C13: Store-to-load forwarding is exact.  For any buffered stores (in any state of the two
  queues) and any memory: a HIT returns precisely the bytes the load would read if
  every buffered store were first drained to memory in program order; a MISS means
  that no buffered store touches the loaded bytes, so memory already holds them;
  PARTIAL_OVERLAP is only reported when a buffered store really overlaps the load.\<close>
theorem forward_load_correct:
  assumes "stb_wf b" "list_all store_ok (stb_pending b)" "load_ok la ls"
  shows "case forward_load la ls b of
     FWD_HIT d \<Rightarrow> of_bytes (mem_read (apply_stores (stb_pending b) m) (unat la) ls) = d
   | FWD_PARTIAL_OVERLAP \<Rightarrow> (\<exists>e \<in> set (stb_pending b). overlaps la ls e)
   | FWD_MISS \<Rightarrow> mem_read (apply_stores (stb_pending b) m) (unat la) ls = mem_read m (unat la) ls"
  using first_hit_forward[OF assms(3,2), of m]
  by (auto simp: forward_load_scan[OF assms(1)] split: option.splits FwdResult.splits)

definition stb_demo :: StoreBuffer where
  "stb_demo = snd (add_store 0x1004 0xAABBCCDD 4 1 (snd (add_store 0x1000 0x1122334455667788 8 0 (stb_init 4 4))))"

lemma stb_demo_facts:
  "stb_wf stb_demo" "list_all store_ok (stb_pending stb_demo)"
  by (simp_all add: stb_demo_def stb_init_def add_store_def stb_wf_def stb_pending_def stb_defs
      ring_wf_def ring_def ring_idx_def store_ok_def upt_rec)

theorem forward_load_correct_witness:
  "stb_wf stb_demo \<and> load_ok 0x1006 2 \<and>
   (case forward_load 0x1006 2 stb_demo of
     FWD_HIT d \<Rightarrow> of_bytes (mem_read (apply_stores (stb_pending stb_demo) (\<lambda>_. 0)) (unat (0x1006 :: u64)) 2) = d
   | FWD_PARTIAL_OVERLAP \<Rightarrow> (\<exists>e \<in> set (stb_pending stb_demo). overlaps 0x1006 2 e)
   | FWD_MISS \<Rightarrow> mem_read (apply_stores (stb_pending stb_demo) (\<lambda>_. 0)) (unat (0x1006 :: u64)) 2
        = mem_read (\<lambda>_. 0) (unat (0x1006 :: u64)) 2)"
proof -
  have l: "load_ok 0x1006 2" by (simp add: load_ok_def)
  show ?thesis using forward_load_correct[OF stb_demo_facts l, of "\<lambda>_. 0"] l stb_demo_facts(1) by blast
qed

text \<open>C27: Whatever interleaving of add_store, commit_store and drain_one is performed on an
  initially empty buffer, the stores reach memory in exactly the order in which they
  were accepted: the drained stores followed by the buffered ones are the accepted
  ones, none lost, duplicated or altered.\<close>
theorem store_buffer_program_order:
  "case fifo_run stb_enq stb_deq stb_upd ops (stb_init (Suc n) (Suc m)) of (accepted, drained, b) \<Rightarrow>
     stb_clean b \<and> drained @ stb_writes b = accepted \<and> length (stb_writes b) \<le> Suc m + Suc n"
proof -
  obtain a d b where run: "fifo_run stb_enq stb_deq stb_upd ops (stb_init (Suc n) (Suc m)) = (a, d, b)"
    by (metis prod_cases3)
  let ?i = "stb_init (Suc n) (Suc m)"
  have i: "stb_clean ?i" "stb_writes ?i = []" "stb_capacity ?i = Suc m + Suc n"
    using stb_init_clean[of "Suc n" "Suc m"]
    by (simp_all add: stb_writes_def stb_capacity_def stb_init_def stb_defs)
  show ?thesis using stb.run_order[OF i(1) run] stb.run_bounded[OF i(1) run] i by (simp add: run)
qed



end
