(* ===== verification/CSR_File.thy ===== *)
theory CSR_File
  imports VP_Prelude
begin

unbundle bit_operations_syntax

text \<open>
  The control and status registers of the RV64 M/S/U pipeline
  (src/inc/CSR_File.h): privilege-checked read and write with their masks, trap
  entry and return, interrupt arbitration and physical memory protection.
  A privilege mode is the byte the code stores (U = 0, S = 1, M = 3), because
  mret casts any two-bit MPP value back to it.  Shown here: the masks form an
  invariant of every history of operations, traps and returns are inverse,
  lower privilege cannot read, write or affect machine state, interrupt
  arbitration is sound, complete and monotone in privilege, and PMP decides by
  the first matching region.
\<close>

section \<open>Constants\<close>

abbreviation PrivMode_U :: u8 where "PrivMode_U \<equiv> 0"
abbreviation PrivMode_S :: u8 where "PrivMode_S \<equiv> 1"
abbreviation PrivMode_M :: u8 where "PrivMode_M \<equiv> 3"

definition MSTATUS_UIE :: u64 where "MSTATUS_UIE = push_bit 0 1"
definition MSTATUS_SIE :: u64 where "MSTATUS_SIE = push_bit 1 1"
definition MSTATUS_MIE :: u64 where "MSTATUS_MIE = push_bit 3 1"
definition MSTATUS_UPIE :: u64 where "MSTATUS_UPIE = push_bit 4 1"
definition MSTATUS_SPIE :: u64 where "MSTATUS_SPIE = push_bit 5 1"
definition MSTATUS_MPIE :: u64 where "MSTATUS_MPIE = push_bit 7 1"
definition MSTATUS_SPP :: u64 where "MSTATUS_SPP = push_bit 8 1"
definition MSTATUS_MPP :: u64 where "MSTATUS_MPP = push_bit 11 3"
definition MSTATUS_FS :: u64 where "MSTATUS_FS = push_bit 13 3"
definition MSTATUS_XS :: u64 where "MSTATUS_XS = push_bit 15 3"
definition MSTATUS_MPRV :: u64 where "MSTATUS_MPRV = push_bit 17 1"
definition MSTATUS_SUM :: u64 where "MSTATUS_SUM = push_bit 18 1"
definition MSTATUS_MXR :: u64 where "MSTATUS_MXR = push_bit 19 1"
definition MSTATUS_TVM :: u64 where "MSTATUS_TVM = push_bit 20 1"
definition MSTATUS_TW :: u64 where "MSTATUS_TW = push_bit 21 1"
definition MSTATUS_TSR :: u64 where "MSTATUS_TSR = push_bit 22 1"
definition MSTATUS_UXL :: u64 where "MSTATUS_UXL = push_bit 32 3"
definition MSTATUS_SXL :: u64 where "MSTATUS_SXL = push_bit 34 3"
definition MSTATUS_SD :: u64 where "MSTATUS_SD = push_bit 63 1"

lemmas mstatus_bits = MSTATUS_UIE_def MSTATUS_SIE_def MSTATUS_MIE_def MSTATUS_UPIE_def
  MSTATUS_SPIE_def MSTATUS_MPIE_def MSTATUS_SPP_def MSTATUS_MPP_def MSTATUS_FS_def MSTATUS_XS_def
  MSTATUS_MPRV_def MSTATUS_SUM_def MSTATUS_MXR_def MSTATUS_TVM_def MSTATUS_TW_def
  MSTATUS_TSR_def MSTATUS_UXL_def MSTATUS_SXL_def MSTATUS_SD_def

definition MSTATUS_WRITE_MASK :: u64 where
  "MSTATUS_WRITE_MASK = MSTATUS_SIE OR MSTATUS_MIE OR MSTATUS_SPIE OR MSTATUS_MPIE OR MSTATUS_SPP
     OR MSTATUS_MPP OR MSTATUS_FS OR MSTATUS_MPRV OR MSTATUS_SUM OR MSTATUS_MXR OR MSTATUS_TVM
     OR MSTATUS_TW OR MSTATUS_TSR"

definition SSTATUS_MASK :: u64 where
  "SSTATUS_MASK = MSTATUS_UIE OR MSTATUS_SIE OR MSTATUS_UPIE OR MSTATUS_SPIE OR MSTATUS_SPP
     OR MSTATUS_FS OR MSTATUS_XS OR MSTATUS_SUM OR MSTATUS_MXR OR MSTATUS_SD OR MSTATUS_UXL"

definition MEDELEG_MASK :: u64 where "MEDELEG_MASK = 0xB3FF"
definition MIDELEG_MASK :: u64 where "MIDELEG_MASK = 0x0222"
definition MIE_MASK :: u64 where "MIE_MASK = 0x0AAA"
definition MIP_SW_MASK :: u64 where "MIP_SW_MASK = 0x0222"

section \<open>State and operations\<close>

record CSR_File =
  priv :: u8
  mstatus :: u64
  misa :: u64
  medeleg :: u64
  mideleg :: u64
  mie :: u64
  mip :: u64
  mtvec :: u64
  mcounteren :: u64
  menvcfg :: u64
  mscratch :: u64
  mepc :: u64
  mcause :: u64
  mtval :: u64
  stvec :: u64
  scounteren :: u64
  sscratch :: u64
  sepc :: u64
  scause :: u64
  stval :: u64
  satp :: u64
  mcycle :: u64
  minstret :: u64
  fcsr :: u64
  pmpcfg :: "u64 list"
  pmpaddr :: "u64 list"

definition CSR_File_init :: CSR_File where
  "CSR_File_init =
     \<lparr>priv = PrivMode_M, mstatus = push_bit 32 2 OR push_bit 34 2,
      misa = push_bit 62 2 OR push_bit 0 1 OR push_bit 2 1 OR push_bit 3 1 OR push_bit 5 1
        OR push_bit 8 1 OR push_bit 12 1 OR push_bit 18 1 OR push_bit 20 1,
      medeleg = 0, mideleg = 0, mie = 0, mip = 0, mtvec = 0, mcounteren = 0, menvcfg = 0,
      mscratch = 0, mepc = 0, mcause = 0, mtval = 0, stvec = 0, scounteren = 0, sscratch = 0,
      sepc = 0, scause = 0, stval = 0, satp = 0, mcycle = 0, minstret = 0, fcsr = 0,
      pmpcfg = replicate 4 0, pmpaddr = replicate 16 0\<rparr>"

definition csr_req_priv :: "u16 \<Rightarrow> u8" where
  "csr_req_priv addr = ucast (drop_bit 8 addr AND 0x3)"

definition csr_read :: "u16 \<Rightarrow> CSR_File \<Rightarrow> u64 option" where
  "csr_read addr s =
     (if priv s < csr_req_priv addr then None
      else if addr = 0xF11 \<or> addr = 0xF12 \<or> addr = 0xF13 \<or> addr = 0xF14 then Some 0
      else if addr = 0x300 then Some (mstatus s)
      else if addr = 0x301 then Some (misa s)
      else if addr = 0x302 then Some (medeleg s)
      else if addr = 0x303 then Some (mideleg s)
      else if addr = 0x304 then Some (mie s)
      else if addr = 0x305 then Some (mtvec s)
      else if addr = 0x306 then Some (mcounteren s)
      else if addr = 0x30A then Some (menvcfg s)
      else if addr = 0x320 then Some 0
      else if 0x323 \<le> addr \<and> addr \<le> 0x33F then Some 0
      else if addr = 0x747 then Some 0
      else if addr = 0x340 then Some (mscratch s)
      else if addr = 0x341 then Some (mepc s AND NOT 1)
      else if addr = 0x342 then Some (mcause s)
      else if addr = 0x343 then Some (mtval s)
      else if addr = 0x344 then Some (mip s)
      else if addr = 0xB00 then Some (mcycle s)
      else if addr = 0xB02 then Some (minstret s)
      else if 0xB03 \<le> addr \<and> addr \<le> 0xB1F then Some 0
      else if addr = 0x100 then Some (mstatus s AND SSTATUS_MASK)
      else if addr = 0x104 then Some (mie s AND mideleg s)
      else if addr = 0x105 then Some (stvec s)
      else if addr = 0x106 then Some (scounteren s)
      else if addr = 0x140 then Some (sscratch s)
      else if addr = 0x141 then Some (sepc s AND NOT 1)
      else if addr = 0x142 then Some (scause s)
      else if addr = 0x143 then Some (stval s)
      else if addr = 0x144 then Some (mip s AND mideleg s)
      else if addr = 0x180 then Some (satp s)
      else if addr = 0xC00 \<or> addr = 0xC01 then Some (mcycle s)
      else if addr = 0xC02 then Some (minstret s)
      else if 0x3A0 \<le> addr \<and> addr \<le> 0x3A3 then Some (pmpcfg s ! unat (addr - 0x3A0))
      else if 0x3B0 \<le> addr \<and> addr \<le> 0x3BF then Some (pmpaddr s ! unat (addr - 0x3B0))
      else if addr = 0x001 then Some (fcsr s AND 0x1F)
      else if addr = 0x002 then Some (drop_bit 5 (fcsr s) AND 0x7)
      else if addr = 0x003 then Some (fcsr s AND 0xFF)
      else None)"

definition csr_write :: "u16 \<Rightarrow> u64 \<Rightarrow> CSR_File \<Rightarrow> bool \<times> CSR_File" where
  "csr_write addr val s =
     (if priv s < csr_req_priv addr then (False, s)
      else if drop_bit 10 addr = 0x3 then (False, s)
      else if addr = 0x300 then (True, s\<lparr>mstatus := (mstatus s AND NOT MSTATUS_WRITE_MASK)
                                          OR (val AND MSTATUS_WRITE_MASK)\<rparr>)
      else if addr = 0x301 then (True, s)
      else if addr = 0x302 then (True, s\<lparr>medeleg := val AND MEDELEG_MASK\<rparr>)
      else if addr = 0x303 then (True, s\<lparr>mideleg := val AND MIDELEG_MASK\<rparr>)
      else if addr = 0x304 then (True, s\<lparr>mie := val AND MIE_MASK\<rparr>)
      else if addr = 0x305 then (True, s\<lparr>mtvec := val AND NOT 2\<rparr>)
      else if addr = 0x306 then (True, s\<lparr>mcounteren := val AND 0xFFFFFFFF\<rparr>)
      else if addr = 0x30A then (True, s\<lparr>menvcfg := val\<rparr>)
      else if addr = 0x320 then (True, s)
      else if 0x323 \<le> addr \<and> addr \<le> 0x33F then (True, s)
      else if 0xB03 \<le> addr \<and> addr \<le> 0xB1F then (True, s)
      else if addr = 0x747 then (True, s)
      else if addr = 0x340 then (True, s\<lparr>mscratch := val\<rparr>)
      else if addr = 0x341 then (True, s\<lparr>mepc := val AND NOT 1\<rparr>)
      else if addr = 0x342 then (True, s\<lparr>mcause := val\<rparr>)
      else if addr = 0x343 then (True, s\<lparr>mtval := val\<rparr>)
      else if addr = 0x344 then (True, s\<lparr>mip := (mip s AND NOT MIP_SW_MASK) OR (val AND MIP_SW_MASK)\<rparr>)
      else if addr = 0x100 then (True, s\<lparr>mstatus := (mstatus s AND NOT SSTATUS_MASK)
                                          OR (val AND SSTATUS_MASK)\<rparr>)
      else if addr = 0x104 then (True, s\<lparr>mie := (mie s AND NOT (mideleg s)) OR (val AND mideleg s)\<rparr>)
      else if addr = 0x105 then (True, s\<lparr>stvec := val AND NOT 2\<rparr>)
      else if addr = 0x106 then (True, s\<lparr>scounteren := val AND 0x7\<rparr>)
      else if addr = 0x140 then (True, s\<lparr>sscratch := val\<rparr>)
      else if addr = 0x141 then (True, s\<lparr>sepc := val AND NOT 1\<rparr>)
      else if addr = 0x142 then (True, s\<lparr>scause := val\<rparr>)
      else if addr = 0x143 then (True, s\<lparr>stval := val\<rparr>)
      else if addr = 0x144 then (True, s\<lparr>mip := (mip s AND NOT (mideleg s AND MIP_SW_MASK))
                                          OR (val AND mideleg s AND MIP_SW_MASK)\<rparr>)
      else if addr = 0x180 then
        (True, if drop_bit 60 val = 0 \<or> drop_bit 60 val = 8 then s\<lparr>satp := val\<rparr> else s)
      else if addr = 0xB00 then (True, s\<lparr>mcycle := val\<rparr>)
      else if addr = 0xB02 then (True, s\<lparr>minstret := val\<rparr>)
      else if 0x3A0 \<le> addr \<and> addr \<le> 0x3A3 then
        (True, s\<lparr>pmpcfg := (pmpcfg s)[unat (addr - 0x3A0) := val]\<rparr>)
      else if 0x3B0 \<le> addr \<and> addr \<le> 0x3BF then
        (True, s\<lparr>pmpaddr := (pmpaddr s)[unat (addr - 0x3B0) := val]\<rparr>)
      else if addr = 0x001 then (True, s\<lparr>fcsr := (fcsr s AND NOT 0x1F) OR (val AND 0x1F)\<rparr>)
      else if addr = 0x002 then (True, s\<lparr>fcsr := (fcsr s AND NOT 0xE0) OR push_bit 5 (val AND 0x7)\<rparr>)
      else if addr = 0x003 then (True, s\<lparr>fcsr := val AND 0xFF\<rparr>)
      else (False, s))"

definition tick_counters :: "u32 \<Rightarrow> CSR_File \<Rightarrow> CSR_File" where
  "tick_counters num_retired s = s\<lparr>mcycle := mcycle s + 1, minstret := minstret s + ucast num_retired\<rparr>"

definition trap_vector :: "u64 \<Rightarrow> u64 \<Rightarrow> u64" where
  "trap_vector tvec cause =
     (let mode = tvec AND 0x3; base = tvec AND NOT 0x3
      in if mode = 1 \<and> drop_bit 63 cause \<noteq> 0 then base + 4 * (cause AND 0x7FF) else base)"

definition bit_assign :: "bool \<Rightarrow> u64 \<Rightarrow> u64 \<Rightarrow> u64" where
  "bit_assign c m w = (if c then w OR m else w AND NOT m)"

definition enter_S :: "u8 \<Rightarrow> u64 \<Rightarrow> u64" where
  "enter_S p st =
     (let spp_bit = (if p = PrivMode_S then MSTATUS_SPP else 0);
          st1 = bit_assign (st AND MSTATUS_SIE \<noteq> 0) MSTATUS_SPIE st;
          st2 = st1 AND NOT MSTATUS_SIE
      in (st2 AND NOT MSTATUS_SPP) OR spp_bit)"

definition enter_M :: "u8 \<Rightarrow> u64 \<Rightarrow> u64" where
  "enter_M p st =
     (let mpp = push_bit 11 (ucast p);
          st1 = bit_assign (st AND MSTATUS_MIE \<noteq> 0) MSTATUS_MPIE st;
          st2 = st1 AND NOT MSTATUS_MIE
      in (st2 AND NOT MSTATUS_MPP) OR mpp)"

definition take_exception :: "u64 \<Rightarrow> u64 \<Rightarrow> u64 \<Rightarrow> CSR_File \<Rightarrow> u64 \<times> CSR_File" where
  "take_exception cause epc tval s =
     (let delegated = cause < 64 \<and> drop_bit (unat cause) (medeleg s) AND 1 \<noteq> 0
      in if delegated \<and> priv s \<noteq> PrivMode_M
         then (trap_vector (stvec s) cause,
               s\<lparr>scause := cause, sepc := epc, stval := tval,
                 mstatus := enter_S (priv s) (mstatus s), priv := PrivMode_S\<rparr>)
         else (trap_vector (mtvec s) cause,
               s\<lparr>mcause := cause, mepc := epc, mtval := tval,
                 mstatus := enter_M (priv s) (mstatus s), priv := PrivMode_M\<rparr>))"

definition take_interrupt :: "u64 \<Rightarrow> u64 \<Rightarrow> CSR_File \<Rightarrow> u64 \<times> CSR_File" where
  "take_interrupt cause epc s =
     (let int_cause = cause OR push_bit 63 1;
          delegated = drop_bit (unat cause) (mideleg s) AND 1 \<noteq> 0 \<and> priv s \<noteq> PrivMode_M
      in if delegated
         then (trap_vector (stvec s) int_cause,
               s\<lparr>scause := int_cause, sepc := epc, stval := 0,
                 mstatus := enter_S (priv s) (mstatus s), priv := PrivMode_S\<rparr>)
         else (trap_vector (mtvec s) int_cause,
               s\<lparr>mcause := int_cause, mepc := epc, mtval := 0,
                 mstatus := enter_M (priv s) (mstatus s), priv := PrivMode_M\<rparr>))"

definition pending_interrupt :: "CSR_File \<Rightarrow> int" where
  "pending_interrupt s =
     (let pending = mip s AND mie s;
          m_enabled = (priv s \<noteq> PrivMode_M \<or> mstatus s AND MSTATUS_MIE \<noteq> 0);
          s_enabled = (priv s = PrivMode_U \<or> (priv s = PrivMode_S \<and> mstatus s AND MSTATUS_SIE \<noteq> 0));
          check_m = (\<lambda>b. m_enabled \<and> drop_bit b pending AND 1 \<noteq> 0 \<and> \<not> drop_bit b (mideleg s) AND 1 \<noteq> 0);
          check_s = (\<lambda>b. s_enabled \<and> drop_bit b pending AND 1 \<noteq> 0 \<and> drop_bit b (mideleg s) AND 1 \<noteq> 0)
      in if pending = 0 then -1
         else if check_m 11 then 11
         else if check_m 3 then 3
         else if check_m 7 then 7
         else if check_s 9 then 9
         else if check_s 1 then 1
         else if check_s 5 then 5
         else -1)"

definition set_fflags :: "u32 \<Rightarrow> CSR_File \<Rightarrow> CSR_File" where
  "set_fflags flags s = s\<lparr>fcsr := fcsr s OR ucast (flags AND 0x1F)\<rparr>"

definition mret :: "CSR_File \<Rightarrow> u64 \<times> CSR_File" where
  "mret s =
     (let st1 = bit_assign (mstatus s AND MSTATUS_MPIE \<noteq> 0) MSTATUS_MIE (mstatus s);
          st2 = st1 OR MSTATUS_MPIE;
          new_priv = ucast (drop_bit 11 (st2 AND MSTATUS_MPP))
      in (mepc s, s\<lparr>mstatus := st2 AND NOT MSTATUS_MPP, priv := new_priv\<rparr>))"

definition sret :: "CSR_File \<Rightarrow> u64 \<times> CSR_File" where
  "sret s =
     (let st1 = bit_assign (mstatus s AND MSTATUS_SPIE \<noteq> 0) MSTATUS_SIE (mstatus s);
          st2 = st1 OR MSTATUS_SPIE
      in (sepc s, s\<lparr>priv := (if st2 AND MSTATUS_SPP \<noteq> 0 then PrivMode_S else PrivMode_U),
                   mstatus := st2 AND NOT MSTATUS_SPP\<rparr>))"

section \<open>Physical memory protection\<close>

definition pmp_cfg :: "CSR_File \<Rightarrow> nat \<Rightarrow> u8" where
  "pmp_cfg s i =
     (if i < 8 then ucast (drop_bit (i * 8) (pmpcfg s ! 0) AND 0xFF)
      else ucast (drop_bit ((i - 8) * 8) (pmpcfg s ! 2) AND 0xFF))"

definition pmp_a :: "CSR_File \<Rightarrow> nat \<Rightarrow> u8" where
  "pmp_a s i = drop_bit 3 (pmp_cfg s i) AND 0x3"

function napot_log2sz :: "nat \<Rightarrow> u64 \<Rightarrow> nat" where
  "napot_log2sz log2sz addr_val =
     (if addr_val AND 1 = 1 \<and> log2sz < 64 then napot_log2sz (log2sz + 1) (drop_bit 1 addr_val) else log2sz)"
  by pat_completeness auto
termination
  by (relation "measure (\<lambda>(l, a). 64 - l)") auto

declare napot_log2sz.simps [simp del]

definition pmp_region :: "CSR_File \<Rightarrow> nat \<Rightarrow> u64 \<times> u64" where
  "pmp_region s i =
     (let a = pmp_a s i in
      if a = 1 then ((if i > 0 then push_bit 2 (pmpaddr s ! (i - 1)) else 0), push_bit 2 (pmpaddr s ! i))
      else if a = 2 then (let base = push_bit 2 (pmpaddr s ! i) in (base, base + 4))
      else if a = 3 then
        (let log2sz = napot_log2sz 3 (pmpaddr s ! i) in
         if log2sz \<ge> 64 then (0, NOT 0)
         else let sz = push_bit log2sz 1; msk = NOT (sz - 1); base = push_bit 2 (pmpaddr s ! i) AND msk
              in (base, base + sz))
      else (0, 0))"

definition pmp_matches :: "CSR_File \<Rightarrow> u64 \<Rightarrow> u64 \<Rightarrow> nat \<Rightarrow> bool" where
  "pmp_matches s paddr access_size i \<longleftrightarrow> pmp_a s i \<noteq> 0 \<and>
     (let (base, top) = pmp_region s i
      in paddr < top \<and> (top = NOT 0 \<or> paddr + access_size > base) \<and> paddr \<ge> base)"

definition pmp_grant :: "CSR_File \<Rightarrow> bool \<Rightarrow> bool \<Rightarrow> nat \<Rightarrow> bool" where
  "pmp_grant s is_write is_exec i =
     (let cfg = pmp_cfg s i; locked = (drop_bit 7 cfg AND 1 \<noteq> 0)
      in if priv s = PrivMode_M \<and> \<not> locked then True
         else if is_exec then drop_bit 2 cfg AND 1 \<noteq> 0
         else if is_write then drop_bit 1 cfg AND 1 \<noteq> 0
         else cfg AND 1 \<noteq> 0)"

fun pmp_scan :: "CSR_File \<Rightarrow> u64 \<Rightarrow> u64 \<Rightarrow> bool \<Rightarrow> bool \<Rightarrow> nat list \<Rightarrow> bool" where
  "pmp_scan s paddr access_size is_write is_exec [] \<longleftrightarrow> priv s = PrivMode_M"
| "pmp_scan s paddr access_size is_write is_exec (i # is) \<longleftrightarrow>
     (if pmp_matches s paddr access_size i then pmp_grant s is_write is_exec i
      else pmp_scan s paddr access_size is_write is_exec is)"

definition pmp_check :: "u64 \<Rightarrow> u64 \<Rightarrow> bool \<Rightarrow> bool \<Rightarrow> CSR_File \<Rightarrow> bool" where
  "pmp_check paddr access_size is_write is_exec s =
     (if \<not> list_ex (\<lambda>i. pmp_a s i \<noteq> 0) [0..<16] then True
      else pmp_scan s paddr access_size is_write is_exec [0..<16])"

section \<open>Bit-level facts\<close>

lemma bit_MSTATUS [simp]:
  "bit MSTATUS_UIE k \<longleftrightarrow> k = 0"
  "bit MSTATUS_SIE k \<longleftrightarrow> k = 1"
  "bit MSTATUS_MIE k \<longleftrightarrow> k = 3"
  "bit MSTATUS_UPIE k \<longleftrightarrow> k = 4"
  "bit MSTATUS_SPIE k \<longleftrightarrow> k = 5"
  "bit MSTATUS_MPIE k \<longleftrightarrow> k = 7"
  "bit MSTATUS_SPP k \<longleftrightarrow> k = 8"
  "bit MSTATUS_MPRV k \<longleftrightarrow> k = 17"
  "bit MSTATUS_SUM k \<longleftrightarrow> k = 18"
  "bit MSTATUS_MXR k \<longleftrightarrow> k = 19"
  "bit MSTATUS_TVM k \<longleftrightarrow> k = 20"
  "bit MSTATUS_TW k \<longleftrightarrow> k = 21"
  "bit MSTATUS_TSR k \<longleftrightarrow> k = 22"
  "bit MSTATUS_SD k \<longleftrightarrow> k = 63"
  "bit MSTATUS_MPP k \<longleftrightarrow> k = 11 \<or> k = 12"
  "bit MSTATUS_FS k \<longleftrightarrow> k = 13 \<or> k = 14"
  "bit MSTATUS_XS k \<longleftrightarrow> k = 15 \<or> k = 16"
  "bit MSTATUS_UXL k \<longleftrightarrow> k = 32 \<or> k = 33"
  "bit MSTATUS_SXL k \<longleftrightarrow> k = 34 \<or> k = 35"
  unfolding mstatus_bits bit_flag bit_pair by auto

lemma test_MSTATUS [simp]:
  "w AND MSTATUS_UIE = 0 \<longleftrightarrow> \<not> bit w 0"
  "w AND MSTATUS_SIE = 0 \<longleftrightarrow> \<not> bit w 1"
  "w AND MSTATUS_MIE = 0 \<longleftrightarrow> \<not> bit w 3"
  "w AND MSTATUS_UPIE = 0 \<longleftrightarrow> \<not> bit w 4"
  "w AND MSTATUS_SPIE = 0 \<longleftrightarrow> \<not> bit w 5"
  "w AND MSTATUS_MPIE = 0 \<longleftrightarrow> \<not> bit w 7"
  "w AND MSTATUS_SPP = 0 \<longleftrightarrow> \<not> bit w 8"
  "w AND MSTATUS_MPRV = 0 \<longleftrightarrow> \<not> bit w 17"
  "w AND MSTATUS_SUM = 0 \<longleftrightarrow> \<not> bit w 18"
  "w AND MSTATUS_MXR = 0 \<longleftrightarrow> \<not> bit w 19"
  "w AND MSTATUS_TVM = 0 \<longleftrightarrow> \<not> bit w 20"
  "w AND MSTATUS_TW = 0 \<longleftrightarrow> \<not> bit w 21"
  "w AND MSTATUS_TSR = 0 \<longleftrightarrow> \<not> bit w 22"
  "w AND MSTATUS_SD = 0 \<longleftrightarrow> \<not> bit w 63"
  unfolding mstatus_bits using and_push_bit_1 by blast+

lemma bit_masks:
  "bit MSTATUS_WRITE_MASK k \<longleftrightarrow> k \<in> {1, 3, 5, 7, 8, 11, 12, 13, 14, 17, 18, 19, 20, 21, 22}"
  "bit SSTATUS_MASK k \<longleftrightarrow> k \<in> {0, 1, 4, 5, 8, 13, 14, 15, 16, 18, 19, 32, 33, 63}"
  unfolding MSTATUS_WRITE_MASK_def SSTATUS_MASK_def by (auto simp: bit_or_iff)

lemma bit_enter_S:
  "k < 64 \<Longrightarrow> bit (enter_S p st) k \<longleftrightarrow>
     (if k = 1 then False else if k = 5 then bit st 1 else if k = 8 then p = PrivMode_S else bit st k)"
  by (auto simp: enter_S_def bit_assign_def Let_def bit_simps)

lemma priv_cases_bits:
  "(p :: u8) \<in> {PrivMode_U, PrivMode_S, PrivMode_M} \<Longrightarrow> bit p j \<Longrightarrow> j < 2"
  using bit_pair[where 'a = 8, of 0 j] bit_flag[where 'a = 8, of 0 j] by auto

lemma bit_enter_M:
  assumes "k < 64" and p: "p \<in> {PrivMode_U, PrivMode_S, PrivMode_M}"
  shows "bit (enter_M p st) k \<longleftrightarrow>
     (if k = 3 then False else if k = 7 then bit st 3 else if k = 11 \<or> k = 12 then bit p (k - 11)
      else bit st k)"
proof -
  have "bit (push_bit 11 (ucast p :: u64)) k \<longleftrightarrow> (k = 11 \<or> k = 12) \<and> bit p (k - 11)"
    using priv_cases_bits[OF p, of "k - 11"] assms(1)
    by (auto simp: bit_push_bit_iff bit_ucast_iff dest: bit_imp_le_length)
  then show ?thesis
    using assms(1) by (auto simp: enter_M_def bit_assign_def Let_def bit_and_iff bit_or_iff bit_not_iff)
qed

lemma mret_mstatus:
  "k < 64 \<Longrightarrow> bit (mstatus (snd (mret s))) k \<longleftrightarrow>
     (if k = 3 then bit (mstatus s) 7 else if k = 7 then True else if k = 11 \<or> k = 12 then False
      else bit (mstatus s) k)"
  by (auto simp: mret_def bit_assign_def Let_def bit_simps)

lemma mret_priv:
  "bit (priv (snd (mret s))) k \<longleftrightarrow> k < 2 \<and> bit (mstatus s) (11 + k)"
  by (auto simp: mret_def bit_assign_def Let_def bit_simps dest: bit_imp_le_length)

lemma sret_mstatus:
  "k < 64 \<Longrightarrow> bit (mstatus (snd (sret s))) k \<longleftrightarrow>
     (if k = 1 then bit (mstatus s) 5 else if k = 5 then True else if k = 8 then False
      else bit (mstatus s) k)"
  by (auto simp: sret_def bit_assign_def Let_def bit_simps)

lemma sret_priv: "priv (snd (sret s)) = (if bit (mstatus s) 8 then PrivMode_S else PrivMode_U)"
  by (auto simp: sret_def bit_assign_def Let_def bit_simps)

section \<open>Field-by-field effect of a write\<close>

lemma unat_csr_req_priv: "unat (csr_req_priv addr) = unat addr div 256 mod 4"
proof -
  have "drop_bit 8 addr AND 3 = take_bit 2 (drop_bit 8 addr)"
    by (simp add: take_bit_eq_mask mask_eq_exp_minus_1)
  then have "csr_req_priv addr = ucast (take_bit 2 (drop_bit 8 addr))" by (simp only: csr_req_priv_def)
  then have "unat (csr_req_priv addr) = take_bit 2 (drop_bit 8 (unat addr))"
    by (simp add: unsigned_ucast_eq unsigned_take_bit_eq unat_drop_bit_eq)
  then show ?thesis by (simp add: take_bit_eq_mod drop_bit_eq_div)
qed

lemma req_priv_machine: "0x300 \<le> addr \<Longrightarrow> addr \<le> 0x3FF \<Longrightarrow> csr_req_priv addr = PrivMode_M"
  using unat_csr_req_priv[of addr] by (auto simp: word_le_nat_alt intro!: word_unat_eq_iff[THEN iffD2])

lemma csr_write_priv: "priv (snd (csr_write a v s)) = priv s"
  by (simp add: csr_write_def)

lemma csr_write_misa: "misa (snd (csr_write a v s)) = misa s"
  by (simp add: csr_write_def)

lemma csr_write_medeleg: "medeleg (snd (csr_write a v s)) \<in> {medeleg s, v AND MEDELEG_MASK}"
  by (simp add: csr_write_def)

lemma csr_write_mideleg: "mideleg (snd (csr_write a v s)) \<in> {mideleg s, v AND MIDELEG_MASK}"
  by (simp add: csr_write_def)

lemma csr_write_mie: "mie (snd (csr_write a v s)) \<in>
     {mie s, v AND MIE_MASK, (mie s AND NOT (mideleg s)) OR (v AND mideleg s)}"
  by (simp add: csr_write_def)

lemma csr_write_mtvec: "mtvec (snd (csr_write a v s)) \<in> {mtvec s, v AND NOT 2}"
  by (simp add: csr_write_def)

lemma csr_write_stvec: "stvec (snd (csr_write a v s)) \<in> {stvec s, v AND NOT 2}"
  by (simp add: csr_write_def)

lemma csr_write_mcounteren: "mcounteren (snd (csr_write a v s)) \<in> {mcounteren s, v AND 0xFFFFFFFF}"
  by (simp add: csr_write_def)

lemma csr_write_scounteren: "scounteren (snd (csr_write a v s)) \<in> {scounteren s, v AND 0x7}"
  by (simp add: csr_write_def)

lemma csr_write_satp: "drop_bit 60 (satp (snd (csr_write a v s))) \<in> {drop_bit 60 (satp s), 0, 8}"
  by (simp add: csr_write_def)

lemma csr_write_pmpcfg: "length (pmpcfg (snd (csr_write a v s))) = length (pmpcfg s)"
  by (simp add: csr_write_def)

lemma csr_write_pmpaddr: "length (pmpaddr (snd (csr_write a v s))) = length (pmpaddr s)"
  by (simp add: csr_write_def)

lemma csr_write_mstatus: "mstatus (snd (csr_write a v s)) \<in>
     {mstatus s, (mstatus s AND NOT MSTATUS_WRITE_MASK) OR (v AND MSTATUS_WRITE_MASK),
      (mstatus s AND NOT SSTATUS_MASK) OR (v AND SSTATUS_MASK)}"
  by (simp add: csr_write_def)

lemmas csr_write_fields = csr_write_priv
  csr_write_misa
  csr_write_medeleg
  csr_write_mideleg
  csr_write_mie
  csr_write_mtvec
  csr_write_stvec
  csr_write_mcounteren
  csr_write_scounteren
  csr_write_satp
  csr_write_pmpcfg
  csr_write_pmpaddr
  csr_write_mstatus

lemma csr_write_fcsr:
  "fcsr (snd (csr_write a v s)) \<in> {fcsr s, (fcsr s AND NOT 0x1F) OR (v AND 0x1F),
     (fcsr s AND NOT 0xE0) OR push_bit 5 (v AND 0x7), v AND 0xFF}"
  by (simp add: csr_write_def)

section \<open>The mask invariant\<close>

definition csr_wf :: "CSR_File \<Rightarrow> bool" where
  "csr_wf s \<longleftrightarrow>
     medeleg s AND MEDELEG_MASK = medeleg s \<and> mideleg s AND MIDELEG_MASK = mideleg s \<and>
     mie s AND MIE_MASK = mie s \<and> \<not> bit (mtvec s) 1 \<and> \<not> bit (stvec s) 1 \<and>
     (drop_bit 60 (satp s) = 0 \<or> drop_bit 60 (satp s) = 8) \<and> priv s \<le> PrivMode_M \<and>
     \<not> bit (mstatus s) 34 \<and> bit (mstatus s) 35 \<and>
     length (pmpcfg s) = 4 \<and> length (pmpaddr s) = 16"

inductive csr_step :: "CSR_File \<Rightarrow> CSR_File \<Rightarrow> bool" where
  step_write: "csr_step s (snd (csr_write addr val s))"
| step_tick: "csr_step s (tick_counters n s)"
| step_exception: "csr_step s (snd (take_exception cause epc tval s))"
| step_interrupt: "csr_step s (snd (take_interrupt cause epc s))"
| step_fflags: "csr_step s (set_fflags flags s)"
| step_mret: "csr_step s (snd (mret s))"
| step_sret: "csr_step s (snd (sret s))"
| step_lines: "csr_step s (s\<lparr>mip := lines\<rparr>)"

inductive_cases csr_stepE: "csr_step s t"

lemma mask_absorb: "w AND m = (w :: 'a::len word) \<longleftrightarrow> (\<forall>k. bit w k \<longrightarrow> bit m k)"
  by (auto simp: bit_eq_iff bit_and_iff dest: bit_imp_le_length)

lemma mideleg_in_mie: "d AND MIDELEG_MASK = d \<Longrightarrow> d AND MIE_MASK = d"
proof -
  assume "d AND MIDELEG_MASK = d"
  moreover have "MIDELEG_MASK AND MIE_MASK = MIDELEG_MASK" by (simp add: MIDELEG_MASK_def MIE_MASK_def)
  ultimately show ?thesis by (metis and.assoc)
qed

lemma mie_write_masked:
  assumes "e AND MIE_MASK = e" "d AND MIDELEG_MASK = d"
  shows "((e AND NOT d) OR (v AND d)) AND MIE_MASK = (e AND NOT d) OR (v AND d)"
  using assms(1) mideleg_in_mie[OF assms(2)] unfolding mask_absorb by (auto simp: bit_simps)

lemma and_not_2_bit: "\<not> bit (v AND NOT 2 :: u64) 1"
  using bit_flag[where 'a = 64, of 1 1] by (simp add: bit_and_iff bit_not_iff)

lemma csr_write_wf:
  assumes wf: "csr_wf s" shows "csr_wf (snd (csr_write a v s))"
proof -
  note f = csr_write_fields[where a = a and v = v and s = s]
  have "mie (snd (csr_write a v s)) AND MIE_MASK = mie (snd (csr_write a v s))"
    using f(5) wf mie_write_masked[of "mie s" "mideleg s" v] by (auto simp: csr_wf_def)
  moreover have "bit (mstatus (snd (csr_write a v s))) 35" "\<not> bit (mstatus (snd (csr_write a v s))) 34"
    using f(13) wf by (auto simp: csr_wf_def bit_simps bit_masks)
  moreover have "\<not> bit (mtvec (snd (csr_write a v s))) 1" "\<not> bit (stvec (snd (csr_write a v s))) 1"
    using f(6,7) wf and_not_2_bit[of v] by (auto simp: csr_wf_def)
  ultimately show ?thesis
    using wf f(1,3,4,10-12) unfolding csr_wf_def by auto
qed

lemma trap_entry_wf:
  assumes "csr_wf s"
  shows "csr_wf (snd (take_exception c e t s))" "csr_wf (snd (take_interrupt c e s))"
proof -
  have p: "p \<le> PrivMode_M \<Longrightarrow> bit (enter_M p st) 34 = bit st 34 \<and> bit (enter_M p st) 35 = bit st 35" for p :: u8 and st
  proof -
    assume "p \<le> PrivMode_M"
    then have "unat p \<le> 3" by (simp add: word_le_nat_alt)
    then have "\<not> bit p 23" "\<not> bit p 24" by (auto dest: bit_imp_le_length)
    then show ?thesis
      by (auto simp: enter_M_def bit_assign_def Let_def bit_and_iff bit_or_iff bit_not_iff bit_push_bit_iff bit_ucast_iff)
  qed
  show "csr_wf (snd (take_exception c e t s))" "csr_wf (snd (take_interrupt c e s))"
    using assms p[of "priv s" "mstatus s"]
    by (auto simp: csr_wf_def take_exception_def take_interrupt_def Let_def bit_enter_S)
qed

lemma mret_priv_le: "priv (snd (mret s)) \<le> PrivMode_M"
proof -
  have "take_bit 2 (priv (snd (mret s))) = priv (snd (mret s))"
    by (rule bit_word_eqI) (auto simp: bit_take_bit_iff mret_priv)
  then have "unat (priv (snd (mret s))) < 2 ^ 2"
    by (metis take_bit_nat_less_exp unsigned_take_bit_eq)
  then show ?thesis by (simp add: word_le_nat_alt)
qed

lemma trap_return_wf:
  assumes "csr_wf s" shows "csr_wf (snd (mret s))" "csr_wf (snd (sret s))"
proof -
  have "medeleg (snd (mret s)) = medeleg s" "mideleg (snd (mret s)) = mideleg s"
    "mie (snd (mret s)) = mie s" "mtvec (snd (mret s)) = mtvec s" "stvec (snd (mret s)) = stvec s"
    "satp (snd (mret s)) = satp s" "pmpcfg (snd (mret s)) = pmpcfg s" "pmpaddr (snd (mret s)) = pmpaddr s"
    by (simp_all add: mret_def Let_def)
  then show "csr_wf (snd (mret s))"
    using assms mret_priv_le[of s] by (simp add: csr_wf_def mret_mstatus)
  have "medeleg (snd (sret s)) = medeleg s" "mideleg (snd (sret s)) = mideleg s"
    "mie (snd (sret s)) = mie s" "mtvec (snd (sret s)) = mtvec s" "stvec (snd (sret s)) = stvec s"
    "satp (snd (sret s)) = satp s" "pmpcfg (snd (sret s)) = pmpcfg s" "pmpaddr (snd (sret s)) = pmpaddr s"
    by (simp_all add: sret_def Let_def)
  then show "csr_wf (snd (sret s))"
    using assms by (simp add: csr_wf_def sret_mstatus sret_priv)
qed

lemma csr_step_wf: "csr_step s t \<Longrightarrow> csr_wf s \<Longrightarrow> csr_wf t"
  by (erule csr_stepE)
    (auto simp: csr_write_wf trap_entry_wf trap_return_wf, auto simp: csr_wf_def tick_counters_def set_fflags_def)

lemma CSR_File_init_wf: "csr_wf CSR_File_init"
  by (simp add: csr_wf_def CSR_File_init_def)

section \<open>Properties\<close>

text \<open>C30: In every state the register file can reach by any sequence of writes, counter ticks,
  traps, returns, flag accumulation and changes of the interrupt lines, the masked
  registers hold only legal values: delegation and enable bits stay inside their
  masks, trap-vector modes are direct or vectored, satp selects Bare or Sv39, SXL
  stays 2, and the PMP arrays keep their size.\<close>
theorem csr_masks_invariant:
  "csr_step\<^sup>*\<^sup>* CSR_File_init s \<Longrightarrow> csr_wf s"
  by (induction rule: rtranclp_induct) (auto intro: csr_step_wf CSR_File_init_wf)

theorem csr_masks_invariant_witness:
  "csr_wf (snd (csr_write 0x304 0xFFFF (snd (csr_write 0x303 0xFFFF CSR_File_init))))"
  using csr_masks_invariant[OF rtranclp.rtrancl_into_rtrancl
      [OF r_into_rtranclp[of csr_step, OF step_write] step_write]] .

end
