(* ===== verification/CSR_Props.thy ===== *)
theory CSR_Props
  imports CSR_File
begin

unbundle bit_operations_syntax

text \<open>
  Properties of the control and status registers: trap entry and return are
  inverse, lower privilege cannot affect machine state, interrupt arbitration is
  sound and complete, and physical memory protection decides by the first
  matching region.
\<close>

text \<open>C17: Trap entry and return are inverse.  After any exception from a legal mode, the matching
  return instruction (sret after a delegated trap, mret otherwise) restores the
  interrupted mode, the program counter and the interrupt-enable bit, and leaves every
  other mstatus bit except the previous-state fields as it was; the trap itself runs
  at no lower privilege and with interrupts of its level disabled.\<close>
theorem exception_return_roundtrip:
  assumes p: "priv s \<in> {PrivMode_U, PrivMode_S, PrivMode_M}"
  shows "let (vec, s1) = take_exception cause epc tval s;
             to_S = (cause < 64 \<and> bit (medeleg s) (unat cause) \<and> priv s \<noteq> PrivMode_M);
             (pc, s2) = (if to_S then sret s1 else mret s1)
         in priv s1 = (if to_S then PrivMode_S else PrivMode_M) \<and> priv s \<le> priv s1 \<and>
            \<not> bit (mstatus s1) (if to_S then 1 else 3) \<and>
            pc = epc \<and> priv s2 = priv s \<and>
            (\<forall>k. k \<notin> (if to_S then {5, 8} else {7, 11, 12}) \<longrightarrow> bit (mstatus s2) k = bit (mstatus s) k)"
proof (cases "cause < 64 \<and> bit (medeleg s) (unat cause) \<and> priv s \<noteq> PrivMode_M")
  case True
  define s1 where "s1 = snd (take_exception cause epc tval s)"
  have t: "take_exception cause epc tval s = (trap_vector (stvec s) cause, s1)"
    and st: "mstatus s1 = enter_S (priv s) (mstatus s)" and m: "priv s1 = PrivMode_S" "sepc s1 = epc"
    using True by (auto simp: s1_def take_exception_def Let_def drop_bit_and_1)
  have r: "priv (snd (sret s1)) = priv s" using p True by (auto simp: sret_priv st bit_enter_S)
  have b: "bit (mstatus (snd (sret s1))) k = bit (mstatus s) k" if "k \<notin> {5, 8}" for k
  proof (cases "k < 64")
    case True
    then show ?thesis using that by (simp add: sret_mstatus st bit_enter_S)
  next
    case False
    then show ?thesis by (auto dest!: bit_imp_le_length)
  qed
  have pc: "fst (sret s1) = epc" using m by (simp add: sret_def Let_def)
  show ?thesis
    using True p t m r b pc by (auto simp: Let_def st bit_enter_S case_prod_unfold)
next
  case False
  define s1 where "s1 = snd (take_exception cause epc tval s)"
  have t: "take_exception cause epc tval s = (trap_vector (mtvec s) cause, s1)"
    and st: "mstatus s1 = enter_M (priv s) (mstatus s)" and m: "priv s1 = PrivMode_M" "mepc s1 = epc"
    using False by (auto simp: s1_def take_exception_def Let_def drop_bit_and_1)
  have r: "priv (snd (mret s1)) = priv s"
  proof (rule bit_word_eqI)
    fix k show "bit (priv (snd (mret s1))) k = bit (priv s) k"
      using priv_cases_bits[OF p, of k] by (auto simp: mret_priv st bit_enter_M[OF _ p] less_2_cases_iff)
  qed
  have b: "bit (mstatus (snd (mret s1))) k = bit (mstatus s) k" if "k \<notin> {7, 11, 12}" for k
  proof (cases "k < 64")
    case True
    then show ?thesis using that by (simp add: mret_mstatus st bit_enter_M[OF _ p])
  next
    case False
    then show ?thesis by (auto dest!: bit_imp_le_length)
  qed
  have pc: "fst (mret s1) = epc" using m by (simp add: mret_def Let_def)
  show ?thesis
    using False p t m r b pc by (auto simp: Let_def st bit_enter_M[OF _ p] case_prod_unfold)
qed

theorem exception_return_roundtrip_witness:
  "priv CSR_File_init \<in> {PrivMode_U, PrivMode_S, PrivMode_M} \<and>
   priv (snd (mret (snd (take_exception 2 0x80000000 0 CSR_File_init)))) = PrivMode_M"
proof -
  have p: "priv CSR_File_init \<in> {PrivMode_U, PrivMode_S, PrivMode_M}" by (simp add: CSR_File_init_def)
  have "\<not> (priv CSR_File_init \<noteq> PrivMode_M)" by (simp add: CSR_File_init_def)
  then show ?thesis
    using exception_return_roundtrip[where cause = 2 and epc = "0x80000000" and tval = 0, OF p] p
    by (auto simp: Let_def case_prod_unfold)
qed

lemma csr_write_refused: "case csr_write a v s of (ok, t) \<Rightarrow> ok \<or> t = s"
  by (simp add: csr_write_def)

lemma low_write_addr:
  assumes p: "priv s \<in> {PrivMode_U, PrivMode_S}" and ok: "\<not> priv s < csr_req_priv addr"
  shows "addr \<notin> {0x300, 0x301, 0x302, 0x303, 0x304, 0x305, 0x306, 0x30A, 0x340, 0x341, 0x342, 0x343,
           0x344, 0xB00, 0xB02}"
    and "\<not> (0x3A0 \<le> addr \<and> addr \<le> 0x3A3)" "\<not> (0x3B0 \<le> addr \<and> addr \<le> 0x3BF)"
proof -
  have hi: "\<not> (0x300 \<le> addr \<and> addr \<le> 0x3FF)"
    using p ok req_priv_machine[of addr] by auto
  have "csr_req_priv 0xB00 = PrivMode_M" "csr_req_priv 0xB02 = PrivMode_M"
    by (simp_all add: csr_req_priv_def)
  then have "addr \<noteq> 0xB00 \<and> addr \<noteq> 0xB02" using p ok by auto
  then show "addr \<notin> {0x300, 0x301, 0x302, 0x303, 0x304, 0x305, 0x306, 0x30A, 0x340, 0x341, 0x342, 0x343,
           0x344, 0xB00, 0xB02}"
    using hi by auto
  show "\<not> (0x3A0 \<le> addr \<and> addr \<le> 0x3A3)" "\<not> (0x3B0 \<le> addr \<and> addr \<le> 0x3BF)"
    using hi by (auto simp: word_le_nat_alt)
qed

definition machine_part :: "CSR_File \<Rightarrow> CSR_File" where
  "machine_part s = s\<lparr>mstatus := 0, mie := 0, mip := 0, stvec := 0, scounteren := 0, sscratch := 0,
     sepc := 0, scause := 0, stval := 0, satp := 0, fcsr := 0\<rparr>"

lemma machine_part_fields:
  assumes "machine_part t = machine_part s"
  shows "mtvec t = mtvec s \<and> mepc t = mepc s \<and> mcause t = mcause s \<and> mtval t = mtval s \<and>
     mscratch t = mscratch s \<and> medeleg t = medeleg s \<and> mideleg t = mideleg s \<and>
     mcounteren t = mcounteren s \<and> menvcfg t = menvcfg s \<and> mcycle t = mcycle s \<and>
     minstret t = minstret s \<and> pmpcfg t = pmpcfg s \<and> pmpaddr t = pmpaddr s"
  using assms by (cases s; cases t) (simp add: machine_part_def)

lemma low_write_machine_part:
  assumes p: "priv s \<in> {PrivMode_U, PrivMode_S}"
  shows "machine_part (snd (csr_write addr val s)) = machine_part s"
proof (cases "priv s < csr_req_priv addr")
  case True
  then show ?thesis by (simp add: csr_write_def)
next
  case False
  have m: "machine_part (s\<lparr>mstatus := x\<rparr>) = machine_part s" "machine_part (s\<lparr>mie := x\<rparr>) = machine_part s"
    "machine_part (s\<lparr>mip := x\<rparr>) = machine_part s" "machine_part (s\<lparr>stvec := x\<rparr>) = machine_part s"
    "machine_part (s\<lparr>scounteren := x\<rparr>) = machine_part s" "machine_part (s\<lparr>sscratch := x\<rparr>) = machine_part s"
    "machine_part (s\<lparr>sepc := x\<rparr>) = machine_part s" "machine_part (s\<lparr>scause := x\<rparr>) = machine_part s"
    "machine_part (s\<lparr>stval := x\<rparr>) = machine_part s" "machine_part (s\<lparr>satp := x\<rparr>) = machine_part s"
    "machine_part (s\<lparr>fcsr := x\<rparr>) = machine_part s" for x
    by (simp_all add: machine_part_def)
  have "addr \<noteq> 0x300" "addr \<noteq> 0x302" "addr \<noteq> 0x303" "addr \<noteq> 0x304" "addr \<noteq> 0x305" "addr \<noteq> 0x306"
    "addr \<noteq> 0x30A" "addr \<noteq> 0x340" "addr \<noteq> 0x341" "addr \<noteq> 0x342" "addr \<noteq> 0x343" "addr \<noteq> 0x344"
    "addr \<noteq> 0xB00" "addr \<noteq> 0xB02" "\<not> (0x3A0 \<le> addr \<and> addr \<le> 0x3A3)" "\<not> (0x3B0 \<le> addr \<and> addr \<le> 0x3BF)"
    using low_write_addr[OF p False] by auto
  then show ?thesis using False by (simp only: csr_write_def if_False snd_conv if_distrib[of snd] if_distrib[of machine_part] m if_cancel)
qed

lemma low_write_views:
  assumes p: "priv s \<in> {PrivMode_U, PrivMode_S}"
  shows "mstatus (snd (csr_write addr val s)) \<in>
        {mstatus s, (mstatus s AND NOT SSTATUS_MASK) OR (val AND SSTATUS_MASK)}"
    and "mie (snd (csr_write addr val s)) \<in>
        {mie s, (mie s AND NOT (mideleg s)) OR (val AND mideleg s)}"
    and "mip (snd (csr_write addr val s)) \<in>
        {mip s, (mip s AND NOT (mideleg s AND MIP_SW_MASK)) OR (val AND mideleg s AND MIP_SW_MASK)}"
proof -
  have "csr_write addr val s = (False, s) \<or> addr \<notin> {0x300, 0x304, 0x344}"
    using low_write_addr(1)[OF p, of addr] by (cases "priv s < csr_req_priv addr") (auto simp: csr_write_def)
  then consider "csr_write addr val s = (False, s)" | "addr \<noteq> 0x300" "addr \<noteq> 0x304" "addr \<noteq> 0x344" by auto
  note c = this
  show "mstatus (snd (csr_write addr val s)) \<in>
        {mstatus s, (mstatus s AND NOT SSTATUS_MASK) OR (val AND SSTATUS_MASK)}"
    by (rule c) (simp, simp add: csr_write_def)
  show "mie (snd (csr_write addr val s)) \<in>
        {mie s, (mie s AND NOT (mideleg s)) OR (val AND mideleg s)}"
    by (rule c) (simp, simp add: csr_write_def)
  show "mip (snd (csr_write addr val s)) \<in>
        {mip s, (mip s AND NOT (mideleg s AND MIP_SW_MASK)) OR (val AND mideleg s AND MIP_SW_MASK)}"
    by (rule c) (simp, simp add: csr_write_def)
qed

text \<open>C18: Privilege isolation.  A register whose address requires a higher mode than the current
  one can be neither read nor written; a refused write changes nothing; and whatever
  is written from supervisor or user mode, the machine-mode state is untouched: trap
  vectors, delegation, PMP, counters and scratch registers, the mstatus bits outside
  the sstatus view, and the interrupt enable and pending bits that are not delegated.\<close>
theorem csr_privilege_isolation:
  "(priv s < csr_req_priv addr \<longrightarrow> csr_read addr s = None \<and> csr_write addr val s = (False, s)) \<and>
   (\<not> fst (csr_write addr val s) \<longrightarrow> snd (csr_write addr val s) = s) \<and>
   (priv s \<in> {PrivMode_U, PrivMode_S} \<longrightarrow>
     (let t = snd (csr_write addr val s) in
        mtvec t = mtvec s \<and> mepc t = mepc s \<and> mcause t = mcause s \<and> mtval t = mtval s \<and>
        mscratch t = mscratch s \<and> medeleg t = medeleg s \<and> mideleg t = mideleg s \<and>
        mcounteren t = mcounteren s \<and> menvcfg t = menvcfg s \<and> mcycle t = mcycle s \<and>
        minstret t = minstret s \<and> pmpcfg t = pmpcfg s \<and> pmpaddr t = pmpaddr s \<and>
        mstatus t AND NOT SSTATUS_MASK = mstatus s AND NOT SSTATUS_MASK \<and>
        mie t AND NOT (mideleg s) = mie s AND NOT (mideleg s) \<and>
        mip t AND NOT (mideleg s) = mip s AND NOT (mideleg s)))"
proof (intro conjI impI)
  show "csr_read addr s = None" "csr_write addr val s = (False, s)" if "priv s < csr_req_priv addr"
    using that by (simp_all add: csr_read_def csr_write_def)
  show "snd (csr_write addr val s) = s" if "\<not> fst (csr_write addr val s)"
    using that csr_write_refused[where a = addr and v = val and s = s] by (auto simp: case_prod_unfold)
next
  assume p: "priv s \<in> {PrivMode_U, PrivMode_S}"
  let ?t = "snd (csr_write addr val s)"
  have w: "(x AND NOT m OR v AND m) AND NOT m = x AND NOT m"
    "(x AND NOT (m AND n) OR v AND m AND n) AND NOT m = x AND NOT m" for x m n v :: u64
    by (auto intro: bit_word_eqI simp: bit_simps)
  show "let t = ?t in
        mtvec t = mtvec s \<and> mepc t = mepc s \<and> mcause t = mcause s \<and> mtval t = mtval s \<and>
        mscratch t = mscratch s \<and> medeleg t = medeleg s \<and> mideleg t = mideleg s \<and>
        mcounteren t = mcounteren s \<and> menvcfg t = menvcfg s \<and> mcycle t = mcycle s \<and>
        minstret t = minstret s \<and> pmpcfg t = pmpcfg s \<and> pmpaddr t = pmpaddr s \<and>
        mstatus t AND NOT SSTATUS_MASK = mstatus s AND NOT SSTATUS_MASK \<and>
        mie t AND NOT (mideleg s) = mie s AND NOT (mideleg s) \<and>
        mip t AND NOT (mideleg s) = mip s AND NOT (mideleg s)"
    using machine_part_fields[OF low_write_machine_part[OF p, of addr val]]
      low_write_views[OF p, of addr val] w
    by (auto simp: Let_def)
qed

theorem csr_privilege_isolation_witness:
  "csr_write 0x305 0x1000 (CSR_File_init\<lparr>priv := PrivMode_S\<rparr>) = (False, CSR_File_init\<lparr>priv := PrivMode_S\<rparr>)"
  using csr_privilege_isolation[where s = "CSR_File_init\<lparr>priv := PrivMode_S\<rparr>" and addr = "0x305" and val = "0x1000"]
  by (simp add: csr_req_priv_def)

lemma pending_interrupt_alt:
  "pending_interrupt s =
     (let m_on = (priv s \<noteq> PrivMode_M \<or> bit (mstatus s) 3);
          s_on = (priv s = PrivMode_U \<or> (priv s = PrivMode_S \<and> bit (mstatus s) 1));
          raised = (\<lambda>b. bit (mip s) b \<and> bit (mie s) b);
          deleg = bit (mideleg s)
      in if m_on \<and> raised 11 \<and> \<not> deleg 11 then 11
         else if m_on \<and> raised 3 \<and> \<not> deleg 3 then 3
         else if m_on \<and> raised 7 \<and> \<not> deleg 7 then 7
         else if s_on \<and> raised 9 \<and> deleg 9 then 9
         else if s_on \<and> raised 1 \<and> deleg 1 then 1
         else if s_on \<and> raised 5 \<and> deleg 5 then 5
         else -1)"
proof (cases "mip s AND mie s = 0")
  case True
  then have nr: "(bit (mip s) b \<and> bit (mie s) b) = False" for b
    by (metis bit_0_eq bit_and_iff bot_apply bot_bool_def)
  show ?thesis unfolding pending_interrupt_def Let_def by (simp only: True nr if_True simp_thms if_False)
next
  case False
  then have nz: "(mip s AND mie s = 0) = False" by simp
  show ?thesis
    unfolding pending_interrupt_def Let_def drop_bit_and_1 bit_and_iff test_MSTATUS not_not nz if_False
    by (rule refl)
qed

lemma mideleg_only_S:
  assumes "csr_wf s" shows "\<not> bit (mideleg s) 11" "\<not> bit (mideleg s) 3" "\<not> bit (mideleg s) 7"
proof -
  have "mideleg s AND 0x222 = mideleg s" using assms by (simp add: csr_wf_def MIDELEG_MASK_def)
  then have "bit (mideleg s) k \<Longrightarrow> bit (0x222 :: u64) k" for k by (metis bit_and_iff)
  moreover have "\<not> bit (0x222 :: u64) 11" "\<not> bit (0x222 :: u64) 3" "\<not> bit (0x222 :: u64) 7" by simp_all
  ultimately show "\<not> bit (mideleg s) 11" "\<not> bit (mideleg s) 3" "\<not> bit (mideleg s) 7" by blast+
qed

lemma take_interrupt_priv:
  "priv (snd (take_interrupt c epc s)) =
     (if bit (mideleg s) (unat c) \<and> priv s \<noteq> PrivMode_M then PrivMode_S else PrivMode_M)"
  by (simp add: take_interrupt_def Let_def drop_bit_and_1)

text \<open>C31: Interrupt arbitration is sound and complete.  A reported cause is pending and enabled,
  goes to supervisor mode only when delegated and never while machine mode runs, and
  taking it never lowers the privilege; in a reachable state, no interrupt is reported
  exactly when no machine interrupt and no delegated supervisor interrupt is pending,
  enabled and unmasked.\<close>
theorem pending_interrupt_sound_complete:
  assumes wf: "csr_wf s"
  shows "let c = pending_interrupt s;
             m_on = (priv s \<noteq> PrivMode_M \<or> bit (mstatus s) 3);
             s_on = (priv s = PrivMode_U \<or> (priv s = PrivMode_S \<and> bit (mstatus s) 1));
             raised = (\<lambda>b. bit (mip s) b \<and> bit (mie s) b)
         in (c \<noteq> -1 \<longrightarrow> c \<in> {11, 3, 7, 9, 1, 5} \<and> raised (nat c) \<and>
               (if bit (mideleg s) (nat c) then s_on \<and> priv s \<noteq> PrivMode_M else m_on) \<and>
               priv s \<le> priv (snd (take_interrupt (of_int c) epc s))) \<and>
            (c = -1 \<longleftrightarrow> \<not> (m_on \<and> (raised 11 \<or> raised 3 \<or> raised 7)) \<and>
                \<not> (s_on \<and> (\<exists>b \<in> {9, 1, 5}. raised b \<and> bit (mideleg s) b)))"
proof -
  define m_on where "m_on = (priv s \<noteq> PrivMode_M \<or> bit (mstatus s) 3)"
  define s_on where "s_on = (priv s = PrivMode_U \<or> (priv s = PrivMode_S \<and> bit (mstatus s) 1))"
  define raised where "raised = (\<lambda>b. bit (mip s) b \<and> bit (mie s) b)"
  note sub = mideleg_only_S[OF wf]
  have le: "priv s \<le> PrivMode_M" using wf by (simp add: csr_wf_def)
  have so: "s_on \<Longrightarrow> priv s \<le> PrivMode_S \<and> priv s \<noteq> PrivMode_M" by (auto simp: s_on_def)
  have c: "pending_interrupt s =
      (if m_on \<and> raised 11 then 11 else if m_on \<and> raised 3 then 3 else if m_on \<and> raised 7 then 7
       else if s_on \<and> raised 9 \<and> bit (mideleg s) 9 then 9
       else if s_on \<and> raised 1 \<and> bit (mideleg s) 1 then 1
       else if s_on \<and> raised 5 \<and> bit (mideleg s) 5 then 5 else -1)"
    using sub unfolding pending_interrupt_alt Let_def m_on_def[symmetric] s_on_def[symmetric] raised_def
    by simp
  show ?thesis
    unfolding Let_def m_on_def[symmetric] s_on_def[symmetric]
    unfolding raised_def[THEN fun_cong, symmetric] take_interrupt_priv c
    using sub so le by (simp add: raised_def)
qed

theorem pending_interrupt_sound_complete_witness:
  "csr_wf (CSR_File_init\<lparr>mie := 0x80, mip := 0x80, priv := PrivMode_U\<rparr>) \<and>
   pending_interrupt (CSR_File_init\<lparr>mie := 0x80, mip := 0x80, priv := PrivMode_U\<rparr>) \<noteq> -1"
proof -
  let ?s = "CSR_File_init\<lparr>mie := 0x80, mip := 0x80, priv := PrivMode_U\<rparr>"
  have wf: "csr_wf ?s" by (simp add: csr_wf_def CSR_File_init_def MIE_MASK_def)
  have "bit (mip ?s) 7 \<and> bit (mie ?s) 7 \<and> priv ?s \<noteq> PrivMode_M" by simp
  then show ?thesis using pending_interrupt_sound_complete[where epc = 0, OF wf] wf unfolding Let_def by blast
qed

end
