(* ===== verification/PMP_Props.thy ===== *)
theory PMP_Props
  imports CSR_File
begin

unbundle bit_operations_syntax

text \<open>
  Physical memory protection (pmp_check of src/inc/CSR_File.h): the decision is
  made by the lowest-numbered active region that contains the access, and a NAPOT
  region is exactly the naturally aligned block its address register encodes.
\<close>

lemma napot_log2sz_run:
  "\<forall>j < k. bit a j \<Longrightarrow> \<not> bit a k \<Longrightarrow> l + k < 64 \<Longrightarrow> napot_log2sz l a = l + k"
proof (induction k arbitrary: l a)
  case 0
  then have "a AND 1 \<noteq> 1" by (auto simp: and_one_eq bit_0 odd_iff_mod_2_eq_one)
  then show ?case by (simp add: napot_log2sz.simps)
next
  case (Suc k)
  have "bit a 0" using Suc.prems(1) by blast
  then have "a AND 1 = 1" by (simp add: and_one_eq bit_0 odd_iff_mod_2_eq_one)
  moreover have "napot_log2sz (l + 1) (drop_bit 1 a) = l + 1 + k"
    by (rule Suc.IH) (use Suc.prems in \<open>auto simp: bit_drop_bit_eq\<close>)
  ultimately show ?case using Suc.prems(3) by (subst napot_log2sz.simps) simp
qed

lemma pmp_scan_first:
  "pmp_scan s paddr n w x is \<longleftrightarrow>
     (case find (pmp_matches s paddr n) is of Some i \<Rightarrow> pmp_grant s w x i | None \<Rightarrow> priv s = PrivMode_M)"
  by (induction "is") auto

definition napot_base :: "u64 \<Rightarrow> nat \<Rightarrow> u64" where
  "napot_base a k = push_bit 2 a AND NOT (mask (k + 3))"

lemma pmp_region_napot:
  assumes "pmp_a s i = 3" "\<forall>j < k. bit (pmpaddr s ! i) j" "\<not> bit (pmpaddr s ! i) k" "k < 61"
  shows "pmp_region s i = (napot_base (pmpaddr s ! i) k, napot_base (pmpaddr s ! i) k + 2 ^ (k + 3))"
proof -
  have "napot_log2sz 3 (pmpaddr s ! i) = 3 + k" using assms by (intro napot_log2sz_run) auto
  then show ?thesis
    using assms(1,4) by (simp add: pmp_region_def napot_base_def Let_def mask_eq_exp_minus_1 add.commute)
qed

lemma div_block:
  assumes "0 < (m :: nat)" shows "p div m = q \<longleftrightarrow> m * q \<le> p \<and> p < m * q + m"
proof
  assume "p div m = q"
  then show "m * q \<le> p \<and> p < m * q + m"
    using dividend_less_times_div[OF assms, of p] by (auto simp: add.commute)
next
  assume "m * q \<le> p \<and> p < m * q + m"
  then show "p div m = q" by (intro div_nat_eqI) (simp_all add: mult.commute add.commute)
qed

lemma aligned_block:
  fixes b p :: u64
  assumes "unat b + 2 ^ n < 2 ^ 64" and al: "b AND mask n = 0"
  shows "b \<le> p \<and> p < b + 2 ^ n \<longleftrightarrow> drop_bit n p = drop_bit n b"
proof -
  have n: "n < 64" using assms(1) by (metis add_leD2 less_or_eq_imp_le nat_less_le not_less power_increasing_iff one_less_numeral_iff semiring_norm(76))
  have dv: "2 ^ n dvd unat b"
  proof -
    have "take_bit n b = 0" using al by (simp add: take_bit_eq_mask)
    then have "take_bit n (unat b) = 0" by (metis unsigned_0 unsigned_take_bit_eq)
    then show ?thesis by (simp add: take_bit_eq_mod mod_0_imp_dvd)
  qed
  have "unat (of_nat (2 ^ n) :: u64) = 2 ^ n" using assms(1) by (simp only: unat_of_nat) simp
  then have "unat (b + 2 ^ n) = unat b + 2 ^ n"
    using assms(1) n by (simp add: unat_word_ariths take_bit_eq_mod)
  moreover have "drop_bit n p = drop_bit n b \<longleftrightarrow> unat p div 2 ^ n = unat b div 2 ^ n"
    by (metis drop_bit_eq_div unat_drop_bit_eq word_unat_eq_iff)
  moreover obtain q where q: "unat b = 2 ^ n * q" using dv by (auto elim: dvdE)
  moreover have "unat p div 2 ^ n = q \<longleftrightarrow> 2 ^ n * q \<le> unat p \<and> unat p < 2 ^ n * q + 2 ^ n"
    by (rule div_block) simp
  ultimately show ?thesis by (auto simp: word_le_nat_alt word_less_nat_alt)
qed


definition pmp_demo :: CSR_File where
  "pmp_demo = CSR_File_init\<lparr>pmpcfg := [0x1F, 0, 0, 0], pmpaddr := 0x200001FF # replicate 15 0, priv := PrivMode_S\<rparr>"


text \<open>C36: PMP decides by priority.  With no active entry every access is permitted; otherwise the
  lowest-numbered matching entry alone decides (machine mode bypasses it unless it is
  locked), and an access that matches no entry is permitted only in machine mode.\<close>
theorem pmp_check_first_match:
  "pmp_check paddr n w x s \<longleftrightarrow>
     (\<forall>i < 16. pmp_a s i = 0) \<or>
     (\<exists>i < 16. pmp_matches s paddr n i \<and> (\<forall>j < i. \<not> pmp_matches s paddr n j) \<and>
        ((priv s = PrivMode_M \<and> \<not> bit (pmp_cfg s i) 7) \<or>
         bit (pmp_cfg s i) (if x then 2 else if w then 1 else 0))) \<or>
     ((\<forall>i < 16. \<not> pmp_matches s paddr n i) \<and> priv s = PrivMode_M)"
proof -
  have ex: "list_ex (\<lambda>i. pmp_a s i \<noteq> 0) [0..<16] \<longleftrightarrow> \<not> (\<forall>i < 16. pmp_a s i = 0)"
    by (auto simp: list_ex_iff)
  have g: "pmp_grant s w x i \<longleftrightarrow> (priv s = PrivMode_M \<and> \<not> bit (pmp_cfg s i) 7) \<or>
         bit (pmp_cfg s i) (if x then 2 else if w then 1 else 0)" for i
    using drop_bit_and_1[of 0 "pmp_cfg s i"] by (auto simp: pmp_grant_def Let_def drop_bit_and_1)
  have all0: "\<forall>i < 16. pmp_a s i = 0 \<Longrightarrow> pmp_check paddr n w x s" by (simp add: pmp_check_def ex)
  show ?thesis
  proof (cases "find (pmp_matches s paddr n) [0..<16]")
    case None
    then have "\<forall>i < 16. \<not> pmp_matches s paddr n i" by (auto simp: find_None_iff)
    then show ?thesis using None all0 by (auto simp: pmp_check_def ex pmp_scan_first)
  next
    case (Some i)
    then have i: "i < 16" "pmp_matches s paddr n i" "\<forall>j < i. \<not> pmp_matches s paddr n j"
      by (auto simp: find_Some_iff)
    then have uniq: "j < 16 \<and> pmp_matches s paddr n j \<and> (\<forall>l < j. \<not> pmp_matches s paddr n l) \<longleftrightarrow> j = i" for j
      by (metis linorder_neqE_nat)
    have "pmp_a s i \<noteq> 0" using i(2) by (simp add: pmp_matches_def)
    then have "pmp_check paddr n w x s \<longleftrightarrow> pmp_grant s w x i"
      using Some i(1) by (auto simp: pmp_check_def ex pmp_scan_first)
    then show ?thesis using i uniq \<open>pmp_a s i \<noteq> 0\<close> unfolding g by (metis (no_types, lifting))
  qed
qed

definition pmp_tor_demo :: CSR_File where
  "pmp_tor_demo = CSR_File_init\<lparr>pmpcfg := [0x0B, 0, 0, 0], pmpaddr := 0x24000000 # replicate 15 0, priv := PrivMode_S\<rparr>"

theorem pmp_check_first_match_witness:
  "pmp_matches pmp_tor_demo 0x80000000 8 0 \<and> pmp_check 0x80000000 8 True False pmp_tor_demo"
proof -
  have "pmp_matches pmp_tor_demo 0x80000000 8 0"
    by (simp add: pmp_matches_def pmp_region_def pmp_a_def pmp_cfg_def pmp_tor_demo_def)
  moreover have "bit (pmp_cfg pmp_tor_demo 0) 1"
    by (simp add: pmp_cfg_def pmp_tor_demo_def)
  ultimately show ?thesis
    using pmp_check_first_match[of "0x80000000" 8 True False pmp_tor_demo] by force
qed

end
