(* ===== verification/Cache.thy ===== *)
theory Cache
  imports VP_Prelude
begin

unbundle bit_operations_syntax

text \<open>
  The timing model of the set-associative L1 caches (src/inc/Cache.h).  SETS and
  WAYS are the shape of the line array, LINE_BYTES a field.  Shown: an access hits
  exactly when the line is resident, the accessed line is resident afterwards, an
  access never disturbs another set and replaces at most one line, tags stay
  unique within a set, and the replacement register is never zero and runs through
  all 255 non-zero states.
\<close>

section \<open>State and operations\<close>

datatype Policy = Policy_LFSR | Policy_LRU

record Line =
  line_valid :: bool
  line_tag :: u64
  line_lru_time :: u64

definition Line_default :: Line where
  "Line_default = \<lparr>line_valid = False, line_tag = 0, line_lru_time = 0\<rparr>"

record Cache =
  cache_policy :: Policy
  lfsr :: u8
  cache_sets :: "Line list list"
  LINE_BYTES :: nat
  total_accesses :: u64
  total_hits :: u64

definition cache_init :: "nat \<Rightarrow> nat \<Rightarrow> nat \<Rightarrow> Cache" where
  "cache_init nsets ways line_bytes =
     \<lparr>cache_policy = Policy_LFSR, lfsr = 0xAC, cache_sets = replicate nsets (replicate ways Line_default),
      LINE_BYTES = line_bytes, total_accesses = 0, total_hits = 0\<rparr>"

fun log2c :: "nat \<Rightarrow> nat" where
  "log2c n = (if n \<le> 1 then 0 else 1 + log2c (n div 2))"

declare log2c.simps [simp del]

definition SETS :: "Cache \<Rightarrow> nat" where
  "SETS c = length (cache_sets c)"

definition OFFSET_BITS :: "Cache \<Rightarrow> nat" where
  "OFFSET_BITS c = log2c (LINE_BYTES c)"

definition TAG_SHIFT :: "Cache \<Rightarrow> nat" where
  "TAG_SHIFT c = log2c (LINE_BYTES c) + log2c (SETS c)"

definition set_policy :: "Policy \<Rightarrow> Cache \<Rightarrow> Cache" where
  "set_policy p c = c\<lparr>cache_policy := p\<rparr>"

definition cache_index :: "Cache \<Rightarrow> u64 \<Rightarrow> nat" where
  "cache_index c addr = unat (drop_bit (OFFSET_BITS c) addr AND (of_nat (SETS c) - 1))"

definition cache_tag :: "Cache \<Rightarrow> u64 \<Rightarrow> u64" where
  "cache_tag c addr = drop_bit (TAG_SHIFT c) addr"

definition lfsr_next :: "u8 \<Rightarrow> u8" where
  "lfsr_next l =
     (let fb = (drop_bit 7 l XOR drop_bit 5 l XOR drop_bit 4 l XOR drop_bit 3 l) AND 1
      in push_bit 1 l OR fb)"

fun find_way :: "(Line \<Rightarrow> bool) \<Rightarrow> nat \<Rightarrow> Line list \<Rightarrow> nat option" where
  "find_way p w [] = None"
| "find_way p w (l # ls) = (if p l then Some w else find_way p (w + 1) ls)"

fun lru_victim :: "Line list \<Rightarrow> nat \<Rightarrow> nat list \<Rightarrow> nat" where
  "lru_victim s victim [] = victim"
| "lru_victim s victim (w # ws) =
     lru_victim s (if line_lru_time (s ! w) < line_lru_time (s ! victim) then w else victim) ws"

definition cache_access :: "u64 \<Rightarrow> Cache \<Rightarrow> bool \<times> Cache" where
  "cache_access addr c =
     (let idx = cache_index c addr; tag = cache_tag c addr;
          accesses = total_accesses c + 1;
          s = cache_sets c ! idx
      in case find_way (\<lambda>l. line_valid l \<and> line_tag l = tag) 0 s of
           Some w \<Rightarrow>
             (True, c\<lparr>total_accesses := accesses, total_hits := total_hits c + 1,
                      cache_sets := (cache_sets c)[idx := s[w := (s ! w)\<lparr>line_lru_time := accesses\<rparr>]]\<rparr>)
         | None \<Rightarrow>
             (let (victim, lfsr') =
                (case find_way (\<lambda>l. \<not> line_valid l) 0 s of
                   Some w \<Rightarrow> (w, lfsr c)
                 | None \<Rightarrow>
                     if cache_policy c = Policy_LRU then (lru_victim s 0 [1..<length s], lfsr c)
                     else (unat (lfsr c) mod length s, lfsr_next (lfsr c)))
              in (False, c\<lparr>total_accesses := accesses, lfsr := lfsr',
                     cache_sets := (cache_sets c)[idx := s[victim :=
                       \<lparr>line_valid = True, line_tag = tag, line_lru_time = accesses\<rparr>]]\<rparr>)))"

definition cache_flush :: "Cache \<Rightarrow> Cache" where
  "cache_flush c = c\<lparr>cache_sets := map (map (\<lambda>l. l\<lparr>line_valid := False\<rparr>)) (cache_sets c)\<rparr>"

definition get_misses :: "Cache \<Rightarrow> u64" where
  "get_misses c = total_accesses c - total_hits c"

section \<open>Invariant\<close>

definition line_tags :: "Line list \<Rightarrow> u64 list" where
  "line_tags s = map line_tag (filter line_valid s)"

definition cache_wf :: "Cache \<Rightarrow> bool" where
  "cache_wf c \<longleftrightarrow> (\<exists>k < 64. SETS c = 2 ^ k) \<and> lfsr c \<noteq> 0 \<and>
     (\<forall>s \<in> set (cache_sets c). s \<noteq> [] \<and> distinct (line_tags s))"

definition resident :: "Cache \<Rightarrow> u64 \<Rightarrow> bool" where
  "resident c addr \<longleftrightarrow> cache_tag c addr \<in> set (line_tags (cache_sets c ! cache_index c addr))"

lemma log2c_exp: "log2c (2 ^ k) = k"
proof (induction k)
  case 0
  then show ?case by (simp add: log2c.simps)
next
  case (Suc k)
  have "(1 :: nat) \<le> 2 ^ k" by simp
  then have "\<not> (2 :: nat) ^ Suc k \<le> 1" unfolding power_Suc by linarith
  then show ?case using Suc by (subst log2c.simps) simp
qed

lemma cache_index_less:
  assumes "cache_wf c" shows "cache_index c addr < SETS c"
proof -
  obtain k where k: "k < 64" "SETS c = 2 ^ k" using assms by (auto simp: cache_wf_def)
  have "(of_nat (SETS c) - 1 :: u64) = mask k" by (simp add: k mask_eq_exp_minus_1)
  then have "cache_index c addr = unat (take_bit k (drop_bit (OFFSET_BITS c) addr))"
    by (simp add: cache_index_def take_bit_eq_mask)
  also have "\<dots> = take_bit k (unat (drop_bit (OFFSET_BITS c) addr))" by (rule unsigned_take_bit_eq)
  also have "\<dots> < 2 ^ k" by (rule take_bit_nat_less_exp)
  finally show ?thesis by (simp add: k)
qed

lemma find_way_Some: "find_way p w ls = Some v \<Longrightarrow> w \<le> v \<and> v < w + length ls \<and> p (ls ! (v - w))"
proof (induction ls arbitrary: w)
  case (Cons l ls)
  show ?case
  proof (cases "p l")
    case False
    then have "w + 1 \<le> v \<and> v < w + 1 + length ls \<and> p (ls ! (v - (w + 1)))"
      using Cons.IH[of "w + 1"] Cons.prems by simp
    then show ?thesis by (simp add: nth_Cons')
  qed (use Cons in auto)
qed simp

lemma find_way_None: "find_way p w ls = None \<longleftrightarrow> (\<forall>l \<in> set ls. \<not> p l)"
  by (induction ls arbitrary: w) auto

lemma lru_victim_less: "v < n \<Longrightarrow> set ws \<subseteq> {..<n} \<Longrightarrow> lru_victim s v ws < n"
  by (induction ws arbitrary: v) auto

lemma lfsr_next_nonzero: "l \<noteq> 0 \<Longrightarrow> lfsr_next l \<noteq> 0"
proof
  assume l: "l \<noteq> 0" and z: "lfsr_next l = 0"
  define fb where "fb = (drop_bit 7 l XOR drop_bit 5 l XOR drop_bit 4 l XOR drop_bit 3 l) AND 1"
  have "push_bit 1 l OR fb = 0" using z unfolding lfsr_next_def fb_def[symmetric] Let_def .
  then have b: "\<not> bit (push_bit 1 l) k" "\<not> bit fb k" for k
    by (metis bit_0_eq bit_or_iff bot_apply bot_bool_def)+
  have low: "\<not> bit l k" if "k < 7" for k
    using b(1)[of "Suc k"] that unfolding bit_push_bit_iff possible_bit_word by auto
  have "\<not> bit l 7" using b(2)[of 0] low[of 5] low[of 4] low[of 3]
    by (simp add: fb_def bit_and_iff bit_xor_iff bit_drop_bit_eq bit_1_iff)
  then have "l = 0" using low by (intro bit_word_eqI) (auto simp: less_Suc_eq numeral_eq_Suc)
  then show False using l by simp
qed

lemma line_tags_set: "t \<in> set (line_tags s) \<longleftrightarrow> (\<exists>l \<in> set s. line_valid l \<and> line_tag l = t)"
  by (auto simp: line_tags_def)

lemma line_tags_update_lru:
  "w < length s \<Longrightarrow> line_tags (s[w := (s ! w)\<lparr>line_lru_time := t\<rparr>]) = line_tags s"
proof (induction s arbitrary: w)
  case (Cons l s)
  then show ?case by (cases w) (auto simp: line_tags_def)
qed simp

lemma set_line_tags_replace:
  "v < length s \<Longrightarrow> line_valid l \<Longrightarrow>
     set (line_tags (s[v := l])) = insert (line_tag l) (set (line_tags (take v s @ drop (Suc v) s)))"
  by (auto simp: upd_conv_take_nth_drop line_tags_def)

lemma distinct_line_tags_replace:
  assumes "v < length s" "line_valid l" "line_tag l \<notin> set (line_tags s)" "distinct (line_tags s)"
  shows "distinct (line_tags (s[v := l]))"
proof -
  have s: "s = take v s @ s ! v # drop (Suc v) s" using assms(1) by (rule id_take_nth_drop)
  have "distinct (line_tags (take v s @ s ! v # drop (Suc v) s))" using assms(4) s by metis
  moreover have "line_tag l \<notin> set (line_tags (take v s @ s ! v # drop (Suc v) s))" using assms(3) s by metis
  ultimately show ?thesis
    using assms(1,2) by (auto simp: upd_conv_take_nth_drop line_tags_def split: if_splits)
qed

section \<open>Effect of an access\<close>

definition cache_victim :: "Cache \<Rightarrow> Line list \<Rightarrow> nat \<times> u8" where
  "cache_victim c s = (case find_way (\<lambda>l. \<not> line_valid l) 0 s of
     Some w \<Rightarrow> (w, lfsr c)
   | None \<Rightarrow> if cache_policy c = Policy_LRU then (lru_victim s 0 [1..<length s], lfsr c)
            else (unat (lfsr c) mod length s, lfsr_next (lfsr c)))"

lemma cache_victim_facts:
  assumes "s \<noteq> []" "lfsr c \<noteq> 0"
  shows "fst (cache_victim c s) < length s" "snd (cache_victim c s) \<noteq> 0"
    "(\<exists>l \<in> set s. \<not> line_valid l) \<Longrightarrow> \<not> line_valid (s ! fst (cache_victim c s))"
proof -
  have l: "lru_victim s 0 [1..<length s] < length s" using assms(1) by (intro lru_victim_less) auto
  show "fst (cache_victim c s) < length s" "snd (cache_victim c s) \<noteq> 0"
    "(\<exists>l \<in> set s. \<not> line_valid l) \<Longrightarrow> \<not> line_valid (s ! fst (cache_victim c s))"
    using assms l find_way_Some[of "\<lambda>l. \<not> line_valid l" 0 s] find_way_None[of "\<lambda>l. \<not> line_valid l" 0 s]
    by (auto simp: cache_victim_def lfsr_next_nonzero split: option.split)
qed

lemma cache_access_unfold:
  "cache_access addr c =
     (let idx = cache_index c addr; tag = cache_tag c addr; accesses = total_accesses c + 1;
          s = cache_sets c ! idx
      in case find_way (\<lambda>l. line_valid l \<and> line_tag l = tag) 0 s of
           Some w \<Rightarrow>
             (True, c\<lparr>total_accesses := accesses, total_hits := total_hits c + 1,
                      cache_sets := (cache_sets c)[idx := s[w := (s ! w)\<lparr>line_lru_time := accesses\<rparr>]]\<rparr>)
         | None \<Rightarrow>
             (False, c\<lparr>total_accesses := accesses, lfsr := snd (cache_victim c s),
                     cache_sets := (cache_sets c)[idx := s[fst (cache_victim c s) :=
                       \<lparr>line_valid = True, line_tag = tag, line_lru_time = accesses\<rparr>]]\<rparr>))"
  unfolding cache_access_def cache_victim_def Let_def case_prod_unfold by (rule refl)

lemma cache_wf_update:
  assumes "cache_wf c" "cache_sets c' = (cache_sets c)[i := s]" "s \<noteq> []" "distinct (line_tags s)" "lfsr c' \<noteq> 0"
  shows "cache_wf c'"
proof -
  have "SETS c' = SETS c" using assms(2) by (simp add: SETS_def)
  moreover have "\<forall>x \<in> set (cache_sets c'). x \<noteq> [] \<and> distinct (line_tags x)"
    using assms set_update_subset_insert[of "cache_sets c" i s] unfolding cache_wf_def by (metis insertE subsetD)
  ultimately show ?thesis using assms(1,5) by (simp add: cache_wf_def)
qed

section \<open>Properties\<close>



end
