(* ===== verification/TLM.thy ===== *)
theory TLM
  imports VP_Prelude
begin

text \<open>
  The TLM-2.0 generic payload as the platform uses it, and the outcomes of a
  simulation step that are not ordinary results.  The data buffer of a payload is
  the list of its bytes, its data length the length of that list; timing
  annotations are not modelled.
\<close>

datatype tlm_command = TLM_READ_COMMAND | TLM_WRITE_COMMAND

datatype tlm_response = TLM_INCOMPLETE_RESPONSE | TLM_OK_RESPONSE | TLM_ADDRESS_ERROR_RESPONSE
  | TLM_BURST_ERROR_RESPONSE | TLM_BYTE_ENABLE_ERROR_RESPONSE

record payload =
  p_cmd :: tlm_command
  p_address :: u64
  p_data :: "u8 list"
  p_byte_enable :: bool
  p_response :: tlm_response

text \<open>Abnormal ends of a step: SC_REPORT_ERROR (which throws), undefined behaviour of the C++
  source (an oversized shift, the signed overflow of a division, a read through an
  empty buffer, a conversion out of range), and running out of the fuel that bounds DMA re-entry.\<close>

datatype sim_error = SC_ERROR | UNDEFINED_BEHAVIOUR | OUT_OF_FUEL

definition rd_payload :: "u64 \<Rightarrow> nat \<Rightarrow> payload" where
  "rd_payload a n = \<lparr>p_cmd = TLM_READ_COMMAND, p_address = a, p_data = replicate n 0,
     p_byte_enable = False, p_response = TLM_INCOMPLETE_RESPONSE\<rparr>"

definition wr_payload :: "u64 \<Rightarrow> u8 list \<Rightarrow> payload" where
  "wr_payload a bs = \<lparr>p_cmd = TLM_WRITE_COMMAND, p_address = a, p_data = bs,
     p_byte_enable = False, p_response = TLM_INCOMPLETE_RESPONSE\<rparr>"

definition with_response :: "tlm_response \<Rightarrow> payload \<Rightarrow> payload" where
  "with_response r p = p\<lparr>p_response := r\<rparr>"

definition with_data :: "u8 list \<Rightarrow> payload \<Rightarrow> payload" where
  "with_data bs p = p\<lparr>p_data := bs @ drop (length bs) (p_data p)\<rparr>"

lemma with_response_simps [simp]:
  "p_cmd (with_response r p) = p_cmd p" "p_address (with_response r p) = p_address p"
  "p_data (with_response r p) = p_data p" "p_response (with_response r p) = r"
  "p_byte_enable (with_response r p) = p_byte_enable p"
  by (simp_all add: with_response_def)

lemma with_data_simps [simp]:
  "p_cmd (with_data bs p) = p_cmd p" "p_address (with_data bs p) = p_address p"
  "p_response (with_data bs p) = p_response p"
  "p_byte_enable (with_data bs p) = p_byte_enable p"
  "length bs \<le> length (p_data p) \<Longrightarrow> length (p_data (with_data bs p)) = length (p_data p)"
  "length bs = length (p_data p) \<Longrightarrow> p_data (with_data bs p) = bs"
  by (simp_all add: with_data_def)

end
