(* ===== verification/CLINT.thy ===== *)
theory CLINT
  imports TLM
begin

unbundle bit_operations_syntax

text \<open>
  The core-local interruptor (src/inc/CLINT.h).  \<^verbatim>\<open>m_update_event.notify()\<close>
  schedules \<^verbatim>\<open>update_irq_method\<close> in the same evaluation phase; the model keeps the
  notification as a flag that the method consumes.  Shown: the timer line agrees
  with the comparison mtime >= mtimecmp whenever no notification is outstanding,
  in every reachable state; the register interface round-trips in both access
  widths; and fast-forwarding fires the timer at the next tick.
\<close>

section \<open>State and operations\<close>

record CLINT =
  m_mtime :: u64
  m_mtimecmp :: u64
  m_msip :: u32
  timer_irq :: bool
  msip_irq :: bool
  m_update_event :: bool

definition clint_init :: CLINT where
  "clint_init = \<lparr>m_mtime = 0, m_mtimecmp = 0xFFFFFFFFFFFFFFFF, m_msip = 0, timer_irq = False,
     msip_irq = False, m_update_event = False\<rparr>"

definition clint_notify :: "CLINT \<Rightarrow> CLINT" where
  "clint_notify c = c\<lparr>m_update_event := True\<rparr>"

definition fast_forward_to_deadline :: "CLINT \<Rightarrow> u64 \<times> CLINT" where
  "fast_forward_to_deadline c =
     (if m_mtimecmp c \<noteq> 0xFFFFFFFFFFFFFFFF \<and> m_mtime c + 1 < m_mtimecmp c
      then (m_mtimecmp c - 1 - m_mtime c, clint_notify (c\<lparr>m_mtime := m_mtimecmp c - 1\<rparr>))
      else (0, c))"

definition update_irq_method :: "CLINT \<Rightarrow> CLINT" where
  "update_irq_method c = c\<lparr>timer_irq := (m_mtime c \<ge> m_mtimecmp c), m_update_event := False\<rparr>"

definition clint_tick :: "CLINT \<Rightarrow> CLINT" where
  "clint_tick c = clint_notify (c\<lparr>m_mtime := m_mtime c + 1\<rparr>)"

definition clint_write8 :: "u64 \<Rightarrow> u64 \<Rightarrow> CLINT \<Rightarrow> CLINT" where
  "clint_write8 addr val c =
     (if addr = 0x4000 then clint_notify (c\<lparr>m_mtimecmp := val\<rparr>)
      else if addr = 0xBFF8 then clint_notify (c\<lparr>m_mtime := val\<rparr>)
      else c)"

definition clint_read8 :: "u64 \<Rightarrow> CLINT \<Rightarrow> u64" where
  "clint_read8 addr c =
     (if addr = 0x4000 then m_mtimecmp c else if addr = 0xBFF8 then m_mtime c else 0)"

definition clint_write4 :: "u64 \<Rightarrow> u32 \<Rightarrow> CLINT \<Rightarrow> CLINT" where
  "clint_write4 addr value32 c =
     (if addr = 0x0000 then c\<lparr>m_msip := value32 AND 1, msip_irq := ((value32 AND 1) AND 1 \<noteq> 0)\<rparr>
      else if addr = 0x4000 then
        clint_notify (c\<lparr>m_mtimecmp := (m_mtimecmp c AND 0xFFFFFFFF00000000) OR ucast value32\<rparr>)
      else if addr = 0x4004 then
        clint_notify (c\<lparr>m_mtimecmp := (m_mtimecmp c AND 0xFFFFFFFF) OR push_bit 32 (ucast value32)\<rparr>)
      else if addr = 0xBFF8 then
        clint_notify (c\<lparr>m_mtime := (m_mtime c AND 0xFFFFFFFF00000000) OR ucast value32\<rparr>)
      else if addr = 0xBFFC then
        clint_notify (c\<lparr>m_mtime := (m_mtime c AND 0xFFFFFFFF) OR push_bit 32 (ucast value32)\<rparr>)
      else c)"

definition clint_read4 :: "u64 \<Rightarrow> CLINT \<Rightarrow> u32" where
  "clint_read4 addr c =
     (if addr = 0x0000 then m_msip c
      else if addr = 0x4000 then ucast (m_mtimecmp c AND 0xFFFFFFFF)
      else if addr = 0x4004 then ucast (drop_bit 32 (m_mtimecmp c))
      else if addr = 0xBFF8 then ucast (m_mtime c AND 0xFFFFFFFF)
      else if addr = 0xBFFC then ucast (drop_bit 32 (m_mtime c))
      else 0)"

definition clint_transport :: "payload \<Rightarrow> CLINT \<Rightarrow> payload \<times> CLINT" where
  "clint_transport tr c =
     (let addr = p_address tr; len = length (p_data tr);
          (tr, c) =
            (if len = 8 then
               (case p_cmd tr of
                  TLM_WRITE_COMMAND \<Rightarrow> (tr, clint_write8 addr (of_bytes (p_data tr)) c)
                | TLM_READ_COMMAND \<Rightarrow> (with_data (to_bytes 8 (clint_read8 addr c)) tr, c))
             else if len = 4 then
               (case p_cmd tr of
                  TLM_WRITE_COMMAND \<Rightarrow> (tr, clint_write4 addr (of_bytes (p_data tr)) c)
                | TLM_READ_COMMAND \<Rightarrow> (with_data (to_bytes 4 (clint_read4 addr c)) tr, c))
             else (tr, c))
      in (with_response TLM_OK_RESPONSE tr, c))"

section \<open>Properties\<close>

inductive clint_step :: "CLINT \<Rightarrow> CLINT \<Rightarrow> bool" where
  clint_step_tick: "clint_step c (clint_tick c)"
| clint_step_transport: "clint_step c (snd (clint_transport t c))"
| clint_step_forward: "clint_step c (snd (fast_forward_to_deadline c))"
| clint_step_settle: "m_update_event c \<Longrightarrow> clint_step c (update_irq_method c)"

inductive_cases clint_stepE: "clint_step c d"

definition clint_coherent :: "CLINT \<Rightarrow> bool" where
  "clint_coherent c \<longleftrightarrow> (m_update_event c \<or> timer_irq c = (m_mtimecmp c \<le> m_mtime c)) \<and>
     (msip_irq c \<longleftrightarrow> m_msip c = 1) \<and> m_msip c \<in> {0, 1}"

lemma clint_coherent_notify: "clint_coherent (clint_notify c) \<longleftrightarrow> (msip_irq c \<longleftrightarrow> m_msip c = 1) \<and> m_msip c \<in> {0, 1}"
  by (simp add: clint_coherent_def clint_notify_def)

lemma and_1_cases: "(w :: 'a::len word) AND 1 = 0 \<or> w AND 1 = 1"
  by (simp add: and_one_eq mod_2_eq_odd)

lemma clint_write_coherent:
  assumes "clint_coherent c"
  shows "clint_coherent (clint_write8 a v c)" "clint_coherent (clint_write4 a w c)"
  using assms and_1_cases[of w]
  by (auto simp: clint_write8_def clint_write4_def clint_coherent_notify)
    (auto simp: clint_coherent_def)

lemma clint_transport_coherent: "clint_coherent c \<Longrightarrow> clint_coherent (snd (clint_transport t c))"
  by (auto simp: clint_transport_def Let_def clint_write_coherent split: tlm_command.splits prod.splits)

lemma clint_step_coherent:
  assumes "clint_step c d" "clint_coherent c" shows "clint_coherent d"
  using assms(1)
proof (cases rule: clint_step.cases)
  case (clint_step_forward)
  then show ?thesis using assms(2)
    by (auto simp: fast_forward_to_deadline_def clint_coherent_notify) (auto simp: clint_coherent_def)
next
  case (clint_step_transport t)
  then show ?thesis using assms(2) by (simp add: clint_transport_coherent)
qed (use assms(2) in \<open>auto simp: clint_tick_def clint_notify_def update_irq_method_def clint_coherent_def\<close>)

text \<open>In every reachable state of the interruptor in which no update is outstanding, the
  timer line is high exactly when mtime has reached mtimecmp, and the software
  interrupt line always equals the msip bit.\<close>
theorem clint_lines_coherent:
  assumes "clint_step\<^sup>*\<^sup>* clint_init c" "\<not> m_update_event c"
  shows "timer_irq c = (m_mtimecmp c \<le> m_mtime c) \<and> (msip_irq c \<longleftrightarrow> m_msip c = 1)"
proof -
  have "clint_coherent c"
    using assms(1)
    by (induction rule: rtranclp_induct) (auto intro: clint_step_coherent, simp add: clint_coherent_def clint_init_def)
  then show ?thesis using assms(2) by (auto simp: clint_coherent_def)
qed

theorem clint_lines_coherent_witness:
  "let c = update_irq_method (clint_tick clint_init) in
     \<not> m_update_event c \<and> timer_irq c = (m_mtimecmp c \<le> m_mtime c) \<and> (msip_irq c \<longleftrightarrow> m_msip c = 1)"
proof -
  have "clint_step\<^sup>*\<^sup>* clint_init (update_irq_method (clint_tick clint_init))"
    by (rule rtranclp.rtrancl_into_rtrancl[OF r_into_rtranclp[of clint_step, OF clint_step_tick]])
      (rule clint_step_settle, simp add: clint_tick_def clint_notify_def)
  from clint_lines_coherent[OF this] show ?thesis by (simp add: Let_def update_irq_method_def)
qed

lemma clint_transport_wr:
  "snd (clint_transport (wr_payload a (to_bytes 8 (v :: u64))) c) = clint_write8 a v c"
  "snd (clint_transport (wr_payload a (to_bytes 4 (w :: u32))) c) = clint_write4 a w c"
  by (simp_all add: clint_transport_def wr_payload_def of_bytes_full)

lemma clint_transport_rd:
  "p_data (fst (clint_transport (rd_payload a 8) c)) = to_bytes 8 (clint_read8 a c)"
  "p_data (fst (clint_transport (rd_payload a 4) c)) = to_bytes 4 (clint_read4 a c)"
  by (simp_all add: clint_transport_def rd_payload_def)

lemma word_halves:
  fixes v w :: u64
  shows "(((w AND 0xFFFFFFFF00000000) OR ucast (ucast v :: u32)) AND 0xFFFFFFFF)
     OR push_bit 32 (ucast (ucast (drop_bit 32 v) :: u32)) = v"
    and "ucast (v AND 0xFFFFFFFF) = (ucast v :: u32)"
proof -
  have m: "(0xFFFFFFFF :: u64) = mask 32" by (simp add: mask_eq_exp_minus_1)
  have n: "(0xFFFFFFFF00000000 :: u64) = NOT (mask 32)" by (simp add: mask_eq_exp_minus_1)
  show "(((w AND 0xFFFFFFFF00000000) OR ucast (ucast v :: u32)) AND 0xFFFFFFFF)
     OR push_bit 32 (ucast (ucast (drop_bit 32 v) :: u32)) = v"
    unfolding m n
    by (rule bit_word_eqI)
      (auto simp: bit_or_iff bit_and_iff bit_not_iff bit_mask_iff bit_push_bit_iff bit_ucast_iff
        bit_drop_bit_eq not_less)
  show "ucast (v AND 0xFFFFFFFF) = (ucast v :: u32)"
    unfolding m by (rule bit_word_eqI) (auto simp: bit_and_iff bit_mask_iff bit_ucast_iff)
qed

text \<open>The timer registers round-trip over the bus interface in both access widths: an 8-byte
  write reads back as written, as one 8-byte or as two 4-byte reads, and a low and a
  high 4-byte write together set the full 64-bit register.\<close>
theorem clint_register_roundtrip:
  fixes v :: u64
  assumes "(lo, hi) \<in> {(0x4000, 0x4004), (0xBFF8, 0xBFFC)}"
  shows "let c8 = snd (clint_transport (wr_payload lo (to_bytes 8 v)) c);
             c44 = snd (clint_transport (wr_payload hi (to_bytes 4 (ucast (drop_bit 32 v) :: u32)))
                     (snd (clint_transport (wr_payload lo (to_bytes 4 (ucast v :: u32))) c)))
         in p_data (fst (clint_transport (rd_payload lo 8) c8)) = to_bytes 8 v \<and>
            p_data (fst (clint_transport (rd_payload lo 4) c8)) = to_bytes 4 (ucast v :: u32) \<and>
            p_data (fst (clint_transport (rd_payload hi 4) c8)) = to_bytes 4 (ucast (drop_bit 32 v) :: u32) \<and>
            p_data (fst (clint_transport (rd_payload lo 8) c44)) = to_bytes 8 v"
  using assms word_halves
  by (auto simp: Let_def clint_transport_wr clint_transport_rd clint_write8_def clint_write4_def
      clint_read8_def clint_read4_def clint_notify_def)

theorem clint_register_roundtrip_witness:
  "p_data (fst (clint_transport (rd_payload 0x4000 8)
     (snd (clint_transport (wr_payload 0x4000 (to_bytes 8 (0x123456789ABCDEF0 :: u64))) clint_init))))
   = to_bytes 8 (0x123456789ABCDEF0 :: u64)"
  using clint_register_roundtrip[of "0x4000" "0x4004" "0x123456789ABCDEF0" clint_init] by (simp add: Let_def)

text \<open>Fast-forwarding never overshoots and makes the timer due: if it skips, time has advanced
  by exactly the reported number of ticks, the deadline has not been reached yet, and
  one further tick followed by the update raises the timer line.\<close>
theorem fast_forward_fires_next_tick:
  assumes "fast_forward_to_deadline c = (skip, c')" "skip \<noteq> 0"
  shows "m_mtime c' = m_mtime c + skip \<and> m_mtime c' < m_mtimecmp c' \<and> m_mtimecmp c' = m_mtimecmp c \<and>
     timer_irq (update_irq_method (clint_tick c'))"
proof -
  have d: "m_mtime c + 1 < m_mtimecmp c" "skip = m_mtimecmp c - 1 - m_mtime c"
    "c' = clint_notify (c\<lparr>m_mtime := m_mtimecmp c - 1\<rparr>)"
    using assms by (auto simp: fast_forward_to_deadline_def split: if_splits)
  then have "m_mtimecmp c \<noteq> 0" by auto
  then have "m_mtimecmp c - 1 < m_mtimecmp c" by (simp add: word_less_nat_alt unat_minus_one unat_gt_0)
  then show ?thesis
    by (simp add: d clint_notify_def clint_tick_def update_irq_method_def)
qed

theorem fast_forward_fires_next_tick_witness:
  "let c = clint_init\<lparr>m_mtimecmp := 4000\<rparr> in
     fst (fast_forward_to_deadline c) = 3999 \<and>
     timer_irq (update_irq_method (clint_tick (snd (fast_forward_to_deadline c))))"
proof -
  let ?c = "clint_init\<lparr>m_mtimecmp := 4000\<rparr>"
  have "fst (fast_forward_to_deadline ?c) = 3999" by (simp add: fast_forward_to_deadline_def clint_init_def)
  then show ?thesis
    using fast_forward_fires_next_tick[of ?c 3999 "snd (fast_forward_to_deadline ?c)"]
    by (simp add: Let_def prod_eq_iff)
qed

end
