(* ===== verification/PLIC.thy ===== *)
theory PLIC
  imports TLM
begin

unbundle bit_operations_syntax

text \<open>
  The platform-level interrupt controller (src/inc/PLIC.h) with 32 sources.  The
  deferred output process is a flag set when the interrupt state changes and
  consumed by \<^verbatim>\<open>update_output_process\<close>.  Completing an id of 32 or more shifts a
  32-bit one by at least its width, undefined behaviour in C++, which the model
  reports.  Shown: a claim returns the pending, enabled source of highest priority
  above the threshold (the lowest id on a tie) and clears exactly its pending bit,
  a level source is raised again on completion, and after raise, level change,
  claim and completion the interrupt state is the documented one.
\<close>

section \<open>State and operations\<close>

abbreviation MAX_SOURCES :: nat where "MAX_SOURCES \<equiv> 32"

record PLIC =
  priorities :: "u32 list"
  pending_bits :: u32
  enabled_bits :: u32
  threshold :: u32
  claim_complete :: u32
  level_bits :: u32
  m_irq_state :: bool
  m_update_irq_event :: bool
  irq_out :: bool

definition plic_init :: PLIC where
  "plic_init = \<lparr>priorities = replicate MAX_SOURCES 0, pending_bits = 0, enabled_bits = 0, threshold = 0,
     claim_complete = 0, level_bits = 0, m_irq_state = False, m_update_irq_event = False, irq_out = False\<rparr>"

definition plic_active :: "PLIC \<Rightarrow> nat \<Rightarrow> bool" where
  "plic_active s i \<longleftrightarrow> pending_bits s AND push_bit i 1 \<noteq> 0 \<and> enabled_bits s AND push_bit i 1 \<noteq> 0"

definition update_irq_out :: "PLIC \<Rightarrow> PLIC" where
  "update_irq_out s =
     (let target_state = list_ex (\<lambda>i. plic_active s i \<and> priorities s ! i > threshold s) [1..<MAX_SOURCES]
      in if target_state \<noteq> m_irq_state s
         then s\<lparr>m_irq_state := target_state, m_update_irq_event := True\<rparr> else s)"

definition update_output_process :: "PLIC \<Rightarrow> PLIC" where
  "update_output_process s = s\<lparr>irq_out := m_irq_state s, m_update_irq_event := False\<rparr>"

definition plic_raise :: "u32 \<Rightarrow> PLIC \<Rightarrow> PLIC" where
  "plic_raise src_id s =
     (if src_id > 0 \<and> unat src_id < MAX_SOURCES
      then update_irq_out (s\<lparr>pending_bits := pending_bits s OR push_bit (unat src_id) 1\<rparr>) else s)"

definition set_irq_level :: "u32 \<Rightarrow> bool \<Rightarrow> PLIC \<Rightarrow> PLIC" where
  "set_irq_level src_id active s =
     (if src_id = 0 \<or> unat src_id \<ge> MAX_SOURCES then s
      else if active
      then update_irq_out (s\<lparr>level_bits := level_bits s OR push_bit (unat src_id) 1,
                            pending_bits := pending_bits s OR push_bit (unat src_id) 1\<rparr>)
      else update_irq_out (s\<lparr>level_bits := level_bits s AND NOT (push_bit (unat src_id) 1),
                            pending_bits := pending_bits s AND NOT (push_bit (unat src_id) 1)\<rparr>))"

fun claim_loop :: "PLIC \<Rightarrow> u32 \<Rightarrow> u32 \<Rightarrow> nat list \<Rightarrow> u32" where
  "claim_loop s best best_prio [] = best"
| "claim_loop s best best_prio (i # is) =
     (if plic_active s i \<and> priorities s ! i > best_prio \<and> priorities s ! i > threshold s
      then claim_loop s (of_nat i) (priorities s ! i) is
      else claim_loop s best best_prio is)"

definition plic_claim :: "PLIC \<Rightarrow> u32 \<times> PLIC" where
  "plic_claim s =
     (let best = claim_loop s 0 0 [1..<MAX_SOURCES];
          s = s\<lparr>claim_complete := best\<rparr>;
          s = (if best \<noteq> 0 then s\<lparr>pending_bits := pending_bits s AND NOT (push_bit (unat best) 1)\<rparr> else s)
      in (best, update_irq_out s))"

definition plic_complete :: "u32 \<Rightarrow> PLIC \<Rightarrow> sim_error + PLIC" where
  "plic_complete data s =
     (if unat data \<ge> 32 then Inl UNDEFINED_BEHAVIOUR
      else let s = s\<lparr>pending_bits := pending_bits s AND NOT (push_bit (unat data) 1), claim_complete := 0\<rparr>;
               s = (if data > 0 \<and> unat data < MAX_SOURCES \<and> level_bits s AND push_bit (unat data) 1 \<noteq> 0
                    then s\<lparr>pending_bits := pending_bits s OR push_bit (unat data) 1\<rparr> else s)
           in Inr (update_irq_out s))"

definition plic_transport :: "payload \<Rightarrow> PLIC \<Rightarrow> sim_error + payload \<times> PLIC" where
  "plic_transport tr s =
     (let addr = p_address tr; write = (p_cmd tr = TLM_WRITE_COMMAND) in
      if length (p_data tr) \<noteq> 4 then Inr (with_response TLM_BURST_ERROR_RESPONSE tr, s)
      else
        let data = (if write then of_bytes (p_data tr) else 0);
            finish = (\<lambda>data s. Inr (with_response TLM_OK_RESPONSE
                        (if write then tr else with_data (to_bytes 4 data) tr), s))
        in if addr < 0x1000 then
             (let idx = unat (addr div 4) in
              if idx < MAX_SOURCES then
                if write then finish data (s\<lparr>priorities := (priorities s)[idx := data AND 0x7]\<rparr>)
                else finish (priorities s ! idx) s
              else finish data s)
           else if addr = 0x1000 then finish (if write then data else pending_bits s) s
           else if addr = 0x2000 then
             (if write then finish data (s\<lparr>enabled_bits := data\<rparr>) else finish (enabled_bits s) s)
           else if addr = 0x200000 then
             (if write then finish data (s\<lparr>threshold := data AND 0x7\<rparr>) else finish (threshold s) s)
           else if addr = 0x200004 then
             (if write then (case plic_complete data s of Inl e \<Rightarrow> Inl e | Inr s \<Rightarrow> finish data s)
              else let (best, s) = plic_claim s in finish best s)
           else finish data s)"

section \<open>Claim arbitration\<close>

definition plic_eligible :: "PLIC \<Rightarrow> nat \<Rightarrow> bool" where
  "plic_eligible s i \<longleftrightarrow> bit (pending_bits s) i \<and> bit (enabled_bits s) i \<and> priorities s ! i > threshold s"

lemma plic_active_bits: "plic_active s i \<longleftrightarrow> bit (pending_bits s) i \<and> bit (enabled_bits s) i"
  unfolding plic_active_def and_push_bit_1 by (rule refl)

definition claim_best :: "PLIC \<Rightarrow> nat set \<Rightarrow> nat \<Rightarrow> bool" where
  "claim_best s A b \<longleftrightarrow>
     (if \<exists>i \<in> A. plic_eligible s i
      then b \<in> A \<and> plic_eligible s b \<and>
           (\<forall>i \<in> A. plic_eligible s i \<longrightarrow> priorities s ! i < priorities s ! b \<or> (priorities s ! i = priorities s ! b \<and> b \<le> i))
      else b = 0)"

lemma claim_loop_best:
  assumes "m \<le> 32" "1 \<le> k" "k \<le> m" "claim_best s {1..<k} b" "b < 32"
    "p = (if b = 0 then 0 else priorities s ! b)"
  shows "claim_best s {1..<m} (unat (claim_loop s (of_nat b) p [k..<m]))
     \<and> unat (claim_loop s (of_nat b) p [k..<m]) < 32"
  using assms
proof (induction "m - k" arbitrary: k b p)
  case 0
  then show ?case by (simp add: unat_of_nat)
next
  case (Suc d)
  then have km: "k < m" "k < 32" by auto
  let ?c = "plic_active s k \<and> priorities s ! k > p \<and> priorities s ! k > threshold s"
  have up: "[k..<m] = k # [Suc k..<m]" using km by (simp add: upt_rec)
  have ins: "{1..<Suc k} = insert k {1..<k}" using Suc.prems by auto
  have b0: "b = 0 \<longleftrightarrow> \<not> (\<exists>i \<in> {1..<k}. plic_eligible s i)"
    using Suc.prems(4) by (auto simp: claim_best_def split: if_splits)
  show ?case
  proof (cases ?c)
    case True
    then have el: "plic_eligible s k" by (simp add: plic_eligible_def plic_active_bits)
    have "priorities s ! i < priorities s ! k" if "i \<in> {1..<k}" "plic_eligible s i" for i
    proof -
      have "b \<noteq> 0" using that b0 by blast
      then have "priorities s ! i \<le> priorities s ! b"
        using Suc.prems(4) that by (auto simp: claim_best_def split: if_splits)
      then show ?thesis using True Suc.prems(6) \<open>b \<noteq> 0\<close> by (auto intro: le_less_trans)
    qed
    then have "claim_best s {1..<Suc k} k" using el Suc.prems(2) unfolding ins claim_best_def by auto
    then show ?thesis
      using Suc.hyps(1)[of "Suc k" k "priorities s ! k"] Suc.hyps(2) Suc.prems km True by (simp add: up)
  next
    case False
    have "claim_best s {1..<Suc k} b"
    proof (cases "plic_eligible s k")
      case el: True
      then have le: "priorities s ! k \<le> p" and pos: "0 < priorities s ! k"
        using False by (auto simp: plic_eligible_def plic_active_bits word_gt_0)
      then have "b \<noteq> 0" using Suc.prems(6) by (cases "b = 0") auto
      then have "b \<in> {1..<k}" "plic_eligible s b" "priorities s ! k \<le> priorities s ! b"
        using Suc.prems(4,6) b0 le by (auto simp: claim_best_def split: if_splits)
      then have bb: "b \<in> {1..<Suc k}" "plic_eligible s b"
        "priorities s ! k < priorities s ! b \<or> (priorities s ! k = priorities s ! b \<and> b \<le> k)"
        by (auto simp: le_less)
      have "\<forall>i \<in> {1..<k}. plic_eligible s i \<longrightarrow>
          priorities s ! i < priorities s ! b \<or> (priorities s ! i = priorities s ! b \<and> b \<le> i)"
        using Suc.prems(4) \<open>b \<noteq> 0\<close> unfolding claim_best_def by (metis (no_types, lifting))
      then show ?thesis using bb unfolding claim_best_def ins by (metis (no_types, lifting) insert_iff)
    next
      case False
      then show ?thesis
        using Suc.prems(4) unfolding ins claim_best_def by (metis (no_types, lifting) insert_iff)
    qed
    moreover have "claim_loop s (of_nat b) p [k..<m] = claim_loop s (of_nat b) p [Suc k..<m]"
      using False by (simp only: up claim_loop.simps if_False)
    moreover have "d = m - Suc k" using Suc.hyps(2) by simp
    ultimately show ?thesis
      using Suc.hyps(1)[of "Suc k" b p] Suc.prems km by (simp only: Suc_leI le_SucI)
  qed
qed

lemma claim_loop_all:
  "claim_best s {1..<32} (unat (claim_loop s 0 0 [1..<32])) \<and> unat (claim_loop s 0 0 [1..<32]) < 32"
proof -
  have "claim_best s {1..<1} 0" by (simp add: claim_best_def)
  then show ?thesis using claim_loop_best[of 32 1 s 0 0] by simp
qed

lemma update_irq_out_simps [simp]:
  "pending_bits (update_irq_out s) = pending_bits s" "enabled_bits (update_irq_out s) = enabled_bits s"
  "priorities (update_irq_out s) = priorities s" "threshold (update_irq_out s) = threshold s"
  "level_bits (update_irq_out s) = level_bits s" "claim_complete (update_irq_out s) = claim_complete s"
  by (simp_all add: update_irq_out_def Let_def)

definition plic_should_interrupt :: "PLIC \<Rightarrow> bool" where
  "plic_should_interrupt s \<longleftrightarrow> (\<exists>i \<in> {1..<32}. plic_eligible s i)"

lemma plic_should_interrupt_update [simp]:
  "plic_should_interrupt (update_irq_out s) = plic_should_interrupt s"
  by (simp add: plic_should_interrupt_def plic_eligible_def)

lemma update_irq_out_state: "m_irq_state (update_irq_out s) = plic_should_interrupt s"
proof -
  have "list_ex (\<lambda>i. plic_active s i \<and> priorities s ! i > threshold s) [1..<32] = plic_should_interrupt s"
    by (auto simp: list_ex_iff plic_should_interrupt_def plic_eligible_def plic_active_bits)
  then show ?thesis by (simp add: update_irq_out_def Let_def)
qed

lemma bit_clear: "bit (w AND NOT (2 ^ i) :: 'a::len word) k \<longleftrightarrow> bit w k \<and> k \<noteq> i"
  by (auto simp: bit_and_iff bit_not_iff bit_exp_iff dest: bit_imp_le_length)

lemma bit_set: "bit (w OR 2 ^ i :: 'a::len word) k \<longleftrightarrow> bit w k \<or> (k = i \<and> i < LENGTH('a))"
  by (auto simp: bit_or_iff bit_exp_iff)

section \<open>Properties\<close>

text \<open>C25: A claim arbitrates correctly: it returns 0 exactly when no pending and enabled source has a
  priority above the threshold, and otherwise such a source of maximal priority, the
  lowest-numbered one on a tie; it clears the pending bit of the claimed source and of
  no other, and leaves the interrupt state recomputed.\<close>
theorem plic_claim_arbitration:
  "let (best, t) = plic_claim s; b = unat best in
     (best = 0 \<longleftrightarrow> \<not> plic_should_interrupt s) \<and>
     (plic_should_interrupt s \<longrightarrow> b \<in> {1..<32} \<and> plic_eligible s b \<and>
        (\<forall>i \<in> {1..<32}. plic_eligible s i \<longrightarrow>
           priorities s ! i < priorities s ! b \<or> (priorities s ! i = priorities s ! b \<and> b \<le> i))) \<and>
     (\<forall>k. bit (pending_bits t) k \<longleftrightarrow> bit (pending_bits s) k \<and> (best = 0 \<or> k \<noteq> b)) \<and>
     m_irq_state t = plic_should_interrupt t"
proof -
  let ?b = "claim_loop s 0 0 [1..<32]"
  define u where "u = (let s = s\<lparr>claim_complete := ?b\<rparr> in
     if ?b \<noteq> 0 then s\<lparr>pending_bits := pending_bits s AND NOT (push_bit (unat ?b) 1)\<rparr> else s)"
  have run: "plic_claim s = (?b, update_irq_out u)" by (simp add: plic_claim_def u_def Let_def)
  have cb: "claim_best s {1..<32} (unat ?b)" using claim_loop_all by blast
  then have z: "?b = 0 \<longleftrightarrow> \<not> plic_should_interrupt s"
    by (auto simp: claim_best_def plic_should_interrupt_def unat_eq_0 split: if_splits)
  have best: "plic_should_interrupt s \<Longrightarrow> unat ?b \<in> {1..<32} \<and> plic_eligible s (unat ?b) \<and>
      (\<forall>i \<in> {1..<32}. plic_eligible s i \<longrightarrow> priorities s ! i < priorities s ! unat ?b \<or>
         (priorities s ! i = priorities s ! unat ?b \<and> unat ?b \<le> i))"
    using cb unfolding claim_best_def plic_should_interrupt_def by (metis (no_types, lifting))
  have pend: "bit (pending_bits u) k \<longleftrightarrow> bit (pending_bits s) k \<and> (?b = 0 \<or> k \<noteq> unat ?b)" for k
    unfolding u_def Let_def by (cases "?b = 0") (simp_all add: bit_clear)
  show ?thesis
    unfolding run Let_def prod.case
    using z best pend by (simp only: update_irq_out_state update_irq_out_simps plic_should_interrupt_update) blast
qed

theorem plic_claim_arbitration_witness:
  "let s = plic_init\<lparr>priorities := (replicate 32 0)[3 := 2, 5 := 6], pending_bits := 0x28, enabled_bits := 0x28\<rparr>
   in plic_should_interrupt s \<and> unat (fst (plic_claim s)) \<in> {1..<32}"
proof -
  let ?s = "plic_init\<lparr>priorities := (replicate 32 0)[3 := 2, 5 := 6], pending_bits := 0x28, enabled_bits := 0x28\<rparr>"
  have "plic_eligible ?s 5" by (simp add: plic_eligible_def plic_init_def)
  then have "plic_should_interrupt ?s" unfolding plic_should_interrupt_def by (intro bexI[of _ 5]) auto
  then show ?thesis using plic_claim_arbitration[of ?s] by (simp add: Let_def case_prod_unfold)
qed

text \<open>Completion re-arms level-triggered sources: completing a legal id leaves it pending exactly
  when its line is still asserted, touches no other pending bit and recomputes the
  interrupt state; an id of 32 or more is undefined behaviour.\<close>
theorem plic_complete_rearms_level:
  "plic_complete d s =
     (if unat d \<ge> 32 then Inl UNDEFINED_BEHAVIOUR else Inr (projr (plic_complete d s))) \<and>
   (unat d < 32 \<longrightarrow> (let t = projr (plic_complete d s) in
      (\<forall>k. bit (pending_bits t) k \<longleftrightarrow>
         (if k = unat d then d \<noteq> 0 \<and> bit (level_bits s) k else bit (pending_bits s) k)) \<and>
      m_irq_state t = plic_should_interrupt t))"
proof (intro conjI impI)
  show "plic_complete d s = (if unat d \<ge> 32 then Inl UNDEFINED_BEHAVIOUR else Inr (projr (plic_complete d s)))"
    by (simp add: plic_complete_def Let_def)
next
  assume d: "unat d < 32"
  define u where "u = s\<lparr>pending_bits := pending_bits s AND NOT (push_bit (unat d) 1), claim_complete := 0\<rparr>"
  define v where "v = (if d > 0 \<and> unat d < 32 \<and> level_bits u AND push_bit (unat d) 1 \<noteq> 0
    then u\<lparr>pending_bits := pending_bits u OR push_bit (unat d) 1\<rparr> else u)"
  have run: "projr (plic_complete d s) = update_irq_out v"
    using d by (simp add: plic_complete_def u_def v_def Let_def)
  have u: "bit (pending_bits u) k \<longleftrightarrow> bit (pending_bits s) k \<and> k \<noteq> unat d" "level_bits u = level_bits s" for k
    by (simp_all add: u_def bit_clear)
  have v: "v = (if d \<noteq> 0 \<and> bit (level_bits s) (unat d)
      then u\<lparr>pending_bits := pending_bits u OR push_bit (unat d) 1\<rparr> else u)"
    using d unfolding v_def and_push_bit_1 u(2) by (simp add: word_gt_0)
  have "bit (pending_bits v) k \<longleftrightarrow>
      (if k = unat d then d \<noteq> 0 \<and> bit (level_bits s) k else bit (pending_bits s) k)" for k
    using d by (cases "d \<noteq> 0 \<and> bit (level_bits s) (unat d)") (auto simp: v bit_set u(1))
  then show "let t = projr (plic_complete d s) in
      (\<forall>k. bit (pending_bits t) k \<longleftrightarrow>
         (if k = unat d then d \<noteq> 0 \<and> bit (level_bits s) k else bit (pending_bits s) k)) \<and>
      m_irq_state t = plic_should_interrupt t"
    unfolding run Let_def by (simp add: update_irq_out_state)
qed

theorem plic_complete_rearms_level_witness:
  "let s = plic_init\<lparr>level_bits := 0x20\<rparr> in bit (pending_bits (projr (plic_complete 5 s))) 5"
  using plic_complete_rearms_level[of 5 "plic_init\<lparr>level_bits := 0x20\<rparr>"] by (simp add: Let_def)

text \<open>Raising a source, changing a level, claiming and completing all leave the interrupt state
  equal to the documented condition; writing the enable register does not recompute it.\<close>

lemma plic_set_level_state:
  "src_id \<noteq> 0 \<Longrightarrow> unat src_id < 32 \<Longrightarrow>
     m_irq_state (set_irq_level src_id a s) = plic_should_interrupt (set_irq_level src_id a s)"
  by (simp add: set_irq_level_def update_irq_out_state)

lemma plic_enable_write_stale:
  "let s = plic_init\<lparr>priorities := (replicate 32 0)[1 := 7], pending_bits := 2\<rparr> in
   case plic_transport (wr_payload 0x2000 (to_bytes 4 (2 :: u32))) s of
     Inr (_, t) \<Rightarrow> plic_should_interrupt t \<and> \<not> m_irq_state t | Inl _ \<Rightarrow> False"
proof -
  let ?t = "plic_init\<lparr>priorities := (replicate 32 0)[1 := 7], pending_bits := 2, enabled_bits := 2\<rparr>"
  have "plic_eligible ?t 1" by (simp add: plic_eligible_def plic_init_def)
  then have "plic_should_interrupt ?t" unfolding plic_should_interrupt_def by (intro bexI[of _ 1]) auto
  then show ?thesis
    by (simp add: plic_transport_def wr_payload_def of_bytes_full plic_init_def Let_def)
qed

end
