(* ===== verification/UART.thy ===== *)
theory UART
  imports TLM Fifo
begin

unbundle bit_operations_syntax

text \<open>
  The 16550-style UART (src/inc/UART.h).  The calls it makes outwards, the transmitted
  character and the level of its interrupt line, are returned as a list of events in
  program order; the platform applies them.  The host thread's push into the receive
  FIFO is the operation \<^verbatim>\<open>uart_rx_push\<close>, the periodic monitor \<^verbatim>\<open>rx_monitor\<close>; terminal
  handling is host I/O and not modelled.  The receive path is an instance of the
  bounded FIFO contract, and the interrupt line follows the enable and status bits.
\<close>

section \<open>State and operations\<close>

record UART =
  scr :: u8
  dlab :: bool
  m_ier :: u8
  m_thre_ip :: bool
  rx_fifo :: "u8 list"

datatype uart_event = Uart_Tx u8 | Uart_Irq bool

definition uart_init :: UART where
  "uart_init = \<lparr>scr = 0, dlab = False, m_ier = 0, m_thre_ip = True, rx_fifo = []\<rparr>"

definition thre_active :: "UART \<Rightarrow> bool" where
  "thre_active u \<longleftrightarrow> m_ier u AND 0x02 \<noteq> 0 \<and> m_thre_ip u"

definition rda_active :: "UART \<Rightarrow> bool" where
  "rda_active u \<longleftrightarrow> m_ier u AND 0x01 \<noteq> 0 \<and> rx_fifo u \<noteq> []"

definition update_interrupts :: "UART \<Rightarrow> uart_event" where
  "update_interrupts u = Uart_Irq (thre_active u \<or> rda_active u)"

definition rx_monitor :: "UART \<Rightarrow> uart_event list" where
  "rx_monitor u = (if rda_active u then [update_interrupts u] else [])"

definition uart_rx_push :: "u8 \<Rightarrow> UART \<Rightarrow> UART" where
  "uart_rx_push ch u = (if length (rx_fifo u) < 64 then u\<lparr>rx_fifo := rx_fifo u @ [ch]\<rparr> else u)"

definition reg_from_offset :: "u64 \<Rightarrow> nat" where
  "reg_from_offset off =
     (if off AND 3 = 0 \<and> off \<le> 0x1C then unat (drop_bit 2 off)
      else if off \<le> 7 then unat off
      else 0xFF)"

definition uart_write :: "nat \<Rightarrow> u8 \<Rightarrow> UART \<Rightarrow> UART \<times> uart_event list" where
  "uart_write reg val u =
     (if reg = 0 then
        (if \<not> dlab u then (let u = u\<lparr>m_thre_ip := True\<rparr> in (u, [Uart_Tx val, update_interrupts u])) else (u, []))
      else if reg = 1 then
        (if \<not> dlab u then
           (let old_thri = (m_ier u AND 0x02 \<noteq> 0); new_thri = (val AND 0x02 \<noteq> 0);
                u = u\<lparr>m_ier := val\<rparr>;
                u = (if new_thri \<and> \<not> old_thri then u\<lparr>m_thre_ip := True\<rparr>
                     else if \<not> new_thri then u\<lparr>m_thre_ip := False\<rparr> else u)
            in (u, [update_interrupts u]))
         else (u, []))
      else if reg = 3 then (u\<lparr>dlab := (drop_bit 7 val AND 1 \<noteq> 0)\<rparr>, [])
      else if reg = 7 then (u\<lparr>scr := val\<rparr>, [])
      else (u, []))"

definition uart_read :: "nat \<Rightarrow> UART \<Rightarrow> u32 \<times> UART \<times> uart_event list" where
  "uart_read reg u =
     (if reg = 0 then
        (case rx_fifo u of
           b # bs \<Rightarrow> if \<not> dlab u then (let u = u\<lparr>rx_fifo := bs\<rparr> in (ucast b, u, [update_interrupts u]))
                     else (0, u, [])
         | [] \<Rightarrow> (0, u, []))
      else if reg = 1 then (ucast (m_ier u), u, [])
      else if reg = 2 then
        (if rda_active u then (0x04, u, [])
         else if thre_active u then (let u = u\<lparr>m_thre_ip := False\<rparr> in (0x02, u, [update_interrupts u]))
         else (0x01, u, []))
      else if reg = 5 then ((if rx_fifo u \<noteq> [] then 0x61 else 0x60), u, [])
      else if reg = 7 then (ucast (scr u), u, [])
      else (0, u, []))"

definition uart_transport :: "payload \<Rightarrow> UART \<Rightarrow> payload \<times> UART \<times> uart_event list" where
  "uart_transport tr u =
     (let reg = reg_from_offset (p_address tr);
          (tr, u, ev) =
            (if p_cmd tr = TLM_WRITE_COMMAND \<and> p_data tr \<noteq> []
             then (let (u, ev) = uart_write reg (hd (p_data tr)) u in (tr, u, ev))
             else if p_cmd tr = TLM_READ_COMMAND \<and> p_data tr \<noteq> []
             then (let (val, u, ev) = uart_read reg u
                   in (with_data (take (length (p_data tr)) (to_bytes 4 val)) tr, u, ev))
             else (tr, u, []))
      in (with_response TLM_OK_RESPONSE tr, u, ev))"

section \<open>The receive path is a bounded FIFO\<close>

definition uart_wf :: "UART \<Rightarrow> bool" where
  "uart_wf u \<longleftrightarrow> length (rx_fifo u) \<le> 64"

definition uart_rx_full :: "UART \<Rightarrow> bool" where
  "uart_rx_full u \<longleftrightarrow> length (rx_fifo u) = 64"

definition uart_rx_stalled :: "UART \<Rightarrow> bool" where
  "uart_rx_stalled u \<longleftrightarrow> dlab u \<or> rx_fifo u = []"

definition uart_rx_enq :: "u8 \<Rightarrow> UART \<Rightarrow> (u8 \<times> UART) option" where
  "uart_rx_enq ch u = (let u' = uart_rx_push ch u in
     if length (rx_fifo u') = length (rx_fifo u) then None else Some (ch, u'))"

definition uart_rx_deq :: "UART \<Rightarrow> (u8 \<times> UART) option" where
  "uart_rx_deq u = (if uart_rx_stalled u then None
     else let (tr, u', ev) = uart_transport (rd_payload 0 1) u in Some (hd (p_data tr), u'))"

definition uart_other :: "payload \<Rightarrow> UART \<Rightarrow> UART" where
  "uart_other tr u =
     (if p_cmd tr = TLM_READ_COMMAND \<and> reg_from_offset (p_address tr) = 0 then u
      else fst (snd (uart_transport tr u)))"

lemma uart_write_rx: "rx_fifo (fst (uart_write reg val u)) = rx_fifo u"
  by (simp add: uart_write_def Let_def)

lemma uart_read_rx: "reg \<noteq> 0 \<Longrightarrow> rx_fifo (fst (snd (uart_read reg u))) = rx_fifo u"
  by (simp add: uart_read_def Let_def)

lemma uart_other_rx: "rx_fifo (uart_other tr u) = rx_fifo u"
proof (cases "p_cmd tr")
  case TLM_READ_COMMAND
  then show ?thesis
    using uart_read_rx[of "reg_from_offset (p_address tr)" u]
    by (simp add: uart_other_def uart_transport_def Let_def case_prod_unfold)
next
  case TLM_WRITE_COMMAND
  then show ?thesis
    by (simp add: uart_other_def uart_transport_def Let_def case_prod_unfold uart_write_rx)
qed

lemma reg_0: "reg_from_offset 0 = 0"
  by (simp add: reg_from_offset_def)

lemma uart_rbr_read:
  assumes "rx_fifo u = b # bs" "\<not> dlab u"
  shows "uart_rx_deq u = Some (b, u\<lparr>rx_fifo := bs\<rparr>)"
proof -
  have "ucast (ucast b :: u32) = b" by (rule bit_word_eqI) (auto simp: bit_ucast_iff)
  then show ?thesis
    using assms
    by (simp add: uart_rx_deq_def uart_rx_stalled_def uart_transport_def rd_payload_def reg_0 uart_read_def
        Let_def with_data_def with_response_def to_bytes_def upt_conv_Cons)
qed

interpretation uartq: bounded_fifo rx_fifo uart_wf "\<lambda>_. 64" uart_rx_full uart_rx_stalled
  uart_rx_enq uart_rx_deq uart_other
proof
  fix u :: UART and ch :: u8 and tr :: payload
  assume wf: "uart_wf u"
  show "length (rx_fifo u) \<le> 64" using wf by (simp add: uart_wf_def)
  show "uart_rx_enq ch u = None" if "uart_rx_full u"
    using that by (simp add: uart_rx_enq_def uart_rx_push_def uart_rx_full_def Let_def)
  show "\<exists>e u'. uart_rx_enq ch u = Some (e, u') \<and> uart_wf u' \<and> (64 :: nat) = 64 \<and> rx_fifo u' = rx_fifo u @ [e]"
    if "\<not> uart_rx_full u"
    using that wf by (auto simp: uart_rx_enq_def uart_rx_push_def uart_rx_full_def uart_wf_def Let_def)
  show "uart_rx_deq u = None" if "uart_rx_stalled u" using that by (simp add: uart_rx_deq_def)
  show "\<exists>e u'. uart_rx_deq u = Some (e, u') \<and> uart_wf u' \<and> (64 :: nat) = 64 \<and> rx_fifo u = e # rx_fifo u'"
    if "\<not> uart_rx_stalled u"
  proof (cases "rx_fifo u")
    case Nil
    then show ?thesis using that by (simp add: uart_rx_stalled_def)
  next
    case (Cons b bs)
    then show ?thesis using that wf uart_rbr_read[OF Cons] by (simp add: uart_rx_stalled_def uart_wf_def)
  qed
  show "uart_wf (uart_other tr u) \<and> (64 :: nat) = 64 \<and> rx_fifo (uart_other tr u) = rx_fifo u"
    using wf by (simp add: uart_other_rx uart_wf_def)
qed

section \<open>Properties\<close>

text \<open>No received character is lost, duplicated or reordered: for every interleaving of host
  bytes, receive-buffer reads and any other register access, the bytes the program has
  read followed by those still buffered are exactly the bytes accepted, and at most 64
  are ever buffered.\<close>
theorem uart_receive_in_order:
  "case fifo_run uart_rx_enq uart_rx_deq uart_other ops uart_init of (accepted, read, u) \<Rightarrow>
     read @ rx_fifo u = accepted \<and> length (rx_fifo u) \<le> 64"
proof -
  obtain a r u where run: "fifo_run uart_rx_enq uart_rx_deq uart_other ops uart_init = (a, r, u)"
    by (metis prod_cases3)
  have i: "uart_wf uart_init" "rx_fifo uart_init = []" by (simp_all add: uart_wf_def uart_init_def)
  show ?thesis using uartq.run_order[OF i(1) run] uartq.run_bounded[OF i(1) run] i by (simp add: run)
qed

definition uart_irq_cond :: "UART \<Rightarrow> bool" where
  "uart_irq_cond u \<longleftrightarrow> thre_active u \<or> rda_active u"

definition last_irq :: "bool \<Rightarrow> uart_event list \<Rightarrow> bool" where
  "last_irq line ev = fold (\<lambda>e l. case e of Uart_Irq b \<Rightarrow> b | Uart_Tx _ \<Rightarrow> l) ev line"

text \<open>The interrupt line follows the register state across every bus access: if the line equals
  the condition (transmit interrupt enabled and pending, or receive interrupt enabled
  with data waiting) before an access, the level last driven by the access makes it
  equal afterwards; the response is always OK and the data length is kept.\<close>
theorem uart_irq_line_coherent:
  "let (tr', u', ev) = uart_transport tr u in
     (line = uart_irq_cond u \<longrightarrow> last_irq line ev = uart_irq_cond u') \<and>
     p_response tr' = TLM_OK_RESPONSE \<and> length (p_data tr') = length (p_data tr)"
proof -
  let ?reg = "reg_from_offset (p_address tr)"
  have w: "line = uart_irq_cond u \<Longrightarrow>
      last_irq line (snd (uart_write r v u)) = uart_irq_cond (fst (uart_write r v u))" for r v
    by (auto simp: uart_write_def Let_def last_irq_def update_interrupts_def uart_irq_cond_def
        thre_active_def rda_active_def)
  have r: "line = uart_irq_cond u \<Longrightarrow>
      last_irq line (snd (snd (uart_read r u))) = uart_irq_cond (fst (snd (uart_read r u)))" for r
    by (auto simp: uart_read_def Let_def last_irq_def update_interrupts_def uart_irq_cond_def
        thre_active_def rda_active_def split: list.splits)
  show ?thesis
    using w r by (cases "p_cmd tr") (auto simp: uart_transport_def Let_def case_prod_unfold last_irq_def)
qed

theorem uart_irq_line_coherent_witness:
  "let (tr', u', ev) = uart_transport (wr_payload 4 [2]) uart_init in last_irq False ev = uart_irq_cond u'"
  using uart_irq_line_coherent[of "wr_payload 4 [2]" uart_init False]
  by (simp add: Let_def case_prod_unfold uart_irq_cond_def thre_active_def rda_active_def uart_init_def)

end
