(* ===== verification/Peripherals.thy ===== *)
theory Peripherals
  imports TLM
begin

unbundle bit_operations_syntax

text \<open>
  The simple targets of the bus: main memory (src/src/Memory.cpp), the memory-mapped
  timer (src/src/Timer.cpp), the trace port (src/src/Trace.cpp) and the syscall stub
  (src/inc/SyscallIf.h).  Memory contents are a function from offsets to bytes, used
  only below SIZE.  The timer reads the current simulation time, an argument, and
  returns the relative time of its notification; the trace port and the syscall stub
  return the character they print.  The xterm of the trace port is host I/O.
\<close>

section \<open>Main memory\<close>

definition Memory_SIZE :: nat where "Memory_SIZE = 0x20000000"

definition memory_transport :: "payload \<Rightarrow> bytemem \<Rightarrow> payload \<times> bytemem" where
  "memory_transport tr m =
     (let adr = p_address tr; len = length (p_data tr) in
      if adr \<ge> of_nat Memory_SIZE \<or> adr + of_nat len > of_nat Memory_SIZE
      then (with_response TLM_ADDRESS_ERROR_RESPONSE tr, m)
      else if p_byte_enable tr then (with_response TLM_BYTE_ENABLE_ERROR_RESPONSE tr, m)
      else case p_cmd tr of
        TLM_READ_COMMAND \<Rightarrow>
          (with_response TLM_OK_RESPONSE (with_data (mem_read m (unat adr) len) tr), m)
      | TLM_WRITE_COMMAND \<Rightarrow>
          (with_response TLM_OK_RESPONSE tr, mem_write m (unat adr) (p_data tr)))"

definition memory_transport_dbg :: "payload \<Rightarrow> bytemem \<Rightarrow> nat \<times> payload \<times> bytemem" where
  "memory_transport_dbg tr m =
     (let adr = p_address tr; len = length (p_data tr) in
      if adr \<ge> of_nat Memory_SIZE then (0, with_response TLM_ADDRESS_ERROR_RESPONSE tr, m)
      else let num_bytes = min len (Memory_SIZE - unat adr) in
        case p_cmd tr of
          TLM_READ_COMMAND \<Rightarrow> (num_bytes, with_data (mem_read m (unat adr) num_bytes) tr, m)
        | TLM_WRITE_COMMAND \<Rightarrow> (num_bytes, tr, mem_write m (unat adr) (take num_bytes (p_data tr))))"

section \<open>Timer\<close>

record Timer =
  t_mtime :: u64
  t_mtimecmp :: u64

definition set_low32 :: "u64 \<Rightarrow> u64 \<Rightarrow> u64" where
  "set_low32 w v = (w AND NOT (mask 32)) OR (v AND 0xFFFFFFFF)"

definition set_high32 :: "u64 \<Rightarrow> u64 \<Rightarrow> u64" where
  "set_high32 w v = (w AND mask 32) OR push_bit 32 (v AND 0xFFFFFFFF)"

definition timer_transport :: "u64 \<Rightarrow> payload \<Rightarrow> Timer \<Rightarrow> payload \<times> Timer \<times> u64 option" where
  "timer_transport now tr t =
     (let addr = p_address tr; copy_len = min 8 (length (p_data tr)) in
      case p_cmd tr of
        TLM_WRITE_COMMAND \<Rightarrow>
          (let aux_value = of_bytes (take copy_len (p_data tr)) in
           if addr = 0x40004000 then
             (with_response TLM_OK_RESPONSE tr, t\<lparr>t_mtime := set_low32 (t_mtime t) aux_value\<rparr>, None)
           else if addr = 0x40004004 then
             (with_response TLM_OK_RESPONSE tr, t\<lparr>t_mtime := set_high32 (t_mtime t) aux_value\<rparr>, None)
           else if addr = 0x40004008 then
             (with_response TLM_OK_RESPONSE tr, t\<lparr>t_mtimecmp := set_low32 (t_mtimecmp t) aux_value\<rparr>, None)
           else if addr = 0x4000400C then
             (let t = t\<lparr>t_mtimecmp := set_high32 (t_mtimecmp t) aux_value\<rparr>
              in (with_response TLM_OK_RESPONSE tr, t, Some (t_mtimecmp t - t_mtime t)))
           else (with_response TLM_ADDRESS_ERROR_RESPONSE tr, t, None))
      | TLM_READ_COMMAND \<Rightarrow>
          (let reply = (\<lambda>v t. (with_response TLM_OK_RESPONSE (with_data (to_bytes copy_len (v :: u64)) tr), t, None)) in
           if addr = 0x40004000 then (let t = t\<lparr>t_mtime := now\<rparr> in reply (t_mtime t AND mask 32) t)
           else if addr = 0x40004004 then reply (drop_bit 32 (t_mtime t)) t
           else if addr = 0x40004008 then reply (t_mtimecmp t AND mask 32) t
           else if addr = 0x4000400C then reply (drop_bit 32 (t_mtimecmp t)) t
           else (with_response TLM_ADDRESS_ERROR_RESPONSE tr, t, None)))"

section \<open>Trace port and syscall stub\<close>

definition trace_transport :: "payload \<Rightarrow> sim_error + payload \<times> u8" where
  "trace_transport tr =
     (case p_data tr of
        [] \<Rightarrow> Inl UNDEFINED_BEHAVIOUR
      | b # _ \<Rightarrow> Inr (with_response TLM_OK_RESPONSE tr, b))"

record SyscallIf =
  last_syscall :: u32
  last_arg :: u32

definition syscall_transport :: "payload \<Rightarrow> SyscallIf \<Rightarrow> payload \<times> SyscallIf \<times> u8 list" where
  "syscall_transport tr s =
     (let addr = p_address tr in
      if length (p_data tr) \<noteq> 4 then (with_response TLM_OK_RESPONSE tr, s, [])
      else case p_cmd tr of
        TLM_WRITE_COMMAND \<Rightarrow>
          (let val = of_bytes (p_data tr) :: u32 in
           if addr = 0x0 then (with_response TLM_OK_RESPONSE tr, s\<lparr>last_syscall := val\<rparr>, [])
           else if addr = 0x4 then (with_response TLM_OK_RESPONSE tr, s\<lparr>last_arg := val\<rparr>, [])
           else if addr = 0x8 then (with_response TLM_OK_RESPONSE tr, s, [ucast (val AND 0xFF)])
           else (with_response TLM_OK_RESPONSE tr, s, []))
      | TLM_READ_COMMAND \<Rightarrow>
          (let val = (if addr = 0x0 then last_syscall s else if addr = 0x4 then last_arg s else 0)
           in (with_response TLM_OK_RESPONSE (with_data (to_bytes 4 val) tr), s, [])))"

section \<open>Facts\<close>

lemma memory_in_range:
  fixes a :: u64
  assumes "unat a + n \<le> Memory_SIZE" "0 < n"
  shows "\<not> (a \<ge> of_nat Memory_SIZE \<or> a + of_nat n > of_nat Memory_SIZE)"
proof -
  have "unat (a + of_nat n) = unat a + n"
    using assms by (simp add: unat_word_ariths take_bit_eq_mod unat_of_nat Memory_SIZE_def)
  then show ?thesis using assms by (auto simp: word_le_nat_alt word_less_nat_alt Memory_SIZE_def)
qed

lemma memory_transport_in_range:
  assumes "unat (p_address tr) + length (p_data tr) \<le> Memory_SIZE" "p_data tr \<noteq> []" "\<not> p_byte_enable tr"
  shows "memory_transport tr m = (case p_cmd tr of
        TLM_READ_COMMAND \<Rightarrow>
          (with_response TLM_OK_RESPONSE
            (tr\<lparr>p_data := mem_read m (unat (p_address tr)) (length (p_data tr))\<rparr>), m)
      | TLM_WRITE_COMMAND \<Rightarrow>
          (with_response TLM_OK_RESPONSE tr, mem_write m (unat (p_address tr)) (p_data tr)))"
proof -
  note r = memory_in_range[OF assms(1)]
  have "with_data (mem_read m (unat (p_address tr)) (length (p_data tr))) tr =
      tr\<lparr>p_data := mem_read m (unat (p_address tr)) (length (p_data tr))\<rparr>"
    by (simp add: with_data_def)
  then show ?thesis using r assms(2,3) by (simp add: memory_transport_def Let_def split: tlm_command.split)
qed

lemma set_low_high32:
  "set_high32 (set_low32 w (v AND mask 32)) (drop_bit 32 v) = (v :: u64)"
proof -
  have m: "(0xFFFFFFFF :: u64) = mask 32" by (simp add: mask_eq_exp_minus_1)
  show ?thesis unfolding set_high32_def set_low32_def m
    by (rule bit_word_eqI)
      (auto simp: bit_or_iff bit_and_iff bit_not_iff bit_mask_iff bit_push_bit_iff bit_drop_bit_eq not_less
        dest: bit_imp_le_length)
qed

end
