(* ===== verification/Platform.thy ===== *)
theory Platform
  imports CLINT PLIC UART Peripherals
begin

unbundle bit_operations_syntax

text \<open>
  The platform: the address decoder (src/src/BusCtrl.cpp) over all its targets, the
  DMA engine (src/inc/DMA.h), which re-enters the bus as a master, and the load/store
  interface of the processors (src/src/MemoryInterface.cpp), wired as in
  src/src/VPTop.cpp (the UART interrupt drives PLIC source 1).  The recursion bus, DMA,
  bus is bounded by fuel: one unit per nested transfer.
\<close>

section \<open>State\<close>

record DMA =
  dma_src :: u32
  dma_dst :: u32
  dma_len :: u32
  dma_control :: u32
  dma_in_flight :: bool

datatype htif_stop = HTIF_PASS | HTIF_FAIL u64 | HTIF_STOP u64

record Platform =
  pf_mem :: bytemem
  pf_clint :: CLINT
  pf_plic :: PLIC
  pf_uart :: UART
  pf_timer :: Timer
  pf_dma :: DMA
  pf_syscall :: SyscallIf
  pf_console :: "u8 list"
  pf_stopped :: "htif_stop list"
  pf_now :: u64
  pf_timer_event :: "u64 option"

definition platform_init :: Platform where
  "platform_init = \<lparr>pf_mem = (\<lambda>_. 0), pf_clint = clint_init, pf_plic = plic_init, pf_uart = uart_init,
     pf_timer = \<lparr>t_mtime = 0, t_mtimecmp = 0\<rparr>,
     pf_dma = \<lparr>dma_src = 0, dma_dst = 0, dma_len = 0, dma_control = 0, dma_in_flight = False\<rparr>,
     pf_syscall = \<lparr>last_syscall = 0, last_arg = 0\<rparr>,
     pf_console = [], pf_stopped = [], pf_now = 0, pf_timer_event = None\<rparr>"

fun apply_uart_event :: "uart_event \<Rightarrow> Platform \<Rightarrow> Platform" where
  "apply_uart_event (Uart_Tx c) pf = pf\<lparr>pf_console := pf_console pf @ [c]\<rparr>"
| "apply_uart_event (Uart_Irq b) pf = pf\<lparr>pf_plic := set_irq_level 1 b (pf_plic pf)\<rparr>"

definition htif_decode :: "u64 \<Rightarrow> htif_stop" where
  "htif_decode val =
     (if val = 1 then HTIF_PASS else if val AND 1 \<noteq> 0 then HTIF_FAIL (drop_bit 1 val) else HTIF_STOP val)"

definition htif_value :: "payload \<Rightarrow> u64" where
  "htif_value tr = of_bytes (take 8 (p_data tr))"

definition sc_stop :: "htif_stop \<Rightarrow> Platform \<Rightarrow> Platform" where
  "sc_stop h pf = pf\<lparr>pf_stopped := pf_stopped pf @ [h]\<rparr>"

section \<open>DMA engine\<close>

type_synonym transport = "payload \<Rightarrow> Platform \<Rightarrow> sim_error + payload \<times> Platform"

definition start_transfer :: "transport \<Rightarrow> Platform \<Rightarrow> sim_error + Platform" where
  "start_transfer mem_master pf =
     (if dma_len (pf_dma pf) = 0 then Inr pf
      else
        let n = unat (dma_len (pf_dma pf));
            pf = pf\<lparr>pf_dma := (pf_dma pf)\<lparr>dma_in_flight := True\<rparr>\<rparr>
        in case mem_master (rd_payload (ucast (dma_src (pf_dma pf))) n) pf of
             Inl e \<Rightarrow> Inl e
           | Inr (tr, pf) \<Rightarrow>
               if p_response tr \<noteq> TLM_OK_RESPONSE
               then Inr (pf\<lparr>pf_dma := (pf_dma pf)\<lparr>dma_in_flight := False\<rparr>\<rparr>)
               else case mem_master (wr_payload (ucast (dma_dst (pf_dma pf))) (p_data tr)) pf of
                 Inl e \<Rightarrow> Inl e
               | Inr (_, pf) \<Rightarrow>
                   Inr (pf\<lparr>pf_dma := (pf_dma pf)\<lparr>dma_control := dma_control (pf_dma pf) AND NOT 1,
                                                dma_in_flight := False\<rparr>\<rparr>))"

definition dma_transport :: "transport \<Rightarrow> transport" where
  "dma_transport mem_master tr pf =
     (if length (p_data tr) \<noteq> 4 then Inr (with_response TLM_BURST_ERROR_RESPONSE tr, pf)
      else
        let addr = p_address tr; d = pf_dma pf in
        case p_cmd tr of
          TLM_WRITE_COMMAND \<Rightarrow>
            (let val = of_bytes (p_data tr) :: u32; done = (\<lambda>pf. Inr (with_response TLM_OK_RESPONSE tr, pf)) in
             if addr = 0x00 then done (pf\<lparr>pf_dma := d\<lparr>dma_src := val\<rparr>\<rparr>)
             else if addr = 0x04 then done (pf\<lparr>pf_dma := d\<lparr>dma_dst := val\<rparr>\<rparr>)
             else if addr = 0x08 then done (pf\<lparr>pf_dma := d\<lparr>dma_len := val\<rparr>\<rparr>)
             else if addr = 0x0C then
               (let pf = pf\<lparr>pf_dma := d\<lparr>dma_control := val\<rparr>\<rparr>
                in if val AND 1 \<noteq> 0
                   then (case start_transfer mem_master pf of Inl e \<Rightarrow> Inl e | Inr pf \<Rightarrow> done pf)
                   else done pf)
             else done pf)
        | TLM_READ_COMMAND \<Rightarrow>
            (let val = (if addr = 0x00 then dma_src d else if addr = 0x04 then dma_dst d
                        else if addr = 0x08 then dma_len d else if addr = 0x0C then dma_control d else 0)
             in Inr (with_response TLM_OK_RESPONSE (with_data (to_bytes 4 val) tr), pf)))"

section \<open>Bus controller\<close>

definition in_window :: "u64 \<Rightarrow> u64 \<Rightarrow> u64 \<Rightarrow> bool" where
  "in_window adr base sz \<longleftrightarrow> adr \<ge> base \<and> adr < base + sz"

definition forward_memory :: "u64 \<Rightarrow> payload \<Rightarrow> Platform \<Rightarrow> payload \<times> Platform" where
  "forward_memory local_adr tr pf =
     (let (tr', m) = memory_transport (tr\<lparr>p_address := local_adr\<rparr>) (pf_mem pf)
      in (with_response TLM_OK_RESPONSE (tr'\<lparr>p_address := p_address tr\<rparr>), pf\<lparr>pf_mem := m\<rparr>))"

fun bus_transport :: "nat \<Rightarrow> transport" where
  "bus_transport fuel tr pf =
     (let adr = p_address tr; ok = with_response TLM_OK_RESPONSE; back = (\<lambda>tr'. tr'\<lparr>p_address := adr\<rparr>) in
      if adr = 0x90000000 then
        (let val = (if p_cmd tr = TLM_WRITE_COMMAND then htif_value tr else 0)
         in Inr (ok tr, sc_stop (htif_decode val) pf))
      else if in_window adr 0x80000000 0x20000000 then
        (if adr = 0x80001000 \<and> p_cmd tr = TLM_WRITE_COMMAND
         then Inr (ok tr, sc_stop (htif_decode (htif_value tr)) pf)
         else Inr (forward_memory (adr - 0x80000000) tr pf))
      else if in_window adr 0x10000000 0x100 then
        (let (tr', u, ev) = uart_transport (tr\<lparr>p_address := adr - 0x10000000\<rparr>) (pf_uart pf)
         in Inr (ok (back tr'), fold apply_uart_event ev (pf\<lparr>pf_uart := u\<rparr>)))
      else if in_window adr 0x02000000 0x10000 then
        (let (tr', c) = clint_transport (tr\<lparr>p_address := adr - 0x02000000\<rparr>) (pf_clint pf)
         in Inr (ok (back tr'), pf\<lparr>pf_clint := c\<rparr>))
      else if in_window adr 0x0C000000 0x400000 then
        (case plic_transport (tr\<lparr>p_address := adr - 0x0C000000\<rparr>) (pf_plic pf) of
           Inl e \<Rightarrow> Inl e
         | Inr (tr', s) \<Rightarrow> Inr (ok (back tr'), pf\<lparr>pf_plic := s\<rparr>))
      else if in_window adr 0x30000000 0x1000 then
        (case fuel of
           0 \<Rightarrow> Inl OUT_OF_FUEL
         | Suc f \<Rightarrow>
            (case dma_transport (bus_transport f) (tr\<lparr>p_address := adr - 0x30000000\<rparr>) pf of
               Inl e \<Rightarrow> Inl e
             | Inr (tr', pf) \<Rightarrow> Inr (ok (back tr'), pf)))
      else if in_window adr 0x60000000 0x1000 then
        (let (tr', s, out) = syscall_transport (tr\<lparr>p_address := adr - 0x60000000\<rparr>) (pf_syscall pf)
         in Inr (ok (back tr'), pf\<lparr>pf_syscall := s, pf_console := pf_console pf @ out\<rparr>))
      else if adr div 4 \<in> {0x40004004 div 4, 0x40004000 div 4, 0x4000400C div 4, 0x40004008 div 4} then
        (let (tr', t, ev) = timer_transport (pf_now pf) tr (pf_timer pf)
         in Inr (ok tr', pf\<lparr>pf_timer := t, pf_timer_event := (case ev of Some x \<Rightarrow> Some x | None \<Rightarrow> pf_timer_event pf)\<rparr>))
      else if adr div 4 = 0x40000000 div 4 then
        (case trace_transport tr of
           Inl e \<Rightarrow> Inl e
         | Inr (tr', b) \<Rightarrow> Inr (ok tr', pf\<lparr>pf_console := pf_console pf @ [b]\<rparr>))
      else Inr (forward_memory adr tr pf))"

declare bus_transport.simps [simp del]

section \<open>Memory interface\<close>

text \<open>The fuel of the interface: a transfer started by a processor access may start one
  nested transfer per level of re-entry; \<^verbatim>\<open>bus_fuel_enough\<close> shows which programs need
  only one.\<close>

definition bus_fuel :: nat where "bus_fuel = 16"

definition read_buffer :: "nat \<Rightarrow> u64 \<Rightarrow> nat \<Rightarrow> Platform \<Rightarrow> sim_error + u8 list \<times> Platform" where
  "read_buffer fuel addr n pf =
     (case bus_transport fuel (rd_payload addr n) pf of
        Inl e \<Rightarrow> Inl e
      | Inr (tr, pf) \<Rightarrow> if p_response tr \<noteq> TLM_OK_RESPONSE then Inl SC_ERROR else Inr (p_data tr, pf))"

definition write_buffer :: "nat \<Rightarrow> u64 \<Rightarrow> u8 list \<Rightarrow> Platform \<Rightarrow> sim_error + Platform" where
  "write_buffer fuel addr bs pf =
     (case bus_transport fuel (wr_payload addr bs) pf of
        Inl e \<Rightarrow> Inl e
      | Inr (tr, pf) \<Rightarrow> if p_response tr \<noteq> TLM_OK_RESPONSE then Inl SC_ERROR else Inr pf)"

definition readDataMem :: "u64 \<Rightarrow> nat \<Rightarrow> Platform \<Rightarrow> sim_error + u32 \<times> Platform" where
  "readDataMem addr sz pf =
     (case read_buffer bus_fuel addr sz pf of
        Inl e \<Rightarrow> Inl e | Inr (bs, pf) \<Rightarrow> Inr (of_bytes bs, pf))"

definition readDataMem64 :: "u64 \<Rightarrow> nat \<Rightarrow> Platform \<Rightarrow> sim_error + u64 \<times> Platform" where
  "readDataMem64 addr sz pf =
     (case read_buffer bus_fuel addr sz pf of
        Inl e \<Rightarrow> Inl e | Inr (bs, pf) \<Rightarrow> Inr (of_bytes bs, pf))"

definition writeDataMem :: "u64 \<Rightarrow> u32 \<Rightarrow> nat \<Rightarrow> Platform \<Rightarrow> sim_error + Platform" where
  "writeDataMem addr data sz pf = write_buffer bus_fuel addr (to_bytes sz data) pf"

definition writeDataMem64 :: "u64 \<Rightarrow> u64 \<Rightarrow> nat \<Rightarrow> Platform \<Rightarrow> sim_error + Platform" where
  "writeDataMem64 addr data sz pf = write_buffer bus_fuel addr (to_bytes sz data) pf"

end
