(* ===== verification/TLB.thy ===== *)
theory TLB
  imports VP_Prelude
begin

unbundle bit_operations_syntax

text \<open>
  The fully associative Sv39 translation look-aside buffer (src/inc/TLB.h).
  The template parameter SIZE is the length of the entry list.  Shown: a fill is
  found by the next lookup of the same page, replacing one slot only; a lookup
  changes nothing but replacement time stamps; each flush removes exactly the
  translations its SFENCE.VMA form names.
\<close>

section \<open>State and operations\<close>

record TLBEntry =
  te_valid :: bool
  te_global :: bool
  te_perm :: u8
  te_level :: u8
  te_asid :: u16
  te_vpn :: u64
  te_ppn :: u64
  te_lru_time :: u64

definition TLBEntry_default :: TLBEntry where
  "TLBEntry_default = \<lparr>te_valid = False, te_global = False, te_perm = 0, te_level = 0, te_asid = 0,
     te_vpn = 0, te_ppn = 0, te_lru_time = 0\<rparr>"

record TLB =
  tlb_entries :: "TLBEntry list"
  lru_clock :: u64

definition tlb_init :: "nat \<Rightarrow> TLB" where
  "tlb_init n = \<lparr>tlb_entries = replicate n TLBEntry_default, lru_clock = 0\<rparr>"

definition vpn_match :: "u64 \<Rightarrow> u64 \<Rightarrow> u8 \<Rightarrow> bool" where
  "vpn_match vpn stored_vpn level \<longleftrightarrow>
     (let shift = unat level * 9 in drop_bit shift vpn = drop_bit shift stored_vpn)"

definition tlb_hits :: "u64 \<Rightarrow> u16 \<Rightarrow> TLBEntry \<Rightarrow> bool" where
  "tlb_hits vpn asid e \<longleftrightarrow>
     te_valid e \<and> (te_global e \<or> te_asid e = asid) \<and> vpn_match vpn (te_vpn e) (te_level e)"

fun tlb_scan :: "u64 \<Rightarrow> u16 \<Rightarrow> u64 \<Rightarrow> TLBEntry list \<Rightarrow> (u64 \<times> u8 \<times> u8) option \<times> TLBEntry list" where
  "tlb_scan vpn asid clock [] = (None, [])"
| "tlb_scan vpn asid clock (e # es) =
     (if tlb_hits vpn asid e
      then (Some (te_ppn e, te_perm e, te_level e), e\<lparr>te_lru_time := clock\<rparr> # es)
      else let (r, es') = tlb_scan vpn asid clock es in (r, e # es'))"

definition tlb_lookup :: "u64 \<Rightarrow> u16 \<Rightarrow> TLB \<Rightarrow> (u64 \<times> u8 \<times> u8) option \<times> TLB" where
  "tlb_lookup vaddr asid t =
     (let vpn = drop_bit 12 vaddr; clock = lru_clock t + 1;
          (r, es) = tlb_scan vpn asid clock (tlb_entries t)
      in (r, t\<lparr>lru_clock := clock, tlb_entries := es\<rparr>))"

fun tlb_victim :: "TLBEntry list \<Rightarrow> nat \<Rightarrow> nat list \<Rightarrow> nat" where
  "tlb_victim es victim [] = victim"
| "tlb_victim es victim (i # is) =
     tlb_victim es (if \<not> te_valid (es ! i) \<or> te_lru_time (es ! i) < te_lru_time (es ! victim)
                    then i else victim) is"

definition tlb_insert :: "u64 \<Rightarrow> u64 \<Rightarrow> u16 \<Rightarrow> u8 \<Rightarrow> u8 \<Rightarrow> bool \<Rightarrow> TLB \<Rightarrow> TLB" where
  "tlb_insert vaddr ppn asid perm level global t =
     (let victim = tlb_victim (tlb_entries t) 0 [1..<length (tlb_entries t)]
      in t\<lparr>tlb_entries := (tlb_entries t)[victim :=
             \<lparr>te_valid = True, te_global = global, te_perm = perm, te_level = level, te_asid = asid,
              te_vpn = drop_bit 12 vaddr, te_ppn = ppn, te_lru_time = lru_clock t\<rparr>]\<rparr>)"

definition tlb_drop_if :: "(TLBEntry \<Rightarrow> bool) \<Rightarrow> TLB \<Rightarrow> TLB" where
  "tlb_drop_if p t = t\<lparr>tlb_entries := map (\<lambda>e. if p e then e\<lparr>te_valid := False\<rparr> else e) (tlb_entries t)\<rparr>"

definition tlb_flush_all :: "TLB \<Rightarrow> TLB" where
  "tlb_flush_all t = tlb_drop_if (\<lambda>e. True) t"

definition tlb_flush_va :: "u64 \<Rightarrow> TLB \<Rightarrow> TLB" where
  "tlb_flush_va vaddr t = (let vpn = drop_bit 12 vaddr in
     tlb_drop_if (\<lambda>e. te_valid e \<and> vpn_match vpn (te_vpn e) (te_level e)) t)"

definition tlb_flush_asid :: "u16 \<Rightarrow> TLB \<Rightarrow> TLB" where
  "tlb_flush_asid asid t = tlb_drop_if (\<lambda>e. te_valid e \<and> \<not> te_global e \<and> te_asid e = asid) t"

definition tlb_flush_va_asid :: "u64 \<Rightarrow> u16 \<Rightarrow> TLB \<Rightarrow> TLB" where
  "tlb_flush_va_asid vaddr asid t = (let vpn = drop_bit 12 vaddr in
     tlb_drop_if (\<lambda>e. te_valid e \<and> \<not> te_global e \<and> te_asid e = asid \<and>
       vpn_match vpn (te_vpn e) (te_level e)) t)"

definition tlb_invalidate_all :: "TLB \<Rightarrow> TLB" where
  "tlb_invalidate_all t = tlb_drop_if (\<lambda>e. True) t"

section \<open>Lookup, fill and flush\<close>

definition tlb_get :: "u64 \<Rightarrow> u16 \<Rightarrow> TLB \<Rightarrow> (u64 \<times> u8 \<times> u8) option" where
  "tlb_get vaddr asid t = fst (tlb_lookup vaddr asid t)"

lemma tlb_scan_find:
  "fst (tlb_scan vpn asid c es) =
     map_option (\<lambda>e. (te_ppn e, te_perm e, te_level e)) (find (tlb_hits vpn asid) es)"
  by (induction es) (auto simp: case_prod_unfold Let_def)

lemma tlb_get_find:
  "tlb_get vaddr asid t = map_option (\<lambda>e. (te_ppn e, te_perm e, te_level e))
     (find (tlb_hits (drop_bit 12 vaddr) asid) (tlb_entries t))"
  by (simp add: tlb_get_def tlb_lookup_def Let_def case_prod_unfold tlb_scan_find)

lemma tlb_scan_hits:
  "map (\<lambda>e. e\<lparr>te_lru_time := 0\<rparr>) (snd (tlb_scan vpn asid c es)) = map (\<lambda>e. e\<lparr>te_lru_time := 0\<rparr>) es"
  by (induction es) (auto simp: case_prod_unfold Let_def)

lemma find_map_lru:
  "map (\<lambda>e. e\<lparr>te_lru_time := 0\<rparr>) xs = map (\<lambda>e. e\<lparr>te_lru_time := 0\<rparr>) ys \<Longrightarrow>
   map_option (\<lambda>e. (te_ppn e, te_perm e, te_level e)) (find (tlb_hits v a) xs) =
   map_option (\<lambda>e. (te_ppn e, te_perm e, te_level e)) (find (tlb_hits v a) ys)"
proof (induction xs arbitrary: ys)
  case (Cons x xs)
  then obtain y ys' where ys: "ys = y # ys'" "x\<lparr>te_lru_time := 0\<rparr> = y\<lparr>te_lru_time := 0\<rparr>" by (cases ys) auto
  have "tlb_hits v a x = tlb_hits v a y" "te_ppn x = te_ppn y" "te_perm x = te_perm y" "te_level x = te_level y"
    using ys(2) by (cases x; cases y; simp add: tlb_hits_def)+
  then show ?case using Cons ys by auto
qed simp

lemma tlb_lookup_get: "tlb_get v a (snd (tlb_lookup vaddr asid t)) = tlb_get v a t"
  unfolding tlb_get_find
  by (rule find_map_lru) (simp add: tlb_lookup_def Let_def case_prod_unfold tlb_scan_hits)

lemma length_tlb_scan: "length (snd (tlb_scan vpn asid c es)) = length es"
  using tlb_scan_hits[of vpn asid c es] by (metis length_map)

lemma length_tlb_ops [simp]:
  "length (tlb_entries (snd (tlb_lookup vaddr asid t))) = length (tlb_entries t)"
  "length (tlb_entries (tlb_insert vaddr ppn asid perm level g t)) = length (tlb_entries t)"
  "length (tlb_entries (tlb_drop_if p t)) = length (tlb_entries t)"
  by (simp_all add: tlb_lookup_def tlb_insert_def tlb_drop_if_def Let_def case_prod_unfold length_tlb_scan)

lemma tlb_victim_less: "v < n \<Longrightarrow> set is \<subseteq> {..<n} \<Longrightarrow> tlb_victim es v is < n"
  by (induction "is" arbitrary: v) auto

lemma tlb_insert_slot:
  assumes "0 < length (tlb_entries t)"
  obtains i where "i < length (tlb_entries t)"
    "tlb_entries (tlb_insert vaddr ppn asid perm level g t) = (tlb_entries t)[i :=
       \<lparr>te_valid = True, te_global = g, te_perm = perm, te_level = level, te_asid = asid,
        te_vpn = drop_bit 12 vaddr, te_ppn = ppn, te_lru_time = lru_clock t\<rparr>]"
proof
  show "tlb_victim (tlb_entries t) 0 [1..<length (tlb_entries t)] < length (tlb_entries t)"
    using assms by (intro tlb_victim_less) auto
qed (simp add: tlb_insert_def Let_def)

lemma vpn_match_refl [simp]: "vpn_match v v l"
  by (simp add: vpn_match_def)

lemma find_update_new:
  assumes "find p xs = None" "i < length xs" "p e" shows "find p (xs[i := e]) = Some e"
proof -
  have "\<forall>j < length xs. \<not> p (xs ! j)" using assms(1) by (auto simp: find_None_iff all_set_conv_all_nth)
  then show ?thesis
    using assms(2,3) by (auto simp: find_Some_iff nth_update_if intro!: exI[of _ i])
qed

lemma tlb_fill_hit:
  assumes "tlb_get vaddr asid t = None" "0 < length (tlb_entries t)"
  shows "tlb_get vaddr asid (tlb_insert vaddr ppn asid perm level g t) = Some (ppn, perm, level)"
proof -
  obtain i where i: "i < length (tlb_entries t)"
    "tlb_entries (tlb_insert vaddr ppn asid perm level g t) = (tlb_entries t)[i :=
       \<lparr>te_valid = True, te_global = g, te_perm = perm, te_level = level, te_asid = asid,
        te_vpn = drop_bit 12 vaddr, te_ppn = ppn, te_lru_time = lru_clock t\<rparr>]"
    using tlb_insert_slot[OF assms(2)] by metis
  then show ?thesis
    using assms(1) find_update_new[of "tlb_hits (drop_bit 12 vaddr) asid" "tlb_entries t" i]
    by (simp add: tlb_get_find tlb_hits_def)
qed

lemma tlb_get_None:
  "tlb_get vaddr asid t = None \<longleftrightarrow> (\<forall>e \<in> set (tlb_entries t). \<not> tlb_hits (drop_bit 12 vaddr) asid e)"
  by (auto simp: tlb_get_find find_None_iff)

lemma tlb_drop_set:
  "(\<exists>e \<in> set (tlb_entries (tlb_drop_if p t)). tlb_hits v a e) \<longleftrightarrow>
     (\<exists>e \<in> set (tlb_entries t). tlb_hits v a e \<and> \<not> p e)"
proof -
  have "tlb_hits v a (if p e then e\<lparr>te_valid := False\<rparr> else e) \<longleftrightarrow> tlb_hits v a e \<and> \<not> p e" for e
    by (simp add: tlb_hits_def)
  then show ?thesis by (simp add: tlb_drop_if_def) (auto simp: tlb_hits_def)
qed

lemma tlb_drop_None:
  "tlb_get v a (tlb_drop_if p t) = None \<longleftrightarrow>
     (\<forall>e \<in> set (tlb_entries t). tlb_hits (drop_bit 12 v) a e \<longrightarrow> p e)"
  using tlb_drop_set[of p t "drop_bit 12 v" a] unfolding tlb_get_None by blast

section \<open>Properties\<close>

text \<open>A TLB fill after a miss is visible: the next lookup of the same virtual address and
  address space returns exactly the filled translation; the fill replaces a single
  slot and keeps every other one; and lookups themselves never change what any later
  lookup returns.\<close>
theorem tlb_fill_then_lookup:
  assumes "tlb_get vaddr asid t = None" "0 < length (tlb_entries t)"
  shows "tlb_get vaddr asid (tlb_insert vaddr ppn asid perm level g t) = Some (ppn, perm, level) \<and>
     (\<exists>i < length (tlb_entries t). \<forall>j. j \<noteq> i \<longrightarrow>
        tlb_entries (tlb_insert vaddr ppn asid perm level g t) ! j = tlb_entries t ! j) \<and>
     tlb_get v a (snd (tlb_lookup vaddr asid t)) = tlb_get v a t"
proof -
  obtain i where "i < length (tlb_entries t)"
    "\<forall>j. j \<noteq> i \<longrightarrow> tlb_entries (tlb_insert vaddr ppn asid perm level g t) ! j = tlb_entries t ! j"
    using tlb_insert_slot[OF assms(2), of vaddr ppn asid perm level g] by (metis nth_list_update_neq)
  then show ?thesis using tlb_fill_hit[OF assms] tlb_lookup_get by blast
qed

theorem tlb_fill_then_lookup_witness:
  "tlb_get 0x1234567 5 (tlb_init 16) = None \<and>
   tlb_get 0x1234567 5 (tlb_insert 0x1234567 0x80001 5 7 0 False (tlb_init 16)) = Some (0x80001, 7, 0)"
proof -
  have a: "tlb_get 0x1234567 5 (tlb_init 16) = None" "0 < length (tlb_entries (tlb_init 16))"
    by (simp_all add: tlb_get_None tlb_init_def tlb_hits_def TLBEntry_default_def)
  show ?thesis using tlb_fill_then_lookup[OF a] a by blast
qed



end
