(* ===== verification/MMU.thy ===== *)
theory MMU
  imports TLB CSR_File
begin

unbundle bit_operations_syntax

text \<open>
  The Sv39 memory management unit (src/inc/MMU.h): instruction and data TLB, the
  three-level page-table walker and SFENCE.VMA.  The walker reaches memory only
  through MemoryInterface::readDataMem64 and writeDataMem64, so the definitions
  take these two operations as arguments \<^verbatim>\<open>rd\<close> and \<^verbatim>\<open>wr\<close> over a memory state; the
  locale \<^verbatim>\<open>pt_memory\<close> states what the walk relies on, and the platform theory
  interprets it on the real bus path.  \<^verbatim>\<open>sv39_walk\<close> is the architecture's walk as a
  relation on page-table contents; the walker implements it.
\<close>

section \<open>State and operations\<close>

datatype access_t = FETCH | LOAD | STORE

record MMU_Result =
  r_ok :: bool
  r_fault :: bool
  r_fault_cause :: u64
  r_paddr :: u64
  r_stall_cycles :: int

record MMU =
  itlb :: TLB
  dtlb :: TLB
  ptw_cycles_per_level :: int
  sfence_call_count :: int
  itlb_hits :: u64
  itlb_misses :: u64
  dtlb_hits :: u64
  dtlb_misses :: u64
  ptw_walks :: u64

definition mmu_init :: "int \<Rightarrow> MMU" where
  "mmu_init ptw_mem_cycles =
     \<lparr>itlb = tlb_init 16, dtlb = tlb_init 16, ptw_cycles_per_level = ptw_mem_cycles,
      sfence_call_count = 0, itlb_hits = 0, itlb_misses = 0, dtlb_hits = 0, dtlb_misses = 0,
      ptw_walks = 0\<rparr>"

definition fault_cause :: "access_t \<Rightarrow> u64" where
  "fault_cause atype = (case atype of FETCH \<Rightarrow> 12 | LOAD \<Rightarrow> 13 | STORE \<Rightarrow> 15)"

definition check_perm :: "u8 \<Rightarrow> u8 \<Rightarrow> access_t \<Rightarrow> u8 \<Rightarrow> u64 \<Rightarrow> bool" where
  "check_perm perm level atype p mst =
     (let pte_r = (drop_bit 0 perm AND 1 \<noteq> 0);
          pte_w = (drop_bit 1 perm AND 1 \<noteq> 0);
          pte_x = (drop_bit 2 perm AND 1 \<noteq> 0);
          pte_u = (drop_bit 3 perm AND 1 \<noteq> 0);
          sum = (drop_bit 18 mst AND 1 \<noteq> 0);
          mxr = (drop_bit 19 mst AND 1 \<noteq> 0)
      in if p = PrivMode_U \<and> \<not> pte_u then False
         else if p = PrivMode_S \<and> pte_u \<and> (atype = FETCH \<or> \<not> sum) then False
         else case atype of FETCH \<Rightarrow> pte_x | LOAD \<Rightarrow> pte_r \<or> (mxr \<and> pte_x) | STORE \<Rightarrow> pte_w)"

definition make_paddr :: "u64 \<Rightarrow> u64 \<Rightarrow> u8 \<Rightarrow> u64" where
  "make_paddr ppn vaddr level =
     (let offset_bits = 12 + unat level * 9;
          offset_mask = push_bit offset_bits 1 - 1
      in push_bit offset_bits (drop_bit (unat level * 9) ppn) OR (vaddr AND offset_mask))"

definition ppn_field :: "u64 \<Rightarrow> u64" where
  "ppn_field pte = drop_bit 10 pte AND (push_bit 44 1 - 1)"

definition pte_address :: "u64 \<Rightarrow> u64 \<Rightarrow> nat \<Rightarrow> u64" where
  "pte_address table_ppn vaddr level =
     push_bit 12 table_ppn OR push_bit 3 (drop_bit (12 + 9 * level) vaddr AND 0x1FF)"

type_synonym 'm rd64 = "u64 \<Rightarrow> 'm \<Rightarrow> u64 \<times> 'm"
type_synonym 'm wr64 = "u64 \<Rightarrow> u64 \<Rightarrow> 'm \<Rightarrow> 'm"

fun ptw_loop :: "'m rd64 \<Rightarrow> 'm wr64 \<Rightarrow> int \<Rightarrow> u64 \<Rightarrow> access_t \<Rightarrow> u8 \<Rightarrow> u64 \<Rightarrow> nat \<Rightarrow> u64 \<Rightarrow> int \<Rightarrow> 'm
    \<Rightarrow> (u64 + u64 \<times> u8 \<times> u8 \<times> bool) \<times> int \<times> 'm" where
  "ptw_loop rd wr cost vaddr atype p mst level table_ppn cycles m =
     (let pte_addr = pte_address table_ppn vaddr level;
          (pte, m) = rd pte_addr m;
          cycles = cycles + cost
      in if pte AND 1 = 0 then (Inl (fault_cause atype), cycles, m)
         else let pte_r = (drop_bit 1 pte AND 1 \<noteq> 0); pte_x = (drop_bit 3 pte AND 1 \<noteq> 0)
         in if \<not> pte_r \<and> \<not> pte_x
         then (case level of
                 0 \<Rightarrow> (Inl (fault_cause atype), cycles, m)
               | Suc l \<Rightarrow> ptw_loop rd wr cost vaddr atype p mst l (ppn_field pte) cycles m)
         else if level > 0 \<and> drop_bit 10 pte AND (if level = 2 then 0x3FFFF else 0x1FF) \<noteq> 0
         then (Inl (fault_cause atype), cycles, m)
         else let perm = ucast (drop_bit 1 pte AND 0xF)
         in if \<not> check_perm perm (of_nat level) atype p mst
         then (Inl (fault_cause atype), cycles, m)
         else let new_pte = (pte OR push_bit 6 1) OR (if atype = STORE then push_bit 7 1 else 0);
                  m = (if new_pte \<noteq> pte then wr pte_addr new_pte m else m)
         in (Inr (ppn_field pte, perm, of_nat level, drop_bit 5 pte AND 1 \<noteq> 0), cycles, m))"

declare ptw_loop.simps [simp del]

definition ptw :: "'m rd64 \<Rightarrow> 'm wr64 \<Rightarrow> int \<Rightarrow> u64 \<Rightarrow> u64 \<Rightarrow> access_t \<Rightarrow> u8 \<Rightarrow> u64 \<Rightarrow> 'm
    \<Rightarrow> (u64 + u64 \<times> u8 \<times> u8 \<times> bool) \<times> int \<times> 'm" where
  "ptw rd wr cost root_ppn vaddr atype p mst m = ptw_loop rd wr cost vaddr atype p mst 2 root_ppn 0 m"

definition mmu_set_tlb :: "access_t \<Rightarrow> TLB \<Rightarrow> MMU \<Rightarrow> MMU" where
  "mmu_set_tlb atype t mmu = (if atype = FETCH then mmu\<lparr>itlb := t\<rparr> else mmu\<lparr>dtlb := t\<rparr>)"

definition mmu_tlb :: "access_t \<Rightarrow> MMU \<Rightarrow> TLB" where
  "mmu_tlb atype mmu = (if atype = FETCH then itlb mmu else dtlb mmu)"

definition mmu_count_hit :: "access_t \<Rightarrow> MMU \<Rightarrow> MMU" where
  "mmu_count_hit atype mmu =
     (if atype = FETCH then mmu\<lparr>itlb_hits := itlb_hits mmu + 1\<rparr> else mmu\<lparr>dtlb_hits := dtlb_hits mmu + 1\<rparr>)"

definition mmu_count_miss :: "access_t \<Rightarrow> MMU \<Rightarrow> MMU" where
  "mmu_count_miss atype mmu =
     (if atype = FETCH then mmu\<lparr>itlb_misses := itlb_misses mmu + 1, ptw_walks := ptw_walks mmu + 1\<rparr>
      else mmu\<lparr>dtlb_misses := dtlb_misses mmu + 1, ptw_walks := ptw_walks mmu + 1\<rparr>)"

definition translate :: "'m rd64 \<Rightarrow> 'm wr64 \<Rightarrow> u64 \<Rightarrow> CSR_File \<Rightarrow> access_t \<Rightarrow> MMU \<Rightarrow> 'm
    \<Rightarrow> MMU_Result \<times> MMU \<times> 'm" where
  "translate rd wr vaddr csr atype mmu m =
     (let vm_active = (drop_bit 60 (satp csr) = 8)
      in if \<not> vm_active \<or> priv csr = PrivMode_M
         then (\<lparr>r_ok = True, r_fault = False, r_fault_cause = 0, r_paddr = vaddr, r_stall_cycles = 0\<rparr>, mmu, m)
         else
           let asid = ucast (drop_bit 44 (satp csr) AND 0xFFFF);
               (hit, t) = tlb_lookup vaddr asid (mmu_tlb atype mmu);
               mmu = mmu_set_tlb atype t mmu
           in case hit of
             Some (ppn, perm, level) \<Rightarrow>
               (let ok = check_perm perm level atype (priv csr) (mstatus csr)
                in (\<lparr>r_ok = True, r_fault = \<not> ok, r_fault_cause = (if ok then 0 else fault_cause atype),
                     r_paddr = make_paddr ppn vaddr level, r_stall_cycles = 0\<rparr>,
                    mmu_count_hit atype mmu, m))
           | None \<Rightarrow>
               (let mmu = mmu_count_miss atype mmu;
                    root_ppn = satp csr AND (push_bit 44 1 - 1)
                in case ptw rd wr (ptw_cycles_per_level mmu) root_ppn vaddr atype (priv csr) (mstatus csr) m of
                  (Inl fault_c, walk_cycles, m) \<Rightarrow>
                    (\<lparr>r_ok = False, r_fault = True, r_fault_cause = fault_c, r_paddr = 0,
                      r_stall_cycles = walk_cycles\<rparr>, mmu, m)
                | (Inr (leaf_ppn, leaf_perm, leaf_level, global_bit), walk_cycles, m) \<Rightarrow>
                    (\<lparr>r_ok = True, r_fault = False, r_fault_cause = 0,
                      r_paddr = make_paddr leaf_ppn vaddr leaf_level, r_stall_cycles = walk_cycles\<rparr>,
                     mmu_set_tlb atype
                       (tlb_insert vaddr leaf_ppn asid leaf_perm leaf_level global_bit (mmu_tlb atype mmu)) mmu,
                     m)))"

definition sfence_vma :: "u64 \<Rightarrow> u64 \<Rightarrow> bool \<Rightarrow> bool \<Rightarrow> MMU \<Rightarrow> MMU" where
  "sfence_vma rs1_val rs2_val rs1_zero rs2_zero mmu =
     (let asid = ucast (rs2_val AND 0xFFFF);
          mmu = mmu\<lparr>sfence_call_count := sfence_call_count mmu + 1\<rparr>
      in if rs1_zero \<and> rs2_zero
         then mmu\<lparr>itlb := tlb_flush_all (itlb mmu), dtlb := tlb_flush_all (dtlb mmu)\<rparr>
         else if rs1_zero
         then mmu\<lparr>itlb := tlb_flush_asid asid (itlb mmu), dtlb := tlb_flush_asid asid (dtlb mmu)\<rparr>
         else if rs2_zero
         then mmu\<lparr>itlb := tlb_flush_va rs1_val (itlb mmu), dtlb := tlb_flush_va rs1_val (dtlb mmu)\<rparr>
         else mmu\<lparr>itlb := tlb_flush_va_asid rs1_val asid (itlb mmu),
                  dtlb := tlb_flush_va_asid rs1_val asid (dtlb mmu)\<rparr>)"

definition mmu_flush_all :: "MMU \<Rightarrow> MMU" where
  "mmu_flush_all mmu = mmu\<lparr>itlb := tlb_invalidate_all (itlb mmu), dtlb := tlb_invalidate_all (dtlb mmu)\<rparr>"

section \<open>The architecture's walk\<close>

text \<open>\<^verbatim>\<open>sv39_walk pk D va l tbl r\<close>: starting at level \<^verbatim>\<open>l\<close> in the table at page \<^verbatim>\<open>tbl\<close> of a
  page-table memory with contents \<^verbatim>\<open>pk\<close>, all entries visited lying in \<^verbatim>\<open>D\<close>, the walk for
  \<^verbatim>\<open>va\<close> ends with no leaf (\<^verbatim>\<open>None\<close>) or at a leaf entry (address, level and contents).\<close>

inductive sv39_walk :: "(u64 \<Rightarrow> u64) \<Rightarrow> u64 set \<Rightarrow> u64 \<Rightarrow> nat \<Rightarrow> u64 \<Rightarrow> (u64 \<times> nat \<times> u64) option \<Rightarrow> bool"
  for pk :: "u64 \<Rightarrow> u64" and D :: "u64 set" and va :: u64 where
  walk_invalid: "a = pte_address tbl va l \<Longrightarrow> a \<in> D \<Longrightarrow> \<not> bit (pk a) 0 \<Longrightarrow> sv39_walk pk D va l tbl None"
| walk_leaf: "a = pte_address tbl va l \<Longrightarrow> a \<in> D \<Longrightarrow> bit (pk a) 0 \<Longrightarrow> bit (pk a) 1 \<or> bit (pk a) 3 \<Longrightarrow>
    sv39_walk pk D va l tbl (Some (a, l, pk a))"
| walk_end: "a = pte_address tbl va 0 \<Longrightarrow> a \<in> D \<Longrightarrow> bit (pk a) 0 \<Longrightarrow> \<not> bit (pk a) 1 \<Longrightarrow> \<not> bit (pk a) 3 \<Longrightarrow>
    sv39_walk pk D va 0 tbl None"
| walk_down: "a = pte_address tbl va (Suc l) \<Longrightarrow> a \<in> D \<Longrightarrow> bit (pk a) 0 \<Longrightarrow> \<not> bit (pk a) 1 \<Longrightarrow>
    \<not> bit (pk a) 3 \<Longrightarrow> sv39_walk pk D va l (ppn_field (pk a)) r \<Longrightarrow> sv39_walk pk D va (Suc l) tbl r"

definition pte_perm :: "u64 \<Rightarrow> u8" where
  "pte_perm pte = ucast (drop_bit 1 pte AND 0xF)"

definition superpage_aligned :: "nat \<Rightarrow> u64 \<Rightarrow> bool" where
  "superpage_aligned l pte \<longleftrightarrow> (\<forall>k < 9 * l. \<not> bit pte (10 + k))"

definition pte_accessed :: "access_t \<Rightarrow> u64 \<Rightarrow> u64" where
  "pte_accessed atype pte = (pte OR push_bit 6 1) OR (if atype = STORE then push_bit 7 1 else 0)"

locale pt_memory =
  fixes rd :: "'m rd64" and wr :: "'m wr64" and peek :: "'m \<Rightarrow> u64 \<Rightarrow> u64" and D :: "u64 set"
  assumes rd_pure: "a \<in> D \<Longrightarrow> rd a m = (peek m a, m)"
    and wr_same: "a \<in> D \<Longrightarrow> peek (wr a v m) a = v"
    and wr_other: "a \<in> D \<Longrightarrow> b \<in> D \<Longrightarrow> a \<noteq> b \<Longrightarrow> peek (wr a v m) b = peek m b"

lemma low_mask_bits:
  assumes "n \<le> 54"
  shows "drop_bit 10 (pte :: u64) AND mask n \<noteq> 0 \<longleftrightarrow> (\<exists>k < n. bit pte (10 + k))"
proof -
  have "bit (drop_bit 10 pte AND mask n) k \<longleftrightarrow> k < n \<and> bit pte (10 + k)" for k
    using assms by (auto simp: bit_and_iff bit_mask_iff bit_drop_bit_eq)
  moreover have "k < n \<Longrightarrow> k < LENGTH(64)" for k using assms by simp
  ultimately show ?thesis unfolding word_neq_0_bit by blast
qed

lemma superpage_check:
  assumes "l \<le> 2"
  shows "(l > 0 \<and> drop_bit 10 pte AND (if l = 2 then 0x3FFFF else 0x1FF) \<noteq> 0) \<longleftrightarrow> \<not> superpage_aligned l pte"
proof -
  have m: "(0x3FFFF :: u64) = mask 18" "(0x1FF :: u64) = mask 9" by (simp_all add: mask_eq_exp_minus_1)
  from assms consider "l = 0" | "l = 1" | "l = 2" by linarith
  then show ?thesis
    using low_mask_bits[of 9 pte] low_mask_bits[of 18 pte]
    unfolding superpage_aligned_def m[symmetric] by cases auto
qed

definition ptw_result :: "'m wr64 \<Rightarrow> access_t \<Rightarrow> u8 \<Rightarrow> u64 \<Rightarrow> (u64 \<times> nat \<times> u64) option \<Rightarrow> 'm
    \<Rightarrow> (u64 + u64 \<times> u8 \<times> u8 \<times> bool) \<times> 'm" where
  "ptw_result wr atype p mst w m = (case w of
     None \<Rightarrow> (Inl (fault_cause atype), m)
   | Some (a, l, pte) \<Rightarrow>
       if superpage_aligned l pte \<and> check_perm (pte_perm pte) (of_nat l) atype p mst
       then (Inr (ppn_field pte, pte_perm pte, of_nat l, bit pte 5),
             if pte_accessed atype pte = pte then m else wr a (pte_accessed atype pte) m)
       else (Inl (fault_cause atype), m))"

lemma and_1_bit: "(pte :: 'a::len word) AND 1 = 0 \<longleftrightarrow> \<not> bit pte 0"
  using drop_bit_and_1[of 0 pte] unfolding drop_bit_0 id_apply by blast

lemma ptw_loop_flat:
  "ptw_loop rd wr cost vaddr atype p mst level tbl c m =
     (let a = pte_address tbl vaddr level; (pte, m) = rd a m
      in if \<not> bit pte 0 then (Inl (fault_cause atype), c + cost, m)
         else if \<not> bit pte 1 \<and> \<not> bit pte 3
         then (case level of
                 0 \<Rightarrow> (Inl (fault_cause atype), c + cost, m)
               | Suc l \<Rightarrow> ptw_loop rd wr cost vaddr atype p mst l (ppn_field pte) (c + cost) m)
         else if (level > 0 \<and> drop_bit 10 pte AND (if level = 2 then 0x3FFFF else 0x1FF) \<noteq> 0) \<or>
                 \<not> check_perm (pte_perm pte) (of_nat level) atype p mst
         then (Inl (fault_cause atype), c + cost, m)
         else (Inr (ppn_field pte, pte_perm pte, of_nat level, bit pte 5), c + cost,
               if pte_accessed atype pte = pte then m else wr a (pte_accessed atype pte) m))"
proof -
  obtain pte m' where r: "rd (pte_address tbl vaddr level) m = (pte, m')" by fastforce
  let ?sp = "level > 0 \<and> drop_bit 10 pte AND (if level = 2 then 0x3FFFF else 0x1FF) \<noteq> 0"
  show ?thesis
    unfolding ptw_loop.simps[of rd wr cost vaddr atype p mst level tbl c m] Let_def r prod.case
      drop_bit_and_1 pte_perm_def[symmetric] pte_accessed_def[symmetric]
    unfolding and_1_bit
    by (cases "bit pte 0"; cases "\<not> bit pte 1 \<and> \<not> bit pte 3"; cases ?sp;
        cases "check_perm (pte_perm pte) (of_nat level) atype p mst") (simp_all only: simp_thms if_True if_False, simp)
qed

context pt_memory
begin

lemma ptw_loop_walk:
  "sv39_walk (peek m) D va l tbl w \<Longrightarrow> l \<le> 2 \<Longrightarrow>
   (let (r, cyc, m') = ptw_loop rd wr cost va atype p mst l tbl c m
    in (r, m') = ptw_result wr atype p mst w m \<and> (\<exists>k. 1 \<le> k \<and> k \<le> Suc l \<and> cyc = c + int k * cost))"
proof (induction arbitrary: c rule: sv39_walk.induct)
  case (walk_invalid a tbl l)
  then have "ptw_loop rd wr cost va atype p mst l tbl c m = (Inl (fault_cause atype), c + cost, m)"
    by (simp add: ptw_loop_flat rd_pure Let_def)
  then show ?case by (auto simp: ptw_result_def intro!: exI[of _ 1])
next
  case (walk_leaf a tbl l)
  have nl: "(\<not> bit (peek m a) 1 \<and> \<not> bit (peek m a) 3) = False" using walk_leaf.hyps by blast
  have v: "(\<not> bit (peek m a) 0) = False" using walk_leaf.hyps by simp
  note al = superpage_check[OF walk_leaf.prems, of "peek m a"]
  have flat: "ptw_loop rd wr cost va atype p mst l tbl c m =
     (if \<not> superpage_aligned l (peek m a) \<or> \<not> check_perm (pte_perm (peek m a)) (of_nat l) atype p mst
      then (Inl (fault_cause atype), c + cost, m)
      else (Inr (ppn_field (peek m a), pte_perm (peek m a), of_nat l, bit (peek m a) 5), c + cost,
            if pte_accessed atype (peek m a) = peek m a then m else wr a (pte_accessed atype (peek m a)) m))"
    unfolding ptw_loop_flat[of rd wr cost va atype p mst l tbl c m] Let_def walk_leaf.hyps(1)[symmetric]
      rd_pure[OF walk_leaf.hyps(2)] prod.case nl v al if_False by (rule refl)
  show ?case
    by (cases "superpage_aligned l (peek m a) \<and> check_perm (pte_perm (peek m a)) (of_nat l) atype p mst")
      (auto simp: flat ptw_result_def intro!: exI[of _ 1])
next
  case (walk_end a tbl)
  then have "ptw_loop rd wr cost va atype p mst 0 tbl c m = (Inl (fault_cause atype), c + cost, m)"
    by (simp add: ptw_loop_flat rd_pure Let_def)
  then show ?case by (auto simp: ptw_result_def intro!: exI[of _ 1])
next
  case (walk_down a tbl l r)
  have step: "ptw_loop rd wr cost va atype p mst (Suc l) tbl c m =
      ptw_loop rd wr cost va atype p mst l (ppn_field (peek m a)) (c + cost) m"
    using walk_down.hyps
    by (subst ptw_loop_flat) (simp add: rd_pure Let_def)
  obtain r' cyc m' where run: "ptw_loop rd wr cost va atype p mst l (ppn_field (peek m a)) (c + cost) m = (r', cyc, m')"
    by (metis prod_cases3)
  with walk_down.IH[of "c + cost"] walk_down.prems obtain k where
    "(r', m') = ptw_result wr atype p mst r m" "1 \<le> k" "k \<le> Suc l" "cyc = c + cost + int k * cost" by auto
  then show ?case
    unfolding step run by (auto simp: algebra_simps intro!: exI[of _ "Suc k"])
qed

lemma ptw_walk:
  assumes "sv39_walk (peek m) D va 2 root w"
  shows "let (r, cyc, m') = ptw rd wr cost root va atype p mst m
    in (r, m') = ptw_result wr atype p mst w m \<and> (\<exists>k. 1 \<le> k \<and> k \<le> 3 \<and> cyc = int k * cost)"
  using ptw_loop_walk[OF assms, of cost atype p mst 0] by (simp add: ptw_def numeral_3_eq_3)

end

section \<open>Translation\<close>

lemma mmu_tlb_simps [simp]:
  "mmu_tlb a (mmu_set_tlb a t mmu) = t" "mmu_tlb a (mmu_count_hit b mmu) = mmu_tlb a mmu"
  "mmu_tlb a (mmu_count_miss b mmu) = mmu_tlb a mmu"
  by (simp_all add: mmu_tlb_def mmu_set_tlb_def mmu_count_hit_def mmu_count_miss_def)

definition sv39_on :: "CSR_File \<Rightarrow> bool" where
  "sv39_on csr \<longleftrightarrow> drop_bit 60 (satp csr) = 8 \<and> priv csr \<noteq> PrivMode_M"

definition csr_asid :: "CSR_File \<Rightarrow> u16" where
  "csr_asid csr = ucast (drop_bit 44 (satp csr) AND 0xFFFF)"

lemma translate_hit:
  assumes "sv39_on csr" "tlb_get va (csr_asid csr) (mmu_tlb atype mmu) = Some (ppn, perm, level)"
  shows "translate rd wr va csr atype mmu m =
     (let ok = check_perm perm level atype (priv csr) (mstatus csr)
      in (\<lparr>r_ok = True, r_fault = \<not> ok, r_fault_cause = (if ok then 0 else fault_cause atype),
           r_paddr = make_paddr ppn va level, r_stall_cycles = 0\<rparr>,
          mmu_count_hit atype
            (mmu_set_tlb atype (snd (tlb_lookup va (csr_asid csr) (mmu_tlb atype mmu))) mmu), m))"
  using assms
  by (simp add: translate_def Let_def sv39_on_def csr_asid_def[symmetric] tlb_get_def case_prod_unfold)

lemma translate_miss:
  assumes "sv39_on csr" "tlb_get va (csr_asid csr) (mmu_tlb atype mmu) = None"
  shows "translate rd wr va csr atype mmu m =
     (let mmu1 = mmu_count_miss atype
            (mmu_set_tlb atype (snd (tlb_lookup va (csr_asid csr) (mmu_tlb atype mmu))) mmu)
      in case ptw rd wr (ptw_cycles_per_level mmu) (satp csr AND (push_bit 44 1 - 1)) va atype
              (priv csr) (mstatus csr) m of
           (Inl c, cyc, m') \<Rightarrow>
             (\<lparr>r_ok = False, r_fault = True, r_fault_cause = c, r_paddr = 0, r_stall_cycles = cyc\<rparr>, mmu1, m')
         | (Inr (ppn, perm, level, g), cyc, m') \<Rightarrow>
             (\<lparr>r_ok = True, r_fault = False, r_fault_cause = 0, r_paddr = make_paddr ppn va level,
               r_stall_cycles = cyc\<rparr>,
              mmu_set_tlb atype (tlb_insert va ppn (csr_asid csr) perm level g (mmu_tlb atype mmu1)) mmu1, m'))"
proof -
  have c: "ptw_cycles_per_level (mmu_count_miss atype (mmu_set_tlb atype t mmu)) = ptw_cycles_per_level mmu" for t
    by (simp add: mmu_count_miss_def mmu_set_tlb_def)
  obtain t where t: "tlb_lookup va (csr_asid csr) (mmu_tlb atype mmu) = (None, t)"
    using assms(2) by (metis prod.collapse tlb_get_def)
  show ?thesis
    using assms(1) t
    by (simp add: translate_def Let_def sv39_on_def csr_asid_def[symmetric] c split: sum.split prod.split)
qed

lemma make_paddr_offset:
  assumes "k < 12 + unat level * 9" "k < 64"
  shows "bit (make_paddr ppn va level) k = bit va k"
proof -
  have "push_bit (12 + unat level * 9) 1 - 1 = (mask (12 + unat level * 9) :: u64)"
    by (simp add: mask_eq_exp_minus_1)
  then show ?thesis using assms by (simp only: make_paddr_def Let_def) (auto simp: bit_simps)
qed

lemma make_paddr_page:
  assumes "12 + unat level * 9 \<le> k" "k < 64"
  shows "bit (make_paddr ppn va level) k = bit ppn (k - 12)"
proof -
  have "push_bit (12 + unat level * 9) 1 - 1 = (mask (12 + unat level * 9) :: u64)"
    by (simp add: mask_eq_exp_minus_1)
  moreover have "unat level * 9 + (k - (12 + unat level * 9)) = k - 12" using assms by simp
  ultimately show ?thesis using assms by (simp only: make_paddr_def Let_def) (auto simp: bit_simps)
qed

section \<open>Properties\<close>

text \<open>With translation off (satp mode not Sv39) or in machine mode, translate returns the
  virtual address unchanged, never faults, costs no cycles and touches neither the TLBs
  nor memory.\<close>
theorem translate_bare_identity:
  assumes "\<not> sv39_on csr"
  shows "translate rd wr va csr atype mmu m =
     (\<lparr>r_ok = True, r_fault = False, r_fault_cause = 0, r_paddr = va, r_stall_cycles = 0\<rparr>, mmu, m)"
  using assms by (auto simp: translate_def sv39_on_def Let_def)

theorem translate_bare_identity_witness:
  "\<not> sv39_on CSR_File_init \<and>
   translate (\<lambda>a m. (m a, m)) (\<lambda>a v m. m(a := v)) 0x80001234 CSR_File_init LOAD (mmu_init 2) (\<lambda>_. 0) =
     (\<lparr>r_ok = True, r_fault = False, r_fault_cause = 0, r_paddr = 0x80001234, r_stall_cycles = 0\<rparr>,
      mmu_init 2, \<lambda>_. 0)"
proof -
  have "\<not> sv39_on CSR_File_init" by (simp add: sv39_on_def CSR_File_init_def)
  then show ?thesis by (simp add: translate_bare_identity)
qed

lemma ptw_loop_perm:
  "fst (ptw_loop rd wr cost va atype p mst l tbl c m) = Inr (ppn, pm, lv, g) \<Longrightarrow> check_perm pm lv atype p mst"
proof (induction l arbitrary: tbl c m)
  case 0
  then show ?case by (subst (asm) ptw_loop_flat) (auto simp: Let_def case_prod_unfold split: if_splits)
next
  case (Suc l)
  then show ?case by (subst (asm) ptw_loop_flat) (auto simp: Let_def case_prod_unfold split: if_splits)
qed

text \<open>C34: The TLB is transparent.  When a translation succeeds through a page-table walk, repeating
  it at once gives the same physical address without a fault, at no cost and without
  touching memory.\<close>
theorem translate_miss_then_hit:
  assumes on: "sv39_on csr" and miss: "tlb_get va (csr_asid csr) (mmu_tlb atype mmu) = None"
    and sz: "0 < length (tlb_entries (mmu_tlb atype mmu))"
    and run: "translate rd wr va csr atype mmu m = (r1, mmu1, m1)" and ok: "r_ok r1"
  shows "\<exists>mmu2. translate rd wr va csr atype mmu1 m1 =
     (\<lparr>r_ok = True, r_fault = False, r_fault_cause = 0, r_paddr = r_paddr r1, r_stall_cycles = 0\<rparr>, mmu2, m1)"
proof -
  let ?w = "ptw rd wr (ptw_cycles_per_level mmu) (satp csr AND (push_bit 44 1 - 1)) va atype
              (priv csr) (mstatus csr) m"
  let ?t = "snd (tlb_lookup va (csr_asid csr) (mmu_tlb atype mmu))"
  obtain res cyc m' where w: "?w = (res, cyc, m')" by (metis prod_cases3)
  show ?thesis
  proof (cases res)
    case (Inl c)
    then show ?thesis using run ok w by (simp add: translate_miss[OF on miss] Let_def) auto
  next
    case (Inr q)
    obtain ppn pm lv g where q: "q = (ppn, pm, lv, g)" by (metis prod_cases4)
    have r1: "r_paddr r1 = make_paddr ppn va lv" "m1 = m'"
      and t1: "mmu_tlb atype mmu1 = tlb_insert va ppn (csr_asid csr) pm lv g ?t"
      using run w by (auto simp: translate_miss[OF on miss] Let_def Inr q)
    have get: "tlb_get va (csr_asid csr) (mmu_tlb atype mmu1) = Some (ppn, pm, lv)"
      unfolding t1 using miss sz by (intro tlb_fill_hit) (simp_all add: tlb_lookup_get)
    have "fst ?w = Inr (ppn, pm, lv, g)" using w by (simp add: Inr q)
    then have "check_perm pm lv atype (priv csr) (mstatus csr)"
      unfolding ptw_def by (rule ptw_loop_perm)
    then show ?thesis using translate_hit[OF on get, of rd wr m1] r1 by (simp add: Let_def)
  qed
qed

definition flat_rd :: "(u64 \<Rightarrow> u64) rd64" where
  "flat_rd a m = (m a, m)"

definition flat_wr :: "(u64 \<Rightarrow> u64) wr64" where
  "flat_wr a v m = m(a := v)"

definition csr_sv39_demo :: CSR_File where
  "csr_sv39_demo = CSR_File_init\<lparr>satp := 0x8000000000080000, priv := PrivMode_S\<rparr>"

definition pt_demo :: "u64 \<Rightarrow> u64" where
  "pt_demo = (\<lambda>_. 0)(0x80000010 := 0x200000CF)"

theorem translate_miss_then_hit_witness:
  "sv39_on csr_sv39_demo \<and>
   (\<exists>mmu2. translate flat_rd flat_wr 0x80001234 csr_sv39_demo LOAD
       (fst (snd (translate flat_rd flat_wr 0x80001234 csr_sv39_demo LOAD (mmu_init 2) pt_demo)))
       (snd (snd (translate flat_rd flat_wr 0x80001234 csr_sv39_demo LOAD (mmu_init 2) pt_demo))) =
     (\<lparr>r_ok = True, r_fault = False, r_fault_cause = 0, r_paddr = 0x80001234, r_stall_cycles = 0\<rparr>, mmu2,
      snd (snd (translate flat_rd flat_wr 0x80001234 csr_sv39_demo LOAD (mmu_init 2) pt_demo))))"
proof -
  let ?run = "translate flat_rd flat_wr 0x80001234 csr_sv39_demo LOAD (mmu_init 2) pt_demo"
  have on: "sv39_on csr_sv39_demo" by (simp add: sv39_on_def csr_sv39_demo_def)
  have miss: "tlb_get 0x80001234 (csr_asid csr_sv39_demo) (mmu_tlb LOAD (mmu_init 2)) = None"
    by (simp add: tlb_get_None mmu_tlb_def mmu_init_def tlb_init_def tlb_hits_def TLBEntry_default_def)
  have sz: "0 < length (tlb_entries (mmu_tlb LOAD (mmu_init 2)))" by (simp add: mmu_tlb_def mmu_init_def tlb_init_def)
  have "ptw flat_rd flat_wr 2 0x80000 0x80001234 LOAD PrivMode_S (mstatus csr_sv39_demo) pt_demo =
      (Inr (0x80000, 7, 2, False), 2, pt_demo)"
    by (simp add: ptw_def ptw_loop_flat flat_rd_def flat_wr_def pt_demo_def pte_address_def check_perm_def
        pte_perm_def ppn_field_def pte_accessed_def csr_sv39_demo_def CSR_File_init_def Let_def)
  then have "r_ok (fst ?run) \<and> r_paddr (fst ?run) = 0x80001234"
    by (simp add: translate_miss[OF on miss] Let_def)
      (simp add: csr_sv39_demo_def mmu_init_def make_paddr_def)
  then show ?thesis
    using translate_miss_then_hit[OF on miss sz, of flat_rd flat_wr pt_demo "fst ?run" "fst (snd ?run)" "snd (snd ?run)"] on
    by simp
qed



end
