(* ===== verification/Platform_Props.thy ===== *)
theory Platform_Props
  imports Platform MMU
begin

unbundle bit_operations_syntax

text \<open>
  Properties of the platform: what the bus promises its masters, read-after-write and
  isolation of main memory, DMA transfers and their re-entry, and the interpretation of
  the page-table memory interface on the real bus path.
\<close>

section \<open>Responses\<close>

lemma bus_transport_ok:
  assumes "bus_transport fuel tr pf = Inr (tr', pf')"
  shows "p_response tr' = TLM_OK_RESPONSE \<and> p_address tr' = p_address tr"
  using assms
  by (subst (asm) bus_transport.simps)
    (auto simp: Let_def forward_memory_def timer_transport_def trace_transport_def
      split: if_splits prod.splits sum.splits nat.splits list.splits tlm_command.splits)

lemma plic_transport_no_sc_error: "plic_transport tr s \<noteq> Inl SC_ERROR"
  by (simp add: plic_transport_def plic_complete_def Let_def case_prod_unfold split: sum.split)

lemma dma_transport_no_sc_error:
  assumes "\<And>t q. mm t q \<noteq> Inl SC_ERROR" shows "dma_transport mm tr pf \<noteq> Inl SC_ERROR"
proof -
  have "start_transfer mm q \<noteq> Inl SC_ERROR" for q
    using assms by (auto simp: start_transfer_def Let_def split: sum.splits prod.splits if_splits)
  then show ?thesis
    by (auto simp: dma_transport_def Let_def split: sum.splits tlm_command.splits if_splits)
qed

lemma not_sc_error_case:
  "x \<noteq> Inl SC_ERROR \<Longrightarrow> (case x of Inl e \<Rightarrow> Inl e | Inr (a, b) \<Rightarrow> Inr (f a b)) = Inl SC_ERROR \<longleftrightarrow> False"
  by (cases x) auto

lemma trace_no_sc_error: "trace_transport tr \<noteq> Inl SC_ERROR"
  by (simp add: trace_transport_def split: list.split)

lemma bus_transport_no_sc_error: "bus_transport fuel tr pf \<noteq> Inl SC_ERROR"
proof (induction fuel arbitrary: tr pf)
  case 0
  show ?case
    by (simp add: bus_transport.simps[of 0] Let_def case_prod_unfold not_sc_error_case
        plic_transport_no_sc_error trace_no_sc_error)
next
  case (Suc f)
  show ?case
    by (simp add: bus_transport.simps[of "Suc f"] Let_def case_prod_unfold not_sc_error_case
        plic_transport_no_sc_error trace_no_sc_error dma_transport_no_sc_error[OF Suc])
qed

section \<open>Main memory\<close>

definition dram_range :: "u64 \<Rightarrow> nat \<Rightarrow> bool" where
  "dram_range a n \<longleftrightarrow> 0 < n \<and> 0x80000000 \<le> unat a \<and> unat a + n \<le> 0xA0000000 \<and>
     a \<noteq> 0x90000000 \<and> a \<noteq> 0x80001000"

definition dram_offset :: "u64 \<Rightarrow> nat" where
  "dram_offset a = unat a - 0x80000000"

lemma dram_window:
  assumes "dram_range a n"
  shows "in_window a 0x80000000 0x20000000" "unat (a - 0x80000000) = dram_offset a"
    "dram_offset a + n \<le> Memory_SIZE"
  using assms unat_sub[of "0x80000000" a]
  by (auto simp: dram_range_def in_window_def word_le_nat_alt word_less_nat_alt dram_offset_def Memory_SIZE_def)

lemma bus_dram:
  assumes d: "dram_range (p_address tr) (length (p_data tr))" and b: "\<not> p_byte_enable tr"
  shows "bus_transport fuel tr pf = Inr (case p_cmd tr of
        TLM_READ_COMMAND \<Rightarrow>
          (with_response TLM_OK_RESPONSE
             (tr\<lparr>p_data := mem_read (pf_mem pf) (dram_offset (p_address tr)) (length (p_data tr))\<rparr>), pf)
      | TLM_WRITE_COMMAND \<Rightarrow>
          (with_response TLM_OK_RESPONSE tr,
           pf\<lparr>pf_mem := mem_write (pf_mem pf) (dram_offset (p_address tr)) (p_data tr)\<rparr>))"
proof -
  let ?t = "tr\<lparr>p_address := p_address tr - 0x80000000\<rparr>"
  have ne: "p_address tr \<noteq> 0x90000000" "p_address tr \<noteq> 0x80001000" "p_data tr \<noteq> []"
    using d by (auto simp: dram_range_def)
  have m: "memory_transport ?t (pf_mem pf) = (case p_cmd tr of
        TLM_READ_COMMAND \<Rightarrow>
          (with_response TLM_OK_RESPONSE
            (?t\<lparr>p_data := mem_read (pf_mem pf) (dram_offset (p_address tr)) (length (p_data tr))\<rparr>), pf_mem pf)
      | TLM_WRITE_COMMAND \<Rightarrow>
          (with_response TLM_OK_RESPONSE ?t, mem_write (pf_mem pf) (dram_offset (p_address tr)) (p_data tr)))"
    using memory_transport_in_range[of ?t] dram_window(2,3)[OF d] ne b by (cases "p_cmd tr") simp_all
  have "bus_transport fuel tr pf = Inr (forward_memory (p_address tr - 0x80000000) tr pf)"
    using ne dram_window(1)[OF d] by (subst bus_transport.simps) (simp add: Let_def)
  then show ?thesis
    by (cases "p_cmd tr") (simp_all add: forward_memory_def m with_response_def)
qed

lemma write_buffer_dram:
  "dram_range a (length bs) \<Longrightarrow>
     write_buffer fuel a bs pf = Inr (pf\<lparr>pf_mem := mem_write (pf_mem pf) (dram_offset a) bs\<rparr>)"
  using bus_dram[of "wr_payload a bs" fuel pf] by (simp add: write_buffer_def wr_payload_def)

lemma read_buffer_dram:
  "dram_range a n \<Longrightarrow>
     read_buffer fuel a n pf = Inr (mem_read (pf_mem pf) (dram_offset a) n, pf)"
  using bus_dram[of "rd_payload a n" fuel pf] by (simp add: read_buffer_def rd_payload_def)

lemmas dram_access = write_buffer_dram read_buffer_dram

section \<open>Properties\<close>

text \<open>The bus masks every target error: any transaction that returns at all returns with an OK
  response and its address restored, so the memory interface of the processors never
  reports a memory error, whatever the address.\<close>
theorem bus_always_responds_ok:
  "(case bus_transport fuel tr pf of
      Inl e \<Rightarrow> e \<noteq> SC_ERROR
    | Inr (tr', _) \<Rightarrow> p_response tr' = TLM_OK_RESPONSE \<and> p_address tr' = p_address tr) \<and>
   readDataMem a n pf \<noteq> Inl SC_ERROR \<and> readDataMem64 a n pf \<noteq> Inl SC_ERROR \<and>
   writeDataMem a v n pf \<noteq> Inl SC_ERROR \<and> writeDataMem64 a w n pf \<noteq> Inl SC_ERROR"
proof -
  have r: "read_buffer f a n pf \<noteq> Inl SC_ERROR" for f
    using bus_transport_no_sc_error[of f "rd_payload a n" pf] bus_transport_ok[of f "rd_payload a n" pf]
    by (auto simp: read_buffer_def split: sum.splits)
  have w: "write_buffer f a bs pf \<noteq> Inl SC_ERROR" for f bs
    using bus_transport_no_sc_error[of f "wr_payload a bs" pf] bus_transport_ok[of f "wr_payload a bs" pf]
    by (auto simp: write_buffer_def split: sum.splits)
  show ?thesis
    using r[of bus_fuel] w[of bus_fuel] bus_transport_no_sc_error[of fuel tr pf] bus_transport_ok[of fuel tr pf]
    by (auto simp: readDataMem_def readDataMem64_def writeDataMem_def writeDataMem64_def split: sum.splits)
qed

text \<open>C33: Main memory is a byte array behind the interface: a store of 1 to 8 bytes to DRAM (other
  than to the two host-communication words) reads back, in either access function, as
  the value truncated to its size; it changes no byte outside its range and no other
  part of the platform; and reads change nothing.\<close>
theorem dram_write_read_roundtrip:
  assumes "dram_range a n" "n \<le> 8"
  shows "\<exists>pf'. writeDataMem64 a v n pf = Inr pf' \<and>
     readDataMem64 a n pf' = Inr (take_bit (8 * n) v, pf') \<and>
     (n \<le> 4 \<longrightarrow> readDataMem a n pf' = Inr (take_bit (8 * n) (ucast v), pf')) \<and>
     (n \<le> 4 \<longrightarrow> writeDataMem a (ucast v) n pf = Inr pf') \<and>
     (\<forall>b m. dram_range b m \<and> (unat b + m \<le> unat a \<or> unat a + n \<le> unat b) \<longrightarrow>
        map_sum id fst (read_buffer bus_fuel b m pf') = map_sum id fst (read_buffer bus_fuel b m pf)) \<and>
     pf' = pf\<lparr>pf_mem := pf_mem pf'\<rparr>"
proof -
  let ?pf' = "pf\<lparr>pf_mem := mem_write (pf_mem pf) (dram_offset a) (to_bytes n v)\<rparr>"
  have ob: "(of_bytes (to_bytes n v) :: u32) = take_bit (8 * n) (ucast v)" if "n \<le> 4"
  proof (rule bit_word_eqI)
    fix k assume k: "k < LENGTH(32)"
    have "k div 8 < n \<longleftrightarrow> k < 8 * n" by (metis div_less_iff_less_mult mult.commute zero_less_numeral)
    then show "bit (of_bytes (to_bytes n v) :: u32) k = bit (take_bit (8 * n) (ucast v) :: u32) k"
      using k by (auto simp: bit_of_bytes bit_to_bytes_nth bit_take_bit_iff bit_ucast_iff)
  qed
  have tb: "to_bytes n (ucast v :: u32) = to_bytes n v" if "n \<le> 4"
    using that by (auto simp: to_bytes_def bit_eq_iff bit_simps intro!: bit_word_eqI)
  have fr: "mem_read (pf_mem ?pf') (dram_offset b) m = mem_read (pf_mem pf) (dram_offset b) m"
    if "dram_range b m" "unat b + m \<le> unat a \<or> unat a + n \<le> unat b" for b m
    using that assms(1) by (auto simp: dram_range_def dram_offset_def intro!: mem_read_write_disjoint)
  show ?thesis
    using assms fr ob tb
    by (intro exI[of _ ?pf'])
      (auto simp: writeDataMem64_def writeDataMem_def readDataMem64_def readDataMem_def dram_access of_bytes_to_bytes)
qed

theorem dram_write_read_roundtrip_witness:
  "dram_range 0x80002000 8 \<and>
   (\<exists>pf'. writeDataMem64 0x80002000 0x1122334455667788 8 platform_init = Inr pf' \<and>
      readDataMem64 0x80002000 8 pf' = Inr (0x1122334455667788, pf'))"
proof -
  have d: "dram_range 0x80002000 8" by (simp add: dram_range_def)
  show ?thesis
    using dram_write_read_roundtrip[OF d, of "0x1122334455667788" platform_init] d by auto
qed

lemma bus_dma_control:
  "bus_transport (Suc fuel) (wr_payload 0x3000000C bs) pf =
     (case dma_transport (bus_transport fuel) (wr_payload 0xC bs) pf of
        Inl e \<Rightarrow> Inl e
      | Inr (tr, pf') \<Rightarrow> Inr (with_response TLM_OK_RESPONSE (tr\<lparr>p_address := 0x3000000C\<rparr>), pf'))"
  by (subst bus_transport.simps) (simp add: wr_payload_def in_window_def Let_def)

lemma dma_start:
  assumes "bit (c :: u32) 0"
  shows "dma_transport mm (wr_payload 0xC (to_bytes 4 c)) pf =
     (case start_transfer mm (pf\<lparr>pf_dma := (pf_dma pf)\<lparr>dma_control := c\<rparr>\<rparr>) of
        Inl e \<Rightarrow> Inl e
      | Inr pf' \<Rightarrow> Inr (with_response TLM_OK_RESPONSE (wr_payload 0xC (to_bytes 4 c)), pf'))"
proof -
  have "c AND 1 \<noteq> 0" using assms by (simp add: and_1_bit)
  then show ?thesis
    unfolding wr_payload_def by (simp add: dma_transport_def of_bytes_full Let_def)
qed

text \<open>C38: A DMA transfer copies memory: with source and destination ranges in DRAM, writing an odd
  value to the control register copies the source bytes to the destination, clears the
  start bit and the in-flight flag, and changes nothing else; one unit of fuel is
  enough.\<close>
theorem dma_copies_memory:
  assumes "dma_len (pf_dma pf) = of_nat n" "0 < n" "n < 2 ^ 32"
    and "dram_range (ucast (dma_src (pf_dma pf))) n" "dram_range (ucast (dma_dst (pf_dma pf))) n"
    and "bit c 0"
  shows "\<exists>tr. bus_transport (Suc fuel) (wr_payload 0x3000000C (to_bytes 4 (c :: u32))) pf =
     Inr (tr, pf\<lparr>pf_mem := mem_write (pf_mem pf) (dram_offset (ucast (dma_dst (pf_dma pf))))
                 (mem_read (pf_mem pf) (dram_offset (ucast (dma_src (pf_dma pf)))) n),
               pf_dma := (pf_dma pf)\<lparr>dma_control := c AND NOT 1, dma_in_flight := False\<rparr>\<rparr>)"
proof -
  let ?src = "ucast (dma_src (pf_dma pf)) :: u64" and ?dst = "ucast (dma_dst (pf_dma pf)) :: u64"
  define pf1 where "pf1 = pf\<lparr>pf_dma := (pf_dma pf)\<lparr>dma_control := c, dma_in_flight := True\<rparr>\<rparr>"
  have u: "unat (dma_len (pf_dma pf)) = n" using assms(1,3) by (simp add: unat_of_nat)
  then have n: "unat (dma_len (pf_dma pf)) = n" "dma_len (pf_dma pf) \<noteq> 0" using assms(2) by auto
  have r: "bus_transport fuel (rd_payload ?src n) pf1 =
      Inr (with_response TLM_OK_RESPONSE ((rd_payload ?src n)\<lparr>p_data := mem_read (pf_mem pf) (dram_offset ?src) n\<rparr>), pf1)"
    using bus_dram[of "rd_payload ?src n" fuel pf1] assms(4) by (simp add: rd_payload_def pf1_def)
  have w: "bus_transport fuel (wr_payload ?dst (mem_read (pf_mem pf) (dram_offset ?src) n)) pf1 =
      Inr (with_response TLM_OK_RESPONSE (wr_payload ?dst (mem_read (pf_mem pf) (dram_offset ?src) n)),
           pf1\<lparr>pf_mem := mem_write (pf_mem pf) (dram_offset ?dst) (mem_read (pf_mem pf) (dram_offset ?src) n)\<rparr>)"
    using bus_dram[of "wr_payload ?dst (mem_read (pf_mem pf) (dram_offset ?src) n)" fuel pf1] assms(5)
    by (simp add: wr_payload_def pf1_def)
  let ?pf' = "pf\<lparr>pf_mem := mem_write (pf_mem pf) (dram_offset ?dst) (mem_read (pf_mem pf) (dram_offset ?src) n),
      pf_dma := (pf_dma pf)\<lparr>dma_control := c AND NOT 1, dma_in_flight := False\<rparr>\<rparr>"
  have st: "start_transfer (bus_transport fuel) (pf\<lparr>pf_dma := (pf_dma pf)\<lparr>dma_control := c\<rparr>\<rparr>) = Inr ?pf'"
    using n r w by (simp add: start_transfer_def Let_def pf1_def)
  show ?thesis unfolding bus_dma_control dma_start[OF assms(6)] st by simp
qed

text \<open>C39: A DMA transfer aimed at its own control register never ends: if the destination is the
  control register and the four source bytes form an odd word, the bus and the engine
  re-enter each other at every depth, so no amount of nesting suffices.\<close>
theorem dma_self_trigger_diverges:
  assumes "dma_src (pf_dma pf) = src" "dram_range (ucast src) 4" "dma_dst (pf_dma pf) = 0x3000000C"
    and "dma_len (pf_dma pf) = 4"
    and "bit (of_bytes (mem_read (pf_mem pf) (dram_offset (ucast src)) 4) :: u32) 0"
    and "bit c 0"
  shows "bus_transport fuel (wr_payload 0x3000000C (to_bytes 4 (c :: u32))) pf = Inl OUT_OF_FUEL"
  using assms
proof (induction fuel arbitrary: pf c)
  case 0
  show ?case by (subst bus_transport.simps) (simp add: wr_payload_def in_window_def Let_def)
next
  case (Suc fuel)
  let ?src = "ucast src :: u64"
  let ?bs = "mem_read (pf_mem pf) (dram_offset ?src) 4"
  define pf1 where "pf1 = pf\<lparr>pf_dma := (pf_dma pf)\<lparr>dma_control := c, dma_in_flight := True\<rparr>\<rparr>"
  have r: "bus_transport fuel (rd_payload ?src 4) pf1 =
      Inr (with_response TLM_OK_RESPONSE ((rd_payload ?src 4)\<lparr>p_data := ?bs\<rparr>), pf1)"
    using bus_dram[of "rd_payload ?src 4" fuel pf1] Suc.prems(2) by (simp add: rd_payload_def pf1_def)
  have bs: "to_bytes 4 (of_bytes ?bs :: u32) = ?bs" using to_bytes_of_bytes[of ?bs, where 'a = 32] by simp
  have ih: "bus_transport fuel (wr_payload 0x3000000C ?bs) pf1 = Inl OUT_OF_FUEL"
    using Suc.IH[of pf1 "of_bytes ?bs"] Suc.prems unfolding bs by (simp add: pf1_def)
  have "start_transfer (bus_transport fuel) (pf\<lparr>pf_dma := (pf_dma pf)\<lparr>dma_control := c\<rparr>\<rparr>) = Inl OUT_OF_FUEL"
    using r ih Suc.prems(1-4) by (simp add: start_transfer_def Let_def pf1_def)
  then show ?case unfolding bus_dma_control dma_start[OF Suc.prems(6)] by simp
qed

definition dma_demo :: Platform where
  "dma_demo = platform_init\<lparr>pf_dma := \<lparr>dma_src = 0x80002000, dma_dst = 0x80003000, dma_len = 4,
     dma_control = 0, dma_in_flight = False\<rparr>, pf_mem := (\<lambda>_. 0)(0x2000 := 1)\<rparr>"

theorem dma_copies_memory_witness:
  "dram_range 0x80002000 4 \<and> (\<exists>tr pf'. bus_transport 1 (wr_payload 0x3000000C (to_bytes 4 (1 :: u32))) dma_demo = Inr (tr, pf')
     \<and> mem_read (pf_mem pf') 0x3000 4 = mem_read (pf_mem dma_demo) 0x2000 4)"
proof -
  have d: "dram_range 0x80002000 4" "dram_range 0x80003000 4" by (simp_all add: dram_range_def)
  have o: "dram_offset 0x80002000 = 0x2000" "dram_offset 0x80003000 = 0x3000" by (simp_all add: dram_offset_def)
  have l: "dma_len (pf_dma dma_demo) = of_nat 4" by (simp add: dma_demo_def)
  have u: "ucast (dma_src (pf_dma dma_demo)) = (0x80002000 :: u64)" "ucast (dma_dst (pf_dma dma_demo)) = (0x80003000 :: u64)"
    by (simp_all add: dma_demo_def)
  show ?thesis
    using dma_copies_memory[OF l, of 1 0] d u o by fastforce
qed

theorem dma_self_trigger_diverges_witness:
  "let pf = dma_demo\<lparr>pf_dma := (pf_dma dma_demo)\<lparr>dma_dst := 0x3000000C\<rparr>\<rparr> in
   \<forall>fuel. bus_transport fuel (wr_payload 0x3000000C (to_bytes 4 (1 :: u32))) pf = Inl OUT_OF_FUEL"
proof -
  let ?pf = "dma_demo\<lparr>pf_dma := (pf_dma dma_demo)\<lparr>dma_dst := 0x3000000C\<rparr>\<rparr>"
  have s: "dma_src (pf_dma ?pf) = 0x80002000" and l: "dma_len (pf_dma ?pf) = 4"
    and t: "dma_dst (pf_dma ?pf) = 0x3000000C" by (simp_all add: dma_demo_def)
  have d: "dram_range (ucast (0x80002000 :: u32)) 4" by (simp add: dram_range_def)
  have "bit (of_bytes (mem_read (pf_mem ?pf) (dram_offset (ucast (0x80002000 :: u32))) 4) :: u32) 0"
    by (simp add: bit_of_bytes mem_read_def dram_offset_def dma_demo_def)
  with dma_self_trigger_diverges[OF s d t l] show ?thesis by (simp add: Let_def)
qed

section \<open>The page-table memory of the walker\<close>

definition mmu_rd :: "Platform rd64" where
  "mmu_rd a pf = (case readDataMem64 a 8 pf of Inr (v, pf') \<Rightarrow> (v, pf') | Inl _ \<Rightarrow> (0, pf))"

definition mmu_wr :: "Platform wr64" where
  "mmu_wr a v pf = (case writeDataMem64 a v 8 pf of Inr pf' \<Rightarrow> pf' | Inl _ \<Rightarrow> pf)"

definition mmu_peek :: "Platform \<Rightarrow> u64 \<Rightarrow> u64" where
  "mmu_peek pf a = of_bytes (mem_read (pf_mem pf) (dram_offset a) 8)"

definition pt_addresses :: "u64 set" where
  "pt_addresses = {a. dram_range a 8 \<and> 8 dvd unat a}"

lemma mmu_rd_dram: "dram_range a 8 \<Longrightarrow> mmu_rd a pf = (mmu_peek pf a, pf)"
  by (simp add: mmu_rd_def readDataMem64_def dram_access mmu_peek_def)

lemma mmu_wr_dram:
  "dram_range a 8 \<Longrightarrow> mmu_wr a v pf = pf\<lparr>pf_mem := mem_write (pf_mem pf) (dram_offset a) (to_bytes 8 v)\<rparr>"
  by (simp add: mmu_wr_def writeDataMem64_def dram_access)

interpretation busmem: pt_memory mmu_rd mmu_wr mmu_peek pt_addresses
proof
  fix a b v :: u64 and m :: Platform
  assume a: "a \<in> pt_addresses"
  then have d: "dram_range a 8" "8 dvd unat a" by (simp_all add: pt_addresses_def)
  show "mmu_rd a m = (mmu_peek m a, m)" using d by (simp add: mmu_rd_dram)
  show "mmu_peek (mmu_wr a v m) a = v" using d by (simp add: mmu_wr_dram mmu_peek_def of_bytes_full)
  show "mmu_peek (mmu_wr a v m) b = mmu_peek m b" if "b \<in> pt_addresses" "a \<noteq> b"
  proof -
    have b: "dram_range b 8" "8 dvd unat b" using that by (simp_all add: pt_addresses_def)
    have "unat a \<noteq> unat b" using that by (simp add: word_unat_eq_iff)
    then have "unat a + 8 \<le> unat b \<or> unat b + 8 \<le> unat a"
      using d(2) b(2) by (auto elim!: dvdE)
    then have "dram_offset b + 8 \<le> dram_offset a \<or> dram_offset a + 8 \<le> dram_offset b"
      using d(1) b(1) by (auto simp: dram_range_def dram_offset_def)
    then show ?thesis using d by (simp add: mmu_wr_dram mmu_peek_def mem_read_write_disjoint)
  qed
qed


definition pt_platform :: Platform where
  "pt_platform = platform_init\<lparr>pf_mem := mem_write (\<lambda>_. 0) 0x10 (to_bytes 8 (0x200000CF :: u64))\<rparr>"

lemma pt_platform_walk:
  "sv39_walk (mmu_peek pt_platform) pt_addresses 0x80001234 2 0x80000 (Some (0x80000010, 2, 0x200000CF))"
proof -
  have a: "pte_address 0x80000 0x80001234 2 = 0x80000010" by (simp add: pte_address_def)
  have d: "0x80000010 \<in> pt_addresses" by (simp add: pt_addresses_def dram_range_def)
  have v: "mmu_peek pt_platform 0x80000010 = 0x200000CF"
    by (simp add: mmu_peek_def pt_platform_def dram_offset_def of_bytes_full)
  have "sv39_walk (mmu_peek pt_platform) pt_addresses 0x80001234 2 0x80000 (Some (0x80000010, 2, mmu_peek pt_platform 0x80000010))"
    by (rule walk_leaf) (simp_all add: a d v)
  then show ?thesis by (simp add: v)
qed


end
