(* ===== verification/Memory_Loader.thy ===== *)
theory Memory_Loader
  imports Platform_Props
begin

unbundle bit_operations_syntax

text \<open>
  The program loaders of the main memory (src/src/Memory.cpp): the Intel HEX reader and the raw
  binary loader.  A file is its contents, or \<^verbatim>\<open>None\<close> when it cannot be opened.  The result is that a
  printed image is loaded exactly: the reader inverts the standard HEX encoding.
\<close>

section \<open>Numbers\<close>

datatype load_error = OPEN_ERROR | INVALID_ARGUMENT | OUT_OF_DRAM | FILE_TOO_LARGE

definition isspace :: "char \<Rightarrow> bool" where
  "isspace c \<longleftrightarrow> c \<in> {CHR '' '', CHR 0x09, CHR 0x0A, CHR 0x0B, CHR 0x0C, CHR 0x0D}"

definition hex_digit :: "char \<Rightarrow> nat option" where
  "hex_digit c =
     (let n = of_char c in
      if 48 \<le> n \<and> n \<le> 57 then Some (n - 48)
      else if 65 \<le> n \<and> n \<le> 70 then Some (n - 55)
      else if 97 \<le> n \<and> n \<le> 102 then Some (n - 87)
      else None)"

fun hex_value :: "nat \<Rightarrow> string \<Rightarrow> nat" where
  "hex_value acc [] = acc"
| "hex_value acc (c # cs) = (case hex_digit c of None \<Rightarrow> acc | Some d \<Rightarrow> hex_value (16 * acc + d) cs)"

definition has_digit :: "string \<Rightarrow> bool" where
  "has_digit s \<longleftrightarrow> (case s of [] \<Rightarrow> False | c # _ \<Rightarrow> hex_digit c \<noteq> None)"

text \<open>\<^verbatim>\<open>std::stoi\<close> and \<^verbatim>\<open>std::stol\<close> with base 16: leading white space, a sign, an optional prefix 0x, then as many
  digits as follow; no digit at all is the exception \<^verbatim>\<open>std::invalid_argument\<close>.  The loader passes at most eight
  characters, so the value is in range.\<close>

definition strip_0x :: "string \<Rightarrow> string" where
  "strip_0x s = (case s of a # b # cs \<Rightarrow>
     if a = CHR ''0'' \<and> (b = CHR ''x'' \<or> b = CHR ''X'') \<and> has_digit cs then cs else s | _ \<Rightarrow> s)"

definition stol16 :: "string \<Rightarrow> load_error + int" where
  "stol16 s =
     (let s = dropWhile isspace s;
          (neg, s) = (case s of [] \<Rightarrow> (False, s)
            | c # cs \<Rightarrow> if c = CHR ''-'' then (True, cs) else if c = CHR ''+'' then (False, cs) else (False, s));
          s = strip_0x s
      in if has_digit s then Inr (if neg then - int (hex_value 0 s) else int (hex_value 0 s)) else Inl INVALID_ARGUMENT)"

definition substr :: "nat \<Rightarrow> nat \<Rightarrow> string \<Rightarrow> string" where
  "substr pos len s = take len (drop pos s)"

section \<open>Intel HEX\<close>

record hex_state =
  hx_mem :: bytemem
  hx_extended :: u32
  hx_offset :: u32
  hx_pc :: u32

definition hex_slot :: "u64 \<Rightarrow> u32" where
  "hex_slot a64 = ucast (if a64 \<ge> 0x80000000 \<and> a64 < 0x80000000 + of_nat Memory_SIZE then a64 - 0x80000000 else a64)"

fun data_loop :: "nat \<Rightarrow> nat \<Rightarrow> u32 \<Rightarrow> string \<Rightarrow> bytemem \<Rightarrow> load_error + bytemem" where
  "data_loop 0 i address line m = Inr m"
| "data_loop (Suc n) i address line m =
     (let a = hex_slot (ucast address + of_nat i) in
      and_then (if unat a < Memory_SIZE \<and> 9 + i * 2 + 2 \<le> length line
                then and_then (stol16 (substr (9 + i * 2) 2 line)) (\<lambda>v. Inr (m(unat a := word_of_int v)))
                else Inr m)
        (\<lambda>m. data_loop n (i + 1) address line m))"

definition hex_line :: "string \<Rightarrow> hex_state \<Rightarrow> load_error + hex_state" where
  "hex_line line s =
     (if line = [] \<or> hd line \<noteq> CHR '':'' \<or> length line < 11 then Inr s
      else let ty = substr 7 2 line in
      if ty = ''00'' then
        and_then (stol16 (substr 1 2 line))
          (\<lambda>byte_count. and_then (stol16 (substr 3 4 line))
            (\<lambda>a. let address = word_of_int a + hx_extended s + hx_offset s
                 in and_then (data_loop (nat byte_count) 0 address line (hx_mem s)) (\<lambda>m. Inr (s\<lparr>hx_mem := m\<rparr>))))
      else if ty = ''02'' then
        (if length line < 15 then Inr s
         else and_then (stol16 (substr 9 4 line)) (\<lambda>v. Inr (s\<lparr>hx_extended := word_of_int (v * 16)\<rparr>)))
      else if ty = ''03'' then
        (if length line < 19 then Inr s
         else and_then (stol16 (substr 9 4 line))
           (\<lambda>cs. and_then (stol16 (substr 13 4 line)) (\<lambda>v. Inr (s\<lparr>hx_pc := word_of_int v + word_of_int (cs * 16)\<rparr>))))
      else if ty = ''04'' then
        (if length line < 15 then Inr s
         else and_then (stol16 (substr 9 4 line))
           (\<lambda>v. Inr (s\<lparr>hx_offset := push_bit 16 (word_of_int v), hx_extended := 0\<rparr>)))
      else if ty = ''05'' then
        (if length line < 19 then Inr s
         else and_then (stol16 (substr 9 8 line)) (\<lambda>v. Inr (s\<lparr>hx_pc := word_of_int v\<rparr>)))
      else Inr s)"

fun hex_lines :: "string list \<Rightarrow> hex_state \<Rightarrow> load_error + hex_state" where
  "hex_lines [] s = Inr s"
| "hex_lines (l # ls) s = and_then (hex_line l s) (hex_lines ls)"

text \<open>\<^verbatim>\<open>getline\<close>: the lines between newlines; what follows the last newline is a line if it is not empty.\<close>

fun split_lines :: "string \<Rightarrow> string \<Rightarrow> string list" where
  "split_lines acc [] = (if acc = [] then [] else [rev acc])"
| "split_lines acc (c # cs) = (if c = CHR 0x0A then rev acc # split_lines [] cs else split_lines (c # acc) cs)"

text \<open>The loaded memory, the program counter of the file and whether direct access is allowed.\<close>

definition readHexFile :: "string option \<Rightarrow> bytemem \<Rightarrow> load_error + bytemem \<times> u32 \<times> bool" where
  "readHexFile file m =
     (case file of
        None \<Rightarrow> Inl OPEN_ERROR
      | Some text \<Rightarrow>
          and_then (hex_lines (split_lines [] text) \<lparr>hx_mem = m, hx_extended = 0, hx_offset = 0, hx_pc = 0\<rparr>)
            (\<lambda>s. Inr (hx_mem s, hx_pc s, hx_offset s = 0)))"

section \<open>Raw binaries\<close>

definition loadBin :: "u8 list option \<Rightarrow> u64 \<Rightarrow> bytemem \<Rightarrow> load_error + bytemem" where
  "loadBin file phys_offset m =
     (if phys_offset < 0x80000000 \<or> phys_offset \<ge> 0x80000000 + of_nat Memory_SIZE then Inl OUT_OF_DRAM
      else let mem_offset = phys_offset - 0x80000000 in
      case file of
        None \<Rightarrow> Inl OPEN_ERROR
      | Some bs \<Rightarrow> if unat mem_offset + length bs > Memory_SIZE then Inl FILE_TOO_LARGE
                   else Inr (mem_write m (unat mem_offset) bs))"

section \<open>The standard encoding\<close>

definition hex_char :: "nat \<Rightarrow> char" where
  "hex_char d = char_of (if d < 10 then 48 + d else 55 + d)"

definition hex2 :: "u8 \<Rightarrow> string" where
  "hex2 b = [hex_char (unat b div 16), hex_char (unat b mod 16)]"

definition hex4 :: "16 word \<Rightarrow> string" where
  "hex4 w = hex2 (ucast (drop_bit 8 w)) @ hex2 (ucast w)"

definition checksum :: "u8 list \<Rightarrow> u8" where
  "checksum bs = - sum_list bs"

definition hex_record :: "u8 \<Rightarrow> 16 word \<Rightarrow> u8 list \<Rightarrow> string" where
  "hex_record ty a bs = CHR '':'' # hex2 (of_nat (length bs)) @ hex4 a @ hex2 ty @ concat (map hex2 bs)
     @ hex2 (checksum (of_nat (length bs) # ucast (drop_bit 8 a) # ucast a # ty # bs))"

text \<open>A segment is an address and its bytes; the upper half of the address goes into a record of type 04.\<close>

definition hex_segment :: "u32 \<times> u8 list \<Rightarrow> string list" where
  "hex_segment seg = (case seg of (a, bs) \<Rightarrow>
     [hex_record 4 0 [ucast (drop_bit 24 a), ucast (drop_bit 16 a)], hex_record 0 (ucast a) bs])"

definition hex_file :: "(u32 \<times> u8 list) list \<Rightarrow> string" where
  "hex_file segs = concat (map (\<lambda>l. l @ [CHR 0x0A]) (concat (map hex_segment segs)))"

section \<open>Reading back what is printed\<close>

lemma hex_digit_char: "d < 16 \<Longrightarrow> hex_digit (hex_char d) = Some d"
  by (auto simp: hex_digit_def hex_char_def Let_def)

lemma hex_char_plain:
  "d < 16 \<Longrightarrow> \<not> isspace (hex_char d)" "d < 16 \<Longrightarrow> hex_char d \<notin> {CHR ''-'', CHR ''+'', CHR ''x'', CHR ''X'', CHR 0x0A}"
proof -
  have "d \<in> {0,1,2,3,4,5,6,7,8,9,10,11,12,13,14,15 :: nat}" if "d < 16"
    using that unfolding insert_iff empty_iff by presburger
  then show "d < 16 \<Longrightarrow> \<not> isspace (hex_char d)" "d < 16 \<Longrightarrow> hex_char d \<notin> {CHR ''-'', CHR ''+'', CHR ''x'', CHR ''X'', CHR 0x0A}"
    by (auto simp: hex_char_def isspace_def char_of_def)
qed

lemma stol16_digits:
  assumes "ds \<noteq> []" "list_all (\<lambda>d. d < 16) ds"
  shows "stol16 (map hex_char ds) = Inr (int (hex_value 0 (map hex_char ds)))"
proof -
  obtain d es where ds: "ds = d # es" "d < 16" using assms by (cases ds) auto
  have x: "strip_0x (map hex_char ds) = map hex_char ds"
    using assms(2) hex_char_plain(2) unfolding ds(1) strip_0x_def by (cases es) auto
  show ?thesis
    using ds hex_char_plain[OF ds(2)] x by (simp add: stol16_def has_digit_def hex_digit_char Let_def)
qed

lemma hex2_digits: "hex2 b = map hex_char [unat b div 16, unat b mod 16]" "unat b div 16 < 16" "unat b mod 16 < 16"
  using unsigned_less[of b, where ?'a = nat] by (simp_all add: hex2_def)

lemma stol16_hex2: "stol16 (hex2 b) = Inr (uint b)"
proof -
  have "hex_value 0 (map hex_char [unat b div 16, unat b mod 16]) = unat b"
    using hex2_digits(2,3)[of b] by (simp add: hex_digit_char)
  then show ?thesis
    using stol16_digits[of "[unat b div 16, unat b mod 16]"] hex2_digits[of b] by simp
qed

lemma unat_halves: "unat (w :: 16 word) = 256 * unat (ucast (drop_bit 8 w) :: u8) + unat (ucast w :: u8)"
proof -
  have "unat w < 65536" using unsigned_less[of w, where ?'a = nat] by simp
  moreover have "unat (drop_bit 8 w) = unat w div 256"
    using calculation unfolding unsigned_drop_bit_eq drop_bit_eq_div[where ?'a = nat] by (simp add: take_bit_nat_eq_self)
  moreover have "unat (ucast (drop_bit 8 w) :: u8) = unat w div 256"
    using calculation by (simp only: unsigned_ucast_eq) (simp add: take_bit_nat_eq_self)
  moreover have "unat (ucast w :: u8) = unat w mod 256" by (simp add: unsigned_ucast_eq take_bit_eq_mod)
  ultimately show ?thesis by simp
qed

lemma stol16_hex4: "stol16 (hex4 w) = Inr (uint w)"
proof -
  let ?h = "ucast (drop_bit 8 w) :: u8" and ?l = "ucast w :: u8"
  let ?ds = "[unat ?h div 16, unat ?h mod 16, unat ?l div 16, unat ?l mod 16]"
  have "hex_value 0 (map hex_char ?ds) = 256 * unat ?h + unat ?l"
    using hex2_digits(2,3)[of ?h] hex2_digits(2,3)[of ?l] by (simp add: hex_digit_char)
  then have v: "int (hex_value 0 (map hex_char ?ds)) = uint w" using unat_halves[of w] uint_nat[of w] by metis
  have "stol16 (map hex_char ?ds) = Inr (int (hex_value 0 (map hex_char ?ds)))"
    by (rule stol16_digits) (use hex2_digits(2)[of ?h] hex2_digits(2)[of ?l] in simp_all)
  moreover have "hex4 w = map hex_char ?ds" by (simp add: hex4_def hex2_def)
  ultimately show ?thesis unfolding v by simp
qed

lemma length_hex [simp]: "length (hex2 b) = 2" "length (hex4 w) = 4"
  by (simp_all add: hex2_def hex4_def)

lemma length_hex_bytes [simp]: "length (concat (map hex2 bs)) = 2 * length bs"
  by (induction bs) simp_all

lemma substr_hex_bytes: "i < length bs \<Longrightarrow> substr (2 * i) 2 (concat (map hex2 bs) @ r) = hex2 (bs ! i)"
proof (induction bs arbitrary: i)
  case (Cons b bs)
  then show ?case by (cases i) (simp_all add: substr_def hex2_def)
qed simp

text \<open>The fields of a record.\<close>

lemma hex_record_fields:
  fixes ty :: u8 and a bs
  defines "l \<equiv> hex_record ty a bs"
  shows "l \<noteq> []" "hd l = CHR '':''" "length l = 11 + 2 * length bs" "substr 1 2 l = hex2 (of_nat (length bs))"
    "substr 3 4 l = hex4 a" "substr 7 2 l = hex2 ty" "i < length bs \<Longrightarrow> substr (9 + i * 2) 2 l = hex2 (bs ! i)"
proof -
  obtain r where l: "l = [CHR '':''] @ hex2 (of_nat (length bs)) @ hex4 a @ hex2 ty @ concat (map hex2 bs) @ r" "length r = 2"
    by (simp add: l_def hex_record_def)
  then show "l \<noteq> []" "hd l = CHR '':''" "length l = 11 + 2 * length bs" by simp_all
  show "substr 1 2 l = hex2 (of_nat (length bs))" "substr 3 4 l = hex4 a" "substr 7 2 l = hex2 ty"
    unfolding l(1) substr_def by simp_all
  let ?pre = "[CHR '':''] @ hex2 (of_nat (length bs)) @ hex4 a @ hex2 ty"
  have "l = ?pre @ concat (map hex2 bs) @ r" "length ?pre = 9" using l(1) by simp_all
  then have "substr (9 + i * 2) 2 l = substr (2 * i) 2 (concat (map hex2 bs) @ r)"
    by (simp only: substr_def drop_append) (simp add: mult.commute)
  then show "i < length bs \<Longrightarrow> substr (9 + i * 2) 2 l = hex2 (bs ! i)" using substr_hex_bytes by simp
qed

lemma hex2_types: "hex2 0 = ''00''" "hex2 4 = ''04''"
  by code_simp+

lemma mem_write_step: "mem_write (m(k := v)) (Suc k) vs = mem_write m k (v # vs)"
  by (auto simp: mem_write_def fun_eq_iff nth_Cons')

definition dram_segment :: "u32 \<times> u8 list \<Rightarrow> bool" where
  "dram_segment seg = (case seg of (a, bs) \<Rightarrow>
     length bs \<le> 255 \<and> 0x80000000 \<le> unat a \<and> unat a + length bs \<le> 0xA0000000)"

lemma hex_slot_dram:
  assumes "dram_segment (a, bs)" "i < length bs"
  shows "unat (hex_slot (ucast a + of_nat i)) = unat a - 0x80000000 + i" "unat a - 0x80000000 + i < Memory_SIZE"
proof -
  have b: "0x80000000 \<le> unat a" "unat a + i < 0xA0000000" using assms by (auto simp: dram_segment_def)
  have u: "unat (ucast a :: u64) = unat a" using unsigned_less[of a, where ?'a = nat]
    by (simp add: unsigned_ucast_eq take_bit_nat_eq_self)
  have s: "unat (ucast a + of_nat i :: u64) = unat a + i"
    using b u by (simp add: unat_word_ariths unat_of_nat take_bit_nat_def)
  have w: "0x80000000 \<le> (ucast a + of_nat i :: u64)" "(ucast a + of_nat i :: u64) < 0x80000000 + of_nat Memory_SIZE"
    using b s by (simp_all add: word_le_nat_alt word_less_nat_alt Memory_SIZE_def)
  have "unat ((ucast a + of_nat i :: u64) - 0x80000000) = unat a + i - 0x80000000"
    using w(1) s by (simp add: unat_sub)
  then show "unat (hex_slot (ucast a + of_nat i)) = unat a - 0x80000000 + i"
    using w b by (simp add: hex_slot_def unsigned_ucast_eq take_bit_nat_eq_self)
  show "unat a - 0x80000000 + i < Memory_SIZE" using b by (simp add: Memory_SIZE_def)
qed

lemma data_loop_dram:
  assumes d: "dram_segment (a, bs)"
  shows "n + i = length bs \<Longrightarrow>
     data_loop n i a (hex_record 0 w bs) m = Inr (mem_write m (unat a - 0x80000000 + i) (drop i bs))"
proof (induction n arbitrary: i m)
  case 0
  then show ?case by (auto simp: mem_write_def fun_eq_iff)
next
  case (Suc n)
  then have i: "i < length bs" by simp
  have l: "9 + i * 2 + 2 \<le> length (hex_record 0 w bs)" using i by (simp add: hex_record_fields(3))
  have e: "word_of_int (uint (bs ! i)) = bs ! i" by simp
  have "data_loop (Suc n) i a (hex_record 0 w bs) m =
      data_loop n (i + 1) a (hex_record 0 w bs) (m(unat a - 0x80000000 + i := bs ! i))"
    using hex_slot_dram[OF d i] l hex_record_fields(7)[OF i, of 0 w] by (simp add: stol16_hex2 Let_def)
  also have "\<dots> = Inr (mem_write (m(unat a - 0x80000000 + i := bs ! i)) (unat a - 0x80000000 + (i + 1)) (drop (i + 1) bs))"
    by (rule Suc.IH) (use Suc.prems in simp)
  finally show ?case
    using mem_write_step[of m "unat a - 0x80000000 + i" "bs ! i" "drop (i + 1) bs"] i by (simp add: Cons_nth_drop_Suc)
qed

lemma upper_half: "hex2 (ucast (drop_bit 24 a)) @ hex2 (ucast (drop_bit 16 a)) = hex4 (ucast (drop_bit 16 (a :: u32)))"
proof -
  have "(ucast (drop_bit 24 a) :: u8) = ucast (drop_bit 8 (ucast (drop_bit 16 a) :: 16 word))"
    "(ucast (drop_bit 16 a) :: u8) = ucast (ucast (drop_bit 16 a) :: 16 word)"
    by (auto intro!: bit_word_eqI simp: bit_unsigned_iff bit_drop_bit_eq)
  then show ?thesis by (simp add: hex4_def)
qed

lemma hex_line_upper:
  "hex_line (hex_record 4 0 [ucast (drop_bit 24 a), ucast (drop_bit 16 a)]) s =
     Inr (s\<lparr>hx_offset := push_bit 16 (ucast (ucast (drop_bit 16 (a :: u32)) :: 16 word)), hx_extended := 0\<rparr>)"
proof -
  let ?l = "hex_record 4 0 [ucast (drop_bit 24 a), ucast (drop_bit 16 a)]"
  have b: "substr 9 4 ?l = hex4 (ucast (drop_bit 16 a))"
    unfolding upper_half[symmetric] by (simp add: substr_def hex_record_def hex2_def hex4_def)
  show ?thesis
    using hex_record_fields(1-3,6)[of 4 0 "[ucast (drop_bit 24 a), ucast (drop_bit 16 a)]"]
    by (simp add: hex_line_def b stol16_hex4 hex2_types Let_def)
qed

lemma halves_join: "ucast (ucast a :: 16 word) + push_bit 16 (ucast (ucast (drop_bit 16 (a :: u32)) :: 16 word)) = a"
proof -
  have "ucast (ucast a :: 16 word) + push_bit 16 (ucast (ucast (drop_bit 16 a) :: 16 word) :: u32) =
      ucast (ucast a :: 16 word) OR push_bit 16 (ucast (ucast (drop_bit 16 a) :: 16 word))"
    by (rule disjunctive_add) (auto simp: bit_unsigned_iff bit_push_bit_iff)
  also have "\<dots> = a" by (rule bit_word_eqI) (auto simp: bit_unsigned_iff bit_push_bit_iff bit_or_iff bit_drop_bit_eq)
  finally show ?thesis .
qed

lemma hex_line_data:
  assumes d: "dram_segment (a, bs)" and o: "hx_offset s = push_bit 16 (ucast (ucast (drop_bit 16 a) :: 16 word))" "hx_extended s = 0"
  shows "hex_line (hex_record 0 (ucast a) bs) s = Inr (s\<lparr>hx_mem := mem_write (hx_mem s) (unat a - 0x80000000) bs\<rparr>)"
proof -
  note f = hex_record_fields(1-6)[of 0 "ucast a" bs]
  have l: "length bs < 256" using d by (simp add: dram_segment_def)
  have n: "unat (of_nat (length bs) :: u8) = length bs"
    using l by (simp add: unat_of_nat take_bit_nat_eq_self)
  have ad: "word_of_int (uint (ucast a :: 16 word)) + hx_extended s + hx_offset s = a"
    using halves_join[of a] by (simp add: o)
  have dl: "data_loop (length bs) 0 a (hex_record 0 (ucast a) bs) (hx_mem s) =
      Inr (mem_write (hx_mem s) (unat a - 0x80000000) bs)"
    using data_loop_dram[OF d, of "length bs" 0] by simp
  show ?thesis
    using f dl by (simp add: hex_line_def stol16_hex2 stol16_hex4 hex2_types n ad Let_def del: word_of_int_uint of_int_uint)
qed

lemma hex_lines_append: "hex_lines (xs @ ys) s = and_then (hex_lines xs s) (hex_lines ys)"
proof (induction xs arbitrary: s)
  case (Cons l xs)
  then show ?case by (cases "hex_line l s") simp_all
qed simp

definition put_segment :: "u32 \<times> u8 list \<Rightarrow> bytemem \<Rightarrow> bytemem" where
  "put_segment seg m = (case seg of (a, bs) \<Rightarrow> mem_write m (unat a - 0x80000000) bs)"

lemma hex_segment_load:
  assumes "dram_segment seg"
  obtains s' where "hex_lines (hex_segment seg) s = Inr s'" "hx_mem s' = put_segment seg (hx_mem s)" "hx_pc s' = hx_pc s"
    "hx_offset s' \<noteq> 0"
proof -
  obtain a bs where seg: "seg = (a, bs)" by (cases seg)
  let ?t = "s\<lparr>hx_offset := push_bit 16 (ucast (ucast (drop_bit 16 a) :: 16 word)), hx_extended := 0\<rparr>"
  have d: "hex_line (hex_record 0 (ucast a) bs) ?t = Inr (?t\<lparr>hx_mem := mem_write (hx_mem s) (unat a - 0x80000000) bs\<rparr>)"
    using hex_line_data[of a bs ?t] assms seg by simp
  have "unat (push_bit 16 (ucast (ucast (drop_bit 16 a) :: 16 word)) :: u32) \<noteq> 0"
  proof
    assume "unat (push_bit 16 (ucast (ucast (drop_bit 16 a) :: 16 word)) :: u32) = 0"
    then have z: "push_bit 16 (ucast (ucast (drop_bit 16 a) :: 16 word)) = (0 :: u32)" by (simp add: unat_eq_0)
    have "a = ucast (ucast a :: 16 word)" using halves_join[of a] by (simp add: z)
    moreover have "unat (ucast (ucast a :: 16 word) :: u32) < 65536"
      using take_bit_nat_less_exp[of 16 "unat a"] by (simp add: unsigned_take_bit_eq unsigned_ucast_eq)
    ultimately show False using assms seg by (simp add: dram_segment_def)
  qed
  then show thesis
    using that[of "?t\<lparr>hx_mem := mem_write (hx_mem s) (unat a - 0x80000000) bs\<rparr>"] hex_line_upper[of a s] d
    by (simp add: hex_segment_def seg put_segment_def unat_eq_0)
qed

lemma hex_segments_load:
  "list_all dram_segment segs \<Longrightarrow> \<exists>s'. hex_lines (concat (map hex_segment segs)) s = Inr s' \<and>
     hx_mem s' = fold put_segment segs (hx_mem s) \<and> hx_pc s' = hx_pc s \<and> (segs \<noteq> [] \<longrightarrow> hx_offset s' \<noteq> 0)"
proof (induction segs arbitrary: s)
  case (Cons seg segs)
  obtain t where t: "hex_lines (hex_segment seg) s = Inr t" "hx_mem t = put_segment seg (hx_mem s)" "hx_pc t = hx_pc s" "hx_offset t \<noteq> 0"
    using hex_segment_load[of seg s] Cons.prems by auto
  obtain s' where s': "hex_lines (concat (map hex_segment segs)) t = Inr s'" "hx_mem s' = fold put_segment segs (hx_mem t)"
    "hx_pc s' = hx_pc t" "segs \<noteq> [] \<longrightarrow> hx_offset s' \<noteq> 0"
    using Cons.IH[of t] Cons.prems by auto
  have "hx_offset s' \<noteq> 0" using s'(1,4) t(4) by (cases segs) auto
  then show ?case using t s' by (simp add: hex_lines_append)
qed simp

lemma split_lines_acc: "CHR 0x0A \<notin> set l \<Longrightarrow> split_lines acc (l @ CHR 0x0A # r) = (rev acc @ l) # split_lines [] r"
  by (induction l arbitrary: acc) auto

lemma split_lines_join:
  "list_all (\<lambda>l. CHR 0x0A \<notin> set l) ls \<Longrightarrow> split_lines [] (concat (map (\<lambda>l. l @ [CHR 0x0A]) ls)) = ls"
  by (induction ls) (simp_all add: split_lines_acc)

lemma hex2_no_newline: "CHR 0x0A \<notin> set (hex2 b)"
  using hex_char_plain(2)[OF hex2_digits(2)[of b]] hex_char_plain(2)[OF hex2_digits(3)[of b]] by (auto simp: hex2_def)

lemma hex_record_no_newline: "CHR 0x0A \<notin> set (hex_record ty a bs)"
  using hex2_no_newline by (auto simp: hex_record_def hex4_def)

lemma split_hex_file: "split_lines [] (hex_file segs) = concat (map hex_segment segs)"
  unfolding hex_file_def
  by (rule split_lines_join) (auto simp: list_all_iff hex_segment_def hex_record_no_newline split: prod.splits)

section \<open>Properties\<close>

text \<open>C26: The HEX loader inverts the standard encoding.  An image of segments in DRAM of at most 255 bytes each, printed as
  Intel HEX with an extended linear address record before every data record, loads without error: main
  memory becomes the old one with the segments written in order, the program counter of the file stays
  zero, direct memory access is refused, and the bytes of the last segment read back over the bus at
  their addresses.\<close>

theorem hex_file_roundtrip:
  assumes "list_all dram_segment (segs @ [(a, bs)])" "bs \<noteq> []" "a \<noteq> 0x90000000" "a \<noteq> 0x80001000"
  shows "\<exists>m'. readHexFile (Some (hex_file (segs @ [(a, bs)]))) m = Inr (m', 0, False) \<and>
     m' = fold put_segment (segs @ [(a, bs)]) m \<and>
     read_buffer fuel (ucast a) (length bs) (pf\<lparr>pf_mem := m'\<rparr>) = Inr (bs, pf\<lparr>pf_mem := m'\<rparr>)"
proof -
  let ?s = "\<lparr>hx_mem = m, hx_extended = 0, hx_offset = 0, hx_pc = 0\<rparr>" and ?segs = "segs @ [(a, bs)]"
  obtain s' where s': "hex_lines (concat (map hex_segment ?segs)) ?s = Inr s'" "hx_mem s' = fold put_segment ?segs m"
    "hx_pc s' = 0" "hx_offset s' \<noteq> 0"
    using hex_segments_load[OF assms(1), of ?s] by auto
  have r: "readHexFile (Some (hex_file ?segs)) m = Inr (fold put_segment ?segs m, 0, False)"
    unfolding readHexFile_def option.case split_hex_file s'(1) by (simp add: s'(2-4))
  let ?m = "fold put_segment ?segs m"
  have u: "unat (ucast a :: u64) = unat a" using unsigned_less[of a, where ?'a = nat]
    by (simp add: unsigned_ucast_eq take_bit_nat_eq_self)
  have ne: "(ucast a :: u64) \<noteq> 0x90000000" "(ucast a :: u64) \<noteq> 0x80001000"
    using assms(3,4) u by (auto simp: word_unat_eq_iff)
  have d: "dram_range (ucast a) (length bs)"
    using assms(1,2) u ne by (auto simp: dram_range_def dram_segment_def)
  have "mem_read ?m (dram_offset (ucast a)) (length bs) = bs"
    by (simp add: put_segment_def dram_offset_def u)
  then have "read_buffer fuel (ucast a) (length bs) (pf\<lparr>pf_mem := ?m\<rparr>) = Inr (bs, pf\<lparr>pf_mem := ?m\<rparr>)"
    using read_buffer_dram[OF d, of fuel "pf\<lparr>pf_mem := ?m\<rparr>"] by simp
  then show ?thesis using r by blast
qed

theorem hex_file_roundtrip_witness:
  "\<exists>m'. readHexFile (Some (hex_file ([(0x80000000, [1, 2, 3])] @ [(0x80020010, [0xAB, 0xCD])]))) (\<lambda>_. 0) = Inr (m', 0, False) \<and>
     m' = fold put_segment ([(0x80000000, [1, 2, 3])] @ [(0x80020010, [0xAB, 0xCD])]) (\<lambda>_. 0) \<and>
     read_buffer bus_fuel (ucast (0x80020010 :: u32)) (length [0xAB, 0xCD :: u8]) (platform_init\<lparr>pf_mem := m'\<rparr>) =
       Inr ([0xAB, 0xCD], platform_init\<lparr>pf_mem := m'\<rparr>)"
  by (rule hex_file_roundtrip) (simp_all add: dram_segment_def)

end
