(* ===== verification/Registers.thy ===== *)
theory Registers
  imports Platform
begin

unbundle bit_operations_syntax

text \<open>
  The register file of the functional cores (src/inc/Registers.h, src/src/Registers.cpp) and
  what every instruction-set extension shares (src/inc/extension_base.h): field access,
  exceptions and the stop request.  The C++ template parameter \<^verbatim>\<open>T\<close> (uint32_t or uint64_t) is
  the word length: \<^verbatim>\<open>sizeof(T) == 4\<close> reads \<open>LENGTH('w) = 32\<close>.  The event counters of
  Performance.h and the log messages are not part of the state.
\<close>

section \<open>Register file\<close>

abbreviation "CSR_MSTATUS \<equiv> (0x300 :: nat)"
abbreviation "CSR_MISA \<equiv> (0x301 :: nat)"
abbreviation "CSR_MTVEC \<equiv> (0x305 :: nat)"
abbreviation "CSR_MEPC \<equiv> (0x341 :: nat)"
abbreviation "CSR_MCAUSE \<equiv> (0x342 :: nat)"
abbreviation "CSR_MTVAL \<equiv> (0x343 :: nat)"
abbreviation "CSR_MIP \<equiv> (0x344 :: nat)"
abbreviation "CSR_SEPC \<equiv> (0x141 :: nat)"
abbreviation "CSR_MCYCLE \<equiv> (0xB00 :: nat)"
abbreviation "CSR_MCYCLEH \<equiv> (0xB80 :: nat)"
abbreviation "CSR_CYCLE \<equiv> (0xC00 :: nat)"
abbreviation "CSR_TIME \<equiv> (0xC01 :: nat)"
abbreviation "CSR_CYCLEH \<equiv> (0xC80 :: nat)"
abbreviation "CSR_TIMEH \<equiv> (0xC81 :: nat)"

abbreviation is_rv32 :: "'w::len itself \<Rightarrow> bool" where
  "is_rv32 _ \<equiv> LENGTH('w) = 32"

text \<open>The CSR store is an \<^verbatim>\<open>unordered_map<T, unsigned int>\<close>: 32-bit values whatever T is, and
  zero for a register never written.\<close>

record 'T Registers =
  register_bank :: "nat \<Rightarrow> 'T"
  register_PC :: 'T
  CSR :: "nat \<Rightarrow> u32"

definition initCSR32 :: "nat \<Rightarrow> u32" where
  "initCSR32 = (\<lambda>_. 0)
     (CSR_MISA := push_bit 30 1 OR push_bit 12 1 OR push_bit 2 1 OR push_bit 0 1 OR push_bit 8 1,
      CSR_MSTATUS := push_bit 30 1)"

definition initCSR64 :: "nat \<Rightarrow> u32" where
  "initCSR64 = (\<lambda>_. 0)
     (CSR_MISA := ucast (push_bit 30 (2 :: u64)) OR push_bit 12 1 OR push_bit 2 1 OR push_bit 0 1 OR push_bit 8 1,
      CSR_MSTATUS := push_bit 30 1)"

definition Registers_init :: "'w::len word Registers" where
  "Registers_init =
     \<lparr>register_bank = (\<lambda>_. 0)(2 := of_nat (Memory_SIZE - 4)),
      register_PC = 0x80000000,
      CSR = (if is_rv32 TYPE('w) then initCSR32 else initCSR64)\<rparr>"

definition setValue :: "nat \<Rightarrow> 'w::len word \<Rightarrow> 'w word Registers \<Rightarrow> 'w word Registers" where
  "setValue reg_num value r =
     (if reg_num \<noteq> 0 \<and> reg_num < 32
      then r\<lparr>register_bank := (register_bank r)(reg_num := value)\<rparr> else r)"

definition getValue :: "nat \<Rightarrow> 'w::len word Registers \<Rightarrow> 'w word" where
  "getValue reg_num r = (if reg_num < 32 then register_bank r reg_num else - 1)"

definition getPC :: "'w::len word Registers \<Rightarrow> 'w word" where
  "getPC r = register_PC r"

definition setPC :: "'w::len word \<Rightarrow> 'w word Registers \<Rightarrow> 'w word Registers" where
  "setPC new_pc r = r\<lparr>register_PC := new_pc\<rparr>"

definition incPC :: "'w::len word Registers \<Rightarrow> 'w word Registers" where
  "incPC r = r\<lparr>register_PC := register_PC r + 4\<rparr>"

definition incPCby2 :: "'w::len word Registers \<Rightarrow> 'w word Registers" where
  "incPCby2 r = r\<lparr>register_PC := register_PC r + 2\<rparr>"

definition getCSR :: "u64 \<Rightarrow> nat \<Rightarrow> 'w::len word Registers \<Rightarrow> 'w word" where
  "getCSR now csr r =
     (if csr = CSR_CYCLE \<or> csr = CSR_MCYCLE then ucast (now AND 0xFFFFFFFF)
      else if csr = CSR_CYCLEH \<or> csr = CSR_MCYCLEH then ucast (drop_bit 32 now AND 0xFFFFFFFF)
      else if csr = CSR_TIME then ucast (now AND 0xFFFFFFFF)
      else if csr = CSR_TIMEH then ucast (drop_bit 32 now AND 0xFFFFFFFF)
      else ucast (CSR r csr))"

definition setCSR :: "nat \<Rightarrow> 'w::len word \<Rightarrow> 'w word Registers \<Rightarrow> 'w word Registers" where
  "setCSR csr value r = (if csr \<noteq> CSR_MISA then r\<lparr>CSR := (CSR r)(csr := ucast value)\<rparr> else r)"

section \<open>Laws of the register file\<close>

named_theorems reg_simps \<open>reading the register file after an update\<close>

lemma getValue_setValue [reg_simps]:
  "getValue n (setValue k v r) = (if k = n \<and> k \<noteq> 0 \<and> k < 32 then v else getValue n r)"
  by (simp add: getValue_def setValue_def)

lemma getValue_other [simp, reg_simps]:
  "getValue n (setPC p r) = getValue n r" "getValue n (incPC r) = getValue n r"
  "getValue n (incPCby2 r) = getValue n r" "getValue n (setCSR c v r) = getValue n r"
  by (simp_all add: getValue_def setPC_def incPC_def incPCby2_def setCSR_def)

lemma getPC_simps [simp, reg_simps]:
  "getPC (setValue k v r) = getPC r" "getPC (setPC p r) = p" "getPC (incPC r) = getPC r + 4"
  "getPC (incPCby2 r) = getPC r + 2" "getPC (setCSR c v r) = getPC r"
  by (simp_all add: getPC_def setValue_def setPC_def incPC_def incPCby2_def setCSR_def)

lemma CSR_simps [simp, reg_simps]:
  "CSR (setValue k v r) = CSR r" "CSR (setPC p r) = CSR r" "CSR (incPC r) = CSR r"
  "CSR (incPCby2 r) = CSR r"
  by (simp_all add: setValue_def setPC_def incPC_def incPCby2_def)

lemma setValue_0 [simp, reg_simps]: "setValue 0 v r = r"
  by (simp add: setValue_def)

lemma setValue_setPC: "setValue k v (setPC p r) = setPC p (setValue k v r)"
  by (simp add: setValue_def setPC_def)

lemma setPC_setPC [simp]: "setPC q (setPC p r) = setPC q r"
  by (simp add: setPC_def)

lemma inc_as_setPC: "incPC r = setPC (getPC r + 4) r" "incPCby2 r = setPC (getPC r + 2) r"
  by (simp_all add: incPC_def incPCby2_def setPC_def getPC_def)

end
