(* ===== verification/ISA_Common.thy ===== *)
theory ISA_Common
  imports Registers
begin

unbundle bit_operations_syntax

text \<open>
  What the instruction-set extensions share (src/inc/extension_base.h): the fields of an
  instruction word, the state an instruction acts on (the register file, the platform behind
  the memory interface, the load reservations of the A extension and the stop request of
  the simulation kernel), exceptions, and data accesses that may end the simulation.
\<close>

section \<open>Instruction fields\<close>

definition get_rd :: "u32 \<Rightarrow> nat" where "get_rd i = unat (range_bits 11 7 i)"
definition get_rs1 :: "u32 \<Rightarrow> nat" where "get_rs1 i = unat (range_bits 19 15 i)"
definition get_rs2 :: "u32 \<Rightarrow> nat" where "get_rs2 i = unat (range_bits 24 20 i)"
definition get_funct3 :: "u32 \<Rightarrow> u32" where "get_funct3 i = range_bits 14 12 i"
definition get_shamt_slli :: "u32 \<Rightarrow> u32" where "get_shamt_slli i = range_bits 25 20 i"

lemma reg_fields_less [simp]: "get_rd i < 32" "get_rs1 i < 32" "get_rs2 i < 32"
  using unat_range_bits_less[of 11 7 i] unat_range_bits_less[of 19 15 i] unat_range_bits_less[of 24 20 i]
  by (simp_all add: get_rd_def get_rs1_def get_rs2_def)

section \<open>Machine state\<close>

record 'T Machine =
  regs :: "'T Registers"
  platform :: Platform
  TLB_A_Entries :: "u32 set"
  TLB_A_Entries_64 :: "u64 set"
  stop_requested :: bool

abbreviation now_of :: "'T Machine \<Rightarrow> u64" where "now_of m \<equiv> pf_now (platform m)"

definition upd_regs :: "('T Registers \<Rightarrow> 'T Registers) \<Rightarrow> 'T Machine \<Rightarrow> 'T Machine" where
  "upd_regs f m = m\<lparr>regs := f (regs m)\<rparr>"

definition request_stop :: "'T Machine \<Rightarrow> 'T Machine" where
  "request_stop m = m\<lparr>stop_requested := True\<rparr>"

definition NOP :: "'T Machine \<Rightarrow> 'T Machine" where
  "NOP m = request_stop m"

lemma machine_simps [simp]:
  "regs (upd_regs f m) = f (regs m)" "platform (upd_regs f m) = platform m"
  "TLB_A_Entries (upd_regs f m) = TLB_A_Entries m" "TLB_A_Entries_64 (upd_regs f m) = TLB_A_Entries_64 m"
  "stop_requested (upd_regs f m) = stop_requested m"
  "regs (request_stop m) = regs m" "platform (request_stop m) = platform m"
  "TLB_A_Entries (request_stop m) = TLB_A_Entries m" "TLB_A_Entries_64 (request_stop m) = TLB_A_Entries_64 m"
  "stop_requested (request_stop m)" "NOP m = request_stop m"
  by (simp_all add: upd_regs_def request_stop_def NOP_def)

lemma upd_regs_comp: "upd_regs f (upd_regs g m) = upd_regs (f \<circ> g) m"
  by (simp add: upd_regs_def)

section \<open>Exceptions\<close>

datatype Exception_cause = INSTRUCTION_MISALIGN | INSTRUCTION_ACCESS | ILLEGAL_INSTRUCTION | BREAK
  | LOAD_ADDR_MISALIGN | LOAD_ACCESS_FAULT | CALL_FROM_M_MODE

fun exception_code :: "Exception_cause \<Rightarrow> u32" where
  "exception_code INSTRUCTION_MISALIGN = 0"
| "exception_code INSTRUCTION_ACCESS = 1"
| "exception_code ILLEGAL_INSTRUCTION = 2"
| "exception_code BREAK = 3"
| "exception_code LOAD_ADDR_MISALIGN = 4"
| "exception_code LOAD_ACCESS_FAULT = 5"
| "exception_code CALL_FROM_M_MODE = 11"

definition RaiseException :: "Exception_cause \<Rightarrow> u32 \<Rightarrow> 'w::len word Machine \<Rightarrow> 'w word Machine" where
  "RaiseException cause inst m =
     (let r = regs m; now = now_of m;
          current_pc = (ucast (getPC r) :: u32);
          m_cause = (ucast (getCSR now CSR_MSTATUS r) :: u32) OR exception_code cause;
          new_pc = (ucast (getCSR now CSR_MTVEC r) :: u32);
          r = setCSR CSR_MEPC (ucast current_pc) r;
          r = (if cause = ILLEGAL_INSTRUCTION then setCSR CSR_MTVAL (ucast inst) r
               else if cause = LOAD_ADDR_MISALIGN then setCSR CSR_MTVAL (ucast current_pc) r
               else if cause = BREAK then r
               else setCSR CSR_MTVAL 0 r);
          r = setCSR CSR_MCAUSE (ucast (exception_code cause)) r;
          r = setCSR CSR_MSTATUS (ucast m_cause) r;
          r = setPC (ucast new_pc) r;
          m = m\<lparr>regs := r\<rparr>
      in if cause = BREAK then request_stop m else m)"

section \<open>Data accesses\<close>

definition load_mem :: "u64 \<Rightarrow> nat \<Rightarrow> 'T Machine \<Rightarrow> sim_error + u32 \<times> 'T Machine" where
  "load_mem addr sz m =
     and_then (readDataMem addr sz (platform m)) (\<lambda>(d, pf). Inr (d, m\<lparr>platform := pf\<rparr>))"

definition store_mem :: "u64 \<Rightarrow> u32 \<Rightarrow> nat \<Rightarrow> 'T Machine \<Rightarrow> sim_error + 'T Machine" where
  "store_mem addr data sz m =
     and_then (writeDataMem addr data sz (platform m)) (\<lambda>pf. Inr (m\<lparr>platform := pf\<rparr>))"

definition load_mem64 :: "u64 \<Rightarrow> nat \<Rightarrow> 'T Machine \<Rightarrow> sim_error + u64 \<times> 'T Machine" where
  "load_mem64 addr sz m =
     and_then (readDataMem64 addr sz (platform m)) (\<lambda>(d, pf). Inr (d, m\<lparr>platform := pf\<rparr>))"

definition store_mem64 :: "u64 \<Rightarrow> u64 \<Rightarrow> nat \<Rightarrow> 'T Machine \<Rightarrow> sim_error + 'T Machine" where
  "store_mem64 addr data sz m =
     and_then (writeDataMem64 addr data sz (platform m)) (\<lambda>pf. Inr (m\<lparr>platform := pf\<rparr>))"

end
