(* ===== verification/BASE_ISA.thy ===== *)
theory BASE_ISA
  imports ISA_Common
begin

unbundle bit_operations_syntax

text \<open>
  The base instruction set RV32I/RV64I with Zicsr and the privileged instructions
  (src/inc/BASE_ISA.h, src/src/BASE_ISA.cpp): immediates, one definition per
  \<^verbatim>\<open>Exec_\<close> method, the dispatcher \<^verbatim>\<open>exec_instruction\<close> and the decoder.  An instruction that
  only touches registers is a function on the register file; one that uses memory or may
  trap is a function on the machine.  Where the source has two explicit specialisations of a
  template member, so has the model (suffix 32 or 64).  Signed addition and subtraction wrap
  around, as the compiled code does.
\<close>

section \<open>Immediates\<close>

definition get_imm_I32 :: "u32 \<Rightarrow> u32" where
  "get_imm_I32 i =
     (let aux = range_bits 31 20 i
      in if bit i 31 then aux OR push_bit 12 0xFFFFF else aux)"

definition get_imm_I64 :: "u32 \<Rightarrow> u64" where
  "get_imm_I64 i =
     (let aux = ucast (range_bits 31 20 i)
      in if bit i 31 then aux OR push_bit 12 0xFFFFF OR push_bit 32 0xFFFFFFFF else aux)"

definition get_imm_I :: "u32 \<Rightarrow> 'w::len word" where
  "get_imm_I i = (if is_rv32 TYPE('w) then ucast (get_imm_I32 i) else ucast (get_imm_I64 i))"

definition get_imm_S32 :: "u32 \<Rightarrow> u32" where
  "get_imm_S32 i =
     (let aux = push_bit 5 (range_bits 31 25 i) OR range_bits 11 7 i
      in if bit i 31 then aux OR push_bit 12 0xFFFFF else aux)"

definition get_imm_S64 :: "u32 \<Rightarrow> u64" where
  "get_imm_S64 i =
     (let aux = ucast (push_bit 5 (range_bits 31 25 i) OR range_bits 11 7 i)
      in if bit i 31 then aux OR push_bit 12 0xFFFFF OR push_bit 32 0xFFFFFFFF else aux)"

definition get_imm_S :: "u32 \<Rightarrow> 'w::len word" where
  "get_imm_S i = (if is_rv32 TYPE('w) then ucast (get_imm_S32 i) else ucast (get_imm_S64 i))"

definition get_imm_B32 :: "u32 \<Rightarrow> u32" where
  "get_imm_B32 i =
     (let aux = push_bit 11 (range_bits 7 7 i) OR push_bit 5 (range_bits 30 25 i)
               OR push_bit 12 (range_bits 31 31 i) OR push_bit 1 (range_bits 11 8 i)
      in if bit i 31 then aux OR push_bit 12 0xFFFFF else aux)"

definition get_imm_B64 :: "u32 \<Rightarrow> u64" where
  "get_imm_B64 i =
     (let aux = ucast (push_bit 11 (range_bits 7 7 i) OR push_bit 5 (range_bits 30 25 i)
               OR push_bit 12 (range_bits 31 31 i) OR push_bit 1 (range_bits 11 8 i))
      in if bit i 31 then aux OR push_bit 12 0xFFFFF OR push_bit 32 0xFFFFFFFF else aux)"

definition get_imm_B :: "u32 \<Rightarrow> 'w::len word" where
  "get_imm_B i = (if is_rv32 TYPE('w) then ucast (get_imm_B32 i) else ucast (get_imm_B64 i))"

definition get_imm_J32 :: "u32 \<Rightarrow> u32" where
  "get_imm_J32 i =
     (let aux = push_bit 20 (range_bits 31 31 i) OR push_bit 12 (range_bits 19 12 i)
               OR push_bit 11 (range_bits 20 20 i) OR push_bit 1 (range_bits 30 21 i)
      in if bit i 31 then aux OR push_bit 20 0xFFF else aux)"

definition get_imm_J64 :: "u32 \<Rightarrow> u64" where
  "get_imm_J64 i =
     (let aux = ucast (push_bit 20 (range_bits 31 31 i) OR push_bit 12 (range_bits 19 12 i)
               OR push_bit 11 (range_bits 20 20 i) OR push_bit 1 (range_bits 30 21 i))
      in if bit i 31 then aux OR push_bit 20 0xFFF OR push_bit 32 0xFFFFFFFF else aux)"

definition get_imm_J :: "u32 \<Rightarrow> 'w::len word" where
  "get_imm_J i = (if is_rv32 TYPE('w) then ucast (get_imm_J32 i) else ucast (get_imm_J64 i))"

definition get_imm_U :: "u32 \<Rightarrow> u32" where "get_imm_U i = range_bits 31 12 i"
definition get_shamt :: "u32 \<Rightarrow> u32" where "get_shamt i = range_bits 25 20 i"
definition get_csr :: "u32 \<Rightarrow> nat" where "get_csr i = unat (range_bits 31 20 i)"
definition get_funct7 :: "u32 \<Rightarrow> u32" where "get_funct7 i = range_bits 31 25 i"
definition opcode :: "u32 \<Rightarrow> u32" where "opcode i = range_bits 6 0 i"

section \<open>Upper immediates, jumps and branches\<close>

definition Exec_LUI :: "u32 \<Rightarrow> 'w::len word Registers \<Rightarrow> 'w word Registers" where
  "Exec_LUI i r = setValue (get_rd i) (scast (push_bit 12 (get_imm_U i))) r"

definition Exec_AUIPC :: "u32 \<Rightarrow> 'w::len word Registers \<Rightarrow> 'w word Registers" where
  "Exec_AUIPC i r =
     (let new_pc = getPC r + scast (push_bit 12 (get_imm_U i)) in setValue (get_rd i) new_pc r)"

definition Exec_JAL :: "u32 \<Rightarrow> 'w::len word Registers \<Rightarrow> 'w word Registers" where
  "Exec_JAL i r =
     (let old_pc = getPC r; new_pc = old_pc + get_imm_J i;
          r = setPC new_pc r
      in setValue (get_rd i) (old_pc + 4) r)"

definition Exec_JALR :: "u32 \<Rightarrow> 'w::len word Registers \<Rightarrow> 'w word Registers" where
  "Exec_JALR i r =
     (let old_pc = getPC r;
          new_pc = (getValue (get_rs1 i) r + get_imm_I i) AND NOT 1;
          r = setValue (get_rd i) (old_pc + 4) r
      in setPC new_pc r)"

definition Exec_BEQ :: "u32 \<Rightarrow> 'w::len word Registers \<Rightarrow> 'w word Registers" where
  "Exec_BEQ i r =
     (let val1 = getValue (get_rs1 i) r; val2 = getValue (get_rs2 i) r
      in if val1 = val2 then setPC (getPC r + get_imm_B i) r else incPC r)"

definition Exec_BNE :: "u32 \<Rightarrow> 'w::len word Registers \<Rightarrow> 'w word Registers" where
  "Exec_BNE i r =
     (let val1 = getValue (get_rs1 i) r; val2 = getValue (get_rs2 i) r
      in if val1 \<noteq> val2 then setPC (getPC r + get_imm_B i) r else incPC r)"

definition Exec_BLT :: "u32 \<Rightarrow> 'w::len word Registers \<Rightarrow> 'w word Registers" where
  "Exec_BLT i r =
     (let val1 = getValue (get_rs1 i) r; val2 = getValue (get_rs2 i) r
      in if sint val1 < sint val2 then setPC (getPC r + get_imm_B i) r else incPC r)"

definition Exec_BGE :: "u32 \<Rightarrow> 'w::len word Registers \<Rightarrow> 'w word Registers" where
  "Exec_BGE i r =
     (let val1 = getValue (get_rs1 i) r; val2 = getValue (get_rs2 i) r
      in if sint val1 \<ge> sint val2 then setPC (getPC r + get_imm_B i) r else incPC r)"

definition Exec_BLTU :: "u32 \<Rightarrow> 'w::len word Registers \<Rightarrow> 'w word Registers" where
  "Exec_BLTU i r =
     (let val1 = getValue (get_rs1 i) r; val2 = getValue (get_rs2 i) r
      in if val1 < val2 then setPC (getPC r + get_imm_B i) r else incPC r)"

definition Exec_BGEU :: "u32 \<Rightarrow> 'w::len word Registers \<Rightarrow> 'w word Registers" where
  "Exec_BGEU i r =
     (let val1 = getValue (get_rs1 i) r; val2 = getValue (get_rs2 i) r
      in if val1 \<ge> val2 then setPC (getPC r + get_imm_B i) r else incPC r)"

section \<open>Loads and stores\<close>

definition Exec_LB :: "u32 \<Rightarrow> 'w::len word Machine \<Rightarrow> sim_error + 'w word Machine" where
  "Exec_LB i m =
     (let mem_addr = get_imm_I i + getValue (get_rs1 i) (regs m)
      in and_then (load_mem (ucast mem_addr) 1 m)
           (\<lambda>(d, m). Inr (upd_regs (setValue (get_rd i) (scast (ucast d :: u8))) m)))"

definition Exec_LH :: "u32 \<Rightarrow> 'w::len word Machine \<Rightarrow> sim_error + 'w word Machine" where
  "Exec_LH i m =
     (let mem_addr = get_imm_I i + getValue (get_rs1 i) (regs m)
      in and_then (load_mem (ucast mem_addr) 2 m)
           (\<lambda>(d, m). Inr (upd_regs (setValue (get_rd i) (scast (ucast d :: u16))) m)))"

definition Exec_LW :: "u32 \<Rightarrow> 'w::len word Machine \<Rightarrow> sim_error + 'w word Machine" where
  "Exec_LW i m =
     (let mem_addr = get_imm_I i + getValue (get_rs1 i) (regs m)
      in and_then (load_mem (ucast mem_addr) 4 m)
           (\<lambda>(d, m). Inr (upd_regs (setValue (get_rd i) (scast d)) m)))"

definition Exec_LBU :: "u32 \<Rightarrow> 'w::len word Machine \<Rightarrow> sim_error + 'w word Machine" where
  "Exec_LBU i m =
     (let mem_addr = get_imm_I i + getValue (get_rs1 i) (regs m)
      in and_then (load_mem (ucast mem_addr) 1 m)
           (\<lambda>(d, m). Inr (upd_regs (setValue (get_rd i) (ucast (ucast d :: u8))) m)))"

definition Exec_LHU :: "u32 \<Rightarrow> 'w::len word Machine \<Rightarrow> sim_error + 'w word Machine" where
  "Exec_LHU i m =
     (let mem_addr = get_imm_I i + getValue (get_rs1 i) (regs m)
      in and_then (load_mem (ucast mem_addr) 2 m)
           (\<lambda>(d, m). Inr (upd_regs (setValue (get_rd i) (ucast (ucast d :: u16))) m)))"

definition Exec_LWU :: "u32 \<Rightarrow> 'w::len word Machine \<Rightarrow> sim_error + 'w word Machine" where
  "Exec_LWU i m =
     (let mem_addr = get_imm_I i + getValue (get_rs1 i) (regs m)
      in and_then (load_mem (ucast mem_addr) 4 m)
           (\<lambda>(d, m). Inr (upd_regs (setValue (get_rd i) (ucast d)) m)))"

definition Exec_LD :: "u32 \<Rightarrow> 'w::len word Machine \<Rightarrow> sim_error + 'w word Machine" where
  "Exec_LD i m =
     (let mem_addr = get_imm_I i + getValue (get_rs1 i) (regs m)
      in and_then (load_mem (ucast mem_addr) 4 m)
           (\<lambda>(lo, m). and_then (load_mem (ucast (mem_addr + 4)) 4 m)
             (\<lambda>(hi, m). Inr (upd_regs
                (setValue (get_rd i) (ucast ((ucast lo :: u64) OR push_bit 32 (ucast hi)))) m))))"

definition Exec_SD :: "u32 \<Rightarrow> 'w::len word Machine \<Rightarrow> sim_error + 'w word Machine" where
  "Exec_SD i m =
     (let mem_addr = get_imm_S i + getValue (get_rs1 i) (regs m);
          data = (ucast (getValue (get_rs2 i) (regs m)) :: u64)
      in and_then (store_mem (ucast mem_addr) (ucast (data AND 0xFFFFFFFF)) 4 m)
           (store_mem (ucast (mem_addr + 4)) (ucast (drop_bit 32 data)) 4))"

definition Exec_SB :: "u32 \<Rightarrow> 'w::len word Machine \<Rightarrow> sim_error + 'w word Machine" where
  "Exec_SB i m =
     (let mem_addr = get_imm_S i + getValue (get_rs1 i) (regs m);
          data = ucast (getValue (get_rs2 i) (regs m))
      in store_mem (ucast mem_addr) data 1 m)"

definition Exec_SH :: "u32 \<Rightarrow> 'w::len word Machine \<Rightarrow> sim_error + 'w word Machine" where
  "Exec_SH i m =
     (let mem_addr = get_imm_S i + getValue (get_rs1 i) (regs m);
          data = ucast (getValue (get_rs2 i) (regs m))
      in store_mem (ucast mem_addr) data 2 m)"

definition Exec_SW :: "u32 \<Rightarrow> 'w::len word Machine \<Rightarrow> sim_error + 'w word Machine" where
  "Exec_SW i m =
     (let mem_addr = get_imm_S i + getValue (get_rs1 i) (regs m);
          data = ucast (getValue (get_rs2 i) (regs m))
      in store_mem (ucast mem_addr) data 4 m)"

section \<open>Register-immediate operations\<close>

definition Exec_ADDI :: "u32 \<Rightarrow> 'w::len word Registers \<Rightarrow> 'w word Registers" where
  "Exec_ADDI i r =
     (let calc = getValue (get_rs1 i) r + get_imm_I i
      in setValue (get_rd i) calc r)"

definition Exec_ADDIW :: "u32 \<Rightarrow> 'w::len word Registers \<Rightarrow> 'w word Registers" where
  "Exec_ADDIW i r =
     (let imm = ucast (get_imm_I i :: 'w word) :: u32;
          aux = ucast (getValue (get_rs1 i) r) + imm;
          calc = scast aux
      in setValue (get_rd i) calc r)"

definition Exec_SLTI :: "u32 \<Rightarrow> 'w::len word Registers \<Rightarrow> 'w word Registers" where
  "Exec_SLTI i r =
     (let imm = get_imm_I i :: 'w word; val1 = getValue (get_rs1 i) r;
          calc = if sint val1 < sint imm then 1 else 0
      in setValue (get_rd i) calc r)"

definition Exec_SLTIU :: "u32 \<Rightarrow> 'w::len word Registers \<Rightarrow> 'w word Registers" where
  "Exec_SLTIU i r =
     (let imm = get_imm_I i; val1 = getValue (get_rs1 i) r;
          calc = if val1 < imm then 1 else 0
      in setValue (get_rd i) calc r)"

definition Exec_XORI :: "u32 \<Rightarrow> 'w::len word Registers \<Rightarrow> 'w word Registers" where
  "Exec_XORI i r =
     (let calc = getValue (get_rs1 i) r XOR get_imm_I i
      in setValue (get_rd i) calc r)"

definition Exec_ORI :: "u32 \<Rightarrow> 'w::len word Registers \<Rightarrow> 'w word Registers" where
  "Exec_ORI i r =
     (let calc = getValue (get_rs1 i) r OR get_imm_I i
      in setValue (get_rd i) calc r)"

definition Exec_ANDI :: "u32 \<Rightarrow> 'w::len word Registers \<Rightarrow> 'w word Registers" where
  "Exec_ANDI i r =
     (let calc = getValue (get_rs1 i) r AND get_imm_I i
      in setValue (get_rd i) calc r)"

definition Exec_SLLI32 :: "u32 \<Rightarrow> 'w::len word Machine \<Rightarrow> bool \<times> 'w word Machine" where
  "Exec_SLLI32 i m =
     (let rs2 = get_shamt i in
      if rs2 \<ge> 0x20 then (False, RaiseException ILLEGAL_INSTRUCTION i (request_stop m))
      else let shift = unat (rs2 AND 0x1F);
               calc = push_bit shift (getValue (get_rs1 i) (regs m))
           in (True, upd_regs (setValue (get_rd i) calc) m))"

definition Exec_SLLI64 :: "u32 \<Rightarrow> 'w::len word Machine \<Rightarrow> bool \<times> 'w word Machine" where
  "Exec_SLLI64 i m =
     (let rs2 = get_shamt_slli i in
      if rs2 \<ge> 0x40 then (False, RaiseException ILLEGAL_INSTRUCTION i (request_stop m))
      else let shift = unat (rs2 AND 0x3F);
               calc = push_bit shift (getValue (get_rs1 i) (regs m))
           in (True, upd_regs (setValue (get_rd i) calc) m))"

definition Exec_SLLI :: "u32 \<Rightarrow> 'w::len word Machine \<Rightarrow> bool \<times> 'w word Machine" where
  "Exec_SLLI i m = (if is_rv32 TYPE('w) then Exec_SLLI32 i m else Exec_SLLI64 i m)"

definition Exec_SRLI32 :: "u32 \<Rightarrow> 'w::len word Registers \<Rightarrow> 'w word Registers" where
  "Exec_SRLI32 i r =
     (let shift = unat ((of_nat (get_rs2 i) :: u32) AND 0x1F);
          calc = drop_bit shift (getValue (get_rs1 i) r)
      in setValue (get_rd i) calc r)"

definition Exec_SRLI64 :: "u32 \<Rightarrow> 'w::len word Registers \<Rightarrow> 'w word Registers" where
  "Exec_SRLI64 i r =
     (let shift = unat (get_shamt_slli i AND 0x3F);
          calc = drop_bit shift (getValue (get_rs1 i) r)
      in setValue (get_rd i) calc r)"

definition Exec_SRLI :: "u32 \<Rightarrow> 'w::len word Registers \<Rightarrow> 'w word Registers" where
  "Exec_SRLI i r = (if is_rv32 TYPE('w) then Exec_SRLI32 i r else Exec_SRLI64 i r)"

definition Exec_SRAI32 :: "u32 \<Rightarrow> 'w::len word Registers \<Rightarrow> 'w word Registers" where
  "Exec_SRAI32 i r =
     (let shift = unat ((of_nat (get_rs2 i) :: u32) AND 0x1F);
          calc = signed_drop_bit shift (getValue (get_rs1 i) r)
      in setValue (get_rd i) calc r)"

definition Exec_SRAI64 :: "u32 \<Rightarrow> 'w::len word Registers \<Rightarrow> 'w word Registers" where
  "Exec_SRAI64 i r =
     (let shift = unat (get_shamt_slli i AND 0x3F);
          calc = signed_drop_bit shift (getValue (get_rs1 i) r)
      in setValue (get_rd i) calc r)"

definition Exec_SRAI :: "u32 \<Rightarrow> 'w::len word Registers \<Rightarrow> 'w word Registers" where
  "Exec_SRAI i r = (if is_rv32 TYPE('w) then Exec_SRAI32 i r else Exec_SRAI64 i r)"

definition Exec_SLLIW :: "u32 \<Rightarrow> 'w::len word Machine \<Rightarrow> bool \<times> 'w word Machine" where
  "Exec_SLLIW i m =
     (let rs2 = get_shamt i in
      if rs2 \<ge> 0x20 then (False, RaiseException ILLEGAL_INSTRUCTION i (request_stop m))
      else let shift = unat (rs2 AND 0x1F);
               calc = scast (push_bit shift (ucast (getValue (get_rs1 i) (regs m)) :: u32))
           in (True, upd_regs (setValue (get_rd i) calc) m))"

definition Exec_SRLIW :: "u32 \<Rightarrow> 'w::len word Machine \<Rightarrow> bool \<times> 'w word Machine" where
  "Exec_SRLIW i m =
     (let rs2 = get_shamt i in
      if rs2 \<ge> 0x20 then (False, RaiseException ILLEGAL_INSTRUCTION i (request_stop m))
      else let shift = unat (rs2 AND 0x1F);
               calc = scast (drop_bit shift (ucast (getValue (get_rs1 i) (regs m)) :: u32))
           in (True, upd_regs (setValue (get_rd i) calc) m))"

definition Exec_SRAIW :: "u32 \<Rightarrow> 'w::len word Registers \<Rightarrow> 'w word Registers" where
  "Exec_SRAIW i r =
     (let shift = unat (get_shamt_slli i AND 0x1F);
          calc = scast (signed_drop_bit shift (ucast (getValue (get_rs1 i) r) :: u32))
      in setValue (get_rd i) calc r)"

section \<open>Register-register operations\<close>

definition Exec_ADDW :: "u32 \<Rightarrow> 'w::len word Registers \<Rightarrow> 'w word Registers" where
  "Exec_ADDW i r =
     (let calc = scast (ucast (getValue (get_rs1 i) r + getValue (get_rs2 i) r) :: u32)
      in setValue (get_rd i) calc r)"

definition Exec_SUBW :: "u32 \<Rightarrow> 'w::len word Registers \<Rightarrow> 'w word Registers" where
  "Exec_SUBW i r =
     (let calc = scast (ucast (getValue (get_rs1 i) r - getValue (get_rs2 i) r) :: u32)
      in setValue (get_rd i) calc r)"

definition Exec_SLLW :: "u32 \<Rightarrow> 'w::len word Registers \<Rightarrow> 'w word Registers" where
  "Exec_SLLW i r =
     (let shift = unat (getValue (get_rs2 i) r AND 0x1F);
          calc = scast (push_bit shift (ucast (getValue (get_rs1 i) r) :: u32))
      in setValue (get_rd i) calc r)"

definition Exec_SRLW :: "u32 \<Rightarrow> 'w::len word Registers \<Rightarrow> 'w word Registers" where
  "Exec_SRLW i r =
     (let shift = unat (getValue (get_rs2 i) r AND 0x1F);
          calc = scast (drop_bit shift (ucast (getValue (get_rs1 i) r) :: u32))
      in setValue (get_rd i) calc r)"

definition Exec_SRAW :: "u32 \<Rightarrow> 'w::len word Registers \<Rightarrow> 'w word Registers" where
  "Exec_SRAW i r =
     (let shift = unat (getValue (get_rs2 i) r AND 0x1F);
          calc = scast (signed_drop_bit shift (ucast (getValue (get_rs1 i) r) :: u32))
      in setValue (get_rd i) calc r)"

definition Exec_ADD :: "u32 \<Rightarrow> 'w::len word Registers \<Rightarrow> 'w word Registers" where
  "Exec_ADD i r =
     (let calc = getValue (get_rs1 i) r + getValue (get_rs2 i) r
      in setValue (get_rd i) calc r)"

definition Exec_SUB :: "u32 \<Rightarrow> 'w::len word Registers \<Rightarrow> 'w word Registers" where
  "Exec_SUB i r =
     (let calc = getValue (get_rs1 i) r - getValue (get_rs2 i) r
      in setValue (get_rd i) calc r)"

definition Exec_SLL32 :: "u32 \<Rightarrow> 'w::len word Registers \<Rightarrow> 'w word Registers" where
  "Exec_SLL32 i r =
     (let shift = unat (getValue (get_rs2 i) r AND 0x1F);
          calc = push_bit shift (getValue (get_rs1 i) r)
      in setValue (get_rd i) calc r)"

definition Exec_SLL64 :: "u32 \<Rightarrow> 'w::len word Registers \<Rightarrow> 'w word Registers" where
  "Exec_SLL64 i r =
     (let shift = unat (getValue (get_rs2 i) r AND 0x3F);
          calc = push_bit shift (getValue (get_rs1 i) r)
      in setValue (get_rd i) calc r)"

definition Exec_SLL :: "u32 \<Rightarrow> 'w::len word Registers \<Rightarrow> 'w word Registers" where
  "Exec_SLL i r = (if is_rv32 TYPE('w) then Exec_SLL32 i r else Exec_SLL64 i r)"

definition Exec_SRL32 :: "u32 \<Rightarrow> 'w::len word Registers \<Rightarrow> 'w word Registers" where
  "Exec_SRL32 i r =
     (let shift = unat (getValue (get_rs2 i) r AND 0x1F);
          calc = drop_bit shift (getValue (get_rs1 i) r)
      in setValue (get_rd i) calc r)"

definition Exec_SRL64 :: "u32 \<Rightarrow> 'w::len word Registers \<Rightarrow> 'w word Registers" where
  "Exec_SRL64 i r =
     (let shift = unat (getValue (get_rs2 i) r AND 0x3F);
          calc = drop_bit shift (getValue (get_rs1 i) r)
      in setValue (get_rd i) calc r)"

definition Exec_SRL :: "u32 \<Rightarrow> 'w::len word Registers \<Rightarrow> 'w word Registers" where
  "Exec_SRL i r = (if is_rv32 TYPE('w) then Exec_SRL32 i r else Exec_SRL64 i r)"

definition Exec_SRA32 :: "u32 \<Rightarrow> 'w::len word Registers \<Rightarrow> 'w word Registers" where
  "Exec_SRA32 i r =
     (let shift = unat (getValue (get_rs2 i) r AND 0x1F);
          calc = signed_drop_bit shift (getValue (get_rs1 i) r)
      in setValue (get_rd i) calc r)"

definition Exec_SRA64 :: "u32 \<Rightarrow> 'w::len word Registers \<Rightarrow> 'w word Registers" where
  "Exec_SRA64 i r =
     (let shift = unat (getValue (get_rs2 i) r AND 0x3F);
          calc = signed_drop_bit shift (getValue (get_rs1 i) r)
      in setValue (get_rd i) calc r)"

definition Exec_SRA :: "u32 \<Rightarrow> 'w::len word Registers \<Rightarrow> 'w word Registers" where
  "Exec_SRA i r = (if is_rv32 TYPE('w) then Exec_SRA32 i r else Exec_SRA64 i r)"

definition Exec_SLT :: "u32 \<Rightarrow> 'w::len word Registers \<Rightarrow> 'w word Registers" where
  "Exec_SLT i r =
     (let calc = if sint (getValue (get_rs1 i) r) < sint (getValue (get_rs2 i) r) then 1 else 0
      in setValue (get_rd i) calc r)"

definition Exec_SLTU :: "u32 \<Rightarrow> 'w::len word Registers \<Rightarrow> 'w word Registers" where
  "Exec_SLTU i r =
     (let calc = if getValue (get_rs1 i) r < getValue (get_rs2 i) r then 1 else 0
      in setValue (get_rd i) calc r)"

definition Exec_XOR :: "u32 \<Rightarrow> 'w::len word Registers \<Rightarrow> 'w word Registers" where
  "Exec_XOR i r =
     (let calc = getValue (get_rs1 i) r XOR getValue (get_rs2 i) r
      in setValue (get_rd i) calc r)"

definition Exec_OR :: "u32 \<Rightarrow> 'w::len word Registers \<Rightarrow> 'w word Registers" where
  "Exec_OR i r =
     (let calc = getValue (get_rs1 i) r OR getValue (get_rs2 i) r
      in setValue (get_rd i) calc r)"

definition Exec_AND :: "u32 \<Rightarrow> 'w::len word Registers \<Rightarrow> 'w word Registers" where
  "Exec_AND i r =
     (let calc = getValue (get_rs1 i) r AND getValue (get_rs2 i) r
      in setValue (get_rd i) calc r)"

section \<open>System instructions\<close>

definition Exec_FENCE :: "u32 \<Rightarrow> 'w::len word Machine \<Rightarrow> sim_error + 'w word Machine" where
  "Exec_FENCE i m =
     (let ant_pc = (ucast (getPC (regs m)) :: u32) + 4
      in and_then (load_mem (ucast ant_pc) 4 m)
           (\<lambda>(ant_inst, m). Inr (if ant_inst = 0x00000073 then request_stop m else m)))"

definition Exec_ECALL :: "u32 \<Rightarrow> 'w::len word Machine \<Rightarrow> bool \<times> 'w word Machine" where
  "Exec_ECALL i m = (False, RaiseException CALL_FROM_M_MODE i m)"

definition Exec_EBREAK :: "u32 \<Rightarrow> 'w::len word Machine \<Rightarrow> bool \<times> 'w word Machine" where
  "Exec_EBREAK i m = (False, RaiseException BREAK i m)"

definition Exec_CSRRW :: "u64 \<Rightarrow> u32 \<Rightarrow> 'w::len word Registers \<Rightarrow> 'w word Registers" where
  "Exec_CSRRW now i r =
     (let rd = get_rd i; csr = get_csr i; aux = getCSR now csr r; aux2 = getValue (get_rs1 i) r;
          r = (if rd \<noteq> 0 then setValue rd aux r else r)
      in setCSR csr aux2 r)"

definition Exec_CSRRS :: "u64 \<Rightarrow> u32 \<Rightarrow> 'w::len word Registers \<Rightarrow> 'w word Registers" where
  "Exec_CSRRS now i r =
     (let rd = get_rd i; csr = get_csr i in
      if rd = 0 then r
      else let aux = getCSR now csr r; bitmask = getValue (get_rs1 i) r;
               r = setValue rd aux r
           in setCSR csr (aux OR bitmask) r)"

definition Exec_CSRRC :: "u64 \<Rightarrow> u32 \<Rightarrow> 'w::len word Registers \<Rightarrow> 'w word Registers" where
  "Exec_CSRRC now i r =
     (let rd = get_rd i; csr = get_csr i in
      if rd = 0 then r
      else let aux = getCSR now csr r; bitmask = getValue (get_rs1 i) r;
               r = setValue rd aux r
           in setCSR csr (aux AND NOT bitmask) r)"

definition Exec_CSRRWI :: "u64 \<Rightarrow> u32 \<Rightarrow> 'w::len word Registers \<Rightarrow> 'w word Registers" where
  "Exec_CSRRWI now i r =
     (let rd = get_rd i; csr = get_csr i;
          r = (if rd \<noteq> 0 then setValue rd (getCSR now csr r) r else r)
      in setCSR csr (of_nat (get_rs1 i)) r)"

definition Exec_CSRRSI :: "u64 \<Rightarrow> u32 \<Rightarrow> 'w::len word Registers \<Rightarrow> 'w word Registers" where
  "Exec_CSRRSI now i r =
     (let rs1 = get_rs1 i; csr = get_csr i in
      if rs1 = 0 then r
      else let aux = getCSR now csr r; r = setValue (get_rd i) aux r
           in setCSR csr (aux OR of_nat rs1) r)"

definition Exec_CSRRCI :: "u64 \<Rightarrow> u32 \<Rightarrow> 'w::len word Registers \<Rightarrow> 'w word Registers" where
  "Exec_CSRRCI now i r =
     (let rs1 = get_rs1 i; csr = get_csr i in
      if rs1 = 0 then r
      else let aux = getCSR now csr r; r = setValue (get_rd i) aux r
           in setCSR csr (aux AND NOT (of_nat rs1)) r)"

definition Exec_MRET :: "u64 \<Rightarrow> 'w::len word Registers \<Rightarrow> 'w word Registers" where
  "Exec_MRET now r =
     (let r = setPC (getCSR now CSR_MEPC r) r;
          csr_temp = getCSR now CSR_MSTATUS r;
          csr_temp = (if csr_temp AND push_bit 7 1 \<noteq> 0 then csr_temp OR push_bit 3 1 else csr_temp);
          csr_temp = csr_temp OR push_bit 7 1
      in setCSR CSR_MSTATUS csr_temp r)"

definition Exec_SRET :: "u64 \<Rightarrow> 'w::len word Registers \<Rightarrow> 'w word Registers" where
  "Exec_SRET now r = setPC (getCSR now CSR_SEPC r) r"

definition Exec_WFI :: "'w::len word Registers \<Rightarrow> 'w word Registers" where "Exec_WFI r = r"
definition Exec_SFENCE :: "'w::len word Registers \<Rightarrow> 'w word Registers" where "Exec_SFENCE r = r"

section \<open>Dispatch\<close>

datatype (plugins only: code size) opCodes = OP_LUI | OP_AUIPC | OP_JAL | OP_JALR | OP_BEQ | OP_BNE | OP_BLT | OP_BGE
  | OP_BLTU | OP_BGEU | OP_LB | OP_LH | OP_LW | OP_LBU | OP_LHU | OP_SB | OP_SH | OP_SW | OP_ADDI
  | OP_SLTI | OP_SLTIU | OP_XORI | OP_ORI | OP_ANDI | OP_SLLI | OP_SRLI | OP_SRAI | OP_ADD | OP_SUB
  | OP_SLL | OP_SLT | OP_SLTU | OP_XOR | OP_SRL | OP_SRA | OP_OR | OP_AND | OP_FENCE | OP_ECALL
  | OP_EBREAK | OP_CSRRW | OP_CSRRS | OP_CSRRC | OP_CSRRWI | OP_CSRRSI | OP_CSRRCI | OP_URET
  | OP_SRET | OP_MRET | OP_WFI | OP_SFENCE | OP_LWU | OP_LD | OP_SD | OP_ADDIW | OP_SLLIW | OP_SRLIW
  | OP_SRAIW | OP_ADDW | OP_SUBW | OP_SLLW | OP_SRLW | OP_SRAW | OP_ERROR

text \<open>The outcome of an instruction: whether the program counter still has to be advanced,
  whether a breakpoint was hit, and the machine.\<close>

type_synonym 'T outcome = "sim_error + bool \<times> bool \<times> 'T Machine"

definition reg_step :: "('T Registers \<Rightarrow> 'T Registers) \<Rightarrow> 'T Machine \<Rightarrow> 'T outcome" where
  "reg_step f m = Inr (True, False, upd_regs f m)"

definition jump_step :: "('T Registers \<Rightarrow> 'T Registers) \<Rightarrow> 'T Machine \<Rightarrow> 'T outcome" where
  "jump_step f m = Inr (False, False, upd_regs f m)"

definition mem_step :: "('T Machine \<Rightarrow> sim_error + 'T Machine) \<Rightarrow> 'T Machine \<Rightarrow> 'T outcome" where
  "mem_step f m = and_then (f m) (\<lambda>m. Inr (True, False, m))"

definition trap_step :: "('T Machine \<Rightarrow> bool \<times> 'T Machine) \<Rightarrow> bool \<Rightarrow> 'T Machine \<Rightarrow> 'T outcome" where
  "trap_step f bp m = Inr (fst (f m), bp, snd (f m))"

lemmas step_defs = reg_step_def jump_step_def mem_step_def trap_step_def

definition exec_instruction :: "u32 \<Rightarrow> opCodes \<Rightarrow> 'w::len word Machine \<Rightarrow> 'w word outcome" where
  "exec_instruction i code m = (case code of
       OP_LUI \<Rightarrow> reg_step (Exec_LUI i) m
     | OP_AUIPC \<Rightarrow> reg_step (Exec_AUIPC i) m
     | OP_JAL \<Rightarrow> jump_step (Exec_JAL i) m
     | OP_JALR \<Rightarrow> jump_step (Exec_JALR i) m
     | OP_BEQ \<Rightarrow> jump_step (Exec_BEQ i) m
     | OP_BNE \<Rightarrow> jump_step (Exec_BNE i) m
     | OP_BLT \<Rightarrow> jump_step (Exec_BLT i) m
     | OP_BGE \<Rightarrow> jump_step (Exec_BGE i) m
     | OP_BLTU \<Rightarrow> jump_step (Exec_BLTU i) m
     | OP_BGEU \<Rightarrow> jump_step (Exec_BGEU i) m
     | OP_LB \<Rightarrow> mem_step (Exec_LB i) m
     | OP_LH \<Rightarrow> mem_step (Exec_LH i) m
     | OP_LW \<Rightarrow> mem_step (Exec_LW i) m
     | OP_LBU \<Rightarrow> mem_step (Exec_LBU i) m
     | OP_LHU \<Rightarrow> mem_step (Exec_LHU i) m
     | OP_SB \<Rightarrow> mem_step (Exec_SB i) m
     | OP_SH \<Rightarrow> mem_step (Exec_SH i) m
     | OP_SW \<Rightarrow> mem_step (Exec_SW i) m
     | OP_ADDI \<Rightarrow> reg_step (Exec_ADDI i) m
     | OP_SLTI \<Rightarrow> reg_step (Exec_SLTI i) m
     | OP_SLTIU \<Rightarrow> reg_step (Exec_SLTIU i) m
     | OP_XORI \<Rightarrow> reg_step (Exec_XORI i) m
     | OP_ORI \<Rightarrow> reg_step (Exec_ORI i) m
     | OP_ANDI \<Rightarrow> reg_step (Exec_ANDI i) m
     | OP_SLLI \<Rightarrow> trap_step (Exec_SLLI i) False m
     | OP_SRLI \<Rightarrow> reg_step (Exec_SRLI i) m
     | OP_SRAI \<Rightarrow> reg_step (Exec_SRAI i) m
     | OP_ADD \<Rightarrow> reg_step (Exec_ADD i) m
     | OP_SUB \<Rightarrow> reg_step (Exec_SUB i) m
     | OP_SLL \<Rightarrow> reg_step (Exec_SLL i) m
     | OP_SLT \<Rightarrow> reg_step (Exec_SLT i) m
     | OP_SLTU \<Rightarrow> reg_step (Exec_SLTU i) m
     | OP_XOR \<Rightarrow> reg_step (Exec_XOR i) m
     | OP_SRL \<Rightarrow> reg_step (Exec_SRL i) m
     | OP_SRA \<Rightarrow> reg_step (Exec_SRA i) m
     | OP_OR \<Rightarrow> reg_step (Exec_OR i) m
     | OP_AND \<Rightarrow> reg_step (Exec_AND i) m
     | OP_FENCE \<Rightarrow> mem_step (Exec_FENCE i) m
     | OP_ECALL \<Rightarrow> trap_step (Exec_ECALL i) True m
     | OP_EBREAK \<Rightarrow> trap_step (Exec_EBREAK i) False m
     | OP_CSRRW \<Rightarrow> reg_step (Exec_CSRRW (now_of m) i) m
     | OP_CSRRS \<Rightarrow> reg_step (Exec_CSRRS (now_of m) i) m
     | OP_CSRRC \<Rightarrow> reg_step (Exec_CSRRC (now_of m) i) m
     | OP_CSRRWI \<Rightarrow> reg_step (Exec_CSRRWI (now_of m) i) m
     | OP_CSRRSI \<Rightarrow> reg_step (Exec_CSRRSI (now_of m) i) m
     | OP_CSRRCI \<Rightarrow> reg_step (Exec_CSRRCI (now_of m) i) m
     | OP_SRET \<Rightarrow> jump_step (Exec_SRET (now_of m)) m
     | OP_MRET \<Rightarrow> jump_step (Exec_MRET (now_of m)) m
     | OP_WFI \<Rightarrow> reg_step Exec_WFI m
     | OP_SFENCE \<Rightarrow> reg_step Exec_SFENCE m
     | OP_LWU \<Rightarrow> mem_step (Exec_LWU i) m
     | OP_LD \<Rightarrow> mem_step (Exec_LD i) m
     | OP_SD \<Rightarrow> mem_step (Exec_SD i) m
     | OP_ADDIW \<Rightarrow> reg_step (Exec_ADDIW i) m
     | OP_SLLIW \<Rightarrow> Inr (True, False, snd (Exec_SLLIW i m))
     | OP_SRLIW \<Rightarrow> Inr (True, False, snd (Exec_SRLIW i m))
     | OP_SRAIW \<Rightarrow> reg_step (Exec_SRAIW i) m
     | OP_ADDW \<Rightarrow> reg_step (Exec_ADDW i) m
     | OP_SUBW \<Rightarrow> reg_step (Exec_SUBW i) m
     | OP_SLLW \<Rightarrow> reg_step (Exec_SLLW i) m
     | OP_SRLW \<Rightarrow> reg_step (Exec_SRLW i) m
     | OP_SRAW \<Rightarrow> reg_step (Exec_SRAW i) m
     | _ \<Rightarrow> Inr (True, False, NOP m))"

definition decode_system :: "u32 \<Rightarrow> opCodes" where
  "decode_system i =
     (let f3 = get_funct3 i; csr = get_csr i in
      if f3 = 0b000 then
        (if csr = 0b000000000000 then OP_ECALL
         else if csr = 0b000000000001 then OP_EBREAK
         else if csr = 0b000000000010 then OP_URET
         else if csr = 0b000100000010 then OP_SRET
         else if csr = 0b001100000010 then OP_MRET
         else if csr = 0b000100000101 then OP_WFI
         else if csr = 0b0001001 then OP_SFENCE
         else if range_bits 31 25 i = 0b0001001 then OP_SFENCE
         else OP_ERROR)
      else if f3 = 0b001 then OP_CSRRW
      else if f3 = 0b010 then OP_CSRRS
      else if f3 = 0b011 then OP_CSRRC
      else if f3 = 0b101 then OP_CSRRWI
      else if f3 = 0b110 then OP_CSRRSI
      else if f3 = 0b111 then OP_CSRRCI
      else OP_ERROR)"

definition decode_alu :: "u32 \<Rightarrow> opCodes" where
  "decode_alu i =
     (let f3 = get_funct3 i; f7 = get_funct7 i in
      if f7 \<noteq> 0 \<and> f7 \<noteq> 0b0100000 then OP_ERROR
      else if f3 = 0b000 then
        (if f7 = 0b0000000 then OP_ADD else if f7 = 0b0100000 then OP_SUB else OP_ERROR)
      else if f3 = 0b001 then OP_SLL
      else if f3 = 0b010 then OP_SLT
      else if f3 = 0b011 then OP_SLTU
      else if f3 = 0b100 then OP_XOR
      else if f3 = 0b101 then
        (if f7 = 0b0000000 then OP_SRL else if f7 = 0b0100000 then OP_SRA else OP_ERROR)
      else if f3 = 0b110 then OP_OR
      else if f3 = 0b111 then OP_AND
      else OP_ERROR)"

definition decode_alu_imm :: "u32 \<Rightarrow> opCodes" where
  "decode_alu_imm i =
     (let f3 = get_funct3 i; hi = drop_bit 26 i in
      if f3 = 0b000 then OP_ADDI
      else if f3 = 0b010 then OP_SLTI
      else if f3 = 0b011 then OP_SLTIU
      else if f3 = 0b100 then OP_XORI
      else if f3 = 0b110 then OP_ORI
      else if f3 = 0b111 then OP_ANDI
      else if f3 = 0b001 then OP_SLLI
      else if f3 = 0b101 then
        (if hi = 0b000000 then OP_SRLI else if hi = 0b010000 then OP_SRAI else OP_ERROR)
      else OP_ERROR)"

definition decode_word :: "u32 \<Rightarrow> opCodes" where
  "decode_word i =
     (let f3 = get_funct3 i; f7 = get_funct7 i; hi = drop_bit 26 i in
      if f7 \<noteq> 0 \<and> f7 \<noteq> 0b0100000 then OP_ERROR
      else if f3 = 0b000 then
        (if hi = 0b000000 then OP_ADDW else if hi = 0b010000 then OP_SUBW else OP_ERROR)
      else if f3 = 0b001 then OP_SLLW
      else if f3 = 0b101 then
        (if hi = 0b000000 then OP_SRLW else if hi = 0b010000 then OP_SRAW else OP_ERROR)
      else OP_ERROR)"

definition decode :: "u32 \<Rightarrow> opCodes" where
  "decode i =
     (let op = opcode i; f3 = get_funct3 i; hi = drop_bit 26 i in
      if op = 0b0110111 then OP_LUI
      else if op = 0b0010111 then OP_AUIPC
      else if op = 0b1101111 then OP_JAL
      else if op = 0b1100111 then OP_JALR
      else if op = 0b1100011 then
        (if f3 = 0b000 then OP_BEQ else if f3 = 0b001 then OP_BNE else if f3 = 0b100 then OP_BLT
         else if f3 = 0b101 then OP_BGE else if f3 = 0b110 then OP_BLTU else if f3 = 0b111 then OP_BGEU
         else OP_ERROR)
      else if op = 0b0000011 then
        (if f3 = 0b000 then OP_LB else if f3 = 0b001 then OP_LH else if f3 = 0b010 then OP_LW
         else if f3 = 0b100 then OP_LBU else if f3 = 0b101 then OP_LHU else if f3 = 0b110 then OP_LWU
         else if f3 = 0b011 then OP_LD else OP_ERROR)
      else if op = 0b0100011 then
        (if f3 = 0b000 then OP_SB else if f3 = 0b001 then OP_SH else if f3 = 0b010 then OP_SW
         else if f3 = 0b011 then OP_SD else OP_ERROR)
      else if op = 0b0010011 then decode_alu_imm i
      else if op = 0b0110011 then decode_alu i
      else if op = 0b0001111 then OP_FENCE
      else if op = 0b1110011 then decode_system i
      else if op = 0b0011011 then
        (if f3 = 0b000 then OP_ADDIW else if f3 = 0b001 then OP_SLLIW
         else if f3 = 0b101 then
           (if hi = 0b000000 then OP_SRLIW else if hi = 0b010000 then OP_SRAIW else OP_ERROR)
         else OP_ERROR)
      else if op = 0b0111011 then decode_word i
      else OP_ERROR)"

end
