(* ===== verification/M_extension.thy ===== *)
theory M_extension
  imports BASE_ISA "HOL-Library.Signed_Division"
begin

unbundle bit_operations_syntax

text \<open>
  The M extension (src/inc/M_extension.h, src/src/M_extension.cpp).  C++ integer division
  truncates, which is \<open>sdiv\<close> and \<open>smod\<close> on int; a signed division whose quotient is not
  representable is undefined behaviour and ends the model's step with that error.  The 128-bit
  products of SystemC's \<^verbatim>\<open>sc_bigint<128>\<close> are 128-bit words.
\<close>

section \<open>Decoder\<close>

datatype op_M_Codes = OP_M_MUL | OP_M_MULH | OP_M_MULHSU | OP_M_MULHU | OP_M_DIV | OP_M_DIVU
  | OP_M_REM | OP_M_REMU | OP_M_MULW | OP_M_DIVW | OP_M_DIVUW | OP_M_REMW | OP_M_REMUW | OP_M_ERROR

definition M_opcode :: "u32 \<Rightarrow> u32" where "M_opcode i = range_bits 14 12 i"

definition M_decode :: "u32 \<Rightarrow> op_M_Codes" where
  "M_decode i =
     (let f = M_opcode i in
      if range_bits 6 0 i = 0b110011 then
        (if f = 0b000 then OP_M_MUL else if f = 0b001 then OP_M_MULH
         else if f = 0b010 then OP_M_MULHSU else if f = 0b011 then OP_M_MULHU
         else if f = 0b100 then OP_M_DIV else if f = 0b101 then OP_M_DIVU
         else if f = 0b110 then OP_M_REM else if f = 0b111 then OP_M_REMU else OP_M_ERROR)
      else
        (if f = 0b000 then OP_M_MULW else if f = 0b100 then OP_M_DIVW
         else if f = 0b101 then OP_M_DIVUW else if f = 0b110 then OP_M_REMW
         else if f = 0b111 then OP_M_REMUW else OP_M_ERROR))"

section \<open>Multiplication\<close>

definition Exec_M_MUL :: "u32 \<Rightarrow> 'w::len word Registers \<Rightarrow> 'w word Registers" where
  "Exec_M_MUL i r =
     (let multiplier = getValue (get_rs1 i) r; multiplicand = getValue (get_rs2 i) r;
          result = multiplier * multiplicand
      in setValue (get_rd i) result r)"

definition Exec_M_MULH32 :: "u32 \<Rightarrow> 'w::len word Registers \<Rightarrow> 'w word Registers" where
  "Exec_M_MULH32 i r =
     (let multiplier = getValue (get_rs1 i) r; multiplicand = getValue (get_rs2 i) r;
          result = ucast (drop_bit 32 ((scast multiplier :: u64) * scast multiplicand))
      in setValue (get_rd i) result r)"

definition Exec_M_MULH64 :: "u32 \<Rightarrow> 'w::len word Registers \<Rightarrow> 'w word Registers" where
  "Exec_M_MULH64 i r =
     (let multiplier = getValue (get_rs1 i) r; multiplicand = getValue (get_rs2 i) r;
          result = ucast (drop_bit 64 ((scast multiplier :: 128 word) * scast multiplicand))
      in setValue (get_rd i) result r)"

definition Exec_M_MULH :: "u32 \<Rightarrow> 'w::len word Registers \<Rightarrow> 'w word Registers" where
  "Exec_M_MULH i r = (if is_rv32 TYPE('w) then Exec_M_MULH32 i r else Exec_M_MULH64 i r)"

definition Exec_M_MULHSU32 :: "u32 \<Rightarrow> 'w::len word Registers \<Rightarrow> 'w word Registers" where
  "Exec_M_MULHSU32 i r =
     (let multiplier = getValue (get_rs1 i) r; multiplicand = getValue (get_rs2 i) r;
          result = ucast (drop_bit 32 ((scast multiplier :: u64) * ucast multiplicand))
      in setValue (get_rd i) result r)"

definition Exec_M_MULHSU64 :: "u32 \<Rightarrow> 'w::len word Registers \<Rightarrow> 'w word Registers" where
  "Exec_M_MULHSU64 i r =
     (let multiplier = getValue (get_rs1 i) r; multiplicand = getValue (get_rs2 i) r;
          result = ucast (drop_bit 64 ((scast multiplier :: 128 word) * ucast multiplicand))
      in setValue (get_rd i) result r)"

definition Exec_M_MULHSU :: "u32 \<Rightarrow> 'w::len word Registers \<Rightarrow> 'w word Registers" where
  "Exec_M_MULHSU i r = (if is_rv32 TYPE('w) then Exec_M_MULHSU32 i r else Exec_M_MULHSU64 i r)"

definition Exec_M_MULHU32 :: "u32 \<Rightarrow> 'w::len word Registers \<Rightarrow> 'w word Registers" where
  "Exec_M_MULHU32 i r =
     (let multiplier = getValue (get_rs1 i) r; multiplicand = getValue (get_rs2 i) r;
          result = ucast (drop_bit 32 ((ucast multiplier :: u64) * ucast multiplicand))
      in setValue (get_rd i) result r)"

definition Exec_M_MULHU64 :: "u32 \<Rightarrow> 'w::len word Registers \<Rightarrow> 'w word Registers" where
  "Exec_M_MULHU64 i r =
     (let multiplier = getValue (get_rs1 i) r; multiplicand = getValue (get_rs2 i) r;
          result = ucast (drop_bit 64 ((ucast multiplier :: 128 word) * ucast multiplicand))
      in setValue (get_rd i) result r)"

definition Exec_M_MULHU :: "u32 \<Rightarrow> 'w::len word Registers \<Rightarrow> 'w word Registers" where
  "Exec_M_MULHU i r = (if is_rv32 TYPE('w) then Exec_M_MULHU32 i r else Exec_M_MULHU64 i r)"

definition Exec_M_MULW :: "u32 \<Rightarrow> 'w::len word Registers \<Rightarrow> 'w word Registers" where
  "Exec_M_MULW i r =
     (let multiplier = ucast (getValue (get_rs1 i) r); multiplicand = ucast (getValue (get_rs2 i) r);
          result = scast (multiplier * multiplicand :: u32)
      in setValue (get_rd i) result r)"

section \<open>Division\<close>

text \<open>The quotient of a C++ signed division, undefined when it is not representable.\<close>

definition cxx_sdiv :: "'w::len word \<Rightarrow> 'w word \<Rightarrow> sim_error + 'w word" where
  "cxx_sdiv a b =
     (if sint b = - 1 \<and> sint a = - (2 ^ (LENGTH('w) - 1)) then Inl UNDEFINED_BEHAVIOUR
      else Inr (word_of_int (sint a sdiv sint b)))"

definition cxx_smod :: "'w::len word \<Rightarrow> 'w word \<Rightarrow> sim_error + 'w word" where
  "cxx_smod a b =
     (if sint b = - 1 \<and> sint a = - (2 ^ (LENGTH('w) - 1)) then Inl UNDEFINED_BEHAVIOUR
      else Inr (word_of_int (sint a smod sint b)))"

definition Exec_M_DIV :: "u32 \<Rightarrow> 'w::len word Registers \<Rightarrow> sim_error + 'w word Registers" where
  "Exec_M_DIV i r =
     (let dividend = getValue (get_rs1 i) r; divisor = getValue (get_rs2 i) r in
      and_then
        (if divisor = 0 then Inr (- 1)
         else if sint divisor = - 1 \<and> sint dividend = - 0x80000000 then Inr 0x0000000080000000
         else cxx_sdiv dividend divisor)
        (\<lambda>result. Inr (setValue (get_rd i) result r)))"

definition Exec_M_DIVU :: "u32 \<Rightarrow> 'w::len word Registers \<Rightarrow> 'w word Registers" where
  "Exec_M_DIVU i r =
     (let dividend = getValue (get_rs1 i) r; divisor = getValue (get_rs2 i) r;
          result = if divisor = 0 then - 1 else dividend div divisor
      in setValue (get_rd i) result r)"

definition Exec_M_REM :: "u32 \<Rightarrow> 'w::len word Registers \<Rightarrow> sim_error + 'w word Registers" where
  "Exec_M_REM i r =
     (let dividend = getValue (get_rs1 i) r; divisor = getValue (get_rs2 i) r in
      and_then
        (if divisor = 0 then Inr dividend
         else if sint divisor = - 1 \<and> sint dividend = - 0x80000000 then Inr 0
         else cxx_smod dividend divisor)
        (\<lambda>result. Inr (setValue (get_rd i) result r)))"

definition Exec_M_REMU :: "u32 \<Rightarrow> 'w::len word Registers \<Rightarrow> 'w word Registers" where
  "Exec_M_REMU i r =
     (let dividend = getValue (get_rs1 i) r; divisor = getValue (get_rs2 i) r;
          result = if divisor = 0 then dividend else dividend mod divisor
      in setValue (get_rd i) result r)"

definition Exec_M_DIVW :: "u32 \<Rightarrow> 'w::len word Registers \<Rightarrow> sim_error + 'w word Registers" where
  "Exec_M_DIVW i r =
     (let dividend = ucast (getValue (get_rs1 i) r) :: u32; divisor = ucast (getValue (get_rs2 i) r) :: u32 in
      and_then
        (if divisor = 0 then Inr (- 1)
         else if sint divisor = - 1 \<and> sint dividend = - 0x80000000 then Inr 0x0000000080000000
         else and_then (cxx_sdiv dividend divisor) (\<lambda>q. Inr (scast q)))
        (\<lambda>result. Inr (setValue (get_rd i) result r)))"

definition Exec_M_DIVUW :: "u32 \<Rightarrow> 'w::len word Registers \<Rightarrow> 'w word Registers" where
  "Exec_M_DIVUW i r =
     (let dividend = ucast (getValue (get_rs1 i) r) :: u32; divisor = ucast (getValue (get_rs2 i) r) :: u32;
          result = if divisor = 0 then - 1 else scast (dividend div divisor)
      in setValue (get_rd i) result r)"

definition Exec_M_REMW :: "u32 \<Rightarrow> 'w::len word Registers \<Rightarrow> sim_error + 'w word Registers" where
  "Exec_M_REMW i r =
     (let dividend = ucast (getValue (get_rs1 i) r) :: u32; divisor = ucast (getValue (get_rs2 i) r) :: u32 in
      and_then
        (if divisor = 0 then Inr (scast dividend)
         else if sint divisor = - 1 then Inr 0
         else and_then (cxx_smod dividend divisor) (\<lambda>q. Inr (scast q)))
        (\<lambda>result. Inr (setValue (get_rd i) result r)))"

definition Exec_M_REMUW :: "u32 \<Rightarrow> 'w::len word Registers \<Rightarrow> 'w word Registers" where
  "Exec_M_REMUW i r =
     (let dividend = ucast (getValue (get_rs1 i) r) :: u32; divisor = ucast (getValue (get_rs2 i) r) :: u32;
          result = if divisor = 0 then scast dividend else scast (dividend mod divisor)
      in setValue (get_rd i) result r)"

section \<open>Dispatch\<close>

definition M_exec_instruction :: "u32 \<Rightarrow> op_M_Codes \<Rightarrow> 'w::len word Machine \<Rightarrow> sim_error + bool \<times> 'w word Machine" where
  "M_exec_instruction i code m =
     (let plain = (\<lambda>f. Inr (True, upd_regs f m));
          fallible = (\<lambda>f. and_then (f (regs m)) (\<lambda>r. Inr (True, m\<lparr>regs := r\<rparr>)))
      in case code of
       OP_M_MUL \<Rightarrow> plain (Exec_M_MUL i)
     | OP_M_MULH \<Rightarrow> plain (Exec_M_MULH i)
     | OP_M_MULHSU \<Rightarrow> plain (Exec_M_MULHSU i)
     | OP_M_MULHU \<Rightarrow> plain (Exec_M_MULHU i)
     | OP_M_DIV \<Rightarrow> fallible (Exec_M_DIV i)
     | OP_M_DIVU \<Rightarrow> plain (Exec_M_DIVU i)
     | OP_M_REM \<Rightarrow> fallible (Exec_M_REM i)
     | OP_M_REMU \<Rightarrow> plain (Exec_M_REMU i)
     | OP_M_MULW \<Rightarrow> plain (Exec_M_MULW i)
     | OP_M_DIVW \<Rightarrow> fallible (Exec_M_DIVW i)
     | OP_M_DIVUW \<Rightarrow> plain (Exec_M_DIVUW i)
     | OP_M_REMW \<Rightarrow> fallible (Exec_M_REMW i)
     | OP_M_REMUW \<Rightarrow> plain (Exec_M_REMUW i)
     | OP_M_ERROR \<Rightarrow> Inr (True, request_stop m))"

end
