(* ===== verification/A_extension.thy ===== *)
theory A_extension
  imports BASE_ISA
begin

unbundle bit_operations_syntax

text \<open>
  The A extension (src/inc/A_extension.h): load-reserved, store-conditional and the atomic
  read-modify-write operations, on words (addresses truncated to 32 bits, as in the source)
  and doublewords.  The reservations are the two sets \<^verbatim>\<open>TLB_A_Entries\<close> and
  \<^verbatim>\<open>TLB_A_Entries_64\<close>.
\<close>

section \<open>Decoder\<close>

datatype (plugins only: code size) op_A_Codes = OP_A_LR | OP_A_SC | OP_A_AMOSWAP | OP_A_AMOADD | OP_A_AMOXOR | OP_A_AMOAND
  | OP_A_AMOOR | OP_A_AMOMIN | OP_A_AMOMAX | OP_A_AMOMINU | OP_A_AMOMAXU
  | OP_A_LR_D | OP_A_SC_D | OP_A_AMOSWAP_D | OP_A_AMOADD_D | OP_A_AMOXOR_D | OP_A_AMOAND_D
  | OP_A_AMOOR_D | OP_A_AMOMIN_D | OP_A_AMOMAX_D | OP_A_AMOMINU_D | OP_A_AMOMAXU_D | OP_A_ERROR

definition A_decode :: "u32 \<Rightarrow> op_A_Codes" where
  "A_decode i =
     (let funct5 = drop_bit 27 i AND 0x1F; funct3 = drop_bit 12 i AND 0x7; is64 = (funct3 = 0x3) in
      if funct5 = 0b00010 then (if is64 then OP_A_LR_D else OP_A_LR)
      else if funct5 = 0b00011 then (if is64 then OP_A_SC_D else OP_A_SC)
      else if funct5 = 0b00001 then (if is64 then OP_A_AMOSWAP_D else OP_A_AMOSWAP)
      else if funct5 = 0b00000 then (if is64 then OP_A_AMOADD_D else OP_A_AMOADD)
      else if funct5 = 0b00100 then (if is64 then OP_A_AMOXOR_D else OP_A_AMOXOR)
      else if funct5 = 0b01100 then (if is64 then OP_A_AMOAND_D else OP_A_AMOAND)
      else if funct5 = 0b01000 then (if is64 then OP_A_AMOOR_D else OP_A_AMOOR)
      else if funct5 = 0b10000 then (if is64 then OP_A_AMOMIN_D else OP_A_AMOMIN)
      else if funct5 = 0b10100 then (if is64 then OP_A_AMOMAX_D else OP_A_AMOMAX)
      else if funct5 = 0b11000 then (if is64 then OP_A_AMOMINU_D else OP_A_AMOMINU)
      else if funct5 = 0b11100 then (if is64 then OP_A_AMOMAXU_D else OP_A_AMOMAXU)
      else OP_A_ERROR)"

section \<open>Reservations\<close>

definition TLB_reserve :: "u32 \<Rightarrow> 'T Machine \<Rightarrow> 'T Machine" where
  "TLB_reserve address m = m\<lparr>TLB_A_Entries := insert address (TLB_A_Entries m)\<rparr>"

definition TLB_reserved :: "u32 \<Rightarrow> 'T Machine \<Rightarrow> bool \<times> 'T Machine" where
  "TLB_reserved address m =
     (if address \<in> TLB_A_Entries m
      then (True, m\<lparr>TLB_A_Entries := TLB_A_Entries m - {address}\<rparr>) else (False, m))"

definition TLB_reserve_64 :: "u64 \<Rightarrow> 'T Machine \<Rightarrow> 'T Machine" where
  "TLB_reserve_64 address m = m\<lparr>TLB_A_Entries_64 := insert address (TLB_A_Entries_64 m)\<rparr>"

definition TLB_reserved_64 :: "u64 \<Rightarrow> 'T Machine \<Rightarrow> bool \<times> 'T Machine" where
  "TLB_reserved_64 address m =
     (if address \<in> TLB_A_Entries_64 m
      then (True, m\<lparr>TLB_A_Entries_64 := TLB_A_Entries_64 m - {address}\<rparr>) else (False, m))"

section \<open>Word operations\<close>

definition Exec_A_LR :: "u32 \<Rightarrow> 'w::len word Machine \<Rightarrow> sim_error + 'w word Machine" where
  "Exec_A_LR i m =
     (if get_rs2 i \<noteq> 0 then Inr (RaiseException ILLEGAL_INSTRUCTION i m)
      else let mem_addr = (ucast (getValue (get_rs1 i) (regs m)) :: u32)
           in and_then (load_mem (ucast mem_addr) 4 m)
                (\<lambda>(data, m). Inr (TLB_reserve mem_addr (upd_regs (setValue (get_rd i) (scast data)) m))))"

definition Exec_A_SC :: "u32 \<Rightarrow> 'w::len word Machine \<Rightarrow> sim_error + 'w word Machine" where
  "Exec_A_SC i m =
     (let mem_addr = (ucast (getValue (get_rs1 i) (regs m)) :: u32);
          data = (ucast (getValue (get_rs2 i) (regs m)) :: u32);
          (ok, m) = TLB_reserved mem_addr m
      in if ok then and_then (store_mem (ucast mem_addr) data 4 m)
                      (\<lambda>m. Inr (upd_regs (setValue (get_rd i) 0) m))
         else Inr (upd_regs (setValue (get_rd i) 1) m))"

text \<open>The common shape of the nine word AMOs: read memory, read rs2, write rd, write memory.\<close>

definition amo_w :: "(u32 \<Rightarrow> u32 \<Rightarrow> u32) \<Rightarrow> u32 \<Rightarrow> 'w::len word Machine \<Rightarrow> sim_error + 'w word Machine" where
  "amo_w f i m =
     (let mem_addr = (ucast (getValue (get_rs1 i) (regs m)) :: u32)
      in and_then (load_mem (ucast mem_addr) 4 m)
           (\<lambda>(old_val, m).
              let operand = ucast (getValue (get_rs2 i) (regs m));
                  m = upd_regs (setValue (get_rd i) (scast old_val)) m
              in store_mem (ucast mem_addr) (f old_val operand) 4 m))"

definition Exec_A_AMOSWAP :: "u32 \<Rightarrow> 'w::len word Machine \<Rightarrow> sim_error + 'w word Machine" where
  "Exec_A_AMOSWAP = amo_w (\<lambda>old_val operand. operand)"

definition Exec_A_AMOADD :: "u32 \<Rightarrow> 'w::len word Machine \<Rightarrow> sim_error + 'w word Machine" where
  "Exec_A_AMOADD = amo_w (\<lambda>old_val operand. old_val + operand)"

definition Exec_A_AMOXOR :: "u32 \<Rightarrow> 'w::len word Machine \<Rightarrow> sim_error + 'w word Machine" where
  "Exec_A_AMOXOR = amo_w (\<lambda>old_val operand. old_val XOR operand)"

definition Exec_A_AMOAND :: "u32 \<Rightarrow> 'w::len word Machine \<Rightarrow> sim_error + 'w word Machine" where
  "Exec_A_AMOAND = amo_w (\<lambda>old_val operand. old_val AND operand)"

definition Exec_A_AMOOR :: "u32 \<Rightarrow> 'w::len word Machine \<Rightarrow> sim_error + 'w word Machine" where
  "Exec_A_AMOOR = amo_w (\<lambda>old_val operand. old_val OR operand)"

definition Exec_A_AMOMIN :: "u32 \<Rightarrow> 'w::len word Machine \<Rightarrow> sim_error + 'w word Machine" where
  "Exec_A_AMOMIN = amo_w (\<lambda>old_val operand. if sint old_val < sint operand then old_val else operand)"

definition Exec_A_AMOMAX :: "u32 \<Rightarrow> 'w::len word Machine \<Rightarrow> sim_error + 'w word Machine" where
  "Exec_A_AMOMAX = amo_w (\<lambda>old_val operand. if sint old_val > sint operand then old_val else operand)"

definition Exec_A_AMOMINU :: "u32 \<Rightarrow> 'w::len word Machine \<Rightarrow> sim_error + 'w word Machine" where
  "Exec_A_AMOMINU = amo_w (\<lambda>old_val operand. if old_val < operand then old_val else operand)"

definition Exec_A_AMOMAXU :: "u32 \<Rightarrow> 'w::len word Machine \<Rightarrow> sim_error + 'w word Machine" where
  "Exec_A_AMOMAXU = amo_w (\<lambda>old_val operand. if old_val > operand then old_val else operand)"

section \<open>Doubleword operations\<close>

definition Exec_LR_D :: "u32 \<Rightarrow> 'w::len word Machine \<Rightarrow> sim_error + 'w word Machine" where
  "Exec_LR_D i m =
     (let mem_addr = (ucast (getValue (get_rs1 i) (regs m)) :: u64)
      in and_then (load_mem64 mem_addr 8 m)
           (\<lambda>(data, m). Inr (TLB_reserve_64 mem_addr (upd_regs (setValue (get_rd i) (ucast data)) m))))"

definition Exec_SC_D :: "u32 \<Rightarrow> 'w::len word Machine \<Rightarrow> sim_error + 'w word Machine" where
  "Exec_SC_D i m =
     (let mem_addr = (ucast (getValue (get_rs1 i) (regs m)) :: u64);
          (ok, m) = TLB_reserved_64 mem_addr m
      in if ok then and_then (store_mem64 mem_addr (ucast (getValue (get_rs2 i) (regs m))) 8 m)
                      (\<lambda>m. Inr (upd_regs (setValue (get_rd i) 0) m))
         else Inr (upd_regs (setValue (get_rd i) 1) m))"

definition amo_d_value :: "op_A_Codes \<Rightarrow> u64 \<Rightarrow> u64 \<Rightarrow> u64" where
  "amo_d_value op old_val operand = (case op of
       OP_A_AMOSWAP_D \<Rightarrow> (operand)
     | OP_A_AMOADD_D \<Rightarrow> (old_val + operand)
     | OP_A_AMOXOR_D \<Rightarrow> (old_val XOR operand)
     | OP_A_AMOAND_D \<Rightarrow> (old_val AND operand)
     | OP_A_AMOOR_D \<Rightarrow> (old_val OR operand)
     | OP_A_AMOMIN_D \<Rightarrow> (if sint old_val < sint operand then old_val else operand)
     | OP_A_AMOMAX_D \<Rightarrow> (if sint old_val > sint operand then old_val else operand)
     | OP_A_AMOMINU_D \<Rightarrow> (if old_val < operand then old_val else operand)
     | OP_A_AMOMAXU_D \<Rightarrow> (if old_val > operand then old_val else operand)
     | _ \<Rightarrow> old_val)"

definition Exec_AMO_D :: "op_A_Codes \<Rightarrow> u32 \<Rightarrow> 'w::len word Machine \<Rightarrow> sim_error + 'w word Machine" where
  "Exec_AMO_D op i m =
     (let mem_addr = (ucast (getValue (get_rs1 i) (regs m)) :: u64)
      in and_then (load_mem64 mem_addr 8 m)
           (\<lambda>(old_val, m).
              let operand = ucast (getValue (get_rs2 i) (regs m));
                  new_val = amo_d_value op old_val operand
              in and_then (store_mem64 mem_addr new_val 8 m)
                   (\<lambda>m. Inr (upd_regs (setValue (get_rd i) (ucast old_val)) m))))"

section \<open>Dispatch\<close>

definition A_exec_instruction :: "u32 \<Rightarrow> op_A_Codes \<Rightarrow> 'w::len word Machine \<Rightarrow> sim_error + bool \<times> 'w word Machine" where
  "A_exec_instruction i code m =
     (let run = (\<lambda>f. and_then (f i m) (\<lambda>m. Inr (True, m)))
      in case code of
       OP_A_LR \<Rightarrow> run Exec_A_LR
     | OP_A_SC \<Rightarrow> run Exec_A_SC
     | OP_A_AMOSWAP \<Rightarrow> run Exec_A_AMOSWAP
     | OP_A_AMOADD \<Rightarrow> run Exec_A_AMOADD
     | OP_A_AMOXOR \<Rightarrow> run Exec_A_AMOXOR
     | OP_A_AMOAND \<Rightarrow> run Exec_A_AMOAND
     | OP_A_AMOOR \<Rightarrow> run Exec_A_AMOOR
     | OP_A_AMOMIN \<Rightarrow> run Exec_A_AMOMIN
     | OP_A_AMOMAX \<Rightarrow> run Exec_A_AMOMAX
     | OP_A_AMOMINU \<Rightarrow> run Exec_A_AMOMINU
     | OP_A_AMOMAXU \<Rightarrow> run Exec_A_AMOMAXU
     | OP_A_LR_D \<Rightarrow> run Exec_LR_D
     | OP_A_SC_D \<Rightarrow> run Exec_SC_D
     | OP_A_ERROR \<Rightarrow> Inr (True, NOP m)
     | _ \<Rightarrow> run (Exec_AMO_D code))"

end
