(* ===== verification/C_extension.thy ===== *)
theory C_extension
  imports BASE_ISA
begin

unbundle bit_operations_syntax

text \<open>
  The compressed instructions (src/inc/C_extension.h): their immediates, decoder, one
  definition per \<^verbatim>\<open>Exec_C_\<close> method and the dispatcher.  A shift by at least the register
  width is undefined behaviour of the C++ source and ends the model's step with that error.
\<close>

section \<open>Fields and immediates\<close>

definition C_opcode :: "u32 \<Rightarrow> u32" where "C_opcode i = range_bits 1 0 i"
definition C_get_funct3 :: "u32 \<Rightarrow> u32" where "C_get_funct3 i = range_bits 15 13 i"
definition get_rdp :: "u32 \<Rightarrow> nat" where "get_rdp i = unat (range_bits 4 2 i + 8)"
definition C_get_rs1 :: "u32 \<Rightarrow> nat" where "C_get_rs1 i = unat (range_bits 11 7 i)"
definition get_rs1p :: "u32 \<Rightarrow> nat" where "get_rs1p i = unat (range_bits 9 7 i + 8)"
definition C_get_rs2 :: "u32 \<Rightarrow> nat" where "C_get_rs2 i = unat (range_bits 6 2 i)"
definition get_rs2p :: "u32 \<Rightarrow> nat" where "get_rs2p i = unat (range_bits 4 2 i + 8)"

definition C_get_imm_J :: "u32 \<Rightarrow> u32" where
  "C_get_imm_J i =
     (let aux = push_bit 11 (range_bits 12 12 i)
               OR push_bit 4 (range_bits 11 11 i)
               OR push_bit 9 (range_bits 10 10 i)
               OR push_bit 8 (range_bits 9 9 i)
               OR push_bit 10 (range_bits 8 8 i)
               OR push_bit 6 (range_bits 7 7 i)
               OR push_bit 7 (range_bits 6 6 i)
               OR push_bit 1 (range_bits 5 3 i)
               OR push_bit 5 (range_bits 2 2 i)
      in if bit i 12 then aux OR push_bit 12 0xFFFFF else aux)"

definition get_imm_L :: "u32 \<Rightarrow> u32" where
  "get_imm_L i = push_bit 3 (range_bits 12 10 i)
               OR push_bit 2 (range_bits 6 6 i)
               OR push_bit 6 (range_bits 5 5 i)"

definition get_imm_LWSP :: "u32 \<Rightarrow> u32" where
  "get_imm_LWSP i = push_bit 5 (range_bits 12 12 i)
               OR push_bit 2 (range_bits 6 4 i)
               OR push_bit 6 (range_bits 3 2 i)"

definition get_imm_LDSP :: "u32 \<Rightarrow> u32" where
  "get_imm_LDSP i = push_bit 5 (range_bits 12 12 i)
               OR push_bit 3 (range_bits 6 5 i)
               OR push_bit 6 (range_bits 4 2 i)"

definition get_imm_ADDI :: "u32 \<Rightarrow> u32" where
  "get_imm_ADDI i =
     (let aux = push_bit 5 (range_bits 12 12 i)
               OR range_bits 6 2 i
      in if bit i 12 then aux OR push_bit 6 0x3FFFFFF else aux)"

definition get_imm_ADDI4SPN :: "u32 \<Rightarrow> u32" where
  "get_imm_ADDI4SPN i = push_bit 4 (range_bits 12 11 i)
               OR push_bit 6 (range_bits 10 7 i)
               OR push_bit 2 (range_bits 6 6 i)
               OR push_bit 3 (range_bits 5 5 i)"

definition get_imm_ADDI16SP :: "u32 \<Rightarrow> u32" where
  "get_imm_ADDI16SP i =
     (let aux = push_bit 9 (range_bits 12 12 i)
               OR push_bit 4 (range_bits 6 6 i)
               OR push_bit 6 (range_bits 5 5 i)
               OR push_bit 8 (range_bits 4 4 i)
               OR push_bit 7 (range_bits 3 3 i)
               OR push_bit 5 (range_bits 2 2 i)
      in if bit i 12 then aux OR push_bit 10 0x3FFFFF else aux)"

definition get_imm_CSS :: "u32 \<Rightarrow> u32" where
  "get_imm_CSS i = push_bit 2 (range_bits 12 9 i)
               OR push_bit 6 (range_bits 8 7 i)"

definition get_imm_CSDSP :: "u32 \<Rightarrow> u32" where
  "get_imm_CSDSP i = push_bit 3 (range_bits 12 10 i)
               OR push_bit 6 (range_bits 9 7 i)"

definition get_imm_CB :: "u32 \<Rightarrow> u32" where
  "get_imm_CB i =
     (let aux = push_bit 8 (range_bits 12 12 i)
               OR push_bit 4 (range_bits 11 11 i)
               OR push_bit 3 (range_bits 10 10 i)
               OR push_bit 7 (range_bits 6 6 i)
               OR push_bit 6 (range_bits 5 5 i)
               OR push_bit 2 (range_bits 4 4 i)
               OR push_bit 1 (range_bits 3 3 i)
               OR push_bit 5 (range_bits 2 2 i)
      in if bit i 12 then aux OR push_bit 9 0x7FFFFF else aux)"

definition get_imm_CL :: "u32 \<Rightarrow> u32" where
  "get_imm_CL i = push_bit 3 (range_bits 12 10 i)
               OR push_bit 6 (range_bits 6 5 i)"

definition get_imm_LUI :: "u32 \<Rightarrow> u32" where
  "get_imm_LUI i =
     (let aux = push_bit 17 (range_bits 12 12 i)
               OR push_bit 12 (range_bits 6 2 i)
      in if bit i 12 then aux OR push_bit 17 0x7FFF else aux)"

section \<open>Decoder\<close>

datatype (plugins only: code size) op_C_Codes = OP_C_ADDI4SPN | OP_C_FLD | OP_C_LW | OP_C_FLW | OP_C_LD | OP_C_FSD | OP_C_SW
  | OP_C_FSW | OP_C_SD | OP_C_NOP | OP_C_ADDI | OP_C_JAL | OP_C_ADDIW | OP_C_LI | OP_C_ADDI16SP
  | OP_C_LUI | OP_C_SRLI | OP_C_SRAI | OP_C_ANDI | OP_C_SUB | OP_C_SUBW | OP_C_XOR | OP_C_ADDW
  | OP_C_OR | OP_C_AND | OP_C_J | OP_C_BEQZ | OP_C_BNEZ | OP_C_SLLI | OP_C_FLDSP | OP_C_LWSP
  | OP_C_FLWSP | OP_C_LDSP | OP_C_JR | OP_C_MV | OP_C_EBREAK | OP_C_JALR | OP_C_ADD | OP_C_FSDSP
  | OP_C_SWSP | OP_C_FSWSP | OP_C_SDSP | OP_C_ERROR

definition C_decode_alu :: "u32 \<Rightarrow> op_C_Codes" where
  "C_decode_alu i =
     (let f2 = range_bits 11 10 i; f = range_bits 6 5 i in
      if f2 = 0b00 then OP_C_SRLI
      else if f2 = 0b01 then OP_C_SRAI
      else if f2 = 0b10 then OP_C_ANDI
      else if f = 0b00 then (if \<not> bit i 12 then OP_C_SUB else OP_C_SUBW)
      else if f = 0b01 then (if \<not> bit i 12 then OP_C_XOR else OP_C_ADDW)
      else if f = 0b10 then OP_C_OR
      else OP_C_AND)"

definition C_decode :: "'w::len itself \<Rightarrow> u32 \<Rightarrow> op_C_Codes" where
  "C_decode T i =
     (let op = C_opcode i; f3 = C_get_funct3 i in
      if op = 0b00 then
        (if f3 = 0b000 then OP_C_ADDI4SPN
         else if f3 = 0b001 then OP_C_FLD
         else if f3 = 0b010 then OP_C_LW
         else if f3 = 0b011 then (if is_rv32 T then OP_C_FLW else OP_C_LD)
         else if f3 = 0b101 then OP_C_FSD
         else if f3 = 0b110 then OP_C_SW
         else if f3 = 0b111 then (if is_rv32 T then OP_C_FSW else OP_C_SD)
         else OP_C_ERROR)
      else if op = 0b01 then
        (if f3 = 0b000 then OP_C_ADDI
         else if f3 = 0b001 then (if is_rv32 T then OP_C_JAL else OP_C_ADDIW)
         else if f3 = 0b010 then OP_C_LI
         else if f3 = 0b011 then OP_C_ADDI16SP
         else if f3 = 0b100 then C_decode_alu i
         else if f3 = 0b101 then OP_C_J
         else if f3 = 0b110 then OP_C_BEQZ
         else if f3 = 0b111 then OP_C_BNEZ
         else OP_C_ERROR)
      else if op = 0b10 then
        (if f3 = 0b000 then OP_C_SLLI
         else if f3 = 0b001 then OP_C_FLDSP
         else if f3 = 0b010 then OP_C_LWSP
         else if f3 = 0b011 then (if is_rv32 T then OP_C_FLWSP else OP_C_LDSP)
         else if f3 = 0b100 then
           (if \<not> bit i 12 then (if range_bits 6 2 i = 0 then OP_C_JR else OP_C_MV)
            else if range_bits 11 2 i = 0 then OP_C_EBREAK
            else if range_bits 6 2 i = 0 then OP_C_JALR
            else OP_C_ADD)
         else if f3 = 0b101 then OP_C_FSDSP
         else if f3 = 0b110 then OP_C_SWSP
         else if f3 = 0b111 then (if is_rv32 T then OP_C_FSWSP else OP_C_SDSP)
         else OP_C_ERROR)
      else OP_C_ERROR)"

section \<open>Jumps and branches\<close>

definition Exec_C_JR :: "u32 \<Rightarrow> 'w::len word Registers \<Rightarrow> 'w word Registers" where
  "Exec_C_JR i r = (let new_pc = getValue (C_get_rs1 i) r AND 0xFFFFFFFE in setPC new_pc r)"

definition Exec_C_JALR :: "u32 \<Rightarrow> 'w::len word Registers \<Rightarrow> 'w word Registers" where
  "Exec_C_JALR i r =
     (let old_pc = (ucast (getPC r) :: u32);
          new_pc = (ucast (getValue (C_get_rs1 i) r AND 0xFFFFFFFE) :: u32);
          r = setValue 1 (ucast (old_pc + 2)) r
      in setPC (ucast new_pc) r)"

definition Exec_C_JAL :: "nat \<Rightarrow> u32 \<Rightarrow> 'w::len word Registers \<Rightarrow> 'w word Registers" where
  "Exec_C_JAL m_rd i r =
     (let old_pc = (ucast (getPC r) :: u32);
          new_pc = old_pc + C_get_imm_J i;
          r = setPC (ucast new_pc) r
      in setValue m_rd (ucast (old_pc + 2)) r)"

definition Exec_C_BEQZ :: "u32 \<Rightarrow> 'w::len word Registers \<Rightarrow> 'w word Registers" where
  "Exec_C_BEQZ i r =
     (let val1 = getValue (get_rs1p i) r
      in if val1 = 0 then setPC (getPC r + scast (get_imm_CB i)) r else incPCby2 r)"

definition Exec_C_BNEZ :: "u32 \<Rightarrow> 'w::len word Registers \<Rightarrow> 'w word Registers" where
  "Exec_C_BNEZ i r =
     (let val1 = getValue (get_rs1p i) r
      in if val1 \<noteq> 0 then setPC (getPC r + scast (get_imm_CB i)) r else incPCby2 r)"

section \<open>Register operations\<close>

definition Exec_C_MV :: "u32 \<Rightarrow> 'w::len word Registers \<Rightarrow> 'w word Registers" where
  "Exec_C_MV i r = (let calc = getValue (C_get_rs2 i) r in setValue (get_rd i) calc r)"

definition Exec_C_ADD :: "u32 \<Rightarrow> 'w::len word Registers \<Rightarrow> 'w word Registers" where
  "Exec_C_ADD i r = (let calc = getValue (C_get_rs1 i) r + getValue (C_get_rs2 i) r in setValue (C_get_rs1 i) calc r)"

definition Exec_C_LI :: "u32 \<Rightarrow> 'w::len word Registers \<Rightarrow> 'w word Registers" where
  "Exec_C_LI i r = (let calc = getValue 0 r + scast (get_imm_ADDI i) in setValue (get_rd i) calc r)"

definition Exec_C_ADDI :: "u32 \<Rightarrow> 'w::len word Registers \<Rightarrow> 'w word Registers" where
  "Exec_C_ADDI i r = (let calc = getValue (get_rd i) r + scast (get_imm_ADDI i) in setValue (get_rd i) calc r)"

definition Exec_C_ADDIW :: "u32 \<Rightarrow> 'w::len word Registers \<Rightarrow> 'w word Registers" where
  "Exec_C_ADDIW i r =
     (let aux = (ucast (getValue (get_rd i) r) :: u32) + get_imm_ADDI i; calc = scast aux
      in setValue (get_rd i) calc r)"

definition Exec_C_ADDI16SP :: "u32 \<Rightarrow> 'w::len word Registers \<Rightarrow> 'w word Registers" where
  "Exec_C_ADDI16SP i r =
     (if get_rd i = 2
      then let calc = getValue 2 r + scast (get_imm_ADDI16SP i) in setValue 2 calc r
      else setValue (get_rd i) (scast (get_imm_LUI i)) r)"

definition Exec_C_ADDI4SPN :: "u32 \<Rightarrow> 'w::len word Machine \<Rightarrow> bool \<times> 'w word Machine" where
  "Exec_C_ADDI4SPN i m =
     (let imm = (ucast (get_imm_ADDI4SPN i) :: 'w word) in
      if imm = 0 then (False, RaiseException ILLEGAL_INSTRUCTION i m)
      else let calc = getValue 2 (regs m) + imm
           in (True, upd_regs (setValue (get_rdp i) calc) m))"

definition cxx_shift :: "('w::len word \<Rightarrow> nat \<Rightarrow> 'w word) \<Rightarrow> 'w word \<Rightarrow> u32 \<Rightarrow> sim_error + 'w word" where
  "cxx_shift f v s = (if unat s < LENGTH('w) then Inr (f v (unat s)) else Inl UNDEFINED_BEHAVIOUR)"

definition Exec_C_SRLI :: "u32 \<Rightarrow> 'w::len word Registers \<Rightarrow> sim_error + 'w word Registers" where
  "Exec_C_SRLI i r =
     and_then (cxx_shift (\<lambda>v s. drop_bit s v) (getValue (get_rs1p i) r) (get_imm_ADDI i))
       (\<lambda>calc. Inr (setValue (get_rs1p i) calc r))"

definition Exec_C_SRAI :: "u32 \<Rightarrow> 'w::len word Registers \<Rightarrow> sim_error + 'w word Registers" where
  "Exec_C_SRAI i r =
     and_then (cxx_shift (\<lambda>v s. signed_drop_bit s v) (getValue (get_rs1p i) r) (get_imm_ADDI i))
       (\<lambda>calc. Inr (setValue (get_rs1p i) calc r))"

definition Exec_C_SLLI :: "u32 \<Rightarrow> 'w::len word Registers \<Rightarrow> sim_error + 'w word Registers" where
  "Exec_C_SLLI i r =
     and_then (cxx_shift (\<lambda>v s. push_bit s v) (getValue (C_get_rs1 i) r) (get_imm_ADDI i))
       (\<lambda>calc. Inr (setValue (C_get_rs1 i) calc r))"

definition Exec_C_ANDI :: "u32 \<Rightarrow> 'w::len word Registers \<Rightarrow> 'w word Registers" where
  "Exec_C_ANDI i r = (let calc = getValue (get_rs1p i) r AND scast (get_imm_ADDI i) in setValue (get_rs1p i) calc r)"

definition Exec_C_SUB :: "u32 \<Rightarrow> 'w::len word Registers \<Rightarrow> 'w word Registers" where
  "Exec_C_SUB i r = (let calc = getValue (get_rs1p i) r - getValue (get_rs2p i) r in setValue (get_rs1p i) calc r)"

definition Exec_C_XOR :: "u32 \<Rightarrow> 'w::len word Registers \<Rightarrow> 'w word Registers" where
  "Exec_C_XOR i r = (let calc = getValue (get_rs1p i) r XOR getValue (get_rs2p i) r in setValue (get_rs1p i) calc r)"

definition Exec_C_OR :: "u32 \<Rightarrow> 'w::len word Registers \<Rightarrow> 'w word Registers" where
  "Exec_C_OR i r = (let calc = getValue (get_rs1p i) r OR getValue (get_rs2p i) r in setValue (get_rs1p i) calc r)"

definition Exec_C_AND :: "u32 \<Rightarrow> 'w::len word Registers \<Rightarrow> 'w word Registers" where
  "Exec_C_AND i r = (let calc = getValue (get_rs1p i) r AND getValue (get_rs2p i) r in setValue (get_rs1p i) calc r)"

definition Exec_C_SUBW :: "u32 \<Rightarrow> 'w::len word Registers \<Rightarrow> 'w word Registers" where
  "Exec_C_SUBW i r = (let calc = scast (ucast (getValue (get_rs1p i) r - getValue (get_rs2p i) r) :: u32) in setValue (get_rs1p i) calc r)"

definition Exec_C_ADDW :: "u32 \<Rightarrow> 'w::len word Registers \<Rightarrow> 'w word Registers" where
  "Exec_C_ADDW i r = (let calc = scast (ucast (getValue (get_rs1p i) r + getValue (get_rs2p i) r) :: u32) in setValue (get_rs1p i) calc r)"

section \<open>Loads and stores\<close>

definition Exec_C_LWSP :: "u32 \<Rightarrow> 'w::len word Machine \<Rightarrow> sim_error + 'w word Machine" where
  "Exec_C_LWSP i m =
     (let mem_addr = ucast (get_imm_LWSP i) + getValue 2 (regs m)
      in and_then (load_mem (ucast mem_addr) 4 m)
           (\<lambda>(data, m). Inr (upd_regs (setValue (get_rd i) (scast data)) m)))"

definition Exec_C_LW :: "u32 \<Rightarrow> 'w::len word Machine \<Rightarrow> sim_error + 'w word Machine" where
  "Exec_C_LW i m =
     (let mem_addr = ucast (get_imm_L i) + getValue (get_rs1p i) (regs m)
      in and_then (load_mem (ucast mem_addr) 4 m)
           (\<lambda>(data, m). Inr (upd_regs (setValue (get_rdp i) (scast data)) m)))"

definition Exec_C_LDSP :: "u32 \<Rightarrow> 'w::len word Machine \<Rightarrow> sim_error + 'w word Machine" where
  "Exec_C_LDSP i m =
     (let mem_addr = ucast (get_imm_LDSP i) + getValue 2 (regs m)
      in and_then (load_mem (ucast mem_addr) 4 m)
           (\<lambda>(lo, m). and_then (load_mem (ucast (mem_addr + 4)) 4 m)
             (\<lambda>(hi, m). Inr (upd_regs
                (setValue (get_rd i) (ucast ((ucast lo :: u64) OR push_bit 32 (ucast hi)))) m))))"

definition Exec_C_LD :: "u32 \<Rightarrow> 'w::len word Machine \<Rightarrow> sim_error + 'w word Machine" where
  "Exec_C_LD i m =
     (let mem_addr = ucast (get_imm_CL i) + getValue (get_rs1p i) (regs m)
      in and_then (load_mem (ucast mem_addr) 4 m)
           (\<lambda>(lo, m). and_then (load_mem (ucast (mem_addr + 4)) 4 m)
             (\<lambda>(hi, m). Inr (upd_regs
                (setValue (get_rdp i) (ucast ((ucast lo :: u64) OR push_bit 32 (ucast hi)))) m))))"

definition Exec_C_SWSP :: "u32 \<Rightarrow> 'w::len word Machine \<Rightarrow> sim_error + 'w word Machine" where
  "Exec_C_SWSP i m =
     (let mem_addr = (ucast (scast (get_imm_CSS i) + getValue 2 (regs m)) :: u32);
          data = ucast (getValue (C_get_rs2 i) (regs m))
      in store_mem (ucast mem_addr) data 4 m)"

definition Exec_C_SW :: "u32 \<Rightarrow> 'w::len word Machine \<Rightarrow> sim_error + 'w word Machine" where
  "Exec_C_SW i m =
     (let mem_addr = (ucast (scast (get_imm_L i) + getValue (get_rs1p i) (regs m)) :: u32);
          data = ucast (getValue (get_rs2p i) (regs m))
      in store_mem (ucast mem_addr) data 4 m)"

definition Exec_C_SDSP :: "u32 \<Rightarrow> 'w::len word Machine \<Rightarrow> sim_error + 'w word Machine" where
  "Exec_C_SDSP i m =
     (let mem_addr = ucast (get_imm_CSDSP i) + getValue 2 (regs m);
          data = (ucast (getValue (C_get_rs2 i) (regs m)) :: u64)
      in and_then (store_mem (ucast mem_addr) (ucast (data AND 0xFFFFFFFF)) 4 m)
           (store_mem (ucast (mem_addr + 4)) (ucast (drop_bit 32 data)) 4))"

definition Exec_C_SD :: "u32 \<Rightarrow> 'w::len word Machine \<Rightarrow> sim_error + 'w word Machine" where
  "Exec_C_SD i m =
     (let mem_addr = ucast (get_imm_CL i) + getValue (get_rs1p i) (regs m);
          data = (ucast (getValue (get_rs2p i) (regs m)) :: u64)
      in and_then (store_mem (ucast mem_addr) (ucast (data AND 0xFFFFFFFF)) 4 m)
           (store_mem (ucast (mem_addr + 4)) (ucast (drop_bit 32 data)) 4))"

definition Exec_C_FSW_SD :: "u32 \<Rightarrow> 'w::len word Machine \<Rightarrow> sim_error + 'w word Machine" where
  "Exec_C_FSW_SD i m =
     (let mem_addr = (ucast (scast (get_imm_L i) + getValue (get_rs1p i) (regs m)) :: u32);
          data = (ucast (getValue (get_rs2p i) (regs m)) :: u64)
      in and_then (store_mem (ucast mem_addr) (ucast (drop_bit 32 data)) 4 m)
           (store_mem (ucast (mem_addr + 4)) (ucast (data AND 0x00000000FFFFFFFF)) 4))"

definition Exec_C_EBREAK :: "u32 \<Rightarrow> 'w::len word Machine \<Rightarrow> bool \<times> 'w word Machine" where
  "Exec_C_EBREAK i m = (False, RaiseException BREAK i m)"

section \<open>Dispatch\<close>

definition try_step :: "('T Registers \<Rightarrow> sim_error + 'T Registers) \<Rightarrow> 'T Machine \<Rightarrow> 'T outcome" where
  "try_step f m = and_then (f (regs m)) (\<lambda>r. Inr (True, False, m\<lparr>regs := r\<rparr>))"

definition C_exec_instruction :: "u32 \<Rightarrow> op_C_Codes \<Rightarrow> 'w::len word Machine \<Rightarrow> 'w word outcome" where
  "C_exec_instruction i code m = (case code of
       OP_C_ADDI4SPN \<Rightarrow> trap_step (Exec_C_ADDI4SPN i) False m
     | OP_C_LW \<Rightarrow> mem_step (Exec_C_LW i) m
     | OP_C_SW \<Rightarrow> mem_step (Exec_C_SW i) m
     | OP_C_LWSP \<Rightarrow> mem_step (Exec_C_LWSP i) m
     | OP_C_SWSP \<Rightarrow> mem_step (Exec_C_SWSP i) m
     | OP_C_LD \<Rightarrow> mem_step (Exec_C_LD i) m
     | OP_C_SD \<Rightarrow> mem_step (Exec_C_SD i) m
     | OP_C_SDSP \<Rightarrow> mem_step (Exec_C_SDSP i) m
     | OP_C_LDSP \<Rightarrow> mem_step (Exec_C_LDSP i) m
     | OP_C_FSW \<Rightarrow> mem_step (Exec_C_FSW_SD i) m
     | OP_C_JAL \<Rightarrow> jump_step (Exec_C_JAL 1 i) m
     | OP_C_J \<Rightarrow> jump_step (Exec_C_JAL 0 i) m
     | OP_C_JR \<Rightarrow> jump_step (Exec_C_JR i) m
     | OP_C_JALR \<Rightarrow> jump_step (Exec_C_JALR i) m
     | OP_C_BEQZ \<Rightarrow> jump_step (Exec_C_BEQZ i) m
     | OP_C_BNEZ \<Rightarrow> jump_step (Exec_C_BNEZ i) m
     | OP_C_SLLI \<Rightarrow> try_step (Exec_C_SLLI i) m
     | OP_C_SRLI \<Rightarrow> try_step (Exec_C_SRLI i) m
     | OP_C_SRAI \<Rightarrow> try_step (Exec_C_SRAI i) m
     | OP_C_ADDI \<Rightarrow> reg_step (Exec_C_ADDI i) m
     | OP_C_LI \<Rightarrow> reg_step (Exec_C_LI i) m
     | OP_C_MV \<Rightarrow> reg_step (Exec_C_MV i) m
     | OP_C_ADD \<Rightarrow> reg_step (Exec_C_ADD i) m
     | OP_C_ADDI16SP \<Rightarrow> reg_step (Exec_C_ADDI16SP i) m
     | OP_C_ANDI \<Rightarrow> reg_step (Exec_C_ANDI i) m
     | OP_C_SUB \<Rightarrow> reg_step (Exec_C_SUB i) m
     | OP_C_XOR \<Rightarrow> reg_step (Exec_C_XOR i) m
     | OP_C_OR \<Rightarrow> reg_step (Exec_C_OR i) m
     | OP_C_AND \<Rightarrow> reg_step (Exec_C_AND i) m
     | OP_C_ADDIW \<Rightarrow> reg_step (Exec_C_ADDIW i) m
     | OP_C_ADDW \<Rightarrow> reg_step (Exec_C_ADDW i) m
     | OP_C_SUBW \<Rightarrow> reg_step (Exec_C_SUBW i) m
     | OP_C_EBREAK \<Rightarrow> Inr (False, True, snd (Exec_C_EBREAK i m))
     | _ \<Rightarrow> Inr (True, False, RaiseException ILLEGAL_INSTRUCTION i m))"

end
