(* ===== verification/CPU_Simple.thy ===== *)
theory CPU_Simple
  imports BASE_ISA M_extension A_extension C_extension
begin

unbundle bit_operations_syntax

text \<open>
  The loosely-timed functional core (src/src/CPU_Simple.cpp, classes CPURV32Simple and
  CPURV64Simple, which differ in the register width only) and its thread
  (src/src/CPU.cpp): fetch over the bus or through the direct memory pointer, dispatch to the
  four extensions in the order base, C, M, A, and the external interrupt.
\<close>

section \<open>State\<close>

text \<open>The fetch transaction is a member of the core and is reused: its data buffer is the member
  \<^verbatim>\<open>INSTR\<close>, so a target that does not answer leaves the previous instruction in place, and
  the hint that direct memory access is allowed stays set until the memory resets it.
  \<^verbatim>\<open>mem_dmi_allowed\<close> is the member \<^verbatim>\<open>dmi_allowed\<close> of the memory.\<close>

record 'T CPU =
  hart :: "'T Machine"
  INSTR :: u32
  interrupt :: bool
  irq_already_down :: bool
  int_cause :: 'T
  dmi_ptr_valid :: bool
  trans_dmi_allowed :: bool
  mem_dmi_allowed :: bool

definition CPU_init :: "'w::len word \<Rightarrow> bool \<Rightarrow> Platform \<Rightarrow> 'w word CPU" where
  "CPU_init PC dmi pf =
     (let r = setPC PC Registers_init;
          r = setValue 2 (of_nat (Memory_SIZE div (if is_rv32 TYPE('w) then 4 else 8) - 1)) r
      in \<lparr>hart = \<lparr>regs = r, platform = pf, TLB_A_Entries = {}, TLB_A_Entries_64 = {}, stop_requested = False\<rparr>,
          INSTR = 0, interrupt = False, irq_already_down = False, int_cause = 0,
          dmi_ptr_valid = False, trans_dmi_allowed = False, mem_dmi_allowed = dmi\<rparr>)"

definition upd_hart :: "('T Machine \<Rightarrow> 'T Machine) \<Rightarrow> 'T CPU \<Rightarrow> 'T CPU" where
  "upd_hart f c = c\<lparr>hart := f (hart c)\<rparr>"

section \<open>Fetch\<close>

text \<open>The fetch addresses the bus routes to the main memory and the memory serves.\<close>

definition served_by_memory :: "u64 \<Rightarrow> bool" where
  "served_by_memory adr \<longleftrightarrow>
     adr \<noteq> 0x90000000 \<and>
     (if in_window adr 0x80000000 0x20000000 then unat (adr - 0x80000000) + 4 \<le> Memory_SIZE
      else \<not> in_window adr 0x10000000 0x100 \<and> \<not> in_window adr 0x02000000 0x10000
         \<and> \<not> in_window adr 0x0C000000 0x400000 \<and> \<not> in_window adr 0x30000000 0x1000
         \<and> \<not> in_window adr 0x60000000 0x1000
         \<and> unat adr + 4 \<le> Memory_SIZE)"

definition fetch :: "'w::len word CPU \<Rightarrow> sim_error + 'w word CPU" where
  "fetch c =
     (let pc = getPC (regs (hart c)); pf = platform (hart c) in
      if dmi_ptr_valid c then
        (if unat pc + 4 \<le> Memory_SIZE
         then Inr (c\<lparr>INSTR := of_bytes (mem_read (pf_mem pf) (unat pc) 4)\<rparr>)
         else Inl UNDEFINED_BEHAVIOUR)
      else
        and_then (bus_transport bus_fuel ((rd_payload (ucast pc) 4)\<lparr>p_data := to_bytes 4 (INSTR c)\<rparr>) pf)
          (\<lambda>(tr, pf).
             if p_response tr \<noteq> TLM_OK_RESPONSE then Inl SC_ERROR
             else let hint = (if served_by_memory (ucast pc) then mem_dmi_allowed c else trans_dmi_allowed c)
                  in Inr (upd_hart (\<lambda>m. m\<lparr>platform := pf\<rparr>)
                       (c\<lparr>INSTR := of_bytes (p_data tr), trans_dmi_allowed := hint,
                          dmi_ptr_valid := hint \<and> mem_dmi_allowed c\<rparr>))))"

section \<open>One instruction\<close>

definition advance :: "('T Registers \<Rightarrow> 'T Registers) \<Rightarrow> bool \<times> bool \<times> 'T Machine \<Rightarrow> bool \<times> 'T Machine" where
  "advance inc res = (case res of (pc_not_affected, breakpoint, m) \<Rightarrow>
     (breakpoint, if pc_not_affected then upd_regs inc m else m))"

definition execute :: "u32 \<Rightarrow> 'w::len word Machine \<Rightarrow> sim_error + bool \<times> 'w word Machine" where
  "execute i m =
     (let deco = decode i in
      if deco \<noteq> OP_ERROR then and_then (exec_instruction i deco m) (\<lambda>res. Inr (advance incPC res))
      else let c_deco = C_decode TYPE('w) i in
      if c_deco \<noteq> OP_C_ERROR then and_then (C_exec_instruction i c_deco m) (\<lambda>res. Inr (advance incPCby2 res))
      else let m_deco = M_decode i in
      if m_deco \<noteq> OP_M_ERROR
      then and_then (M_exec_instruction i m_deco m) (\<lambda>(ok, m). Inr (advance incPC (ok, False, m)))
      else let a_deco = A_decode i in
      if a_deco \<noteq> OP_A_ERROR
      then and_then (A_exec_instruction i a_deco m) (\<lambda>(ok, m). Inr (advance incPC (ok, False, m)))
      else Inr (False, upd_regs incPC (NOP m)))"

definition wait_cycle :: "'T Machine \<Rightarrow> 'T Machine" where
  "wait_cycle m = m\<lparr>platform := (platform m)\<lparr>pf_now := pf_now (platform m) + 10\<rparr>\<rparr>"

definition CPU_step :: "'w::len word CPU \<Rightarrow> sim_error + bool \<times> 'w word CPU" where
  "CPU_step c =
     and_then (fetch c)
       (\<lambda>c. and_then (execute (INSTR c) (hart c))
         (\<lambda>(breakpoint, m). Inr (breakpoint, c\<lparr>hart := wait_cycle m\<rparr>)))"

section \<open>Interrupts\<close>

definition cpu_process_IRQ :: "'w::len word CPU \<Rightarrow> bool \<times> 'w word CPU" where
  "cpu_process_IRQ c =
     (let m = hart c; now = now_of m; r = regs m in
      if interrupt c then
        (if getCSR now CSR_MSTATUS r AND push_bit 3 1 = 0 then (False, c)
         else
           let csr_temp = getCSR now CSR_MIP r in
           if csr_temp AND push_bit 11 1 = 0 then
             (let r = setCSR CSR_MIP (csr_temp OR push_bit 11 1) r;
                  r = setCSR CSR_MEPC (getPC r) r;
                  r = setCSR CSR_MCAUSE 0x80000000 r;
                  r = setPC (getCSR now CSR_MTVEC r) r
              in (True, c\<lparr>hart := m\<lparr>regs := r\<rparr>, interrupt := False, irq_already_down := False\<rparr>))
           else (False, c))
      else if \<not> irq_already_down c then
        (let csr_temp = getCSR now CSR_MIP r AND NOT (push_bit 11 1)
         in (False, c\<lparr>hart := m\<lparr>regs := setCSR CSR_MIP csr_temp r\<rparr>, irq_already_down := True\<rparr>))
      else (False, c))"

definition call_interrupt :: "payload \<Rightarrow> 'w::len word CPU \<Rightarrow> 'w word CPU" where
  "call_interrupt m_trans c =
     c\<lparr>interrupt := True, int_cause := of_bytes (take (LENGTH('w) div 8) (p_data m_trans))\<rparr>"

section \<open>The core's thread\<close>

text \<open>The loop of \<^verbatim>\<open>CPU::CPU_thread\<close>, bounded by the number of iterations.  A stop request takes
  effect at the wait that ends \<^verbatim>\<open>CPU_step\<close>: the thread is not resumed.\<close>

definition stopping :: "'T CPU \<Rightarrow> bool" where
  "stopping c \<longleftrightarrow> stop_requested (hart c) \<or> pf_stopped (platform (hart c)) \<noteq> []"

fun CPU_thread :: "nat \<Rightarrow> 'w::len word CPU \<Rightarrow> sim_error + 'w word CPU" where
  "CPU_thread 0 c = Inr c"
| "CPU_thread (Suc n) c =
     and_then (CPU_step c)
       (\<lambda>(_, c). if stopping c then Inr c else CPU_thread n (snd (cpu_process_IRQ c)))"

end
