(* ===== verification/IEEE754.thy ===== *)
theory IEEE754
  imports Complex_Main
begin

text \<open>
  Binary floating-point arithmetic of the language, which the F and D extensions of the processor call: IEEE 754
  formats, the four rounding directions \<^verbatim>\<open>std::fesetround\<close> selects, and the exception flags \<^verbatim>\<open>std::fetestexcept\<close> reads.  A
  number is an integer significand times a power of two; every operation computes its exact
  result, or a prefix of it and whether anything follows, and rounds once.  The second half shows that
  this is the rounding the standard prescribes.
\<close>

section \<open>Formats and data\<close>

record fp_format =
  fp_prec :: nat
  fp_ebits :: nat

definition binary32 :: fp_format where "binary32 = \<lparr>fp_prec = 24, fp_ebits = 8\<rparr>"

definition binary64 :: fp_format where "binary64 = \<lparr>fp_prec = 53, fp_ebits = 11\<rparr>"

text \<open>The exponents of the last place: of the subnormal numbers and of the largest ones.\<close>

definition fp_emin :: "fp_format \<Rightarrow> int" where
  "fp_emin F = 3 - 2 ^ (fp_ebits F - 1) - int (fp_prec F)"

definition fp_emax :: "fp_format \<Rightarrow> int" where
  "fp_emax F = fp_emin F + 2 ^ fp_ebits F - 3"

text \<open>\<^verbatim>\<open>Num s m e\<close> is the number m times 2 to the power e, negative if s; \<^verbatim>\<open>NaN\<close> tells whether it is signalling.\<close>

datatype fp = Num bool nat int | Infty bool | NaN bool

datatype fe_round = FE_TONEAREST | FE_TOWARDZERO | FE_DOWNWARD | FE_UPWARD

datatype fe_except = FE_INEXACT | FE_UNDERFLOW | FE_OVERFLOW | FE_DIVBYZERO | FE_INVALID

definition fp_decode :: "fp_format \<Rightarrow> nat \<Rightarrow> fp" where
  "fp_decode F b =
     (let p = fp_prec F - 1;
          mant = b mod 2 ^ p;
          expo = b div 2 ^ p mod 2 ^ fp_ebits F;
          sign = odd (b div 2 ^ (p + fp_ebits F))
      in if expo = 2 ^ fp_ebits F - 1 then if mant = 0 then Infty sign else NaN (mant < 2 ^ (p - 1))
         else if expo = 0 then Num sign mant (fp_emin F)
         else Num sign (mant + 2 ^ p) (fp_emin F + int expo - 1))"

text \<open>The bits of a number in canonical form or of an infinity; those of a NaN are chosen by the host.\<close>

definition fp_encode :: "fp_format \<Rightarrow> fp \<Rightarrow> nat" where
  "fp_encode F x =
     (let p = fp_prec F - 1; sgn = (\<lambda>s. if s then 2 ^ (p + fp_ebits F) else 0) in
      case x of
        Num s m e \<Rightarrow> sgn s + (if m < 2 ^ p then m else (nat (e - fp_emin F) + 1) * 2 ^ p + (m - 2 ^ p))
      | Infty s \<Rightarrow> sgn s + (2 ^ fp_ebits F - 1) * 2 ^ p
      | NaN _ \<Rightarrow> 0)"

fun is_nan :: "fp \<Rightarrow> bool" where "is_nan (NaN _) = True" | "is_nan _ = False"

fun is_snan :: "fp \<Rightarrow> bool" where "is_snan (NaN s) = s" | "is_snan _ = False"

fun fp_neg :: "fp \<Rightarrow> fp" where
  "fp_neg (Num s m e) = Num (\<not> s) m e" | "fp_neg (Infty s) = Infty (\<not> s)" | "fp_neg (NaN s) = NaN s"

section \<open>Rounding\<close>

fun nbits :: "nat \<Rightarrow> nat" where
  "nbits n = (if n = 0 then 0 else Suc (nbits (n div 2)))"

declare nbits.simps [simp del]

text \<open>The last place of the result for a magnitude with significand m and exponent e.\<close>

definition fp_ulp :: "fp_format \<Rightarrow> nat \<Rightarrow> int \<Rightarrow> int" where
  "fp_ulp F m e = max (e + int (nbits m) - int (fp_prec F)) (fp_emin F)"

definition round_up :: "fe_round \<Rightarrow> bool \<Rightarrow> nat \<Rightarrow> nat \<Rightarrow> nat \<Rightarrow> bool \<Rightarrow> bool" where
  "round_up md s q r k sticky =
     (case md of
        FE_TONEAREST \<Rightarrow> 2 * r > 2 ^ k \<or> 2 * r = 2 ^ k \<and> (sticky \<or> odd q)
      | FE_TOWARDZERO \<Rightarrow> False
      | FE_DOWNWARD \<Rightarrow> s \<and> (r \<noteq> 0 \<or> sticky)
      | FE_UPWARD \<Rightarrow> \<not> s \<and> (r \<noteq> 0 \<or> sticky))"

definition overflow_result :: "fp_format \<Rightarrow> fe_round \<Rightarrow> bool \<Rightarrow> fp" where
  "overflow_result F md s =
     (if md = FE_TONEAREST \<or> md = FE_UPWARD \<and> \<not> s \<or> md = FE_DOWNWARD \<and> s then Infty s
      else Num s (2 ^ fp_prec F - 1) (fp_emax F))"

text \<open>The integer part of the significand at the last place, what is cut off, and the rounded significand.\<close>

definition fp_cut :: "fp_format \<Rightarrow> fe_round \<Rightarrow> bool \<Rightarrow> nat \<Rightarrow> int \<Rightarrow> bool \<Rightarrow> nat \<times> int \<times> bool" where
  "fp_cut F md s m e sticky =
     (let t = fp_ulp F m e; k = nat (t - e);
          q = m * 2 ^ nat (e - t) div 2 ^ k; r = m * 2 ^ nat (e - t) mod 2 ^ k;
          q' = q + (if round_up md s q r k sticky then 1 else 0)
      in if q' = 2 ^ fp_prec F then (2 ^ (fp_prec F - 1), t + 1, r \<noteq> 0 \<or> sticky) else (q', t, r \<noteq> 0 \<or> sticky))"

text \<open>Underflow is signalled for a result that is tiny and inexact; whether tininess is judged before or after rounding is
  the host's choice.  After rounding means: rounded as if there were no smallest exponent.\<close>

definition fp_tiny :: "fp_format \<Rightarrow> bool \<Rightarrow> fe_round \<Rightarrow> bool \<Rightarrow> nat \<Rightarrow> int \<Rightarrow> bool \<Rightarrow> bool" where
  "fp_tiny F before md s m e sticky =
     (let t = e + int (nbits m) - int (fp_prec F) in
      if before then t < fp_emin F
      else t < fp_emin F - 1 \<or>
        t = fp_emin F - 1 \<and>
          (let k = nat (t - e); q = m * 2 ^ nat (e - t) div 2 ^ k; r = m * 2 ^ nat (e - t) mod 2 ^ k
           in q + (if round_up md s q r k sticky then 1 else 0) \<noteq> 2 ^ fp_prec F))"

definition fp_round :: "fp_format \<Rightarrow> bool \<Rightarrow> fe_round \<Rightarrow> bool \<Rightarrow> nat \<Rightarrow> int \<Rightarrow> bool \<Rightarrow> fp \<times> fe_except set" where
  "fp_round F before md s m e sticky =
     (let (q, t, inexact) = fp_cut F md s m e sticky in
      if t > fp_emax F then (overflow_result F md s, {FE_OVERFLOW, FE_INEXACT})
      else (Num s q t, (if inexact then {FE_INEXACT} else {}) \<union>
              (if inexact \<and> fp_tiny F before md s m e sticky then {FE_UNDERFLOW} else {})))"

text \<open>An exact integer times a power of two; a zero takes the given sign.\<close>

definition fp_exact :: "fp_format \<Rightarrow> bool \<Rightarrow> fe_round \<Rightarrow> bool \<Rightarrow> int \<Rightarrow> int \<Rightarrow> fp \<times> fe_except set" where
  "fp_exact F before md zs v e =
     (if v = 0 then (Num zs 0 (fp_emin F), {}) else fp_round F before md (v < 0) (nat \<bar>v\<bar>) e False)"

section \<open>Operations\<close>

definition nan_flags :: "fp list \<Rightarrow> fe_except set" where
  "nan_flags xs = (if list_ex is_snan xs then {FE_INVALID} else {})"

definition fp_int :: "bool \<Rightarrow> nat \<Rightarrow> int \<Rightarrow> int \<Rightarrow> int" where
  "fp_int s m e e0 = (if s then - 1 else 1) * int m * 2 ^ nat (e - e0)"

fun fp_add :: "fp_format \<Rightarrow> bool \<Rightarrow> fe_round \<Rightarrow> fp \<Rightarrow> fp \<Rightarrow> fp \<times> fe_except set" where
  "fp_add F before md (Num s1 m1 e1) (Num s2 m2 e2) =
     (let e = min e1 e2 in
      fp_exact F before md (if s1 = s2 then s1 else md = FE_DOWNWARD) (fp_int s1 m1 e1 e + fp_int s2 m2 e2 e) e)"
| "fp_add F before md (Infty s1) (Infty s2) = (if s1 = s2 then (Infty s1, {}) else (NaN False, {FE_INVALID}))"
| "fp_add F before md (Infty s1) (Num _ _ _) = (Infty s1, {})"
| "fp_add F before md (Num _ _ _) (Infty s2) = (Infty s2, {})"
| "fp_add F before md x y = (NaN False, nan_flags [x, y])"

definition fp_sub :: "fp_format \<Rightarrow> bool \<Rightarrow> fe_round \<Rightarrow> fp \<Rightarrow> fp \<Rightarrow> fp \<times> fe_except set" where
  "fp_sub F before md x y = fp_add F before md x (fp_neg y)"

fun fp_mul :: "fp_format \<Rightarrow> bool \<Rightarrow> fe_round \<Rightarrow> fp \<Rightarrow> fp \<Rightarrow> fp \<times> fe_except set" where
  "fp_mul F before md (Num s1 m1 e1) (Num s2 m2 e2) =
     fp_exact F before md (s1 \<noteq> s2) (fp_int (s1 \<noteq> s2) (m1 * m2) 0 0) (e1 + e2)"
| "fp_mul F before md (Infty s1) (Infty s2) = (Infty (s1 \<noteq> s2), {})"
| "fp_mul F before md (Infty s1) (Num s2 m2 _) = (if m2 = 0 then (NaN False, {FE_INVALID}) else (Infty (s1 \<noteq> s2), {}))"
| "fp_mul F before md (Num s1 m1 _) (Infty s2) = (if m1 = 0 then (NaN False, {FE_INVALID}) else (Infty (s1 \<noteq> s2), {}))"
| "fp_mul F before md x y = (NaN False, nan_flags [x, y])"

text \<open>Fused multiply-add: one rounding of the exact sum.  Whether the product of zero and infinity signals when the addend is a quiet
  NaN is the host's choice.\<close>

definition fp_fma :: "fp_format \<Rightarrow> bool \<Rightarrow> bool \<Rightarrow> fe_round \<Rightarrow> fp \<Rightarrow> fp \<Rightarrow> fp \<Rightarrow> fp \<times> fe_except set" where
  "fp_fma F before fma_inv md x y z =
     (if is_nan x \<or> is_nan y then (NaN False, nan_flags [x, y, z])
      else case (x, y, z) of
        (Num s1 m1 e1, Num s2 m2 e2, Num s3 m3 e3) \<Rightarrow>
          (let e = min (e1 + e2) e3; s = (s1 \<noteq> s2) in
           fp_exact F before md (if s = s3 then s else md = FE_DOWNWARD) (fp_int s (m1 * m2) (e1 + e2) e + fp_int s3 m3 e3 e) e)
      | (Num _ _ _, Num _ _ _, Infty s3) \<Rightarrow> (Infty s3, {})
      | (Num _ _ _, Num _ _ _, NaN _) \<Rightarrow> (NaN False, nan_flags [z])
      | _ \<Rightarrow>
          (case fp_mul F before md x y of
             (Infty s, _) \<Rightarrow> fp_add F before md (Infty s) z
           | _ \<Rightarrow> (NaN False, if is_nan z \<and> \<not> is_snan z \<and> \<not> fma_inv then {} else {FE_INVALID})))"

text \<open>Division and square root compute at least two bits more than the format has, and a sticky bit.\<close>

fun fp_div :: "fp_format \<Rightarrow> bool \<Rightarrow> fe_round \<Rightarrow> fp \<Rightarrow> fp \<Rightarrow> fp \<times> fe_except set" where
  "fp_div F before md (Num s1 m1 e1) (Num s2 m2 e2) =
     (if m2 = 0 then if m1 = 0 then (NaN False, {FE_INVALID}) else (Infty (s1 \<noteq> s2), {FE_DIVBYZERO})
      else if m1 = 0 then (Num (s1 \<noteq> s2) 0 (fp_emin F), {})
      else
        let k = fp_prec F + 2 + nbits m2; n = m1 * 2 ^ k
        in fp_round F before md (s1 \<noteq> s2) (n div m2) (e1 - e2 - int k) (n mod m2 \<noteq> 0))"
| "fp_div F before md (Infty s1) (Infty s2) = (NaN False, {FE_INVALID})"
| "fp_div F before md (Infty s1) (Num s2 _ _) = (Infty (s1 \<noteq> s2), {})"
| "fp_div F before md (Num s1 _ _) (Infty s2) = (Num (s1 \<noteq> s2) 0 (fp_emin F), {})"
| "fp_div F before md x y = (NaN False, nan_flags [x, y])"

fun isqrt :: "nat \<Rightarrow> nat" where
  "isqrt n = (if n = 0 then 0 else let r = 2 * isqrt (n div 4) in if (r + 1) * (r + 1) \<le> n then r + 1 else r)"

declare isqrt.simps [simp del]

fun fp_sqrt :: "fp_format \<Rightarrow> bool \<Rightarrow> fe_round \<Rightarrow> fp \<Rightarrow> fp \<times> fe_except set" where
  "fp_sqrt F before md (Num s m e) =
     (if m = 0 then (Num s 0 (fp_emin F), {})
      else if s then (NaN False, {FE_INVALID})
      else
        let k = 2 * (fp_prec F + 2) + (if even e then 0 else 1); n = m * 2 ^ k; r = isqrt n
        in fp_round F before md False r ((e - int k) div 2) (r * r \<noteq> n))"
| "fp_sqrt F before md (Infty s) = (if s then (NaN False, {FE_INVALID}) else (Infty s, {}))"
| "fp_sqrt F before md (NaN s) = (NaN False, nan_flags [NaN s])"

text \<open>The order of numbers and infinities.\<close>

fun fp_less :: "fp \<Rightarrow> fp \<Rightarrow> bool" where
  "fp_less (Num s1 m1 e1) (Num s2 m2 e2) \<longleftrightarrow> fp_int s1 m1 e1 (min e1 e2) < fp_int s2 m2 e2 (min e1 e2)"
| "fp_less (Infty s1) (Num _ _ _) \<longleftrightarrow> s1"
| "fp_less (Num _ _ _) (Infty s2) \<longleftrightarrow> \<not> s2"
| "fp_less (Infty s1) (Infty s2) \<longleftrightarrow> s1 \<and> \<not> s2"
| "fp_less _ _ \<longleftrightarrow> False"

definition fp_eq :: "fp \<Rightarrow> fp \<Rightarrow> bool" where
  "fp_eq x y \<longleftrightarrow> \<not> is_nan x \<and> \<not> is_nan y \<and> \<not> fp_less x y \<and> \<not> fp_less y x"

text \<open>Conversions: from an integer, between formats, and to an integer by truncation, with whether a fraction is lost; \<^verbatim>\<open>None\<close>
  when there is no integer.\<close>

definition fp_of_int :: "fp_format \<Rightarrow> bool \<Rightarrow> fe_round \<Rightarrow> int \<Rightarrow> fp \<times> fe_except set" where
  "fp_of_int F before md v = fp_exact F before md False v 0"

fun fp_convert :: "fp_format \<Rightarrow> bool \<Rightarrow> fe_round \<Rightarrow> fp \<Rightarrow> fp \<times> fe_except set" where
  "fp_convert F before md (Num s m e) = fp_exact F before md s (fp_int s m 0 0) e"
| "fp_convert F before md (Infty s) = (Infty s, {})"
| "fp_convert F before md (NaN s) = (NaN False, nan_flags [NaN s])"

fun fp_to_int :: "fp \<Rightarrow> (int \<times> bool) option" where
  "fp_to_int (Num s m e) =
     (let a = m * 2 ^ nat e div 2 ^ nat (- e) in Some ((if s then - int a else int a), m * 2 ^ nat e mod 2 ^ nat (- e) \<noteq> 0))"
| "fp_to_int _ = None"

end
