(* ===== verification/F_extension.thy ===== *)
theory F_extension
  imports IEEE754 ISA_Common
begin

unbundle bit_operations_syntax

text \<open>
  The F extension (src/inc/F_extension.h) and the floating-point registers it works on (src/inc/Registers.h).  The extension is
  used by the 64-bit six-stage core.  Its arithmetic is the host's: what IEEE 754 and C++ leave open is a
  parameter, the record \<^verbatim>\<open>fp_host\<close>.  An out-of-range conversion to an integer is undefined behaviour of
  C++.
\<close>

section \<open>Floating-point registers\<close>

record FMachine =
  fhart :: "u64 Machine"
  f_regs :: "nat \<Rightarrow> u64"

definition getFPValue :: "nat \<Rightarrow> FMachine \<Rightarrow> u64" where
  "getFPValue r m = f_regs m (r mod 32)"

definition setFPValue :: "nat \<Rightarrow> u64 \<Rightarrow> FMachine \<Rightarrow> FMachine" where
  "setFPValue r v m = m\<lparr>f_regs := (f_regs m)(r mod 32 := v)\<rparr>"

definition getF32 :: "nat \<Rightarrow> FMachine \<Rightarrow> u32" where
  "getF32 r m = ucast (f_regs m (r mod 32) AND 0xFFFFFFFF)"

definition setF32 :: "nat \<Rightarrow> u32 \<Rightarrow> FMachine \<Rightarrow> FMachine" where
  "setF32 r v m = m\<lparr>f_regs := (f_regs m)(r mod 32 := 0xFFFFFFFF00000000 OR ucast v)\<rparr>"

definition getF64 :: "nat \<Rightarrow> FMachine \<Rightarrow> u64" where
  "getF64 r m = f_regs m (r mod 32)"

definition setF64 :: "nat \<Rightarrow> u64 \<Rightarrow> FMachine \<Rightarrow> FMachine" where
  "setF64 r v m = m\<lparr>f_regs := (f_regs m)(r mod 32 := v)\<rparr>"

definition setX :: "nat \<Rightarrow> u64 \<Rightarrow> FMachine \<Rightarrow> FMachine" where
  "setX r v m = m\<lparr>fhart := upd_regs (setValue r v) (fhart m)\<rparr>"

section \<open>The host\<close>

text \<open>The NaN an operation returns for given operands, in each format and between them; whether tininess is judged before
  rounding, whether a product of zero and infinity signals with a quiet NaN as addend, whether a conversion to an
  integer signals a lost fraction, and which operand minimum and maximum return when both are equal.\<close>

record fp_host =
  h_nan32 :: "u32 list \<Rightarrow> u32"
  h_nan64 :: "u64 list \<Rightarrow> u64"
  h_narrow :: "u64 \<Rightarrow> u32"
  h_widen :: "u32 \<Rightarrow> u64"
  h_before :: bool
  h_fma_invalid :: bool
  h_cvt_inexact :: bool
  h_min_first :: bool

text \<open>One such host: it returns the default NaN and judges tininess after rounding.\<close>

definition demo_host :: fp_host where
  "demo_host = \<lparr>h_nan32 = (\<lambda>_. 0x7FC00000), h_nan64 = (\<lambda>_. 0x7FF8000000000000), h_narrow = (\<lambda>_. 0x7FC00000),
     h_widen = (\<lambda>_. 0x7FF8000000000000), h_before = False, h_fma_invalid = False, h_cvt_inexact = True, h_min_first = True\<rparr>"

definition float_of :: "u32 \<Rightarrow> fp" where "float_of w = fp_decode binary32 (unat w)"

definition double_of :: "u64 \<Rightarrow> fp" where "double_of w = fp_decode binary64 (unat w)"

definition float_bits :: "u32 \<Rightarrow> fp \<times> fe_except set \<Rightarrow> u32 \<times> fe_except set" where
  "float_bits nan r = (case r of (x, fe) \<Rightarrow> (if is_nan x then nan else of_nat (fp_encode binary32 x), fe))"

definition double_bits :: "u64 \<Rightarrow> fp \<times> fe_except set \<Rightarrow> u64 \<times> fe_except set" where
  "double_bits nan r = (case r of (x, fe) \<Rightarrow> (if is_nan x then nan else of_nat (fp_encode binary64 x), fe))"

text \<open>\<^verbatim>\<open>operator-\<close>, \<^verbatim>\<open>std::fabs\<close> and \<^verbatim>\<open>std::copysign\<close> work on the sign bit alone.\<close>

definition fneg :: "'a::len word \<Rightarrow> 'a word" where
  "fneg w = w XOR push_bit (LENGTH('a) - 1) 1"

definition fabs :: "'a::len word \<Rightarrow> 'a word" where
  "fabs w = w AND NOT (push_bit (LENGTH('a) - 1) 1)"

definition copysign :: "'a::len word \<Rightarrow> 'a word \<Rightarrow> 'a word" where
  "copysign x y = fabs x OR (y AND push_bit (LENGTH('a) - 1) 1)"

text \<open>\<^verbatim>\<open>std::fmin\<close> and \<^verbatim>\<open>std::fmax\<close>: a NaN is ignored unless both are.\<close>

definition pick :: "bool \<Rightarrow> ('a \<Rightarrow> fp) \<Rightarrow> ('a list \<Rightarrow> 'a) \<Rightarrow> bool \<Rightarrow> 'a \<Rightarrow> 'a \<Rightarrow> 'a \<times> fe_except set" where
  "pick upper dec nan first x y =
     (let a = dec x; b = dec y in
      (if is_nan a \<and> is_nan b then nan [x, y]
       else if is_nan a then y
       else if is_nan b then x
       else if fp_less a b then if upper then y else x
       else if fp_less b a then if upper then x else y
       else if first then x else y,
       nan_flags [a, b]))"

text \<open>Comparisons: \<^verbatim>\<open>==\<close> signals on signalling NaNs only, \<^verbatim>\<open><\<close> and \<^verbatim>\<open><=\<close> on every NaN.\<close>

definition cmp_flags :: "fp \<Rightarrow> fp \<Rightarrow> fe_except set" where
  "cmp_flags a b = (if is_nan a \<or> is_nan b then {FE_INVALID} else {})"

text \<open>\<^verbatim>\<open>static_cast\<close> to an integer type with the given bounds.\<close>

definition cast_int :: "fp_host \<Rightarrow> int \<Rightarrow> int \<Rightarrow> fp \<Rightarrow> sim_error + int \<times> fe_except set" where
  "cast_int h lo hi x =
     (case fp_to_int x of
        None \<Rightarrow> Inl UNDEFINED_BEHAVIOUR
      | Some (i, lost) \<Rightarrow>
          if lo \<le> i \<and> i \<le> hi then Inr (i, if lost \<and> h_cvt_inexact h then {FE_INEXACT} else {})
          else Inl UNDEFINED_BEHAVIOUR)"

abbreviation (input) "INT32_LO \<equiv> (- (2 ^ 31)) :: int"
abbreviation (input) "INT32_HI \<equiv> (2 ^ 31 - 1) :: int"
abbreviation (input) "INT64_LO \<equiv> (- (2 ^ 63)) :: int"
abbreviation (input) "INT64_HI \<equiv> (2 ^ 63 - 1) :: int"
abbreviation (input) "UINT32_HI \<equiv> (2 ^ 32 - 1) :: int"
abbreviation (input) "UINT64_HI \<equiv> (2 ^ 64 - 1) :: int"

section \<open>Decoder\<close>

datatype op_F_Codes = OP_F_FLW | OP_F_FSW | OP_F_FMADD_S | OP_F_FMSUB_S | OP_F_FNMSUB_S | OP_F_FNMADD_S
  | OP_F_FADD_S | OP_F_FSUB_S | OP_F_FMUL_S | OP_F_FDIV_S | OP_F_FSQRT_S
  | OP_F_FSGNJ_S | OP_F_FSGNJN_S | OP_F_FSGNJX_S | OP_F_FMIN_S | OP_F_FMAX_S
  | OP_F_FCVT_W_S | OP_F_FCVT_WU_S | OP_F_FCVT_L_S | OP_F_FCVT_LU_S
  | OP_F_FCVT_S_W | OP_F_FCVT_S_WU | OP_F_FCVT_S_L | OP_F_FCVT_S_LU
  | OP_F_FMV_X_W | OP_F_FMV_W_X | OP_F_FCLASS_S | OP_F_FEQ_S | OP_F_FLT_S | OP_F_FLE_S | OP_F_ERROR

definition F_decode :: "u32 \<Rightarrow> op_F_Codes" where
  "F_decode m_instr =
     (let opcode = m_instr AND 0x7F; funct3 = drop_bit 12 m_instr AND 0x7; funct7 = drop_bit 25 m_instr AND 0x7F;
          rs2 = drop_bit 20 m_instr AND 0x1F; fmt = drop_bit 25 m_instr AND 0x3 in
      if opcode = 0x07 \<and> funct3 = 0x2 then OP_F_FLW
      else if opcode = 0x27 \<and> funct3 = 0x2 then OP_F_FSW
      else if opcode = 0x43 \<and> fmt = 0x0 then OP_F_FMADD_S
      else if opcode = 0x47 \<and> fmt = 0x0 then OP_F_FMSUB_S
      else if opcode = 0x4B \<and> fmt = 0x0 then OP_F_FNMSUB_S
      else if opcode = 0x4F \<and> fmt = 0x0 then OP_F_FNMADD_S
      else if opcode = 0x53 then
        (if funct7 = 0x00 then OP_F_FADD_S
         else if funct7 = 0x04 then OP_F_FSUB_S
         else if funct7 = 0x08 then OP_F_FMUL_S
         else if funct7 = 0x0C then OP_F_FDIV_S
         else if funct7 = 0x2C then OP_F_FSQRT_S
         else if funct7 = 0x10 then
           (if funct3 = 0 then OP_F_FSGNJ_S else if funct3 = 1 then OP_F_FSGNJN_S
            else if funct3 = 2 then OP_F_FSGNJX_S else OP_F_ERROR)
         else if funct7 = 0x14 then if funct3 = 0 then OP_F_FMIN_S else OP_F_FMAX_S
         else if funct7 = 0x60 then
           (if rs2 = 0 then OP_F_FCVT_W_S else if rs2 = 1 then OP_F_FCVT_WU_S
            else if rs2 = 2 then OP_F_FCVT_L_S else if rs2 = 3 then OP_F_FCVT_LU_S else OP_F_ERROR)
         else if funct7 = 0x68 then
           (if rs2 = 0 then OP_F_FCVT_S_W else if rs2 = 1 then OP_F_FCVT_S_WU
            else if rs2 = 2 then OP_F_FCVT_S_L else if rs2 = 3 then OP_F_FCVT_S_LU else OP_F_ERROR)
         else if funct7 = 0x70 then if funct3 = 0 then OP_F_FMV_X_W else OP_F_FCLASS_S
         else if funct7 = 0x78 then OP_F_FMV_W_X
         else if funct7 = 0x50 then
           (if funct3 = 2 then OP_F_FEQ_S else if funct3 = 1 then OP_F_FLT_S
            else if funct3 = 0 then OP_F_FLE_S else OP_F_ERROR)
         else OP_F_ERROR)
      else OP_F_ERROR)"

section \<open>Execution\<close>

definition get_rs1_F :: "u32 \<Rightarrow> nat" where "get_rs1_F i = unat (drop_bit 15 i AND 0x1F)"

definition get_rs2_F :: "u32 \<Rightarrow> nat" where "get_rs2_F i = unat (drop_bit 20 i AND 0x1F)"

definition get_rs3_F :: "u32 \<Rightarrow> nat" where "get_rs3_F i = unat (drop_bit 27 i AND 0x1F)"

definition rounding_mode :: "u64 Machine \<Rightarrow> fe_round" where
  "rounding_mode m =
     (let frm = drop_bit 5 (getCSR (now_of m) 0x003 (regs m)) AND 0x7 in
      if frm = 0 then FE_TONEAREST else if frm = 1 then FE_TOWARDZERO else if frm = 2 then FE_DOWNWARD
      else if frm = 3 then FE_UPWARD else FE_TONEAREST)"

definition fcsr_flags :: "fe_except set \<Rightarrow> u32" where
  "fcsr_flags fe =
     (if FE_INEXACT \<in> fe then 0x01 else 0) OR (if FE_UNDERFLOW \<in> fe then 0x02 else 0) OR
     (if FE_OVERFLOW \<in> fe then 0x04 else 0) OR (if FE_DIVBYZERO \<in> fe then 0x08 else 0) OR
     (if FE_INVALID \<in> fe then 0x10 else 0)"

definition fclass_s :: "u32 \<Rightarrow> u32" where
  "fclass_s bits =
     (let sgn = (drop_bit 31 bits \<noteq> 0); expo = drop_bit 23 bits AND 0xFF; mant = bits AND 0x7FFFFF in
      if expo = 0xFF \<and> mant \<noteq> 0 then push_bit (if sgn then 8 else 9) 1
      else if expo = 0xFF \<and> mant = 0 then push_bit (if sgn then 0 else 7) 1
      else if expo = 0 \<and> mant = 0 then push_bit (if sgn then 3 else 4) 1
      else if expo = 0 then push_bit (if sgn then 2 else 5) 1
      else push_bit (if sgn then 1 else 6) 1)"

text \<open>The two ways an operation ends: a result for a register with its flags, and a latency.\<close>

definition put_f32 :: "nat \<Rightarrow> nat \<Rightarrow> FMachine \<Rightarrow> u32 \<times> fe_except set \<Rightarrow> sim_error + nat \<times> fe_except set \<times> FMachine" where
  "put_f32 latency rd m r = Inr (latency, snd r, setF32 rd (fst r) m)"

definition put_x :: "nat \<Rightarrow> nat \<Rightarrow> FMachine \<Rightarrow> u64 \<times> fe_except set \<Rightarrow> sim_error + nat \<times> fe_except set \<times> FMachine" where
  "put_x latency rd m r = Inr (latency, snd r, setX rd (fst r) m)"

definition F_result :: "fp_host \<Rightarrow> u32 \<Rightarrow> op_F_Codes \<Rightarrow> u64 \<Rightarrow> u64 \<Rightarrow> nat \<Rightarrow> u64 \<Rightarrow> FMachine \<Rightarrow>
    sim_error + nat \<times> fe_except set \<times> FMachine" where
  "F_result h instr op rs1_val rs2_val rd mem_addr m =
     (let md = rounding_mode (fhart m); tb = h_before h;
          a = getF32 (get_rs1_F instr) m; b = getF32 (get_rs2_F instr) m; c = getF32 (get_rs3_F instr) m;
          x = float_of a; y = float_of b; nan = h_nan32 h;
          fma = (\<lambda>b c. float_bits (nan [a, b, c]) (fp_fma binary32 tb (h_fma_invalid h) md x (float_of b) (float_of c)))
      in case op of
        OP_F_FLW \<Rightarrow>
          and_then (readDataMem mem_addr 4 (platform (fhart m)))
            (\<lambda>(raw, pf). Inr (2, {}, setFPValue rd (0xFFFFFFFF00000000 OR ucast raw) (m\<lparr>fhart := (fhart m)\<lparr>platform := pf\<rparr>\<rparr>)))
      | OP_F_FSW \<Rightarrow>
          and_then (writeDataMem mem_addr (ucast (rs2_val AND 0xFFFFFFFF)) 4 (platform (fhart m)))
            (\<lambda>pf. Inr (1, {}, m\<lparr>fhart := (fhart m)\<lparr>platform := pf\<rparr>\<rparr>))
      | OP_F_FADD_S \<Rightarrow> put_f32 4 rd m (float_bits (nan [a, b]) (fp_add binary32 tb md x y))
      | OP_F_FSUB_S \<Rightarrow> put_f32 4 rd m (float_bits (nan [a, b]) (fp_sub binary32 tb md x y))
      | OP_F_FMUL_S \<Rightarrow> put_f32 4 rd m (float_bits (nan [a, b]) (fp_mul binary32 tb md x y))
      | OP_F_FDIV_S \<Rightarrow> put_f32 12 rd m (float_bits (nan [a, b]) (fp_div binary32 tb md x y))
      | OP_F_FSQRT_S \<Rightarrow> put_f32 14 rd m (float_bits (nan [a]) (fp_sqrt binary32 tb md x))
      | OP_F_FMADD_S \<Rightarrow> put_f32 5 rd m (fma b c)
      | OP_F_FMSUB_S \<Rightarrow> put_f32 5 rd m (fma b (fneg c))
      | OP_F_FNMSUB_S \<Rightarrow> put_f32 5 rd m (map_prod fneg id (fma b (fneg c)))
      | OP_F_FNMADD_S \<Rightarrow> put_f32 5 rd m (map_prod fneg id (fma b c))
      | OP_F_FSGNJ_S \<Rightarrow> put_f32 2 rd m (copysign (fabs a) b, {})
      | OP_F_FSGNJN_S \<Rightarrow> put_f32 2 rd m (copysign (fabs a) (fneg b), {})
      | OP_F_FSGNJX_S \<Rightarrow> put_f32 2 rd m (map_prod (copysign a) id (float_bits (nan [a, b]) (fp_mul binary32 tb md x y)))
      | OP_F_FMIN_S \<Rightarrow> put_f32 2 rd m (pick False float_of nan (h_min_first h) a b)
      | OP_F_FMAX_S \<Rightarrow> put_f32 2 rd m (pick True float_of nan (h_min_first h) a b)
      | OP_F_FEQ_S \<Rightarrow> put_x 2 rd m (if fp_eq x y then 1 else 0, nan_flags [x, y])
      | OP_F_FLT_S \<Rightarrow> put_x 2 rd m (if fp_less x y then 1 else 0, cmp_flags x y)
      | OP_F_FLE_S \<Rightarrow> put_x 2 rd m (if fp_less x y \<or> fp_eq x y then 1 else 0, cmp_flags x y)
      | OP_F_FCVT_W_S \<Rightarrow> and_then (cast_int h INT32_LO INT32_HI x) (\<lambda>(i, fe). put_x 2 rd m (word_of_int i, fe))
      | OP_F_FCVT_WU_S \<Rightarrow> and_then (cast_int h 0 UINT32_HI x) (\<lambda>(i, fe). put_x 2 rd m (word_of_int i, fe))
      | OP_F_FCVT_L_S \<Rightarrow> and_then (cast_int h INT64_LO INT64_HI x) (\<lambda>(i, fe). put_x 2 rd m (word_of_int i, fe))
      | OP_F_FCVT_LU_S \<Rightarrow> and_then (cast_int h 0 UINT64_HI x) (\<lambda>(i, fe). put_x 2 rd m (word_of_int i, fe))
      | OP_F_FCVT_S_W \<Rightarrow> put_f32 2 rd m (float_bits 0 (fp_of_int binary32 tb md (sint (ucast rs1_val :: u32))))
      | OP_F_FCVT_S_WU \<Rightarrow> put_f32 2 rd m (float_bits 0 (fp_of_int binary32 tb md (uint (ucast rs1_val :: u32))))
      | OP_F_FCVT_S_L \<Rightarrow> put_f32 2 rd m (float_bits 0 (fp_of_int binary32 tb md (sint rs1_val)))
      | OP_F_FCVT_S_LU \<Rightarrow> put_f32 2 rd m (float_bits 0 (fp_of_int binary32 tb md (uint rs1_val)))
      | OP_F_FMV_X_W \<Rightarrow> put_x 1 rd m (scast (ucast (getFPValue (get_rs1_F instr) m AND 0xFFFFFFFF) :: u32), {})
      | OP_F_FMV_W_X \<Rightarrow> Inr (1, {}, setFPValue rd (0xFFFFFFFF00000000 OR (rs1_val AND 0xFFFFFFFF)) m)
      | OP_F_FCLASS_S \<Rightarrow> put_x 1 rd m (ucast (fclass_s a), {})
      | OP_F_ERROR \<Rightarrow> Inr (0, {}, m))"

definition F_execute :: "fp_host \<Rightarrow> u32 \<Rightarrow> op_F_Codes \<Rightarrow> u64 \<Rightarrow> u64 \<Rightarrow> nat \<Rightarrow> u64 \<Rightarrow> FMachine \<Rightarrow>
    sim_error + nat \<times> u32 \<times> FMachine" where
  "F_execute h instr op rs1_val rs2_val rd mem_addr m =
     and_then (F_result h instr op rs1_val rs2_val rd mem_addr m) (\<lambda>(latency, fe, m). Inr (latency, fcsr_flags fe, m))"

text \<open>Execution writes at most one integer register, and none of the stored CSRs.\<close>

definition one_write :: "nat \<Rightarrow> u64 Registers \<Rightarrow> u64 Registers \<Rightarrow> bool" where
  "one_write rd r r' \<longleftrightarrow> r' = r \<or> (\<exists>v. r' = setValue rd v r)"

lemma one_write_refl [simp, intro]: "one_write rd r r" "one_write rd r (setValue rd v r)"
  by (auto simp: one_write_def)

lemma one_write_frame:
  "one_write rd r r' \<Longrightarrow> CSR r' = CSR r" "one_write rd r r' \<Longrightarrow> k \<noteq> rd \<or> k = 0 \<Longrightarrow> getValue k r' = getValue k r"
  by (auto simp: one_write_def reg_simps)

lemma fp_put_regs [simp]:
  "regs (fhart (setFPValue rd w m)) = regs (fhart m)" "regs (fhart (setF32 rd v m)) = regs (fhart m)"
  "regs (fhart (setF64 rd w m)) = regs (fhart m)" "regs (fhart (setX rd w m)) = setValue rd w (regs (fhart m))"
  by (simp_all add: setFPValue_def setF32_def setF64_def setX_def)

lemma F_execute_regs:
  "F_execute h i op a b rd pa m = Inr (lat, fl, m') \<Longrightarrow> one_write rd (regs (fhart m)) (regs (fhart m'))"
  by (cases op) (auto simp: F_execute_def F_result_def Let_def put_f32_def put_x_def and_then_Inr split: prod.splits)

end
