(* ===== verification/D_extension.thy ===== *)
theory D_extension
  imports F_extension
begin

unbundle bit_operations_syntax

text \<open>
  The D extension (src/inc/D_extension.h): the double-precision counterpart of the F extension, with the
  conversions between the two formats.
\<close>

section \<open>Decoder\<close>

datatype op_D_Codes = OP_D_FLD | OP_D_FSD | OP_D_FMADD_D | OP_D_FMSUB_D | OP_D_FNMSUB_D | OP_D_FNMADD_D
  | OP_D_FADD_D | OP_D_FSUB_D | OP_D_FMUL_D | OP_D_FDIV_D | OP_D_FSQRT_D
  | OP_D_FSGNJ_D | OP_D_FSGNJN_D | OP_D_FSGNJX_D | OP_D_FMIN_D | OP_D_FMAX_D
  | OP_D_FCVT_W_D | OP_D_FCVT_WU_D | OP_D_FCVT_L_D | OP_D_FCVT_LU_D
  | OP_D_FCVT_D_W | OP_D_FCVT_D_WU | OP_D_FCVT_D_L | OP_D_FCVT_D_LU
  | OP_D_FCVT_S_D | OP_D_FCVT_D_S | OP_D_FMV_X_D | OP_D_FMV_D_X | OP_D_FCLASS_D | OP_D_FEQ_D | OP_D_FLT_D | OP_D_FLE_D | OP_D_ERROR

definition D_decode :: "u32 \<Rightarrow> op_D_Codes" where
  "D_decode m_instr =
     (let opcode = m_instr AND 0x7F; funct3 = drop_bit 12 m_instr AND 0x7; funct7 = drop_bit 25 m_instr AND 0x7F;
          rs2 = drop_bit 20 m_instr AND 0x1F; fmt = drop_bit 25 m_instr AND 0x3 in
      if opcode = 0x07 \<and> funct3 = 0x3 then OP_D_FLD
      else if opcode = 0x27 \<and> funct3 = 0x3 then OP_D_FSD
      else if opcode = 0x43 \<and> fmt = 0x1 then OP_D_FMADD_D
      else if opcode = 0x47 \<and> fmt = 0x1 then OP_D_FMSUB_D
      else if opcode = 0x4B \<and> fmt = 0x1 then OP_D_FNMSUB_D
      else if opcode = 0x4F \<and> fmt = 0x1 then OP_D_FNMADD_D
      else if opcode = 0x53 then
        (if funct7 = 0x01 then OP_D_FADD_D
         else if funct7 = 0x05 then OP_D_FSUB_D
         else if funct7 = 0x09 then OP_D_FMUL_D
         else if funct7 = 0x0D then OP_D_FDIV_D
         else if funct7 = 0x2D then OP_D_FSQRT_D
         else if funct7 = 0x11 then
           (if funct3 = 0 then OP_D_FSGNJ_D else if funct3 = 1 then OP_D_FSGNJN_D
            else if funct3 = 2 then OP_D_FSGNJX_D else OP_D_ERROR)
         else if funct7 = 0x15 then if funct3 = 0 then OP_D_FMIN_D else OP_D_FMAX_D
         else if funct7 = 0x20 then if rs2 = 1 then OP_D_FCVT_S_D else OP_D_ERROR
         else if funct7 = 0x21 then if rs2 = 0 then OP_D_FCVT_D_S else OP_D_ERROR
         else if funct7 = 0x61 then
           (if rs2 = 0 then OP_D_FCVT_W_D else if rs2 = 1 then OP_D_FCVT_WU_D
            else if rs2 = 2 then OP_D_FCVT_L_D else if rs2 = 3 then OP_D_FCVT_LU_D else OP_D_ERROR)
         else if funct7 = 0x69 then
           (if rs2 = 0 then OP_D_FCVT_D_W else if rs2 = 1 then OP_D_FCVT_D_WU
            else if rs2 = 2 then OP_D_FCVT_D_L else if rs2 = 3 then OP_D_FCVT_D_LU else OP_D_ERROR)
         else if funct7 = 0x71 then if funct3 = 0 then OP_D_FMV_X_D else OP_D_FCLASS_D
         else if funct7 = 0x79 then OP_D_FMV_D_X
         else if funct7 = 0x51 then
           (if funct3 = 2 then OP_D_FEQ_D else if funct3 = 1 then OP_D_FLT_D
            else if funct3 = 0 then OP_D_FLE_D else OP_D_ERROR)
         else OP_D_ERROR)
      else OP_D_ERROR)"

section \<open>Execution\<close>

definition fclass_d :: "u64 \<Rightarrow> u32" where
  "fclass_d bits =
     (let sgn = (drop_bit 63 bits \<noteq> 0); expo = drop_bit 52 bits AND 0x7FF; mant = bits AND 0xFFFFFFFFFFFFF in
      if expo = 0x7FF \<and> mant \<noteq> 0 then push_bit (if sgn then 8 else 9) 1
      else if expo = 0x7FF \<and> mant = 0 then push_bit (if sgn then 0 else 7) 1
      else if expo = 0 \<and> mant = 0 then push_bit (if sgn then 3 else 4) 1
      else if expo = 0 then push_bit (if sgn then 2 else 5) 1
      else push_bit (if sgn then 1 else 6) 1)"

definition put_f64 :: "nat \<Rightarrow> nat \<Rightarrow> FMachine \<Rightarrow> u64 \<times> fe_except set \<Rightarrow> sim_error + nat \<times> fe_except set \<times> FMachine" where
  "put_f64 latency rd m r = Inr (latency, snd r, setF64 rd (fst r) m)"

definition D_result :: "fp_host \<Rightarrow> u32 \<Rightarrow> op_D_Codes \<Rightarrow> u64 \<Rightarrow> u64 \<Rightarrow> nat \<Rightarrow> u64 \<Rightarrow> FMachine \<Rightarrow>
    sim_error + nat \<times> fe_except set \<times> FMachine" where
  "D_result h instr op rs1_val rs2_val rd mem_addr m =
     (let md = rounding_mode (fhart m); tb = h_before h;
          a = getF64 (get_rs1_F instr) m; b = getF64 (get_rs2_F instr) m; c = getF64 (get_rs3_F instr) m;
          x = double_of a; y = double_of b; nan = h_nan64 h;
          fma = (\<lambda>b c. double_bits (nan [a, b, c]) (fp_fma binary64 tb (h_fma_invalid h) md x (double_of b) (double_of c)))
      in case op of
        OP_D_FLD \<Rightarrow>
          and_then (readDataMem64 mem_addr 8 (platform (fhart m)))
            (\<lambda>(raw, pf). Inr (2, {}, setFPValue rd raw (m\<lparr>fhart := (fhart m)\<lparr>platform := pf\<rparr>\<rparr>)))
      | OP_D_FSD \<Rightarrow>
          and_then (writeDataMem64 mem_addr rs2_val 8 (platform (fhart m)))
            (\<lambda>pf. Inr (1, {}, m\<lparr>fhart := (fhart m)\<lparr>platform := pf\<rparr>\<rparr>))
      | OP_D_FADD_D \<Rightarrow> put_f64 4 rd m (double_bits (nan [a, b]) (fp_add binary64 tb md x y))
      | OP_D_FSUB_D \<Rightarrow> put_f64 4 rd m (double_bits (nan [a, b]) (fp_sub binary64 tb md x y))
      | OP_D_FMUL_D \<Rightarrow> put_f64 4 rd m (double_bits (nan [a, b]) (fp_mul binary64 tb md x y))
      | OP_D_FDIV_D \<Rightarrow> put_f64 20 rd m (double_bits (nan [a, b]) (fp_div binary64 tb md x y))
      | OP_D_FSQRT_D \<Rightarrow> put_f64 22 rd m (double_bits (nan [a]) (fp_sqrt binary64 tb md x))
      | OP_D_FMADD_D \<Rightarrow> put_f64 5 rd m (fma b c)
      | OP_D_FMSUB_D \<Rightarrow> put_f64 5 rd m (fma b (fneg c))
      | OP_D_FNMSUB_D \<Rightarrow> put_f64 5 rd m (map_prod fneg id (fma b (fneg c)))
      | OP_D_FNMADD_D \<Rightarrow> put_f64 5 rd m (map_prod fneg id (fma b c))
      | OP_D_FSGNJ_D \<Rightarrow> put_f64 2 rd m (copysign (fabs a) b, {})
      | OP_D_FSGNJN_D \<Rightarrow> put_f64 2 rd m (copysign (fabs a) (fneg b), {})
      | OP_D_FSGNJX_D \<Rightarrow> put_f64 2 rd m (map_prod (copysign a) id (double_bits (nan [a, b]) (fp_mul binary64 tb md x y)))
      | OP_D_FMIN_D \<Rightarrow> put_f64 2 rd m (pick False double_of nan (h_min_first h) a b)
      | OP_D_FMAX_D \<Rightarrow> put_f64 2 rd m (pick True double_of nan (h_min_first h) a b)
      | OP_D_FEQ_D \<Rightarrow> put_x 2 rd m (if fp_eq x y then 1 else 0, nan_flags [x, y])
      | OP_D_FLT_D \<Rightarrow> put_x 2 rd m (if fp_less x y then 1 else 0, cmp_flags x y)
      | OP_D_FLE_D \<Rightarrow> put_x 2 rd m (if fp_less x y \<or> fp_eq x y then 1 else 0, cmp_flags x y)
      | OP_D_FCVT_W_D \<Rightarrow> and_then (cast_int h INT32_LO INT32_HI x) (\<lambda>(i, fe). put_x 2 rd m (word_of_int i, fe))
      | OP_D_FCVT_WU_D \<Rightarrow> and_then (cast_int h 0 UINT32_HI x) (\<lambda>(i, fe). put_x 2 rd m (word_of_int i, fe))
      | OP_D_FCVT_L_D \<Rightarrow> and_then (cast_int h INT64_LO INT64_HI x) (\<lambda>(i, fe). put_x 2 rd m (word_of_int i, fe))
      | OP_D_FCVT_LU_D \<Rightarrow> and_then (cast_int h 0 UINT64_HI x) (\<lambda>(i, fe). put_x 2 rd m (word_of_int i, fe))
      | OP_D_FCVT_D_W \<Rightarrow> put_f64 2 rd m (double_bits 0 (fp_of_int binary64 tb md (sint (ucast rs1_val :: u32))))
      | OP_D_FCVT_D_WU \<Rightarrow> put_f64 2 rd m (double_bits 0 (fp_of_int binary64 tb md (uint (ucast rs1_val :: u32))))
      | OP_D_FCVT_D_L \<Rightarrow> put_f64 2 rd m (double_bits 0 (fp_of_int binary64 tb md (sint rs1_val)))
      | OP_D_FCVT_D_LU \<Rightarrow> put_f64 2 rd m (double_bits 0 (fp_of_int binary64 tb md (uint rs1_val)))
      | OP_D_FCVT_S_D \<Rightarrow> put_f32 2 rd m (float_bits (h_narrow h a) (fp_convert binary32 tb md x))
      | OP_D_FCVT_D_S \<Rightarrow>
          (let f = getF32 (get_rs1_F instr) m in put_f64 2 rd m (double_bits (h_widen h f) (fp_convert binary64 tb md (float_of f))))
      | OP_D_FMV_X_D \<Rightarrow> put_x 1 rd m (getFPValue (get_rs1_F instr) m, {})
      | OP_D_FMV_D_X \<Rightarrow> Inr (1, {}, setFPValue rd rs1_val m)
      | OP_D_FCLASS_D \<Rightarrow> put_x 1 rd m (ucast (fclass_d a), {})
      | OP_D_ERROR \<Rightarrow> Inr (0, {}, m))"

definition D_execute :: "fp_host \<Rightarrow> u32 \<Rightarrow> op_D_Codes \<Rightarrow> u64 \<Rightarrow> u64 \<Rightarrow> nat \<Rightarrow> u64 \<Rightarrow> FMachine \<Rightarrow>
    sim_error + nat \<times> u32 \<times> FMachine" where
  "D_execute h instr op rs1_val rs2_val rd mem_addr m =
     and_then (D_result h instr op rs1_val rs2_val rd mem_addr m) (\<lambda>(latency, fe, m). Inr (latency, fcsr_flags fe, m))"

lemma D_execute_regs:
  "D_execute h i op a b rd pa m = Inr (lat, fl, m') \<Longrightarrow> one_write rd (regs (fhart m)) (regs (fhart m'))"
  by (cases op)
    (auto simp: D_execute_def D_result_def Let_def put_f32_def put_f64_def put_x_def and_then_Inr split: prod.splits)

end
