(* ===== verification/P6_State.thy ===== *)
theory P6_State
  imports StoreBuffer Cache MMU CPU_Simple D_extension
begin

unbundle bit_operations_syntax

text \<open>
  State of the six-stage 64-bit core (src/inc/CPU_P64_6_Cycle.h): the pipeline latches with
  their current and next copies, the control signals, the branch predictor, the functional
  units and the components the core owns.  The statistics, the trace and the debugging logs
  are left out: no modelled value depends on them.  \<^verbatim>\<open>int64_t\<close> values are 64-bit words, read as signed where the source does.
\<close>

section \<open>Pipeline latches\<close>

record PCGen_Fetch_Latch =
  g_pc :: u64
  g_valid :: bool
  g_predicted_taken :: bool
  g_predicted_target :: u64

record Fetch_ID_Latch =
  f_pc :: u64
  f_instr :: u32
  f_valid :: bool
  f_is_compressed :: bool
  f_predicted_taken :: bool
  f_predicted_target :: u64

record FetchQueueEntry =
  q_pc :: u64
  q_instr :: u32
  q_is_compressed :: bool
  q_predicted_taken :: bool
  q_predicted_target :: u64

record ID_Issue_Latch =
  d_pc :: u64
  d_instr :: u32
  d_rd :: u8
  d_rs1 :: u8
  d_rs2 :: u8
  d_imm :: u64
  d_opcode :: u8
  d_funct3 :: u8
  d_funct7 :: u8
  d_valid :: bool
  d_is_compressed :: bool
  d_is_illegal :: bool
  d_predicted_taken :: bool
  d_predicted_target :: u64
  d_is_ras_call :: bool
  d_is_ras_return :: bool

record Issue_EX_Latch =
  x_pc :: u64
  x_instr :: u32
  x_rs1_val :: u64
  x_rs2_val :: u64
  x_imm :: u64
  x_rd :: u8
  x_rs1 :: u8
  x_rs2 :: u8
  x_opcode :: u8
  x_funct3 :: u8
  x_funct7 :: u8
  x_rob_index :: int
  x_valid :: bool
  x_is_compressed :: bool
  x_predicted_taken :: bool
  x_predicted_target :: u64
  x_is_ras_call :: bool
  x_is_ras_return :: bool

definition pcgen_latch_init :: PCGen_Fetch_Latch where
  "pcgen_latch_init = \<lparr>g_pc = 0, g_valid = False, g_predicted_taken = False, g_predicted_target = 0\<rparr>"

definition fetch_latch_init :: Fetch_ID_Latch where
  "fetch_latch_init = \<lparr>f_pc = 0, f_instr = 0, f_valid = False, f_is_compressed = False,
     f_predicted_taken = False, f_predicted_target = 0\<rparr>"

definition id_latch_init :: ID_Issue_Latch where
  "id_latch_init = \<lparr>d_pc = 0, d_instr = 0, d_rd = 0, d_rs1 = 0, d_rs2 = 0, d_imm = 0, d_opcode = 0,
     d_funct3 = 0, d_funct7 = 0, d_valid = False, d_is_compressed = False, d_is_illegal = False,
     d_predicted_taken = False, d_predicted_target = 0, d_is_ras_call = False, d_is_ras_return = False\<rparr>"

definition ex_latch_init :: Issue_EX_Latch where
  "ex_latch_init = \<lparr>x_pc = 0, x_instr = 0, x_rs1_val = 0, x_rs2_val = 0, x_imm = 0, x_rd = 0, x_rs1 = 0,
     x_rs2 = 0, x_opcode = 0, x_funct3 = 0, x_funct7 = 0, x_rob_index = -1, x_valid = False,
     x_is_compressed = False, x_predicted_taken = False, x_predicted_target = 0,
     x_is_ras_call = False, x_is_ras_return = False\<rparr>"

section \<open>Functional units and branch predictor\<close>

record FunctionalUnitState =
  fu_busy :: bool
  fu_remaining :: int
  fu_result :: u64
  fu_trans_id :: int
  fu_rd :: u8

definition fu_init :: FunctionalUnitState where
  "fu_init = \<lparr>fu_busy = False, fu_remaining = 0, fu_result = 0, fu_trans_id = -1, fu_rd = 0\<rparr>"

record BTBEntry =
  btb_target :: u64
  btb_tag :: u64
  btb_valid :: bool
  btb_is_return :: bool

definition BTBEntry_init :: BTBEntry where
  "BTBEntry_init = \<lparr>btb_target = 0, btb_tag = 0, btb_valid = False, btb_is_return = False\<rparr>"

section \<open>The core\<close>

record P6 =
  cpu_regs :: "u64 Registers"
  cpu_pf :: Platform
  pcgen_fetch_reg :: PCGen_Fetch_Latch
  pcgen_fetch_next :: PCGen_Fetch_Latch
  fetch_id_reg :: Fetch_ID_Latch
  fetch_id_next :: Fetch_ID_Latch
  id_issue_reg :: ID_Issue_Latch
  id_issue_next :: ID_Issue_Latch
  issue_ex_reg :: Issue_EX_Latch
  issue_ex_next :: Issue_EX_Latch
  next_pc :: u64
  stall_pcgen :: bool
  stall_fetch :: bool
  stall_issue :: bool
  stall_ex :: bool
  flush_pipeline :: bool
  pc_redirect_target :: u64
  pc_redirect_valid :: bool
  taken_redirect_bubble :: bool
  scoreboard :: Scoreboard
  commit_count_this_cycle :: u32
  btb :: "BTBEntry list"
  bht :: "u8 list"
  ras :: "u64 list"
  store_buffer :: StoreBuffer
  mul_fu :: FunctionalUnitState
  div_fu :: FunctionalUnitState
  fpu_pipe :: "FunctionalUnitState list"
  fpu_divsqrt_fu :: FunctionalUnitState
  dcache_miss_fu :: "FunctionalUnitState list"
  load_hit_fu :: FunctionalUnitState
  fetch_queue :: "FetchQueueEntry list"
  icache :: Cache
  dcache :: Cache
  icache_miss_remaining :: int
  icache_miss_penalty :: int
  dcache_miss_penalty :: int
  store_drain_remaining :: int
  store_write_penalty :: int
  load_hit_penalty :: int
  load_addr_penalty :: int
  reg_load_tainted :: u32
  load_addr_extra :: int
  cpu_csr :: CSR_File
  cpu_mmu :: MMU
  trap_pending :: bool
  pending_csr_write :: "u16 option"
  wfi_stall :: bool
  pending_priv_switch :: "u64 option"
  load_reservation :: "u64 option"
  pc_current :: u64
  prev_cycle_flush :: bool
  cycles :: u64
  cpu_stopped :: bool
  cpu_output :: "(u64 \<times> u8) list"
  cpu_dmi :: bool
  memory_dmi :: bool
  cpu_fregs :: "nat \<Rightarrow> u64"
  cpu_host :: fp_host

text \<open>\<^verbatim>\<open>pending_csr_write\<close>, \<^verbatim>\<open>pending_priv_switch\<close> and \<^verbatim>\<open>load_reservation\<close> are pairs of a valid flag and
  a value in the source, whose value is read only under the flag.  The active miss slots
  are the list \<^verbatim>\<open>dcache_miss_fu\<close> itself.  \<^verbatim>\<open>cpu_fregs\<close> are the
  floating-point registers of the register bank, \<^verbatim>\<open>cpu_host\<close> the host's floating-point arithmetic.\<close>

abbreviation FETCH_QUEUE_CAPACITY :: nat where "FETCH_QUEUE_CAPACITY \<equiv> 4"
abbreviation FPU_SLOTS :: nat where "FPU_SLOTS \<equiv> 8"
abbreviation DCACHE_MISS_SLOTS_DEFAULT :: nat where "DCACHE_MISS_SLOTS_DEFAULT \<equiv> 2"

definition P6_init :: "fp_host \<Rightarrow> u64 \<Rightarrow> Policy \<Rightarrow> nat \<Rightarrow> bool \<Rightarrow> u8 list \<Rightarrow> Platform \<Rightarrow> P6" where
  "P6_init host PC policy slots dmi bht0 pf =
     \<lparr>cpu_regs = setValue 3 0x10FF3 (setValue 2 (of_nat Memory_SIZE - 8) (setPC PC Registers_init)),
      cpu_pf = pf,
      pcgen_fetch_reg = pcgen_latch_init, pcgen_fetch_next = pcgen_latch_init,
      fetch_id_reg = fetch_latch_init, fetch_id_next = fetch_latch_init,
      id_issue_reg = id_latch_init, id_issue_next = id_latch_init,
      issue_ex_reg = ex_latch_init, issue_ex_next = ex_latch_init,
      next_pc = PC, stall_pcgen = False, stall_fetch = False, stall_issue = False, stall_ex = False,
      flush_pipeline = False, pc_redirect_target = 0, pc_redirect_valid = False,
      taken_redirect_bubble = False, scoreboard = sb_init 32, commit_count_this_cycle = 0,
      btb = replicate 32 BTBEntry_init, bht = bht0, ras = [], store_buffer = stb_init 4 4,
      mul_fu = fu_init, div_fu = fu_init, fpu_pipe = replicate FPU_SLOTS fu_init, fpu_divsqrt_fu = fu_init,
      dcache_miss_fu = replicate slots fu_init, load_hit_fu = fu_init, fetch_queue = [],
      icache = set_policy policy (cache_init 256 4 16), dcache = set_policy policy (cache_init 256 8 16),
      icache_miss_remaining = 0, icache_miss_penalty = 7, dcache_miss_penalty = 10,
      store_drain_remaining = 0, store_write_penalty = 0, load_hit_penalty = 1, load_addr_penalty = 2,
      reg_load_tainted = 0, load_addr_extra = 0, cpu_csr = CSR_File_init, cpu_mmu = mmu_init 2,
      trap_pending = False, pending_csr_write = None, wfi_stall = False, pending_priv_switch = None,
      load_reservation = None, pc_current = 0, prev_cycle_flush = False, cycles = 0,
      cpu_stopped = False, cpu_output = [], cpu_dmi = False, memory_dmi = dmi,
      cpu_fregs = (\<lambda>_. 0), cpu_host = host\<rparr>"

section \<open>Shared operations\<close>

definition upd_sb :: "(Scoreboard \<Rightarrow> Scoreboard) \<Rightarrow> P6 \<Rightarrow> P6" where
  "upd_sb f s = s\<lparr>scoreboard := f (scoreboard s)\<rparr>"

definition redirect :: "u64 \<Rightarrow> P6 \<Rightarrow> P6" where
  "redirect target s = s\<lparr>pc_redirect_target := target, pc_redirect_valid := True, flush_pipeline := True\<rparr>"

definition take_trap :: "u64 \<Rightarrow> u64 \<Rightarrow> u64 \<Rightarrow> P6 \<Rightarrow> P6" where
  "take_trap cause epc tval s =
     (let (tvec, c) = take_exception cause epc tval (cpu_csr s)
      in redirect tvec (s\<lparr>cpu_csr := c\<rparr>))"

text \<open>Data accesses of the core and of its page-table walker go over the bus; an abnormal end of
  a walk's access ends the step.\<close>

definition p6_read :: "u64 \<Rightarrow> nat \<Rightarrow> P6 \<Rightarrow> sim_error + u32 \<times> P6" where
  "p6_read a n s = and_then (readDataMem a n (cpu_pf s)) (\<lambda>(v, pf). Inr (v, s\<lparr>cpu_pf := pf\<rparr>))"

definition p6_read64 :: "u64 \<Rightarrow> nat \<Rightarrow> P6 \<Rightarrow> sim_error + u64 \<times> P6" where
  "p6_read64 a n s = and_then (readDataMem64 a n (cpu_pf s)) (\<lambda>(v, pf). Inr (v, s\<lparr>cpu_pf := pf\<rparr>))"

definition p6_write :: "u64 \<Rightarrow> u32 \<Rightarrow> nat \<Rightarrow> P6 \<Rightarrow> sim_error + P6" where
  "p6_write a v n s = and_then (writeDataMem a v n (cpu_pf s)) (\<lambda>pf. Inr (s\<lparr>cpu_pf := pf\<rparr>))"

definition p6_write64 :: "u64 \<Rightarrow> u64 \<Rightarrow> nat \<Rightarrow> P6 \<Rightarrow> sim_error + P6" where
  "p6_write64 a v n s = and_then (writeDataMem64 a v n (cpu_pf s)) (\<lambda>pf. Inr (s\<lparr>cpu_pf := pf\<rparr>))"

definition walk_rd :: "(sim_error + Platform) rd64" where
  "walk_rd a m = (case m of Inl e \<Rightarrow> (0, Inl e)
     | Inr pf \<Rightarrow> (case readDataMem64 a 8 pf of Inl e \<Rightarrow> (0, Inl e) | Inr (v, pf) \<Rightarrow> (v, Inr pf)))"

definition walk_wr :: "(sim_error + Platform) wr64" where
  "walk_wr a v m = and_then m (writeDataMem64 a v 8)"

definition p6_translate :: "u64 \<Rightarrow> access_t \<Rightarrow> P6 \<Rightarrow> sim_error + MMU_Result \<times> P6" where
  "p6_translate va atype s =
     (case translate walk_rd walk_wr va (cpu_csr s) atype (cpu_mmu s) (Inr (cpu_pf s)) of
        (tr, u, m) \<Rightarrow> and_then m (\<lambda>pf. Inr (tr, s\<lparr>cpu_mmu := u, cpu_pf := pf\<rparr>)))"

end
