(* ===== verification/P6_Frontend.thy ===== *)
theory P6_Frontend
  imports P6_State
begin

unbundle bit_operations_syntax

text \<open>
  The front end of the six-stage core (src/src/CPU_P64_6_Cycle.cpp): program-counter generation
  with the branch target buffer, the branch history table and the return-address stack, and
  the fetch stage with translation, physical memory protection and the instruction cache.
\<close>

section \<open>Program-counter generation\<close>

definition btb_index :: "u64 \<Rightarrow> nat" where
  "btb_index pc = unat (drop_bit 2 pc) mod 32"

definition bht_index :: "u64 \<Rightarrow> nat" where
  "bht_index pc = unat (drop_bit 2 pc) mod 128"

definition predict :: "u64 \<Rightarrow> P6 \<Rightarrow> bool \<times> u64 \<times> P6" where
  "predict pc s =
     (let e = btb s ! btb_index pc in
      if btb_valid e \<and> btb_tag e = pc then
        (if btb_is_return e then
           (if ras s \<noteq> [] then (True, last (ras s), s\<lparr>ras := butlast (ras s)\<rparr>) else (False, 0, s))
         else if bht s ! bht_index pc \<ge> 2 then (True, btb_target e, s)
         else (False, 0, s))
      else (False, 0, s))"

definition PCGen_stage :: "P6 \<Rightarrow> P6" where
  "PCGen_stage s =
     (if flush_pipeline s then
        s\<lparr>next_pc := pc_redirect_target s, flush_pipeline := False, pc_redirect_valid := False,
          trap_pending := False, taken_redirect_bubble := False,
          pcgen_fetch_next := (pcgen_fetch_next s)\<lparr>g_valid := False\<rparr>,
          fetch_queue := [],
          fetch_id_next := (fetch_id_next s)\<lparr>f_valid := False\<rparr>,
          id_issue_next := (id_issue_next s)\<lparr>d_valid := False\<rparr>,
          issue_ex_next := (issue_ex_next s)\<lparr>x_valid := False\<rparr>\<rparr>
      else if wfi_stall s then
        s\<lparr>stall_fetch := True, stall_pcgen := True,
          pcgen_fetch_next := (pcgen_fetch_next s)\<lparr>g_valid := False\<rparr>\<rparr>
      else if length (fetch_queue s) \<ge> FETCH_QUEUE_CAPACITY then s\<lparr>stall_pcgen := True\<rparr>
      else if stall_pcgen s then s
      else if taken_redirect_bubble s then
        s\<lparr>taken_redirect_bubble := False, pcgen_fetch_next := (pcgen_fetch_next s)\<lparr>g_valid := False\<rparr>\<rparr>
      else
        let current_pc = next_pc s;
            (predict_taken, pt_target, s) = predict current_pc s;
            s = s\<lparr>pcgen_fetch_next := (pcgen_fetch_next s)
                   \<lparr>g_pc := current_pc, g_valid := True,
                    g_predicted_taken := predict_taken, g_predicted_target := pt_target\<rparr>\<rparr>
        in if predict_taken then s\<lparr>next_pc := pt_target, taken_redirect_bubble := True\<rparr>
           else s\<lparr>next_pc := current_pc + 4\<rparr>)"

section \<open>Fetch\<close>

definition fetch_instruction :: "u64 \<Rightarrow> P6 \<Rightarrow> sim_error + u32 option \<times> P6" where
  "fetch_instruction addr s =
     (if cpu_dmi s \<and> addr + 4 \<le> of_nat (Memory_SIZE - 1) then
        (if unat addr + 4 \<le> Memory_SIZE
         then Inr (Some (of_bytes (mem_read (pf_mem (cpu_pf s)) (unat addr) 4)), s)
         else Inl UNDEFINED_BEHAVIOUR)
      else
        and_then (bus_transport bus_fuel (rd_payload addr 4) (cpu_pf s))
          (\<lambda>(tr, pf).
             let s = s\<lparr>cpu_pf := pf\<rparr> in
             if p_response tr \<noteq> TLM_OK_RESPONSE then Inr (None, s)
             else Inr (Some (of_bytes (p_data tr)),
                       if served_by_memory addr \<and> memory_dmi s then s\<lparr>cpu_dmi := True\<rparr> else s)))"

definition fetch_bubble :: "P6 \<Rightarrow> P6" where
  "fetch_bubble s = s\<lparr>fetch_id_next := (fetch_id_next s)\<lparr>f_valid := False\<rparr>\<rparr>"

definition fetch_trap :: "u64 \<Rightarrow> P6 \<Rightarrow> P6" where
  "fetch_trap cause s =
     (let pc = g_pc (pcgen_fetch_reg s) in
      fetch_bubble ((take_trap cause pc pc s)\<lparr>trap_pending := True\<rparr>))"

definition fetch_deliver :: "u32 \<Rightarrow> P6 \<Rightarrow> P6" where
  "fetch_deliver instr s =
     (let g = pcgen_fetch_reg s; (hit, c) = cache_access (g_pc g) (icache s); s = s\<lparr>icache := c\<rparr> in
      if \<not> hit then
        fetch_bubble (s\<lparr>icache_miss_remaining := icache_miss_penalty s - 1, stall_pcgen := True\<rparr>)
      else
        let is_c = (instr AND 0x3 \<noteq> 0x3);
            s = s\<lparr>fetch_id_next := (fetch_id_next s)
                   \<lparr>f_pc := g_pc g, f_instr := instr, f_is_compressed := is_c, f_valid := True,
                    f_predicted_taken := g_predicted_taken g, f_predicted_target := g_predicted_target g\<rparr>\<rparr>
        in if is_c \<and> \<not> g_predicted_taken g then s\<lparr>next_pc := next_pc s - 2\<rparr> else s)"

definition fetch_translated :: "MMU_Result \<Rightarrow> P6 \<Rightarrow> sim_error + P6" where
  "fetch_translated tr s =
     (if r_fault tr then Inr (fetch_trap (r_fault_cause tr) s)
      else if r_stall_cycles tr > 0 then
        Inr (fetch_bubble (s\<lparr>icache_miss_remaining := icache_miss_remaining s + r_stall_cycles tr,
                             stall_pcgen := True\<rparr>))
      else if \<not> pmp_check (r_paddr tr) 4 False True (cpu_csr s) then Inr (fetch_trap 1 s)
      else and_then (fetch_instruction (r_paddr tr) s)
        (\<lambda>(instr, s).
           case instr of
             None \<Rightarrow> Inr (s\<lparr>fetch_id_next := (fetch_id_next s)\<lparr>f_valid := False, f_is_compressed := False\<rparr>\<rparr>)
           | Some instr \<Rightarrow> Inr (fetch_deliver instr s)))"

definition Fetch_stage :: "P6 \<Rightarrow> sim_error + P6" where
  "Fetch_stage s =
     (if flush_pipeline s then Inr (fetch_bubble (s\<lparr>icache_miss_remaining := 0\<rparr>))
      else if length (fetch_queue s) \<ge> FETCH_QUEUE_CAPACITY then Inr (s\<lparr>stall_fetch := True\<rparr>)
      else if stall_fetch s then Inr s
      else if \<not> g_valid (pcgen_fetch_reg s) then Inr (fetch_bubble s)
      else if icache_miss_remaining s > 0 then
        Inr (fetch_bubble (s\<lparr>icache_miss_remaining := icache_miss_remaining s - 1, stall_pcgen := True\<rparr>))
      else and_then (p6_translate (g_pc (pcgen_fetch_reg s)) FETCH s) (\<lambda>(tr, s). fetch_translated tr s))"

end
