(* ===== verification/P6_Decode.thy ===== *)
theory P6_Decode
  imports P6_Frontend
begin

unbundle bit_operations_syntax

text \<open>
  The decode stage of the six-stage core: compressed instructions are expanded to the fields of
  the 32-bit instruction they stand for, 32-bit instructions are split into fields with the
  immediate sign-extended to 64 bits, and a prediction made for an instruction that is no branch
  is corrected.
\<close>

section \<open>Compressed instructions\<close>

definition c_shamt :: "u32 \<Rightarrow> u32" where
  "c_shamt ci = push_bit 5 (drop_bit 12 ci AND 1) OR (drop_bit 2 ci AND 0x1F)"

text \<open>The result is None for an instruction marked illegal.  Fields the source leaves alone keep the
  value of the previous instruction.\<close>

definition c_expand :: "u32 \<Rightarrow> ID_Issue_Latch \<Rightarrow> ID_Issue_Latch option" where
  "c_expand ci d =
     (case C_decode TYPE(64) ci of
        OP_C_ADDI4SPN \<Rightarrow>
          (let addi4spn_imm = ucast (get_imm_ADDI4SPN ci) in
           if addi4spn_imm = 0 then None
           else Some (d\<lparr>d_opcode := 0x13, d_funct3 := 0, d_rd := of_nat (get_rdp ci), d_rs1 := 2, d_rs2 := 0,
                        d_imm := addi4spn_imm\<rparr>))
      | OP_C_LW \<Rightarrow> Some (d\<lparr>d_opcode := 0x03, d_funct3 := 2, d_rd := of_nat (get_rdp ci), d_rs1 := of_nat (get_rs1p ci), d_rs2 := 0, d_imm := ucast (get_imm_L ci)\<rparr>)
      | OP_C_LD \<Rightarrow> Some (d\<lparr>d_opcode := 0x03, d_funct3 := 3, d_rd := of_nat (get_rdp ci), d_rs1 := of_nat (get_rs1p ci), d_rs2 := 0, d_imm := ucast (get_imm_CL ci)\<rparr>)
      | OP_C_SW \<Rightarrow> Some (d\<lparr>d_opcode := 0x23, d_funct3 := 2, d_rd := 0, d_rs1 := of_nat (get_rs1p ci), d_rs2 := of_nat (get_rs2p ci), d_imm := ucast (get_imm_L ci)\<rparr>)
      | OP_C_SD \<Rightarrow> Some (d\<lparr>d_opcode := 0x23, d_funct3 := 3, d_rd := 0, d_rs1 := of_nat (get_rs1p ci), d_rs2 := of_nat (get_rs2p ci), d_imm := ucast (get_imm_CL ci)\<rparr>)
      | OP_C_FLD \<Rightarrow> Some (d\<lparr>d_opcode := 0x07, d_funct3 := 3, d_rd := of_nat (get_rdp ci), d_rs1 := of_nat (get_rs1p ci), d_rs2 := 0, d_imm := ucast (get_imm_CL ci)\<rparr>)
      | OP_C_FSD \<Rightarrow> Some (d\<lparr>d_opcode := 0x27, d_funct3 := 3, d_rd := 0, d_rs1 := of_nat (get_rs1p ci), d_rs2 := of_nat (get_rs2p ci), d_imm := ucast (get_imm_CL ci)\<rparr>)
      | OP_C_NOP \<Rightarrow> Some (d\<lparr>d_opcode := 0x13, d_funct3 := 0, d_rd := 0, d_rs1 := 0, d_rs2 := 0, d_imm := 0\<rparr>)
      | OP_C_ADDI \<Rightarrow> Some (d\<lparr>d_opcode := 0x13, d_funct3 := 0, d_rd := of_nat (C_get_rs1 ci), d_rs1 := of_nat (C_get_rs1 ci), d_rs2 := 0, d_imm := scast (get_imm_ADDI ci)\<rparr>)
      | OP_C_ADDIW \<Rightarrow> Some (d\<lparr>d_opcode := 0x1B, d_funct3 := 0, d_rd := of_nat (C_get_rs1 ci), d_rs1 := of_nat (C_get_rs1 ci), d_rs2 := 0, d_imm := scast (get_imm_ADDI ci)\<rparr>)
      | OP_C_LI \<Rightarrow> Some (d\<lparr>d_opcode := 0x13, d_funct3 := 0, d_rd := of_nat (C_get_rs1 ci), d_rs1 := 0, d_rs2 := 0, d_imm := scast (get_imm_ADDI ci)\<rparr>)
      | OP_C_SRLI \<Rightarrow> Some (d\<lparr>d_opcode := 0x13, d_funct3 := 5, d_rd := of_nat (get_rs1p ci), d_rs1 := of_nat (get_rs1p ci), d_rs2 := 0, d_imm := ucast (c_shamt ci)\<rparr>)
      | OP_C_SRAI \<Rightarrow> Some (d\<lparr>d_opcode := 0x13, d_funct3 := 5, d_rd := of_nat (get_rs1p ci), d_rs1 := of_nat (get_rs1p ci), d_rs2 := 0, d_imm := ucast (c_shamt ci OR 0x400)\<rparr>)
      | OP_C_ANDI \<Rightarrow> Some (d\<lparr>d_opcode := 0x13, d_funct3 := 7, d_rd := of_nat (get_rs1p ci), d_rs1 := of_nat (get_rs1p ci), d_rs2 := 0, d_imm := scast (get_imm_ADDI ci)\<rparr>)
      | OP_C_SUB \<Rightarrow> Some (d\<lparr>d_opcode := 0x33, d_funct3 := 0, d_funct7 := 0x20, d_rd := of_nat (get_rs1p ci), d_rs1 := of_nat (get_rs1p ci), d_rs2 := of_nat (get_rs2p ci)\<rparr>)
      | OP_C_XOR \<Rightarrow> Some (d\<lparr>d_opcode := 0x33, d_funct3 := 4, d_funct7 := 0, d_rd := of_nat (get_rs1p ci), d_rs1 := of_nat (get_rs1p ci), d_rs2 := of_nat (get_rs2p ci)\<rparr>)
      | OP_C_OR \<Rightarrow> Some (d\<lparr>d_opcode := 0x33, d_funct3 := 6, d_funct7 := 0, d_rd := of_nat (get_rs1p ci), d_rs1 := of_nat (get_rs1p ci), d_rs2 := of_nat (get_rs2p ci)\<rparr>)
      | OP_C_AND \<Rightarrow> Some (d\<lparr>d_opcode := 0x33, d_funct3 := 7, d_funct7 := 0, d_rd := of_nat (get_rs1p ci), d_rs1 := of_nat (get_rs1p ci), d_rs2 := of_nat (get_rs2p ci)\<rparr>)
      | OP_C_SUBW \<Rightarrow> Some (d\<lparr>d_opcode := 0x3B, d_funct3 := 0, d_funct7 := 0x20, d_rd := of_nat (get_rs1p ci), d_rs1 := of_nat (get_rs1p ci), d_rs2 := of_nat (get_rs2p ci)\<rparr>)
      | OP_C_ADDW \<Rightarrow> Some (d\<lparr>d_opcode := 0x3B, d_funct3 := 0, d_funct7 := 0, d_rd := of_nat (get_rs1p ci), d_rs1 := of_nat (get_rs1p ci), d_rs2 := of_nat (get_rs2p ci)\<rparr>)
      | OP_C_J \<Rightarrow> Some (d\<lparr>d_opcode := 0x6F, d_rd := 0, d_rs1 := 0, d_rs2 := 0, d_imm := scast (C_get_imm_J ci)\<rparr>)
      | OP_C_BEQZ \<Rightarrow> Some (d\<lparr>d_opcode := 0x63, d_funct3 := 0, d_rd := 0, d_rs1 := of_nat (get_rs1p ci), d_rs2 := 0, d_imm := scast (get_imm_CB ci)\<rparr>)
      | OP_C_BNEZ \<Rightarrow> Some (d\<lparr>d_opcode := 0x63, d_funct3 := 1, d_rd := 0, d_rs1 := of_nat (get_rs1p ci), d_rs2 := 0, d_imm := scast (get_imm_CB ci)\<rparr>)
      | OP_C_SLLI \<Rightarrow> Some (d\<lparr>d_opcode := 0x13, d_funct3 := 1, d_rd := of_nat (C_get_rs1 ci), d_rs1 := of_nat (C_get_rs1 ci), d_rs2 := 0, d_imm := ucast (c_shamt ci)\<rparr>)
      | OP_C_LWSP \<Rightarrow> Some (d\<lparr>d_opcode := 0x03, d_funct3 := 2, d_rd := of_nat (C_get_rs1 ci), d_rs1 := 2, d_rs2 := 0, d_imm := ucast (get_imm_LWSP ci)\<rparr>)
      | OP_C_LDSP \<Rightarrow> Some (d\<lparr>d_opcode := 0x03, d_funct3 := 3, d_rd := of_nat (C_get_rs1 ci), d_rs1 := 2, d_rs2 := 0, d_imm := ucast (get_imm_LDSP ci)\<rparr>)
      | OP_C_JR \<Rightarrow> Some (d\<lparr>d_opcode := 0x67, d_funct3 := 0, d_rd := 0, d_rs1 := of_nat (C_get_rs1 ci), d_rs2 := 0, d_imm := 0\<rparr>)
      | OP_C_MV \<Rightarrow> Some (d\<lparr>d_opcode := 0x33, d_funct3 := 0, d_funct7 := 0, d_rd := of_nat (C_get_rs1 ci), d_rs1 := 0, d_rs2 := of_nat (C_get_rs2 ci)\<rparr>)
      | OP_C_EBREAK \<Rightarrow> Some (d\<lparr>d_opcode := 0x73, d_funct3 := 0, d_rd := 0, d_rs1 := 0, d_rs2 := 0, d_imm := 1\<rparr>)
      | OP_C_JALR \<Rightarrow> Some (d\<lparr>d_opcode := 0x67, d_funct3 := 0, d_rd := 1, d_rs1 := of_nat (C_get_rs1 ci), d_rs2 := 0, d_imm := 0\<rparr>)
      | OP_C_ADD \<Rightarrow> Some (d\<lparr>d_opcode := 0x33, d_funct3 := 0, d_funct7 := 0, d_rd := of_nat (C_get_rs1 ci), d_rs1 := of_nat (C_get_rs1 ci), d_rs2 := of_nat (C_get_rs2 ci)\<rparr>)
      | OP_C_SWSP \<Rightarrow> Some (d\<lparr>d_opcode := 0x23, d_funct3 := 2, d_rd := 0, d_rs1 := 2, d_rs2 := of_nat (C_get_rs2 ci), d_imm := ucast (get_imm_CSS ci)\<rparr>)
      | OP_C_SDSP \<Rightarrow> Some (d\<lparr>d_opcode := 0x23, d_funct3 := 3, d_rd := 0, d_rs1 := 2, d_rs2 := of_nat (C_get_rs2 ci), d_imm := ucast (get_imm_CSDSP ci)\<rparr>)
      | OP_C_FLDSP \<Rightarrow> Some (d\<lparr>d_opcode := 0x07, d_funct3 := 3, d_rd := of_nat (C_get_rs1 ci), d_rs1 := 2, d_rs2 := 0, d_imm := ucast (get_imm_LDSP ci)\<rparr>)
      | OP_C_FSDSP \<Rightarrow> Some (d\<lparr>d_opcode := 0x27, d_funct3 := 3, d_rd := 0, d_rs1 := 2, d_rs2 := of_nat (C_get_rs2 ci), d_imm := ucast (get_imm_CSDSP ci)\<rparr>)
      | OP_C_ADDI16SP \<Rightarrow>
          (let rd_f = drop_bit 7 ci AND 0x1F in
           if rd_f = 2
           then Some (d\<lparr>d_opcode := 0x13, d_funct3 := 0, d_rd := 2, d_rs1 := 2, d_rs2 := 0,
                        d_imm := scast (get_imm_ADDI16SP ci)\<rparr>)
           else Some (d\<lparr>d_opcode := 0x37, d_rd := ucast rd_f, d_rs1 := 0, d_rs2 := 0,
                        d_imm := scast (get_imm_LUI ci)\<rparr>))
      | _ \<Rightarrow> None)"

section \<open>Standard instructions\<close>

definition imm32 :: "u8 \<Rightarrow> u32 \<Rightarrow> u64" where
  "imm32 opc instr =
     (if opc \<in> {0x13, 0x1B, 0x03, 0x07, 0x67, 0x73} then scast (signed_drop_bit 20 instr)
      else if opc \<in> {0x23, 0x27} then
        scast (signed_drop_bit 20 (push_bit 20 (push_bit 5 (drop_bit 25 instr) OR (drop_bit 7 instr AND 0x1F))))
      else if opc = 0x63 then
        scast (signed_drop_bit 19 (push_bit 19
          (push_bit 12 (drop_bit 31 instr) OR push_bit 11 (drop_bit 7 instr AND 1)
           OR push_bit 5 (drop_bit 25 instr AND 0x3F) OR push_bit 1 (drop_bit 8 instr AND 0xF))))
      else if opc \<in> {0x37, 0x17} then scast (instr AND 0xFFFFF000)
      else if opc = 0x6F then
        scast (signed_drop_bit 11 (push_bit 11
          (push_bit 20 (drop_bit 31 instr) OR push_bit 12 (drop_bit 12 instr AND 0xFF)
           OR push_bit 11 (drop_bit 20 instr AND 1) OR push_bit 1 (drop_bit 21 instr AND 0x3FF))))
      else 0)"

definition decode32 :: "u32 \<Rightarrow> ID_Issue_Latch \<Rightarrow> ID_Issue_Latch" where
  "decode32 instr d =
     (let opc = ucast (instr AND 0x7F); funct3 = ucast (drop_bit 12 instr AND 0x7);
          funct7 = ucast (drop_bit 25 instr AND 0x7F);
          rs1 = ucast (drop_bit 15 instr AND 0x1F); rs2 = ucast (drop_bit 20 instr AND 0x1F);
          rs1 = (if opc \<in> {0x37, 0x17, 0x6F} then 0 else rs1);
          rs2 = (if opc \<in> {0x37, 0x17, 0x6F} then 0
                 else if opc \<in> {0x13, 0x1B, 0x03, 0x07, 0x67} \<or>
                         opc = 0x73 \<and> \<not> (drop_bit 25 instr AND 0x7F = 0x09 \<and> drop_bit 12 instr AND 0x7 = 0)
                 then 0 else rs2);
          rd = (if opc \<in> {0x23, 0x27, 0x63} then 0 else ucast (drop_bit 7 instr AND 0x1F));
          d = d\<lparr>d_is_compressed := False, d_opcode := opc, d_funct3 := funct3, d_rs1 := rs1, d_rs2 := rs2,
                d_funct7 := funct7, d_rd := rd\<rparr>;
          d = (if opc \<in> {0x6F, 0x67}
               then d\<lparr>d_is_ras_call := (rd = 1 \<or> rd = 5),
                      d_is_ras_return := (opc = 0x67 \<and> (rs1 = 1 \<or> rs1 = 5) \<and> rs1 \<noteq> rd)\<rparr>
               else d)
      in d\<lparr>d_imm := imm32 opc instr, d_valid := True\<rparr>)"

section \<open>The stage\<close>

definition id_start :: "Fetch_ID_Latch \<Rightarrow> ID_Issue_Latch \<Rightarrow> ID_Issue_Latch" where
  "id_start f d =
     d\<lparr>d_pc := f_pc f, d_instr := f_instr f, d_funct7 := 0, d_imm := 0, d_is_illegal := False,
       d_predicted_taken := f_predicted_taken f, d_predicted_target := f_predicted_target f,
       d_is_ras_call := False, d_is_ras_return := False\<rparr>"

definition unpredict :: "P6 \<Rightarrow> P6" where
  "unpredict s =
     (let f = fetch_id_reg s in
      if d_opcode (id_issue_next s) \<notin> {0x63, 0x6F, 0x67} \<and> f_predicted_taken f
      then redirect (f_pc f + (if f_is_compressed f then 2 else 4)) s else s)"

definition ID_stage :: "P6 \<Rightarrow> P6" where
  "ID_stage s =
     (let f = fetch_id_reg s; d = id_start f (id_issue_next s) in
      if flush_pipeline s then s\<lparr>id_issue_next := (id_issue_next s)\<lparr>d_valid := False\<rparr>\<rparr>
      else if stall_issue s then s
      else if \<not> f_valid f then s\<lparr>id_issue_next := (id_issue_next s)\<lparr>d_valid := False\<rparr>\<rparr>
      else if f_is_compressed f then
        (let d = d\<lparr>d_is_compressed := True\<rparr> in
         case c_expand (f_instr f AND 0xFFFF) d of
           None \<Rightarrow> s\<lparr>id_issue_next := d\<lparr>d_is_illegal := True, d_valid := True\<rparr>\<rparr>
         | Some d \<Rightarrow> unpredict (s\<lparr>id_issue_next := d\<lparr>d_valid := True\<rparr>\<rparr>))
      else unpredict (s\<lparr>id_issue_next := decode32 (f_instr f) d\<rparr>))"

end
