(* ===== verification/P6_Issue.thy ===== *)
theory P6_Issue
  imports P6_Decode
begin

unbundle bit_operations_syntax

text \<open>
  The issue stage of the six-stage core: unit classification, operand resolution with forwarding
  from the scoreboard, the data, timing and structural hazards, scoreboard allocation, the
  illegal-instruction trap and dispatch.
\<close>

section \<open>Draining and flushing\<close>

text \<open>The loops that make older instructions architectural before a trap: ready entries are retired
  from the scoreboard's head, up to the trapping instruction's entry where there is one, then
  every committed store is written to memory.\<close>

definition retire_head :: "bool \<Rightarrow> P6 \<Rightarrow> P6" where
  "retire_head check_fp s =
     (let e = sb_get_head (scoreboard s);
          s = (if sb_rd e \<noteq> 0 \<and> \<not> (check_fp \<and> sb_writes_to_fp_reg e)
               then s\<lparr>cpu_regs := setValue (unat (sb_rd e)) (sb_result e) (cpu_regs s)\<rparr> else s);
          s = (if sb_is_store e
               then s\<lparr>store_buffer := snd (commit_store (sb_get_head_index (scoreboard s)) (store_buffer s))\<rparr>
               else s)
      in upd_sb sb_retire s)"

lemma retire_head_sb [simp]: "scoreboard (retire_head c s) = sb_retire (scoreboard s)"
  by (simp add: retire_head_def Let_def upd_sb_def)

lemma retire_count: "sb_head_ready sb \<Longrightarrow> sb_count (sb_retire sb) < sb_count sb"
  by (simp add: sb_head_ready_def sb_retire_def sb_is_empty_def)

function drain_rob :: "bool \<Rightarrow> int option \<Rightarrow> P6 \<Rightarrow> P6" where
  "drain_rob check_fp stop s =
     (if sb_head_ready (scoreboard s) \<and> stop \<noteq> Some (sb_get_head_index (scoreboard s))
      then drain_rob check_fp stop (retire_head check_fp s) else s)"
  by pat_completeness auto
termination
  by (relation "measure (\<lambda>(c, i, s). sb_count (scoreboard s))") (auto dest: retire_count)

declare drain_rob.simps [simp del]

definition mem_store :: "u64 \<Rightarrow> u64 \<Rightarrow> nat \<Rightarrow> P6 \<Rightarrow> sim_error + P6" where
  "mem_store addr data sz s = (if sz = 8 then p6_write64 addr data sz s else p6_write addr (ucast data) sz s)"

lemma mem_store_sb: "mem_store a d n s = Inr s' \<Longrightarrow> store_buffer s' = store_buffer s"
  by (auto simp: mem_store_def p6_write_def p6_write64_def and_then_Inr split: if_splits)

function drain_stores :: "P6 \<Rightarrow> sim_error + P6" where
  "drain_stores s =
     (case drain_one (store_buffer s) of
        (None, b) \<Rightarrow> Inr (s\<lparr>store_buffer := b\<rparr>)
      | (Some (addr, data, sz), b) \<Rightarrow>
          (case mem_store addr data sz (s\<lparr>store_buffer := b\<rparr>) of
             Inl e \<Rightarrow> Inl e
           | Inr s \<Rightarrow> drain_stores s))"
  by pat_completeness auto
termination
  by (relation "measure (\<lambda>s. stb_commit_count (store_buffer s))") (auto dest!: mem_store_sb drain_one_decreases[OF sym])

declare drain_stores.simps [simp del]

abbreviation fu_cancel :: "FunctionalUnitState \<Rightarrow> FunctionalUnitState" where
  "fu_cancel u \<equiv> u\<lparr>fu_busy := False\<rparr>"

definition flush_units :: "P6 \<Rightarrow> P6" where
  "flush_units s =
     s\<lparr>dcache_miss_fu := map fu_cancel (dcache_miss_fu s),
       mul_fu := fu_cancel (mul_fu s), div_fu := fu_cancel (div_fu s), load_hit_fu := fu_cancel (load_hit_fu s),
       fpu_pipe := map fu_cancel (fpu_pipe s), fpu_divsqrt_fu := fu_cancel (fpu_divsqrt_fu s)\<rparr>"

definition flush_backend :: "P6 \<Rightarrow> P6" where
  "flush_backend s =
     flush_units (s\<lparr>scoreboard := sb_flush (scoreboard s), store_buffer := stb_flush_speculative (store_buffer s)\<rparr>)"

section \<open>Operands and hazards\<close>

definition issue_fu :: "ID_Issue_Latch \<Rightarrow> FunctionalUnit" where
  "issue_fu d =
     (let opc = d_opcode d; is_m = (d_funct7 d = 0x01 \<and> opc \<in> {0x33, 0x3B}) in
      if opc \<in> {0x03, 0x23, 0x2F} then FU_LSU
      else if opc \<in> {0x63, 0x6F, 0x67} then FU_BRANCH
      else if opc = 0x73 then FU_CSR
      else if opc \<in> {0x07, 0x27, 0x43, 0x47, 0x4B, 0x4F, 0x53} then FU_FPU
      else if is_m then (if d_funct3 d \<ge> 4 then FU_DIV else FU_MUL)
      else FU_ALU)"

text \<open>The operand of an integer source register, or None when its producer has not finished.\<close>

definition read_operand :: "u8 \<Rightarrow> P6 \<Rightarrow> u64 option" where
  "read_operand r s =
     (if r = 0 then Some 0
      else let clob = sb_rd_clobber (scoreboard s) ! unat r in
        if cl_busy clob then
          (let prod = sb_get_entry (scoreboard s) (cl_trans_id clob) in
           if sb_ready prod then Some (sb_result prod) else None)
        else Some (getValue (unat r) (cpu_regs s)))"

text \<open>A floating-point source waits for its producer and is then read from the register file, which the
  producer wrote when it executed.\<close>

definition fp_pending :: "nat \<Rightarrow> P6 \<Rightarrow> bool" where
  "fp_pending r s =
     (let clob = sb_fp_clobber (scoreboard s) ! r in
      cl_busy clob \<and> \<not> sb_ready (sb_get_entry (scoreboard s) (cl_trans_id clob)))"

definition read_fp_operand :: "u8 \<Rightarrow> P6 \<Rightarrow> u64 option" where
  "read_fp_operand r s = (if fp_pending (unat r) s then None else Some (cpu_fregs s (unat r mod 32)))"

definition writes_to_int_reg :: "FunctionalUnit \<Rightarrow> ID_Issue_Latch \<Rightarrow> bool" where
  "writes_to_int_reg fu d \<longleftrightarrow>
     fu \<noteq> FU_FPU \<or> d_opcode d = 0x53 \<and> d_funct7 d \<in> {0x50, 0x51, 0x60, 0x61, 0x70, 0x71}"

definition reads_rs1_as_int :: "FunctionalUnit \<Rightarrow> ID_Issue_Latch \<Rightarrow> bool" where
  "reads_rs1_as_int fu d \<longleftrightarrow>
     fu \<noteq> FU_FPU \<or> d_opcode d = 0x07 \<or> d_opcode d = 0x27 \<or>
     d_opcode d = 0x53 \<and> d_funct7 d \<in> {0x68, 0x69, 0x78, 0x79}"

definition reads_rs2_as_int :: "FunctionalUnit \<Rightarrow> bool" where
  "reads_rs2_as_int fu \<longleftrightarrow> fu \<noteq> FU_FPU"

definition issue_operands :: "FunctionalUnit \<Rightarrow> P6 \<Rightarrow> u64 option \<times> u64 option" where
  "issue_operands fu s =
     (let d = id_issue_reg s in
      (if reads_rs1_as_int fu d then read_operand (d_rs1 d) s else read_fp_operand (d_rs1 d) s,
       if reads_rs2_as_int fu then read_operand (d_rs2 d) s else read_fp_operand (d_rs2 d) s))"

definition rs3_pending :: "P6 \<Rightarrow> bool" where
  "rs3_pending s =
     (let d = id_issue_reg s in
      d_opcode d \<in> {0x43, 0x47, 0x4B, 0x4F} \<and> fp_pending (unat (drop_bit 27 (d_instr d) AND 0x1F)) s)"

definition shift_hazard :: "FunctionalUnit \<Rightarrow> P6 \<Rightarrow> bool" where
  "shift_hazard fu s =
     (let x = issue_ex_reg s; d = id_issue_reg s;
          ex_opcode = x_instr x AND 0x7F; ex_funct3 = drop_bit 12 (x_instr x) AND 0x7;
          ex_is_shift = (ex_opcode \<in> {0x33, 0x3B, 0x13, 0x1B} \<and> (ex_funct3 = 1 \<or> ex_funct3 = 5));
          consumer_is_logical = (d_opcode d \<in> {0x33, 0x3B, 0x13, 0x1B} \<and> d_funct3 d \<in> {4, 6, 7})
      in x_valid x \<and> ex_is_shift \<and> x_rd x \<noteq> 0 \<and>
         (d_rs1 d = x_rd x \<and> reads_rs1_as_int fu d \<or> d_rs2 d = x_rd x \<and> reads_rs2_as_int fu) \<and> \<not> consumer_is_logical)"

definition csr_hazard :: "P6 \<Rightarrow> bool" where
  "csr_hazard s \<longleftrightarrow>
     d_opcode (id_issue_reg s) = 0x73 \<and> d_funct3 (id_issue_reg s) \<noteq> 0 \<and>
     pending_csr_write s = Some (ucast (drop_bit 20 (d_instr (id_issue_reg s))))"

definition fpu_csr_hazard :: "FunctionalUnit \<Rightarrow> P6 \<Rightarrow> bool" where
  "fpu_csr_hazard fu s \<longleftrightarrow> fu = FU_FPU \<and> pending_csr_write s \<in> {Some 0x001, Some 0x002, Some 0x003}"

definition load_address_hazard :: "P6 \<Rightarrow> bool" where
  "load_address_hazard s =
     (let d = id_issue_reg s in
      load_addr_penalty s > 0 \<and> d_opcode d \<in> {0x03, 0x23, 0x07, 0x27, 0x2F} \<and> d_rs1 d \<noteq> 0 \<and>
      drop_bit (unat (d_rs1 d)) (reg_load_tainted s) AND 1 \<noteq> 0)"

definition clear_taint :: "u8 \<Rightarrow> u32 \<Rightarrow> u32" where
  "clear_taint r t = t AND NOT (push_bit (unat r) 1)"

definition propagate_taint :: "P6 \<Rightarrow> P6" where
  "propagate_taint s =
     (let d = id_issue_reg s; t = reg_load_tainted s;
          is_addr_alu = (d_opcode d \<in> {0x13, 0x33, 0x1B, 0x3B});
          src_tainted = (drop_bit (unat (d_rs1 d)) t AND 1 \<noteq> 0 \<or> drop_bit (unat (d_rs2 d)) t AND 1 \<noteq> 0)
      in if d_rd d = 0 then s
         else if is_addr_alu \<and> src_tainted
         then s\<lparr>reg_load_tainted := clear_taint (d_rs2 d) (clear_taint (d_rs1 d) t) OR push_bit (unat (d_rd d)) 1\<rparr>
         else if d_opcode d \<noteq> 0x03 \<and> d_opcode d \<noteq> 0x07
         then s\<lparr>reg_load_tainted := clear_taint (d_rd d) t\<rparr>
         else s)"

definition dcache_miss_fu_full :: "P6 \<Rightarrow> bool" where
  "dcache_miss_fu_full s \<longleftrightarrow> list_all fu_busy (dcache_miss_fu s)"

definition dcache_miss_fu_any_busy :: "P6 \<Rightarrow> bool" where
  "dcache_miss_fu_any_busy s \<longleftrightarrow> list_ex fu_busy (dcache_miss_fu s)"

definition fpu_pipe_full :: "P6 \<Rightarrow> bool" where
  "fpu_pipe_full s \<longleftrightarrow> list_all fu_busy (fpu_pipe s)"

definition fpu_any_busy :: "P6 \<Rightarrow> bool" where
  "fpu_any_busy s \<longleftrightarrow> list_ex fu_busy (fpu_pipe s) \<or> fu_busy (fpu_divsqrt_fu s)"

definition structural_hazard :: "FunctionalUnit \<Rightarrow> P6 \<Rightarrow> bool" where
  "structural_hazard fu s \<longleftrightarrow>
     fu = FU_MUL \<and> fu_busy (mul_fu s) \<or>
     fu = FU_DIV \<and> fu_busy (div_fu s) \<or>
     fu = FU_FPU \<and> (fpu_pipe_full s \<or> fu_busy (fpu_divsqrt_fu s)) \<or>
     d_opcode (id_issue_reg s) = 0x07 \<and> dcache_miss_fu_full s \<or>
     fu = FU_LSU \<and> (d_opcode (id_issue_reg s) = 0x03 \<or> d_opcode (id_issue_reg s) = 0x2F) \<and>
       (dcache_miss_fu_full s \<or> fu_busy (load_hit_fu s)) \<or>
     d_opcode (id_issue_reg s) = 0x23 \<and> spec_is_full (store_buffer s) \<or>
     d_opcode (id_issue_reg s) = 0x2F \<and> \<not> stb_is_empty (store_buffer s) \<or>
     d_opcode (id_issue_reg s) = 0x73 \<and>
       (dcache_miss_fu_any_busy s \<or> fu_busy (mul_fu s) \<or> fu_busy (div_fu s) \<or> fpu_any_busy s \<or>
        fu_busy (load_hit_fu s))"

section \<open>The stage\<close>

definition issue_bubble :: "P6 \<Rightarrow> P6" where
  "issue_bubble s = s\<lparr>issue_ex_next := (issue_ex_next s)\<lparr>x_valid := False\<rparr>\<rparr>"

definition issue_stall :: "P6 \<Rightarrow> P6" where
  "issue_stall s = issue_bubble (s\<lparr>stall_issue := True\<rparr>)"

definition set_entry :: "int \<Rightarrow> (sb_entry \<Rightarrow> sb_entry) \<Rightarrow> Scoreboard \<Rightarrow> Scoreboard" where
  "set_entry i f sb = sb\<lparr>sb_entries := (sb_entries sb)[nat i := f (sb_entries sb ! nat i)]\<rparr>"

definition issue_illegal :: "P6 \<Rightarrow> sim_error + P6" where
  "issue_illegal s =
     and_then (drain_stores (drain_rob False None s))
       (\<lambda>s. Inr (issue_bubble ((take_trap 2 (d_pc (id_issue_reg s)) (ucast (d_instr (id_issue_reg s)))
                   (flush_backend s))\<lparr>trap_pending := True\<rparr>)))"

definition ex_latch :: "ID_Issue_Latch \<Rightarrow> int \<Rightarrow> u64 \<Rightarrow> u64 \<Rightarrow> Issue_EX_Latch" where
  "ex_latch d rob v1 v2 =
     \<lparr>x_pc = d_pc d, x_instr = d_instr d, x_rs1_val = v1, x_rs2_val = v2,
      x_imm = d_imm d, x_rd = d_rd d, x_rs1 = d_rs1 d, x_rs2 = d_rs2 d, x_opcode = d_opcode d,
      x_funct3 = d_funct3 d, x_funct7 = d_funct7 d, x_rob_index = rob, x_valid = True,
      x_is_compressed = d_is_compressed d, x_predicted_taken = d_predicted_taken d,
      x_predicted_target = d_predicted_target d, x_is_ras_call = d_is_ras_call d,
      x_is_ras_return = d_is_ras_return d\<rparr>"

definition dispatch :: "int \<Rightarrow> FunctionalUnit \<Rightarrow> u64 \<Rightarrow> u64 \<Rightarrow> P6 \<Rightarrow> P6" where
  "dispatch rob fu v1 v2 s =
     (let d = id_issue_reg s;
          s = s\<lparr>issue_ex_next := ex_latch d rob v1 v2\<rparr>;
          int_reg = writes_to_int_reg fu d;
          writer = \<lparr>cl_busy = True, cl_fu = fu, cl_trans_id = rob\<rparr>;
          s = upd_sb (set_entry rob (\<lambda>e. e\<lparr>sb_writes_to_fp_reg := \<not> int_reg\<rparr>)) s
      in if d_rd d \<noteq> 0 \<and> int_reg
         then upd_sb (\<lambda>sb. sb\<lparr>sb_rd_clobber := (sb_rd_clobber sb)[unat (d_rd d) := writer]\<rparr>) s
         else if \<not> int_reg
         then upd_sb (\<lambda>sb. sb\<lparr>sb_fp_clobber := (sb_fp_clobber sb)[unat (d_rd d) := writer]\<rparr>) s
         else s)"

definition issue_allocate :: "FunctionalUnit \<Rightarrow> u64 \<Rightarrow> u64 \<Rightarrow> P6 \<Rightarrow> sim_error + P6" where
  "issue_allocate fu v1 v2 s =
     (case sb_allocate (scoreboard s) of (rob, sb) \<Rightarrow>
        if rob < 0 then Inr (issue_stall s)
        else
          let d = id_issue_reg s;
              s = s\<lparr>scoreboard := set_entry rob
                     (\<lambda>e. e\<lparr>sb_pc := d_pc d,
                            sb_is_store := (d_opcode d = 0x23 \<or> d_opcode d = 0x27),
                            sb_is_branch := (d_opcode d \<in> {0x63, 0x6F, 0x67}), sb_fu := fu\<rparr>) sb\<rparr>
          in if d_is_illegal d then issue_illegal s else Inr (dispatch rob fu v1 v2 s))"

definition issue_instruction :: "P6 \<Rightarrow> sim_error + P6" where
  "issue_instruction s =
     (let d = id_issue_reg s; fu = issue_fu d in
      case issue_operands fu s of
        (Some v1, Some v2) \<Rightarrow>
          if rs3_pending s \<or> shift_hazard fu s \<or> csr_hazard s \<or> fpu_csr_hazard fu s then Inr (issue_stall s)
          else if load_address_hazard s then
            Inr (issue_stall (s\<lparr>load_addr_extra := load_addr_penalty s - 1,
                                reg_load_tainted := clear_taint (d_rs1 d) (reg_load_tainted s)\<rparr>))
          else let s = propagate_taint s in
            if structural_hazard fu s then Inr (issue_stall s) else issue_allocate fu v1 v2 s
      | _ \<Rightarrow> Inr (issue_stall s))"

definition Issue_stage :: "P6 \<Rightarrow> sim_error + P6" where
  "Issue_stage s =
     (if stall_ex s then Inr (issue_stall s)
      else let s = s\<lparr>stall_pcgen := False, stall_fetch := False, stall_issue := False\<rparr> in
        if flush_pipeline s then Inr (issue_bubble s)
        else if \<not> d_valid (id_issue_reg s) then Inr (issue_bubble s)
        else if load_addr_extra s > 0 then Inr (issue_stall (s\<lparr>load_addr_extra := load_addr_extra s - 1\<rparr>))
        else issue_instruction s)"

end
