(* ===== verification/P6_ALU.thy ===== *)
theory P6_ALU
  imports P6_State
begin

unbundle bit_operations_syntax

text \<open>
  The integer datapath of the execute stage of the six-stage core: what the switch over the opcode
  computes from the operands in the Issue/EX latch.  Signed arithmetic that may overflow in
  the source wraps, as the compilers the project supports generate it; products of
  \<^verbatim>\<open>__int128\<close> are 128-bit words.
\<close>

section \<open>Register and immediate operations\<close>

definition ex_op :: "Issue_EX_Latch \<Rightarrow> u64" where
  "ex_op x =
     (let a = x_rs1_val x; b = x_rs2_val x; sh = unat (b AND 0x3F); f3 = x_funct3 x in
      if f3 = 0 then (if x_funct7 x = 0x20 then a - b else a + b)
      else if f3 = 1 then push_bit sh a
      else if f3 = 2 then of_bool (a <s b)
      else if f3 = 3 then of_bool (a < b)
      else if f3 = 4 then a XOR b
      else if f3 = 5 then (if x_funct7 x = 0x20 then signed_drop_bit sh a else drop_bit sh a)
      else if f3 = 6 then a OR b
      else if f3 = 7 then a AND b
      else 0)"

definition ex_op_imm :: "Issue_EX_Latch \<Rightarrow> u64" where
  "ex_op_imm x =
     (let a = x_rs1_val x; i = x_imm x; sh = unat (i AND 0x3F); f3 = x_funct3 x in
      if f3 = 0 then a + i
      else if f3 = 2 then of_bool (a <s i)
      else if f3 = 3 then of_bool (a < i)
      else if f3 = 4 then a XOR i
      else if f3 = 6 then a OR i
      else if f3 = 7 then a AND i
      else if f3 = 1 then push_bit sh a
      else if f3 = 5 then (if i AND 0x400 \<noteq> 0 then signed_drop_bit sh a else drop_bit sh a)
      else 0)"

definition ex_op_imm32 :: "Issue_EX_Latch \<Rightarrow> u64" where
  "ex_op_imm32 x =
     (let a = ucast (x_rs1_val x) :: u32; sh = unat (x_imm x AND 0x1F); f3 = x_funct3 x in
      if f3 = 0 then scast (a + ucast (x_imm x))
      else if f3 = 1 then scast (push_bit sh a)
      else if f3 = 5 then (if x_funct7 x = 0x20 then scast (signed_drop_bit sh a) else scast (drop_bit sh a))
      else 0)"

definition ex_op32 :: "Issue_EX_Latch \<Rightarrow> u64" where
  "ex_op32 x =
     (let a = ucast (x_rs1_val x) :: u32; b = ucast (x_rs2_val x); sh = unat (b AND 0x1F); f3 = x_funct3 x in
      if f3 = 0 then scast (if x_funct7 x = 0x20 then a - b else a + b)
      else if f3 = 1 then scast (push_bit sh a)
      else if f3 = 5 then (if x_funct7 x = 0x20 then scast (signed_drop_bit sh a) else scast (drop_bit sh a))
      else 0)"

section \<open>Multiplication and division\<close>

definition mul_result :: "u8 \<Rightarrow> u64 \<Rightarrow> u64 \<Rightarrow> u64" where
  "mul_result f3 u1 u2 =
     (if f3 = 0 then u1 * u2
      else if f3 = 1 then ucast (signed_drop_bit 64 ((scast u1 :: 128 word) * scast u2))
      else if f3 = 2 then ucast (drop_bit 64 ((scast u1 :: 128 word) * ucast u2))
      else if f3 = 3 then ucast (drop_bit 64 ((ucast u1 :: 128 word) * ucast u2))
      else if f3 = 4 then
        (if u2 = 0 then - 1 else if u1 = 0x8000000000000000 \<and> u2 = - 1 then u1
         else word_of_int (sint u1 sdiv sint u2))
      else if f3 = 5 then (if u2 = 0 then - 1 else u1 div u2)
      else if f3 = 6 then
        (if u2 = 0 then u1 else if u1 = 0x8000000000000000 \<and> u2 = - 1 then 0
         else word_of_int (sint u1 smod sint u2))
      else if f3 = 7 then (if u2 = 0 then u1 else u1 mod u2)
      else 0)"

definition mulw_result :: "u8 \<Rightarrow> u64 \<Rightarrow> u64 \<Rightarrow> u64" where
  "mulw_result f3 v1 v2 =
     (let w1 = ucast v1 :: u32; w2 = ucast v2 :: u32 in
      if f3 = 0 then scast (w1 * w2)
      else if f3 = 4 then
        (if w2 = 0 then - 1 else if w1 = 0x80000000 \<and> w2 = - 1 then scast w1
         else word_of_int (sint w1 sdiv sint w2))
      else if f3 = 5 then (if w2 = 0 then - 1 else scast (w1 div w2))
      else if f3 = 6 then
        (if w2 = 0 then scast w1 else if w1 = 0x80000000 \<and> w2 = - 1 then 0
         else word_of_int (sint w1 smod sint w2))
      else if f3 = 7 then (if w2 = 0 then scast w1 else scast (w1 mod w2))
      else 0)"

definition clz_step :: "u64 \<Rightarrow> nat \<Rightarrow> nat \<times> u64 \<Rightarrow> nat \<times> u64" where
  "clz_step m k nv = (case nv of (n, val) \<Rightarrow> if val AND m = 0 then (n + k, push_bit k val) else (n, val))"

definition clz64 :: "u64 \<Rightarrow> nat" where
  "clz64 val =
     (if val = 0 then 64
      else fst (clz_step 0x8000000000000000 1 (clz_step 0xC000000000000000 2 (clz_step 0xF000000000000000 4
        (clz_step 0xFF00000000000000 8 (clz_step 0xFFFF000000000000 16 (clz_step 0xFFFFFFFF00000000 32 (0, val))))))))"

definition div_cycles :: "bool \<Rightarrow> u64 \<Rightarrow> u64 \<Rightarrow> int" where
  "div_cycles is_signed A B =
     (let op_a_sign = is_signed \<and> A <s 0; op_b_sign = is_signed \<and> B <s 0;
          lzc_a_input = (if op_a_sign then NOT A + 1 else A);
          lzc_b_input = (if op_b_sign then NOT B else B);
          lzc_a_no_one = (lzc_a_input = 0); lzc_b_no_one = (lzc_b_input = 0);
          shift_a = (if lzc_a_no_one then 64 else int (clz64 lzc_a_input));
          div_shift = int (clz64 lzc_b_input) - shift_a;
          op_b_zero = lzc_b_no_one \<and> \<not> op_b_sign; op_b_neg_one = lzc_b_no_one \<and> op_b_sign;
          div_res_zero = div_shift < 0
      in if div_res_zero \<or> op_b_zero \<or> op_b_neg_one then 1 else div_shift + 6)"

definition div_latency :: "u8 \<Rightarrow> u64 \<Rightarrow> u64 \<Rightarrow> int" where
  "div_latency f3 a b = (if f3 \<ge> 4 then div_cycles (f3 = 4 \<or> f3 = 6) a b else 1)"

definition divw_latency :: "u8 \<Rightarrow> u64 \<Rightarrow> u64 \<Rightarrow> int" where
  "divw_latency f3 a b =
     (if f3 \<ge> 4 then
        (if f3 = 4 \<or> f3 = 6 then div_cycles True (scast (ucast a :: u32)) (scast (ucast b :: u32))
         else div_cycles False (ucast (ucast a :: u32)) (ucast (ucast b :: u32)))
      else 1)"

section \<open>Control transfer\<close>

definition instr_size :: "Issue_EX_Latch \<Rightarrow> u64" where
  "instr_size x = (if x_is_compressed x then 2 else 4)"

definition ex_result :: "Issue_EX_Latch \<Rightarrow> u64" where
  "ex_result x =
     (let opc = x_opcode x in
      if opc = 0x33 then ex_op x
      else if opc = 0x13 then ex_op_imm x
      else if opc = 0x37 then x_imm x
      else if opc = 0x17 then x_pc x + x_imm x
      else if opc = 0x1B then ex_op_imm32 x
      else if opc = 0x3B then ex_op32 x
      else if opc = 0x6F \<or> opc = 0x67 then x_pc x + instr_size x
      else 0)"

definition branch_taken :: "Issue_EX_Latch \<Rightarrow> bool" where
  "branch_taken x =
     (let a = x_rs1_val x; b = x_rs2_val x; f3 = x_funct3 x in
      if x_opcode x = 0x6F \<or> x_opcode x = 0x67 then True
      else if f3 = 0 then a = b
      else if f3 = 1 then a \<noteq> b
      else if f3 = 4 then a <s b
      else if f3 = 5 then b \<le>s a
      else if f3 = 6 then a < b
      else if f3 = 7 then b \<le> a
      else False)"

definition branch_target :: "Issue_EX_Latch \<Rightarrow> u64" where
  "branch_target x =
     (if x_opcode x = 0x67 then (x_rs1_val x + x_imm x) AND NOT 1 else x_pc x + x_imm x)"

definition branch_next :: "Issue_EX_Latch \<Rightarrow> u64" where
  "branch_next x = (if branch_taken x then branch_target x else x_pc x + instr_size x)"

end
