(* ===== verification/P6_Execute.thy ===== *)
theory P6_Execute
  imports P6_Issue P6_ALU
begin

unbundle bit_operations_syntax

text \<open>
  The execute stage of the six-stage core: the functional-unit counters, multiplication and
  division, loads with store-to-load forwarding, stores into the speculative queue, atomics,
  branch verification and predictor training, system instructions, and the common exit that
  completes the instruction or drains the pipeline for a trap.  A section of the stage yields the
  state, whether a unit completes the instruction later (\<^verbatim>\<open>multi_cycle_dispatched\<close>) and the
  result.
\<close>

type_synonym ex_out = "P6 \<times> bool \<times> u64"

section \<open>Functional units\<close>

definition tick_fu :: "bool \<Rightarrow> FunctionalUnitState \<Rightarrow> Scoreboard \<times> u32 \<Rightarrow> FunctionalUnitState \<times> Scoreboard \<times> u32" where
  "tick_fu load u st =
     (case st of (sb, taint) \<Rightarrow>
        if fu_busy u then
          (let u = u\<lparr>fu_remaining := fu_remaining u - 1\<rparr> in
           if fu_remaining u = 0
           then (u\<lparr>fu_busy := False\<rparr>, sb_complete (fu_trans_id u) (fu_result u) (fu_rd u) sb,
                 if load \<and> fu_rd u \<noteq> 0 then taint OR push_bit (unat (fu_rd u)) 1 else taint)
           else (u, sb, taint))
        else (u, sb, taint))"

fun tick_fus :: "bool \<Rightarrow> FunctionalUnitState list \<Rightarrow> Scoreboard \<times> u32 \<Rightarrow> FunctionalUnitState list \<times> Scoreboard \<times> u32" where
  "tick_fus load [] st = ([], st)"
| "tick_fus load (u # us) st =
     (case tick_fu load u st of (u, st) \<Rightarrow> case tick_fus load us st of (us, st) \<Rightarrow> (u # us, st))"

definition tick_units :: "P6 \<Rightarrow> P6" where
  "tick_units s =
     (let (m, st) = tick_fu False (mul_fu s) (scoreboard s, reg_load_tainted s);
          (d, st) = tick_fu False (div_fu s) st;
          (ds, st) = tick_fus True (dcache_miss_fu s) st;
          (l, st) = tick_fu True (load_hit_fu s) st;
          (fs, st) = tick_fus False (fpu_pipe s) st;
          (q, sb, taint) = tick_fu False (fpu_divsqrt_fu s) st
      in s\<lparr>mul_fu := m, div_fu := d, dcache_miss_fu := ds, load_hit_fu := l, fpu_pipe := fs,
           fpu_divsqrt_fu := q, scoreboard := sb, reg_load_tainted := taint\<rparr>)"

definition start_fu :: "int \<Rightarrow> u64 \<Rightarrow> Issue_EX_Latch \<Rightarrow> FunctionalUnitState" where
  "start_fu n v x = \<lparr>fu_busy = True, fu_remaining = n, fu_result = v, fu_trans_id = x_rob_index x, fu_rd = x_rd x\<rparr>"

definition ex_muldiv :: "P6 \<Rightarrow> ex_out" where
  "ex_muldiv s =
     (let x = issue_ex_reg s; f3 = x_funct3 x; a = x_rs1_val x; b = x_rs2_val x;
          n = (if x_opcode x = 0x33 then div_latency f3 a b else divw_latency f3 a b);
          v = (if x_opcode x = 0x33 then mul_result f3 a b else mulw_result f3 a b)
      in (if f3 \<ge> 4 then s\<lparr>div_fu := start_fu n v x\<rparr> else s\<lparr>mul_fu := start_fu n v x\<rparr>, True, 0))"

section \<open>Faults\<close>

definition has_unready_older :: "P6 \<Rightarrow> bool" where
  "has_unready_older s \<longleftrightarrow>
     \<not> sb_is_empty (scoreboard s) \<and> sb_get_head_index (scoreboard s) \<noteq> x_rob_index (issue_ex_reg s)"

definition ex_complete :: "u64 \<Rightarrow> u8 \<Rightarrow> P6 \<Rightarrow> P6" where
  "ex_complete v rd s = upd_sb (sb_complete (x_rob_index (issue_ex_reg s)) v rd) s"

definition ex_replay :: "P6 \<Rightarrow> ex_out" where
  "ex_replay s = (s\<lparr>stall_ex := True\<rparr>, True, 0)"

definition ex_fault :: "u64 \<Rightarrow> u64 \<Rightarrow> P6 \<Rightarrow> ex_out" where
  "ex_fault cause tval s =
     (if has_unready_older s then ex_replay s
      else (ex_complete 0 0 ((take_trap cause (x_pc (issue_ex_reg s)) tval s)\<lparr>trap_pending := True\<rparr>), True, 0))"

section \<open>Loads\<close>

definition load_misaligned :: "u8 \<Rightarrow> u64 \<Rightarrow> bool" where
  "load_misaligned f3 va \<longleftrightarrow>
     (f3 = 1 \<or> f3 = 5) \<and> va AND 1 \<noteq> 0 \<or> (f3 = 2 \<or> f3 = 6) \<and> va AND 3 \<noteq> 0 \<or> f3 = 3 \<and> va AND 7 \<noteq> 0"

definition load_size :: "u8 \<Rightarrow> nat" where
  "load_size f3 =
     (if f3 = 0 \<or> f3 = 4 then 1 else if f3 = 1 \<or> f3 = 5 then 2 else if f3 = 2 \<or> f3 = 6 then 4
      else if f3 = 3 then 8 else 0)"

definition load_value :: "u8 \<Rightarrow> u64 \<Rightarrow> u64" where
  "load_value f3 raw =
     (if f3 = 0 then scast (ucast raw :: u8)
      else if f3 = 1 then scast (ucast raw :: u16)
      else if f3 = 2 then scast (ucast raw :: u32)
      else if f3 = 3 then raw
      else if f3 = 4 then raw AND 0xFF
      else if f3 = 5 then raw AND 0xFFFF
      else if f3 = 6 then raw AND 0xFFFFFFFF
      else 0)"

fun read_bytes :: "nat \<Rightarrow> nat \<Rightarrow> u64 \<Rightarrow> u64 \<Rightarrow> P6 \<Rightarrow> sim_error + u64 \<times> P6" where
  "read_bytes i 0 pa raw s = Inr (raw, s)"
| "read_bytes i (Suc n) pa raw s =
     and_then (p6_read (pa + of_nat i) 1 s)
       (\<lambda>(v, s). read_bytes (Suc i) n pa (raw OR push_bit (8 * i) (ucast v)) s)"

definition mem_load :: "u8 \<Rightarrow> u64 \<Rightarrow> P6 \<Rightarrow> sim_error + u64 \<times> P6" where
  "mem_load f3 a s =
     (if f3 = 0 then and_then (p6_read a 1 s) (\<lambda>(v, s). Inr (scast (ucast v :: u8), s))
      else if f3 = 1 then and_then (p6_read a 2 s) (\<lambda>(v, s). Inr (scast (ucast v :: u16), s))
      else if f3 = 2 then and_then (p6_read a 4 s) (\<lambda>(v, s). Inr (scast v, s))
      else if f3 = 3 then p6_read64 a 8 s
      else if f3 = 4 then and_then (p6_read a 1 s) (\<lambda>(v, s). Inr (ucast v, s))
      else if f3 = 5 then and_then (p6_read a 2 s) (\<lambda>(v, s). Inr (ucast v, s))
      else if f3 = 6 then and_then (p6_read a 4 s) (\<lambda>(v, s). Inr (ucast v, s))
      else Inr (0, s))"

fun free_slot :: "nat \<Rightarrow> FunctionalUnitState list \<Rightarrow> nat option" where
  "free_slot i [] = None"
| "free_slot i (u # us) = (if \<not> fu_busy u then Some i else free_slot (Suc i) us)"

definition miss_slot :: "P6 \<Rightarrow> nat" where
  "miss_slot s = (case free_slot 0 (dcache_miss_fu s) of Some i \<Rightarrow> i | None \<Rightarrow> 0)"

definition start_miss :: "nat \<Rightarrow> int \<Rightarrow> u64 \<Rightarrow> P6 \<Rightarrow> P6" where
  "start_miss i n v s = s\<lparr>dcache_miss_fu := (dcache_miss_fu s)[i := start_fu n v (issue_ex_reg s)]\<rparr>"

definition start_hit :: "u64 \<Rightarrow> P6 \<Rightarrow> P6" where
  "start_hit v s =
     (if fu_busy (load_hit_fu s) then s
      else s\<lparr>load_hit_fu := start_fu (load_hit_penalty s) v (issue_ex_reg s)\<rparr>)"

definition ex_load_misaligned :: "u64 \<Rightarrow> P6 \<Rightarrow> sim_error + ex_out \<times> bool" where
  "ex_load_misaligned va s =
     (let f3 = x_funct3 (issue_ex_reg s) in
      and_then (p6_translate va LOAD s)
        (\<lambda>(tr, s).
           if r_fault tr then Inr (ex_fault (r_fault_cause tr) va s, True)
           else and_then (read_bytes 0 (if f3 = 3 then 8 else if f3 = 2 \<or> f3 = 6 then 4 else 2) (r_paddr tr) 0 s)
             (\<lambda>(raw, s).
                let v = (if f3 \<in> {1, 2, 3, 5, 6} then load_value f3 raw else raw)
                in Inr ((ex_complete v (x_rd (issue_ex_reg s)) s, False, v), True))))"

definition load_from_memory :: "u64 \<Rightarrow> nat option \<Rightarrow> P6 \<Rightarrow> sim_error + ex_out \<times> bool" where
  "load_from_memory addr slot s =
     and_then (mem_load (x_funct3 (issue_ex_reg s)) addr s)
       (\<lambda>(v, s).
          case slot of
            Some i \<Rightarrow> Inr ((s\<lparr>dcache_miss_fu := (dcache_miss_fu s)[i := (dcache_miss_fu s ! i)\<lparr>fu_result := v\<rparr>]\<rparr>,
                           True, 0), False)
          | None \<Rightarrow>
              (case cache_access addr (dcache s) of (hit, c) \<Rightarrow>
                 let s = s\<lparr>dcache := c\<rparr> in
                 if \<not> hit then Inr ((start_miss (miss_slot s) (dcache_miss_penalty s - 1) v s, True, 0), False)
                 else Inr ((start_hit v s, True, 0), False)))"

definition ex_load :: "P6 \<Rightarrow> sim_error + ex_out \<times> bool" where
  "ex_load s =
     (let x = issue_ex_reg s; va = x_rs1_val x + x_imm x; f3 = x_funct3 x in
      if load_misaligned f3 va then ex_load_misaligned va s
      else and_then (p6_translate va LOAD s)
        (\<lambda>(tr, s).
           if r_fault tr then Inr (ex_fault (r_fault_cause tr) va s, True)
           else
             let addr = r_paddr tr;
                 slot = (if r_stall_cycles tr > 0 then Some (miss_slot s) else None);
                 s = (case slot of None \<Rightarrow> s
                      | Some i \<Rightarrow> start_miss i (r_stall_cycles tr + dcache_miss_penalty s - 1) 0 s)
             in if \<not> pmp_check addr (of_nat (load_size f3)) False False (cpu_csr s)
                then Inr (ex_fault 5 va s, True)
                else case forward_load addr (load_size f3) (store_buffer s) of
                  FWD_PARTIAL_OVERLAP \<Rightarrow> Inr (ex_replay s, True)
                | FWD_HIT fwd \<Rightarrow> Inr ((start_hit (load_value f3 fwd) s, True, 0), False)
                | FWD_MISS \<Rightarrow> load_from_memory addr slot s))"

section \<open>Stores\<close>

definition store_misaligned :: "u8 \<Rightarrow> u64 \<Rightarrow> bool" where
  "store_misaligned f3 va \<longleftrightarrow>
     f3 = 1 \<and> va AND 1 \<noteq> 0 \<or> f3 = 2 \<and> va AND 3 \<noteq> 0 \<or> f3 = 3 \<and> va AND 7 \<noteq> 0"

definition store_size :: "u8 \<Rightarrow> nat" where
  "store_size f3 = (if f3 = 0 then 1 else if f3 = 1 then 2 else if f3 = 2 then 4 else if f3 = 3 then 8 else 0)"

fun write_bytes :: "nat \<Rightarrow> nat \<Rightarrow> u64 \<Rightarrow> u64 \<Rightarrow> P6 \<Rightarrow> sim_error + P6" where
  "write_bytes i 0 pa v s = Inr s"
| "write_bytes i (Suc n) pa v s =
     and_then (p6_write (pa + of_nat i) (ucast (drop_bit (8 * i) v AND 0xFF)) 1 s) (write_bytes (Suc i) n pa v)"

definition ex_store_misaligned :: "u64 \<Rightarrow> P6 \<Rightarrow> sim_error + ex_out \<times> bool" where
  "ex_store_misaligned va s =
     (let x = issue_ex_reg s; f3 = x_funct3 x in
      and_then (p6_translate va STORE s)
        (\<lambda>(tr, s).
           if r_fault tr then Inr (ex_fault (r_fault_cause tr) va s, True)
           else and_then (write_bytes 0 (if f3 = 3 then 8 else if f3 = 2 then 4 else 2) (r_paddr tr) (x_rs2_val x) s)
             (\<lambda>s. Inr ((ex_complete 0 0 (upd_sb (set_entry (x_rob_index x) (\<lambda>e. e\<lparr>sb_is_store := False\<rparr>)) s),
                        False, 0), True))))"

definition break_reservation :: "u64 \<Rightarrow> nat \<Rightarrow> P6 \<Rightarrow> P6" where
  "break_reservation pa n s =
     (case load_reservation s of
        Some a \<Rightarrow> if a \<ge> pa \<and> a < pa + of_nat n then s\<lparr>load_reservation := None\<rparr> else s
      | None \<Rightarrow> s)"

definition ex_store :: "P6 \<Rightarrow> sim_error + ex_out \<times> bool" where
  "ex_store s =
     (let x = issue_ex_reg s; va = x_rs1_val x + x_imm x; f3 = x_funct3 x; n = store_size f3 in
      if store_misaligned f3 va then ex_store_misaligned va s
      else and_then (p6_translate va STORE s)
        (\<lambda>(tr, s).
           if r_fault tr then Inr (ex_fault (r_fault_cause tr) va s, True)
           else let pa = r_paddr tr in
             if \<not> pmp_check pa (of_nat n) True False (cpu_csr s) then Inr (ex_fault 7 va s, True)
             else Inr ((break_reservation pa n
                  (s\<lparr>store_buffer := snd (add_store pa (x_rs2_val x) n (x_rob_index x) (store_buffer s))\<rparr>),
                  False, 0), False)))"

section \<open>Atomics\<close>

definition amo_new :: "u8 \<Rightarrow> 'a::len word \<Rightarrow> 'a word \<Rightarrow> 'a word" where
  "amo_new funct5 old v =
     (if funct5 = 0x1 then v
      else if funct5 = 0x0 then old + v
      else if funct5 = 0x4 then old XOR v
      else if funct5 = 0xC then old AND v
      else if funct5 = 0x8 then old OR v
      else if funct5 = 0x10 then (if old <s v then old else v)
      else if funct5 = 0x14 then (if v <s old then old else v)
      else if funct5 = 0x18 then (if old < v then old else v)
      else if funct5 = 0x1C then (if old > v then old else v)
      else old)"

definition ex_lr :: "bool \<Rightarrow> u64 \<Rightarrow> P6 \<Rightarrow> sim_error + ex_out \<times> bool" where
  "ex_lr is_dword pa s =
     (case forward_load pa (if is_dword then 8 else 4) (store_buffer s) of
        FWD_PARTIAL_OVERLAP \<Rightarrow> Inr (ex_replay s, True)
      | FWD_HIT fwd \<Rightarrow>
          Inr ((s\<lparr>load_reservation := Some pa\<rparr>, False,
                if is_dword then fwd else scast (ucast fwd :: u32)), False)
      | FWD_MISS \<Rightarrow>
          if is_dword
          then and_then (p6_read64 pa 8 s) (\<lambda>(v, s). Inr ((s\<lparr>load_reservation := Some pa\<rparr>, False, v), False))
          else and_then (p6_read pa 4 s) (\<lambda>(v, s). Inr ((s\<lparr>load_reservation := Some pa\<rparr>, False, scast v), False)))"

definition ex_sc :: "bool \<Rightarrow> u64 \<Rightarrow> P6 \<Rightarrow> sim_error + ex_out \<times> bool" where
  "ex_sc is_dword pa s =
     (let v = x_rs2_val (issue_ex_reg s) in
      if load_reservation s = Some pa then
        and_then (if is_dword then p6_write64 pa v 8 s else p6_write pa (ucast v) 4 s)
          (\<lambda>s. Inr ((s\<lparr>store_buffer := invalidate_address pa (if is_dword then 8 else 4) (store_buffer s),
                      load_reservation := None\<rparr>, False, 0), False))
      else Inr ((s\<lparr>load_reservation := None\<rparr>, False, 1), False))"

definition ex_rmw :: "bool \<Rightarrow> u8 \<Rightarrow> u64 \<Rightarrow> P6 \<Rightarrow> sim_error + ex_out \<times> bool" where
  "ex_rmw is_dword funct5 pa s =
     (let v = x_rs2_val (issue_ex_reg s); n = (if is_dword then 8 else 4);
          fin = (\<lambda>old s. Inr ((s\<lparr>store_buffer := invalidate_address pa n (store_buffer s),
                                 load_reservation := None\<rparr>, False, old), False))
      in if is_dword
         then and_then (p6_read64 pa 8 s) (\<lambda>(old, s). and_then (p6_write64 pa (amo_new funct5 old v) n s) (fin old))
         else and_then (p6_read pa 4 s)
                (\<lambda>(old, s). and_then (p6_write pa (amo_new funct5 old (ucast v)) n s) (fin (scast old))))"

definition ex_amo :: "P6 \<Rightarrow> sim_error + ex_out \<times> bool" where
  "ex_amo s =
     (let x = issue_ex_reg s; va = x_rs1_val x; is_dword = (x_funct3 x = 3); funct5 = drop_bit 2 (x_funct7 x) in
      and_then (p6_translate va (if funct5 = 2 then LOAD else STORE) s)
        (\<lambda>(tr, s).
           if r_fault tr then Inr (ex_fault (r_fault_cause tr) va s, True)
           else if funct5 = 2 then ex_lr is_dword (r_paddr tr) s
           else if funct5 = 3 then ex_sc is_dword (r_paddr tr) s
           else ex_rmw is_dword funct5 (r_paddr tr) s))"

end
