(* ===== verification/P6_FPU.thy ===== *)
theory P6_FPU
  imports P6_Execute
begin

unbundle bit_operations_syntax

text \<open>
  The floating-point section of the execute stage: address translation and the cache for floating-point
  loads and stores, execution by the F and D extensions, which act on the register bank and on memory at once,
  the accumulated flags, and the unit that completes the instruction after its latency.
\<close>

section \<open>Memory access\<close>

definition fp_misaligned :: "u8 \<Rightarrow> u64 \<Rightarrow> bool" where
  "fp_misaligned f3 va \<longleftrightarrow> f3 = 2 \<and> va AND 3 \<noteq> 0 \<or> f3 = 3 \<and> va AND 7 \<noteq> 0"

definition fp_is_double :: "Issue_EX_Latch \<Rightarrow> bool" where
  "fp_is_double x \<longleftrightarrow>
     x_opcode x = 0x07 \<and> x_funct3 x = 3 \<or> x_opcode x = 0x27 \<and> x_funct3 x = 3 \<or>
     x_opcode x \<noteq> 0x07 \<and> x_opcode x \<noteq> 0x27 \<and> drop_bit 25 (x_instr x) AND 0x3 = 1"

text \<open>Either the outcome of a fault, or the physical address and whether a load missed the cache.\<close>

definition fp_access :: "P6 \<Rightarrow> sim_error + (ex_out + u64 \<times> bool \<times> P6)" where
  "fp_access s =
     (let x = issue_ex_reg s; va = x_rs1_val x + x_imm x; store = (x_opcode x = 0x27);
          size = (if fp_is_double x then 8 else 4)
      in if x_opcode x \<noteq> 0x07 \<and> \<not> store then Inr (Inr (0, False, s))
         else if fp_misaligned (x_funct3 x) va then Inr (Inl (ex_fault (if store then 6 else 4) va s))
         else and_then (p6_translate va (if store then STORE else LOAD) s)
           (\<lambda>(tr, s).
              let pa = r_paddr tr in
              if r_fault tr then Inr (Inl (ex_fault (r_fault_cause tr) va s))
              else if \<not> pmp_check pa size store False (cpu_csr s) then Inr (Inl (ex_fault (if store then 7 else 5) va s))
              else if store then Inr (Inr (pa, False, s))
              else case cache_access pa (dcache s) of (hit, c) \<Rightarrow> Inr (Inr (pa, \<not> hit, s\<lparr>dcache := c\<rparr>))))"

section \<open>Execution\<close>

text \<open>The word the extensions decode: a compressed load or store is rebuilt from its fields.\<close>

definition fp_instr :: "Issue_EX_Latch \<Rightarrow> u32" where
  "fp_instr x =
     (let imm = ucast (x_imm x) :: u32; rs1 = push_bit 15 (ucast (x_rs1 x)); f3 = push_bit 12 (ucast (x_funct3 x)) in
      if x_is_compressed x \<and> x_opcode x = 0x07
      then push_bit 20 (imm AND 0xFFF) OR rs1 OR f3 OR push_bit 7 (ucast (x_rd x)) OR 0x07
      else if x_is_compressed x \<and> x_opcode x = 0x27
      then push_bit 25 (drop_bit 5 imm AND 0x7F) OR push_bit 20 (ucast (x_rs2 x)) OR rs1 OR f3 OR
             push_bit 7 (imm AND 0x1F) OR 0x27
      else x_instr x)"

definition fpu_view :: "P6 \<Rightarrow> FMachine" where
  "fpu_view s =
     \<lparr>fhart = \<lparr>regs = cpu_regs s, platform = cpu_pf s, TLB_A_Entries = {}, TLB_A_Entries_64 = {}, stop_requested = False\<rparr>,
      f_regs = cpu_fregs s\<rparr>"

definition fpu_put :: "FMachine \<Rightarrow> P6 \<Rightarrow> P6" where
  "fpu_put m s = s\<lparr>cpu_regs := regs (fhart m), cpu_pf := platform (fhart m), cpu_fregs := f_regs m\<rparr>"

text \<open>None when neither extension knows the instruction.\<close>

definition fp_operate :: "u64 \<Rightarrow> P6 \<Rightarrow> (sim_error + nat \<times> u32 \<times> FMachine) option" where
  "fp_operate pa s =
     (let x = issue_ex_reg s; i = fp_instr x; f_op = F_decode i; d_op = D_decode i in
      if f_op \<noteq> OP_F_ERROR
      then Some (F_execute (cpu_host s) i f_op (x_rs1_val x) (x_rs2_val x) (unat (x_rd x)) pa (fpu_view s))
      else if d_op \<noteq> OP_D_ERROR
      then Some (D_execute (cpu_host s) i d_op (x_rs1_val x) (x_rs2_val x) (unat (x_rd x)) pa (fpu_view s))
      else None)"

definition fp_writes_int :: "Issue_EX_Latch \<Rightarrow> bool" where
  "fp_writes_int x \<longleftrightarrow> x_opcode x = 0x53 \<and> x_funct7 x \<in> {0x50, 0x51, 0x60, 0x61, 0x70, 0x71}"

definition fpu_slot :: "P6 \<Rightarrow> nat" where
  "fpu_slot s = (case free_slot 0 (fpu_pipe s) of Some i \<Rightarrow> i | None \<Rightarrow> 0)"

definition fp_complete :: "bool \<Rightarrow> nat \<Rightarrow> u64 \<Rightarrow> P6 \<Rightarrow> P6" where
  "fp_complete miss latency fpu_result s =
     (let x = issue_ex_reg s; unit = start_fu (int latency - 1) fpu_result x in
      if miss then start_miss (miss_slot s) (dcache_miss_penalty s - 1) fpu_result s
      else if latency \<le> 1 then ex_complete fpu_result (x_rd x) s
      else if latency > 5 then s\<lparr>fpu_divsqrt_fu := unit\<rparr>
      else s\<lparr>fpu_pipe := (fpu_pipe s)[fpu_slot s := unit]\<rparr>)"

definition fp_retire :: "bool \<Rightarrow> nat \<Rightarrow> u32 \<Rightarrow> FMachine \<Rightarrow> P6 \<Rightarrow> ex_out" where
  "fp_retire miss latency flags m s =
     (let x = issue_ex_reg s;
          s = fpu_put m s;
          fpu_result = (if fp_writes_int x then getValue (unat (x_rd x)) (cpu_regs s) else 0);
          s = (if flags \<noteq> 0 then s\<lparr>cpu_csr := set_fflags flags (cpu_csr s)\<rparr> else s);
          s = (if x_opcode x = 0x27 then upd_sb (set_entry (x_rob_index x) (\<lambda>e. e\<lparr>sb_is_store := False\<rparr>)) s else s)
      in (fp_complete miss latency fpu_result s, True, 0))"

definition ex_fpu :: "P6 \<Rightarrow> sim_error + ex_out" where
  "ex_fpu s =
     and_then (fp_access s)
       (\<lambda>r. case r of
          Inl fault \<Rightarrow> Inr fault
        | Inr (pa, miss, s) \<Rightarrow>
            (case fp_operate pa s of
               None \<Rightarrow> Inr (ex_fault 2 (ucast (x_instr (issue_ex_reg s))) s)
             | Some outcome \<Rightarrow> and_then outcome (\<lambda>(latency, flags, m). Inr (fp_retire miss latency flags m s))))"

end
