(* ===== verification/P6_System.thy ===== *)
theory P6_System
  imports P6_FPU
begin

unbundle bit_operations_syntax

text \<open>
  The rest of the execute stage: branch verification with predictor training and recovery, the
  system instructions with the bare-metal system calls, and the stage itself.
\<close>

section \<open>Branches\<close>

definition train_bht :: "bool \<Rightarrow> u8 \<Rightarrow> u8" where
  "train_bht taken c = (if taken then (if c < 3 then c + 1 else c) else (if c > 0 then c - 1 else c))"

definition ras_push :: "u64 \<Rightarrow> u64 list \<Rightarrow> u64 list" where
  "ras_push a r = (let r = r @ [a] in if length r > 2 then tl r else r)"

definition train :: "P6 \<Rightarrow> P6" where
  "train s =
     (let x = issue_ex_reg s; bi = btb_index (x_pc x); hi = bht_index (x_pc x); e = btb s ! bi;
          e' = e\<lparr>btb_tag := x_pc x, btb_target := branch_target x, btb_valid := True\<rparr>
      in if x_opcode x = 0x63
         then s\<lparr>bht := (bht s)[hi := train_bht (branch_taken x) (bht s ! hi)],
                btb := (btb s)[bi := e'\<lparr>btb_is_return := False\<rparr>]\<rparr>
         else s\<lparr>btb := (btb s)[bi := (if x_is_ras_return x then e'\<lparr>btb_is_return := True\<rparr> else e')],
                bht := (bht s)[hi := 3],
                ras := (if x_is_ras_call x then ras_push (x_pc x + instr_size x) (ras s) else ras s)\<rparr>)"

definition mispredict :: "Issue_EX_Latch \<Rightarrow> bool" where
  "mispredict x \<longleftrightarrow>
     branch_taken x \<noteq> x_predicted_taken x \<or> branch_taken x \<and> branch_target x \<noteq> x_predicted_target x"

definition cancel_if_flushed :: "Scoreboard \<Rightarrow> FunctionalUnitState \<Rightarrow> FunctionalUnitState" where
  "cancel_if_flushed sb u =
     (if fu_busy u \<and> fu_trans_id u \<ge> 0 \<and> \<not> sb_valid (sb_get_entry sb (fu_trans_id u)) then fu_cancel u else u)"

definition squash :: "P6 \<Rightarrow> sim_error + P6" where
  "squash s =
     (case sb_flush_speculative (x_rob_index (issue_ex_reg s)) (scoreboard s) of
        None \<Rightarrow> Inl OUT_OF_FUEL
      | Some sb \<Rightarrow>
          Inr (s\<lparr>scoreboard := sb, store_buffer := stb_flush_squashed sb (store_buffer s),
                 mul_fu := cancel_if_flushed sb (mul_fu s), div_fu := cancel_if_flushed sb (div_fu s),
                 fpu_pipe := map (cancel_if_flushed sb) (fpu_pipe s),
                 fpu_divsqrt_fu := cancel_if_flushed sb (fpu_divsqrt_fu s),
                 dcache_miss_fu := map (cancel_if_flushed sb) (dcache_miss_fu s),
                 load_hit_fu := cancel_if_flushed sb (load_hit_fu s)\<rparr>))"

definition ex_branch :: "P6 \<Rightarrow> sim_error + ex_out \<times> bool" where
  "ex_branch s =
     (let x = issue_ex_reg s in
      if branch_taken x \<and> branch_target x AND 1 \<noteq> 0 then Inr (ex_fault 0 (branch_target x) s, True)
      else
        let s = train s in
        if mispredict x
        then and_then (squash (redirect (branch_next x) s\<lparr>ras := []\<rparr>))
               (\<lambda>s. Inr ((s, False, ex_result x), False))
        else Inr ((s, False, ex_result x), False))"

section \<open>System instructions\<close>

fun put_bytes :: "nat \<Rightarrow> u64 \<Rightarrow> u64 \<Rightarrow> P6 \<Rightarrow> sim_error + P6" where
  "put_bytes 0 fd a s = Inr s"
| "put_bytes (Suc n) fd a s =
     and_then (p6_read a 1 s) (\<lambda>(v, s). put_bytes n fd (a + 1) (s\<lparr>cpu_output := cpu_output s @ [(fd, ucast v)]\<rparr>))"

definition bare_syscall :: "P6 \<Rightarrow> sim_error + P6" where
  "bare_syscall s =
     (let r = cpu_regs s; syscall_num = getValue 17 r; a0 = getValue 10 r; a1 = getValue 11 r; a2 = getValue 12 r;
          ret = (\<lambda>v s. s\<lparr>cpu_regs := setValue 10 v (cpu_regs s)\<rparr>)
      in if syscall_num = 64 then
           and_then (if a0 = 1 \<or> a0 = 2 then put_bytes (unat a2) a0 a1 s else Inr s) (\<lambda>s. Inr (ret a2 s))
         else if syscall_num = 1 \<or> syscall_num = 93 then Inr (s\<lparr>cpu_stopped := True\<rparr>)
         else if syscall_num = 214 then Inr (ret 0 s)
         else Inr (ret (- 38) s))"

definition ecall_cause :: "u8 \<Rightarrow> u64" where
  "ecall_cause p = (if p = PrivMode_U then 8 else if p = PrivMode_S then 9 else 11)"

definition ex_trap_here :: "u64 \<Rightarrow> u64 \<Rightarrow> P6 \<Rightarrow> ex_out \<times> bool" where
  "ex_trap_here cause tval s =
     (if has_unready_older s then (ex_replay s, True)
      else (((take_trap cause (x_pc (issue_ex_reg s)) tval s)\<lparr>trap_pending := True\<rparr>, False, 0), False))"

definition ex_return :: "u64 \<times> CSR_File \<Rightarrow> P6 \<Rightarrow> P6" where
  "ex_return rc s = (case rc of (ret_pc, c) \<Rightarrow>
     (redirect ret_pc s)\<lparr>cpu_csr := c, load_reservation := None, pending_priv_switch := Some ret_pc\<rparr>)"

definition ex_privileged :: "P6 \<Rightarrow> sim_error + ex_out \<times> bool" where
  "ex_privileged s =
     (let x = issue_ex_reg s; csr_addr = ucast (x_imm x AND 0xFFF) :: u16; c = cpu_csr s;
          illegal = ((take_trap 2 (x_pc x) (ucast (x_instr x)) s, False, 0), False)
      in if csr_addr = 0x000 then
           (if priv c = PrivMode_M then and_then (bare_syscall s) (\<lambda>s. Inr ((s, False, 0), False))
            else Inr (ex_trap_here (ecall_cause (priv c)) 0 s))
         else if csr_addr = 0x001 then Inr (ex_trap_here 3 0 s)
         else if csr_addr = 0x302 then
           (if priv c \<noteq> PrivMode_M then Inr illegal
            else Inr (((ex_return (mret c) s)\<lparr>cpu_mmu := mmu_flush_all (cpu_mmu s)\<rparr>, False, 0), False))
         else if csr_addr = 0x102 then
           (if priv c = PrivMode_U \<or> priv c = PrivMode_S \<and> mstatus c AND MSTATUS_TSR \<noteq> 0 then Inr illegal
            else Inr ((ex_return (sret c) s, False, 0), False))
         else if csr_addr = 0x105 then
           (if priv c \<noteq> PrivMode_M \<and> mstatus c AND MSTATUS_TW \<noteq> 0 then Inr illegal
            else Inr ((redirect (x_pc x + 4) s\<lparr>wfi_stall := True\<rparr>, False, 0), False))
         else if drop_bit 25 (x_instr x) = 0x09 then
           Inr ((redirect (x_pc x + 4) s\<lparr>cpu_mmu := sfence_vma (x_rs1_val x) (x_rs2_val x) (x_rs1 x = 0)
                   (drop_bit 20 (x_instr x) AND 0x1F = 0) (cpu_mmu s)\<rparr>, False, 0), False)
         else Inr ((s, False, 0), False))"

definition ex_csr :: "P6 \<Rightarrow> ex_out \<times> bool" where
  "ex_csr s =
     (let x = issue_ex_reg s; f3 = x_funct3 x; csr_addr = ucast (x_imm x AND 0xFFF) :: u16;
          v = (if f3 \<ge> 5 then ucast (x_rs1 x AND 0x1F) else x_rs1_val x)
      in case csr_read csr_addr (cpu_csr s) of
           None \<Rightarrow> ex_trap_here 2 (ucast (x_instr x)) s
         | Some old \<Rightarrow>
             let opn = f3 AND 0x3;
                 written = (opn = 1 \<or> opn = 2 \<and> v \<noteq> 0 \<or> opn = 3 \<and> v \<noteq> 0);
                 new = (if opn = 1 then v else if opn = 2 then old OR v else old AND NOT v);
                 s = (if written
                      then s\<lparr>cpu_csr := snd (csr_write csr_addr new (cpu_csr s)), pending_csr_write := Some csr_addr\<rparr>
                      else s);
                 s = (if csr_addr = 0x180
                      then redirect (x_pc x + instr_size x) s\<lparr>cpu_mmu := mmu_flush_all (cpu_mmu s)\<rparr> else s)
             in ((s, False, old), False))"

definition ex_system :: "P6 \<Rightarrow> sim_error + ex_out \<times> bool" where
  "ex_system s = (if x_funct3 (issue_ex_reg s) = 0 then ex_privileged s else Inr (ex_csr s))"

section \<open>The stage\<close>

definition ex_body :: "P6 \<Rightarrow> sim_error + ex_out \<times> bool" where
  "ex_body s =
     (let x = issue_ex_reg s; opc = x_opcode x in
      if opc = 0x03 then ex_load s
      else if opc = 0x23 then ex_store s
      else if opc = 0x2F then ex_amo s
      else if opc \<in> {0x63, 0x6F, 0x67} then ex_branch s
      else if opc = 0x73 then ex_system s
      else if opc \<in> {0x33, 0x3B} \<and> x_funct7 x = 0x01 then Inr (ex_muldiv s, False)
      else Inr ((s, False, ex_result x), False))"

definition ex_done :: "ex_out \<Rightarrow> sim_error + P6" where
  "ex_done out =
     (case out of (s, multi_cycle_dispatched, result) \<Rightarrow>
        let x = issue_ex_reg s;
            s = (if \<not> multi_cycle_dispatched \<and> x_rob_index x \<ge> 0 then ex_complete result (x_rd x) s else s)
        in if trap_pending s
           then and_then (drain_stores (drain_rob True (Some (x_rob_index x)) s))
                  (\<lambda>s. Inr ((flush_backend s)\<lparr>load_reservation := None\<rparr>))
           else Inr s)"

definition ex_run :: "P6 \<Rightarrow> sim_error + ex_out" where
  "ex_run s =
     and_then (ex_body s)
       (\<lambda>((s, multi, v), jumped).
          if \<not> jumped \<and> sb_fu (sb_get_entry (scoreboard s) (x_rob_index (issue_ex_reg s))) = FU_FPU then ex_fpu s
          else Inr (s, multi, v))"

definition EX_stage :: "P6 \<Rightarrow> sim_error + P6" where
  "EX_stage s =
     (let s = tick_units (s\<lparr>stall_ex := False\<rparr>) in
      if \<not> x_valid (issue_ex_reg s) then Inr s
      else if flush_pipeline s then Inr s
      else and_then (ex_run s) ex_done)"

end
