(* ===== verification/P6_Cycle.thy ===== *)
theory P6_Cycle
  imports P6_System
begin

unbundle bit_operations_syntax

text \<open>
  Commit, interrupts and the clock cycle of the six-stage core.  A cycle transfers the latches,
  samples the interrupt lines and runs the stages from the last to the first.  Between two cycles
  the other processes of the simulation may change the platform: the lines and the memory a
  cycle sees are those of its state.  The trace and the statistics are left out.
\<close>

section \<open>Commit\<close>

definition drain_cycle :: "P6 \<Rightarrow> sim_error + P6" where
  "drain_cycle s =
     (let s = (if store_drain_remaining s > 0 then s\<lparr>store_drain_remaining := store_drain_remaining s - 1\<rparr> else s) in
      if store_drain_remaining s = 0 then
        (case drain_one (store_buffer s) of
           (None, b) \<Rightarrow> Inr (s\<lparr>store_buffer := b\<rparr>)
         | (Some (addr, data, sz), b) \<Rightarrow>
             and_then (mem_store addr data sz (s\<lparr>store_buffer := b\<rparr>))
               (\<lambda>s. Inr (s\<lparr>store_drain_remaining := store_write_penalty s\<rparr>)))
      else Inr s)"

definition release_clobber :: "nat \<Rightarrow> int \<Rightarrow> ClobberInfo list \<Rightarrow> ClobberInfo list" where
  "release_clobber r i cs = (if cl_trans_id (cs ! r) = i then cs[r := clobber_release (cs ! r)] else cs)"

definition commit_head :: "P6 \<Rightarrow> P6" where
  "commit_head s =
     (let e = sb_get_head (scoreboard s); i = sb_get_head_index (scoreboard s); r = unat (sb_rd e);
          s = (if sb_is_store e then s\<lparr>store_buffer := snd (commit_store i (store_buffer s))\<rparr> else s);
          s = (if sb_rd e = 0 then s
               else if sb_writes_to_fp_reg e
               then upd_sb (\<lambda>sb. sb\<lparr>sb_fp_clobber := release_clobber r i (sb_fp_clobber sb)\<rparr>) s
               else upd_sb (\<lambda>sb. sb\<lparr>sb_rd_clobber := release_clobber r i (sb_rd_clobber sb)\<rparr>)
                      (s\<lparr>cpu_regs := setValue r (sb_result e) (cpu_regs s)\<rparr>))
      in upd_sb sb_retire (s\<lparr>pending_priv_switch := None, commit_count_this_cycle := commit_count_this_cycle s + 1,
            pc_current := sb_pc e\<rparr>))"

fun commit_ports :: "nat \<Rightarrow> P6 \<Rightarrow> P6" where
  "commit_ports 0 s = s"
| "commit_ports (Suc n) s =
     (if \<not> sb_head_ready (scoreboard s) then s
      else if sb_is_store (sb_get_head (scoreboard s)) \<and> commit_is_full (store_buffer s) then s
      else commit_ports n (commit_head s))"

definition Commit_stage :: "P6 \<Rightarrow> sim_error + P6" where
  "Commit_stage s = and_then (drain_cycle s) (\<lambda>s. Inr (commit_ports 2 s))"

section \<open>Interrupts\<close>

definition irq_epc :: "P6 \<Rightarrow> u64" where
  "irq_epc s =
     (case pending_priv_switch s of
        Some pc \<Rightarrow> pc
      | None \<Rightarrow>
          if \<not> sb_is_empty (scoreboard s) then sb_pc (sb_get_head (scoreboard s))
          else if x_valid (issue_ex_reg s) then x_pc (issue_ex_reg s)
          else if d_valid (id_issue_reg s) then d_pc (id_issue_reg s)
          else if f_valid (fetch_id_reg s) then f_pc (fetch_id_reg s)
          else if g_valid (pcgen_fetch_reg s) then g_pc (pcgen_fetch_reg s)
          else next_pc s)"

definition process_IRQ :: "P6 \<Rightarrow> bool \<times> P6" where
  "process_IRQ s =
     (let cause = pending_interrupt (cpu_csr s) in
      if cause < 0 then (False, s)
      else
        let epc = irq_epc s;
            s = s\<lparr>pending_priv_switch := None, scoreboard := sb_flush (scoreboard s),
                  store_buffer := stb_flush_speculative (store_buffer s),
                  dcache_miss_fu := map fu_cancel (dcache_miss_fu s),
                  mul_fu := fu_cancel (mul_fu s), div_fu := fu_cancel (div_fu s),
                  fpu_pipe := map fu_cancel (fpu_pipe s), fpu_divsqrt_fu := fu_cancel (fpu_divsqrt_fu s),
                  stall_ex := False, load_reservation := None\<rparr>;
            (tvec, c) = take_interrupt (of_int cause) epc (cpu_csr s)
        in (True, redirect tvec s\<lparr>cpu_csr := c, trap_pending := True, wfi_stall := False\<rparr>))"

definition line_bit :: "bool \<Rightarrow> nat \<Rightarrow> u64 \<Rightarrow> u64" where
  "line_bit level k w = (if level then w OR push_bit k 1 else w AND NOT (push_bit k 1))"

definition sync_irq_lines :: "P6 \<Rightarrow> P6" where
  "sync_irq_lines s =
     (let pf = cpu_pf s; c = cpu_csr s in
      s\<lparr>cpu_csr := c\<lparr>mip := line_bit (irq_out (pf_plic pf)) 9
           (line_bit (msip_irq (pf_clint pf)) 3 (line_bit (timer_irq (pf_clint pf)) 7 (mip c)))\<rparr>\<rparr>)"

section \<open>Latch transfer\<close>

definition queue_push :: "P6 \<Rightarrow> P6" where
  "queue_push s =
     (let f = fetch_id_next s in
      if f_valid f then
        (let s = (if length (fetch_queue s) < FETCH_QUEUE_CAPACITY
                  then s\<lparr>fetch_queue := fetch_queue s @ [\<lparr>q_pc = f_pc f, q_instr = f_instr f,
                         q_is_compressed = f_is_compressed f, q_predicted_taken = f_predicted_taken f,
                         q_predicted_target = f_predicted_target f\<rparr>]\<rparr>
                  else s)
         in s\<lparr>fetch_id_next := f\<lparr>f_valid := False\<rparr>\<rparr>)
      else s)"

definition queue_pop :: "P6 \<Rightarrow> P6" where
  "queue_pop s =
     (case fetch_queue s of
        [] \<Rightarrow> s\<lparr>fetch_id_reg := (fetch_id_reg s)\<lparr>f_valid := False\<rparr>\<rparr>
      | q # qs \<Rightarrow>
          s\<lparr>fetch_id_reg := \<lparr>f_pc = q_pc q, f_instr = q_instr q, f_valid = True,
              f_is_compressed = q_is_compressed q, f_predicted_taken = q_predicted_taken q,
              f_predicted_target = q_predicted_target q\<rparr>,
            fetch_queue := qs\<rparr>)"

definition transfer_latches :: "P6 \<Rightarrow> P6" where
  "transfer_latches s =
     (let s = (if prev_cycle_flush s
               then s\<lparr>issue_ex_reg := (issue_ex_reg s)\<lparr>x_valid := False\<rparr>,
                      id_issue_reg := (id_issue_reg s)\<lparr>d_valid := False\<rparr>,
                      fetch_id_reg := (fetch_id_reg s)\<lparr>f_valid := False\<rparr>\<rparr>
               else
                 let s = (if \<not> stall_ex s then s\<lparr>issue_ex_reg := issue_ex_next s\<rparr> else s);
                     s = (if \<not> stall_issue s then s\<lparr>id_issue_reg := id_issue_next s\<rparr> else s);
                     s = queue_push s
                 in if \<not> stall_issue s then queue_pop s else s)
      in s\<lparr>pcgen_fetch_reg := pcgen_fetch_next s\<rparr>)"

section \<open>The cycle\<close>

definition pipeline_empty :: "P6 \<Rightarrow> bool" where
  "pipeline_empty s \<longleftrightarrow>
     \<not> g_valid (pcgen_fetch_reg s) \<and> \<not> g_valid (pcgen_fetch_next s) \<and> \<not> f_valid (fetch_id_reg s) \<and>
     \<not> d_valid (id_issue_reg s) \<and> \<not> x_valid (issue_ex_reg s) \<and> sb_is_empty (scoreboard s)"

definition run_stages :: "P6 \<Rightarrow> sim_error + P6" where
  "run_stages s =
     and_then (Commit_stage s)
      (\<lambda>s. and_then (EX_stage s)
       (\<lambda>s. let this_cycle_flush = flush_pipeline s in
         and_then (Issue_stage s)
          (\<lambda>s. and_then (Fetch_stage (ID_stage s))
           (\<lambda>s. Inr ((PCGen_stage s)\<lparr>prev_cycle_flush := this_cycle_flush\<rparr>)))))"

definition end_cycle :: "P6 \<Rightarrow> P6" where
  "end_cycle s =
     (let s = s\<lparr>cycles := cycles s + 1, cpu_csr := tick_counters (commit_count_this_cycle s) (cpu_csr s)\<rparr> in
      if cycles s > 100 \<and> \<not> prev_cycle_flush s \<and> \<not> wfi_stall s \<and> pipeline_empty s
      then s\<lparr>cpu_stopped := True\<rparr> else s)"

definition clock_cycle :: "P6 \<Rightarrow> sim_error + P6" where
  "clock_cycle s =
     (let s = transfer_latches (s\<lparr>commit_count_this_cycle := 0, pending_csr_write := None\<rparr>);
          s = snd (process_IRQ (sync_irq_lines s))
      in and_then (run_stages s) (\<lambda>s. Inr (end_cycle s)))"

text \<open>Before the clock edge a core in WFI moves the CLINT to its deadline and wakes when an
  interrupt is pending.  \<^verbatim>\<open>env\<close> is what the other processes do while the thread waits.\<close>

definition wfi_wake :: "P6 \<Rightarrow> P6" where
  "wfi_wake s =
     (if wfi_stall s then
        (let s = s\<lparr>cpu_pf := (cpu_pf s)\<lparr>pf_clint := snd (fast_forward_to_deadline (pf_clint (cpu_pf s)))\<rparr>\<rparr>;
             pf = cpu_pf s; c = cpu_csr s
         in if mip c AND mie c \<noteq> 0 \<or> timer_irq (pf_clint pf) \<or> msip_irq (pf_clint pf) \<or> irq_out (pf_plic pf)
            then s\<lparr>wfi_stall := False\<rparr> else s)
      else s)"

definition cycle_step :: "(Platform \<Rightarrow> Platform) \<Rightarrow> P6 \<Rightarrow> sim_error + P6" where
  "cycle_step env s = (let s = wfi_wake s in clock_cycle (s\<lparr>cpu_pf := env (cpu_pf s)\<rparr>))"

definition stop_seen :: "P6 \<Rightarrow> bool" where
  "stop_seen s \<longleftrightarrow> cpu_stopped s \<or> pf_stopped (cpu_pf s) \<noteq> []"

fun cycle_thread :: "(Platform \<Rightarrow> Platform) list \<Rightarrow> P6 \<Rightarrow> sim_error + P6" where
  "cycle_thread [] s = Inr s"
| "cycle_thread (env # envs) s = (if stop_seen s then Inr s else and_then (cycle_step env s) (cycle_thread envs))"

end
