(* ===== verification/P6_Invariant.thy ===== *)
theory P6_Invariant
  imports P6_Cycle
begin

unbundle bit_operations_syntax

text \<open>
  Well-formedness of the six-stage core and its preservation by every stage.  Besides the shape
  of the queues and tables it says that the instruction in the execute latch occupies the
  youngest slot of the scoreboard, so that a misprediction has nothing to squash there, and that the
  scoreboard sends only floating-point instructions to the floating-point unit.
\<close>

section \<open>The invariant\<close>

definition sb_ok :: "Scoreboard \<Rightarrow> bool" where
  "sb_ok sb \<longleftrightarrow> sb_wf sb \<and> sb_size sb = 32 \<and> length (sb_rd_clobber sb) = 32 \<and> length (sb_fp_clobber sb) = 32"

definition stb_ok :: "StoreBuffer \<Rightarrow> bool" where
  "stb_ok b \<longleftrightarrow> stb_wf b \<and> SPEC_DEPTH b = 4 \<and> COMMIT_DEPTH b = 4"

definition predictor_ok :: "BTBEntry list \<Rightarrow> u8 list \<Rightarrow> u64 list \<Rightarrow> bool" where
  "predictor_ok bt bh r \<longleftrightarrow> length bt = 32 \<and> length bh = 128 \<and> list_all (\<lambda>c. c \<le> 3) bh \<and> length r \<le> 2"

definition core_wf :: "P6 \<Rightarrow> bool" where
  "core_wf s \<longleftrightarrow> sb_ok (scoreboard s) \<and> stb_ok (store_buffer s) \<and>
     predictor_ok (btb s) (bht s) (ras s) \<and> length (fetch_queue s) \<le> FETCH_QUEUE_CAPACITY \<and>
     csr_wf (cpu_csr s) \<and> getValue 0 (cpu_regs s) = 0 \<and> CSR (cpu_regs s) = initCSR64"

definition fp_opcode :: "u8 \<Rightarrow> bool" where
  "fp_opcode opc \<longleftrightarrow> opc \<in> {0x07, 0x27, 0x43, 0x47, 0x4B, 0x4F, 0x53}"

definition sb_fus :: "Scoreboard \<Rightarrow> FunctionalUnit list" where
  "sb_fus sb = map sb_fu (sb_entries sb)"

definition youngest :: "Issue_EX_Latch \<Rightarrow> Scoreboard \<Rightarrow> bool" where
  "youngest x sb \<longleftrightarrow> (x_valid x \<longrightarrow> 0 \<le> x_rob_index x \<and> nat (x_rob_index x) < 32 \<and>
     (nat (x_rob_index x) + 1) mod 32 = sb_tail sb \<and>
     (sb_fus sb ! nat (x_rob_index x) = FU_FPU \<longrightarrow> fp_opcode (x_opcode x)))"

definition p6_inv :: "P6 \<Rightarrow> bool" where
  "p6_inv s \<longleftrightarrow> core_wf s \<and> \<not> flush_pipeline s \<and> \<not> trap_pending s \<and>
     (if stall_ex s then youngest (issue_ex_reg s) (scoreboard s) \<and> \<not> x_valid (issue_ex_next s)
      else youngest (issue_ex_next s) (scoreboard s))"

section \<open>Components\<close>

lemma sb_ok_ops [simp, intro]:
  "sb_ok sb \<Longrightarrow> sb_ok (sb_complete i v d sb)"
  "sb_ok sb \<Longrightarrow> sb_ok (sb_retire sb)"
  "sb_ok sb \<Longrightarrow> sb_ok (snd (sb_allocate sb))"
  "sb_ok sb \<Longrightarrow> sb_ok (sb_flush sb)"
  by (auto simp: sb_ok_def sb_complete_wf sb_retire_wf sb_allocate_wf sb_flush_wf)
    (auto simp: sb_op_defs)

lemma sb_tail_ops [simp]:
  "sb_tail (sb_complete i v d sb) = sb_tail sb" "sb_tail (sb_retire sb) = sb_tail sb"
  "sb_tail (set_entry i f sb) = sb_tail sb"
  by (simp_all add: sb_op_defs set_entry_def)

lemma sb_fus_entry: "(\<And>e. sb_fu (f e) = sb_fu e) \<Longrightarrow> sb_fus (set_entry i f sb) = sb_fus sb"
  by (simp add: sb_fus_def set_entry_def map_update) (metis list_update_id map_update)

lemma sb_fus_at: "k < sb_size sb \<Longrightarrow> sb_fus sb ! k = sb_fu (sb_entries sb ! k)"
  by (simp add: sb_fus_def sb_size_def)

lemma sb_fus_ops [simp]:
  "sb_fus (sb_complete i v d sb) = sb_fus sb" "sb_fus (sb_retire sb) = sb_fus sb"
  "sb_fus (sb\<lparr>sb_rd_clobber := cs\<rparr>) = sb_fus sb" "sb_fus (sb\<lparr>sb_fp_clobber := cs\<rparr>) = sb_fus sb"
  "sb_fus (set_entry i (\<lambda>e. e\<lparr>sb_is_store := b\<rparr>) sb) = sb_fus sb"
  "sb_fus (set_entry i (\<lambda>e. e\<lparr>sb_writes_to_fp_reg := b\<rparr>) sb) = sb_fus sb"
proof -
  have u: "map sb_fu (es[k := e]) = map sb_fu es" if "sb_fu e = sb_fu (es ! k)" for es k e
    using that by (metis list_update_id map_update)
  show "sb_fus (sb_complete i v d sb) = sb_fus sb" "sb_fus (sb_retire sb) = sb_fus sb"
    by (auto simp: sb_fus_def sb_complete_def sb_retire_def u)
qed (simp_all add: sb_fus_entry, simp_all add: sb_fus_def)

lemma sb_wf_clobber [simp]:
  "sb_wf (sb\<lparr>sb_rd_clobber := cs\<rparr>) = sb_wf sb" "sb_wf (sb\<lparr>sb_fp_clobber := cs\<rparr>) = sb_wf sb"
  "sb_size (sb\<lparr>sb_rd_clobber := cs\<rparr>) = sb_size sb" "sb_size (sb\<lparr>sb_fp_clobber := cs\<rparr>) = sb_size sb"
  by (simp_all add: sb_wf_def sb_size_def sb_slots_def)

lemma sb_ok_clobber [simp]:
  "sb_ok sb \<Longrightarrow> length cs = 32 \<Longrightarrow> sb_ok (sb\<lparr>sb_rd_clobber := cs\<rparr>)"
  "sb_ok sb \<Longrightarrow> length cs = 32 \<Longrightarrow> sb_ok (sb\<lparr>sb_fp_clobber := cs\<rparr>)"
  by (simp_all add: sb_ok_def)

lemma sb_ok_lengths: "sb_ok sb \<Longrightarrow> length (sb_rd_clobber sb) = 32" "sb_ok sb \<Longrightarrow> length (sb_fp_clobber sb) = 32"
  by (simp_all add: sb_ok_def)

lemma sb_wf_entries:
  assumes "sb_wf sb" "length es = length (sb_entries sb)"
    "\<And>k. k < length es \<Longrightarrow> sb_valid (es ! k) = sb_valid (sb_entries sb ! k)"
  shows "sb_wf (sb\<lparr>sb_entries := es\<rparr>)"
  using assms unfolding sb_wf_def sb_size_def sb_slots_def by simp

lemma sb_ok_entry:
  assumes "sb_ok sb" "\<And>e. sb_valid (f e) = sb_valid e"
  shows "sb_ok (set_entry i f sb)"
proof -
  have "sb_valid ((sb_entries sb)[nat i := f (sb_entries sb ! nat i)] ! k) = sb_valid (sb_entries sb ! k)"
    if "k < length (sb_entries sb)" for k
    using that assms(2) by (cases "nat i = k") simp_all
  then show ?thesis
    using assms(1) by (auto simp: sb_ok_def set_entry_def sb_size_def intro!: sb_wf_entries)
qed

lemma length_release [simp]: "length (release_clobber r i cs) = length cs"
  by (simp add: release_clobber_def)

lemma stb_wf_commit: "stb_wf b \<Longrightarrow> stb_wf (snd (commit_store t b))"
proof (cases "stb_spec_count b = 0 \<or> stb_commit_count b = COMMIT_DEPTH b")
  case False
  assume wf: "stb_wf b"
  note rs = stb_wf_rings(1)[OF wf] and rc = stb_wf_rings(2)[OF wf]
  have "0 < stb_spec_count b" "stb_commit_count b < length (stb_committed b)"
    using False ring_wfD[OF rc] by (auto simp: stb_defs)
  then show ?thesis
    using False ring_wf_push[OF rc] ring_wf_pop[OF rs] by (simp add: commit_store_def stb_wf_def stb_defs)
qed (auto simp: commit_store_def)

lemma stb_wf_add: "stb_wf b \<Longrightarrow> stb_wf (snd (add_store a d n t b))"
  by (cases "spec_is_full b") (simp add: add_store_def spec_is_full_def, rule add_store_pending(2))

lemma stb_ok_drain: "stb_ok b \<Longrightarrow> stb_ok (snd (drain_one b))"
proof (induction b rule: drain_one.induct)
  case (1 b)
  show ?case
    using 1 stb_pop_committed_pending(1)[of b]
    by (subst drain_one.simps) (auto simp: stb_ok_def Let_def)
qed

lemma stb_ok_squash: "stb_ok b \<Longrightarrow> stb_ok (stb_flush_squashed sb b)"
proof (induction sb b rule: stb_flush_squashed.induct)
  case (1 sb b)
  let ?p = "(stb_spec_tail b + SPEC_DEPTH b - 1) mod SPEC_DEPTH b"
  let ?b = "b\<lparr>stb_spec := (stb_spec b)[?p := (stb_spec b ! ?p)\<lparr>st_valid := False\<rparr>],
                 stb_spec_tail := ?p, stb_spec_count := stb_spec_count b - 1\<rparr>"
  have "stb_ok ?b" if "stb_spec_count b \<noteq> 0"
    using 1(2) that ring_wf_unpush[OF stb_wf_rings(1)[of b]]
    by (auto simp: stb_ok_def stb_wf_def stb_defs)
  then show ?case
    using 1 by (subst stb_flush_squashed.simps) (auto simp: Let_def)
qed

lemma stb_ok_ops [simp, intro]:
  "stb_ok b \<Longrightarrow> stb_ok (snd (commit_store t b))" "stb_ok b \<Longrightarrow> stb_ok (snd (add_store a d n t b))"
  "stb_ok b \<Longrightarrow> stb_ok (snd (drain_one b))" "stb_ok b \<Longrightarrow> stb_ok (invalidate_address a n b)"
  "stb_ok b \<Longrightarrow> stb_ok (stb_flush_speculative b)" "stb_ok b \<Longrightarrow> stb_ok (stb_flush_squashed sb b)"
  using stb_ok_drain[of b] stb_ok_squash[of b sb]
  by (auto simp: stb_ok_def stb_wf_commit stb_wf_add)
    (auto simp: stb_wf_def invalidate_address_def stb_flush_speculative_def stb_defs ring_simps)

lemma x0_set [simp]: "getValue 0 (setValue k v r) = getValue 0 r" "CSR (setValue k v r) = CSR r"
  by (auto simp: getValue_setValue)

lemma csr_wf_trap: "csr_wf c \<Longrightarrow> take_exception cause epc tval c = (v, c') \<Longrightarrow> csr_wf c'"
  using trap_entry_wf(1)[of c cause epc tval] by simp

lemma csr_wf_irq: "csr_wf c \<Longrightarrow> take_interrupt cause epc c = (v, c') \<Longrightarrow> csr_wf c'"
  using trap_entry_wf(2)[of c cause epc] by simp

section \<open>Accesses\<close>

lemma access_frame:
  "p6_read a n s = Inr (v, s') \<Longrightarrow> \<exists>pf. s' = s\<lparr>cpu_pf := pf\<rparr>"
  "p6_read64 a n s = Inr (w, s') \<Longrightarrow> \<exists>pf. s' = s\<lparr>cpu_pf := pf\<rparr>"
  "p6_write a x n s = Inr s' \<Longrightarrow> \<exists>pf. s' = s\<lparr>cpu_pf := pf\<rparr>"
  "p6_write64 a y n s = Inr s' \<Longrightarrow> \<exists>pf. s' = s\<lparr>cpu_pf := pf\<rparr>"
  by (auto simp: p6_read_def p6_read64_def p6_write_def p6_write64_def and_then_Inr)

lemma translate_frame: "p6_translate va t s = Inr (r, s') \<Longrightarrow> \<exists>u pf. s' = s\<lparr>cpu_mmu := u, cpu_pf := pf\<rparr>"
  by (auto simp: p6_translate_def and_then_Inr split: prod.splits)

lemma mem_store_frame: "mem_store a d n s = Inr s' \<Longrightarrow> \<exists>pf. s' = s\<lparr>cpu_pf := pf\<rparr>"
  by (auto simp: mem_store_def dest!: access_frame split: if_splits)

lemma pf_twice: "\<exists>pf. s\<lparr>cpu_pf := a, cpu_pf := b\<rparr> = s\<lparr>cpu_pf := pf\<rparr>"
  by auto

lemma read_bytes_frame: "read_bytes i n pa raw s = Inr (v, s') \<Longrightarrow> \<exists>pf. s' = s\<lparr>cpu_pf := pf\<rparr>"
proof (induction n arbitrary: i raw s)
  case 0
  then show ?case by (auto intro: exI[of _ "cpu_pf s'"])
next
  case (Suc n)
  then show ?case by (fastforce simp: and_then_Inr dest!: access_frame)
qed

lemma write_bytes_frame: "write_bytes i n pa v s = Inr s' \<Longrightarrow> \<exists>pf. s' = s\<lparr>cpu_pf := pf\<rparr>"
proof (induction n arbitrary: i s)
  case 0
  then show ?case by (auto intro: exI[of _ "cpu_pf s'"])
next
  case (Suc n)
  then show ?case by (fastforce simp: and_then_Inr dest!: access_frame)
qed

lemma put_bytes_frame: "put_bytes n fd a s = Inr s' \<Longrightarrow> \<exists>pf out. s' = s\<lparr>cpu_pf := pf, cpu_output := out\<rparr>"
proof (induction n arbitrary: a s)
  case 0
  then show ?case by (intro exI[of _ "cpu_pf s"] exI[of _ "cpu_output s"]) simp
next
  case (Suc n)
  then show ?case by (fastforce simp: and_then_Inr dest!: access_frame)
qed

lemma mem_load_frame: "mem_load f3 a s = Inr (v, s') \<Longrightarrow> \<exists>pf. s' = s\<lparr>cpu_pf := pf\<rparr>"
  by (auto simp: mem_load_def and_then_Inr dest!: access_frame split: if_splits intro: exI[of _ "cpu_pf s'"])

lemmas frames = access_frame translate_frame mem_store_frame read_bytes_frame write_bytes_frame mem_load_frame

section \<open>Draining\<close>

lemma retire_head_wf: "core_wf s \<Longrightarrow> core_wf (retire_head c s)"
  by (simp add: retire_head_def Let_def upd_sb_def core_wf_def)

lemma drain_rob_wf: "core_wf s \<Longrightarrow> core_wf (drain_rob c i s)"
proof (induction c i s rule: drain_rob.induct)
  case (1 c i s)
  then show ?case by (subst drain_rob.simps) (auto intro: retire_head_wf)
qed

lemma drain_stores_wf: "drain_stores s = Inr s' \<Longrightarrow> core_wf s \<Longrightarrow> core_wf s'"
proof (induction s rule: drain_stores.induct)
  case (1 s)
  obtain r b where d: "drain_one (store_buffer s) = (r, b)" by fastforce
  then have b: "stb_ok b" using 1(3) stb_ok_drain[of "store_buffer s"] by (simp add: core_wf_def)
  show ?case
  proof (cases r)
    case None
    then show ?thesis using 1(2,3) b d by (subst (asm) drain_stores.simps) (auto simp: core_wf_def)
  next
    case (Some w)
    obtain addr data sz where w: "w = (addr, data, sz)" by (cases w)
    obtain t where t: "mem_store addr data sz (s\<lparr>store_buffer := b\<rparr>) = Inr t" and u: "drain_stores t = Inr s'"
      using 1(2) d Some w by (subst (asm) drain_stores.simps) (auto split: sum.splits)
    have "core_wf t" using mem_store_frame[OF t] 1(3) b by (auto simp: core_wf_def)
    then show ?thesis using 1(1)[OF d[symmetric] Some w[symmetric] refl t u] by simp
  qed
qed

lemma flush_backend_wf: "core_wf s \<Longrightarrow> core_wf (flush_backend s)"
  by (simp add: core_wf_def flush_backend_def flush_units_def)

lemma take_trap_wf: "core_wf s \<Longrightarrow> core_wf (take_trap cause epc tval s)"
  by (auto simp: take_trap_def redirect_def core_wf_def Let_def intro: csr_wf_trap split: prod.splits)

section \<open>Commit and interrupts\<close>

lemma commit_head_wf: "core_wf s \<Longrightarrow> core_wf (commit_head s)"
  by (simp add: commit_head_def Let_def upd_sb_def core_wf_def sb_ok_lengths)

lemma commit_head_tail [simp]:
  "sb_tail (scoreboard (commit_head s)) = sb_tail (scoreboard s)" "sb_fus (scoreboard (commit_head s)) = sb_fus (scoreboard s)"
  by (simp_all add: commit_head_def Let_def upd_sb_def)

lemma commit_head_frame [simp]:
  "issue_ex_reg (commit_head s) = issue_ex_reg s" "issue_ex_next (commit_head s) = issue_ex_next s"
  "flush_pipeline (commit_head s) = flush_pipeline s" "trap_pending (commit_head s) = trap_pending s"
  "stall_ex (commit_head s) = stall_ex s"
  by (simp_all add: commit_head_def Let_def upd_sb_def)

definition back_same :: "P6 \<Rightarrow> P6 \<Rightarrow> bool" where
  "back_same s s' \<longleftrightarrow> issue_ex_reg s' = issue_ex_reg s \<and> issue_ex_next s' = issue_ex_next s \<and>
     flush_pipeline s' = flush_pipeline s \<and> trap_pending s' = trap_pending s \<and> stall_ex s' = stall_ex s \<and>
     sb_tail (scoreboard s') = sb_tail (scoreboard s) \<and> sb_fus (scoreboard s') = sb_fus (scoreboard s)"

lemma back_same_refl [simp]: "back_same s s" by (simp add: back_same_def)

lemma commit_ports_wf: "core_wf s \<Longrightarrow> core_wf (commit_ports n s) \<and> back_same s (commit_ports n s)"
proof (induction n arbitrary: s)
  case (Suc n)
  then show ?case using Suc.IH[of "commit_head s"] by (auto simp: commit_head_wf back_same_def)
qed simp

lemma drain_cycle_wf: "drain_cycle s = Inr s' \<Longrightarrow> core_wf s \<Longrightarrow> core_wf s' \<and> back_same s s'"
proof -
  assume d: "drain_cycle s = Inr s'" and wf: "core_wf s"
  obtain r b where o: "drain_one (store_buffer s) = (r, b)" by fastforce
  then have "stb_ok b" using wf stb_ok_drain[of "store_buffer s"] by (simp add: core_wf_def)
  then show ?thesis
    using d wf o
    by (auto simp: drain_cycle_def Let_def and_then_Inr core_wf_def back_same_def dest!: mem_store_frame
        split: if_splits option.splits)
qed

lemma Commit_stage_wf: "Commit_stage s = Inr s' \<Longrightarrow> core_wf s \<Longrightarrow> core_wf s' \<and> back_same s s'"
  using commit_ports_wf drain_cycle_wf by (auto simp: Commit_stage_def and_then_Inr back_same_def)

lemma process_IRQ_wf: "core_wf s \<Longrightarrow> core_wf (snd (process_IRQ s))"
  by (auto simp: process_IRQ_def Let_def core_wf_def redirect_def intro: csr_wf_irq split: prod.splits)

lemma process_IRQ_back:
  "snd (process_IRQ s) = s \<or>
   flush_pipeline (snd (process_IRQ s)) \<and> \<not> stall_ex (snd (process_IRQ s)) \<and>
     issue_ex_next (snd (process_IRQ s)) = issue_ex_next s"
  by (auto simp: process_IRQ_def Let_def redirect_def split: prod.splits)

lemma sync_irq_wf: "core_wf s \<Longrightarrow> core_wf (sync_irq_lines s)"
  by (auto simp: sync_irq_lines_def Let_def core_wf_def csr_wf_def)

section \<open>Execute\<close>

lemma tick_fu_pres:
  "tick_fu l u (sb, t) = (u', sb', t') \<Longrightarrow> P sb \<Longrightarrow> (\<And>sb i v d. P sb \<Longrightarrow> P (sb_complete i v d sb)) \<Longrightarrow> P sb'"
  by (auto simp: tick_fu_def Let_def split: if_splits)

lemma tick_fus_pres:
  "tick_fus l us (sb, t) = (us', sb', t') \<Longrightarrow> P sb \<Longrightarrow> (\<And>sb i v d. P sb \<Longrightarrow> P (sb_complete i v d sb)) \<Longrightarrow> P sb'"
proof (induction us arbitrary: sb t us')
  case (Cons u us)
  obtain u1 sb1 t1 where 1: "tick_fu l u (sb, t) = (u1, sb1, t1)" by (metis prod_cases3)
  obtain us2 where "tick_fus l us (sb1, t1) = (us2, sb', t')" using Cons.prems(1) 1 by (auto split: prod.splits)
  then show ?case using Cons.IH tick_fu_pres[OF 1, of P] Cons.prems(2,3) by blast
qed simp

lemma tick_units_pres:
  assumes "P (scoreboard s)" "\<And>sb i v d. P sb \<Longrightarrow> P (sb_complete i v d sb)"
  shows "P (scoreboard (tick_units s))"
proof -
  obtain m sb1 t1 where 1: "tick_fu False (mul_fu s) (scoreboard s, reg_load_tainted s) = (m, sb1, t1)" by (metis prod_cases3)
  obtain d sb2 t2 where 2: "tick_fu False (div_fu s) (sb1, t1) = (d, sb2, t2)" by (metis prod_cases3)
  obtain ds sb3 t3 where 3: "tick_fus True (dcache_miss_fu s) (sb2, t2) = (ds, sb3, t3)" by (metis prod_cases3)
  obtain l sb4 t4 where 4: "tick_fu True (load_hit_fu s) (sb3, t3) = (l, sb4, t4)" by (metis prod_cases3)
  obtain fs sb5 t5 where 5: "tick_fus False (fpu_pipe s) (sb4, t4) = (fs, sb5, t5)" by (metis prod_cases3)
  obtain q sb6 t6 where 6: "tick_fu False (fpu_divsqrt_fu s) (sb5, t5) = (q, sb6, t6)" by (metis prod_cases3)
  have "P sb1" using tick_fu_pres[OF 1, of P] assms by blast
  then have "P sb2" using tick_fu_pres[OF 2, of P] assms(2) by blast
  then have "P sb3" using tick_fus_pres[OF 3, of P] assms(2) by blast
  then have "P sb4" using tick_fu_pres[OF 4, of P] assms(2) by blast
  then have "P sb5" using tick_fus_pres[OF 5, of P] assms(2) by blast
  then have "P sb6" using tick_fu_pres[OF 6, of P] assms(2) by blast
  then show ?thesis by (simp add: tick_units_def 1 2 3 4 5 6)
qed

lemma tick_units_fields [simp]:
  "issue_ex_reg (tick_units s) = issue_ex_reg s" "flush_pipeline (tick_units s) = flush_pipeline s"
  "trap_pending (tick_units s) = trap_pending s" "stall_ex (tick_units s) = stall_ex s"
  "cpu_regs (tick_units s) = cpu_regs s" "cpu_pf (tick_units s) = cpu_pf s" "cpu_csr (tick_units s) = cpu_csr s"
  "store_buffer (tick_units s) = store_buffer s" "btb (tick_units s) = btb s" "bht (tick_units s) = bht s"
  "ras (tick_units s) = ras s" "fetch_queue (tick_units s) = fetch_queue s" "issue_ex_next (tick_units s) = issue_ex_next s"
  by (simp_all add: tick_units_def Let_def split: prod.splits)

lemma tick_units_wf:
  assumes wf: "core_wf s" shows "core_wf (tick_units s) \<and> back_same s (tick_units s)"
proof -
  have "sb_ok (scoreboard (tick_units s)) \<and> sb_tail (scoreboard (tick_units s)) = sb_tail (scoreboard s) \<and>
      sb_fus (scoreboard (tick_units s)) = sb_fus (scoreboard s)"
    by (rule tick_units_pres[where P = "\<lambda>sb. sb_ok sb \<and> sb_tail sb = sb_tail (scoreboard s) \<and> sb_fus sb = sb_fus (scoreboard s)"])
      (use wf in \<open>simp_all add: core_wf_def\<close>)
  then show ?thesis using wf by (simp add: core_wf_def back_same_def)
qed

text \<open>What a section of the execute stage keeps: the latches and the youngest slot; it stalls or
  traps but not both, and a trap redirects.\<close>

definition ex_keeps :: "P6 \<Rightarrow> P6 \<Rightarrow> bool" where
  "ex_keeps s s' \<longleftrightarrow> core_wf s' \<and> issue_ex_reg s' = issue_ex_reg s \<and>
     sb_tail (scoreboard s') = sb_tail (scoreboard s) \<and> sb_fus (scoreboard s') = sb_fus (scoreboard s) \<and> \<not> (stall_ex s' \<and> trap_pending s') \<and>
     (trap_pending s' \<longrightarrow> flush_pipeline s') \<and> (stall_ex s' \<longrightarrow> \<not> flush_pipeline s')"

definition ex_fresh :: "P6 \<Rightarrow> bool" where
  "ex_fresh s \<longleftrightarrow> core_wf s \<and> \<not> stall_ex s \<and> \<not> trap_pending s \<and> \<not> flush_pipeline s"

lemma ex_keeps_refl: "ex_fresh s \<Longrightarrow> ex_keeps s s"
  by (simp add: ex_keeps_def ex_fresh_def)

lemma ex_replay_keeps: "ex_fresh s \<Longrightarrow> ex_keeps s (fst (ex_replay s))"
  by (simp add: ex_keeps_def ex_fresh_def ex_replay_def core_wf_def)

lemma take_trap_fields [simp]:
  "issue_ex_reg (take_trap c e t s) = issue_ex_reg s" "scoreboard (take_trap c e t s) = scoreboard s"
  "flush_pipeline (take_trap c e t s)" "stall_ex (take_trap c e t s) = stall_ex s"
  "trap_pending (take_trap c e t s) = trap_pending s" "cpu_regs (take_trap c e t s) = cpu_regs s"
  "store_buffer (take_trap c e t s) = store_buffer s" "cpu_pf (take_trap c e t s) = cpu_pf s"
  by (simp_all add: take_trap_def redirect_def Let_def split: prod.splits)

lemma core_wf_trap_pending [simp]: "core_wf (s\<lparr>trap_pending := b\<rparr>) = core_wf s"
  by (simp add: core_wf_def)

lemma ex_complete_wf [simp]: "core_wf s \<Longrightarrow> core_wf (ex_complete v d s)"
  by (simp add: ex_complete_def upd_sb_def core_wf_def)

lemma ex_fault_keeps: "ex_fresh s \<Longrightarrow> ex_keeps s (fst (ex_fault c t s))"
  using ex_replay_keeps[of s] take_trap_wf[of s]
  by (auto simp: ex_fault_def ex_keeps_def ex_fresh_def)
    (auto simp: ex_complete_def upd_sb_def)

lemma ex_trap_here_keeps: "ex_fresh s \<Longrightarrow> ex_keeps s (fst (fst (ex_trap_here c t s)))"
  using ex_replay_keeps[of s] take_trap_wf[of s]
  by (auto simp: ex_trap_here_def ex_keeps_def ex_fresh_def)

lemma ex_fresh_upd [simp]:
  "ex_fresh (s\<lparr>cpu_mmu := u\<rparr>) = ex_fresh s" "ex_fresh (s\<lparr>cpu_pf := pf\<rparr>) = ex_fresh s"
  "ex_fresh (s\<lparr>dcache_miss_fu := ds\<rparr>) = ex_fresh s" "ex_fresh (s\<lparr>load_hit_fu := l\<rparr>) = ex_fresh s"
  "ex_fresh (s\<lparr>dcache := c\<rparr>) = ex_fresh s" "ex_fresh (s\<lparr>load_reservation := r\<rparr>) = ex_fresh s"
  "ex_fresh (s\<lparr>mul_fu := l\<rparr>) = ex_fresh s" "ex_fresh (s\<lparr>div_fu := l\<rparr>) = ex_fresh s"
  "ex_fresh (s\<lparr>cpu_output := out\<rparr>) = ex_fresh s"
  by (simp_all add: ex_fresh_def core_wf_def)

lemma ex_keeps_from [simp]:
  "ex_keeps (s\<lparr>cpu_mmu := u\<rparr>) = ex_keeps s" "ex_keeps (s\<lparr>cpu_pf := pf\<rparr>) = ex_keeps s"
  "ex_keeps (s\<lparr>dcache_miss_fu := ds\<rparr>) = ex_keeps s" "ex_keeps (s\<lparr>load_hit_fu := l\<rparr>) = ex_keeps s"
  "ex_keeps (s\<lparr>dcache := c\<rparr>) = ex_keeps s" "ex_keeps (s\<lparr>load_reservation := r\<rparr>) = ex_keeps s"
  "ex_keeps (s\<lparr>cpu_output := out\<rparr>) = ex_keeps s"
  by (auto simp: ex_keeps_def fun_eq_iff)

lemma ex_keeps_to [simp]:
  "ex_keeps s (t\<lparr>cpu_mmu := u\<rparr>) = ex_keeps s t" "ex_keeps s (t\<lparr>cpu_pf := pf\<rparr>) = ex_keeps s t"
  "ex_keeps s (t\<lparr>dcache_miss_fu := ds\<rparr>) = ex_keeps s t" "ex_keeps s (t\<lparr>load_hit_fu := l\<rparr>) = ex_keeps s t"
  "ex_keeps s (t\<lparr>dcache := c\<rparr>) = ex_keeps s t" "ex_keeps s (t\<lparr>load_reservation := r\<rparr>) = ex_keeps s t"
  "ex_keeps s (t\<lparr>mul_fu := l\<rparr>) = ex_keeps s t" "ex_keeps s (t\<lparr>div_fu := l\<rparr>) = ex_keeps s t"
  "ex_keeps s (t\<lparr>cpu_output := out\<rparr>) = ex_keeps s t"
  "ex_keeps s (t\<lparr>fpu_pipe := fs\<rparr>) = ex_keeps s t" "ex_keeps s (t\<lparr>fpu_divsqrt_fu := l\<rparr>) = ex_keeps s t"
  "ex_keeps s (t\<lparr>cpu_fregs := fr\<rparr>) = ex_keeps s t"
  "stb_ok b \<Longrightarrow> ex_keeps s t \<Longrightarrow> ex_keeps s (t\<lparr>store_buffer := b\<rparr>)"
  by (auto simp: ex_keeps_def core_wf_def)

lemma ex_fresh_stb: "ex_fresh s \<Longrightarrow> stb_ok (store_buffer s)"
  by (simp add: ex_fresh_def core_wf_def)

lemma ex_keeps_complete [simp]: "ex_keeps s t \<Longrightarrow> ex_keeps s (ex_complete v d t)"
  by (auto simp: ex_keeps_def) (auto simp: ex_complete_def upd_sb_def)

lemma start_keeps [simp]:
  "ex_fresh (start_miss i n v s) = ex_fresh s" "ex_fresh (start_hit v s) = ex_fresh s"
  "ex_keeps (start_miss i n v s) = ex_keeps s"
  "ex_keeps s (start_miss i n v t) = ex_keeps s t" "ex_keeps s (start_hit v t) = ex_keeps s t"
  "store_buffer (start_miss i n v s) = store_buffer s" "cpu_csr (start_miss i n v s) = cpu_csr s"
  "issue_ex_reg (start_miss i n v s) = issue_ex_reg s"
  by (simp_all add: start_miss_def start_hit_def)

lemma ex_fault_keeps': "ex_fault c t s = (s', m, v) \<Longrightarrow> ex_fresh s \<Longrightarrow> ex_keeps s s'"
  using ex_fault_keeps[of s c t] by simp

lemma ex_replay_keeps': "ex_replay s = (s', m, v) \<Longrightarrow> ex_fresh s \<Longrightarrow> ex_keeps s s'"
  using ex_replay_keeps[of s] by simp

lemmas keeps = ex_fault_keeps' ex_replay_keeps' ex_keeps_refl ex_fresh_stb

lemma ex_load_misaligned_keeps:
  "ex_load_misaligned va s = Inr ((s', m, v), j) \<Longrightarrow> ex_fresh s \<Longrightarrow> ex_keeps s s'"
  by (auto simp: ex_load_misaligned_def Let_def and_then_Inr keeps dest!: frames split: if_splits)
    (fastforce dest: keeps)+

lemma load_from_memory_keeps:
  "load_from_memory a slot s = Inr ((s', m, v), j) \<Longrightarrow> ex_fresh s \<Longrightarrow> ex_keeps s s'"
  by (auto simp: load_from_memory_def Let_def and_then_Inr keeps dest!: frames split: if_splits option.splits prod.splits)

lemma ex_load_keeps: "ex_load s = Inr ((s', m, v), j) \<Longrightarrow> ex_fresh s \<Longrightarrow> ex_keeps s s'"
  by (auto simp: ex_load_def Let_def and_then_Inr keeps dest!: translate_frame
      split: if_splits FwdResult.splits dest: ex_load_misaligned_keeps load_from_memory_keeps)
    (force dest: keeps load_from_memory_keeps)+

lemma ex_store_misaligned_keeps:
  "ex_store_misaligned va s = Inr ((s', m, v), j) \<Longrightarrow> ex_fresh s \<Longrightarrow> ex_keeps s s'"
proof -
  assume e: "ex_store_misaligned va s = Inr ((s', m, v), j)" and f: "ex_fresh s"
  have u: "ex_keeps s (upd_sb (set_entry i (\<lambda>e. e\<lparr>sb_is_store := False\<rparr>)) (s\<lparr>cpu_mmu := u, cpu_pf := pf\<rparr>))" for i u pf
    using f by (auto simp: ex_fresh_def ex_keeps_def core_wf_def upd_sb_def intro: sb_ok_entry)
  show ?thesis
    using e f u
    by (auto simp: ex_store_misaligned_def Let_def and_then_Inr dest!: frames split: if_splits)
      (force dest: keeps)+
qed

lemma break_reservation_keeps [simp]: "ex_keeps s (break_reservation pa n t) = ex_keeps s t"
  by (simp add: break_reservation_def split: option.splits)

lemma ex_store_keeps: "ex_store s = Inr ((s', m, v), j) \<Longrightarrow> ex_fresh s \<Longrightarrow> ex_keeps s s'"
  by (auto simp: ex_store_def Let_def and_then_Inr keeps dest!: translate_frame dest: ex_store_misaligned_keeps
      split: if_splits)
    (force dest: keeps)+

lemma ex_lr_keeps: "ex_lr w pa s = Inr ((s', m, v), j) \<Longrightarrow> ex_fresh s \<Longrightarrow> ex_keeps s s'"
  by (auto simp: ex_lr_def Let_def and_then_Inr keeps dest!: access_frame split: if_splits FwdResult.splits)

lemma ex_sc_keeps: "ex_sc w pa s = Inr ((s', m, v), j) \<Longrightarrow> ex_fresh s \<Longrightarrow> ex_keeps s s'"
  by (auto simp: ex_sc_def Let_def and_then_Inr keeps dest!: access_frame split: if_splits)

lemma ex_rmw_keeps: "ex_rmw w f5 pa s = Inr ((s', m, v), j) \<Longrightarrow> ex_fresh s \<Longrightarrow> ex_keeps s s'"
  by (auto simp: ex_rmw_def Let_def and_then_Inr keeps dest!: access_frame split: if_splits)

lemma ex_amo_keeps: "ex_amo s = Inr ((s', m, v), j) \<Longrightarrow> ex_fresh s \<Longrightarrow> ex_keeps s s'"
  by (auto simp: ex_amo_def Let_def and_then_Inr dest!: translate_frame split: if_splits)
    (force dest: keeps ex_lr_keeps ex_sc_keeps ex_rmw_keeps)+

lemma squash_youngest:
  assumes "youngest x sb" "x_valid x" "sb_ok sb"
  shows "sb_flush_speculative (x_rob_index x) sb = Some sb"
  using assms by (auto simp: sb_flush_speculative_def youngest_def sb_ok_def sb_flush_loop.simps)

lemma train_bht_le: "c \<le> 3 \<Longrightarrow> train_bht t c \<le> 3"
  by (simp add: train_bht_def) (auto simp: word_le_nat_alt word_less_nat_alt unat_word_ariths unat_sub_if')

lemma list_all_update: "list_all P xs \<Longrightarrow> (i < length xs \<Longrightarrow> P (xs ! i) \<Longrightarrow> P v) \<Longrightarrow> list_all P (xs[i := v])"
  by (cases "i < length xs") (auto simp: list_all_length nth_list_update)

lemma predictor_ok_train:
  "predictor_ok bt bh r \<Longrightarrow> predictor_ok (bt[i := e]) (bh[k := 3]) r"
  "predictor_ok bt bh r \<Longrightarrow> predictor_ok (bt[i := e]) (bh[k := 3]) (ras_push a r)"
  "predictor_ok bt bh r \<Longrightarrow> predictor_ok (bt[i := e]) (bh[k := train_bht t (bh ! k)]) r"
  by (auto simp: predictor_ok_def ras_push_def Let_def train_bht_le intro!: list_all_update)

lemma core_wf_ras: "core_wf s \<Longrightarrow> core_wf (s\<lparr>ras := []\<rparr>)"
  by (simp add: core_wf_def predictor_ok_def)

lemma train_wf: "core_wf s \<Longrightarrow> core_wf (train s)"
  by (auto simp: train_def Let_def core_wf_def predictor_ok_train)

lemma train_fields [simp]:
  "issue_ex_reg (train s) = issue_ex_reg s" "scoreboard (train s) = scoreboard s"
  "flush_pipeline (train s) = flush_pipeline s" "stall_ex (train s) = stall_ex s"
  "trap_pending (train s) = trap_pending s"
  by (simp_all add: train_def Let_def)

lemma squash_wf:
  "squash s = Inr s' \<Longrightarrow> core_wf s \<Longrightarrow> youngest (issue_ex_reg s) (scoreboard s) \<Longrightarrow> x_valid (issue_ex_reg s) \<Longrightarrow>
     core_wf s' \<and> scoreboard s' = scoreboard s"
  by (auto simp: squash_def squash_youngest core_wf_def)

lemma squash_fields:
  "squash s = Inr s' \<Longrightarrow> issue_ex_reg s' = issue_ex_reg s \<and> flush_pipeline s' = flush_pipeline s \<and>
     stall_ex s' = stall_ex s \<and> trap_pending s' = trap_pending s"
  by (auto simp: squash_def split: option.splits)

lemma redirect_fields [simp]:
  "issue_ex_reg (redirect t s) = issue_ex_reg s" "scoreboard (redirect t s) = scoreboard s"
  "flush_pipeline (redirect t s)" "stall_ex (redirect t s) = stall_ex s" "trap_pending (redirect t s) = trap_pending s"
  "pc_redirect_target (redirect t s) = t" "core_wf (redirect t s) = core_wf s"
  by (simp_all add: redirect_def core_wf_def)

lemma ex_branch_keeps:
  assumes "ex_branch s = Inr ((s', m, v), j)" "ex_fresh s" "youngest (issue_ex_reg s) (scoreboard s)" "x_valid (issue_ex_reg s)"
  shows "ex_keeps s s'"
proof -
  let ?t = "(redirect (branch_next (issue_ex_reg s)) (train s))\<lparr>ras := []\<rparr>"
  have wf: "core_wf (train s)" "core_wf ?t"
    using assms(2) train_wf[of s] by (auto simp: ex_fresh_def core_wf_ras)
  have t: "issue_ex_reg ?t = issue_ex_reg s" "scoreboard ?t = scoreboard s" by simp_all
  have f: "\<not> stall_ex s" "\<not> trap_pending s" "\<not> flush_pipeline s" using assms(2) by (simp_all add: ex_fresh_def)
  consider (odd) "ex_fault 0 (branch_target (issue_ex_reg s)) s = (s', m, v)" | (wrong) "squash ?t = Inr s'" | (right) "s' = train s"
    using assms(1) by (auto simp: ex_branch_def Let_def and_then_Inr split: if_splits)
  then show ?thesis
  proof cases
    case odd
    then show ?thesis using ex_fault_keeps' assms(2) by blast
  next
    case wrong
    then have "core_wf s' \<and> scoreboard s' = scoreboard s"
      using squash_wf[of ?t s'] wf(2) t assms(3,4) by (metis (no_types))
    then show ?thesis using squash_fields[OF wrong] f by (simp add: ex_keeps_def)
  next
    case right
    then show ?thesis using wf(1) f by (simp add: ex_keeps_def)
  qed
qed

lemma bare_syscall_keeps: "bare_syscall s = Inr s' \<Longrightarrow> ex_fresh s \<Longrightarrow> ex_keeps s s'"
  by (auto simp: bare_syscall_def Let_def and_then_Inr ex_keeps_def ex_fresh_def core_wf_def
      dest!: put_bytes_frame split: if_splits)

lemma ex_fresh_redirect:
  assumes "ex_fresh s" shows "ex_keeps s (redirect t s)" "ex_keeps s (take_trap c e v s)"
  using assms take_trap_wf[of s] by (simp_all add: ex_fresh_def ex_keeps_def)

lemma ex_return_keeps: "ex_fresh s \<Longrightarrow> csr_wf (snd rc) \<Longrightarrow> ex_keeps s (ex_return rc s)"
  by (cases rc) (auto simp: ex_return_def ex_keeps_def ex_fresh_def core_wf_def redirect_def)

lemma ex_privileged_keeps: "ex_privileged s = Inr ((s', m, v), j) \<Longrightarrow> ex_fresh s \<Longrightarrow> ex_keeps s s'"
proof -
  assume e: "ex_privileged s = Inr ((s', m, v), j)" and f: "ex_fresh s"
  have w: "csr_wf (snd (mret (cpu_csr s)))" "csr_wf (snd (sret (cpu_csr s)))"
    using f trap_return_wf by (simp_all add: ex_fresh_def core_wf_def)
  have u: "ex_keeps s ((redirect t s)\<lparr>wfi_stall := True\<rparr>) = ex_keeps s (redirect t s)" for t
    by (simp add: ex_keeps_def core_wf_def)
  note t = ex_trap_here_keeps[OF f]
  show ?thesis
    using e f w u t[of 3 0] t[of "ecall_cause (priv (cpu_csr s))" 0]
    by (auto simp: ex_privileged_def Let_def and_then_Inr ex_keeps_refl ex_fresh_redirect ex_return_keeps
        dest: bare_syscall_keeps split: if_splits)
qed

lemma ex_csr_keeps: "ex_csr s = ((s', m, v), j) \<Longrightarrow> ex_fresh s \<Longrightarrow> ex_keeps s s'"
proof -
  assume e: "ex_csr s = ((s', m, v), j)" and f: "ex_fresh s"
  have w: "csr_wf (snd (csr_write a x (cpu_csr s)))" for a x
    using f csr_write_wf by (simp add: ex_fresh_def core_wf_def)
  have u: "ex_keeps s (s\<lparr>cpu_csr := snd (csr_write a x (cpu_csr s)), pending_csr_write := p\<rparr>)" for a x p
    using f w by (simp add: ex_fresh_def ex_keeps_def core_wf_def)
  have r: "ex_keeps s (redirect t z)" if "ex_keeps s z" "\<not> stall_ex z" for t z
    using that by (auto simp: ex_keeps_def)
  have n: "\<not> stall_ex s" using f by (simp add: ex_fresh_def)
  note t = ex_trap_here_keeps[OF f]
  show ?thesis
    using e f w n t[of 2 "ucast (x_instr (issue_ex_reg s))"]
    by (auto simp: ex_csr_def Let_def ex_keeps_refl u r split: if_splits option.splits)
qed

lemma ex_body_keeps:
  assumes "ex_body s = Inr ((s', m, v), j)" "ex_fresh s" "youngest (issue_ex_reg s) (scoreboard s)" "x_valid (issue_ex_reg s)"
  shows "ex_keeps s s'"
  using assms
  by (auto simp: ex_body_def ex_system_def ex_muldiv_def Let_def ex_keeps_refl split: if_splits
      dest: ex_load_keeps ex_store_keeps ex_amo_keeps ex_branch_keeps ex_privileged_keeps ex_csr_keeps)

lemma fp_access_keeps:
  assumes "fp_access s = Inr r" "ex_fresh s"
  shows "case r of Inl (t, m, v) \<Rightarrow> ex_keeps s t | Inr (pa, miss, t) \<Rightarrow> ex_fresh t \<and> ex_keeps s = ex_keeps t"
  using assms
  by (auto simp: fp_access_def Let_def and_then_Inr dest!: translate_frame split: if_splits prod.splits)
    (force dest: keeps)+

lemma fp_operate_regs:
  "fp_operate pa s = Some (Inr (lat, flags, m)) \<Longrightarrow> one_write (unat (x_rd (issue_ex_reg s))) (cpu_regs s) (regs (fhart m))"
  by (auto simp: fp_operate_def Let_def fpu_view_def dest!: F_execute_regs D_execute_regs split: if_splits)

lemma fp_retire_keeps:
  assumes "fp_retire miss lat flags m s = (s', mc, v)" "ex_fresh s"
    and "getValue 0 (regs (fhart m)) = 0" "CSR (regs (fhart m)) = initCSR64"
  shows "ex_keeps s s'"
proof -
  have p: "ex_keeps s (fpu_put m s)"
    using assms(2-4) by (simp add: fpu_put_def ex_fresh_def ex_keeps_def core_wf_def)
  have c: "ex_keeps s t \<Longrightarrow> ex_keeps s (t\<lparr>cpu_csr := set_fflags flags (cpu_csr t)\<rparr>)"
    "ex_keeps s t \<Longrightarrow> ex_keeps s (upd_sb (set_entry i (\<lambda>e. e\<lparr>sb_is_store := False\<rparr>)) t)"
    "ex_keeps s t \<Longrightarrow> ex_keeps s (fp_complete miss lat w t)" for t i w
    by (auto simp: ex_keeps_def core_wf_def csr_wf_def set_fflags_def upd_sb_def intro: sb_ok_entry)[2]
      (simp add: fp_complete_def Let_def)
  show ?thesis
    using assms(1) p c unfolding fp_retire_def Let_def by (auto split: if_splits)
qed

lemma ex_fpu_keeps:
  assumes "ex_fpu s = Inr (s', m, v)" "ex_fresh s"
  shows "ex_keeps s s'"
proof -
  obtain r where r: "fp_access s = Inr r" and c: "(case r of Inl fault \<Rightarrow> Inr fault | Inr (pa, miss, s) \<Rightarrow>
      (case fp_operate pa s of None \<Rightarrow> Inr (ex_fault 2 (ucast (x_instr (issue_ex_reg s))) s)
       | Some outcome \<Rightarrow> and_then outcome (\<lambda>(latency, flags, m). Inr (fp_retire miss latency flags m s)))) = Inr (s', m, v)"
    using assms(1) by (auto simp: ex_fpu_def and_then_Inr)
  note k = fp_access_keeps[OF r assms(2)]
  show ?thesis
  proof (cases r)
    case (Inl f)
    then show ?thesis using c k by auto
  next
    case (Inr q)
    obtain pa miss t where q: "q = (pa, miss, t)" by (cases q)
    have t: "ex_fresh t" "ex_keeps s = ex_keeps t" using k Inr q by auto
    show ?thesis
    proof (cases "fp_operate pa t")
      case None
      then show ?thesis using c t ex_fault_keeps' by (auto simp: Inr q)
    next
      case (Some out)
      then obtain lat flags n where o: "fp_operate pa t = Some (Inr (lat, flags, n))" "fp_retire miss lat flags n t = (s', m, v)"
        using c by (auto simp: Inr q and_then_Inr)
      have "getValue 0 (regs (fhart n)) = 0" "CSR (regs (fhart n)) = initCSR64"
        using one_write_frame(2)[OF fp_operate_regs[OF o(1)], of 0] one_write_frame(1)[OF fp_operate_regs[OF o(1)]] t(1)
        by (simp_all add: ex_fresh_def core_wf_def)
      then show ?thesis using fp_retire_keeps[OF o(2) t(1)] t(2) by simp
    qed
  qed
qed

lemma ex_body_fp:
  assumes "fp_opcode (x_opcode (issue_ex_reg s))"
  shows "ex_body s = Inr ((s, False, ex_result (issue_ex_reg s)), False)"
  using assms by (auto simp: ex_body_def fp_opcode_def Let_def)

text \<open>The instruction in the execute latch goes to the floating-point unit only if it is a floating-point
  instruction, for which the other sections of the stage do nothing.\<close>

lemma ex_run_cases:
  assumes "ex_run s = Inr out" "youngest (issue_ex_reg s) (scoreboard s)" "x_valid (issue_ex_reg s)" "core_wf s" "ex_fresh s"
  obtains (fpu) "fp_opcode (x_opcode (issue_ex_reg s))" "ex_fpu s = Inr out" | (other) j where "ex_body s = Inr (out, j)"
proof (cases "fp_opcode (x_opcode (issue_ex_reg s))")
  case True
  then show ?thesis
    using assms(1) fpu other ex_body_fp[OF True] by (auto simp: ex_run_def split: if_splits)
next
  case False
  obtain t m v j where b: "ex_body s = Inr ((t, m, v), j)"
    using assms(1) by (auto simp: ex_run_def and_then_Inr)
  have k: "ex_keeps s t" using ex_body_keeps[OF b assms(5,2,3)] .
  have "sb_fu (sb_get_entry (scoreboard t) (x_rob_index (issue_ex_reg t))) \<noteq> FU_FPU"
    using False assms(2,3) k sb_fus_at[of "nat (x_rob_index (issue_ex_reg s))" "scoreboard t"]
    by (auto simp: youngest_def ex_keeps_def core_wf_def sb_ok_def sb_get_entry_def)
  then show ?thesis using assms(1) b other by (auto simp: ex_run_def split: if_splits)
qed

lemma ex_run_keeps:
  assumes "ex_run s = Inr (s', m, v)" "ex_fresh s" "youngest (issue_ex_reg s) (scoreboard s)" "x_valid (issue_ex_reg s)"
  shows "ex_keeps s s'"
proof -
  have "core_wf s" using assms(2) by (simp add: ex_fresh_def)
  from ex_run_cases[OF assms(1,3,4) this assms(2)] show ?thesis
    by cases (use ex_fpu_keeps ex_body_keeps assms in blast)+
qed

lemma drain_rob_back [simp]:
  "issue_ex_reg (drain_rob c i s) = issue_ex_reg s" "stall_ex (drain_rob c i s) = stall_ex s"
  "trap_pending (drain_rob c i s) = trap_pending s" "flush_pipeline (drain_rob c i s) = flush_pipeline s"
  by (induction c i s rule: drain_rob.induct; subst drain_rob.simps; simp add: retire_head_def Let_def upd_sb_def)+

lemma drain_stores_back:
  "drain_stores s = Inr s' \<Longrightarrow> issue_ex_reg s' = issue_ex_reg s \<and> stall_ex s' = stall_ex s \<and>
     trap_pending s' = trap_pending s \<and> flush_pipeline s' = flush_pipeline s \<and> cpu_regs s' = cpu_regs s"
proof (induction s rule: drain_stores.induct)
  case (1 s)
  obtain r b where d: "drain_one (store_buffer s) = (r, b)" by fastforce
  show ?case
  proof (cases r)
    case None
    then show ?thesis using 1(2) d by (subst (asm) drain_stores.simps) auto
  next
    case (Some w)
    obtain addr data sz where w: "w = (addr, data, sz)" by (cases w)
    obtain t where t: "mem_store addr data sz (s\<lparr>store_buffer := b\<rparr>) = Inr t" and u: "drain_stores t = Inr s'"
      using 1(2) d Some w by (subst (asm) drain_stores.simps) (auto split: sum.splits)
    show ?thesis
      using 1(1)[OF d[symmetric] Some w[symmetric] refl t u] mem_store_frame[OF t] by auto
  qed
qed

lemma ex_done_wf:
  assumes d: "ex_done (t, m, v) = Inr s'" and k: "ex_keeps s t"
  shows "core_wf s' \<and> issue_ex_reg s' = issue_ex_reg s \<and> (trap_pending s' \<longrightarrow> flush_pipeline s') \<and>
     (stall_ex s' \<longrightarrow> \<not> flush_pipeline s' \<and> \<not> trap_pending s' \<and> sb_tail (scoreboard s') = sb_tail (scoreboard s) \<and>
        sb_fus (scoreboard s') = sb_fus (scoreboard s))"
proof -
  let ?t = "if \<not> m \<and> x_rob_index (issue_ex_reg t) \<ge> 0 then ex_complete v (x_rd (issue_ex_reg t)) t else t"
  have k': "ex_keeps s ?t" using k by simp
  show ?thesis
  proof (cases "trap_pending ?t")
    case False
    then have "s' = ?t" using d by (auto simp: ex_done_def Let_def split: if_splits)
    then show ?thesis using k' by (auto simp: ex_keeps_def)
  next
    case True
    then obtain u where u: "drain_stores (drain_rob True (Some (x_rob_index (issue_ex_reg t))) ?t) = Inr u"
      and s': "s' = (flush_backend u)\<lparr>load_reservation := None\<rparr>"
      using d by (auto simp: ex_done_def Let_def and_then_Inr split: if_splits)
    have "core_wf u" using drain_stores_wf[OF u] drain_rob_wf k' by (auto simp: ex_keeps_def)
    then have "core_wf s'" using flush_backend_wf[of u] s' by (simp add: core_wf_def)
    then show ?thesis
      using drain_stores_back[OF u] k' True s' by (auto simp: ex_keeps_def flush_backend_def flush_units_def)
  qed
qed

lemma EX_stage_wf:
  assumes e: "EX_stage s = Inr s'" and wf: "core_wf s" and y: "\<not> flush_pipeline s \<Longrightarrow> youngest (issue_ex_reg s) (scoreboard s)"
    and t: "trap_pending s \<Longrightarrow> flush_pipeline s"
  shows "core_wf s' \<and> issue_ex_reg s' = issue_ex_reg s \<and> (trap_pending s' \<longrightarrow> flush_pipeline s') \<and>
     (stall_ex s' \<longrightarrow> \<not> flush_pipeline s' \<and> \<not> trap_pending s' \<and> youngest (issue_ex_reg s') (scoreboard s'))"
proof -
  let ?s = "tick_units (s\<lparr>stall_ex := False\<rparr>)"
  have w: "core_wf (s\<lparr>stall_ex := False\<rparr>)" using wf by (simp add: core_wf_def)
  have k: "core_wf ?s" "issue_ex_reg ?s = issue_ex_reg s" "flush_pipeline ?s = flush_pipeline s"
    "trap_pending ?s = trap_pending s" "\<not> stall_ex ?s" "sb_tail (scoreboard ?s) = sb_tail (scoreboard s)"
    "sb_fus (scoreboard ?s) = sb_fus (scoreboard s)"
    using tick_units_wf[OF w] by (simp_all add: back_same_def)
  consider (skip) "s' = ?s" | (run) t1 m v where "ex_run ?s = Inr (t1, m, v)" "ex_done (t1, m, v) = Inr s'"
      "x_valid (issue_ex_reg s)" "\<not> flush_pipeline s"
    using e k(2,3) by (auto simp: EX_stage_def Let_def and_then_Inr split: if_splits)
  then show ?thesis
  proof cases
    case skip
    then show ?thesis using k t by auto
  next
    case run
    have f: "ex_fresh ?s" using k run(4) t by (auto simp: ex_fresh_def)
    have y': "youngest (issue_ex_reg ?s) (scoreboard ?s)" using y[OF run(4)] k by (simp add: youngest_def)
    have "ex_keeps ?s t1" using ex_run_keeps[OF run(1) f y'] run(3) k(2) by simp
    then show ?thesis using ex_done_wf[OF run(2)] y[OF run(4)] k by (auto simp: youngest_def)
  qed
qed

section \<open>Issue\<close>

lemma core_wf_issue [simp]:
  "core_wf (s\<lparr>stall_issue := b\<rparr>) = core_wf s" "core_wf (s\<lparr>issue_ex_next := x\<rparr>) = core_wf s"
  "core_wf (s\<lparr>load_addr_extra := n\<rparr>) = core_wf s" "core_wf (s\<lparr>reg_load_tainted := t\<rparr>) = core_wf s"
  "core_wf (issue_bubble s) = core_wf s" "core_wf (issue_stall s) = core_wf s" "core_wf (propagate_taint s) = core_wf s"
  by (simp_all add: core_wf_def issue_bubble_def issue_stall_def propagate_taint_def Let_def)

lemma issue_bubble_fields [simp]:
  "\<not> x_valid (issue_ex_next (issue_bubble s))" "\<not> x_valid (issue_ex_next (issue_stall s))"
  "scoreboard (issue_bubble s) = scoreboard s" "scoreboard (issue_stall s) = scoreboard s"
  "trap_pending (issue_bubble s) = trap_pending s" "trap_pending (issue_stall s) = trap_pending s"
  "flush_pipeline (issue_bubble s) = flush_pipeline s" "flush_pipeline (issue_stall s) = flush_pipeline s"
  "stall_ex (issue_bubble s) = stall_ex s" "stall_ex (issue_stall s) = stall_ex s"
  "issue_ex_reg (issue_bubble s) = issue_ex_reg s" "issue_ex_reg (issue_stall s) = issue_ex_reg s"
  by (simp_all add: issue_bubble_def issue_stall_def)

lemma propagate_taint_fields [simp]:
  "scoreboard (propagate_taint s) = scoreboard s" "trap_pending (propagate_taint s) = trap_pending s"
  "flush_pipeline (propagate_taint s) = flush_pipeline s" "stall_ex (propagate_taint s) = stall_ex s"
  "id_issue_reg (propagate_taint s) = id_issue_reg s"
  by (simp_all add: propagate_taint_def Let_def)

definition issued :: "P6 \<Rightarrow> bool" where
  "issued s \<longleftrightarrow> core_wf s \<and> (trap_pending s \<longrightarrow> flush_pipeline s) \<and> \<not> stall_ex s \<and>
     youngest (issue_ex_next s) (scoreboard s)"

lemma issued_bubble: "core_wf s \<Longrightarrow> (trap_pending s \<longrightarrow> flush_pipeline s) \<Longrightarrow> \<not> stall_ex s \<Longrightarrow>
   issued (issue_bubble s) \<and> issued (issue_stall s)"
  by (simp add: issued_def youngest_def)

lemma issue_illegal_issued: "issue_illegal s = Inr s' \<Longrightarrow> core_wf s \<Longrightarrow> \<not> stall_ex s \<Longrightarrow> issued s'"
proof -
  assume i: "issue_illegal s = Inr s'" and wf: "core_wf s" and n: "\<not> stall_ex s"
  obtain u where u: "drain_stores (drain_rob False None s) = Inr u"
    and s': "s' = issue_bubble ((take_trap 2 (d_pc (id_issue_reg u)) (ucast (d_instr (id_issue_reg u)))
                   (flush_backend u))\<lparr>trap_pending := True\<rparr>)"
    using i by (auto simp: issue_illegal_def and_then_Inr)
  have "core_wf (flush_backend u)"
    using drain_stores_wf[OF u] drain_rob_wf[OF wf] flush_backend_wf by blast
  moreover have "\<not> stall_ex (flush_backend u)" using drain_stores_back[OF u] n by (simp add: flush_backend_def flush_units_def)
  ultimately show ?thesis unfolding s' by (intro conjunct1[OF issued_bubble]) (auto intro: take_trap_wf)
qed

lemma allocated:
  assumes "sb_allocate sb = (rob, sb')" "\<not> rob < 0" "sb_ok sb"
  shows "sb_ok sb' \<and> nat rob < 32 \<and> (nat rob + 1) mod 32 = sb_tail sb'"
  using assms sb_ok_ops(3)[of sb] ring_wfD[OF sb_wf_ring[of sb]]
  by (auto simp: sb_allocate_def sb_ok_def sb_size_def split: if_splits)

lemma issue_allocate_issued:
  assumes i: "issue_allocate fu v1 v2 s = Inr s'" and wf: "core_wf s" and n: "\<not> stall_ex s"
    and t: "trap_pending s \<Longrightarrow> flush_pipeline s" and fp: "fu = FU_FPU \<Longrightarrow> fp_opcode (d_opcode (id_issue_reg s))"
  shows "issued s'"
proof -
  obtain rob sb where a: "sb_allocate (scoreboard s) = (rob, sb)" by fastforce
  let ?d = "id_issue_reg s"
  let ?e = "\<lambda>e. e\<lparr>sb_pc := d_pc ?d, sb_is_store := (d_opcode ?d = 0x23 \<or> d_opcode ?d = 0x27),
                    sb_is_branch := (d_opcode ?d \<in> {0x63, 0x6F, 0x67}), sb_fu := fu\<rparr>"
  let ?s = "s\<lparr>scoreboard := set_entry rob ?e sb\<rparr>"
  show ?thesis
  proof (cases "rob < 0")
    case True
    then show ?thesis using i a wf n t issued_bubble[of s] by (auto simp: issue_allocate_def)
  next
    case False
    note al = allocated[OF a False]
    have sb: "sb_ok (scoreboard s)" using wf by (simp add: core_wf_def)
    have ok: "sb_ok (set_entry rob ?e sb)" using al[OF sb] by (intro sb_ok_entry) auto
    have w: "core_wf ?s" using wf ok by (simp add: core_wf_def)
    show ?thesis
    proof (cases "d_is_illegal ?d")
      case True
      then show ?thesis using i a False w n issue_illegal_issued[of ?s s'] by (simp add: issue_allocate_def Let_def)
    next
      case ill: False
      then have s': "s' = dispatch rob fu v1 v2 ?s" using i a False by (simp add: issue_allocate_def Let_def)
      have ok2: "sb_ok (set_entry rob (\<lambda>e. e\<lparr>sb_writes_to_fp_reg := w\<rparr>) (set_entry rob ?e sb))" for w
        by (rule sb_ok_entry[OF ok]) simp
      have fus: "sb_fus (set_entry rob ?e sb) ! nat rob = fu"
        using al[OF sb] by (simp add: sb_fus_def set_entry_def sb_ok_def sb_size_def)
      show ?thesis
        unfolding s' using w ok2 al[OF sb] False n t fus fp
        by (auto simp: issued_def youngest_def dispatch_def Let_def upd_sb_def ex_latch_def core_wf_def sb_ok_lengths)
    qed
  qed
qed

lemma issued_simps [simp]:
  "issued (issue_bubble s) \<longleftrightarrow> core_wf s \<and> (trap_pending s \<longrightarrow> flush_pipeline s) \<and> \<not> stall_ex s"
  "issued (issue_stall s) \<longleftrightarrow> core_wf s \<and> (trap_pending s \<longrightarrow> flush_pipeline s) \<and> \<not> stall_ex s"
  by (auto simp: issued_def youngest_def)

lemma issue_instruction_issued:
  assumes i: "issue_instruction s = Inr s'" and wf: "core_wf s" and t: "trap_pending s \<longrightarrow> flush_pipeline s" and n: "\<not> stall_ex s"
  shows "issued s'"
proof -
  let ?p = "propagate_taint s"
  let ?fu = "issue_fu (id_issue_reg s)"
  have fp: "?fu = FU_FPU \<Longrightarrow> fp_opcode (d_opcode (id_issue_reg s))"
    by (auto simp: issue_fu_def fp_opcode_def Let_def split: if_splits)
  have a: "issued s'" if "issue_allocate ?fu v1 v2 ?p = Inr s'" for v1 v2
    using that wf t n fp by (intro issue_allocate_issued[of ?fu v1 v2 ?p s']) auto
  have st: "issued (issue_stall s)" "issued (issue_stall ?p)"
    "issued (issue_stall (s\<lparr>load_addr_extra := k, reg_load_tainted := r\<rparr>))" for k r
    using wf t n by simp_all
  show ?thesis
  proof (cases "fst (issue_operands ?fu s) = None \<or> snd (issue_operands ?fu s) = None \<or>
      rs3_pending s \<or> shift_hazard ?fu s \<or> csr_hazard s \<or> fpu_csr_hazard ?fu s")
    case True
    then have "s' = issue_stall s"
      using i unfolding issue_instruction_def Let_def by (auto split: if_split_asm option.split_asm prod.split_asm)
    then show ?thesis using st by simp
  next
    case False
    then obtain v1 v2 where v: "issue_operands ?fu s = (Some v1, Some v2)"
      by (cases "issue_operands ?fu s") auto
    show ?thesis
    proof (cases "load_address_hazard s")
      case True
      then have "s' = issue_stall (s\<lparr>load_addr_extra := load_addr_penalty s - 1,
            reg_load_tainted := clear_taint (d_rs1 (id_issue_reg s)) (reg_load_tainted s)\<rparr>)"
        using i v False unfolding issue_instruction_def Let_def by (simp split: if_split_asm)
      then show ?thesis using st(3) by simp
    next
      case nh: False
      have "s' = issue_stall ?p \<or> issue_allocate (issue_fu (id_issue_reg s)) v1 v2 ?p = Inr s'"
        using i v False nh unfolding issue_instruction_def Let_def by (simp split: if_split_asm)
      then show ?thesis using st(2) a by blast
    qed
  qed
qed

lemma Issue_stage_issued:
  assumes i: "Issue_stage s = Inr s'" and wf: "core_wf s" and t: "trap_pending s \<Longrightarrow> flush_pipeline s" and n: "\<not> stall_ex s"
  shows "issued s'"
proof -
  let ?s = "s\<lparr>stall_pcgen := False, stall_fetch := False, stall_issue := False\<rparr>"
  have w: "core_wf ?s" using wf by (simp add: core_wf_def)
  show ?thesis
    using i n w t issue_instruction_issued[of ?s s'] unfolding Issue_stage_def Let_def
    by (simp split: if_split_asm) auto
qed

section \<open>Front end\<close>

definition slots_ok :: "P6 \<Rightarrow> bool" where
  "slots_ok s \<longleftrightarrow> (if stall_ex s then youngest (issue_ex_reg s) (scoreboard s) \<and> \<not> x_valid (issue_ex_next s)
     else youngest (issue_ex_next s) (scoreboard s))"

definition late :: "P6 \<Rightarrow> bool" where
  "late s \<longleftrightarrow> core_wf s \<and> (trap_pending s \<longrightarrow> flush_pipeline s) \<and> slots_ok s"

lemma Issue_stage_late:
  assumes i: "Issue_stage s = Inr s'" and wf: "core_wf s" and t: "trap_pending s \<longrightarrow> flush_pipeline s"
    and y: "stall_ex s \<longrightarrow> youngest (issue_ex_reg s) (scoreboard s)"
  shows "late s'"
proof (cases "stall_ex s")
  case True
  then have "s' = issue_stall s" using i by (simp add: Issue_stage_def)
  then show ?thesis using True wf t y by (simp add: late_def slots_ok_def)
next
  case False
  then show ?thesis using Issue_stage_issued[OF i wf] t by (auto simp: late_def slots_ok_def issued_def)
qed

definition front_same :: "P6 \<Rightarrow> P6 \<Rightarrow> bool" where
  "front_same s s' \<longleftrightarrow> core_wf s' \<and> (trap_pending s' \<longrightarrow> flush_pipeline s') \<and> scoreboard s' = scoreboard s \<and>
     issue_ex_reg s' = issue_ex_reg s \<and> issue_ex_next s' = issue_ex_next s \<and> stall_ex s' = stall_ex s"

lemma late_front: "late s \<Longrightarrow> front_same s s' \<Longrightarrow> late s'"
  by (auto simp: late_def slots_ok_def front_same_def)

lemma front_same_refl: "late s \<Longrightarrow> front_same s s"
  by (simp add: late_def front_same_def)

lemma ID_stage_front: "late s \<Longrightarrow> front_same s (ID_stage s)"
proof -
  assume l: "late s"
  have n: "front_same s (s\<lparr>id_issue_next := d\<rparr>)" "front_same s (unpredict (s\<lparr>id_issue_next := d\<rparr>))" for d
    using l by (auto simp: late_def front_same_def unpredict_def core_wf_def redirect_def Let_def)
  show ?thesis
    using n front_same_refl[OF l] unfolding ID_stage_def Let_def by (simp split: option.splits)
qed

lemma fetch_instruction_frame:
  "fetch_instruction a s = Inr (i, s') \<Longrightarrow> \<exists>pf b. s' = s\<lparr>cpu_pf := pf, cpu_dmi := b\<rparr>"
proof -
  assume f: "fetch_instruction a s = Inr (i, s')"
  have "s' = s\<lparr>cpu_pf := cpu_pf s', cpu_dmi := cpu_dmi s'\<rparr>"
    using f by (auto simp: fetch_instruction_def Let_def and_then_Inr split: if_splits)
  then show ?thesis by blast
qed

lemma front_same_upd [simp]:
  "front_same s (t\<lparr>icache := c\<rparr>) = front_same s t" "front_same s (t\<lparr>stall_pcgen := b\<rparr>) = front_same s t"
  "front_same s (t\<lparr>icache_miss_remaining := n\<rparr>) = front_same s t" "front_same s (t\<lparr>stall_fetch := b\<rparr>) = front_same s t"
  "front_same s (t\<lparr>fetch_id_next := f\<rparr>) = front_same s t" "front_same s (t\<lparr>next_pc := pc\<rparr>) = front_same s t"
  "front_same s (t\<lparr>cpu_pf := pf\<rparr>) = front_same s t" "front_same s (t\<lparr>cpu_dmi := d\<rparr>) = front_same s t"
  "front_same s (t\<lparr>cpu_mmu := u\<rparr>) = front_same s t" "front_same s (fetch_bubble t) = front_same s t"
  by (simp_all add: front_same_def core_wf_def fetch_bubble_def)

lemma fetch_deliver_front [simp]: "front_same s (fetch_deliver i t) = front_same s t"
  by (simp add: fetch_deliver_def Let_def split: prod.splits)

lemma fetch_trap_front: "front_same s t \<Longrightarrow> front_same s (fetch_trap c t)"
proof -
  assume f: "front_same s t"
  have "issue_ex_next (take_trap c e v t) = issue_ex_next t" for e v
    by (simp add: take_trap_def redirect_def Let_def split: prod.splits)
  then show ?thesis
    using f take_trap_wf[of t] by (auto simp: fetch_trap_def Let_def) (auto simp: front_same_def)
qed

lemma fetch_translated_front: "fetch_translated tr t = Inr s' \<Longrightarrow> front_same s t \<Longrightarrow> front_same s s'"
proof (cases "r_fault tr \<or> r_stall_cycles tr > 0 \<or> \<not> pmp_check (r_paddr tr) 4 False True (cpu_csr t)")
  case True
  assume "fetch_translated tr t = Inr s'" "front_same s t"
  then show ?thesis using True by (auto simp: fetch_translated_def fetch_trap_front split: if_split_asm)
next
  case False
  assume f: "fetch_translated tr t = Inr s'" and r: "front_same s t"
  obtain i u where i: "fetch_instruction (r_paddr tr) t = Inr (i, u)"
    and s': "(case i of None \<Rightarrow> Inr (u\<lparr>fetch_id_next := (fetch_id_next u)\<lparr>f_valid := False, f_is_compressed := False\<rparr>\<rparr>)
       | Some instr \<Rightarrow> Inr (fetch_deliver instr u)) = (Inr s' :: sim_error + P6)"
    using f False by (auto simp: fetch_translated_def and_then_Inr)
  have "front_same s u" using fetch_instruction_frame[OF i] r by auto
  then show ?thesis using s' by (cases i) auto
qed

lemma Fetch_stage_front: "Fetch_stage s = Inr s' \<Longrightarrow> late s \<Longrightarrow> front_same s s'"
proof -
  assume f: "Fetch_stage s = Inr s'" and l: "late s"
  note r = front_same_refl[OF l]
  consider (quick) "front_same s s'"
    | (walk) tr t where "p6_translate (g_pc (pcgen_fetch_reg s)) FETCH s = Inr (tr, t)" "fetch_translated tr t = Inr s'"
    using f r unfolding Fetch_stage_def by (simp split: if_split_asm) (auto simp: and_then_Inr)
  then show ?thesis
  proof cases
    case walk
    have "front_same s t" using translate_frame[OF walk(1)] r by auto
    then show ?thesis using fetch_translated_front walk(2) by blast
  qed
qed

lemma predict_wf:
  assumes "predict pc s = (t, a, s')" "core_wf s"
  shows "core_wf s' \<and> (\<exists>r. s' = s\<lparr>ras := r\<rparr>)"
proof -
  have "s' = s\<lparr>ras := ras s'\<rparr> \<and> length (ras s') \<le> length (ras s)"
    using assms(1) by (auto simp: predict_def Let_def split: if_split_asm)
  then obtain r where r: "s' = s\<lparr>ras := r\<rparr>" "length r \<le> length (ras s)" by blast
  then have "core_wf s'" using assms(2) by (simp add: core_wf_def predictor_ok_def)
  then show ?thesis using r by blast
qed

lemma PCGen_stage_inv: "late s \<Longrightarrow> p6_inv (PCGen_stage s)"
proof -
  assume l: "late s"
  obtain t a u where p: "predict (next_pc s) s = (t, a, u)" by (metis prod_cases3)
  obtain r where r: "core_wf u" "u = s\<lparr>ras := r\<rparr>" using predict_wf[OF p] l by (auto simp: late_def)
  show ?thesis
  proof (cases "flush_pipeline s")
    case True
    then show ?thesis using l by (auto simp: PCGen_stage_def p6_inv_def late_def slots_ok_def youngest_def core_wf_def)
  next
    case False
    then show ?thesis
      using l r p by (auto simp: PCGen_stage_def p6_inv_def late_def slots_ok_def core_wf_def Let_def)
  qed
qed

section \<open>The cycle\<close>

lemma transfer_wf:
  assumes "p6_inv s"
  shows "core_wf (transfer_latches s) \<and> \<not> flush_pipeline (transfer_latches s) \<and> \<not> trap_pending (transfer_latches s) \<and>
     youngest (issue_ex_reg (transfer_latches s)) (scoreboard (transfer_latches s))"
proof -
  have q: "core_wf t \<Longrightarrow> core_wf (queue_push t)" "core_wf t \<Longrightarrow> core_wf (queue_pop t)" for t
    by (auto simp: queue_push_def queue_pop_def core_wf_def Let_def split: list.splits)
  have f [simp]: "flush_pipeline (queue_push t) = flush_pipeline t" "flush_pipeline (queue_pop t) = flush_pipeline t"
    "trap_pending (queue_push t) = trap_pending t" "trap_pending (queue_pop t) = trap_pending t"
    "issue_ex_reg (queue_push t) = issue_ex_reg t" "issue_ex_reg (queue_pop t) = issue_ex_reg t"
    "scoreboard (queue_push t) = scoreboard t" "scoreboard (queue_pop t) = scoreboard t" for t
    by (simp_all add: queue_push_def queue_pop_def Let_def split: list.splits)
  have u [simp]: "core_wf (t\<lparr>issue_ex_reg := x\<rparr>) = core_wf t" "core_wf (t\<lparr>id_issue_reg := d\<rparr>) = core_wf t"
    "core_wf (t\<lparr>fetch_id_reg := g\<rparr>) = core_wf t" "core_wf (t\<lparr>pcgen_fetch_reg := h\<rparr>) = core_wf t" for t x d g h
    by (simp_all add: core_wf_def)
  show ?thesis
    using assms by (simp add: transfer_latches_def Let_def p6_inv_def q youngest_def split: if_split_asm)
qed

lemma sync_irq_fields [simp]:
  "flush_pipeline (sync_irq_lines s) = flush_pipeline s" "trap_pending (sync_irq_lines s) = trap_pending s"
  "issue_ex_reg (sync_irq_lines s) = issue_ex_reg s" "scoreboard (sync_irq_lines s) = scoreboard s"
  by (simp_all add: sync_irq_lines_def Let_def)

lemma run_stages_inv:
  assumes r: "run_stages s = Inr s'" and wf: "core_wf s"
    and y: "\<not> flush_pipeline s \<Longrightarrow> youngest (issue_ex_reg s) (scoreboard s)"
    and t: "trap_pending s \<Longrightarrow> flush_pipeline s"
  shows "p6_inv s'"
proof -
  obtain s1 s2 s3 s4 where 1: "Commit_stage s = Inr s1" and 2: "EX_stage s1 = Inr s2" and 3: "Issue_stage s2 = Inr s3"
    and 4: "Fetch_stage (ID_stage s3) = Inr s4" and s': "s' = (PCGen_stage s4)\<lparr>prev_cycle_flush := flush_pipeline s2\<rparr>"
    using r by (auto simp: run_stages_def and_then_Inr Let_def)
  have c: "core_wf s1" "back_same s s1" using Commit_stage_wf[OF 1 wf] by auto
  have e: "core_wf s2" "trap_pending s2 \<longrightarrow> flush_pipeline s2"
    "stall_ex s2 \<longrightarrow> youngest (issue_ex_reg s2) (scoreboard s2)"
    using EX_stage_wf[OF 2 c(1)] c(2) y t by (auto simp: back_same_def youngest_def)
  have l3: "late s3" using Issue_stage_late[OF 3 e] .
  have "late s4"
    using late_front[OF l3 ID_stage_front[OF l3]] Fetch_stage_front[OF 4] late_front by blast
  then have "p6_inv (PCGen_stage s4)" by (rule PCGen_stage_inv)
  then show ?thesis unfolding s' by (simp add: p6_inv_def core_wf_def)
qed

lemma clock_cycle_inv:
  assumes c: "clock_cycle s = Inr s'" and i: "p6_inv s"
  shows "p6_inv s'"
proof -
  let ?a = "transfer_latches (s\<lparr>commit_count_this_cycle := 0, pending_csr_write := None\<rparr>)"
  let ?b = "sync_irq_lines ?a" and ?c = "snd (process_IRQ (sync_irq_lines ?a))"
  obtain t where t: "run_stages ?c = Inr t" and s': "s' = end_cycle t"
    using c by (auto simp: clock_cycle_def Let_def and_then_Inr)
  have "p6_inv (s\<lparr>commit_count_this_cycle := 0, pending_csr_write := None\<rparr>)" using i by (simp add: p6_inv_def core_wf_def)
  note a = transfer_wf[OF this]
  have b: "core_wf ?b" using a sync_irq_wf by blast
  have y: "\<not> flush_pipeline ?c \<Longrightarrow> youngest (issue_ex_reg ?c) (scoreboard ?c)" "trap_pending ?c \<Longrightarrow> flush_pipeline ?c"
    using process_IRQ_back[of ?b] a by auto
  have "p6_inv t" using run_stages_inv[OF t process_IRQ_wf[OF b] y] .
  then show ?thesis
    unfolding s' by (auto simp: end_cycle_def Let_def p6_inv_def core_wf_def tick_counters_def csr_wf_def)
qed

lemma cycle_step_inv: "cycle_step env s = Inr s' \<Longrightarrow> p6_inv s \<Longrightarrow> p6_inv s'"
proof -
  assume c: "cycle_step env s = Inr s'" and i: "p6_inv s"
  have "p6_inv ((wfi_wake s)\<lparr>cpu_pf := env (cpu_pf (wfi_wake s))\<rparr>)"
    using i by (simp add: wfi_wake_def Let_def p6_inv_def core_wf_def)
  then show ?thesis using c clock_cycle_inv by (simp add: cycle_step_def Let_def)
qed

lemma cycle_thread_inv: "cycle_thread envs s = Inr s' \<Longrightarrow> p6_inv s \<Longrightarrow> p6_inv s'"
  by (induction envs arbitrary: s) (auto simp: and_then_Inr intro: cycle_step_inv split: if_splits)

lemma P6_init_inv:
  assumes "length bht0 = 128" "list_all (\<lambda>c. c \<le> 3) bht0"
  shows "p6_inv (P6_init host PC policy slots dmi bht0 pf)"
  using assms stb_init_clean[of 4 4] sb_init_wf[of 32]
  by (simp add: p6_inv_def core_wf_def P6_init_def sb_ok_def stb_ok_def predictor_ok_def CSR_File_init_wf
      youngest_def ex_latch_init_def stb_clean_def)
    (simp add: sb_init_def sb_size_def stb_init_def stb_defs getValue_def setValue_def setPC_def Registers_init_def)

end
