(* ===== verification/ISA_Encoding.thy ===== *)
theory ISA_Encoding
  imports BASE_ISA
begin

unbundle bit_operations_syntax

text \<open>
  The instruction formats of the RISC-V manual, as a reference for the decoder of
  BASE_ISA.h: an abstract syntax of the RV32I/RV64I register, control-transfer and memory
  instructions, their encoding, and the proof that the fields, immediates and operation codes
  the source extracts from an encoding are the ones encoded.
\<close>

section \<open>Immediates are sign-extended fields\<close>

lemma ones_eq_mask:
  "(0xFFFFF :: u32) = mask 20" "(0xFFF :: u32) = mask 12"
  "(0xFFFFF :: u64) = mask 20" "(0xFFF :: u64) = mask 12" "(0xFFFFFFFF :: u64) = mask 32"
  by (simp_all add: mask_eq_exp_minus_1)

definition S_offset :: "u32 \<Rightarrow> 12 word" where
  "S_offset i = ucast (push_bit 5 (range_bits 31 25 i) OR range_bits 11 7 i)"

definition B_offset :: "u32 \<Rightarrow> 13 word" where
  "B_offset i = ucast (push_bit 12 (range_bits 31 31 i) OR push_bit 11 (range_bits 7 7 i)
      OR push_bit 5 (range_bits 30 25 i) OR push_bit 1 (range_bits 11 8 i))"

definition J_offset :: "u32 \<Rightarrow> 21 word" where
  "J_offset i = ucast (push_bit 20 (range_bits 31 31 i) OR push_bit 12 (range_bits 19 12 i)
      OR push_bit 11 (range_bits 20 20 i) OR push_bit 1 (range_bits 30 21 i))"

lemma bit_twice: "bit (w * 2 :: 'a::len word) k \<longleftrightarrow> 0 < k \<and> k < LENGTH('a) \<and> bit w (k - 1)"
  using bit_double_iff[of w k] by (auto simp: mult.commute possible_bit_word)

lemmas imm_bits = bit_twice bit_signed_iff bit_unsigned_iff bit_or_iff bit_push_bit_iff bit_mask_iff bit_drop_bit_eq
  possible_bit_word min_def

lemma imm_I_bit32: "k < 32 \<Longrightarrow> bit (get_imm_I32 i) k \<longleftrightarrow> bit i (20 + min 11 k)"
  unfolding get_imm_I32_def Let_def ones_eq_mask
  by (cases "k < 11"; cases "k = 11") (auto simp: imm_bits)

lemma imm_I_bit64: "k < 64 \<Longrightarrow> bit (get_imm_I64 i) k \<longleftrightarrow> bit i (20 + min 11 k)"
  unfolding get_imm_I64_def Let_def ones_eq_mask
  by (cases "k < 11"; cases "k = 11"; cases "k < 32") (auto simp: imm_bits)

lemma S_offset_bit:
  "bit (S_offset i) k \<longleftrightarrow> (if k < 5 then bit i (7 + k) else k < 12 \<and> bit i (20 + k))"
  unfolding S_offset_def by (cases "k < 5"; cases "k < 12") (auto simp: imm_bits)

lemma imm_S_bit32: "k < 32 \<Longrightarrow> bit (get_imm_S32 i) k \<longleftrightarrow> bit (S_offset i) (min 11 k)"
  unfolding get_imm_S32_def Let_def ones_eq_mask S_offset_bit
  by (cases "k < 5"; cases "k < 11"; cases "k = 11") (auto simp: imm_bits)

lemma imm_S_bit64: "k < 64 \<Longrightarrow> bit (get_imm_S64 i) k \<longleftrightarrow> bit (S_offset i) (min 11 k)"
  unfolding get_imm_S64_def Let_def ones_eq_mask S_offset_bit
  by (cases "k < 5"; cases "k < 11"; cases "k = 11"; cases "k < 32") (auto simp: imm_bits)

lemma B_offset_bit:
  "bit (B_offset i) k \<longleftrightarrow>
     (if k = 0 then False else if k < 5 then bit i (7 + k) else if k < 11 then bit i (20 + k)
      else if k = 11 then bit i 7 else k = 12 \<and> bit i 31)"
  unfolding B_offset_def by (cases "k < 5"; cases "k < 11"; cases "k = 11"; cases "k = 12") (auto simp: imm_bits)

lemma imm_B_bit32: "k < 32 \<Longrightarrow> bit (get_imm_B32 i) k \<longleftrightarrow> bit (B_offset i) (min 12 k)"
  unfolding get_imm_B32_def Let_def ones_eq_mask B_offset_bit
  by (cases "k < 5"; cases "k < 11"; cases "k = 11"; cases "k = 12") (auto simp: imm_bits)

lemma imm_B_bit64: "k < 64 \<Longrightarrow> bit (get_imm_B64 i) k \<longleftrightarrow> bit (B_offset i) (min 12 k)"
  unfolding get_imm_B64_def Let_def ones_eq_mask B_offset_bit
  by (cases "k < 5"; cases "k < 11"; cases "k = 11"; cases "k = 12"; cases "k < 32") (auto simp: imm_bits)

lemma J_offset_bit:
  "bit (J_offset i) k \<longleftrightarrow>
     (if k = 0 then False else if k < 11 then bit i (20 + k) else if k = 11 then bit i 20
      else if k < 20 then bit i k else k = 20 \<and> bit i 31)"
  unfolding J_offset_def by (cases "k < 11"; cases "k = 11"; cases "k < 20"; cases "k = 20") (auto simp: imm_bits)

lemma imm_J_bit32: "k < 32 \<Longrightarrow> bit (get_imm_J32 i) k \<longleftrightarrow> bit (J_offset i) (min 20 k)"
  unfolding get_imm_J32_def Let_def ones_eq_mask J_offset_bit
  by (cases "k < 11"; cases "k = 11"; cases "k < 20"; cases "k = 20") (auto simp: imm_bits)

lemma imm_J_bit64: "k < 64 \<Longrightarrow> bit (get_imm_J64 i) k \<longleftrightarrow> bit (J_offset i) (min 20 k)"
  unfolding get_imm_J64_def Let_def ones_eq_mask J_offset_bit
  by (cases "k < 11"; cases "k = 11"; cases "k < 20"; cases "k = 20"; cases "k < 32") (auto simp: imm_bits)

text \<open>The word length of an XLEN type: the two instances the source builds.\<close>

definition xlen_ok :: "'w::len itself \<Rightarrow> bool" where
  "xlen_ok _ \<longleftrightarrow> LENGTH('w) = 32 \<or> LENGTH('w) = 64"

lemma xlen_cases:
  assumes "xlen_ok TYPE('w::len)"
  obtains (rv32) "LENGTH('w) = 32" | (rv64) "LENGTH('w) = 64"
  using assms by (auto simp: xlen_ok_def)

lemma xlen_ok_insts [simp]: "xlen_ok TYPE(32)" "xlen_ok TYPE(64)"
  by (simp_all add: xlen_ok_def)

lemma imm_I_scast:
  assumes "xlen_ok TYPE('w::len)" shows "(get_imm_I i :: 'w word) = scast (ucast (drop_bit 20 i) :: 12 word)"
  using assms by (cases rule: xlen_cases)
    (auto intro!: bit_word_eqI simp: get_imm_I_def imm_I_bit32 imm_I_bit64 imm_bits)

lemma imm_S_scast:
  assumes "xlen_ok TYPE('w::len)" shows "(get_imm_S i :: 'w word) = scast (S_offset i)"
  using assms by (cases rule: xlen_cases)
    (auto intro!: bit_word_eqI simp: get_imm_S_def imm_S_bit32 imm_S_bit64 bit_signed_iff bit_unsigned_iff min_def)

lemma imm_B_scast:
  assumes "xlen_ok TYPE('w::len)" shows "(get_imm_B i :: 'w word) = scast (B_offset i)"
  using assms by (cases rule: xlen_cases)
    (auto intro!: bit_word_eqI simp: get_imm_B_def imm_B_bit32 imm_B_bit64 bit_signed_iff bit_unsigned_iff min_def)

lemma imm_J_scast:
  assumes "xlen_ok TYPE('w::len)" shows "(get_imm_J i :: 'w word) = scast (J_offset i)"
  using assms by (cases rule: xlen_cases)
    (auto intro!: bit_word_eqI simp: get_imm_J_def imm_J_bit32 imm_J_bit64 bit_signed_iff bit_unsigned_iff min_def)

section \<open>Formats\<close>

definition r_type :: "7 word \<Rightarrow> 5 word \<Rightarrow> 5 word \<Rightarrow> 3 word \<Rightarrow> 5 word \<Rightarrow> 7 word \<Rightarrow> u32" where
  "r_type f7 rs2 rs1 f3 rd op = push_bit 25 (ucast f7) OR push_bit 20 (ucast rs2) OR push_bit 15 (ucast rs1)
     OR push_bit 12 (ucast f3) OR push_bit 7 (ucast rd) OR ucast op"

definition i_type :: "12 word \<Rightarrow> 5 word \<Rightarrow> 3 word \<Rightarrow> 5 word \<Rightarrow> 7 word \<Rightarrow> u32" where
  "i_type imm rs1 f3 rd op = r_type (ucast (drop_bit 5 imm)) (ucast imm) rs1 f3 rd op"

definition s_type :: "12 word \<Rightarrow> 5 word \<Rightarrow> 5 word \<Rightarrow> 3 word \<Rightarrow> 7 word \<Rightarrow> u32" where
  "s_type imm rs2 rs1 f3 op = r_type (ucast (drop_bit 5 imm)) rs2 rs1 f3 (ucast imm) op"

text \<open>Branch and jump offsets are multiples of two: the argument is the offset divided by two.\<close>

definition b_type :: "12 word \<Rightarrow> 5 word \<Rightarrow> 5 word \<Rightarrow> 3 word \<Rightarrow> 7 word \<Rightarrow> u32" where
  "b_type half rs2 rs1 f3 op =
     r_type (push_bit 6 (ucast (drop_bit 11 half)) OR take_bit 6 (ucast (drop_bit 4 half))) rs2 rs1 f3
       (push_bit 1 (ucast half) OR of_bool (bit half 10)) op"

definition u_type :: "20 word \<Rightarrow> 5 word \<Rightarrow> 7 word \<Rightarrow> u32" where
  "u_type imm rd op = push_bit 12 (ucast imm) OR push_bit 7 (ucast rd) OR ucast op"

definition j_type :: "20 word \<Rightarrow> 5 word \<Rightarrow> 7 word \<Rightarrow> u32" where
  "j_type half rd op =
     u_type (push_bit 19 (drop_bit 19 half) OR push_bit 9 (take_bit 10 half)
       OR push_bit 8 (of_bool (bit half 10)) OR take_bit 8 (drop_bit 11 half)) rd op"

lemma bit_r_type:
  "bit (r_type f7 rs2 rs1 f3 rd op) k \<longleftrightarrow>
     (if k < 7 then bit op k else if k < 12 then bit rd (k - 7) else if k < 15 then bit f3 (k - 12)
      else if k < 20 then bit rs1 (k - 15) else if k < 25 then bit rs2 (k - 20)
      else k < 32 \<and> bit f7 (k - 25))"
  unfolding r_type_def
  by (auto simp: imm_bits dest: bit_imp_le_length)

lemma bit_u_type:
  "bit (u_type imm rd op) k \<longleftrightarrow>
     (if k < 7 then bit op k else if k < 12 then bit rd (k - 7) else k < 32 \<and> bit imm (k - 12))"
  unfolding u_type_def by (auto simp: imm_bits dest: bit_imp_le_length)

lemma r_type_fields [simp]:
  "opcode (r_type f7 rs2 rs1 f3 rd op) = ucast op"
  "get_funct3 (r_type f7 rs2 rs1 f3 rd op) = ucast f3"
  "get_funct7 (r_type f7 rs2 rs1 f3 rd op) = ucast f7"
  "range_bits 11 7 (r_type f7 rs2 rs1 f3 rd op) = ucast rd"
  "range_bits 19 15 (r_type f7 rs2 rs1 f3 rd op) = ucast rs1"
  "range_bits 24 20 (r_type f7 rs2 rs1 f3 rd op) = ucast rs2"
  "drop_bit 26 (r_type f7 rs2 rs1 f3 rd op) = ucast (drop_bit 1 f7)"
  unfolding opcode_def get_funct3_def get_funct7_def
  by (auto intro!: bit_word_eqI simp: bit_r_type imm_bits) (drule bit_imp_le_length, simp)+

lemma u_type_fields [simp]:
  "opcode (u_type imm rd op) = ucast op" "range_bits 11 7 (u_type imm rd op) = ucast rd"
  "get_imm_U (u_type imm rd op) = ucast imm"
  unfolding opcode_def get_imm_U_def
  by (auto intro!: bit_word_eqI simp: bit_u_type imm_bits) (drule bit_imp_le_length, simp)+

lemma unat_ucast_5: "unat (ucast (w :: 5 word) :: u32) = unat w"
  using unsigned_less[of w, where ?'a = nat] by (simp add: unsigned_ucast_eq take_bit_nat_eq_self)

lemma type_regs [simp]:
  "get_rd (r_type f7 rs2 rs1 f3 rd op) = unat rd" "get_rs1 (r_type f7 rs2 rs1 f3 rd op) = unat rs1"
  "get_rs2 (r_type f7 rs2 rs1 f3 rd op) = unat rs2" "get_rd (u_type imm rd op) = unat rd"
  by (simp_all add: get_rd_def get_rs1_def get_rs2_def unat_ucast_5)

lemma i_offset [simp]: "ucast (drop_bit 20 (i_type imm rs1 f3 rd op)) = imm"
  unfolding i_type_def by (auto intro!: bit_word_eqI simp: bit_r_type imm_bits split: if_splits)

lemma s_offset [simp]: "S_offset (s_type imm rs2 rs1 f3 op) = imm"
  unfolding s_type_def by (auto intro!: bit_word_eqI simp: S_offset_bit bit_r_type imm_bits split: if_splits)

lemma bit_of_bool_word: "bit (of_bool b :: 'a::len word) n \<longleftrightarrow> b \<and> n = 0"
  by (auto simp: bit_1_iff)

lemma less_13_cases: "n < 13 \<Longrightarrow> n \<in> {0,1,2,3,4,5,6,7,8,9,10,11,12 :: nat}"
  unfolding insert_iff empty_iff by presburger

lemma less_21_cases: "n < 21 \<Longrightarrow> n \<in> {0,1,2,3,4,5,6,7,8,9,10,11,12,13,14,15,16,17,18,19,20 :: nat}"
  unfolding insert_iff empty_iff by presburger

lemma b_offset [simp]: "B_offset (b_type half rs2 rs1 f3 op) = push_bit 1 (ucast half)"
proof (rule bit_word_eqI)
  fix n assume "n < LENGTH(13)"
  then have "n \<in> {0,1,2,3,4,5,6,7,8,9,10,11,12}" using less_13_cases by simp
  then show "bit (B_offset (b_type half rs2 rs1 f3 op)) n \<longleftrightarrow> bit (push_bit 1 (ucast half) :: 13 word) n"
    unfolding b_type_def insert_iff empty_iff
    by (elim disjE) (simp_all add: B_offset_bit bit_r_type imm_bits bit_take_bit_iff bit_of_bool_word)
qed

lemma j_offset [simp]: "J_offset (j_type half rd op) = push_bit 1 (ucast half)"
proof (rule bit_word_eqI)
  fix n assume "n < LENGTH(21)"
  then have "n \<in> {0,1,2,3,4,5,6,7,8,9,10,11,12,13,14,15,16,17,18,19,20}" using less_21_cases by simp
  then show "bit (J_offset (j_type half rd op)) n \<longleftrightarrow> bit (push_bit 1 (ucast half) :: 21 word) n"
    unfolding j_type_def insert_iff empty_iff
    by (elim disjE) (simp_all add: J_offset_bit bit_u_type imm_bits bit_take_bit_iff bit_of_bool_word)
qed

end
