(* ===== verification/ISA_Spec.thy ===== *)
theory ISA_Spec
  imports ISA_Encoding CPU_Simple
begin

unbundle bit_operations_syntax

text \<open>
  A reference semantics of the RV32I/RV64I register and control-transfer instructions, written
  from the architecture: a state is the register contents and the program counter, shifts are
  multiplications and divisions by powers of two, comparisons are on integers.  The theory
  shows that the decoder and the \<^verbatim>\<open>Exec_\<close> methods of the source, run on the encoding of an
  instruction, refine it.
\<close>

section \<open>Abstract instructions\<close>

datatype rv_alu = R_ADD | R_SUB | R_SLL | R_SLT | R_SLTU | R_XOR | R_SRL | R_SRA | R_OR | R_AND
datatype rv_alui = R_ADDI | R_SLTI | R_SLTIU | R_XORI | R_ORI | R_ANDI
datatype rv_cond = R_BEQ | R_BNE | R_BLT | R_BGE | R_BLTU | R_BGEU

datatype rv_instr =
    I_OP rv_alu "5 word" "5 word" "5 word"
  | I_OPI rv_alui "5 word" "5 word" "12 word"
  | I_LUI "5 word" "20 word"
  | I_AUIPC "5 word" "20 word"
  | I_JAL "5 word" "20 word"
  | I_JALR "5 word" "5 word" "12 word"
  | I_BR rv_cond "5 word" "5 word" "12 word"

fun alu_f3 :: "rv_alu \<Rightarrow> 3 word" where
  "alu_f3 R_ADD = 0" | "alu_f3 R_SUB = 0" | "alu_f3 R_SLL = 1" | "alu_f3 R_SLT = 2" | "alu_f3 R_SLTU = 3"
| "alu_f3 R_XOR = 4" | "alu_f3 R_SRL = 5" | "alu_f3 R_SRA = 5" | "alu_f3 R_OR = 6" | "alu_f3 R_AND = 7"

fun alu_f7 :: "rv_alu \<Rightarrow> 7 word" where
  "alu_f7 R_SUB = 0b0100000" | "alu_f7 R_SRA = 0b0100000" | "alu_f7 _ = 0"

fun alui_f3 :: "rv_alui \<Rightarrow> 3 word" where
  "alui_f3 R_ADDI = 0" | "alui_f3 R_SLTI = 2" | "alui_f3 R_SLTIU = 3" | "alui_f3 R_XORI = 4"
| "alui_f3 R_ORI = 6" | "alui_f3 R_ANDI = 7"

fun cond_f3 :: "rv_cond \<Rightarrow> 3 word" where
  "cond_f3 R_BEQ = 0" | "cond_f3 R_BNE = 1" | "cond_f3 R_BLT = 4" | "cond_f3 R_BGE = 5"
| "cond_f3 R_BLTU = 6" | "cond_f3 R_BGEU = 7"

fun encode :: "rv_instr \<Rightarrow> u32" where
  "encode (I_OP f rd rs1 rs2) = r_type (alu_f7 f) rs2 rs1 (alu_f3 f) rd 0b0110011"
| "encode (I_OPI f rd rs1 imm) = i_type imm rs1 (alui_f3 f) rd 0b0010011"
| "encode (I_LUI rd imm) = u_type imm rd 0b0110111"
| "encode (I_AUIPC rd imm) = u_type imm rd 0b0010111"
| "encode (I_JAL rd half) = j_type half rd 0b1101111"
| "encode (I_JALR rd rs1 imm) = i_type imm rs1 0 rd 0b1100111"
| "encode (I_BR c rs1 rs2 half) = b_type half rs2 rs1 (cond_f3 c) 0b1100011"

section \<open>Reference semantics\<close>

type_synonym 'w rv_state = "(5 word \<Rightarrow> 'w word) \<times> 'w word"

definition wr :: "5 word \<Rightarrow> 'w::len word \<Rightarrow> (5 word \<Rightarrow> 'w word) \<Rightarrow> 5 word \<Rightarrow> 'w word" where
  "wr rd v x = (if rd = 0 then x else x(rd := v))"

definition shamt :: "'w::len word \<Rightarrow> nat" where
  "shamt b = unat b mod LENGTH('w)"

fun alu_spec :: "rv_alu \<Rightarrow> 'w::len word \<Rightarrow> 'w word \<Rightarrow> 'w word" where
  "alu_spec R_ADD a b = a + b"
| "alu_spec R_SUB a b = a - b"
| "alu_spec R_SLL a b = a * 2 ^ shamt b"
| "alu_spec R_SLT a b = of_bool (sint a < sint b)"
| "alu_spec R_SLTU a b = of_bool (uint a < uint b)"
| "alu_spec R_XOR a b = a XOR b"
| "alu_spec R_SRL a b = word_of_int (uint a div 2 ^ shamt b)"
| "alu_spec R_SRA a b = word_of_int (sint a div 2 ^ shamt b)"
| "alu_spec R_OR a b = a OR b"
| "alu_spec R_AND a b = a AND b"

fun alui_spec :: "rv_alui \<Rightarrow> 'w::len word \<Rightarrow> 12 word \<Rightarrow> 'w word" where
  "alui_spec R_ADDI a imm = a + word_of_int (sint imm)"
| "alui_spec R_SLTI a imm = of_bool (sint a < sint imm)"
| "alui_spec R_SLTIU a imm = of_bool (uint a < uint (word_of_int (sint imm) :: 'w word))"
| "alui_spec R_XORI a imm = a XOR word_of_int (sint imm)"
| "alui_spec R_ORI a imm = a OR word_of_int (sint imm)"
| "alui_spec R_ANDI a imm = a AND word_of_int (sint imm)"

fun cond_spec :: "rv_cond \<Rightarrow> 'w::len word \<Rightarrow> 'w word \<Rightarrow> bool" where
  "cond_spec R_BEQ a b \<longleftrightarrow> a = b"
| "cond_spec R_BNE a b \<longleftrightarrow> a \<noteq> b"
| "cond_spec R_BLT a b \<longleftrightarrow> sint a < sint b"
| "cond_spec R_BGE a b \<longleftrightarrow> sint a \<ge> sint b"
| "cond_spec R_BLTU a b \<longleftrightarrow> uint a < uint b"
| "cond_spec R_BGEU a b \<longleftrightarrow> uint a \<ge> uint b"

fun rv_step :: "rv_instr \<Rightarrow> 'w::len rv_state \<Rightarrow> 'w rv_state" where
  "rv_step (I_OP f rd rs1 rs2) (x, pc) = (wr rd (alu_spec f (x rs1) (x rs2)) x, pc + 4)"
| "rv_step (I_OPI f rd rs1 imm) (x, pc) = (wr rd (alui_spec f (x rs1) imm) x, pc + 4)"
| "rv_step (I_LUI rd imm) (x, pc) = (wr rd (word_of_int (sint imm * 2 ^ 12)) x, pc + 4)"
| "rv_step (I_AUIPC rd imm) (x, pc) = (wr rd (pc + word_of_int (sint imm * 2 ^ 12)) x, pc + 4)"
| "rv_step (I_JAL rd half) (x, pc) = (wr rd (pc + 4) x, pc + word_of_int (2 * sint half))"
| "rv_step (I_JALR rd rs1 imm) (x, pc) = (wr rd (pc + 4) x, (x rs1 + word_of_int (sint imm)) AND NOT 1)"
| "rv_step (I_BR c rs1 rs2 half) (x, pc) =
     (x, if cond_spec c (x rs1) (x rs2) then pc + word_of_int (2 * sint half) else pc + 4)"

section \<open>Arithmetic of the two formulations\<close>

lemma bit_sint_min: "bit (sint (w :: 'a::len word)) n \<longleftrightarrow> bit w (min (LENGTH('a) - 1) n)"
proof (cases "n < LENGTH('a) - 1")
  case True
  then have "\<not> LENGTH('a) \<le> n" "min (LENGTH('a) - 1) n = n" by linarith+
  then show ?thesis by (simp add: bit_sint_iff)
next
  case False
  then have "n = LENGTH('a) - 1 \<or> LENGTH('a) \<le> n" by linarith
  then show ?thesis by (auto simp: bit_sint_iff min_def dest: bit_imp_le_length)
qed

lemma scast_twice12:
  "(scast (push_bit 1 (ucast (h :: 12 word)) :: 13 word) :: 'w::len word) = word_of_int (2 * sint h)"
proof (rule bit_word_eqI)
  fix n assume n: "n < LENGTH('w)"
  have "bit (2 * sint h) n \<longleftrightarrow> n \<noteq> 0 \<and> bit h (min 11 (n - 1))"
    by (simp add: bit_double_iff bit_sint_min)
  then show "bit (scast (push_bit 1 (ucast h) :: 13 word) :: 'w word) n = bit (word_of_int (2 * sint h) :: 'w word) n"
    using n unfolding bit_signed_iff bit_word_of_int_iff possible_bit_word bit_push_bit_iff bit_unsigned_iff min_def
    by auto
qed

lemma scast_twice20:
  "(scast (push_bit 1 (ucast (h :: 20 word)) :: 21 word) :: 'w::len word) = word_of_int (2 * sint h)"
proof (rule bit_word_eqI)
  fix n assume n: "n < LENGTH('w)"
  have "bit (2 * sint h) n \<longleftrightarrow> n \<noteq> 0 \<and> bit h (min 19 (n - 1))"
    by (simp add: bit_double_iff bit_sint_min)
  then show "bit (scast (push_bit 1 (ucast h) :: 21 word) :: 'w word) n = bit (word_of_int (2 * sint h) :: 'w word) n"
    using n unfolding bit_signed_iff bit_word_of_int_iff possible_bit_word bit_push_bit_iff bit_unsigned_iff min_def
    by auto
qed

lemma upper_imm:
  "(scast (push_bit 12 (ucast (imm :: 20 word) :: u32)) :: 'w::len word) = word_of_int (sint imm * 2 ^ 12)"
proof (rule bit_word_eqI)
  fix n assume n: "n < LENGTH('w)"
  have "bit (push_bit 12 (sint imm)) n \<longleftrightarrow> 12 \<le> n \<and> bit imm (min 19 (n - 12))"
    unfolding bit_push_bit_iff bit_sint_min by simp
  moreover have "bit (scast (push_bit 12 (ucast imm :: u32)) :: 'w word) n \<longleftrightarrow> 12 \<le> n \<and> bit imm (min 19 (n - 12))"
    using n unfolding bit_signed_iff possible_bit_word bit_push_bit_iff bit_unsigned_iff min_def by auto
  ultimately show "bit (scast (push_bit 12 (ucast imm :: u32)) :: 'w word) n = bit (word_of_int (sint imm * 2 ^ 12) :: 'w word) n"
    using n unfolding bit_word_of_int_iff push_bit_eq_mult by blast
qed

lemma sra_div: "signed_drop_bit n (a :: 'w::len word) = word_of_int (sint a div 2 ^ n)"
proof -
  have "signed_drop_bit n a = word_of_int (sint (signed_drop_bit n a))" by simp
  then show ?thesis unfolding sint_signed_drop_bit_eq drop_bit_eq_div .
qed

lemma srl_div: "drop_bit n (a :: 'w::len word) = word_of_int (uint a div 2 ^ n)"
proof -
  have "uint (drop_bit n a) = uint a div 2 ^ n"
    unfolding unsigned_drop_bit_eq drop_bit_eq_div[where ?'a = int] by (simp add: take_bit_int_eq_self)
  then show ?thesis by (metis word_of_int_uint)
qed

lemma shamt_mask:
  "LENGTH('w::len) = 32 \<Longrightarrow> unat ((b :: 'w word) AND 0x1F) = unat b mod 32"
  "LENGTH('w::len) = 64 \<Longrightarrow> unat ((b :: 'w word) AND 0x3F) = unat b mod 64"
proof -
  have "(0x1F :: 'w word) = mask 5" "(0x3F :: 'w word) = mask 6" by (simp_all add: mask_eq_exp_minus_1)
  then have "b AND 0x1F = take_bit 5 b" "b AND 0x3F = take_bit 6 b" by (simp_all add: take_bit_eq_mask)
  then show "unat (b AND 0x1F) = unat b mod 32" "unat (b AND 0x3F) = unat b mod 64"
    by (simp_all only: unsigned_take_bit_eq) (simp_all add: take_bit_eq_mod)
qed

lemma scast_word_of_int: "(scast w :: 'b::len word) = word_of_int (sint (w :: 'a::len word))"
  by simp

section \<open>Decoding an encoding\<close>

fun alu_code :: "rv_alu \<Rightarrow> opCodes" where
  "alu_code R_ADD = OP_ADD" | "alu_code R_SUB = OP_SUB" | "alu_code R_SLL = OP_SLL" | "alu_code R_SLT = OP_SLT"
| "alu_code R_SLTU = OP_SLTU" | "alu_code R_XOR = OP_XOR" | "alu_code R_SRL = OP_SRL" | "alu_code R_SRA = OP_SRA"
| "alu_code R_OR = OP_OR" | "alu_code R_AND = OP_AND"

fun alui_code :: "rv_alui \<Rightarrow> opCodes" where
  "alui_code R_ADDI = OP_ADDI" | "alui_code R_SLTI = OP_SLTI" | "alui_code R_SLTIU = OP_SLTIU"
| "alui_code R_XORI = OP_XORI" | "alui_code R_ORI = OP_ORI" | "alui_code R_ANDI = OP_ANDI"

fun cond_code :: "rv_cond \<Rightarrow> opCodes" where
  "cond_code R_BEQ = OP_BEQ" | "cond_code R_BNE = OP_BNE" | "cond_code R_BLT = OP_BLT"
| "cond_code R_BGE = OP_BGE" | "cond_code R_BLTU = OP_BLTU" | "cond_code R_BGEU = OP_BGEU"

fun instr_code :: "rv_instr \<Rightarrow> opCodes" where
  "instr_code (I_OP f _ _ _) = alu_code f"
| "instr_code (I_OPI f _ _ _) = alui_code f"
| "instr_code (I_LUI _ _) = OP_LUI"
| "instr_code (I_AUIPC _ _) = OP_AUIPC"
| "instr_code (I_JAL _ _) = OP_JAL"
| "instr_code (I_JALR _ _ _) = OP_JALR"
| "instr_code (I_BR c _ _ _) = cond_code c"

lemma decode_op: "decode (r_type (alu_f7 f) rs2 rs1 (alu_f3 f) rd 0b0110011) = alu_code f"
  by (cases f) (simp_all add: decode_def decode_alu_def)

lemma decode_opi: "decode (i_type imm rs1 (alui_f3 f) rd 0b0010011) = alui_code f"
  by (cases f) (simp_all add: i_type_def decode_def decode_alu_imm_def)

lemma decode_br: "decode (b_type half rs2 rs1 (cond_f3 c) 0b1100011) = cond_code c"
  by (cases c) (simp_all add: b_type_def decode_def)

lemma decode_encode: "decode (encode ins) = instr_code ins"
  by (cases ins) (simp_all add: decode_op decode_opi decode_br, simp_all add: decode_def i_type_def j_type_def)

section \<open>Refinement\<close>

definition rv_abs :: "'w::len word Registers \<Rightarrow> 'w rv_state" where
  "rv_abs r = (\<lambda>x. register_bank r (unat x), register_PC r)"

lemma unat_5: "unat (x :: 5 word) < 32"
  using unsigned_less[of x, where ?'a = nat] by simp

lemma rv_abs_setValue [simp]:
  "rv_abs (setValue (unat rd) v r) = (wr rd v (fst (rv_abs r)), snd (rv_abs r))"
proof -
  have "unat x = unat rd \<longleftrightarrow> x = rd" for x by (simp add: word_unat_eq_iff)
  moreover have "unat rd = 0 \<longleftrightarrow> rd = 0" by (simp add: unat_eq_zero)
  ultimately show ?thesis
    using unat_5[of rd] by (cases "rd = 0") (simp_all add: rv_abs_def setValue_def wr_def fun_eq_iff)
qed

lemma rv_abs_pc [simp]:
  "rv_abs (setPC p r) = (fst (rv_abs r), p)" "rv_abs (incPC r) = (fst (rv_abs r), snd (rv_abs r) + 4)"
  by (simp_all add: rv_abs_def setPC_def incPC_def)

lemma getValue_abs: "getValue (unat x) r = fst (rv_abs r) x" "getPC r = snd (rv_abs r)"
  using unat_5[of x] by (simp_all add: rv_abs_def getValue_def getPC_def)

lemma execute_reg:
  assumes "decode i = code" "code \<noteq> OP_ERROR" "exec_instruction i code m = reg_step g m"
  shows "execute i m = Inr (False, m\<lparr>regs := incPC (g (regs m))\<rparr>)"
  using assms by (simp add: execute_def reg_step_def advance_def upd_regs_def)

lemma execute_jump:
  assumes "decode i = code" "code \<noteq> OP_ERROR" "exec_instruction i code m = jump_step g m"
  shows "execute i m = Inr (False, m\<lparr>regs := g (regs m)\<rparr>)"
  using assms by (simp add: execute_def jump_step_def advance_def upd_regs_def)

lemma shamt_eq:
  "LENGTH('w::len) = 32 \<Longrightarrow> unat ((b :: 'w word) AND 0x1F) = shamt b"
  "LENGTH('w::len) = 64 \<Longrightarrow> unat ((b :: 'w word) AND 0x3F) = shamt b"
  by (simp_all add: shamt_mask shamt_def)

lemma uint_less: "uint a < uint b \<longleftrightarrow> a < b" "uint a \<le> uint b \<longleftrightarrow> a \<le> b" for a b :: "'w::len word"
  by (simp_all add: word_less_def word_le_def)

fun alu_exec :: "rv_alu \<Rightarrow> u32 \<Rightarrow> 'w::len word Registers \<Rightarrow> 'w word Registers" where
  "alu_exec R_ADD = Exec_ADD" | "alu_exec R_SUB = Exec_SUB" | "alu_exec R_SLL = Exec_SLL" | "alu_exec R_SLT = Exec_SLT"
| "alu_exec R_SLTU = Exec_SLTU" | "alu_exec R_XOR = Exec_XOR" | "alu_exec R_SRL = Exec_SRL" | "alu_exec R_SRA = Exec_SRA"
| "alu_exec R_OR = Exec_OR" | "alu_exec R_AND = Exec_AND"

lemma alu_exec_spec:
  fixes r :: "'w::len word Registers"
  assumes "xlen_ok TYPE('w)"
  shows "alu_exec f i r = setValue (get_rd i) (alu_spec f (getValue (get_rs1 i) r) (getValue (get_rs2 i) r)) r"
  using assms
  by (cases rule: xlen_cases; cases f)
    (simp_all add: Exec_ADD_def Exec_SUB_def Exec_SLT_def Exec_SLTU_def Exec_XOR_def Exec_OR_def Exec_AND_def
      Exec_SLL_def Exec_SLL32_def Exec_SLL64_def Exec_SRL_def Exec_SRL32_def Exec_SRL64_def
      Exec_SRA_def Exec_SRA32_def Exec_SRA64_def shamt_eq sra_div srl_div push_bit_eq_mult uint_less Let_def)

fun alui_exec :: "rv_alui \<Rightarrow> u32 \<Rightarrow> 'w::len word Registers \<Rightarrow> 'w word Registers" where
  "alui_exec R_ADDI = Exec_ADDI" | "alui_exec R_SLTI = Exec_SLTI" | "alui_exec R_SLTIU = Exec_SLTIU"
| "alui_exec R_XORI = Exec_XORI" | "alui_exec R_ORI = Exec_ORI" | "alui_exec R_ANDI = Exec_ANDI"

lemma imm_I_value:
  assumes "xlen_ok TYPE('w::len)"
  shows "(get_imm_I (i_type imm rs1 f3 rd op) :: 'w word) = word_of_int (sint imm)"
  by (simp add: imm_I_scast[OF assms])

lemma sint_imm:
  assumes "xlen_ok TYPE('w::len)" shows "sint (scast (imm :: 12 word) :: 'w word) = sint imm"
proof -
  have "LENGTH(12) \<le> LENGTH('w)" using assms by (cases rule: xlen_cases) simp_all
  then show ?thesis by (simp add: sint_up_scast is_up)
qed

lemma i_type_regs [simp]:
  "get_rd (i_type imm rs1 f3 rd op) = unat rd" "get_rs1 (i_type imm rs1 f3 rd op) = unat rs1"
  "get_rs1 (b_type half rs2 rs1 f3 op) = unat rs1" "get_rs2 (b_type half rs2 rs1 f3 op) = unat rs2"
  "get_rd (j_type hj rd op) = unat rd"
  by (simp_all add: i_type_def b_type_def j_type_def)

lemma alui_exec_spec:
  fixes r :: "'w::len word Registers"
  assumes x: "xlen_ok TYPE('w)" and i: "i = i_type imm rs1 f3 rd op"
  shows "alui_exec f i r = setValue (unat rd) (alui_spec f (getValue (unat rs1) r) imm) r"
  by (cases f)
    (simp_all add: i Exec_ADDI_def Exec_SLTI_def Exec_SLTIU_def Exec_XORI_def Exec_ORI_def Exec_ANDI_def
      imm_I_value[OF x] sint_imm[OF x] uint_less Let_def)

fun br_exec :: "rv_cond \<Rightarrow> u32 \<Rightarrow> 'w::len word Registers \<Rightarrow> 'w word Registers" where
  "br_exec R_BEQ = Exec_BEQ" | "br_exec R_BNE = Exec_BNE" | "br_exec R_BLT = Exec_BLT"
| "br_exec R_BGE = Exec_BGE" | "br_exec R_BLTU = Exec_BLTU" | "br_exec R_BGEU = Exec_BGEU"

lemma imm_B_value:
  assumes "xlen_ok TYPE('w::len)"
  shows "(get_imm_B (b_type half rs2 rs1 f3 op) :: 'w word) = word_of_int (2 * sint half)"
  unfolding imm_B_scast[OF assms] b_offset scast_twice12 ..

lemma imm_J_value:
  assumes "xlen_ok TYPE('w::len)"
  shows "(get_imm_J (j_type half rd op) :: 'w word) = word_of_int (2 * sint half)"
  unfolding imm_J_scast[OF assms] j_offset scast_twice20 ..

lemma br_exec_spec:
  fixes r :: "'w::len word Registers"
  assumes x: "xlen_ok TYPE('w)" and i: "i = b_type half rs2 rs1 f3 op"
  shows "br_exec c i r =
    (if cond_spec c (getValue (unat rs1) r) (getValue (unat rs2) r)
     then setPC (getPC r + word_of_int (2 * sint half)) r else incPC r)"
  by (cases c)
    (simp_all add: i Exec_BEQ_def Exec_BNE_def Exec_BLT_def Exec_BGE_def Exec_BLTU_def Exec_BGEU_def
      imm_B_value[OF x] uint_less Let_def)

text \<open>What an encoded instruction does to the register file, and that the dispatcher does it.\<close>

fun exec_regs :: "rv_instr \<Rightarrow> 'w::len word Registers \<Rightarrow> 'w word Registers" where
  "exec_regs (I_OP f rd rs1 rs2) r = incPC (alu_exec f (encode (I_OP f rd rs1 rs2)) r)"
| "exec_regs (I_OPI f rd rs1 imm) r = incPC (alui_exec f (encode (I_OPI f rd rs1 imm)) r)"
| "exec_regs (I_LUI rd imm) r = incPC (Exec_LUI (encode (I_LUI rd imm)) r)"
| "exec_regs (I_AUIPC rd imm) r = incPC (Exec_AUIPC (encode (I_AUIPC rd imm)) r)"
| "exec_regs (I_JAL rd half) r = Exec_JAL (encode (I_JAL rd half)) r"
| "exec_regs (I_JALR rd rs1 imm) r = Exec_JALR (encode (I_JALR rd rs1 imm)) r"
| "exec_regs (I_BR c rs1 rs2 half) r = br_exec c (encode (I_BR c rs1 rs2 half)) r"

lemma execute_encode: "execute (encode ins) m = Inr (False, m\<lparr>regs := exec_regs ins (regs m)\<rparr>)"
proof (cases ins)
  case (I_OP f rd rs1 rs2)
  have "exec_instruction (encode ins) (alu_code f) m = reg_step (alu_exec f (encode ins)) m" "alu_code f \<noteq> OP_ERROR"
    by (cases f; simp add: exec_instruction_def)+
  then show ?thesis using execute_reg decode_encode[of ins] I_OP by (metis exec_regs.simps(1) instr_code.simps(1))
next
  case (I_OPI f rd rs1 imm)
  have "exec_instruction (encode ins) (alui_code f) m = reg_step (alui_exec f (encode ins)) m" "alui_code f \<noteq> OP_ERROR"
    by (cases f; simp add: exec_instruction_def)+
  then show ?thesis using execute_reg decode_encode[of ins] I_OPI by (metis exec_regs.simps(2) instr_code.simps(2))
next
  case (I_BR c rs1 rs2 half)
  have "exec_instruction (encode ins) (cond_code c) m = jump_step (br_exec c (encode ins)) m" "cond_code c \<noteq> OP_ERROR"
    by (cases c; simp add: exec_instruction_def)+
  then show ?thesis using execute_jump decode_encode[of ins] I_BR by (metis exec_regs.simps(7) instr_code.simps(7))
qed (use decode_encode[of ins] in
    \<open>simp_all add: execute_def exec_instruction_def reg_step_def jump_step_def advance_def upd_regs_def\<close>)

lemma exec_regs_refines:
  fixes r :: "'w::len word Registers"
  assumes x: "xlen_ok TYPE('w)"
  shows "rv_abs (exec_regs ins r) = rv_step ins (rv_abs r)"
proof -
  obtain regs pc where a: "rv_abs r = (regs, pc)" by (cases "rv_abs r")
  show ?thesis
    by (cases ins)
      (simp_all add: alu_exec_spec[OF x] alui_exec_spec[OF x refl] br_exec_spec[OF x refl] getValue_abs a
        Exec_LUI_def Exec_AUIPC_def Exec_JAL_def Exec_JALR_def upper_imm imm_I_value[OF x] imm_J_value[OF x] Let_def)
qed

end
