(* ===== verification/ISA_Props.thy ===== *)
theory ISA_Props
  imports ISA_Spec Platform_Props
begin

unbundle bit_operations_syntax

text \<open>
  Properties of the functional core running programs: register x0 is never changed by any
  instruction of any extension, and a program in main memory runs as the reference
  semantics of ISA_Spec prescribes, through fetch over the bus, decoding, execution, the
  interrupt poll and the thread loop.
\<close>

section \<open>Register x0\<close>

abbreviation x0 :: "'w::len word Machine \<Rightarrow> 'w word" where "x0 m \<equiv> getValue 0 (regs m)"

lemma x0_setValue [simp]: "getValue 0 (setValue k v r) = getValue 0 r"
  by (auto simp: getValue_setValue)

lemma x0_raise [simp]: "getValue 0 (regs (RaiseException cause i m)) = x0 m"
  by (simp add: RaiseException_def Let_def)

lemma load_mem_regs: "load_mem a n m = Inr (d, m') \<Longrightarrow> regs m' = regs m"
  by (auto simp: load_mem_def and_then_Inr)

lemma store_mem_regs: "store_mem a v n m = Inr m' \<Longrightarrow> regs m' = regs m"
  by (auto simp: store_mem_def and_then_Inr)

lemma load_mem64_regs: "load_mem64 a n m = Inr (d, m') \<Longrightarrow> regs m' = regs m"
  by (auto simp: load_mem64_def and_then_Inr)

lemma store_mem64_regs: "store_mem64 a v n m = Inr m' \<Longrightarrow> regs m' = regs m"
  by (auto simp: store_mem64_def and_then_Inr)

lemmas access_regs = load_mem_regs store_mem_regs load_mem64_regs store_mem64_regs

lemmas base_reg_defs = Exec_LUI_def Exec_AUIPC_def Exec_JAL_def Exec_JALR_def Exec_BEQ_def Exec_BNE_def Exec_BLT_def
  Exec_BGE_def Exec_BLTU_def Exec_BGEU_def Exec_ADDI_def Exec_ADDIW_def Exec_SLTI_def Exec_SLTIU_def Exec_XORI_def
  Exec_ORI_def Exec_ANDI_def Exec_SRLI_def Exec_SRLI32_def Exec_SRLI64_def Exec_SRAI_def Exec_SRAI32_def
  Exec_SRAI64_def Exec_SRAIW_def Exec_ADDW_def Exec_SUBW_def Exec_SLLW_def Exec_SRLW_def Exec_SRAW_def Exec_ADD_def
  Exec_SUB_def Exec_SLL_def Exec_SLL32_def Exec_SLL64_def Exec_SRL_def Exec_SRL32_def Exec_SRL64_def Exec_SRA_def
  Exec_SRA32_def Exec_SRA64_def Exec_SLT_def Exec_SLTU_def Exec_XOR_def Exec_OR_def Exec_AND_def

lemmas system_reg_defs = Exec_CSRRW_def Exec_CSRRS_def Exec_CSRRC_def Exec_CSRRWI_def Exec_CSRRSI_def
  Exec_CSRRCI_def Exec_MRET_def Exec_SRET_def Exec_WFI_def Exec_SFENCE_def

lemmas trap_defs = Exec_SLLI_def Exec_SLLI32_def Exec_SLLI64_def Exec_SLLIW_def Exec_SRLIW_def Exec_ECALL_def
  Exec_EBREAK_def

lemmas base_mem_defs = Exec_LB_def Exec_LH_def Exec_LW_def Exec_LBU_def Exec_LHU_def Exec_LWU_def Exec_LD_def
  Exec_SB_def Exec_SH_def Exec_SW_def Exec_SD_def Exec_FENCE_def

lemma x0_base: "exec_instruction i code m = Inr (ok, bp, m') \<Longrightarrow> x0 m' = x0 m"
  by (cases code)
    (auto simp: exec_instruction_def step_defs and_then_Inr base_reg_defs system_reg_defs trap_defs base_mem_defs Let_def
      split: if_splits dest!: access_regs)

lemmas c_reg_defs = Exec_C_JR_def Exec_C_JALR_def Exec_C_JAL_def Exec_C_BEQZ_def Exec_C_BNEZ_def Exec_C_MV_def
  Exec_C_ADD_def Exec_C_LI_def Exec_C_ADDI_def Exec_C_ADDIW_def Exec_C_ADDI16SP_def Exec_C_ADDI4SPN_def
  Exec_C_SRLI_def Exec_C_SRAI_def Exec_C_SLLI_def Exec_C_ANDI_def Exec_C_SUB_def Exec_C_XOR_def Exec_C_OR_def
  Exec_C_AND_def Exec_C_SUBW_def Exec_C_ADDW_def Exec_C_EBREAK_def

lemmas c_mem_defs = Exec_C_LWSP_def Exec_C_LW_def Exec_C_LDSP_def Exec_C_LD_def Exec_C_SWSP_def Exec_C_SW_def
  Exec_C_SDSP_def Exec_C_SD_def Exec_C_FSW_SD_def

lemma x0_compressed: "C_exec_instruction i code m = Inr (ok, bp, m') \<Longrightarrow> x0 m' = x0 m"
  by (cases code)
    (auto simp: C_exec_instruction_def step_defs try_step_def and_then_Inr c_reg_defs c_mem_defs Let_def
      split: if_splits dest!: access_regs)

lemmas m_reg_defs = Exec_M_MUL_def Exec_M_MULH_def Exec_M_MULH32_def Exec_M_MULH64_def Exec_M_MULHSU_def
  Exec_M_MULHSU32_def Exec_M_MULHSU64_def Exec_M_MULHU_def Exec_M_MULHU32_def Exec_M_MULHU64_def Exec_M_MULW_def
  Exec_M_DIV_def Exec_M_DIVU_def Exec_M_REM_def Exec_M_REMU_def Exec_M_DIVW_def Exec_M_DIVUW_def Exec_M_REMW_def
  Exec_M_REMUW_def

lemma x0_mul_div: "M_exec_instruction i code m = Inr (ok, m') \<Longrightarrow> x0 m' = x0 m"
  by (cases code) (auto simp: M_exec_instruction_def and_then_Inr m_reg_defs Let_def)

lemmas a_defs = Exec_A_LR_def Exec_A_SC_def Exec_A_AMOSWAP_def Exec_A_AMOADD_def Exec_A_AMOXOR_def Exec_A_AMOAND_def
  Exec_A_AMOOR_def Exec_A_AMOMIN_def Exec_A_AMOMAX_def Exec_A_AMOMINU_def Exec_A_AMOMAXU_def Exec_LR_D_def
  Exec_SC_D_def Exec_AMO_D_def TLB_reserve_def TLB_reserved_def TLB_reserve_64_def TLB_reserved_64_def

lemma x0_amo_w: "amo_w f i m = Inr m' \<Longrightarrow> x0 m' = x0 m"
  by (auto simp: amo_w_def and_then_Inr Let_def dest!: access_regs)

lemma x0_atomic: "A_exec_instruction i code m = Inr (ok, m') \<Longrightarrow> x0 m' = x0 m"
  by (cases code)
    (auto simp: A_exec_instruction_def and_then_Inr a_defs Let_def split: if_splits dest!: access_regs x0_amo_w)

lemma x0_execute: "execute i m = Inr (bp, m') \<Longrightarrow> x0 m' = x0 m"
  by (auto simp: execute_def advance_def and_then_Inr Let_def split: if_splits
      dest!: x0_base x0_compressed x0_mul_div x0_atomic)

lemma x0_step: "CPU_step c = Inr (bp, c') \<Longrightarrow> x0 (hart c') = x0 (hart c)"
  by (auto simp: CPU_step_def fetch_def and_then_Inr wait_cycle_def upd_hart_def Let_def split: if_splits
      dest!: x0_execute)

lemma x0_irq: "x0 (hart (snd (cpu_process_IRQ c))) = x0 (hart c)"
  by (simp add: cpu_process_IRQ_def Let_def)

section \<open>Programs in main memory\<close>

text \<open>A core that fetches over the bus (direct memory access off) and has nothing to interrupt it.\<close>

definition quiet :: "'T CPU \<Rightarrow> bool" where
  "quiet c \<longleftrightarrow> \<not> dmi_ptr_valid c \<and> \<not> mem_dmi_allowed c \<and> \<not> interrupt c \<and> \<not> stopping c"

lemma fetch_dram:
  fixes c :: "'w::len word CPU"
  assumes "\<not> dmi_ptr_valid c" "dram_range (ucast (getPC (regs (hart c)))) 4"
    "mem_read (pf_mem (platform (hart c))) (dram_offset (ucast (getPC (regs (hart c))))) 4 = to_bytes 4 i"
  shows "\<exists>h v. fetch c = Inr (c\<lparr>INSTR := i, trans_dmi_allowed := h, dmi_ptr_valid := v\<rparr>) \<and> (v \<longrightarrow> mem_dmi_allowed c)"
proof -
  let ?a = "ucast (getPC (regs (hart c))) :: u64" and ?pf = "platform (hart c)"
  let ?t = "(rd_payload ?a 4)\<lparr>p_data := to_bytes 4 (INSTR c)\<rparr>"
  have b: "bus_transport bus_fuel ?t ?pf = Inr (with_response TLM_OK_RESPONSE (?t\<lparr>p_data := to_bytes 4 i\<rparr>), ?pf)"
    using bus_dram[of ?t bus_fuel ?pf] assms(2,3) by (simp add: rd_payload_def)
  let ?h = "if served_by_memory ?a then mem_dmi_allowed c else trans_dmi_allowed c"
  have o: "of_bytes (to_bytes 4 i) = i" by (rule of_bytes_full) simp
  have "fetch c = Inr (c\<lparr>INSTR := i, trans_dmi_allowed := ?h, dmi_ptr_valid := ?h \<and> mem_dmi_allowed c\<rparr>)"
    using assms(1) o unfolding fetch_def Let_def by (simp add: b upd_hart_def)
  then show ?thesis by blast
qed

lemma step_encoded:
  fixes c :: "'w::len word CPU"
  assumes x: "xlen_ok TYPE('w)" and d: "\<not> dmi_ptr_valid c"
    and a: "dram_range (ucast (getPC (regs (hart c)))) 4"
    and m: "mem_read (pf_mem (platform (hart c))) (dram_offset (ucast (getPC (regs (hart c))))) 4 = to_bytes 4 (encode ins)"
  obtains c' where "CPU_step c = Inr (False, c')"
    "rv_abs (regs (hart c')) = rv_step ins (rv_abs (regs (hart c)))"
    "platform (hart c') = (platform (hart c))\<lparr>pf_now := pf_now (platform (hart c)) + 10\<rparr>"
    "stop_requested (hart c') = stop_requested (hart c)" "interrupt c' = interrupt c"
    "dmi_ptr_valid c' \<Longrightarrow> mem_dmi_allowed c" "mem_dmi_allowed c' = mem_dmi_allowed c"
proof -
  obtain h v where f: "fetch c = Inr (c\<lparr>INSTR := encode ins, trans_dmi_allowed := h, dmi_ptr_valid := v\<rparr>)"
    and v: "v \<longrightarrow> mem_dmi_allowed c"
    using fetch_dram[OF d a m] by blast
  show thesis
    by (rule that[of "c\<lparr>INSTR := encode ins, trans_dmi_allowed := h, dmi_ptr_valid := v,
            hart := wait_cycle ((hart c)\<lparr>regs := exec_regs ins (regs (hart c))\<rparr>)\<rparr>"])
      (use v in \<open>simp_all add: CPU_step_def f execute_encode wait_cycle_def exec_regs_refines[OF x]\<close>)
qed

definition program_at :: "(u64 \<Rightarrow> rv_instr option) \<Rightarrow> bytemem \<Rightarrow> bool" where
  "program_at P mem \<longleftrightarrow>
     (\<forall>a ins. P a = Some ins \<longrightarrow> dram_range a 4 \<and> mem_read mem (dram_offset a) 4 = to_bytes 4 (encode ins))"

fun rv_run :: "(u64 \<Rightarrow> rv_instr option) \<Rightarrow> nat \<Rightarrow> 'w::len rv_state \<Rightarrow> 'w rv_state option" where
  "rv_run P 0 s = Some s"
| "rv_run P (Suc n) s = (case P (ucast (snd s)) of None \<Rightarrow> None | Some ins \<Rightarrow> rv_run P n (rv_step ins s))"

lemma quiet_irq:
  assumes "quiet c"
  shows "quiet (snd (cpu_process_IRQ c))"
    "rv_abs (regs (hart (snd (cpu_process_IRQ c)))) = rv_abs (regs (hart c))"
    "platform (hart (snd (cpu_process_IRQ c))) = platform (hart c)"
  using assms by (auto simp: quiet_def stopping_def cpu_process_IRQ_def Let_def rv_abs_def setCSR_def)

lemma thread_refines_run:
  fixes c :: "'w::len word CPU"
  assumes x: "xlen_ok TYPE('w)"
  shows "quiet c \<Longrightarrow> program_at P (pf_mem (platform (hart c))) \<Longrightarrow>
     rv_run P n (rv_abs (regs (hart c))) = Some s \<Longrightarrow>
     \<exists>c'. CPU_thread n c = Inr c' \<and> rv_abs (regs (hart c')) = s \<and> quiet c' \<and>
       pf_mem (platform (hart c')) = pf_mem (platform (hart c)) \<and>
       pf_now (platform (hart c')) = pf_now (platform (hart c)) + of_nat (10 * n)"
proof (induction n arbitrary: c)
  case 0
  then show ?case by simp
next
  case (Suc n)
  obtain ins where p: "P (ucast (getPC (regs (hart c)))) = Some ins"
    and run: "rv_run P n (rv_step ins (rv_abs (regs (hart c)))) = Some s"
    using Suc.prems(3) by (auto simp: getValue_abs split: option.splits)
  have d: "\<not> dmi_ptr_valid c" "\<not> mem_dmi_allowed c" using Suc.prems(1) by (simp_all add: quiet_def)
  have m: "dram_range (ucast (getPC (regs (hart c)))) 4"
    "mem_read (pf_mem (platform (hart c))) (dram_offset (ucast (getPC (regs (hart c))))) 4 = to_bytes 4 (encode ins)"
    using Suc.prems(2) p by (simp_all add: program_at_def)
  obtain c1 where s1: "CPU_step c = Inr (False, c1)"
    and r1: "rv_abs (regs (hart c1)) = rv_step ins (rv_abs (regs (hart c)))"
    and p1: "platform (hart c1) = (platform (hart c))\<lparr>pf_now := pf_now (platform (hart c)) + 10\<rparr>"
    and q1: "quiet c1"
    by (rule step_encoded[OF x d(1) m]) (use Suc.prems(1) d in \<open>auto simp: quiet_def stopping_def\<close>)
  let ?c2 = "snd (cpu_process_IRQ c1)"
  have "\<exists>c'. CPU_thread n ?c2 = Inr c' \<and> rv_abs (regs (hart c')) = s \<and> quiet c' \<and>
       pf_mem (platform (hart c')) = pf_mem (platform (hart ?c2)) \<and>
       pf_now (platform (hart c')) = pf_now (platform (hart ?c2)) + of_nat (10 * n)"
    by (rule Suc.IH) (use quiet_irq[OF q1] r1 p1 run Suc.prems(2) in simp_all)
  then show ?case
    using s1 q1 quiet_irq[OF q1] p1 by (auto simp: quiet_def algebra_simps)
qed

section \<open>Properties\<close>

text \<open>C3: The functional core implements the reference semantics.  For both register widths, a core
  that fetches over the bus with no interrupt outstanding, and any program of register,
  jump and branch instructions encoded in DRAM: if the reference semantics executes n instructions of
  the program from the core's registers and program counter, then n iterations of the core's
  thread succeed and end with exactly those registers and that program counter; main
  memory is unchanged and n times 10 ns have passed.\<close>
theorem core_runs_program_as_specified:
  fixes c :: "'w::len word CPU"
  assumes "xlen_ok TYPE('w)" "quiet c" "program_at P (pf_mem (platform (hart c)))"
    "rv_run P n (rv_abs (regs (hart c))) = Some s"
  shows "\<exists>c'. CPU_thread n c = Inr c' \<and> rv_abs (regs (hart c')) = s \<and>
       pf_mem (platform (hart c')) = pf_mem (platform (hart c)) \<and>
       pf_now (platform (hart c')) = pf_now (platform (hart c)) + of_nat (10 * n)"
  using thread_refines_run[OF assms] by blast

text \<open>Register x0 is hard-wired to zero: whatever program runs, for any number of instructions of
  any extension, interrupts included, a core whose x0 reads zero keeps it so.\<close>
theorem x0_hardwired_zero:
  assumes "CPU_thread n c = Inr c'" "getValue 0 (regs (hart c)) = 0"
  shows "getValue 0 (regs (hart c')) = 0"
  using assms
proof (induction n arbitrary: c)
  case 0
  then show ?case by simp
next
  case (Suc n)
  then obtain bp c1 where s: "CPU_step c = Inr (bp, c1)"
    and r: "(if stopping c1 then Inr c1 else CPU_thread n (snd (cpu_process_IRQ c1))) = Inr c'"
    by (auto simp: and_then_Inr)
  have "x0 (hart c1) = 0" using x0_step[OF s] Suc.prems(2) by simp
  then show ?case using r Suc.IH[of "snd (cpu_process_IRQ c1)"] by (simp add: x0_irq split: if_splits)
qed

definition demo_code :: "rv_instr list" where
  "demo_code = [I_OPI R_ADDI 1 0 5, I_OPI R_ADDI 0 1 7, I_OP R_SUB 2 0 1, I_BR R_BLT 2 0 0xFFA]"

definition demo_prog :: "u64 \<Rightarrow> rv_instr option" where
  "demo_prog = map_of (zip [0x80000000, 0x80000004, 0x80000008, 0x8000000C] demo_code)"

definition demo_mem :: bytemem where
  "demo_mem = mem_write (\<lambda>_. 0) 0 (concat (map (\<lambda>ins. to_bytes 4 (encode ins)) demo_code))"

definition demo_cpu :: "u32 CPU" where
  "demo_cpu = CPU_init 0x80000000 False (platform_init\<lparr>pf_mem := demo_mem\<rparr>)"

lemma demo_loaded: "program_at demo_prog (pf_mem (platform (hart demo_cpu)))"
proof -
  have m: "mem_read demo_mem (4 * k) 4 = to_bytes 4 (encode (demo_code ! k))" if "k < 4" for k
  proof -
    have "k \<in> {0, 1, 2, 3}" using that by auto
    then show ?thesis
      unfolding demo_mem_def demo_code_def insert_iff empty_iff
      by (elim disjE) (simp_all del: encode.simps add: mem_read_write_sub)
  qed
  show ?thesis
    using m[of 0] m[of 1] m[of 2] m[of 3]
    by (auto simp del: encode.simps simp: program_at_def demo_prog_def demo_cpu_def CPU_init_def demo_code_def dram_range_def
        dram_offset_def Let_def split: if_splits)
qed

lemma demo_quiet: "quiet demo_cpu"
  by (simp add: quiet_def stopping_def demo_cpu_def CPU_init_def platform_init_def Let_def)

lemma demo_x0: "getValue 0 (regs (hart demo_cpu)) = 0"
  by (simp add: demo_cpu_def CPU_init_def getValue_def setValue_def setPC_def Registers_init_def Let_def)

lemma demo_fetch:
  "demo_prog 0x80000000 = Some (I_OPI R_ADDI 1 0 5)" "demo_prog 0x80000004 = Some (I_OPI R_ADDI 0 1 7)"
  "demo_prog 0x80000008 = Some (I_OP R_SUB 2 0 1)" "demo_prog 0x8000000C = Some (I_BR R_BLT 2 0 0xFFA)"
  by (simp_all add: demo_prog_def demo_code_def)

lemma demo_start: "rv_abs (regs (hart demo_cpu)) = ((\<lambda>r. register_bank (regs (hart demo_cpu)) (unat r)), 0x80000000)"
  "register_bank (regs (hart demo_cpu)) 0 = 0"
  by (simp_all add: rv_abs_def demo_cpu_def CPU_init_def Registers_init_def setValue_def setPC_def Let_def)

lemma rv_run_step: "P (ucast pc) = Some ins \<Longrightarrow> rv_step ins (x, pc) = s \<Longrightarrow> rv_run P (Suc n) (x, pc) = rv_run P n s"
  by simp

lemma demo_rv_steps:
  fixes x :: "5 word \<Rightarrow> u32"
  assumes "x 0 = 0"
  shows "rv_step (I_OPI R_ADDI 1 0 5) (x, 0x80000000) = (x(1 := 5), 0x80000004)"
    "rv_step (I_OPI R_ADDI 0 1 7) (x(1 := 5), 0x80000004) = (x(1 := 5), 0x80000008)"
    "rv_step (I_OP R_SUB 2 0 1) (x(1 := 5), 0x80000008) = (x(1 := 5, 2 := - 5), 0x8000000C)"
    "rv_step (I_BR R_BLT 2 0 0xFFA) (x(1 := 5, 2 := - 5), 0x8000000C) = (x(1 := 5, 2 := - 5), 0x80000000)"
  using assms by (simp_all add: wr_def)

lemma demo_steps:
  fixes x :: "5 word \<Rightarrow> u32"
  assumes "x 0 = 0"
  shows "rv_run demo_prog (Suc (Suc (Suc (Suc 0)))) (x, 0x80000000) = Some (x(1 := 5, 2 := - 5), 0x80000000)"
proof -
  note step = rv_run_step[of demo_prog] and s = demo_rv_steps[of x, OF assms]
  show ?thesis
    using step[OF _ s(1)] step[OF _ s(2)] step[OF _ s(3)] step[OF _ s(4)] demo_fetch
    by (simp del: rv_run.simps(2) rv_step.simps)
qed

lemma demo_run:
  "\<exists>s. rv_run demo_prog 4 (rv_abs (regs (hart demo_cpu))) = Some s \<and> fst s 1 = 5 \<and> snd s = 0x80000000"
proof -
  have n: "(4::nat) = Suc (Suc (Suc (Suc 0)))" by simp
  show ?thesis unfolding n demo_start(1)
    by (subst demo_steps) (simp_all add: demo_start(2))
qed

theorem core_runs_program_as_specified_witness:
  "\<exists>c'. CPU_thread 4 demo_cpu = Inr c' \<and> register_bank (regs (hart c')) 1 = 5 \<and> register_PC (regs (hart c')) = 0x80000000"
proof -
  obtain s where s: "rv_run demo_prog 4 (rv_abs (regs (hart demo_cpu))) = Some s" "fst s 1 = 5" "snd s = 0x80000000"
    using demo_run by blast
  then show ?thesis
    using core_runs_program_as_specified[OF _ demo_quiet demo_loaded s(1)] by (auto simp: rv_abs_def)
qed

theorem x0_hardwired_zero_witness:
  "\<exists>c'. CPU_thread 4 demo_cpu = Inr c' \<and> getValue 0 (regs (hart c')) = 0"
proof -
  obtain s where s: "rv_run demo_prog 4 (rv_abs (regs (hart demo_cpu))) = Some s" using demo_run by blast
  obtain c' where c: "CPU_thread 4 demo_cpu = Inr c'"
    using thread_refines_run[OF _ demo_quiet demo_loaded s] by auto
  show ?thesis using x0_hardwired_zero[OF c demo_x0] c by blast
qed

end
