(* ===== verification/ISA_Fields.thy ===== *)
theory ISA_Fields
  imports ISA_Spec
begin

unbundle bit_operations_syntax

text \<open>
  The fields and immediates the two six-stage cores extract with shifts and masks: on the
  encoding of an instruction they are the encoded registers, function codes and offsets.
\<close>

lemma and_low:
  "w AND 0x7F = take_bit 7 w" "w AND 0x7 = take_bit 3 w" "w AND 0x1F = take_bit 5 w" "w AND 0x3F = take_bit 6 w"
  "w AND 0xF = take_bit 4 w" "w AND 0xFF = take_bit 8 w" "w AND 0x3FF = take_bit 10 w" "w AND 1 = take_bit 1 w"
  "w AND 0xFFFFF000 = push_bit 12 (drop_bit 12 w)" for w :: u32
proof -
  have m: "(0x7F :: u32) = mask 7" "(0x7 :: u32) = mask 3" "(0x1F :: u32) = mask 5" "(0x3F :: u32) = mask 6"
    "(0xF :: u32) = mask 4" "(0xFF :: u32) = mask 8" "(0x3FF :: u32) = mask 10" "(1 :: u32) = mask 1"
    "(0xFFFFF000 :: u32) = push_bit 12 (mask 20)"
    by (simp_all add: mask_eq_exp_minus_1)
  show "w AND 0x7F = take_bit 7 w" "w AND 0x7 = take_bit 3 w" "w AND 0x1F = take_bit 5 w" "w AND 0x3F = take_bit 6 w"
  "w AND 0xF = take_bit 4 w" "w AND 0xFF = take_bit 8 w" "w AND 0x3FF = take_bit 10 w" "w AND 1 = take_bit 1 w"
    unfolding m by (simp_all only: take_bit_eq_mask)
  show "w AND 0xFFFFF000 = push_bit 12 (drop_bit 12 w)"
    unfolding m by (rule bit_word_eqI) (auto simp: bit_and_iff bit_push_bit_iff bit_mask_iff bit_drop_bit_eq dest: bit_imp_le_length)
qed

lemma odd_drop_bit: "odd (drop_bit n (w :: 'a::len word)) \<longleftrightarrow> bit w n"
  by (simp add: bit_iff_odd_drop_bit)

lemmas field_bits = odd_drop_bit bit_take_bit_iff imm_bits bit_signed_drop_bit_iff

lemma imm_field_I: "signed_drop_bit 20 i = (scast (ucast (drop_bit 20 (i :: u32)) :: 12 word) :: u32)"
  apply (rule bit_word_eqI)
  subgoal for n by (cases "n < 11"; cases "n = 11") (auto simp: field_bits)
  done

lemma imm_field_S:
  "signed_drop_bit 20 (push_bit 20 (push_bit 5 (drop_bit 25 i) OR (drop_bit 7 (i :: u32) AND 0x1F))) =
     (scast (S_offset i) :: u32)"
  unfolding and_low
  apply (rule bit_word_eqI)
  subgoal for n unfolding  bit_signed_iff S_offset_bit
  by (cases "n < 5"; cases "n < 11"; cases "n = 11") (auto simp: field_bits)
  done

lemma imm_field_B:
  "signed_drop_bit 19 (push_bit 19
          (push_bit 12 (drop_bit 31 i) OR push_bit 11 (drop_bit 7 i AND 1)
           OR push_bit 5 (drop_bit 25 i AND 0x3F) OR push_bit 1 (drop_bit 8 i AND 0xF))) =
     (scast (B_offset i) :: u32)"
  unfolding and_low
  apply (rule bit_word_eqI)
  subgoal for n unfolding  bit_signed_iff B_offset_bit
  by (cases "n < 5"; cases "n < 11"; cases "n = 11"; cases "n = 12") (auto simp: field_bits)
  done

lemma imm_field_J:
  "signed_drop_bit 11 (push_bit 11
          (push_bit 20 (drop_bit 31 i) OR push_bit 12 (drop_bit 12 i AND 0xFF)
           OR push_bit 11 (drop_bit 20 i AND 1) OR push_bit 1 (drop_bit 21 i AND 0x3FF))) =
     (scast (J_offset i) :: u32)"
  unfolding and_low
  apply (rule bit_word_eqI)
  subgoal for n unfolding  bit_signed_iff J_offset_bit
  by (cases "n < 11"; cases "n = 11"; cases "n < 20"; cases "n = 20") (auto simp: field_bits)
  done

lemma fields_r:
  "drop_bit 12 (r_type f7 rs2 rs1 f3 rd op) AND 0x7 = ucast f3"
  "drop_bit 25 (r_type f7 rs2 rs1 f3 rd op) AND 0x7F = ucast f7"
  "drop_bit 15 (r_type f7 rs2 rs1 f3 rd op) AND 0x1F = ucast rs1"
  "drop_bit 20 (r_type f7 rs2 rs1 f3 rd op) AND 0x1F = ucast rs2"
  "drop_bit 7 (r_type f7 rs2 rs1 f3 rd op) AND 0x1F = ucast rd"
  "r_type f7 rs2 rs1 f3 rd op AND 0x7F = ucast op"
  unfolding and_low
  by (auto intro!: bit_word_eqI simp: bit_r_type field_bits) (drule bit_imp_le_length, simp)+

lemma fields_u:
  "drop_bit 7 (u_type imm rd op) AND 0x1F = ucast rd"
  "u_type imm rd op AND 0x7F = ucast op" "u_type imm rd op AND 0xFFFFF000 = push_bit 12 (ucast imm)"
  unfolding and_low
  by (auto intro!: bit_word_eqI simp: bit_u_type field_bits) (drule bit_imp_le_length, simp)+

lemma ucast_via_u32:
  "(ucast (ucast (w :: 5 word) :: u32) :: u8) = ucast w" "(ucast (ucast (w :: 5 word) :: u8) :: 5 word) = w"
  "(ucast (ucast (f3 :: 3 word) :: u32) :: u8) = ucast f3" "(ucast (ucast (f7 :: 7 word) :: u32) :: u8) = ucast f7"
  by (auto intro!: bit_word_eqI simp: imm_bits)

lemma fields_i:
  "drop_bit 12 (i_type imm rs1 f3 rd op) AND 0x7 = ucast f3" "drop_bit 15 (i_type imm rs1 f3 rd op) AND 0x1F = ucast rs1"
  "drop_bit 7 (i_type imm rs1 f3 rd op) AND 0x1F = ucast rd" "i_type imm rs1 f3 rd op AND 0x7F = ucast op"
  by (simp_all only: i_type_def fields_r)

lemma fields_b:
  "drop_bit 12 (b_type half rs2 rs1 f3 op) AND 0x7 = ucast f3" "drop_bit 15 (b_type half rs2 rs1 f3 op) AND 0x1F = ucast rs1"
  "drop_bit 20 (b_type half rs2 rs1 f3 op) AND 0x1F = ucast rs2" "b_type half rs2 rs1 f3 op AND 0x7F = ucast op"
  by (simp_all only: b_type_def fields_r)

lemma fields_j: "drop_bit 7 (j_type half rd op) AND 0x1F = ucast rd" "j_type half rd op AND 0x7F = ucast op"
  by (simp_all only: j_type_def fields_u)

lemmas fields = fields_r fields_i fields_b fields_u fields_j ucast_via_u32

lemma scast_up:
  "(scast (scast (w :: 12 word) :: u32) :: u64) = scast w" "(scast (scast (v :: 13 word) :: u32) :: u64) = scast v"
  "(scast (scast (u :: 21 word) :: u32) :: u64) = scast u"
  by (auto intro!: bit_word_eqI simp: bit_signed_iff min_def split: if_splits)

text \<open>Control transfers.\<close>

fun is_ctrl :: "rv_instr \<Rightarrow> bool" where
  "is_ctrl (I_JAL _ _) = True" | "is_ctrl (I_JALR _ _ _) = True" | "is_ctrl (I_BR _ _ _ _) = True" | "is_ctrl _ = False"

end
