(* ===== verification/P6_Datapath.thy ===== *)
theory P6_Datapath
  imports P6_Invariant ISA_Props ISA_Fields
begin

unbundle bit_operations_syntax

text \<open>
  The execute stage of the six-stage core against the reference semantics of \<^verbatim>\<open>ISA_Spec\<close>: the
  decoder recovers the fields and immediates of every encoded instruction, the datapath computes
  the reference result from them, and the branch unit makes fetch continue at the reference
  program counter whether the prediction was right or wrong.
\<close>

section \<open>Fields and immediates of the decoder\<close>

lemma imm32_types:
  "imm32 0x13 (i_type imm rs1 f3 rd op) = scast imm"
  "imm32 0x67 (i_type imm rs1 f3 rd op) = scast imm"
  "imm32 0x63 (b_type half rs2 rs1 f3 op) = word_of_int (2 * sint half)"
  "imm32 0x6F (j_type half20 rd op) = word_of_int (2 * sint half20)"
  "imm32 0x37 (u_type imm20 rd op) = word_of_int (sint imm20 * 2 ^ 12)"
  "imm32 0x17 (u_type imm20 rd op) = word_of_int (sint imm20 * 2 ^ 12)"
  unfolding imm32_def imm_field_I imm_field_B imm_field_J scast_up
  unfolding i_offset b_offset j_offset fields_u scast_twice12 scast_twice20 upper_imm
  by simp_all

definition instr_latch :: "rv_instr \<Rightarrow> ID_Issue_Latch \<Rightarrow> int \<Rightarrow> (5 word \<Rightarrow> u64) \<Rightarrow> Issue_EX_Latch" where
  "instr_latch ins d rob f =
     (let d = decode32 (encode ins) d in ex_latch d rob (f (ucast (d_rs1 d))) (f (ucast (d_rs2 d))))"

lemma sh6: "unat (b AND 0x3F) = shamt (b :: u64)"
  using shamt_mask[of b] by (simp add: shamt_def)

lemma alu_latch: "ex_op (instr_latch (I_OP a rd rs1 rs2) d rob f) = alu_spec a (f rs1) (f rs2)"
  apply (cases a)
  apply (simp_all add: instr_latch_def ex_latch_def decode32_def fields ex_op_def)
  apply (simp_all add: sh6 push_bit_eq_mult sra_div srl_div word_sless_alt  word_less_def)
  done

lemma alui_latch: "ex_op_imm (instr_latch (I_OPI a rd rs1 imm) d rob f) = alui_spec a (f rs1) imm"
  apply (cases a)
  apply (simp_all add: instr_latch_def ex_latch_def decode32_def fields ex_op_imm_def imm32_types)
  apply (simp_all add: word_sless_alt word_less_def sint_imm)
  done

section \<open>The datapath\<close>

lemmas latch_defs = instr_latch_def ex_latch_def decode32_def fields imm32_types

lemma latch_control:
  "x_opcode (instr_latch (I_OP a rd rs1 rs2) d rob f) = 0x33" "x_opcode (instr_latch (I_OPI b rd rs1 imm) d rob f) = 0x13"
  "x_opcode (instr_latch (I_LUI rd imm20) d rob f) = 0x37" "x_opcode (instr_latch (I_AUIPC rd imm20) d rob f) = 0x17"
  "x_opcode (instr_latch (I_JAL rd imm20) d rob f) = 0x6F" "x_opcode (instr_latch (I_JALR rd rs1 imm) d rob f) = 0x67"
  "x_opcode (instr_latch (I_BR c rs1 rs2 half) d rob f) = 0x63"
  by (simp_all add: latch_defs Let_def)

lemma latch_rd:
  "x_rd (instr_latch (I_OP a rd rs1 rs2) d rob f) = ucast rd" "x_rd (instr_latch (I_OPI b rd rs1 imm) d rob f) = ucast rd"
  "x_rd (instr_latch (I_LUI rd imm20) d rob f) = ucast rd" "x_rd (instr_latch (I_AUIPC rd imm20) d rob f) = ucast rd"
  "x_rd (instr_latch (I_JAL rd imm20) d rob f) = ucast rd" "x_rd (instr_latch (I_JALR rd rs1 imm) d rob f) = ucast rd"
  "x_rd (instr_latch (I_BR c rs1 rs2 half) d rob f) = 0"
  by (simp_all add: latch_defs Let_def)

lemma latch_pc [simp]: "x_pc (instr_latch ins d rob f) = d_pc d" "x_is_compressed (instr_latch ins d rob f) = False"
  "x_rob_index (instr_latch ins d rob f) = rob" "x_valid (instr_latch ins d rob f)"
  "x_predicted_taken (instr_latch ins d rob f) = d_predicted_taken d"
  "x_predicted_target (instr_latch ins d rob f) = d_predicted_target d"
  by (simp_all add: instr_latch_def ex_latch_def decode32_def Let_def)

lemma latch_imm:
  "x_imm (instr_latch (I_LUI rd imm20) d rob f) = word_of_int (sint imm20 * 2 ^ 12)"
  "x_imm (instr_latch (I_AUIPC rd imm20) d rob f) = word_of_int (sint imm20 * 2 ^ 12)"
  "x_imm (instr_latch (I_JAL rd imm20) d rob f) = word_of_int (2 * sint imm20)"
  "x_imm (instr_latch (I_JALR rd rs1 imm) d rob f) = scast imm"
  "x_imm (instr_latch (I_BR c rs1 rs2 half) d rob f) = word_of_int (2 * sint half)"
  "x_rs1_val (instr_latch (I_JALR rd rs1 imm) d rob f) = f rs1"
  by (simp_all add: latch_defs Let_def)

lemma branch_taken_latch: "branch_taken (instr_latch (I_BR c rs1 rs2 half) d rob f) = cond_spec c (f rs1) (f rs2)"
  by (cases c) (simp_all add: latch_defs branch_taken_def Let_def word_sless_alt word_sle_eq word_less_def word_le_def)

lemmas latch_simps = latch_control latch_rd latch_imm

lemma ex_result_spec:
  "d_pc d = pc \<Longrightarrow>
   rv_step ins (f, pc) =
     (wr (ucast (x_rd (instr_latch ins d rob f))) (ex_result (instr_latch ins d rob f)) f,
      if x_opcode (instr_latch ins d rob f) \<in> {0x63, 0x6F, 0x67} then branch_next (instr_latch ins d rob f) else pc + 4)"
proof (cases ins)
  case (I_OP a rd rs1 rs2)
  then show "d_pc d = pc \<Longrightarrow> ?thesis" by (simp add: latch_simps ucast_via_u32 ex_result_def alu_latch)
next
  case (I_OPI a rd rs1 imm)
  then show "d_pc d = pc \<Longrightarrow> ?thesis" by (simp add: latch_simps ucast_via_u32 ex_result_def alui_latch)
next
  case (I_BR c rs1 rs2 half)
  then show "d_pc d = pc \<Longrightarrow> ?thesis"
    by (simp add: latch_simps ex_result_def branch_next_def branch_target_def branch_taken_latch instr_size_def wr_def)
qed (simp_all add: latch_simps ucast_via_u32 ex_result_def branch_next_def branch_target_def branch_taken_def instr_size_def)

lemma plain_latch:
  "x_opcode (instr_latch ins d rob f) \<notin> {0x63, 0x6F, 0x67} \<Longrightarrow> issue_ex_reg s = instr_latch ins d rob f \<Longrightarrow>
     ex_body s = Inr ((s, False, ex_result (issue_ex_reg s)), False)"
  apply (cases ins)
  subgoal for a by (cases a) (simp_all add: ex_body_def latch_simps latch_defs)
  apply (simp_all add: ex_body_def latch_simps)
  done

lemma even_branch:
  assumes "even (d_pc d)" "x_opcode (instr_latch ins d rob f) \<in> {0x63, 0x6F, 0x67}"
  shows "branch_target (instr_latch ins d rob f) AND 1 = 0"
proof -
  have e: "w AND 1 = 0 \<longleftrightarrow> even w" for w :: u64
    by (simp add: and_one_eq word_of_int_eq_0_iff even_iff_mod_2_eq_zero)
  have t: "even (word_of_int (2 * k) :: u64)" for k by simp
  show ?thesis
    using assms by (cases ins) (auto simp: latch_simps branch_target_def e t even_and_iff)
qed

section \<open>The stage\<close>

definition outcome_at :: "int \<Rightarrow> P6 \<Rightarrow> u8 \<times> u64" where
  "outcome_at rob s = (let e = sb_get_entry (scoreboard s) rob in (sb_rd e, sb_result e))"

definition next_fetch :: "Issue_EX_Latch \<Rightarrow> P6 \<Rightarrow> u64" where
  "next_fetch x s = (if flush_pipeline s then pc_redirect_target s
     else if x_predicted_taken x then x_predicted_target x else x_pc x + instr_size x)"

lemma ex_branch_run:
  assumes "issue_ex_reg s = x" "x_valid x" "core_wf s" "youngest x (scoreboard s)" "\<not> flush_pipeline s"
    "branch_target x AND 1 = 0"
  obtains s' where "ex_branch s = Inr ((s', False, ex_result x), False)" "scoreboard s' = scoreboard s"
    "next_fetch x s' = branch_next x" "issue_ex_reg s' = x" "cpu_regs s' = cpu_regs s" "cpu_pf s' = cpu_pf s"
    "cpu_csr s' = cpu_csr s" "trap_pending s' = trap_pending s" "stall_ex s' = stall_ex s"
proof (cases "mispredict x")
  case False
  have "next_fetch x (train s) = branch_next x"
    using False assms(5) by (auto simp: next_fetch_def branch_next_def mispredict_def)
  moreover have "cpu_regs (train s) = cpu_regs s" "cpu_pf (train s) = cpu_pf s" "cpu_csr (train s) = cpu_csr s"
    by (simp_all add: train_def Let_def)
  ultimately show ?thesis
    using False assms that[of "train s"] by (simp add: ex_branch_def Let_def)
next
  case True
  let ?t = "(redirect (branch_next x) (train s))\<lparr>ras := []\<rparr>"
  have sb: "sb_flush_speculative (x_rob_index x) (scoreboard s) = Some (scoreboard s)"
    using assms squash_youngest[of x "scoreboard s"] by (simp add: core_wf_def)
  obtain u where u: "squash ?t = Inr u" using sb assms(1) by (simp add: squash_def)
  have f: "scoreboard u = scoreboard s" "next_fetch x u = branch_next x" "issue_ex_reg u = x" "cpu_regs u = cpu_regs s"
    "cpu_pf u = cpu_pf s" "cpu_csr u = cpu_csr s" "trap_pending u = trap_pending s" "stall_ex u = stall_ex s"
    using u sb assms(1) by (auto simp: squash_def next_fetch_def) (auto simp: train_def redirect_def Let_def)
  show ?thesis
    using True assms(1,6) u f that[of u] by (simp add: ex_branch_def Let_def)
qed

lemma complete_outcome:
  assumes "0 \<le> rob" "nat rob < sb_size sb"
  shows "sb_get_entry (sb_complete rob v d sb) rob = (sb_get_entry sb rob)\<lparr>sb_ready := True, sb_result := v, sb_rd := d\<rparr>"
  using assms by (simp add: sb_complete_def sb_get_entry_def sb_size_def)

lemma ex_stage_instr:
  fixes f :: "5 word \<Rightarrow> u64"
  defines "x \<equiv> \<lambda>ins d rob. instr_latch ins d rob f"
  assumes l: "issue_ex_reg s = x ins d rob" and wf: "core_wf s" and y: "youngest (x ins d rob) (scoreboard s)"
    and n: "\<not> flush_pipeline s" "\<not> trap_pending s"
    and pc: "even (d_pc d)" and pred: "x_predicted_taken (x ins d rob) \<longrightarrow> x_opcode (x ins d rob) \<in> {0x63, 0x6F, 0x67}"
  obtains s' where "EX_stage s = Inr s'" "sb_ready (sb_get_entry (scoreboard s') rob)"
    "rv_step ins (f, d_pc d) = (wr (ucast (fst (outcome_at rob s'))) (snd (outcome_at rob s')) f, next_fetch (x ins d rob) s')"
    "cpu_regs s' = cpu_regs s" "cpu_pf s' = cpu_pf s" "cpu_csr s' = cpu_csr s" "\<not> stall_ex s'"
proof -
  let ?x = "x ins d rob" and ?s = "tick_units (s\<lparr>stall_ex := False\<rparr>)"
  have xf: "x_valid ?x" "x_rob_index ?x = rob" "x_pc ?x = d_pc d" "instr_size ?x = 4" by (simp_all add: x_def instr_size_def)
  have rob: "0 \<le> rob" "nat rob < 32" using y xf by (auto simp: youngest_def)
  have w: "core_wf ?s" "back_same (s\<lparr>stall_ex := False\<rparr>) ?s"
    using wf tick_units_wf[of "s\<lparr>stall_ex := False\<rparr>"] by (simp_all add: core_wf_def)
  have sz: "sb_size (scoreboard ?s) = 32" "sb_size (scoreboard s) = 32"
    using w(1) wf by (simp_all add: core_wf_def sb_ok_def)
  have y': "youngest ?x (scoreboard ?s)" using y w(2) by (simp add: youngest_def back_same_def)
  have "\<not> fp_opcode (x_opcode ?x)" by (cases ins) (simp_all add: x_def latch_control fp_opcode_def)
  then have fu': "sb_fu (sb_get_entry (scoreboard ?s) rob) \<noteq> FU_FPU"
    using y' xf sz rob sb_fus_at[of "nat rob" "scoreboard ?s"] by (auto simp: youngest_def sb_get_entry_def)
  obtain t where t: "ex_body ?s = Inr ((t, False, ex_result ?x), False)" "scoreboard t = scoreboard ?s"
    "(if x_opcode ?x \<in> {0x63, 0x6F, 0x67} then branch_next ?x else d_pc d + 4) = next_fetch ?x t"
    "issue_ex_reg t = ?x" "cpu_regs t = cpu_regs s" "cpu_pf t = cpu_pf s" "cpu_csr t = cpu_csr s"
    "\<not> trap_pending t" "\<not> stall_ex t"
  proof (cases "x_opcode ?x \<in> {0x63, 0x6F, 0x67}")
    case True
    have "branch_target ?x AND 1 = 0" using even_branch[OF pc] True by (simp add: x_def)
    then obtain t where "ex_branch ?s = Inr ((t, False, ex_result ?x), False)" "scoreboard t = scoreboard ?s"
      "next_fetch ?x t = branch_next ?x" "issue_ex_reg t = ?x" "cpu_regs t = cpu_regs ?s" "cpu_pf t = cpu_pf ?s"
      "cpu_csr t = cpu_csr ?s" "trap_pending t = trap_pending ?s" "stall_ex t = stall_ex ?s"
      using ex_branch_run[of ?s ?x] l xf(1) w(1) y' n by auto
    then show ?thesis using that[of t] True n l by (auto simp: ex_body_def)
  next
    case False
    have "ex_body ?s = Inr ((?s, False, ex_result ?x), False)"
      using plain_latch[of ins d rob f ?s] False l by (simp add: x_def)
    moreover have "next_fetch ?x ?s = d_pc d + 4" using pred False n xf by (auto simp: next_fetch_def)
    ultimately show ?thesis using that[of ?s] False n l by simp
  qed
  let ?u = "ex_complete (ex_result ?x) (x_rd ?x) t"
  have e: "EX_stage s = Inr ?u"
    using t(1,2,4,8) n l xf fu' rob by (simp add: EX_stage_def ex_run_def Let_def ex_done_def ex_complete_def upd_sb_def)
  have o: "sb_get_entry (scoreboard ?u) rob =
      (sb_get_entry (scoreboard t) rob)\<lparr>sb_ready := True, sb_result := ex_result ?x, sb_rd := x_rd ?x\<rparr>"
    using complete_outcome[of rob "scoreboard t"] rob sz t(2,4) xf(2) by (simp add: ex_complete_def upd_sb_def)
  have nf: "next_fetch ?x ?u = next_fetch ?x t" by (simp add: next_fetch_def ex_complete_def upd_sb_def)
  have "rv_step ins (f, d_pc d) = (wr (ucast (x_rd ?x)) (ex_result ?x) f, next_fetch ?x ?u)"
    using ex_result_spec[of d "d_pc d" ins f rob] t(3) nf unfolding x_def by simp
  moreover have "cpu_regs ?u = cpu_regs s" "cpu_pf ?u = cpu_pf s" "cpu_csr ?u = cpu_csr s" "\<not> stall_ex ?u"
    using t by (simp_all add: ex_complete_def upd_sb_def)
  ultimately show ?thesis using that[OF e] o by (simp add: outcome_at_def Let_def)
qed

end
