(* ===== verification/P6_Props.thy ===== *)
theory P6_Props
  imports P6_Datapath
begin

unbundle bit_operations_syntax

text \<open>
  Properties of the whole six-stage core: the invariant along every run from reset, and the
  execute stage against the reference instruction set.
\<close>

section \<open>A core at reset\<close>

definition demo_core :: P6 where
  "demo_core = P6_init demo_host 0x80000000 Policy_LFSR 2 False (replicate 128 1) platform_init"

lemma demo_core_inv: "p6_inv demo_core"
  unfolding demo_core_def by (rule P6_init_inv) (simp_all add: list_all_iff)

lemma demo_transfer: "transfer_latches (demo_core\<lparr>commit_count_this_cycle := 0, pending_csr_write := None\<rparr>) = demo_core"
  by (simp add: transfer_latches_def demo_core_def P6_init_def queue_push_def queue_pop_def Let_def
     fetch_latch_init_def)
lemma demo_lines: "sync_irq_lines demo_core = demo_core"
  by (simp add: sync_irq_lines_def demo_core_def P6_init_def Let_def platform_init_def line_bit_def clint_init_def
    plic_init_def CSR_File_init_def)

lemma demo_irq: "process_IRQ demo_core = (False, demo_core)"
  by (simp add: process_IRQ_def Let_def demo_core_def P6_init_def pending_interrupt_def CSR_File_init_def)

lemma demo_commit: "Commit_stage demo_core = Inr demo_core"
  by (simp add: Commit_stage_def Let_def demo_core_def P6_init_def drain_cycle_def drain_one_empty stb_init_def numeral_2_eq_2
     sb_init_def sb_head_ready_def)

lemma demo_ex: "EX_stage demo_core = Inr demo_core"
  by (simp add: EX_stage_def Let_def demo_core_def P6_init_def tick_units_def tick_fu_def ex_latch_init_def fu_init_def
    numeral_eq_Suc)

lemma demo_issue: "Issue_stage demo_core = Inr demo_core"
  by (simp add: Issue_stage_def issue_bubble_def Let_def demo_core_def P6_init_def id_latch_init_def ex_latch_init_def)

lemma demo_id: "ID_stage demo_core = demo_core"
  by (simp add: ID_stage_def Let_def demo_core_def P6_init_def fetch_latch_init_def id_latch_init_def)

lemma demo_fetch_stage: "Fetch_stage demo_core = Inr demo_core"
  by (simp add: Fetch_stage_def Let_def demo_core_def P6_init_def fetch_latch_init_def pcgen_latch_init_def
      fetch_bubble_def)

lemma demo_cycle: "cycle_thread [id] demo_core = Inr (end_cycle ((PCGen_stage demo_core)\<lparr>prev_cycle_flush := False\<rparr>))"
proof -
  have c: "\<not> stop_seen demo_core" "\<not> wfi_stall demo_core" "\<not> flush_pipeline demo_core"
    by (simp_all add: stop_seen_def demo_core_def P6_init_def platform_init_def)
  then show ?thesis
    by (simp add: cycle_step_def wfi_wake_def clock_cycle_def Let_def demo_transfer demo_lines demo_irq
      run_stages_def demo_commit demo_ex demo_issue demo_id demo_fetch_stage)
qed

section \<open>The invariant\<close>



section \<open>The execute stage\<close>

text \<open>C1: When the execute latch holds the decoded form of any instruction of the reference set
  with its operands, EX_stage ends without error, marks the instruction's scoreboard entry ready with
  the destination and result of the reference semantics, and makes fetch continue at the reference
  program counter, by redirecting it or by leaving a correct prediction alone; registers,
  platform and CSRs are untouched until commit.\<close>

theorem execute_stage_implements_isa:
  assumes latch: "issue_ex_reg s = instr_latch ins d rob f"
    and inv: "core_wf s" "youngest (issue_ex_reg s) (scoreboard s)" "\<not> flush_pipeline s" "\<not> trap_pending s"
    and aligned: "even (d_pc d)"
    and predicted: "x_predicted_taken (issue_ex_reg s) \<Longrightarrow> x_opcode (issue_ex_reg s) \<in> {0x63, 0x6F, 0x67}"
  shows "\<exists>s'. EX_stage s = Inr s' \<and> sb_ready (sb_get_entry (scoreboard s') rob) \<and>
     rv_step ins (f, d_pc d) =
       (wr (ucast (fst (outcome_at rob s'))) (snd (outcome_at rob s')) f, next_fetch (issue_ex_reg s) s') \<and>
     cpu_regs s' = cpu_regs s \<and> cpu_pf s' = cpu_pf s \<and> cpu_csr s' = cpu_csr s"
proof -
  obtain s' where "EX_stage s = Inr s'" "sb_ready (sb_get_entry (scoreboard s') rob)"
    "rv_step ins (f, d_pc d) =
       (wr (ucast (fst (outcome_at rob s'))) (snd (outcome_at rob s')) f, next_fetch (issue_ex_reg s) s')"
    "cpu_regs s' = cpu_regs s" "cpu_pf s' = cpu_pf s" "cpu_csr s' = cpu_csr s"
    using ex_stage_instr[of s ins d rob f] latch inv aligned predicted by metis
  then show ?thesis by blast
qed

text \<open>A branch in the execute latch of a core in its initial state, predicted not taken, that
  jumps backwards.\<close>

definition demo_branch :: P6 where
  "demo_branch = demo_core\<lparr>
     issue_ex_reg := instr_latch (I_BR R_BNE 5 0 (- 4)) (id_latch_init\<lparr>d_pc := 0x80000010\<rparr>) 0 (\<lambda>r. if r = 5 then 3 else 0),
     scoreboard := snd (sb_allocate (sb_init 32))\<rparr>"

theorem execute_stage_implements_isa_witness:
  "\<exists>s'. EX_stage demo_branch = Inr s' \<and> next_fetch (issue_ex_reg demo_branch) s' = 0x80000008"
proof -
  let ?d = "id_latch_init\<lparr>d_pc := 0x80000010\<rparr>" and ?f = "(\<lambda>r. if r = 5 then 3 else 0) :: 5 word \<Rightarrow> u64"
  let ?i = "I_BR R_BNE 5 0 (- 4)"
  have r: "rv_step ?i (?f, d_pc ?d) = (?f, 0x80000008)" by simp
  have l: "issue_ex_reg demo_branch = instr_latch ?i ?d 0 ?f" by (simp add: demo_branch_def)
  have wf: "core_wf demo_branch"
    using demo_core_inv by (simp add: p6_inv_def core_wf_def demo_branch_def demo_core_def P6_init_def)
  have sb: "sb_tail (scoreboard demo_branch) = 1" "sb_fus (scoreboard demo_branch) ! 0 = FU_NONE"
    by (simp_all add: demo_branch_def sb_allocate_def sb_init_def sb_fus_def sb_entry_default_def sb_is_full_def sb_size_def)
  have rest: "\<not> flush_pipeline demo_branch" "\<not> trap_pending demo_branch"
    by (simp_all add: demo_branch_def demo_core_def P6_init_def)
  obtain s' where "EX_stage demo_branch = Inr s'" "snd (rv_step ?i (?f, d_pc ?d)) = next_fetch (issue_ex_reg demo_branch) s'"
    using execute_stage_implements_isa[OF l wf _ rest] sb
    by (auto simp: l youngest_def id_latch_init_def)
  then show ?thesis unfolding r by auto
qed
end
