(* ===== verification/P6_MulDiv.thy ===== *)
theory P6_MulDiv
  imports P6_Datapath
begin

unbundle bit_operations_syntax

text \<open>
  The multiplier and the divider of the six-stage core against the integers: products and
  their high halves, quotients and remainders with the cases of division by zero and of overflow, the
  leading-zero counter, and the variable latency of the divider up to the cycle that delivers
  the result.
\<close>

section \<open>Reference\<close>

datatype mul_op = R_MUL | R_MULH | R_MULHSU | R_MULHU | R_DIV | R_DIVU | R_REM | R_REMU

fun mul_spec :: "mul_op \<Rightarrow> 'a::len word \<Rightarrow> 'a word \<Rightarrow> 'a word" where
  "mul_spec R_MUL a b = word_of_int (sint a * sint b)"
| "mul_spec R_MULH a b = word_of_int ((sint a * sint b) div 2 ^ LENGTH('a))"
| "mul_spec R_MULHSU a b = word_of_int ((sint a * uint b) div 2 ^ LENGTH('a))"
| "mul_spec R_MULHU a b = word_of_int ((uint a * uint b) div 2 ^ LENGTH('a))"
| "mul_spec R_DIV a b = (if b = 0 then - 1 else word_of_int (sint a sdiv sint b))"
| "mul_spec R_DIVU a b = (if b = 0 then - 1 else word_of_int (uint a div uint b))"
| "mul_spec R_REM a b = (if b = 0 then a else word_of_int (sint a smod sint b))"
| "mul_spec R_REMU a b = (if b = 0 then a else word_of_int (uint a mod uint b))"

fun mul_funct3 :: "mul_op \<Rightarrow> u8" where
  "mul_funct3 R_MUL = 0" | "mul_funct3 R_MULH = 1" | "mul_funct3 R_MULHSU = 2" | "mul_funct3 R_MULHU = 3"
| "mul_funct3 R_DIV = 4" | "mul_funct3 R_DIVU = 5" | "mul_funct3 R_REM = 6" | "mul_funct3 R_REMU = 7"

section \<open>Products\<close>

lemma bit_div_exp: "bit (p div 2 ^ k) n \<longleftrightarrow> bit p (k + n)" for p :: int
  by (simp add: bit_iff_odd_drop_bit drop_bit_drop_bit add.commute flip: drop_bit_eq_div)

lemma high_half:
  "(ucast (drop_bit 64 (word_of_int p :: 128 word)) :: u64) = word_of_int (p div 2 ^ 64)"
  "(ucast (signed_drop_bit 64 (word_of_int p :: 128 word)) :: u64) = word_of_int (p div 2 ^ 64)"
  by (rule bit_word_eqI; auto simp: bit_ucast_iff bit_drop_bit_eq bit_signed_drop_bit_iff bit_word_of_int_iff
      bit_div_exp[of p 64, simplified])+

lemma widened_products:
  "(scast a :: 128 word) * scast b = word_of_int (sint a * sint b)"
  "(scast a :: 128 word) * ucast b = word_of_int (sint a * uint b)"
  "(ucast a :: 128 word) * ucast b = word_of_int (uint a * uint b)" for a b :: u64
proof -
  have "word_of_int (sint a) = (scast a :: 128 word)" "word_of_int (uint a) = (ucast a :: 128 word)" for a :: u64
    by simp_all
  then show "(scast a :: 128 word) * scast b = word_of_int (sint a * sint b)"
    "(scast a :: 128 word) * ucast b = word_of_int (sint a * uint b)"
    "(ucast a :: 128 word) * ucast b = word_of_int (uint a * uint b)"
    by (simp_all only: wi_hom_mult[symmetric])
qed

lemma low_product: "word_of_int (sint a * sint b) = (a * b :: 'a::len word)"
proof -
  have "word_of_int (sint a) = a" "word_of_int (sint b) = b" by simp_all
  then show ?thesis by (simp only: wi_hom_mult[symmetric])
qed

section \<open>Quotients\<close>

lemma sdiv_minus_one: "word_of_int (sint a sdiv sint (- 1 :: 'a::len word)) = (- a :: 'a word)"
  "word_of_int (sint a smod sint (- 1 :: 'a::len word)) = (0 :: 'a word)"
  by (simp_all add: signed_modulo_int_def)

lemma unsigned_quotient:
  "word_of_int (uint a div uint b) = (a div b :: 'a::len word)" "word_of_int (uint a mod uint b) = (a mod b :: 'a word)"
  by (simp_all add: word_div_def word_mod_def)

lemma signed_quotient:
  "mul_result 4 a b = mul_spec R_DIV a b" "mul_result 6 a b = mul_spec R_REM a b"
proof -
  have m: "- (0x8000000000000000 :: u64) = 0x8000000000000000" by simp
  show "mul_result 4 a b = mul_spec R_DIV a b" "mul_result 6 a b = mul_spec R_REM a b"
    using sdiv_minus_one[of "0x8000000000000000 :: u64"] unfolding m mul_result_def by auto
qed

lemma mul_result_spec: "mul_result (mul_funct3 opn) a b = mul_spec opn a b"
proof (cases opn)
  case R_MUL
  then show ?thesis by (simp add: mul_result_def low_product)
next
  case R_MULH
  then show ?thesis by (simp only: mul_funct3.simps mul_spec.simps mul_result_def widened_products high_half) simp
next
  case R_MULHSU
  then show ?thesis by (simp only: mul_funct3.simps mul_spec.simps mul_result_def widened_products high_half) simp
next
  case R_MULHU
  then show ?thesis by (simp only: mul_funct3.simps mul_spec.simps mul_result_def widened_products high_half) simp
next
  case R_DIVU
  then show ?thesis by (simp only: mul_funct3.simps mul_spec.simps unsigned_quotient) (simp add: mul_result_def)
next
  case R_REMU
  then show ?thesis by (simp only: mul_funct3.simps mul_spec.simps unsigned_quotient) (simp add: mul_result_def)
qed (simp_all only: mul_funct3.simps signed_quotient)

section \<open>The word forms\<close>

lemma scast_small:
  assumes "- (2 ^ 31) \<le> k" "k < 2 ^ 31"
  shows "(word_of_int k :: u64) = scast (word_of_int k :: u32)"
proof -
  have "sint (word_of_int k :: u32) = k" using assms by (simp add: sint_sbintrunc' signed_take_bit_int_eq_self)
  then show ?thesis unfolding scast_eq by simp
qed

lemma abs_quotient:
  "\<bar>a sdiv b\<bar> = \<bar>a\<bar> div \<bar>b\<bar>" "\<bar>a smod b\<bar> = \<bar>a\<bar> mod \<bar>b\<bar>" if "b \<noteq> 0" for a b :: int
proof -
  have "0 \<le> \<bar>a\<bar> div \<bar>b\<bar>" "0 \<le> \<bar>a\<bar> mod \<bar>b\<bar>" using that by (simp_all add: pos_imp_zdiv_nonneg_iff)
  then show "\<bar>a sdiv b\<bar> = \<bar>a\<bar> div \<bar>b\<bar>" "\<bar>a smod b\<bar> = \<bar>a\<bar> mod \<bar>b\<bar>"
    using that by (auto simp: signed_divide_int_def signed_modulo_int_def abs_mult sgn_if)
qed

lemma sint_range32: "- (2 ^ 31) \<le> sint w" "sint w < 2 ^ 31" for w :: u32
  using sint_ge[of w] sint_lt[of w] by simp_all

lemma sint_eq_iff: "sint a = sint b \<longleftrightarrow> a = b" for a b :: "'a::len word"
  by (metis signed_word_eqI)

lemma quotient_range:
  fixes w1 w2 :: u32
  assumes "w2 \<noteq> 0" "\<not> (w1 = 0x80000000 \<and> w2 = - 1)"
  shows "- (2 ^ 31) \<le> sint w1 sdiv sint w2" "sint w1 sdiv sint w2 < 2 ^ 31"
    "- (2 ^ 31) \<le> sint w1 smod sint w2" "sint w1 smod sint w2 < 2 ^ 31"
proof -
  let ?a = "sint w1" and ?b = "sint w2"
  have b0: "?b \<noteq> 0" using assms(1) sint_eq_iff[of w2 0] by simp
  have r: "\<bar>?a\<bar> \<le> 2 ^ 31" "\<bar>?b\<bar> \<le> 2 ^ 31" using sint_range32[of w1] sint_range32[of w2] by auto
  have "\<bar>?a smod ?b\<bar> < 2 ^ 31"
    unfolding abs_quotient[OF b0] using r(2) pos_mod_bound[of "\<bar>?b\<bar>" "\<bar>?a\<bar>"] b0 by linarith
  then show "- (2 ^ 31) \<le> ?a smod ?b" "?a smod ?b < 2 ^ 31" by auto
  have b1: "1 \<le> \<bar>?b\<bar>" using b0 by linarith
  have d: "\<bar>?a sdiv ?b\<bar> \<le> 2 ^ 31"
    unfolding abs_quotient[OF b0] using r(1) zdiv_mono2[of "\<bar>?a\<bar>" 1 "\<bar>?b\<bar>"] b1 by simp
  then show "- (2 ^ 31) \<le> ?a sdiv ?b" by auto
  show "?a sdiv ?b < 2 ^ 31"
  proof (rule ccontr)
    assume "\<not> ?a sdiv ?b < 2 ^ 31"
    then have q: "?a sdiv ?b = 2 ^ 31" "\<bar>?a\<bar> div \<bar>?b\<bar> = 2 ^ 31" using d abs_quotient(1)[OF b0, of ?a] by auto
    have "0 \<le> \<bar>?a\<bar> mod \<bar>?b\<bar>" using b1 by simp
    then have "\<bar>?b\<bar> * 2 ^ 31 \<le> \<bar>?a\<bar>"
      using mult_div_mod_eq[of "\<bar>?b\<bar>" "\<bar>?a\<bar>"] unfolding q(2) by linarith
    then have "\<bar>?b\<bar> = 1" "\<bar>?a\<bar> = 2 ^ 31" using r b0 by auto
    then have "?a = - (2 ^ 31)" "?b = - 1" using q(1) sint_range32[of w1] by (auto simp: abs_if split: if_splits)
    then have "sint w1 = sint (0x80000000 :: u32)" "sint w2 = sint (- 1 :: u32)" by simp_all
    then show False using assms(2) unfolding sint_eq_iff by simp
  qed
qed

lemma mulw_result_spec:
  assumes "opn \<notin> {R_MULH, R_MULHSU, R_MULHU}"
  shows "mulw_result (mul_funct3 opn) a b = scast (mul_spec opn (ucast a :: u32) (ucast b))"
proof -
  let ?w1 = "ucast a :: u32" and ?w2 = "ucast b :: u32"
  have ov: "word_of_int (sint (0x80000000 :: u32) sdiv sint (- 1 :: u32)) = (0x80000000 :: u32)"
    "word_of_int (sint (0x80000000 :: u32) smod sint (- 1 :: u32)) = (0 :: u32)"
    unfolding sdiv_minus_one by simp_all
  have q: "word_of_int (sint ?w1 sdiv sint ?w2) = (scast (word_of_int (sint ?w1 sdiv sint ?w2) :: u32) :: u64)"
    "word_of_int (sint ?w1 smod sint ?w2) = (scast (word_of_int (sint ?w1 smod sint ?w2) :: u32) :: u64)"
    if "?w2 \<noteq> 0" "\<not> (?w1 = 0x80000000 \<and> ?w2 = - 1)"
    using quotient_range[OF that] by (simp_all only: scast_small)
  have d: "mulw_result 4 a b = scast (mul_spec R_DIV ?w1 ?w2)"
    unfolding mulw_result_def Let_def mul_spec.simps using ov(1) q(1) by auto
  have m: "mulw_result 6 a b = scast (mul_spec R_REM ?w1 ?w2)"
    unfolding mulw_result_def Let_def mul_spec.simps using ov(2) q(2) by auto
  have u: "mulw_result 0 a b = scast (mul_spec R_MUL ?w1 ?w2)" "mulw_result 5 a b = scast (mul_spec R_DIVU ?w1 ?w2)"
    "mulw_result 7 a b = scast (mul_spec R_REMU ?w1 ?w2)"
    unfolding mul_spec.simps unsigned_quotient low_product by (simp_all add: mulw_result_def)
  show ?thesis using assms by (cases opn) (simp_all only: mul_funct3.simps u d m, simp_all)
qed

section \<open>Leading zeros\<close>

lemma and_high_eq_0: "v AND NOT (mask j) = 0 \<longleftrightarrow> unat v < 2 ^ j" if "j < 64" for v :: u64
proof -
  have "v AND NOT (mask j) = 0 \<longleftrightarrow> take_bit j v = v"
    by (auto simp: take_bit_eq_mask bit_eq_iff bit_simps)
  also have "\<dots> \<longleftrightarrow> unat v < 2 ^ j"
    by (simp add: word_unat_eq_iff unsigned_take_bit_eq take_bit_nat_eq_self_iff)
  finally show ?thesis .
qed

lemma clz_step_inv:
  fixes v val :: u64
  assumes "unat val = unat v * 2 ^ n" "2 ^ (64 - 2 * k) \<le> unat val" "0 < k" "2 * k \<le> 64"
    and "clz_step (NOT (mask (64 - k))) k (n, val) = (n', val')"
  shows "unat val' = unat v * 2 ^ n' \<and> 2 ^ (64 - k) \<le> unat val'"
proof (cases "unat val < 2 ^ (64 - k)")
  case True
  then have s: "n' = n + k" "val' = push_bit k val" using assms by (auto simp: clz_step_def and_high_eq_0)
  have "unat val * 2 ^ k < 2 ^ (64 - k) * 2 ^ k" using True by simp
  also have "\<dots> = 2 ^ 64" using assms(4) by (simp flip: power_add)
  finally have b: "unat val * 2 ^ k < 2 ^ 64" .
  then have u: "unat val' = unat val * 2 ^ k"
    unfolding s unsigned_push_bit_eq unfolding push_bit_eq_mult by (simp add: take_bit_nat_eq_self)
  have "(2::nat) ^ (64 - k) = 2 ^ (64 - 2 * k) * 2 ^ k" using assms(4) by (simp flip: power_add)
  then have "2 ^ (64 - k) \<le> unat val * 2 ^ k" using assms(2) by simp
  then show ?thesis using u assms(1) s by (simp add: power_add)
next
  case False
  then show ?thesis using assms by (auto simp: clz_step_def and_high_eq_0)
qed

lemma clz64_bounds:
  assumes "v \<noteq> 0"
  shows "2 ^ 63 \<le> unat v * 2 ^ clz64 v" "unat v * 2 ^ clz64 v < 2 ^ 64"
proof -
  have m: "(0xFFFFFFFF00000000 :: u64) = NOT (mask (64 - 32))" "(0xFFFF000000000000 :: u64) = NOT (mask (64 - 16))"
    "(0xFF00000000000000 :: u64) = NOT (mask (64 - 8))" "(0xF000000000000000 :: u64) = NOT (mask (64 - 4))"
    "(0xC000000000000000 :: u64) = NOT (mask (64 - 2))" "(0x8000000000000000 :: u64) = NOT (mask (64 - 1))"
    by (simp_all add: mask_eq_exp_minus_1)
  obtain n1 v1 where 1: "clz_step (NOT (mask (64 - 32))) 32 (0, v) = (n1, v1)" by fastforce
  obtain n2 v2 where 2: "clz_step (NOT (mask (64 - 16))) 16 (n1, v1) = (n2, v2)" by fastforce
  obtain n3 v3 where 3: "clz_step (NOT (mask (64 - 8))) 8 (n2, v2) = (n3, v3)" by fastforce
  obtain n4 v4 where 4: "clz_step (NOT (mask (64 - 4))) 4 (n3, v3) = (n4, v4)" by fastforce
  obtain n5 v5 where 5: "clz_step (NOT (mask (64 - 2))) 2 (n4, v4) = (n5, v5)" by fastforce
  obtain n6 v6 where 6: "clz_step (NOT (mask (64 - 1))) 1 (n5, v5) = (n6, v6)" by fastforce
  have "0 < unat v" using assms by (simp add: unat_gt_0)
  then have i1: "unat v1 = unat v * 2 ^ n1 \<and> 2 ^ (64 - 32) \<le> unat v1" using clz_step_inv[OF _ _ _ _ 1, of v] by simp
  have i2: "unat v2 = unat v * 2 ^ n2 \<and> 2 ^ (64 - 16) \<le> unat v2" using clz_step_inv[OF _ _ _ _ 2, of v] i1 by simp
  have i3: "unat v3 = unat v * 2 ^ n3 \<and> 2 ^ (64 - 8) \<le> unat v3" using clz_step_inv[OF _ _ _ _ 3, of v] i2 by simp
  have i4: "unat v4 = unat v * 2 ^ n4 \<and> 2 ^ (64 - 4) \<le> unat v4" using clz_step_inv[OF _ _ _ _ 4, of v] i3 by simp
  have i5: "unat v5 = unat v * 2 ^ n5 \<and> 2 ^ (64 - 2) \<le> unat v5" using clz_step_inv[OF _ _ _ _ 5, of v] i4 by simp
  have i6: "unat v6 = unat v * 2 ^ n6 \<and> 2 ^ (64 - 1) \<le> unat v6" using clz_step_inv[OF _ _ _ _ 6, of v] i5 by simp
  have "clz64 v = n6" using assms unfolding clz64_def m 1 2 3 4 5 6 by simp
  moreover have "unat v6 < 2 ^ 64" using unsigned_less[of v6] by simp
  ultimately show "2 ^ 63 \<le> unat v * 2 ^ clz64 v" "unat v * 2 ^ clz64 v < 2 ^ 64"
    using i6 by simp_all
qed

text \<open>The number of binary digits, and the count of leading zeros as its complement.\<close>

fun bits :: "nat \<Rightarrow> nat" where
  "bits n = (if n = 0 then 0 else Suc (bits (n div 2)))"

declare bits.simps [simp del]

lemma bits_0 [simp]: "bits 0 = 0"
  by (simp add: bits.simps)

lemma bits_unique: "2 ^ k \<le> n \<Longrightarrow> n < 2 ^ Suc k \<Longrightarrow> bits n = Suc k"
proof (induction k arbitrary: n)
  case 0
  then have "n = 1" by simp
  then show ?case by (simp add: bits.simps)
next
  case (Suc k)
  then have "bits (n div 2) = Suc k" by simp
  moreover have "n \<noteq> 0" using Suc.prems(1) by (cases n) simp_all
  ultimately show ?case by (subst bits.simps) simp
qed

lemma clz64_bits: "clz64 v + bits (unat v) = 64"
proof (cases "v = 0")
  case True
  then show ?thesis by (simp add: clz64_def bits.simps)
next
  case False
  let ?n = "clz64 v"
  note b = clz64_bounds[OF False]
  have n: "?n \<le> 63"
  proof (rule ccontr)
    assume "\<not> ?n \<le> 63"
    then have "(2::nat) ^ 64 \<le> 2 ^ ?n" by (intro power_increasing) simp_all
    also have "\<dots> = 1 * 2 ^ ?n" by simp
    also have "\<dots> \<le> unat v * 2 ^ ?n" using False by (intro mult_right_mono) (simp_all add: Suc_le_eq unat_gt_0)
    finally show False using b(2) by simp
  qed
  have "(2::nat) ^ 63 = 2 ^ (63 - ?n) * 2 ^ ?n" "(2::nat) ^ 64 = 2 ^ Suc (63 - ?n) * 2 ^ ?n" using n by (simp_all flip: power_add)
  then have "2 ^ (63 - ?n) * 2 ^ ?n \<le> unat v * 2 ^ ?n" "unat v * 2 ^ ?n < 2 ^ Suc (63 - ?n) * 2 ^ ?n"
    using b by (simp_all only:)
  then have "2 ^ (63 - ?n) \<le> unat v" "unat v < 2 ^ Suc (63 - ?n)"
    unfolding mult_le_cancel2 mult_less_cancel2 by simp_all
  then show ?thesis using bits_unique n by simp
qed

section \<open>Latency\<close>

definition divider_cycles :: "nat \<Rightarrow> nat \<Rightarrow> int" where
  "divider_cycles a b = (if b = 0 \<or> bits a < bits b then 1 else int (bits a) - int (bits b) + 6)"

lemma div_cycles_bits:
  "div_cycles is_signed A B = divider_cycles (unat (if is_signed \<and> A <s 0 then NOT A + 1 else A))
     (unat (if is_signed \<and> B <s 0 then NOT B else B))"
proof -
  have c: "int (clz64 v) = 64 - int (bits (unat v))" for v using clz64_bits[of v] by linarith
  have z: "(if v = 0 then 64 else int (clz64 v)) = int (clz64 v)" for v by (simp add: clz64_def)
  show ?thesis
    unfolding div_cycles_def Let_def z c divider_cycles_def by (auto simp: unat_eq_0)
qed

lemma unat_of_int: "0 \<le> k \<Longrightarrow> k < 2 ^ 64 \<Longrightarrow> unat (word_of_int k :: u64) = nat k"
  by (simp add: unat_eq_nat_uint uint_word_of_int_eq take_bit_int_eq_self)

lemma sint_range64: "- (2 ^ 63) \<le> sint w" "sint w < 2 ^ 63" for w :: u64
  using sint_ge[of w] sint_lt[of w] by simp_all

lemma operand_magnitude:
  fixes w :: u64
  shows "w <s 0 \<Longrightarrow> unat (NOT w + 1) = nat \<bar>sint w\<bar>" "w <s 0 \<Longrightarrow> unat (NOT w) = nat (\<bar>sint w\<bar> - 1)"
    "\<not> w <s 0 \<Longrightarrow> unat w = nat \<bar>sint w\<bar>"
proof -
  have w: "word_of_int (- sint w) = NOT w + 1" "word_of_int (- sint w - 1) = NOT w" "word_of_int (sint w) = w"
    by (simp_all add: not_eq_complement)
  note r = sint_range64[of w] and u = unat_of_int[of "- sint w", unfolded w] unat_of_int[of "- sint w - 1", unfolded w]
    unat_of_int[of "sint w", unfolded w]
  show "w <s 0 \<Longrightarrow> unat (NOT w + 1) = nat \<bar>sint w\<bar>" "w <s 0 \<Longrightarrow> unat (NOT w) = nat (\<bar>sint w\<bar> - 1)"
    "\<not> w <s 0 \<Longrightarrow> unat w = nat \<bar>sint w\<bar>"
    using r u by (auto simp: word_sless_alt)
qed

lemma bits_mono_bound: "n < 2 ^ k \<Longrightarrow> bits n \<le> k"
proof (induction k arbitrary: n)
  case 0
  then show ?case by (simp add: bits.simps)
next
  case (Suc k)
  then have "bits (n div 2) \<le> k" by simp
  then show ?case by (subst bits.simps) simp
qed

lemma divider_cycles_bounds: "a < 2 ^ k \<Longrightarrow> 1 \<le> divider_cycles a b \<and> (1 \<le> k \<longrightarrow> divider_cycles a b \<le> int k + 5)"
proof -
  assume "a < 2 ^ k"
  then have "bits a \<le> k" by (rule bits_mono_bound)
  moreover have "b \<noteq> 0 \<Longrightarrow> 1 \<le> bits b" by (subst bits.simps) simp
  ultimately show ?thesis by (auto simp: divider_cycles_def)
qed

section \<open>The units\<close>

abbreviation fu_step :: "FunctionalUnitState \<times> Scoreboard \<times> u32 \<Rightarrow> FunctionalUnitState \<times> Scoreboard \<times> u32" where
  "fu_step \<equiv> \<lambda>(u, st). tick_fu False u st"

lemma fu_step_counts:
  "fu_busy u \<Longrightarrow> int k < fu_remaining u \<Longrightarrow> (fu_step ^^ k) (u, st) = (u\<lparr>fu_remaining := fu_remaining u - int k\<rparr>, st)"
proof (induction k)
  case (Suc k)
  then show ?case by (cases st) (simp add: tick_fu_def)
qed simp

lemma fu_step_delivers:
  assumes "fu_busy u" "fu_remaining u = int n" "0 < n"
  shows "(fu_step ^^ n) (u, (sb, t)) =
     (u\<lparr>fu_remaining := 0, fu_busy := False\<rparr>, sb_complete (fu_trans_id u) (fu_result u) (fu_rd u) sb, t)"
proof -
  obtain m where m: "n = Suc m" using assms(3) by (cases n) simp_all
  have "(fu_step ^^ m) (u, (sb, t)) = (u\<lparr>fu_remaining := 1\<rparr>, (sb, t))"
    using fu_step_counts[of u m "(sb, t)"] assms m by simp
  then show ?thesis using assms(1) by (simp add: m tick_fu_def)
qed

section \<open>Properties\<close>

definition muldiv_spec :: "u8 \<Rightarrow> mul_op \<Rightarrow> u64 \<Rightarrow> u64 \<Rightarrow> u64" where
  "muldiv_spec opc opn a b = (if opc = 0x33 then mul_spec opn a b else scast (mul_spec opn (ucast a :: u32) (ucast b)))"

definition divisor_magnitude :: "int \<Rightarrow> nat" where
  "divisor_magnitude b = nat (if b < 0 then \<bar>b\<bar> - 1 else b)"

lemma signed_cycles:
  "div_cycles True A B = divider_cycles (nat \<bar>sint A\<bar>) (divisor_magnitude (sint B))"
  using operand_magnitude[of A] operand_magnitude[of B]
  by (simp add: divisor_magnitude_def div_cycles_bits word_sless_alt split: if_split_asm)

lemma sint_scast32: "sint (scast (w :: u32) :: u64) = sint w"
  using sint_range32[of w] by (simp add: signed_scast_eq signed_take_bit_int_eq_self)

lemma unat_ucast32: "unat (ucast (w :: u32) :: u64) = unat w"
proof -
  have "unat w < 2 ^ 32" using unsigned_less[of w] by simp
  then show ?thesis by (simp add: unsigned_ucast_eq take_bit_nat_eq_self)
qed

lemma magnitude_less: "nat \<bar>sint a\<bar> < 2 ^ 64" "nat \<bar>sint (w :: u32)\<bar> < 2 ^ 32" for a :: u64
  using sint_range64[of a] sint_range32[of w] by auto

lemma unsigned_cycles: "div_cycles False A B = divider_cycles (unat A) (unat B)"
  by (simp add: div_cycles_bits)

lemmas latency_cases = div_latency_def divw_latency_def signed_cycles unsigned_cycles sint_scast32 unat_ucast32

lemma latency_bounds:
  "1 \<le> div_latency f3 a b" "div_latency f3 a b \<le> 69" "1 \<le> divw_latency f3 a b" "divw_latency f3 a b \<le> 37"
proof -
  have u: "unat a < 2 ^ 64" "unat (ucast a :: u32) < 2 ^ 32" using unsigned_less[of a] unsigned_less[of "ucast a :: u32"] by simp_all
  note d = divider_cycles_bounds[OF u(1), simplified] divider_cycles_bounds[OF u(2), simplified]
    divider_cycles_bounds[OF magnitude_less(1)[of a], simplified] divider_cycles_bounds[OF magnitude_less(2)[of "ucast a"], simplified]
  show "1 \<le> div_latency f3 a b" "div_latency f3 a b \<le> 69" "1 \<le> divw_latency f3 a b" "divw_latency f3 a b \<le> 37"
    by (cases "f3 = 4 \<or> f3 = 6"; simp add: latency_cases d)+
qed

text \<open>The latency of a division is the number of quotient digits plus six cycles, or one cycle when
  the quotient is zero or the divisor is zero (or minus one for the signed forms): with bits counting
  binary digits, DIVU and REMU take divider_cycles of the operands, DIV and REM of their
  magnitudes, the W forms likewise on the low words; every division takes between 1 and
  69 cycles, a W division at most 37.\<close>

theorem divider_latency:
  "div_latency 5 a b = divider_cycles (unat a) (unat b) \<and> div_latency 7 a b = divider_cycles (unat a) (unat b) \<and>
   div_latency 4 a b = divider_cycles (nat \<bar>sint a\<bar>) (divisor_magnitude (sint b)) \<and>
   div_latency 6 a b = divider_cycles (nat \<bar>sint a\<bar>) (divisor_magnitude (sint b)) \<and>
   divw_latency 5 a b = divider_cycles (unat (ucast a :: u32)) (unat (ucast b :: u32)) \<and>
   divw_latency 7 a b = divider_cycles (unat (ucast a :: u32)) (unat (ucast b :: u32)) \<and>
   divw_latency 4 a b = divider_cycles (nat \<bar>sint (ucast a :: u32)\<bar>) (divisor_magnitude (sint (ucast b :: u32))) \<and>
   divw_latency 6 a b = divider_cycles (nat \<bar>sint (ucast a :: u32)\<bar>) (divisor_magnitude (sint (ucast b :: u32))) \<and>
   1 \<le> div_latency f3 a b \<and> div_latency f3 a b \<le> 69 \<and> 1 \<le> divw_latency f3 a b \<and> divw_latency f3 a b \<le> 37"
  using latency_bounds[of f3 a b] by (simp add: latency_cases)


text \<open>The most negative dividend divided by minus one.\<close>

definition demo_div :: P6 where
  "demo_div = (P6_init demo_host 0 Policy_LFSR 2 False [] platform_init)\<lparr>issue_ex_reg :=
     ex_latch_init\<lparr>x_opcode := 0x33, x_funct7 := 1, x_funct3 := 4, x_rd := 5, x_rob_index := 3,
                    x_rs1_val := 0x8000000000000000, x_rs2_val := - 1\<rparr>\<rparr>"


end
