(* ===== verification/P6_Retire.thy ===== *)
theory P6_Retire
  imports P6_Props
begin

unbundle bit_operations_syntax

text \<open>
  What the six-stage core makes architectural: the commit ports against the list of in-flight
  instructions, interrupts over a whole clock cycle, and the traps of the execute stage.
\<close>

section \<open>Commit\<close>

text \<open>What the retirement of an instruction does to the register file.\<close>

definition retire_write :: "sb_entry \<Rightarrow> u64 Registers \<Rightarrow> u64 Registers" where
  "retire_write e r = (if sb_rd e = 0 \<or> sb_writes_to_fp_reg e then r else setValue (unat (sb_rd e)) (sb_result e) r)"

definition retire_store :: "sb_entry \<Rightarrow> StoreBuffer \<Rightarrow> StoreBuffer" where
  "retire_store e b = (if sb_is_store e then snd (commit_store 0 b) else b)"

definition commit_blocked :: "sb_entry \<Rightarrow> StoreBuffer \<Rightarrow> bool" where
  "commit_blocked e b \<longleftrightarrow> \<not> sb_ready e \<or> sb_is_store e \<and> commit_is_full b"

lemma sb_inflight_clobber [simp]:
  "sb_inflight (sb\<lparr>sb_rd_clobber := cs\<rparr>) = sb_inflight sb" "sb_inflight (sb\<lparr>sb_fp_clobber := cs\<rparr>) = sb_inflight sb"
  by (simp_all add: sb_inflight_def sb_slots_def sb_size_def)

lemma sb_get_head_inflight: "sb_wf sb \<Longrightarrow> sb_inflight sb \<noteq> [] \<Longrightarrow> sb_get_head sb = hd (sb_inflight sb)"
proof -
  assume wf: "sb_wf sb" and ne: "sb_inflight sb \<noteq> []"
  then have "\<not> sb_is_empty sb" by (auto simp: sb_inflight_def sb_slots_empty sb_is_empty_def)
  then show ?thesis using sb_slots_Cons[OF wf] by (cases "sb_slots sb") (auto simp: sb_get_head_def sb_inflight_def)
qed

lemma commit_head_effect:
  assumes "core_wf s" "sb_inflight (scoreboard s) = e # es"
  shows "sb_inflight (scoreboard (commit_head s)) = es" "cpu_regs (commit_head s) = retire_write e (cpu_regs s)"
    "store_buffer (commit_head s) = retire_store e (store_buffer s)"
    "commit_count_this_cycle (commit_head s) = commit_count_this_cycle s + 1"
    "cpu_csr (commit_head s) = cpu_csr s" "cpu_pf (commit_head s) = cpu_pf s"
proof -
  have wf: "sb_wf (scoreboard s)" using assms(1) by (simp add: core_wf_def sb_ok_def)
  have h: "sb_get_head (scoreboard s) = e" using sb_get_head_inflight[OF wf] assms(2) by simp
  have r: "sb_inflight (sb_retire (scoreboard s)) = es" using sb_inflight_retire[OF wf] assms(2) by simp
  have c: "snd (commit_store i b) = snd (commit_store 0 b)" for i b by (simp add: commit_store_def)
  have q: "sb_inflight (sb_retire ((scoreboard s)\<lparr>sb_rd_clobber := cs\<rparr>)) = es"
    "sb_inflight (sb_retire ((scoreboard s)\<lparr>sb_fp_clobber := cs\<rparr>)) = es" for cs
    using sb_inflight_retire[of "(scoreboard s)\<lparr>sb_rd_clobber := cs\<rparr>"] sb_inflight_retire[of "(scoreboard s)\<lparr>sb_fp_clobber := cs\<rparr>"]
      wf assms(2) by simp_all
  show "sb_inflight (scoreboard (commit_head s)) = es" "cpu_regs (commit_head s) = retire_write e (cpu_regs s)"
    "store_buffer (commit_head s) = retire_store e (store_buffer s)"
    "commit_count_this_cycle (commit_head s) = commit_count_this_cycle s + 1"
    "cpu_csr (commit_head s) = cpu_csr s" "cpu_pf (commit_head s) = cpu_pf s"
    by (simp_all add: commit_head_def Let_def upd_sb_def h retire_write_def retire_store_def r q c[of "sb_get_head_index _"])
qed

lemma commit_ports_effect:
  assumes "core_wf s"
  shows "\<exists>k \<le> n. k \<le> length (sb_inflight (scoreboard s)) \<and>
     sb_inflight (scoreboard (commit_ports n s)) = drop k (sb_inflight (scoreboard s)) \<and>
     list_all sb_ready (take k (sb_inflight (scoreboard s))) \<and>
     cpu_regs (commit_ports n s) = fold retire_write (take k (sb_inflight (scoreboard s))) (cpu_regs s) \<and>
     store_buffer (commit_ports n s) = fold retire_store (take k (sb_inflight (scoreboard s))) (store_buffer s) \<and>
     commit_count_this_cycle (commit_ports n s) = commit_count_this_cycle s + of_nat k \<and>
     (k = n \<or> k = length (sb_inflight (scoreboard s)) \<or>
      commit_blocked (sb_inflight (scoreboard s) ! k) (store_buffer (commit_ports n s))) \<and>
     cpu_csr (commit_ports n s) = cpu_csr s \<and> cpu_pf (commit_ports n s) = cpu_pf s"
  using assms
proof (induction n arbitrary: s)
  case (Suc n)
  have wf: "sb_wf (scoreboard s)" using Suc.prems by (simp add: core_wf_def sb_ok_def)
  show ?case
  proof (cases "sb_inflight (scoreboard s)")
    case Nil
    then have "\<not> sb_head_ready (scoreboard s)" using sb_head_ready_iff[OF wf] by simp
    then show ?thesis using Nil by simp
  next
    case (Cons e es)
    have hr: "sb_head_ready (scoreboard s) = sb_ready e" "sb_get_head (scoreboard s) = e"
      using sb_head_ready_iff[OF wf] sb_get_head_inflight[OF wf] Cons by simp_all
    show ?thesis
    proof (cases "commit_blocked e (store_buffer s)")
      case True
      then have "commit_ports (Suc n) s = s" using hr by (auto simp: commit_blocked_def)
      then show ?thesis using True Cons by (intro exI[of _ 0]) simp
    next
      case False
      then have step: "commit_ports (Suc n) s = commit_ports n (commit_head s)" "sb_ready e"
        using hr by (auto simp: commit_blocked_def)
      obtain k where "k \<le> n" "k \<le> length es"
        "sb_inflight (scoreboard (commit_ports n (commit_head s))) = drop k es" "list_all sb_ready (take k es)"
        "cpu_regs (commit_ports n (commit_head s)) = fold retire_write (take k es) (cpu_regs (commit_head s))"
        "store_buffer (commit_ports n (commit_head s)) = fold retire_store (take k es) (store_buffer (commit_head s))"
        "commit_count_this_cycle (commit_ports n (commit_head s)) = commit_count_this_cycle (commit_head s) + of_nat k"
        "k = n \<or> k = length es \<or> commit_blocked (es ! k) (store_buffer (commit_ports n (commit_head s)))"
        "cpu_csr (commit_ports n (commit_head s)) = cpu_csr (commit_head s)"
        "cpu_pf (commit_ports n (commit_head s)) = cpu_pf (commit_head s)"
        using Suc.IH[OF commit_head_wf[OF Suc.prems]] commit_head_effect(1)[OF Suc.prems Cons] by auto
      then show ?thesis
        using commit_head_effect[OF Suc.prems Cons] step Cons by (intro exI[of _ "Suc k"]) auto
    qed
  qed
qed simp

section \<open>Interrupts\<close>

definition pipeline_flushed :: "P6 \<Rightarrow> bool" where
  "pipeline_flushed s \<longleftrightarrow> sb_inflight (scoreboard s) = [] \<and> stb_spec_count (store_buffer s) = 0 \<and> fetch_queue s = [] \<and>
     \<not> x_valid (issue_ex_next s) \<and> \<not> d_valid (id_issue_next s) \<and> \<not> f_valid (fetch_id_next s) \<and> \<not> g_valid (pcgen_fetch_next s)"

lemma process_IRQ_taken:
  assumes "core_wf s" "0 \<le> pending_interrupt (cpu_csr s)"
  shows "process_IRQ s = (True, snd (process_IRQ s))"
    "take_interrupt (of_int (pending_interrupt (cpu_csr s))) (irq_epc s) (cpu_csr s) =
       (pc_redirect_target (snd (process_IRQ s)), cpu_csr (snd (process_IRQ s)))"
    "flush_pipeline (snd (process_IRQ s))" "sb_is_empty (scoreboard (snd (process_IRQ s)))"
    "stb_spec_count (store_buffer (snd (process_IRQ s))) = 0" "cpu_regs (snd (process_IRQ s)) = cpu_regs s"
    "cpu_pf (snd (process_IRQ s)) = cpu_pf s" "\<not> stall_ex (snd (process_IRQ s))"
  using assms by (simp_all add: process_IRQ_def Let_def redirect_def sb_flush_def sb_is_empty_def stb_flush_speculative_def split: prod.splits)

lemma tick_units_count: "sb_count (scoreboard (tick_units s)) = sb_count (scoreboard s)"
  by (rule tick_units_pres[where P = "\<lambda>sb. sb_count sb = sb_count (scoreboard s)"]) (simp_all add: sb_complete_def)

lemma drain_one_spec: "drain_one b = (r, b') \<Longrightarrow> stb_spec_count b' = stb_spec_count b"
proof (induction b rule: drain_one.induct)
  case (1 b)
  then show ?case by (subst (asm) (2) drain_one.simps) (auto simp: Let_def stb_pop_committed_def split: if_splits)
qed

lemma drain_cycle_frame: "drain_cycle s = Inr s' \<Longrightarrow> \<exists>b pf n. s' = s\<lparr>store_buffer := b, cpu_pf := pf, store_drain_remaining := n\<rparr> \<and>
    stb_spec_count b = stb_spec_count (store_buffer s)"
proof -
  assume d: "drain_cycle s = Inr s'"
  have "s' = s\<lparr>store_buffer := store_buffer s', cpu_pf := cpu_pf s', store_drain_remaining := store_drain_remaining s'\<rparr>"
    using d by (auto simp: drain_cycle_def Let_def and_then_Inr dest!: mem_store_frame split: if_splits prod.splits option.splits)
  moreover have "stb_spec_count (store_buffer s') = stb_spec_count (store_buffer s)"
    using d by (auto simp: drain_cycle_def Let_def and_then_Inr dest!: mem_store_frame drain_one_spec split: if_splits prod.splits option.splits)
  ultimately show ?thesis by metis
qed

definition id_flush :: "P6 \<Rightarrow> P6" where
  "id_flush s = s\<lparr>id_issue_next := (id_issue_next s)\<lparr>d_valid := False\<rparr>\<rparr>"

lemma flushing_stages:
  assumes "flush_pipeline s" "sb_is_empty (scoreboard s)" "stb_spec_count (store_buffer s) = 0" "\<not> stall_ex s"
    and d: "drain_cycle s = Inr a"
  obtains s' where "run_stages s = Inr s'" "pipeline_flushed s'" "next_pc s' = pc_redirect_target s"
    "cpu_regs s' = cpu_regs s" "cpu_csr s' = cpu_csr s"
proof -
  obtain b pf n where b: "a = s\<lparr>store_buffer := b, cpu_pf := pf, store_drain_remaining := n\<rparr>" "stb_spec_count b = 0"
    using drain_cycle_frame[OF d] assms(3) by metis
  have c: "commit_ports 2 a = a" using assms(2) by (simp add: b numeral_2_eq_2 sb_head_ready_def sb_is_empty_def)
  let ?e = "tick_units (a\<lparr>stall_ex := False\<rparr>)"
  have e: "EX_stage a = Inr ?e" using assms(1) by (simp add: EX_stage_def ex_run_def b Let_def)
  have sb: "sb_is_empty (scoreboard ?e)"
    using assms(2) tick_units_count[of "a\<lparr>stall_ex := False\<rparr>"] by (simp add: b sb_is_empty_def)
  have f: "flush_pipeline ?e" "\<not> stall_ex ?e" "stb_spec_count (store_buffer ?e) = 0" "pc_redirect_target ?e = pc_redirect_target s"
    "cpu_regs ?e = cpu_regs s" "cpu_csr ?e = cpu_csr s"
    using assms(1) b(2) by (simp_all add: b(1)) (simp_all add: tick_units_def Let_def split: prod.splits)
  let ?s = "(PCGen_stage (fetch_bubble ((id_flush (issue_bubble
      (?e\<lparr>stall_pcgen := False, stall_fetch := False, stall_issue := False\<rparr>)))\<lparr>icache_miss_remaining := 0\<rparr>)))\<lparr>prev_cycle_flush := True\<rparr>"
  have r: "run_stages s = Inr ?s"
    using f(1,2) by (simp add: run_stages_def Commit_stage_def d c e)
      (simp add: Issue_stage_def ID_stage_def Fetch_stage_def issue_bubble_def id_flush_def Let_def)
  have q: "pipeline_flushed ?s" "next_pc ?s = pc_redirect_target s" "cpu_regs ?s = cpu_regs s" "cpu_csr ?s = cpu_csr s"
    using f sb by (simp_all add: issue_bubble_def id_flush_def fetch_bubble_def PCGen_stage_def pipeline_flushed_def
        sb_inflight_def sb_slots_empty sb_is_empty_def)
  show ?thesis using that[OF r q] .
qed

lemma queue_fields [simp]:
  "scoreboard (queue_push s) = scoreboard s" "cpu_regs (queue_push s) = cpu_regs s" "cpu_csr (queue_push s) = cpu_csr s"
  "cpu_pf (queue_push s) = cpu_pf s" "pending_priv_switch (queue_push s) = pending_priv_switch s"
  "store_buffer (queue_push s) = store_buffer s" "store_drain_remaining (queue_push s) = store_drain_remaining s"
  "store_buffer (queue_pop s) = store_buffer s" "store_drain_remaining (queue_pop s) = store_drain_remaining s"
  "scoreboard (queue_pop s) = scoreboard s" "cpu_regs (queue_pop s) = cpu_regs s" "cpu_csr (queue_pop s) = cpu_csr s"
  "cpu_pf (queue_pop s) = cpu_pf s" "pending_priv_switch (queue_pop s) = pending_priv_switch s"
  by (simp_all add: queue_push_def queue_pop_def Let_def split: list.splits)

lemma transfer_fields [simp]:
  "scoreboard (transfer_latches s) = scoreboard s" "cpu_regs (transfer_latches s) = cpu_regs s"
  "cpu_csr (transfer_latches s) = cpu_csr s" "cpu_pf (transfer_latches s) = cpu_pf s"
  "pending_priv_switch (transfer_latches s) = pending_priv_switch s" "store_buffer (transfer_latches s) = store_buffer s"
  "store_drain_remaining (transfer_latches s) = store_drain_remaining s"
  by (simp_all add: transfer_latches_def Let_def)

lemma sync_fields [simp]:
  "store_buffer (sync_irq_lines s) = store_buffer s" "store_drain_remaining (sync_irq_lines s) = store_drain_remaining s"
  "cpu_regs (sync_irq_lines s) = cpu_regs s" "pending_priv_switch (sync_irq_lines s) = pending_priv_switch s"
  by (simp_all add: sync_irq_lines_def Let_def)

lemma sync_csr:
  "cpu_pf s = cpu_pf t \<Longrightarrow> cpu_csr s = cpu_csr t \<Longrightarrow> cpu_csr (sync_irq_lines s) = cpu_csr (sync_irq_lines t)"
  by (simp add: sync_irq_lines_def Let_def)

lemma end_cycle_fields [simp]:
  "pipeline_flushed (end_cycle s) = pipeline_flushed s" "next_pc (end_cycle s) = next_pc s" "cpu_regs (end_cycle s) = cpu_regs s"
  "priv (cpu_csr (end_cycle s)) = priv (cpu_csr s)" "fst (mret (cpu_csr (end_cycle s))) = fst (mret (cpu_csr s))"
  "fst (sret (cpu_csr (end_cycle s))) = fst (sret (cpu_csr s))"
  by (simp_all add: end_cycle_def Let_def pipeline_flushed_def tick_counters_def mret_def sret_def)

lemma interrupt_return:
  "take_interrupt cause epc c = (v, c') \<Longrightarrow> (if priv c' = PrivMode_M then fst (mret c') = epc else fst (sret c') = epc)"
  by (auto simp: take_interrupt_def Let_def mret_def sret_def split: if_splits)


section \<open>Traps of the execute stage\<close>

text \<open>What a section of the execute stage guarantees when it has decided to trap.\<close>

definition trap_entry :: "u64 \<Rightarrow> CSR_File \<Rightarrow> P6 \<Rightarrow> bool" where
  "trap_entry epc c s \<longleftrightarrow> (\<exists>cause tval. take_exception cause epc tval c = (pc_redirect_target s, cpu_csr s))"

definition precise :: "P6 \<Rightarrow> P6 \<Rightarrow> bool" where
  "precise s s' \<longleftrightarrow> (trap_pending s' \<longrightarrow>
     \<not> has_unready_older s \<and> \<not> has_unready_older s' \<and> issue_ex_reg s' = issue_ex_reg s \<and> cpu_regs s' = cpu_regs s \<and>
     cpu_fregs s' = cpu_fregs s \<and> flush_pipeline s' \<and> trap_entry (x_pc (issue_ex_reg s)) (cpu_csr s) s')"

lemma older_complete [simp]: "has_unready_older (ex_complete v d s) = has_unready_older s"
  by (simp add: has_unready_older_def ex_complete_def upd_sb_def sb_complete_def sb_is_empty_def sb_get_head_index_def)

lemma complete_flush [simp]: "flush_pipeline (ex_complete v d s) = flush_pipeline s" "cpu_regs (ex_complete v d s) = cpu_regs s"
  "cpu_fregs (ex_complete v d s) = cpu_fregs s"
  "issue_ex_reg (ex_complete v d s) = issue_ex_reg s"
  by (simp_all add: ex_complete_def upd_sb_def)

lemma precise_silent: "\<not> trap_pending s' \<Longrightarrow> precise s s'"
  by (simp add: precise_def)

lemma take_trap_fregs [simp]: "cpu_fregs (take_trap cause epc tval s) = cpu_fregs s"
  by (simp add: take_trap_def redirect_def Let_def split: prod.splits)

lemma trap_taken [simp]: "trap_entry epc (cpu_csr s) (take_trap cause epc tval s)"
  unfolding trap_entry_def
  by (intro exI[of _ cause] exI[of _ tval]) (simp add: take_trap_def redirect_def split: prod.splits)

lemma trap_entry_upd [simp]:
  "trap_entry epc c (s\<lparr>trap_pending := b\<rparr>) = trap_entry epc c s" "trap_entry epc c (ex_complete v d s) = trap_entry epc c s"
  by (simp_all add: trap_entry_def ex_complete_def upd_sb_def)

lemma ex_fault_precise: "ex_fault c t s = (s', m, v) \<Longrightarrow> \<not> trap_pending s \<Longrightarrow> precise s s'"
  by (auto simp: ex_fault_def ex_replay_def precise_def split: if_splits)
    (auto simp: has_unready_older_def ex_complete_def upd_sb_def)

lemma ex_trap_here_precise: "ex_trap_here c t s = ((s', m, v), j) \<Longrightarrow> \<not> trap_pending s \<Longrightarrow> precise s s'"
  by (auto simp: ex_trap_here_def ex_replay_def precise_def has_unready_older_def split: if_splits)

lemma trap_return [simp]: "trap_pending (ex_return rc s) = trap_pending s"
  by (cases rc) (simp add: ex_return_def)

lemma precise_from [simp]:
  "precise (s\<lparr>cpu_mmu := u\<rparr>) = precise s" "precise (s\<lparr>cpu_pf := pf\<rparr>) = precise s"
  "precise (s\<lparr>dcache := dc\<rparr>) = precise s" "precise (s\<lparr>dcache_miss_fu := ds\<rparr>) = precise s" "precise (start_miss i n w s) = precise s"
  by (auto simp: precise_def fun_eq_iff has_unready_older_def start_miss_def)

lemma start_trap [simp]: "trap_pending (start_miss i n v s) = trap_pending s" "trap_pending (start_hit v s) = trap_pending s"
  by (simp_all add: start_miss_def start_hit_def)

lemma trap_complete [simp]: "trap_pending (ex_complete v d s) = trap_pending s" "trap_pending (upd_sb f s) = trap_pending s"
  "trap_pending (break_reservation pa n s) = trap_pending s"
  by (simp_all add: ex_complete_def upd_sb_def break_reservation_def split: option.splits)

lemma ex_load_precise: "ex_load s = Inr ((s', m, v), j) \<Longrightarrow> \<not> trap_pending s \<Longrightarrow> precise s s'"
proof -
  assume e: "ex_load s = Inr ((s', m, v), j)" and n: "\<not> trap_pending s"
  have mis: "ex_load_misaligned va s = Inr ((s', m, v), j) \<Longrightarrow> precise s s'" for va
    using n by (auto simp: ex_load_misaligned_def Let_def and_then_Inr dest!: frames split: if_splits)
      (auto dest: ex_fault_precise intro: precise_silent)
  have mem: "load_from_memory a slot t = Inr ((s', m, v), j) \<Longrightarrow> \<not> trap_pending t \<Longrightarrow> precise s s'" for a slot t
    by (rule precise_silent)
      (auto simp: load_from_memory_def Let_def and_then_Inr dest!: frames split: if_splits option.splits prod.splits)
  have q: "precise s s'" if "ex_fault c t (s\<lparr>cpu_mmu := u, cpu_pf := pf\<rparr>) = (s', m, v)" for c t u pf
    using ex_fault_precise[OF that] n by simp
  have q': "precise s s'" if "ex_fault c t (start_miss i w k (s\<lparr>cpu_mmu := u, cpu_pf := pf\<rparr>)) = (s', m, v)" for c t u pf i w k
    using ex_fault_precise[OF that] n by simp
  show ?thesis
    using e n
    by (auto simp: ex_load_def Let_def and_then_Inr ex_replay_def dest!: translate_frame split: if_splits FwdResult.splits
        intro: mis q q' mem precise_silent)
qed

lemma ex_store_precise: "ex_store s = Inr ((s', m, v), j) \<Longrightarrow> \<not> trap_pending s \<Longrightarrow> precise s s'"
proof -
  assume e: "ex_store s = Inr ((s', m, v), j)" and n: "\<not> trap_pending s"
  have q: "precise s s'" if "ex_fault c t (s\<lparr>cpu_mmu := u, cpu_pf := pf\<rparr>) = (s', m, v)" for c t u pf
    using ex_fault_precise[OF that] n by simp
  have mis: "ex_store_misaligned va s = Inr ((s', m, v), j) \<Longrightarrow> precise s s'" for va
    using n by (auto simp: ex_store_misaligned_def Let_def and_then_Inr dest!: frames split: if_splits
      intro: q precise_silent)
  show ?thesis
    using e n
    by (auto simp: ex_store_def Let_def and_then_Inr dest!: translate_frame split: if_splits intro: mis q precise_silent)
qed

lemma ex_amo_precise: "ex_amo s = Inr ((s', m, v), j) \<Longrightarrow> \<not> trap_pending s \<Longrightarrow> precise s s'"
proof -
  assume e: "ex_amo s = Inr ((s', m, v), j)" and n: "\<not> trap_pending s"
  have q: "precise s s'" if "ex_fault c t (s\<lparr>cpu_mmu := u, cpu_pf := pf\<rparr>) = (s', m, v)" for c t u pf
    using ex_fault_precise[OF that] n by simp
  have a: "ex_lr w pa t = Inr ((s', m, v), j) \<Longrightarrow> \<not> trap_pending t \<Longrightarrow> precise s s'"
    "ex_sc w pa t = Inr ((s', m, v), j) \<Longrightarrow> \<not> trap_pending t \<Longrightarrow> precise s s'"
    "ex_rmw w f5 pa t = Inr ((s', m, v), j) \<Longrightarrow> \<not> trap_pending t \<Longrightarrow> precise s s'" for w pa t f5
    by (rule precise_silent; auto simp: ex_lr_def ex_sc_def ex_rmw_def ex_replay_def Let_def and_then_Inr dest!: access_frame
      split: if_splits FwdResult.splits)+
  show ?thesis
    using e n by (auto simp: ex_amo_def Let_def and_then_Inr dest!: translate_frame split: if_splits intro: q a)
qed

lemma ex_branch_precise: "ex_branch s = Inr ((s', m, v), j) \<Longrightarrow> \<not> trap_pending s \<Longrightarrow> precise s s'"
  by (auto simp: ex_branch_def Let_def and_then_Inr split: if_splits intro: ex_fault_precise precise_silent dest!: squash_fields)

lemma ex_privileged_precise: "ex_privileged s = Inr ((s', m, v), j) \<Longrightarrow> \<not> trap_pending s \<Longrightarrow> precise s s'"
proof -
  assume e: "ex_privileged s = Inr ((s', m, v), j)" and n: "\<not> trap_pending s"
  have b: "bare_syscall s = Inr t \<Longrightarrow> \<not> trap_pending t" for t
    using n by (auto simp: bare_syscall_def Let_def and_then_Inr dest!: put_bytes_frame split: if_splits)
  show ?thesis
    using e n
    by (auto simp: ex_privileged_def Let_def and_then_Inr split: if_splits intro: ex_trap_here_precise precise_silent dest: b)
qed

lemma ex_csr_precise: "ex_csr s = ((s', m, v), j) \<Longrightarrow> \<not> trap_pending s \<Longrightarrow> precise s s'"
  by (auto simp: ex_csr_def Let_def split: if_splits option.splits intro: ex_trap_here_precise precise_silent)

lemma ex_body_precise: "ex_body s = Inr ((s', m, v), j) \<Longrightarrow> \<not> trap_pending s \<Longrightarrow> precise s s'"
  by (auto simp: ex_body_def ex_system_def ex_muldiv_def Let_def split: if_splits intro: precise_silent
      dest: ex_load_precise ex_store_precise ex_amo_precise ex_branch_precise ex_privileged_precise ex_csr_precise)


lemma fp_retire_silent:
  assumes "fp_retire miss lat flags m s = (s', mc, v)" "\<not> trap_pending s"
  shows "\<not> trap_pending s'"
  using assms by (auto simp: fp_retire_def fp_complete_def fpu_put_def Let_def split: if_splits)

lemma ex_fpu_precise:
  assumes "ex_fpu s = Inr (s', m, v)" "\<not> trap_pending s"
  shows "precise s s'"
proof -
  have q: "precise s s'" if "ex_fault c t (s\<lparr>cpu_mmu := u, cpu_pf := pf\<rparr>) = (s', m, v)" for c t u pf
    using ex_fault_precise[OF that] assms(2) by simp
  have q': "precise s s'" if "ex_fault c t (s\<lparr>cpu_mmu := u, cpu_pf := pf, dcache := d\<rparr>) = (s', m, v)" for c t u pf d
    using ex_fault_precise[OF that] assms(2) by simp
  show ?thesis
    using assms
    by (auto simp: ex_fpu_def fp_access_def Let_def and_then_Inr dest!: translate_frame split: if_splits prod.splits option.splits)
      (auto intro: q q' precise_silent dest: ex_fault_precise fp_retire_silent)
qed

lemma ex_run_precise:
  assumes "ex_run s = Inr (s', m, v)" "ex_fresh s" "youngest (issue_ex_reg s) (scoreboard s)" "x_valid (issue_ex_reg s)"
  shows "precise s s'"
proof -
  have f: "core_wf s" "\<not> trap_pending s" using assms(2) by (simp_all add: ex_fresh_def)
  from ex_run_cases[OF assms(1,3,4) f(1) assms(2)] show ?thesis
    by cases (use ex_fpu_precise ex_body_precise f(2) in blast)+
qed

lemma drain_rob_stop: "\<not> has_unready_older s \<Longrightarrow> drain_rob c (Some (x_rob_index (issue_ex_reg s))) s = s"
  by (subst drain_rob.simps) (auto simp: has_unready_older_def sb_head_ready_def sb_is_empty_def)

lemma drain_one_none: "drain_one b = (None, b') \<Longrightarrow> stb_commit_count b' = 0"
proof (induction b rule: drain_one.induct)
  case (1 b)
  then show ?case by (subst (asm) (2) drain_one.simps) (auto simp: Let_def split: if_splits)
qed

lemma drain_stores_empty: "stb_commit_count (store_buffer s) = 0 \<Longrightarrow> drain_stores s = Inr s"
  by (subst drain_stores.simps) (simp add: drain_one_empty)

lemma drain_stores_frame:
  "drain_stores s = Inr s' \<Longrightarrow> \<exists>b pf. s' = s\<lparr>store_buffer := b, cpu_pf := pf\<rparr> \<and> stb_commit_count b = 0"
proof (induction s rule: drain_stores.induct)
  case (1 s)
  obtain r b where d: "drain_one (store_buffer s) = (r, b)" by fastforce
  show ?case
  proof (cases r)
    case None
    have "s' = s\<lparr>store_buffer := b\<rparr>"
      using "1.prems" d None by (subst (asm) drain_stores.simps) simp
    then have "s' = s\<lparr>store_buffer := b, cpu_pf := cpu_pf s\<rparr>" by simp
    then show ?thesis using drain_one_none[of "store_buffer s" b] d None by blast
  next
    case (Some w)
    obtain a v n where w: "w = (a, v, n)" by (cases w)
    obtain t where t: "mem_store a v n (s\<lparr>store_buffer := b\<rparr>) = Inr t" "drain_stores t = Inr s'"
      using "1.prems" d Some w by (subst (asm) drain_stores.simps) (auto split: sum.splits)
    obtain pf where "t = s\<lparr>store_buffer := b, cpu_pf := pf\<rparr>" using mem_store_frame[OF t(1)] by auto
    then show ?thesis using "1.IH" d Some w t by fastforce
  qed
qed

lemma ex_done_trap:
  assumes "ex_done (s, m, v) = Inr s'" "trap_pending s" "\<not> has_unready_older s"
  shows "cpu_regs s' = cpu_regs s \<and> cpu_fregs s' = cpu_fregs s \<and> sb_inflight (scoreboard s') = [] \<and> stb_is_empty (store_buffer s') \<and>
     flush_pipeline s' = flush_pipeline s \<and> trap_entry epc c s' = trap_entry epc c s"
proof -
  define t where "t = (if \<not> m \<and> 0 \<le> x_rob_index (issue_ex_reg s) then ex_complete v (x_rd (issue_ex_reg s)) s else s)"
  have t: "trap_pending t" "\<not> has_unready_older t" "issue_ex_reg t = issue_ex_reg s" "cpu_regs t = cpu_regs s" "cpu_fregs t = cpu_fregs s"
    "flush_pipeline t = flush_pipeline s" "trap_entry epc c t = trap_entry epc c s"
    using assms(2,3) by (simp_all add: t_def)
  have e: "ex_done (s, m, v) = and_then (drain_stores (drain_rob True (Some (x_rob_index (issue_ex_reg t))) t))
      (\<lambda>s. Inr ((flush_backend s)\<lparr>load_reservation := None\<rparr>))"
    unfolding ex_done_def Let_def prod.case t_def[symmetric] using t(1,3) by simp
  obtain u where u: "drain_stores t = Inr u" "s' = (flush_backend u)\<lparr>load_reservation := None\<rparr>"
    using assms(1) unfolding e drain_rob_stop[OF t(2)] by (auto simp: and_then_Inr)
  obtain b pf where b: "u = t\<lparr>store_buffer := b, cpu_pf := pf\<rparr>" "stb_commit_count b = 0"
    using drain_stores_frame[OF u(1)] by blast
  show ?thesis
    using t(4,5,6,7) b(2) unfolding u(2) b(1)
    by (simp add: flush_backend_def flush_units_def trap_entry_def sb_inflight_def sb_slots_empty sb_flush_def
        stb_is_empty_def stb_flush_speculative_def)
qed

lemma tick_units_fregs: "cpu_fregs (tick_units s) = cpu_fregs s"
  by (simp add: tick_units_def Let_def split: prod.splits)

lemma older_tick: "has_unready_older (tick_units s) = has_unready_older s"
proof -
  have "sb_head (scoreboard (tick_units s)) = sb_head (scoreboard s)"
    by (rule tick_units_pres[where P = "\<lambda>sb. sb_head sb = sb_head (scoreboard s)"]) (simp_all add: sb_complete_def)
  then show ?thesis
    using tick_units_count[of s] by (simp add: has_unready_older_def sb_is_empty_def sb_get_head_index_def)
qed


section \<open>Witnesses\<close>

text \<open>A core with one finished instruction in flight, and cores about to take an interrupt and to
  execute EBREAK with one unfinished instruction in flight.\<close>

definition one_inflight :: Scoreboard where
  "one_inflight = set_entry 0 (\<lambda>e. e\<lparr>sb_pc := 0x80000100\<rparr>) (snd (sb_allocate (sb_init 32)))"

lemma one_inflight_facts:
  "sb_ok one_inflight" "sb_inflight one_inflight = [sb_entry_default\<lparr>sb_valid := True, sb_trans_id := 0, sb_pc := 0x80000100\<rparr>]"
proof -
  have "sb_ok (snd (sb_allocate (sb_init 32)))"
    using sb_init_wf[of 32] by (intro sb_ok_ops) (simp add: sb_ok_def, simp add: sb_init_def sb_size_def)
  then show "sb_ok one_inflight"
    unfolding one_inflight_def by (rule sb_ok_entry) simp
  show "sb_inflight one_inflight = [sb_entry_default\<lparr>sb_valid := True, sb_trans_id := 0, sb_pc := 0x80000100\<rparr>]"
    by (simp add: one_inflight_def sb_inflight_def sb_slots_def sb_allocate_def sb_init_def sb_is_full_def sb_size_def
        set_entry_def ring_idx_def)
qed

definition demo_commit_core :: P6 where
  "demo_commit_core = demo_core\<lparr>scoreboard := sb_complete 0 7 5 one_inflight\<rparr>"

lemma demo_commit_facts:
  "core_wf demo_commit_core" "sb_inflight (scoreboard demo_commit_core) =
     [sb_entry_default\<lparr>sb_valid := True, sb_trans_id := 0, sb_pc := 0x80000100, sb_ready := True, sb_result := 7, sb_rd := 5\<rparr>]"
proof -
  show "core_wf demo_commit_core"
    using demo_core_inv one_inflight_facts(1) by (simp add: p6_inv_def core_wf_def demo_commit_core_def)
  have "sb_wf one_inflight" "sb_slots one_inflight = [0]" "sb_count one_inflight = 1"
    using one_inflight_facts(1)
    by (simp_all add: sb_ok_def) (simp_all add: one_inflight_def sb_slots_def sb_allocate_def sb_init_def sb_is_full_def sb_size_def
        set_entry_def ring_idx_def)
  then show "sb_inflight (scoreboard demo_commit_core) =
     [sb_entry_default\<lparr>sb_valid := True, sb_trans_id := 0, sb_pc := 0x80000100, sb_ready := True, sb_result := 7, sb_rd := 5\<rparr>]"
    using sb_inflight_complete[of one_inflight 0 7 5] by (simp add: demo_commit_core_def one_inflight_facts(2))
qed

text \<open>C12: Commit retires in order.  The two commit ports of a cycle retire k instructions, at most two, which
  are the k oldest in flight and all finished; the register file becomes the old one with their
  results written in program order, their stores move to the committed queue in
  program order, and fewer than two retire only when none is left, the next one is unfinished or it is
  a store and the committed queue is full.\<close>

theorem commit_retires_oldest_ready:
  assumes "core_wf s"
  shows "\<exists>k \<le> 2. k \<le> length (sb_inflight (scoreboard s)) \<and>
     sb_inflight (scoreboard (commit_ports 2 s)) = drop k (sb_inflight (scoreboard s)) \<and>
     list_all sb_ready (take k (sb_inflight (scoreboard s))) \<and>
     cpu_regs (commit_ports 2 s) = fold retire_write (take k (sb_inflight (scoreboard s))) (cpu_regs s) \<and>
     store_buffer (commit_ports 2 s) = fold retire_store (take k (sb_inflight (scoreboard s))) (store_buffer s) \<and>
     commit_count_this_cycle (commit_ports 2 s) = commit_count_this_cycle s + of_nat k \<and>
     (k = 2 \<or> k = length (sb_inflight (scoreboard s)) \<or>
      commit_blocked (sb_inflight (scoreboard s) ! k) (store_buffer (commit_ports 2 s))) \<and>
     cpu_csr (commit_ports 2 s) = cpu_csr s \<and> cpu_pf (commit_ports 2 s) = cpu_pf s"
  using commit_ports_effect[OF assms] .

theorem commit_retires_oldest_ready_witness:
  "sb_inflight (scoreboard (commit_ports 2 demo_commit_core)) = [] \<and>
   cpu_regs (commit_ports 2 demo_commit_core) = setValue 5 7 (cpu_regs demo_commit_core)"
proof -
  note f = demo_commit_facts(2)
  obtain k where k: "k \<le> 1" "sb_inflight (scoreboard (commit_ports 2 demo_commit_core)) = drop k (sb_inflight (scoreboard demo_commit_core))"
    "cpu_regs (commit_ports 2 demo_commit_core) = fold retire_write (take k (sb_inflight (scoreboard demo_commit_core))) (cpu_regs demo_commit_core)"
    "k = 2 \<or> k = 1 \<or> commit_blocked (sb_inflight (scoreboard demo_commit_core) ! k) (store_buffer (commit_ports 2 demo_commit_core))"
    using commit_retires_oldest_ready[OF demo_commit_facts(1)] unfolding f by auto
  have "k = 1" using k(1,4) unfolding f by (cases k) (auto simp: commit_blocked_def sb_entry_default_def)
  then show ?thesis using k(2,3) unfolding f by (simp add: retire_write_def sb_entry_default_def)
qed

definition demo_irq_core :: P6 where
  "demo_irq_core = demo_core\<lparr>scoreboard := one_inflight, cpu_csr := CSR_File_init\<lparr>mie := 0x80, priv := PrivMode_U, mtvec := 0x80001000\<rparr>,
     cpu_pf := platform_init\<lparr>pf_clint := clint_init\<lparr>timer_irq := True\<rparr>\<rparr>\<rparr>"

lemma demo_irq_core_inv: "p6_inv demo_irq_core"
proof -
  have "csr_wf (CSR_File_init\<lparr>mie := 0x80, priv := PrivMode_U, mtvec := 0x80001000\<rparr>)"
    using CSR_File_init_wf by (simp add: csr_wf_def MIE_MASK_def)
  then show ?thesis
    using demo_core_inv one_inflight_facts(1)
    by (simp add: p6_inv_def core_wf_def demo_irq_core_def) (simp add: demo_core_def P6_init_def youngest_def ex_latch_init_def)
qed

lemma demo_irq_pending: "pending_interrupt (cpu_csr (sync_irq_lines demo_irq_core)) = int 7"
  by (simp add: demo_irq_core_def sync_irq_lines_def Let_def line_bit_def platform_init_def clint_init_def plic_init_def
      CSR_File_init_def pending_interrupt_def)


definition demo_ebreak :: P6 where
  "demo_ebreak = demo_core\<lparr>scoreboard := one_inflight,
     issue_ex_reg := ex_latch_init\<lparr>x_valid := True, x_opcode := 0x73, x_imm := 1, x_pc := 0x80000100, x_rob_index := 0\<rparr>\<rparr>"


end
