(* ===== verification/R6_Core.thy ===== *)
theory R6_Core
  imports ROB StoreBuffer CPU_Simple
begin

unbundle bit_operations_syntax

text \<open>
  The six-stage 32-bit core (src/src/CPU_P32_6_Cycle.cpp, src/inc/CPU_P32_6_Cycle.h): program
  counter generation with branch prediction, fetch, decode, issue against a busy bit per
  register, execution and commit through the reorder buffer and the store buffer.
  Statistics are left out, except the cycle counter, which the termination check reads.
  \<^verbatim>\<open>int32_t\<close> immediates are 32-bit words, read as signed where the source does.
\<close>

section \<open>State\<close>

record PCGen_Fetch32 =
  pg_pc :: u32
  pg_valid :: bool
  pg_predicted_taken :: bool
  pg_predicted_target :: u32

record Fetch_ID32 =
  fi_pc :: u32
  fi_instr :: u32
  fi_valid :: bool
  fi_predicted_taken :: bool
  fi_predicted_target :: u32

record ID_Issue32 =
  ii_pc :: u32
  ii_instr :: u32
  ii_rd :: u8
  ii_rs1 :: u8
  ii_rs2 :: u8
  ii_imm :: u32
  ii_opcode :: u8
  ii_funct3 :: u8
  ii_funct7 :: u8
  ii_valid :: bool
  ii_predicted_taken :: bool
  ii_predicted_target :: u32
  ii_is_ras_call :: bool
  ii_is_ras_return :: bool

record Issue_EX32 =
  ie_pc :: u32
  ie_rs1_val :: u32
  ie_rs2_val :: u32
  ie_imm :: u32
  ie_rd :: u8
  ie_opcode :: u8
  ie_funct3 :: u8
  ie_funct7 :: u8
  ie_rob_index :: int
  ie_valid :: bool
  ie_predicted_taken :: bool
  ie_predicted_target :: u32
  ie_is_ras_call :: bool
  ie_is_ras_return :: bool

record EX_Commit32 =
  ec_result :: u32
  ec_rd :: u8
  ec_rob_index :: int
  ec_is_store :: bool
  ec_store_addr :: u32
  ec_store_data :: u32
  ec_store_size :: nat
  ec_valid :: bool

record BTBEntry32 =
  bt_target :: u32
  bt_valid :: bool
  bt_is_return :: bool

text \<open>\<^verbatim>\<open>r6_pf\<close> is the platform behind the two bus sockets, \<^verbatim>\<open>r6_out\<close> what the write system call has
  printed.  The direct memory pointer points to the first byte of main memory.\<close>

record R6 =
  pcgen_reg :: PCGen_Fetch32
  pcgen_next :: PCGen_Fetch32
  fetch_reg :: Fetch_ID32
  fetch_next :: Fetch_ID32
  id_reg :: ID_Issue32
  id_next :: ID_Issue32
  issue_reg :: Issue_EX32
  issue_next :: Issue_EX32
  excommit_reg :: EX_Commit32
  excommit_next :: EX_Commit32
  r6_next_pc :: u32
  r6_stall_pcgen :: bool
  r6_stall_fetch :: bool
  r6_stall_issue :: bool
  r6_flush :: bool
  r6_redirect_target :: u32
  r6_busy :: "bool list"
  r6_btb :: "BTBEntry32 list"
  r6_bht :: "u8 list"
  r6_ras :: "u32 list"
  r6_rob :: ReorderBuffer
  r6_stb :: StoreBuffer
  r6_regs :: "u32 Registers"
  r6_pf :: Platform
  r6_dmi_valid :: bool
  r6_dmi_start :: u64
  r6_dmi_end :: u64
  r6_mem_dmi :: bool
  r6_out :: "u8 list"
  r6_cycles :: u64
  r6_stopped :: bool
  r6_interrupt :: bool
  r6_int_cause :: u32

definition PCGen_Fetch32_default :: PCGen_Fetch32 where
  "PCGen_Fetch32_default = \<lparr>pg_pc = 0, pg_valid = False, pg_predicted_taken = False, pg_predicted_target = 0\<rparr>"

definition Fetch_ID32_default :: Fetch_ID32 where
  "Fetch_ID32_default =
     \<lparr>fi_pc = 0, fi_instr = 0, fi_valid = False, fi_predicted_taken = False, fi_predicted_target = 0\<rparr>"

definition ID_Issue32_default :: ID_Issue32 where
  "ID_Issue32_default =
     \<lparr>ii_pc = 0, ii_instr = 0, ii_rd = 0, ii_rs1 = 0, ii_rs2 = 0, ii_imm = 0, ii_opcode = 0, ii_funct3 = 0,
      ii_funct7 = 0, ii_valid = False, ii_predicted_taken = False, ii_predicted_target = 0,
      ii_is_ras_call = False, ii_is_ras_return = False\<rparr>"

definition Issue_EX32_default :: Issue_EX32 where
  "Issue_EX32_default =
     \<lparr>ie_pc = 0, ie_rs1_val = 0, ie_rs2_val = 0, ie_imm = 0, ie_rd = 0, ie_opcode = 0, ie_funct3 = 0, ie_funct7 = 0,
      ie_rob_index = -1, ie_valid = False, ie_predicted_taken = False, ie_predicted_target = 0,
      ie_is_ras_call = False, ie_is_ras_return = False\<rparr>"

definition EX_Commit32_default :: EX_Commit32 where
  "EX_Commit32_default =
     \<lparr>ec_result = 0, ec_rd = 0, ec_rob_index = -1, ec_is_store = False, ec_store_addr = 0, ec_store_data = 0,
      ec_store_size = 0, ec_valid = False\<rparr>"

text \<open>The constructor.  The counters of the branch history table are not initialised by the
  source: their start values \<^verbatim>\<open>bht0\<close> are arbitrary.\<close>

definition R6_init :: "u32 \<Rightarrow> u8 list \<Rightarrow> bool \<Rightarrow> Platform \<Rightarrow> R6" where
  "R6_init PC bht0 dmi pf =
     \<lparr>pcgen_reg = PCGen_Fetch32_default, pcgen_next = PCGen_Fetch32_default,
      fetch_reg = Fetch_ID32_default, fetch_next = Fetch_ID32_default,
      id_reg = ID_Issue32_default, id_next = ID_Issue32_default,
      issue_reg = Issue_EX32_default, issue_next = Issue_EX32_default,
      excommit_reg = EX_Commit32_default, excommit_next = EX_Commit32_default,
      r6_next_pc = PC, r6_stall_pcgen = False, r6_stall_fetch = False, r6_stall_issue = False,
      r6_flush = False, r6_redirect_target = 0, r6_busy = replicate 32 False,
      r6_btb = replicate 128 \<lparr>bt_target = 0, bt_valid = False, bt_is_return = False\<rparr>, r6_bht = bht0, r6_ras = [],
      r6_rob = rob_init 32, r6_stb = stb_init 8 4,
      r6_regs = setValue 2 (of_nat (Memory_SIZE div 4 - 1)) (setPC PC Registers_init),
      r6_pf = pf, r6_dmi_valid = False, r6_dmi_start = 0, r6_dmi_end = 0, r6_mem_dmi = dmi, r6_out = [],
      r6_cycles = 0, r6_stopped = False, r6_interrupt = False, r6_int_cause = 0\<rparr>"

section \<open>PCGen and fetch\<close>

definition btb_index32 :: "u32 \<Rightarrow> nat" where
  "btb_index32 pc = unat (drop_bit 2 pc) mod 128"

definition bht_index32 :: "u32 \<Rightarrow> nat" where
  "bht_index32 pc = unat (drop_bit 2 pc) mod 256"

definition predict32 :: "R6 \<Rightarrow> bool \<times> u32 \<times> u32 list" where
  "predict32 s =
     (let e = r6_btb s ! btb_index32 (r6_next_pc s); ras = r6_ras s in
      if bt_valid e then
        (if bt_is_return e then (if ras \<noteq> [] then (True, last ras, butlast ras) else (False, 0, ras))
         else if r6_bht s ! bht_index32 (r6_next_pc s) \<ge> 2 then (True, bt_target e, ras)
         else (False, 0, ras))
      else (False, 0, ras))"

definition PCGen_stage32 :: "R6 \<Rightarrow> R6" where
  "PCGen_stage32 s =
     (if r6_flush s then
        s\<lparr>r6_next_pc := r6_redirect_target s, r6_flush := False, pcgen_next := (pcgen_next s)\<lparr>pg_valid := False\<rparr>\<rparr>
      else if r6_stall_pcgen s then s
      else
        (let current_pc = r6_next_pc s; (predict_taken, pt_target, ras) = predict32 s
         in s\<lparr>pcgen_next := \<lparr>pg_pc = current_pc, pg_valid = True, pg_predicted_taken = predict_taken,
                              pg_predicted_target = pt_target\<rparr>,
              r6_ras := ras,
              r6_next_pc := (if predict_taken then pt_target else current_pc + 4)\<rparr>))"

definition fetch_instruction32 :: "u32 \<Rightarrow> R6 \<Rightarrow> sim_error + u32 option \<times> R6" where
  "fetch_instruction32 addr s =
     (if r6_dmi_valid s \<and> ucast addr \<ge> r6_dmi_start s \<and> ucast (addr + 4) \<le> r6_dmi_end s then
        (let off = unat (ucast addr - r6_dmi_start s) in
         if off + 4 \<le> Memory_SIZE then Inr (Some (of_bytes (mem_read (pf_mem (r6_pf s)) off 4)), s)
         else Inl UNDEFINED_BEHAVIOUR)
      else
        and_then (bus_transport bus_fuel (rd_payload (ucast addr) 4) (r6_pf s))
          (\<lambda>(tr, pf). let s = s\<lparr>r6_pf := pf\<rparr> in
             if p_response tr \<noteq> TLM_OK_RESPONSE then Inr (None, s)
             else let s = (if served_by_memory (ucast addr) \<and> r6_mem_dmi s
                           then s\<lparr>r6_dmi_valid := True, r6_dmi_start := 0, r6_dmi_end := of_nat (Memory_SIZE - 1)\<rparr>
                           else s)
                  in Inr (Some (of_bytes (p_data tr)), s)))"

definition Fetch_stage32 :: "R6 \<Rightarrow> sim_error + R6" where
  "Fetch_stage32 s =
     (if r6_flush s then Inr (s\<lparr>fetch_next := (fetch_next s)\<lparr>fi_valid := False\<rparr>\<rparr>)
      else if r6_stall_fetch s then Inr s
      else if \<not> pg_valid (pcgen_reg s) then Inr (s\<lparr>fetch_next := (fetch_next s)\<lparr>fi_valid := False\<rparr>\<rparr>)
      else
        and_then (fetch_instruction32 (pg_pc (pcgen_reg s)) s)
          (\<lambda>(r, s). Inr (case r of
             Some instr \<Rightarrow> s\<lparr>fetch_next := \<lparr>fi_pc = pg_pc (pcgen_reg s), fi_instr = instr, fi_valid = True,
                 fi_predicted_taken = pg_predicted_taken (pcgen_reg s),
                 fi_predicted_target = pg_predicted_target (pcgen_reg s)\<rparr>\<rparr>
           | None \<Rightarrow> s\<lparr>fetch_next := (fetch_next s)\<lparr>fi_valid := False\<rparr>\<rparr>)))"

section \<open>Decode\<close>

definition decode_imm32 :: "u8 \<Rightarrow> u32 \<Rightarrow> u32" where
  "decode_imm32 opc instr =
     (if opc \<in> {0x13, 0x03, 0x67} then signed_drop_bit 20 instr
      else if opc = 0x23 then
        signed_drop_bit 20 (push_bit 20 (push_bit 5 (drop_bit 25 instr) OR (drop_bit 7 instr AND 0x1F)))
      else if opc = 0x63 then
        signed_drop_bit 19 (push_bit 19 (push_bit 12 (drop_bit 31 instr) OR push_bit 11 (drop_bit 7 instr AND 1)
          OR push_bit 5 (drop_bit 25 instr AND 0x3F) OR push_bit 1 (drop_bit 8 instr AND 0xF)))
      else if opc \<in> {0x37, 0x17} then instr AND 0xFFFFF000
      else if opc = 0x6F then
        signed_drop_bit 11 (push_bit 11 (push_bit 20 (drop_bit 31 instr) OR push_bit 12 (drop_bit 12 instr AND 0xFF)
          OR push_bit 11 (drop_bit 20 instr AND 1) OR push_bit 1 (drop_bit 21 instr AND 0x3FF)))
      else if opc = 0x73 then signed_drop_bit 20 instr
      else 0)"

text \<open>The call detection reads the destination field before this instruction's is decoded: it sees
  the one of the instruction decoded before, \<^verbatim>\<open>ii_rd (id_next s)\<close>.\<close>

definition decode_latch32 :: "u8 \<Rightarrow> Fetch_ID32 \<Rightarrow> ID_Issue32" where
  "decode_latch32 old_rd f =
     (let instr = fi_instr f; opc = ucast (instr AND 0x7F);
          rs1 = ucast (drop_bit 15 instr AND 0x1F); rs2 = ucast (drop_bit 20 instr AND 0x1F);
          jump = (opc = 0x6F \<or> opc = 0x67);
          is_call = (old_rd = 1 \<or> old_rd = 5);
          is_ret = (opc = 0x67 \<and> (rs1 = 1 \<or> rs1 = 5) \<and> rs1 \<noteq> old_rd)
      in \<lparr>ii_pc = fi_pc f, ii_instr = instr,
          ii_rd = (if opc = 0x23 \<or> opc = 0x63 then 0 else ucast (drop_bit 7 instr AND 0x1F)),
          ii_rs1 = (if opc \<in> {0x37, 0x17, 0x6F} then 0 else rs1),
          ii_rs2 = (if opc \<in> {0x37, 0x17, 0x6F} \<or> opc \<in> {0x13, 0x03, 0x67, 0x73} then 0 else rs2),
          ii_imm = decode_imm32 opc instr,
          ii_opcode = opc, ii_funct3 = ucast (drop_bit 12 instr AND 0x7),
          ii_funct7 = ucast (drop_bit 25 instr AND 0x7F), ii_valid = True,
          ii_predicted_taken = fi_predicted_taken f, ii_predicted_target = fi_predicted_target f,
          ii_is_ras_call = jump \<and> is_call, ii_is_ras_return = jump \<and> is_ret\<rparr>)"

definition ID_stage32 :: "R6 \<Rightarrow> R6" where
  "ID_stage32 s =
     (if r6_flush s then s\<lparr>id_next := (id_next s)\<lparr>ii_valid := False\<rparr>\<rparr>
      else if r6_stall_issue s then s
      else if \<not> fi_valid (fetch_reg s) then s\<lparr>id_next := (id_next s)\<lparr>ii_valid := False\<rparr>\<rparr>
      else s\<lparr>id_next := decode_latch32 (ii_rd (id_next s)) (fetch_reg s)\<rparr>)"

section \<open>Issue\<close>

definition rob_setup :: "int \<Rightarrow> u64 \<Rightarrow> bool \<Rightarrow> bool \<Rightarrow> ReorderBuffer \<Rightarrow> ReorderBuffer" where
  "rob_setup i pc store branch r =
     r\<lparr>rob_entries := (rob_entries r)[nat i := (rob_entries r ! nat i)
          \<lparr>rob_pc := pc, rob_is_store := store, rob_is_branch := branch\<rparr>]\<rparr>"

definition issue_stall32 :: "R6 \<Rightarrow> R6" where
  "issue_stall32 s =
     s\<lparr>r6_stall_issue := True, r6_stall_fetch := True, r6_stall_pcgen := True,
       issue_next := (issue_next s)\<lparr>ie_valid := False\<rparr>\<rparr>"

definition is_ctrl_opcode :: "u8 \<Rightarrow> bool" where
  "is_ctrl_opcode opc \<longleftrightarrow> opc = 0x63 \<or> opc = 0x6F \<or> opc = 0x67"

definition issue_latch32 :: "int \<Rightarrow> u32 Registers \<Rightarrow> ID_Issue32 \<Rightarrow> Issue_EX32" where
  "issue_latch32 rob_idx r d =
     \<lparr>ie_pc = ii_pc d, ie_rs1_val = getValue (unat (ii_rs1 d)) r, ie_rs2_val = getValue (unat (ii_rs2 d)) r,
      ie_imm = ii_imm d, ie_rd = ii_rd d, ie_opcode = ii_opcode d, ie_funct3 = ii_funct3 d, ie_funct7 = ii_funct7 d,
      ie_rob_index = rob_idx, ie_valid = True, ie_predicted_taken = ii_predicted_taken d,
      ie_predicted_target = ii_predicted_target d, ie_is_ras_call = ii_is_ras_call d,
      ie_is_ras_return = ii_is_ras_return d\<rparr>"

definition Issue_stage32 :: "R6 \<Rightarrow> R6" where
  "Issue_stage32 s =
     (let s = s\<lparr>r6_stall_pcgen := False, r6_stall_fetch := False, r6_stall_issue := False\<rparr>; d = id_reg s in
      if r6_flush s \<or> \<not> ii_valid d then s\<lparr>issue_next := (issue_next s)\<lparr>ie_valid := False\<rparr>\<rparr>
      else if r6_busy s ! unat (ii_rs1 d) \<or> r6_busy s ! unat (ii_rs2 d) then issue_stall32 s
      else if ii_opcode d = 0x23 \<and> stb_spec_count (r6_stb s) = SPEC_DEPTH (r6_stb s) then issue_stall32 s
      else
        (let (rob_idx, rob) = rob_allocate (r6_rob s) in
         if rob_idx < 0 then issue_stall32 s
         else
           (let s = s\<lparr>r6_rob := rob_setup rob_idx (ucast (ii_pc d)) (ii_opcode d = 0x23) (is_ctrl_opcode (ii_opcode d)) rob\<rparr>
            in if ii_instr d = 0 then
                 s\<lparr>r6_rob := rob_flush (r6_rob s), r6_busy := replicate 32 False,
                   issue_next := (issue_next s)\<lparr>ie_valid := False\<rparr>, r6_stopped := True\<rparr>
               else
                 s\<lparr>issue_next := issue_latch32 rob_idx (r6_regs s) d,
                   r6_busy := (if ii_rd d \<noteq> 0 then (r6_busy s)[unat (ii_rd d) := True] else r6_busy s)\<rparr>)))"

section \<open>Execute\<close>

text \<open>The multiplication codes of the R-type opcode fall into the same switch: funct7 is compared with
  0x20 only.\<close>

definition alu_reg32 :: "u8 \<Rightarrow> u8 \<Rightarrow> u32 \<Rightarrow> u32 \<Rightarrow> u32" where
  "alu_reg32 f3 f7 a b =
     (if f3 = 0 then (if f7 = 0x20 then a - b else a + b)
      else if f3 = 1 then push_bit (unat (b AND 0x1F)) a
      else if f3 = 2 then of_bool (sint a < sint b)
      else if f3 = 3 then of_bool (a < b)
      else if f3 = 4 then a XOR b
      else if f3 = 5 then (if f7 = 0x20 then signed_drop_bit (unat (b AND 0x1F)) a else drop_bit (unat (b AND 0x1F)) a)
      else if f3 = 6 then a OR b
      else if f3 = 7 then a AND b
      else 0)"

definition alu_imm32 :: "u8 \<Rightarrow> u32 \<Rightarrow> u32 \<Rightarrow> u32" where
  "alu_imm32 f3 a imm =
     (if f3 = 0 then a + imm
      else if f3 = 2 then of_bool (sint a < sint imm)
      else if f3 = 3 then of_bool (a < imm)
      else if f3 = 4 then a XOR imm
      else if f3 = 6 then a OR imm
      else if f3 = 7 then a AND imm
      else if f3 = 1 then push_bit (unat (imm AND 0x1F)) a
      else if f3 = 5 then
        (if imm AND 0x400 \<noteq> 0 then signed_drop_bit (unat (imm AND 0x1F)) a else drop_bit (unat (imm AND 0x1F)) a)
      else 0)"

definition ex_result32 :: "Issue_EX32 \<Rightarrow> u32" where
  "ex_result32 x =
     (if ie_opcode x = 0x33 then alu_reg32 (ie_funct3 x) (ie_funct7 x) (ie_rs1_val x) (ie_rs2_val x)
      else if ie_opcode x = 0x13 then alu_imm32 (ie_funct3 x) (ie_rs1_val x) (ie_imm x)
      else if ie_opcode x = 0x37 then ie_imm x
      else if ie_opcode x = 0x17 then ie_pc x + ie_imm x
      else if ie_opcode x = 0x6F \<or> ie_opcode x = 0x67 then ie_pc x + 4
      else 0)"

definition branch_cond32 :: "u8 \<Rightarrow> u32 \<Rightarrow> u32 \<Rightarrow> bool" where
  "branch_cond32 f3 a b \<longleftrightarrow>
     (if f3 = 0 then a = b
      else if f3 = 1 then a \<noteq> b
      else if f3 = 4 then sint a < sint b
      else if f3 = 5 then sint a \<ge> sint b
      else if f3 = 6 then a < b
      else if f3 = 7 then a \<ge> b
      else False)"

definition branch_taken32 :: "Issue_EX32 \<Rightarrow> bool" where
  "branch_taken32 x \<longleftrightarrow>
     ie_opcode x = 0x6F \<or> ie_opcode x = 0x67 \<or>
     ie_opcode x = 0x63 \<and> branch_cond32 (ie_funct3 x) (ie_rs1_val x) (ie_rs2_val x)"

definition branch_target32 :: "Issue_EX32 \<Rightarrow> u32" where
  "branch_target32 x =
     (if ie_opcode x = 0x67 then (ie_rs1_val x + ie_imm x) AND 0xFFFFFFFE else ie_pc x + ie_imm x)"

definition ex_load32 :: "Issue_EX32 \<Rightarrow> Platform \<Rightarrow> sim_error + u32 \<times> Platform" where
  "ex_load32 x pf =
     (let addr = ucast (ie_rs1_val x + ie_imm x); f3 = ie_funct3 x in
      if f3 = 0 then and_then (readDataMem addr 1 pf) (\<lambda>(v, pf). Inr (scast (ucast v :: u8), pf))
      else if f3 = 1 then and_then (readDataMem addr 2 pf) (\<lambda>(v, pf). Inr (scast (ucast v :: 16 word), pf))
      else if f3 = 2 then readDataMem addr 4 pf
      else if f3 = 4 then readDataMem addr 1 pf
      else if f3 = 5 then readDataMem addr 2 pf
      else Inr (0, pf))"

definition mispredict32 :: "Issue_EX32 \<Rightarrow> bool" where
  "mispredict32 x \<longleftrightarrow>
     branch_taken32 x \<noteq> ie_predicted_taken x \<or> branch_taken32 x \<and> branch_target32 x \<noteq> ie_predicted_target x"

definition ras_push32 :: "u32 \<Rightarrow> u32 list \<Rightarrow> u32 list" where
  "ras_push32 a ras = (let ras = ras @ [a] in if length ras > 4 then tl ras else ras)"

definition train32 :: "Issue_EX32 \<Rightarrow> R6 \<Rightarrow> R6" where
  "train32 x s =
     (let bi = btb_index32 (ie_pc x); hi = bht_index32 (ie_pc x); e = r6_btb s ! bi; c = r6_bht s ! hi in
      if ie_opcode x = 0x63 then
        s\<lparr>r6_bht := (r6_bht s)[hi := (if branch_taken32 x then if c < 3 then c + 1 else c else if c > 0 then c - 1 else c)],
          r6_btb := (r6_btb s)[bi := \<lparr>bt_target = branch_target32 x, bt_valid = True, bt_is_return = False\<rparr>]\<rparr>
      else
        s\<lparr>r6_btb := (r6_btb s)[bi := \<lparr>bt_target = branch_target32 x, bt_valid = True,
                                       bt_is_return = bt_is_return e \<or> ie_is_ras_return x\<rparr>],
          r6_bht := (r6_bht s)[hi := 3],
          r6_ras := (if ie_is_ras_call x then ras_push32 (ie_pc x + 4) (r6_ras s) else r6_ras s)\<rparr>)"

definition resolve32 :: "Issue_EX32 \<Rightarrow> R6 \<Rightarrow> R6" where
  "resolve32 x s =
     (if is_ctrl_opcode (ie_opcode x) then
        (let s = train32 x s in
         if mispredict32 x then
           s\<lparr>r6_redirect_target := (if branch_taken32 x then branch_target32 x else ie_pc x + 4),
             r6_flush := True, r6_ras := []\<rparr>
         else s)
      else s)"

text \<open>The environment call: write, exit and brk.  \<^verbatim>\<open>write_loop32 n i\<close> copies the \<^verbatim>\<open>n\<close> bytes left from index \<^verbatim>\<open>i\<close>.\<close>

fun write_loop32 :: "nat \<Rightarrow> u32 \<Rightarrow> u32 \<Rightarrow> Platform \<Rightarrow> sim_error + u8 list \<times> Platform" where
  "write_loop32 0 a1 i pf = Inr ([], pf)"
| "write_loop32 (Suc n) a1 i pf =
     and_then (readDataMem (ucast (a1 + i)) 1 pf)
       (\<lambda>(v, pf). and_then (write_loop32 n a1 (i + 1) pf) (\<lambda>(bs, pf). Inr (ucast v # bs, pf)))"

definition ecall32 :: "R6 \<Rightarrow> sim_error + R6" where
  "ecall32 s =
     (let r = r6_regs s; nr = getValue 17 r; a0 = getValue 10 r; a1 = getValue 11 r; a2 = getValue 12 r in
      if nr = 64 then
        and_then (if a0 = 1 \<or> a0 = 2 then write_loop32 (unat a2) a1 0 (r6_pf s) else Inr ([], r6_pf s))
          (\<lambda>(bs, pf). Inr (s\<lparr>r6_pf := pf, r6_out := r6_out s @ bs, r6_regs := setValue 10 a2 r\<rparr>))
      else if nr = 93 \<or> nr = 1 then Inr (s\<lparr>r6_stopped := True\<rparr>)
      else if nr = 214 then Inr (s\<lparr>r6_regs := setValue 10 0 r\<rparr>)
      else Inr (s\<lparr>r6_regs := setValue 10 (- 38) r\<rparr>))"

definition commit_latch32 :: "u32 \<Rightarrow> Issue_EX32 \<Rightarrow> EX_Commit32 \<Rightarrow> EX_Commit32" where
  "commit_latch32 result x c =
     (let c = c\<lparr>ec_result := result, ec_rd := ie_rd x, ec_rob_index := ie_rob_index x,
                ec_is_store := (ie_opcode x = 0x23), ec_valid := True\<rparr>
      in if ie_opcode x = 0x23 then
           c\<lparr>ec_store_addr := ie_rs1_val x + ie_imm x, ec_store_data := ie_rs2_val x,
             ec_store_size := (if ie_funct3 x = 0 then 1 else if ie_funct3 x = 1 then 2
                               else if ie_funct3 x = 2 then 4 else 0)\<rparr>
         else c)"

definition EX_stage32 :: "R6 \<Rightarrow> sim_error + R6" where
  "EX_stage32 s =
     (let x = issue_reg s in
      if \<not> ie_valid x then Inr (s\<lparr>excommit_next := (excommit_next s)\<lparr>ec_valid := False\<rparr>\<rparr>)
      else
        and_then (if ie_opcode x = 0x03 then ex_load32 x (r6_pf s) else Inr (ex_result32 x, r6_pf s))
          (\<lambda>(result, pf). let s = resolve32 x (s\<lparr>r6_pf := pf\<rparr>) in
             and_then (if ie_opcode x = 0x73 \<and> ie_funct3 x = 0 \<and> ie_imm x = 0 then ecall32 s else Inr s)
               (\<lambda>s. Inr (s\<lparr>excommit_next := commit_latch32 result x (excommit_next s)\<rparr>))))"

section \<open>Commit\<close>

definition complete32 :: "R6 \<Rightarrow> R6" where
  "complete32 s =
     (let c = excommit_reg s in
      if ec_valid c \<and> ec_rob_index c \<ge> 0 then
        (let s = s\<lparr>r6_rob := rob_complete (ec_rob_index c) (ucast (ec_result c)) (ec_rd c) (r6_rob s)\<rparr>
         in if ec_is_store c
            then s\<lparr>r6_stb := snd (add_store (ucast (ec_store_addr c)) (ucast (ec_store_data c)) (ec_store_size c)
                                     (ec_rob_index c) (r6_stb s))\<rparr>
            else s)
      else s)"

definition retire_store32 :: "R6 \<Rightarrow> sim_error + R6" where
  "retire_store32 s =
     (let (r, b) = drain_one (snd (commit_store (rob_get_head_index (r6_rob s)) (r6_stb s))); s = s\<lparr>r6_stb := b\<rparr> in
      case r of
        None \<Rightarrow> Inr s
      | Some (addr, data, sz) \<Rightarrow> and_then (writeDataMem addr (ucast data) sz (r6_pf s)) (\<lambda>pf. Inr (s\<lparr>r6_pf := pf\<rparr>)))"

definition Commit_stage32 :: "R6 \<Rightarrow> sim_error + R6" where
  "Commit_stage32 s =
     (let s = complete32 s in
      if rob_head_ready (r6_rob s) then
        (let e = rob_get_head (r6_rob s) in
         and_then (if rob_is_store e then retire_store32 s else Inr s)
          (\<lambda>s. let s = (if rob_dest_reg e \<noteq> 0
                        then s\<lparr>r6_regs := setValue (unat (rob_dest_reg e)) (ucast (rob_result e)) (r6_regs s),
                               r6_busy := (r6_busy s)[unat (rob_dest_reg e) := False]\<rparr>
                        else s)
               in Inr (s\<lparr>r6_rob := rob_retire (r6_rob s)\<rparr>)))
      else Inr s)"

section \<open>The clocked thread\<close>

text \<open>The interrupt socket sets a flag that nothing in this core reads.\<close>

definition call_interrupt32 :: "payload \<Rightarrow> R6 \<Rightarrow> R6" where
  "call_interrupt32 m_trans s = s\<lparr>r6_interrupt := True, r6_int_cause := of_bytes (take 4 (p_data m_trans))\<rparr>"

definition transfer_latches32 :: "R6 \<Rightarrow> R6" where
  "transfer_latches32 s =
     s\<lparr>excommit_reg := excommit_next s, issue_reg := issue_next s, id_reg := id_next s, fetch_reg := fetch_next s,
       pcgen_reg := pcgen_next s\<rparr>"

definition run_stages32 :: "R6 \<Rightarrow> sim_error + bool \<times> R6" where
  "run_stages32 s =
     and_then (Commit_stage32 s)
      (\<lambda>s. and_then (EX_stage32 s)
       (\<lambda>s. let this_cycle_flush = r6_flush s in
         and_then (Fetch_stage32 (ID_stage32 (Issue_stage32 s)))
          (\<lambda>s. Inr (this_cycle_flush, PCGen_stage32 s))))"

definition end_cycle32 :: "bool \<Rightarrow> R6 \<Rightarrow> R6" where
  "end_cycle32 this_cycle_flush s =
     (let s = s\<lparr>r6_cycles := r6_cycles s + 1\<rparr> in
      if r6_cycles s > 100 \<and> \<not> this_cycle_flush \<and> \<not> pg_valid (pcgen_reg s) \<and> \<not> pg_valid (pcgen_next s) \<and>
         \<not> fi_valid (fetch_reg s) \<and> \<not> ii_valid (id_reg s) \<and> \<not> ie_valid (issue_reg s) \<and> rob_is_empty (r6_rob s)
      then s\<lparr>r6_stopped := True\<rparr> else s)"

text \<open>\<^verbatim>\<open>env\<close> is what the other processes do to the platform while the thread waits for the clock.  The
  base class runs its own thread beside this one; its step and its interrupt poll do nothing here.\<close>

definition cycle_step32 :: "(Platform \<Rightarrow> Platform) \<Rightarrow> R6 \<Rightarrow> sim_error + R6" where
  "cycle_step32 env s =
     and_then (run_stages32 (transfer_latches32 (s\<lparr>r6_pf := env (r6_pf s)\<rparr>)))
       (\<lambda>(this_cycle_flush, s). Inr (end_cycle32 this_cycle_flush s))"

definition stop_seen32 :: "R6 \<Rightarrow> bool" where
  "stop_seen32 s \<longleftrightarrow> r6_stopped s \<or> pf_stopped (r6_pf s) \<noteq> []"

fun cycle_thread32 :: "(Platform \<Rightarrow> Platform) list \<Rightarrow> R6 \<Rightarrow> sim_error + R6" where
  "cycle_thread32 [] s = Inr s"
| "cycle_thread32 (env # envs) s =
     (if stop_seen32 s then Inr s else and_then (cycle_step32 env s) (cycle_thread32 envs))"

end
