(* ===== verification/R6_Datapath.thy ===== *)
theory R6_Datapath
  imports R6_Core ISA_Fields ISA_Props
begin

unbundle bit_operations_syntax

text \<open>
  The datapath of the six-stage 32-bit core against the reference semantics: the decoder
  recovers every encoded instruction, and the execute stage computes its reference result and
  successor.
\<close>

section \<open>Decoding an encoding\<close>

definition dec32 :: "rv_instr \<Rightarrow> ID_Issue32" where
  "dec32 ins = decode_latch32 0 (Fetch_ID32_default\<lparr>fi_instr := encode ins\<rparr>)"

text \<open>The fields of a decoded instruction: what does not depend on the fetch address, the prediction
  and the call detection.\<close>

definition id_ok :: "rv_instr \<Rightarrow> ID_Issue32 \<Rightarrow> bool" where
  "id_ok ins d \<longleftrightarrow> ii_instr d = encode ins \<and> ii_rd d = ii_rd (dec32 ins) \<and> ii_rs1 d = ii_rs1 (dec32 ins) \<and>
     ii_rs2 d = ii_rs2 (dec32 ins) \<and> ii_imm d = ii_imm (dec32 ins) \<and> ii_opcode d = ii_opcode (dec32 ins) \<and>
     ii_funct3 d = ii_funct3 (dec32 ins) \<and> ii_funct7 d = ii_funct7 (dec32 ins)"

lemma decode_latch_id_ok: "fi_instr f = encode ins \<Longrightarrow> id_ok ins (decode_latch32 old f)"
  by (simp add: id_ok_def dec32_def decode_latch32_def Let_def)

lemma imm_types32:
  "decode_imm32 0x13 (i_type imm rs1 f3 rd op) = scast imm"
  "decode_imm32 0x67 (i_type imm rs1 f3 rd op) = scast imm"
  "decode_imm32 0x63 (b_type half rs2 rs1 f3 op) = word_of_int (2 * sint half)"
  "decode_imm32 0x6F (j_type half20 rd op) = word_of_int (2 * sint half20)"
  "decode_imm32 0x37 (u_type imm20 rd op) = word_of_int (sint imm20 * 2 ^ 12)"
  "decode_imm32 0x17 (u_type imm20 rd op) = word_of_int (sint imm20 * 2 ^ 12)"
proof -
  have u: "push_bit 12 (ucast imm20 :: u32) = word_of_int (sint imm20 * 2 ^ 12)"
    using upper_imm[of imm20, where ?'w = 32] by simp
  show "decode_imm32 0x13 (i_type imm rs1 f3 rd op) = scast imm"
    "decode_imm32 0x67 (i_type imm rs1 f3 rd op) = scast imm"
    "decode_imm32 0x63 (b_type half rs2 rs1 f3 op) = word_of_int (2 * sint half)"
    "decode_imm32 0x6F (j_type half20 rd op) = word_of_int (2 * sint half20)"
    "decode_imm32 0x37 (u_type imm20 rd op) = word_of_int (sint imm20 * 2 ^ 12)"
    "decode_imm32 0x17 (u_type imm20 rd op) = word_of_int (sint imm20 * 2 ^ 12)"
    unfolding decode_imm32_def imm_field_I imm_field_B imm_field_J i_offset b_offset j_offset fields_u scast_twice12
      scast_twice20 u by simp_all
qed

fun rv_dest :: "rv_instr \<Rightarrow> 5 word" where
  "rv_dest (I_OP _ rd _ _) = rd" | "rv_dest (I_OPI _ rd _ _) = rd" | "rv_dest (I_LUI rd _) = rd"
| "rv_dest (I_AUIPC rd _) = rd" | "rv_dest (I_JAL rd _) = rd" | "rv_dest (I_JALR rd _ _) = rd" | "rv_dest (I_BR _ _ _ _) = 0"

fun rv_sources :: "rv_instr \<Rightarrow> 5 word \<times> 5 word" where
  "rv_sources (I_OP _ _ rs1 rs2) = (rs1, rs2)" | "rv_sources (I_OPI _ _ rs1 _) = (rs1, 0)"
| "rv_sources (I_JALR _ rs1 _) = (rs1, 0)" | "rv_sources (I_BR _ rs1 rs2 _) = (rs1, rs2)" | "rv_sources _ = (0, 0)"

lemma dec32_fields:
  "ii_rd (dec32 ins) = ucast (rv_dest ins)" "ii_rs1 (dec32 ins) = ucast (fst (rv_sources ins))"
  "ii_rs2 (dec32 ins) = ucast (snd (rv_sources ins))" "is_ctrl_opcode (ii_opcode (dec32 ins)) = is_ctrl ins"
  "ii_opcode (dec32 ins) \<notin> {0x03, 0x23, 0x73}"
  by (cases ins; simp add: dec32_def decode_latch32_def Fetch_ID32_default_def Let_def fields is_ctrl_opcode_def)+

lemma encode_nonzero: "encode ins \<noteq> 0"
proof
  assume "encode ins = 0"
  then have "encode ins AND 0x7F = 0" by simp
  then show False by (cases ins) (simp_all add: fields)
qed

section \<open>Execution\<close>

definition ex_ok :: "rv_instr \<Rightarrow> (5 word \<Rightarrow> u32) \<Rightarrow> Issue_EX32 \<Rightarrow> bool" where
  "ex_ok ins f x \<longleftrightarrow> ie_rs1_val x = f (fst (rv_sources ins)) \<and> ie_rs2_val x = f (snd (rv_sources ins)) \<and>
     ie_imm x = ii_imm (dec32 ins) \<and> ie_rd x = ucast (rv_dest ins) \<and> ie_opcode x = ii_opcode (dec32 ins) \<and>
     ie_funct3 x = ii_funct3 (dec32 ins) \<and> ie_funct7 x = ii_funct7 (dec32 ins)"

definition branch_next32 :: "Issue_EX32 \<Rightarrow> u32" where
  "branch_next32 x = (if branch_taken32 x then branch_target32 x else ie_pc x + 4)"

lemma sh5: "unat (b AND 0x1F) = shamt (b :: u32)"
  using shamt_mask[of b] by (simp add: shamt_def)

lemmas dec32_simps = dec32_def decode_latch32_def Fetch_ID32_default_def Let_def fields imm_types32

lemma alu_reg32_spec:
  "alu_reg32 (ii_funct3 (dec32 (I_OP a rd rs1 rs2))) (ii_funct7 (dec32 (I_OP a rd rs1 rs2))) v w = alu_spec a v w"
  by (cases a) (simp_all add: dec32_simps alu_reg32_def, simp_all add: sh5 push_bit_eq_mult sra_div srl_div word_less_def)

lemma alu_imm32_spec:
  "alu_imm32 (ii_funct3 (dec32 (I_OPI a rd rs1 imm))) v (ii_imm (dec32 (I_OPI a rd rs1 imm))) = alui_spec a v imm"
  by (cases a) (simp_all add: dec32_simps alu_imm32_def, simp_all add: word_less_def sint_imm)

lemma branch_cond32_spec: "branch_cond32 (ii_funct3 (dec32 (I_BR c rs1 rs2 half))) v w = cond_spec c v w"
  by (cases c) (simp_all add: dec32_simps branch_cond32_def, simp_all add: word_less_def word_le_def)

lemma dec32_opcode:
  "ii_opcode (dec32 (I_OP a rd rs1 rs2)) = 0x33" "ii_opcode (dec32 (I_OPI b rd rs1 imm)) = 0x13"
  "ii_opcode (dec32 (I_LUI rd imm20)) = 0x37" "ii_opcode (dec32 (I_AUIPC rd imm20)) = 0x17"
  "ii_opcode (dec32 (I_JAL rd imm20)) = 0x6F" "ii_opcode (dec32 (I_JALR rd rs1 imm)) = 0x67"
  "ii_opcode (dec32 (I_BR c rs1 rs2 half)) = 0x63"
  by (simp_all add: dec32_simps)

lemma dec32_imm:
  "ii_imm (dec32 (I_LUI rd imm20)) = word_of_int (sint imm20 * 2 ^ 12)"
  "ii_imm (dec32 (I_AUIPC rd imm20)) = word_of_int (sint imm20 * 2 ^ 12)"
  "ii_imm (dec32 (I_JAL rd imm20)) = word_of_int (2 * sint imm20)"
  "ii_imm (dec32 (I_JALR rd rs1 imm)) = scast imm"
  "ii_imm (dec32 (I_BR c rs1 rs2 half)) = word_of_int (2 * sint half)"
  by (simp_all add: dec32_simps)

lemma ucast_rd: "(ucast (ucast (w :: 5 word) :: u8) :: 5 word) = w"
  by (simp add: fields)

lemma ex32_spec:
  assumes "ex_ok ins f x" "ie_pc x = pc"
  shows "rv_step ins (f, pc) =
     (wr (rv_dest ins) (ex_result32 x) f, if is_ctrl ins then branch_next32 x else pc + 4)"
proof -
  have n1: "(0xFFFFFFFE :: u32) = NOT 1" by simp
  show ?thesis
    using assms unfolding n1 branch_next32_def branch_target32_def branch_taken32_def
    by (cases ins) (simp_all add: ex_ok_def ex_result32_def dec32_opcode alu_reg32_spec alu_imm32_spec
        branch_cond32_spec dec32_imm wr_def n1)
qed

end
