(* ===== verification/R6_Stages.thy ===== *)
theory R6_Stages
  imports R6_Datapath
begin

unbundle bit_operations_syntax

text \<open>
  The stages of the six-stage 32-bit core, one at a time: what each does to a pipeline that
  holds instructions of the reference instruction set.  At most two of them are in the reorder
  buffer, the one about to commit and the one about to execute.
\<close>

section \<open>The reorder buffer\<close>

definition rob_pend :: "ReorderBuffer \<Rightarrow> int list \<Rightarrow> bool" where
  "rob_pend r es \<longleftrightarrow> rob_wf r \<and> rob_size r = 32 \<and> rob_inflight r = map (\<lambda>i. (nat i, None)) es \<and>
     (\<forall>i \<in> set es. 0 \<le> i \<and> \<not> rob_is_store (rob_entries r ! nat i))"

lemma rob_pend_init: "rob_pend (rob_init 32) []"
  using rob_init_wf[of 32] by (simp add: rob_pend_def rob_inflight_def rob_slots_def rob_init_def rob_size_def ring_idx_def)

lemma rob_pend_slots: "rob_pend r es \<Longrightarrow> rob_slots r = map nat es"
  unfolding rob_pend_def rob_inflight_def by (metis (no_types, lifting) fst_conv list.map_comp map_eq_conv map_idI comp_apply)

lemma rob_pend_idle: "rob_pend r es \<Longrightarrow> \<not> rob_head_ready r"
  by (cases es) (simp_all add: rob_pend_def rob_head_ready_iff)

lemma rob_pend_commit:
  fixes v d
  assumes p: "rob_pend r (c # es)"
  defines "r1 \<equiv> rob_complete c v d r"
  shows "rob_head_ready r1" "rob_dest_reg (rob_get_head r1) = d" "rob_result (rob_get_head r1) = v"
    "\<not> rob_is_store (rob_get_head r1)" "rob_pend (rob_retire r1) es"
proof -
  note wf = p[unfolded rob_pend_def, THEN conjunct1]
  have c: "0 \<le> c" "rob_size r = 32" "\<not> rob_is_store (rob_entries r ! nat c)" using p by (auto simp: rob_pend_def)
  have sl: "rob_slots r = map nat (c # es)" by (rule rob_pend_slots[OF p])
  have h: "rob_head r = nat c" using rob_slots_facts(3,4)[OF wf] sl by auto
  have lt: "nat c < length (rob_entries r)" using rob_slots_facts(2)[OF wf, of "nat c"] sl by simp
  have dist: "distinct (map nat (c # es))" using rob_slots_facts(1)[OF wf] sl by simp
  have hd1: "rob_get_head r1 = (rob_entries r ! nat c)\<lparr>rob_ready := True, rob_result := v, rob_dest_reg := d\<rparr>"
    using c lt h by (simp add: r1_def rob_get_head_def rob_complete_def rob_size_def)
  then show "rob_dest_reg (rob_get_head r1) = d" "rob_result (rob_get_head r1) = v" "\<not> rob_is_store (rob_get_head r1)"
    using c by simp_all
  have wf1: "rob_wf r1" unfolding r1_def by (rule rob_complete_wf[OF wf])
  have ne: "int (nat i) \<noteq> c" if "i \<in> set es" for i using dist that c(1) p by (auto simp: rob_pend_def image_iff)
  have inf1: "rob_inflight r1 = (nat c, Some (d, v)) # map (\<lambda>i. (nat i, None)) es"
    using p c(1) ne unfolding r1_def rob_inflight_complete[OF wf] by (simp add: rob_pend_def)
  show "rob_head_ready r1" using inf1 by (simp add: rob_head_ready_iff[OF wf1])
  have "\<not> rob_is_store (rob_entries (rob_retire r1) ! nat i)" "0 \<le> i" if "i \<in> set es" for i
  proof -
    have "nat i \<noteq> nat c" "\<not> rob_is_store (rob_entries r ! nat i)" "0 \<le> i" using dist that p by (auto simp: rob_pend_def image_iff)
    then show "\<not> rob_is_store (rob_entries (rob_retire r1) ! nat i)" "0 \<le> i"
      by (auto simp: r1_def rob_retire_def rob_complete_def nth_update_if h)
  qed
  then show "rob_pend (rob_retire r1) es"
    using rob_retire_wf[OF wf1] c(2) inf1 rob_inflight_retire[OF wf1] by (simp add: rob_pend_def r1_def)
qed

lemma rob_pend_allocate:
  assumes p: "rob_pend r es" and l: "length es < 32"
  obtains i r1 where "rob_allocate r = (i, r1)" "0 \<le> i" "\<And>pc b. rob_pend (rob_setup i pc False b r1) (es @ [i])"
proof -
  note wf = p[unfolded rob_pend_def, THEN conjunct1]
  have sl: "rob_slots r = map nat es" by (rule rob_pend_slots[OF p])
  have sz: "rob_size r = 32" "length (rob_entries r) = 32" using p by (simp_all add: rob_pend_def rob_size_def)
  have "rob_count r = length es" using sl by (metis length_map length_ring_idx rob_slots_def)
  then have nf: "\<not> rob_is_full r" using l sz by (simp add: rob_is_full_def)
  let ?r1 = "snd (rob_allocate r)" and ?i = "int (rob_tail r)"
  have a: "rob_allocate r = (?i, ?r1)" using nf by (simp add: rob_allocate_def)
  have t: "rob_tail r < 32" using ring_wfD[OF rob_wf_ring[OF wf]] sz by simp
  have dead: "rob_tail r \<notin> set (map nat es)" using rob_tail_dead[OF wf nf] sl by simp
  show thesis
  proof (rule that[OF a])
    fix pc b
    let ?s = "rob_setup ?i pc False b ?r1"
    have ent: "rob_entries ?s ! j = (if j = rob_tail r
        then (rob_entries ?r1 ! j)\<lparr>rob_pc := pc, rob_is_store := False, rob_is_branch := b\<rparr> else rob_entries ?r1 ! j)" for j
      using t sz(2) by (auto simp: rob_setup_def nth_update_if rob_allocate_def)
    have frame: "rob_size ?s = 32" "rob_slots ?s = rob_slots ?r1" "rob_head ?s = rob_head ?r1"
      "rob_tail ?s = rob_tail ?r1" "rob_count ?s = rob_count ?r1"
      using sz nf by (simp_all add: rob_setup_def rob_slots_def rob_size_def rob_allocate_def)
    have sz1: "rob_size ?r1 = 32" using sz nf by (simp add: rob_allocate_def rob_size_def)
    have "rob_wf ?s"
      using rob_allocate_wf[OF wf] frame sz1 ent unfolding rob_wf_def by auto
    moreover have "rob_inflight ?s = rob_inflight ?r1"
      using ent frame(2) by (simp add: rob_inflight_def rob_outcome_def Let_def)
    moreover have "\<not> rob_is_store (rob_entries ?s ! nat i)" "0 \<le> i" if "i \<in> set (es @ [?i])" for i
      using that p ent[of "nat i"] dead nf by (auto simp: rob_pend_def rob_allocate_def nth_update_if)
    ultimately show "rob_pend ?s (es @ [?i])"
      using p rob_inflight_allocate[OF wf nf] frame(1) by (simp add: rob_pend_def)
  qed simp
qed

section \<open>Commit\<close>

definition el_C :: "EX_Commit32 \<Rightarrow> int list" where
  "el_C c = (if ec_valid c then [ec_rob_index c] else [])"

definition el_Xi :: "Issue_EX32 \<Rightarrow> int list" where
  "el_Xi x = (if ie_valid x then [ie_rob_index x] else [])"

definition rf :: "u32 Registers \<Rightarrow> 5 word \<Rightarrow> u32" where
  "rf r = fst (rv_abs r)"

lemma getValue_rf: "getValue (unat (ucast (x :: 5 word) :: u8)) r = rf r x"
proof -
  have "unat (ucast x :: u8) = unat x"
    using unsigned_less[of x, where ?'a = nat] by (simp add: unsigned_ucast_eq take_bit_nat_eq_self)
  then show ?thesis by (simp add: rf_def getValue_abs)
qed

lemma rf_setValue: "rf (setValue (unat (ucast (rd :: 5 word) :: u8)) v r) = wr rd v (rf r)"
proof -
  have "unat (ucast rd :: u8) = unat rd"
    using unsigned_less[of rd, where ?'a = nat] by (simp add: unsigned_ucast_eq take_bit_nat_eq_self)
  then show ?thesis by (simp add: rf_def)
qed

lemma unat_ucast8: "unat (ucast (r :: 5 word) :: u8) = unat r"
  using unsigned_less[of r, where ?'a = nat] by (simp add: unsigned_ucast_eq take_bit_nat_eq_self)

lemma unat5_less: "unat (r :: 5 word) < 32"
  using unsigned_less[of r, where ?'a = nat] by simp

lemma unat5_eq: "unat (r :: 5 word) = unat b \<longleftrightarrow> r = b"
  by (simp add: word_unat_eq_iff)

lemma ucast8_zero: "(ucast (rd :: 5 word) :: u8) = 0 \<longleftrightarrow> rd = 0"
  using ucast_rd[of rd] by auto

text \<open>The destination of the instruction in a latch, x0 for none, and the registers once the
  instruction about to commit has written its result.\<close>

definition dst_C :: "EX_Commit32 \<Rightarrow> 5 word" where
  "dst_C c = (if ec_valid c then ucast (ec_rd c) else 0)"

definition dst_X :: "Issue_EX32 \<Rightarrow> 5 word" where
  "dst_X x = (if ie_valid x then ucast (ie_rd x) else 0)"

definition pending :: "EX_Commit32 \<Rightarrow> (5 word \<Rightarrow> u32) \<Rightarrow> 5 word \<Rightarrow> u32" where
  "pending c g = (if ec_valid c then wr (ucast (ec_rd c)) (ec_result c) g else g)"

definition plain_C :: "EX_Commit32 \<Rightarrow> bool" where
  "plain_C c \<longleftrightarrow> (ec_valid c \<longrightarrow> \<not> ec_is_store c \<and> (\<exists>rd :: 5 word. ec_rd c = ucast rd))"

text \<open>Which registers are marked busy.\<close>

definition busy_for :: "5 word set \<Rightarrow> bool list \<Rightarrow> bool" where
  "busy_for D busy \<longleftrightarrow> length busy = 32 \<and> (\<forall>r :: 5 word. busy ! unat r \<longleftrightarrow> r \<noteq> 0 \<and> r \<in> D)"

lemma busy_clear:
  "busy_for {a, b} busy \<Longrightarrow> a = 0 \<or> a \<noteq> b \<Longrightarrow> busy_for {b} (if a = 0 then busy else busy[unat a := False])"
  using unat5_less by (auto simp: busy_for_def nth_list_update unat5_eq)

lemma busy_set: "busy_for {a} busy \<Longrightarrow> busy_for {a, b} (if b = 0 then busy else busy[unat b := True])"
  using unat5_less by (auto simp: busy_for_def nth_list_update unat5_eq)

lemma pending_other: "r \<noteq> dst_C c \<or> r = 0 \<Longrightarrow> pending c g r = g r"
  by (auto simp: pending_def dst_C_def wr_def)

lemma commit_idle:
  assumes "rob_pend (r6_rob s) es" "\<not> ec_valid (excommit_reg s)"
  shows "Commit_stage32 s = Inr s"
  using assms by (simp add: Commit_stage32_def complete32_def rob_pend_idle Let_def)

lemma commit_one:
  assumes p: "rob_pend (r6_rob s) (ec_rob_index (excommit_reg s) # es)" and v: "ec_valid (excommit_reg s)"
    and c: "\<not> ec_is_store (excommit_reg s)" "ec_rd (excommit_reg s) = ucast (rd :: 5 word)"
  obtains rob1 r1 where
    "Commit_stage32 s = Inr (s\<lparr>r6_regs := r1, r6_rob := rob1,
        r6_busy := (if rd = 0 then r6_busy s else (r6_busy s)[unat rd := False])\<rparr>)"
    "rob_pend rob1 es" "rf r1 = wr rd (ec_result (excommit_reg s)) (rf (r6_regs s))"
proof -
  let ?c = "excommit_reg s" and ?v = "ec_result (excommit_reg s)"
  let ?r = "rob_complete (ec_rob_index ?c) (ucast ?v) (ucast rd) (r6_rob s)"
  note f = rob_pend_commit[OF p, of "ucast ?v" "ucast rd"]
  have i: "0 \<le> ec_rob_index ?c" using p by (simp add: rob_pend_def)
  have s1: "complete32 s = s\<lparr>r6_rob := ?r\<rparr>" using c v i by (simp add: complete32_def Let_def)
  have u: "(ucast (ucast ?v :: u64) :: u32) = ?v" by (auto intro!: bit_word_eqI simp: bit_unsigned_iff)
  let ?r1 = "if rd = 0 then r6_regs s else setValue (unat (ucast rd :: u8)) ?v (r6_regs s)"
  have "Commit_stage32 s = Inr (s\<lparr>r6_regs := ?r1, r6_rob := rob_retire ?r,
        r6_busy := (if rd = 0 then r6_busy s else (r6_busy s)[unat rd := False])\<rparr>)"
    using f by (simp add: Commit_stage32_def s1 Let_def u ucast8_zero unat_ucast8)
  then show thesis using that f(5) rf_setValue[of rd ?v "r6_regs s"] by (simp add: wr_def)
qed

lemma commit_stage32_run:
  assumes p: "rob_pend (r6_rob s) (el_C (excommit_reg s) @ es)" and c: "plain_C (excommit_reg s)"
    and b: "busy_for {dst_C (excommit_reg s), d} (r6_busy s)" "dst_C (excommit_reg s) = 0 \<or> dst_C (excommit_reg s) \<noteq> d"
  obtains rob1 r1 busy1 where "Commit_stage32 s = Inr (s\<lparr>r6_regs := r1, r6_rob := rob1, r6_busy := busy1\<rparr>)"
    "rob_pend rob1 es" "rf r1 = pending (excommit_reg s) (rf (r6_regs s))" "busy_for {d} busy1"
proof (cases "ec_valid (excommit_reg s)")
  case False
  then have "Commit_stage32 s = Inr s" "rob_pend (r6_rob s) es" using p commit_idle by (auto simp: el_C_def)
  then show ?thesis using that[of "r6_busy s" "r6_rob s" "r6_regs s"] False b
    by (auto simp: pending_def dst_C_def busy_for_def)
next
  case True
  then obtain rd :: "5 word" where rd: "\<not> ec_is_store (excommit_reg s)" "ec_rd (excommit_reg s) = ucast rd"
    using c by (auto simp: plain_C_def)
  have d: "dst_C (excommit_reg s) = rd" using True rd by (simp add: dst_C_def ucast_rd)
  have p': "rob_pend (r6_rob s) (ec_rob_index (excommit_reg s) # es)" using p True by (simp add: el_C_def)
  show ?thesis
    by (rule commit_one[OF p' True rd]) (use that busy_clear[of rd d] b d True rd in \<open>simp add: pending_def ucast_rd\<close>)
qed

section \<open>Execute\<close>

definition near :: "nat \<Rightarrow> u32 \<Rightarrow> bool" where
  "near n a \<longleftrightarrow> 0x80000000 \<le> unat a \<and> unat a \<le> 0x8FFFFF00 + 4 * n"

lemma near_mono: "near n a \<Longrightarrow> n \<le> m \<Longrightarrow> near m a"
  by (auto simp: near_def)

lemma near_next: "near n a \<Longrightarrow> n \<le> 30 \<Longrightarrow> near (Suc n) (a + 4)"
  by (auto simp: near_def unat_word_ariths)

fun static_target :: "rv_instr \<Rightarrow> u32 \<Rightarrow> u32 option" where
  "static_target (I_JAL _ half) a = Some (a + word_of_int (2 * sint half))"
| "static_target (I_BR _ _ _ half) a = Some (a + word_of_int (2 * sint half))"
| "static_target _ a = None"

text \<open>The code the refinement theorem covers: programs and the targets of their direct jumps lie in the
  first 256 MB of main memory, and no control transfer shares its entry of the branch target
  buffer with another kind of instruction.\<close>

definition code_ok :: "(u64 \<Rightarrow> rv_instr option) \<Rightarrow> bool" where
  "code_ok P \<longleftrightarrow> (\<forall>a ins. P (ucast (a :: u32)) = Some ins \<longrightarrow> near 0 a \<and> pred_option (near 0) (static_target ins a) \<and>
     (\<forall>b ins'. P (ucast (b :: u32)) = Some ins' \<longrightarrow> btb_index32 b = btb_index32 a \<longrightarrow> is_ctrl ins' = is_ctrl ins))"

definition pred_ok :: "(u64 \<Rightarrow> rv_instr option) \<Rightarrow> BTBEntry32 list \<Rightarrow> u32 list \<Rightarrow> bool" where
  "pred_ok P btb ras \<longleftrightarrow> length btb = 128 \<and> (\<forall>a \<in> set ras. near 1 a) \<and>
     (\<forall>i < 128. bt_valid (btb ! i) \<longrightarrow> near 1 (bt_target (btb ! i)) \<and>
        (\<forall>a ins. P (ucast (a :: u32)) = Some ins \<longrightarrow> btb_index32 a = i \<longrightarrow> is_ctrl ins))"

lemma btb_index_less: "btb_index32 a < 128"
  by (simp add: btb_index32_def)

lemma pred_ok_btb:
  assumes "pred_ok P btb ras" "code_ok P" "P (ucast pc) = Some ins" "is_ctrl ins" "near 1 t"
  shows "pred_ok P (btb[btb_index32 pc := \<lparr>bt_target = t, bt_valid = v, bt_is_return = r\<rparr>]) ras"
proof -
  have "is_ctrl ins'" if "P (ucast a) = Some ins'" "btb_index32 a = btb_index32 pc" for a ins'
    using assms(2,3,4) that unfolding code_ok_def by blast
  then show ?thesis using assms(1,5) unfolding pred_ok_def by (simp add: nth_update_if)
qed

lemma pred_ok_ras: "pred_ok P btb ras \<Longrightarrow> \<forall>a \<in> set ras'. near 1 a \<Longrightarrow> pred_ok P btb ras'"
  by (simp add: pred_ok_def)

lemma set_tl_subset: "set (tl xs) \<subseteq> set xs"
  by (cases xs) auto

lemma ras_push_near: "\<forall>a \<in> set ras. near 1 a \<Longrightarrow> near 1 p \<Longrightarrow> \<forall>a \<in> set (ras_push32 p ras). near 1 a"
  using set_tl_subset[of "ras @ [p]"] by (auto simp: ras_push32_def Let_def)

lemma target_near:
  assumes "code_ok P" "P (ucast (ie_pc x)) = Some ins" "ex_ok ins f x" "is_ctrl ins"
    "near 0 (snd (rv_step ins (f, ie_pc x)))"
  shows "near 1 (branch_target32 x)"
proof -
  have "near 0 (branch_target32 x)"
  proof (cases "static_target ins (ie_pc x)")
    case None
    then obtain rd rs1 imm where i: "ins = I_JALR rd rs1 imm" using assms(4) by (cases ins) auto
    have "branch_next32 x = branch_target32 x"
      using assms(3) i by (simp add: branch_next32_def branch_taken32_def ex_ok_def dec32_opcode)
    then show ?thesis using assms(5) ex32_spec[OF assms(3) refl] i by simp
  next
    case (Some t)
    then have "near 0 t" using assms(1,2) unfolding code_ok_def by fastforce
    moreover have "t = branch_target32 x"
      using Some assms(3) by (cases ins) (auto simp: branch_target32_def ex_ok_def dec32_opcode dec32_imm)
    ultimately show ?thesis by simp
  qed
  then show ?thesis by (rule near_mono) simp
qed

lemma resolve32_run:
  assumes c: "code_ok P" and p: "P (ucast (ie_pc x)) = Some ins" "ex_ok ins f x" and pr: "pred_ok P (r6_btb s) (r6_ras s)"
    and n: "near 0 (snd (rv_step ins (f, ie_pc x)))" "\<not> r6_flush s"
  obtains btb bht ras rt fl where
    "resolve32 x s = s\<lparr>r6_btb := btb, r6_bht := bht, r6_ras := ras, r6_redirect_target := rt, r6_flush := fl\<rparr>"
    "pred_ok P btb ras" "fl \<longleftrightarrow> is_ctrl ins \<and> mispredict32 x" "fl \<longrightarrow> rt = branch_next32 x"
proof (cases "is_ctrl ins")
  case False
  then have "\<not> is_ctrl_opcode (ie_opcode x)" using p(2) dec32_fields(4)[of ins] by (simp add: ex_ok_def)
  then have "resolve32 x s = s" by (simp add: resolve32_def)
  then show ?thesis using that[of "r6_flush s" "r6_redirect_target s" "r6_ras s" "r6_bht s" "r6_btb s"] pr n False by simp
next
  case True
  have op: "is_ctrl_opcode (ie_opcode x)" using True p(2) dec32_fields(4)[of ins] by (simp add: ex_ok_def)
  note tn = target_near[OF c p True n(1)]
  have "near 0 (ie_pc x)" using c p(1) by (simp add: code_ok_def)
  then have ln: "near 1 (ie_pc x + 4)" using near_next[of 0 "ie_pc x"] by simp
  have rn: "\<forall>a \<in> set (r6_ras s). near 1 a" using pr by (simp add: pred_ok_def)
  obtain b h ra where t: "train32 x s = s\<lparr>r6_btb := b, r6_bht := h, r6_ras := ra\<rparr>" "pred_ok P b ra"
  proof
    let ?t = "train32 x s"
    show "?t = s\<lparr>r6_btb := r6_btb ?t, r6_bht := r6_bht ?t, r6_ras := r6_ras ?t\<rparr>" "pred_ok P (r6_btb ?t) (r6_ras ?t)"
      using pred_ok_btb[OF pr c p(1) True tn] ras_push_near[OF rn ln]
      by (auto simp: train32_def Let_def simp del: One_nat_def intro: pred_ok_ras)
  qed
  show ?thesis
  proof (cases "mispredict32 x")
    case m: True
    show ?thesis
      by (rule that[of True "branch_next32 x" "[]" h b])
        (use m True op t pred_ok_ras[OF t(2), of "[]"] in \<open>simp_all add: resolve32_def branch_next32_def Let_def\<close>)
  next
    case m: False
    show ?thesis
      by (rule that[of False "r6_redirect_target s" ra h b]) (use m True op t n(2) in \<open>simp_all add: resolve32_def\<close>)
  qed
qed

lemma ex_stage32_idle:
  "\<not> ie_valid (issue_reg s) \<Longrightarrow> EX_stage32 s = Inr (s\<lparr>excommit_next := (excommit_next s)\<lparr>ec_valid := False\<rparr>\<rparr>)"
  by (simp add: EX_stage32_def Let_def)

lemma ex_stage32_plain:
  assumes "ie_valid (issue_reg s)" "ex_ok ins f (issue_reg s)"
  shows "EX_stage32 s = Inr ((resolve32 (issue_reg s) s)
     \<lparr>excommit_next := commit_latch32 (ex_result32 (issue_reg s)) (issue_reg s) (excommit_next (resolve32 (issue_reg s) s))\<rparr>)"
  using assms dec32_fields(5)[of ins] by (simp add: EX_stage32_def ex_ok_def Let_def)

text \<open>The commit latch of an executed instruction.\<close>

lemma commit_latch_run:
  fixes c0
  assumes "ex_ok ins f x"
  defines "c \<equiv> commit_latch32 (ex_result32 x) x c0"
  shows "plain_C c" "ec_valid c" "ec_rob_index c = ie_rob_index x" "dst_C c = rv_dest ins"
    "pending c f = wr (rv_dest ins) (ex_result32 x) f"
  using assms dec32_fields(5)[of ins]
  by (auto simp: c_def commit_latch32_def ex_ok_def plain_C_def dst_C_def pending_def ucast_rd Let_def)

section \<open>Issue\<close>

lemma issue_off:
  "r6_flush s \<or> \<not> ii_valid (id_reg s) \<Longrightarrow>
     Issue_stage32 s = s\<lparr>r6_stall_pcgen := False, r6_stall_fetch := False, r6_stall_issue := False,
       issue_next := (issue_next s)\<lparr>ie_valid := False\<rparr>\<rparr>"
  by (simp add: Issue_stage32_def Let_def)

lemma issue_stalls:
  assumes "\<not> r6_flush s" "ii_valid (id_reg s)" "id_ok ins (id_reg s)" "busy_for {d} (r6_busy s)" "d \<noteq> 0"
    "d = fst (rv_sources ins) \<or> d = snd (rv_sources ins)"
  shows "Issue_stage32 s = issue_stall32 s"
  using assms by (auto simp: Issue_stage32_def issue_stall32_def Let_def id_ok_def dec32_fields unat_ucast8 busy_for_def)

lemma issue_go:
  assumes v: "\<not> r6_flush s" "ii_valid (id_reg s)" "id_ok ins (id_reg s)" and b: "busy_for {d} (r6_busy s)"
    and s: "d = 0 \<or> d \<noteq> fst (rv_sources ins) \<and> d \<noteq> snd (rv_sources ins)"
    and p: "rob_pend (r6_rob s) es" "length es < 32"
  obtains i rob1 where
    "Issue_stage32 s = s\<lparr>r6_stall_pcgen := False, r6_stall_fetch := False, r6_stall_issue := False, r6_rob := rob1,
       issue_next := issue_latch32 i (r6_regs s) (id_reg s),
       r6_busy := (if rv_dest ins = 0 then r6_busy s else (r6_busy s)[unat (rv_dest ins) := True])\<rparr>"
    "rob_pend rob1 (es @ [i])"
proof -
  obtain i r1 where a: "rob_allocate (r6_rob s) = (i, r1)" "0 \<le> i"
      "\<And>pc b. rob_pend (rob_setup i pc False b r1) (es @ [i])"
    using rob_pend_allocate[OF p] by blast
  have o: "ii_opcode (id_reg s) \<noteq> 0x23" "ii_instr (id_reg s) \<noteq> 0"
    using v(3) dec32_fields(5)[of ins] encode_nonzero[of ins] by (auto simp: id_ok_def)
  have nb: "\<not> r6_busy s ! unat (ii_rs1 (id_reg s))" "\<not> r6_busy s ! unat (ii_rs2 (id_reg s))"
    using v(3) b s by (auto simp: id_ok_def dec32_fields unat_ucast8 busy_for_def)
  have rd: "ii_rd (id_reg s) = ucast (rv_dest ins)" using v(3) by (simp add: id_ok_def dec32_fields)
  show thesis
    by (rule that[of i "rob_setup i (ucast (ii_pc (id_reg s))) False (is_ctrl_opcode (ii_opcode (id_reg s))) r1"])
      (use v a o nb rd in \<open>simp_all add: Issue_stage32_def Let_def ucast8_zero unat_ucast8\<close>)
qed

end
