(* ===== verification/R6_Front.thy ===== *)
theory R6_Front
  imports R6_Stages
begin

unbundle bit_operations_syntax

text \<open>
  The front end of the six-stage 32-bit core: the instructions between program counter
  generation and execution form a chain in which every address is the predicted successor of
  the one before, and the decode, fetch and generation stages move the chain on, keep it while
  issue stalls, and drop it when the execute stage redirects.
\<close>

section \<open>Chains of predicted addresses\<close>

type_synonym elem = "u32 \<times> bool \<times> u32"

fun pred_next :: "elem \<Rightarrow> u32" where
  "pred_next (pc, pt, tg) = (if pt then tg else pc + 4)"

fun path :: "u32 \<Rightarrow> elem list \<Rightarrow> u32 \<Rightarrow> bool" where
  "path a [] n \<longleftrightarrow> n = a"
| "path a (e # es) n \<longleftrightarrow> fst e = a \<and> path (pred_next e) es n"

lemma path_append: "path a es n \<Longrightarrow> fst e = n \<Longrightarrow> path a (es @ [e]) (pred_next e)"
  by (induction es arbitrary: a) auto

definition elem_ok :: "(u64 \<Rightarrow> rv_instr option) \<Rightarrow> elem \<Rightarrow> bool" where
  "elem_ok P e = (case e of (a, pt, tg) \<Rightarrow> pt \<longrightarrow> near 1 tg \<and> (\<forall>ins. P (ucast a) = Some ins \<longrightarrow> is_ctrl ins))"

lemma path_near:
  "path a es n \<Longrightarrow> list_all (elem_ok P) es \<Longrightarrow> near k a \<Longrightarrow> 1 \<le> k \<Longrightarrow> k + length es \<le> 30 \<Longrightarrow>
     near (k + length es) n \<and> list_all (\<lambda>e. near (k + length es) (fst e)) es"
proof (induction es arbitrary: a k)
  case Nil
  then show ?case by simp
next
  case (Cons e es)
  obtain pc pt tg where e: "e = (pc, pt, tg)" by (cases e)
  have "near (Suc k) (pred_next e)"
    using Cons.prems e near_next[of k a] near_mono[of 1 tg "Suc k"] by (auto simp: elem_ok_def)
  then have "near (Suc k + length es) n \<and> list_all (\<lambda>e. near (Suc k + length es) (fst e)) es"
    using Cons.IH[of "pred_next e" "Suc k"] Cons.prems by simp
  then show ?case using Cons.prems near_mono[of k a "Suc k + length es"] by simp
qed

definition el_X :: "Issue_EX32 \<Rightarrow> elem list" where
  "el_X x = (if ie_valid x then [(ie_pc x, ie_predicted_taken x, ie_predicted_target x)] else [])"

definition el_I :: "ID_Issue32 \<Rightarrow> elem list" where
  "el_I d = (if ii_valid d then [(ii_pc d, ii_predicted_taken d, ii_predicted_target d)] else [])"

definition el_F :: "Fetch_ID32 \<Rightarrow> elem list" where
  "el_F f = (if fi_valid f then [(fi_pc f, fi_predicted_taken f, fi_predicted_target f)] else [])"

definition el_G :: "PCGen_Fetch32 \<Rightarrow> elem list" where
  "el_G g = (if pg_valid g then [(pg_pc g, pg_predicted_taken g, pg_predicted_target g)] else [])"

lemmas el_defs = el_X_def el_I_def el_F_def el_G_def

text \<open>The instructions in front of issue.\<close>

definition front_ok :: "(u64 \<Rightarrow> rv_instr option) \<Rightarrow> ID_Issue32 \<Rightarrow> Fetch_ID32 \<Rightarrow> PCGen_Fetch32 \<Rightarrow> bool" where
  "front_ok P d f g \<longleftrightarrow> list_all (elem_ok P) (el_I d @ el_F f @ el_G g) \<and>
     (ii_valid d \<longrightarrow> fi_valid f \<and> (\<forall>ins. P (ucast (ii_pc d)) = Some ins \<longrightarrow> id_ok ins d)) \<and>
     (fi_valid f \<longrightarrow> pg_valid g \<and> (\<forall>ins. P (ucast (fi_pc f)) = Some ins \<longrightarrow> fi_instr f = encode ins))"

section \<open>Fetch\<close>

lemma fetch_near:
  assumes "near 9 a" "\<not> r6_dmi_valid s" "\<not> r6_mem_dmi s"
  shows "fetch_instruction32 a s = Inr (Some (of_bytes (mem_read (pf_mem (r6_pf s)) (dram_offset (ucast a)) 4)), s)"
proof -
  let ?a = "ucast a :: u64" and ?t = "(rd_payload (ucast a) 4)\<lparr>p_address := ucast a - 0x80000000\<rparr>"
  have u: "unat ?a = unat a" using unsigned_less[of a, where ?'a = nat]
    by (simp add: unsigned_ucast_eq take_bit_nat_eq_self)
  have b: "0x80000000 \<le> unat ?a" "unat ?a \<le> 0x8FFFFFF0" using assms(1) u by (simp_all add: near_def)
  have w: "in_window ?a 0x80000000 0x20000000" "?a \<noteq> 0x90000000"
    using b by (auto simp: in_window_def word_le_nat_alt word_less_nat_alt)
  have o: "unat (?a - 0x80000000) = dram_offset ?a"
    using b by (simp add: dram_offset_def unat_sub word_le_nat_alt)
  have m: "memory_transport ?t (pf_mem (r6_pf s)) =
      (with_response TLM_OK_RESPONSE (?t\<lparr>p_data := mem_read (pf_mem (r6_pf s)) (dram_offset ?a) 4\<rparr>), pf_mem (r6_pf s))"
    using memory_transport_in_range[of ?t "pf_mem (r6_pf s)"] o b
    by (simp add: rd_payload_def dram_offset_def Memory_SIZE_def)
  have "bus_transport bus_fuel (rd_payload ?a 4) (r6_pf s) =
      Inr (with_response TLM_OK_RESPONSE ((rd_payload ?a 4)\<lparr>p_data := mem_read (pf_mem (r6_pf s)) (dram_offset ?a) 4\<rparr>), r6_pf s)"
    using w m by (subst bus_transport.simps) (simp add: Let_def forward_memory_def rd_payload_def with_response_def)
  then show ?thesis using assms(2,3) by (simp add: fetch_instruction32_def Let_def)
qed

lemma fetch_program:
  "program_at P mem \<Longrightarrow> P (ucast a) = Some ins \<Longrightarrow> of_bytes (mem_read mem (dram_offset (ucast (a :: u32))) 4) = encode ins"
  by (simp add: program_at_def of_bytes_full)

section \<open>The three stages\<close>

definition front_stages :: "R6 \<Rightarrow> sim_error + R6" where
  "front_stages s = and_then (Fetch_stage32 (ID_stage32 s)) (\<lambda>s. Inr (PCGen_stage32 s))"

text \<open>The stages see the latches as they were at the clock edge.\<close>

definition held :: "R6 \<Rightarrow> bool" where
  "held s \<longleftrightarrow> id_next s = id_reg s \<and> fetch_next s = fetch_reg s \<and> pcgen_next s = pcgen_reg s"

lemma front_flush:
  assumes "r6_flush s"
  shows "front_stages s = Inr (s\<lparr>id_next := (id_next s)\<lparr>ii_valid := False\<rparr>, fetch_next := (fetch_next s)\<lparr>fi_valid := False\<rparr>,
     pcgen_next := (pcgen_next s)\<lparr>pg_valid := False\<rparr>, r6_next_pc := r6_redirect_target s, r6_flush := False\<rparr>)"
  using assms by (simp add: front_stages_def Fetch_stage32_def ID_stage32_def PCGen_stage32_def)

lemma front_stall:
  assumes "\<not> r6_flush s" "r6_stall_issue s" "r6_stall_fetch s" "r6_stall_pcgen s"
  shows "front_stages s = Inr s"
  using assms by (simp add: front_stages_def Fetch_stage32_def ID_stage32_def PCGen_stage32_def)

lemma predict_ok:
  assumes "pred_ok P (r6_btb s) (r6_ras s)" "predict32 s = (pt, tg, ras)"
  shows "elem_ok P (r6_next_pc s, pt, tg)" "pred_ok P (r6_btb s) ras"
proof -
  let ?e = "r6_btb s ! btb_index32 (r6_next_pc s)"
  have e: "bt_valid ?e \<Longrightarrow> near 1 (bt_target ?e)" "\<And>ins. bt_valid ?e \<Longrightarrow> P (ucast (r6_next_pc s)) = Some ins \<Longrightarrow> is_ctrl ins"
    using assms(1) btb_index_less[of "r6_next_pc s"] unfolding pred_ok_def by blast+
  have r: "\<forall>a \<in> set (r6_ras s). near 1 a" using assms(1) by (simp add: pred_ok_def)
  show "elem_ok P (r6_next_pc s, pt, tg)"
    using assms(2) e r by (auto simp: predict32_def elem_ok_def Let_def simp del: One_nat_def split: if_splits)
  have "\<forall>a \<in> set ras. near 1 a"
    using assms(2) r by (auto simp: predict32_def Let_def simp del: One_nat_def split: if_splits dest: in_set_butlastD)
  then show "pred_ok P (r6_btb s) ras" using assms(1) by (rule pred_ok_ras[rotated])
qed

lemma front_move:
  assumes n: "\<not> r6_flush s" "\<not> r6_stall_issue s" "\<not> r6_stall_fetch s" "\<not> r6_stall_pcgen s" and h: "held s"
    and fo: "front_ok P (id_reg s) (fetch_reg s) (pcgen_reg s)" and pr: "pred_ok P (r6_btb s) (r6_ras s)"
    and d: "\<not> r6_dmi_valid s" "\<not> r6_mem_dmi s" and prog: "program_at P (pf_mem (r6_pf s))"
    and nr: "pg_valid (pcgen_reg s) \<Longrightarrow> near 9 (pg_pc (pcgen_reg s))"
  obtains I F G nxt ras where
    "front_stages s = Inr (s\<lparr>id_next := I, fetch_next := F, pcgen_next := G, r6_ras := ras, r6_next_pc := nxt\<rparr>)"
    "front_ok P I F G" "pred_ok P (r6_btb s) ras" "el_I I = el_F (fetch_reg s)" "el_F F = el_G (pcgen_reg s)"
    "\<exists>e. el_G G = [e] \<and> fst e = r6_next_pc s \<and> pred_next e = nxt"
proof -
  let ?f = "fetch_reg s" and ?g = "pcgen_reg s"
  define I where "I = (if fi_valid ?f then decode_latch32 (ii_rd (id_next s)) ?f else (id_next s)\<lparr>ii_valid := False\<rparr>)"
  define F where "F = (if pg_valid ?g then \<lparr>fi_pc = pg_pc ?g,
        fi_instr = of_bytes (mem_read (pf_mem (r6_pf s)) (dram_offset (ucast (pg_pc ?g))) 4), fi_valid = True,
        fi_predicted_taken = pg_predicted_taken ?g, fi_predicted_target = pg_predicted_target ?g\<rparr>
      else (fetch_next s)\<lparr>fi_valid := False\<rparr>)"
  obtain pt tg ras where p: "predict32 s = (pt, tg, ras)" by (cases "predict32 s")
  let ?G = "\<lparr>pg_pc = r6_next_pc s, pg_valid = True, pg_predicted_taken = pt, pg_predicted_target = tg\<rparr>"
  have id: "ID_stage32 s = s\<lparr>id_next := I\<rparr>" using n by (simp add: ID_stage32_def I_def)
  have fe: "Fetch_stage32 (s\<lparr>id_next := I\<rparr>) = Inr (s\<lparr>id_next := I, fetch_next := F\<rparr>)"
    using n d nr fetch_near[of "pg_pc ?g" "s\<lparr>id_next := I\<rparr>"] by (simp add: Fetch_stage32_def F_def)
  have "predict32 (s\<lparr>id_next := I, fetch_next := F\<rparr>) = predict32 s" by (simp add: predict32_def Let_def)
  then have pp: "predict32 (s\<lparr>id_next := I, fetch_next := F\<rparr>) = (pt, tg, ras)" using p by simp
  have run: "front_stages s = Inr (s\<lparr>id_next := I, fetch_next := F, pcgen_next := ?G, r6_ras := ras,
      r6_next_pc := (if pt then tg else r6_next_pc s + 4)\<rparr>)"
    using n pp by (simp add: front_stages_def id fe PCGen_stage32_def Let_def)
  have el: "el_I I = el_F ?f" "el_F F = el_G ?g"
    by (simp_all add: I_def F_def el_defs decode_latch32_def Let_def)
  have "front_ok P I F ?G"
    unfolding front_ok_def
  proof (intro conjI impI allI)
    show "list_all (elem_ok P) (el_I I @ el_F F @ el_G ?G)"
      using fo predict_ok(1)[OF pr p] unfolding el front_ok_def by (simp add: el_G_def)
    show "fi_valid F" if "ii_valid I" using that fo by (auto simp: I_def F_def front_ok_def split: if_splits)
    show "id_ok ins I" if "ii_valid I" "P (ucast (ii_pc I)) = Some ins" for ins
      using that fo decode_latch_id_ok[of ?f ins] by (auto simp: I_def front_ok_def decode_latch32_def Let_def split: if_splits)
    show "fi_instr F = encode ins" if "fi_valid F" "P (ucast (fi_pc F)) = Some ins" for ins
      using that fetch_program[OF prog] by (auto simp: F_def split: if_splits)
  qed simp
  then show thesis
    using that[OF run] el predict_ok(2)[OF pr p] by (simp add: el_G_def)
qed

end
