(* ===== verification/R6_Refine.thy ===== *)
theory R6_Refine
  imports R6_Front
begin

unbundle bit_operations_syntax

text \<open>
  The six-stage 32-bit core refines the reference semantics: a simulation between the clock
  cycles of the pipeline and the instructions of the program.
\<close>

section \<open>The simulation relation\<close>

text \<open>\<^verbatim>\<open>pipe_rel P f pc s\<close>: the instructions of \<^verbatim>\<open>P\<close> executed so far lead to registers \<^verbatim>\<open>f\<close> and address \<^verbatim>\<open>pc\<close>.  The
  register file holds \<^verbatim>\<open>f\<close> but for the result of the instruction about to commit, the
  operands of the one about to execute are those of \<^verbatim>\<open>f\<close>, the registers marked busy are the
  destinations of these two, and the instructions in front of them follow from \<^verbatim>\<open>pc\<close>.\<close>

definition back_ok :: "(u64 \<Rightarrow> rv_instr option) \<Rightarrow> (5 word \<Rightarrow> u32) \<Rightarrow> R6 \<Rightarrow> bool" where
  "back_ok P f s \<longleftrightarrow> (let c = excommit_next s; x = issue_next s in
     rob_pend (r6_rob s) (el_C c @ el_Xi x) \<and> plain_C c \<and> f = pending c (rf (r6_regs s)) \<and>
     busy_for {dst_C c, dst_X x} (r6_busy s) \<and> (dst_C c = 0 \<or> dst_C c \<noteq> dst_X x) \<and>
     (ie_valid x \<longrightarrow> (\<exists>ins. P (ucast (ie_pc x)) = Some ins \<and> ex_ok ins f x)))"

definition pipe_rel :: "(u64 \<Rightarrow> rv_instr option) \<Rightarrow> (5 word \<Rightarrow> u32) \<Rightarrow> u32 \<Rightarrow> R6 \<Rightarrow> bool" where
  "pipe_rel P f pc s \<longleftrightarrow> back_ok P f s \<and> front_ok P (id_next s) (fetch_next s) (pcgen_next s) \<and>
     list_all (elem_ok P) (el_X (issue_next s)) \<and>
     path pc (el_X (issue_next s) @ el_I (id_next s) @ el_F (fetch_next s) @ el_G (pcgen_next s)) (r6_next_pc s) \<and>
     pred_ok P (r6_btb s) (r6_ras s) \<and> \<not> r6_flush s \<and> \<not> r6_dmi_valid s \<and> \<not> r6_mem_dmi s \<and>
     program_at P (pf_mem (r6_pf s)) \<and> \<not> stop_seen32 s"

text \<open>The number of cycles before the next instruction reaches the execute stage.\<close>

definition dist :: "R6 \<Rightarrow> nat" where
  "dist s = (if ie_valid (issue_next s) then 0 else if ii_valid (id_next s) then 1
     else if fi_valid (fetch_next s) then 2 else if pg_valid (pcgen_next s) then 3 else 4)"

text \<open>An instruction may follow one that writes \<^verbatim>\<open>d\<close> unless it overwrites \<^verbatim>\<open>d\<close> without reading it: the
  busy bit of \<^verbatim>\<open>d\<close> would be cleared by the first of the two results.\<close>

definition waw_ok :: "5 word \<Rightarrow> rv_instr \<Rightarrow> bool" where
  "waw_ok d ins \<longleftrightarrow> d = 0 \<or> rv_dest ins \<noteq> d \<or> d = fst (rv_sources ins) \<or> d = snd (rv_sources ins)"

section \<open>Issue and the front end\<close>

text \<open>The state between execution and issue: \<^verbatim>\<open>f\<close> is in the register file, the executed instruction, if
  any, is in the commit latch.\<close>

definition executed :: "(u64 \<Rightarrow> rv_instr option) \<Rightarrow> (5 word \<Rightarrow> u32) \<Rightarrow> u32 \<Rightarrow> R6 \<Rightarrow> bool" where
  "executed P f pc s \<longleftrightarrow> (let c = excommit_next s in
     rob_pend (r6_rob s) (el_C c) \<and> plain_C c \<and> f = pending c (rf (r6_regs s)) \<and> busy_for {dst_C c} (r6_busy s)) \<and>
     held s \<and> front_ok P (id_reg s) (fetch_reg s) (pcgen_reg s) \<and> pred_ok P (r6_btb s) (r6_ras s) \<and>
     \<not> r6_dmi_valid s \<and> \<not> r6_mem_dmi s \<and> program_at P (pf_mem (r6_pf s)) \<and> \<not> stop_seen32 s \<and>
     (if r6_flush s then r6_redirect_target s = pc
      else path pc (el_I (id_reg s) @ el_F (fetch_reg s) @ el_G (pcgen_reg s)) (r6_next_pc s)) \<and> near 0 pc"

lemma near_fetch:
  assumes "executed P f pc s" "\<not> r6_flush s" "pg_valid (pcgen_reg s)"
  shows "near 9 (pg_pc (pcgen_reg s))"
proof -
  let ?es = "el_I (id_reg s) @ el_F (fetch_reg s) @ el_G (pcgen_reg s)"
  have p: "path pc ?es (r6_next_pc s)" "list_all (elem_ok P) ?es" "near 1 pc"
    using assms(1,2) near_mono[of 0 pc 1] by (simp_all add: executed_def front_ok_def)
  have l: "length ?es \<le> 3" by (simp add: el_defs)
  have "near (1 + length ?es) (pg_pc (pcgen_reg s))"
    using path_near[OF p] l assms(3) by (simp add: el_G_def)
  then show ?thesis by (rule near_mono) (use l in simp)
qed

definition steps_to :: "(u64 \<Rightarrow> rv_instr option) \<Rightarrow> (5 word \<Rightarrow> u32) \<Rightarrow> u32 \<Rightarrow> R6 \<Rightarrow> nat \<Rightarrow> bool" where
  "steps_to P f pc s d \<longleftrightarrow> (\<exists>s'. front_stages (Issue_stage32 s) = Inr s' \<and> pipe_rel P f pc s' \<and> r6_regs s' = r6_regs s \<and>
     dist s' \<le> d \<and> (r6_flush s \<or> pg_valid (pcgen_next s')))"

lemma steps_toI:
  "front_stages (Issue_stage32 s) = Inr s' \<Longrightarrow> pipe_rel P f pc s' \<Longrightarrow> r6_regs s' = r6_regs s \<Longrightarrow> dist s' \<le> d \<Longrightarrow>
     r6_flush s \<or> pg_valid (pcgen_next s') \<Longrightarrow> steps_to P f pc s d"
  by (auto simp: steps_to_def)

lemma executed_flush:
  assumes e: "executed P f pc s" and fl: "r6_flush s"
  shows "steps_to P f pc s 4"
proof -
  let ?s = "Issue_stage32 s"
  have i: "?s = s\<lparr>r6_stall_pcgen := False, r6_stall_fetch := False, r6_stall_issue := False,
      issue_next := (issue_next s)\<lparr>ie_valid := False\<rparr>\<rparr>"
    using issue_off fl by simp
  have r: "r6_flush ?s" using fl by (simp add: i)
  show ?thesis
    by (rule steps_toI[OF front_flush[OF r]])
      (use e fl in \<open>auto simp: i pipe_rel_def executed_def back_ok_def front_ok_def Let_def el_defs el_Xi_def dst_X_def dist_def
        busy_for_def stop_seen32_def\<close>)
qed

lemma executed_stall:
  assumes e: "executed P f pc s" and fl: "\<not> r6_flush s" and i: "ii_valid (id_reg s)" "id_ok ins (id_reg s)"
    and b: "dst_C (excommit_next s) \<noteq> 0"
      "dst_C (excommit_next s) = fst (rv_sources ins) \<or> dst_C (excommit_next s) = snd (rv_sources ins)"
  shows "steps_to P f pc s 4"
proof -
  let ?s = "Issue_stage32 s"
  have bz: "busy_for {dst_C (excommit_next s)} (r6_busy s)" using e by (simp add: executed_def Let_def)
  then have bz': "busy_for {dst_C (excommit_next s), 0} (r6_busy s)" by (auto simp: busy_for_def)
  have st: "?s = issue_stall32 s" by (rule issue_stalls[OF fl i bz b])
  have r: "front_stages ?s = Inr ?s" by (rule front_stall) (use fl in \<open>simp_all add: st issue_stall32_def\<close>)
  have v: "pg_valid (pcgen_next s)" using e i(1) unfolding executed_def front_ok_def held_def by metis
  have n: "front_ok P (id_next s) (fetch_next s) (pcgen_next s)"
    "path pc (el_I (id_next s) @ el_F (fetch_next s) @ el_G (pcgen_next s)) (r6_next_pc s)"
    using e fl unfolding executed_def held_def by metis+
  show ?thesis
    by (rule steps_toI[OF r])
      (use e fl v b(1) bz' n in \<open>simp_all add: st issue_stall32_def pipe_rel_def executed_def back_ok_def held_def Let_def el_X_def
        el_Xi_def dst_X_def dist_def stop_seen32_def\<close>)
qed

text \<open>The cases in which the front end moves.\<close>

definition front_dist :: "R6 \<Rightarrow> nat" where
  "front_dist s = (if ii_valid (id_reg s) then 0 else if fi_valid (fetch_reg s) then 1 else if pg_valid (pcgen_reg s) then 2 else 3)"

lemma executed_moves:
  assumes e: "executed P f pc s" and fl: "\<not> r6_flush s"
    and t: "Issue_stage32 s = s\<lparr>r6_stall_pcgen := False, r6_stall_fetch := False, r6_stall_issue := False, r6_rob := rob1,
       issue_next := x, r6_busy := busy1\<rparr>"
    and x: "el_X x = el_I (id_reg s)" "rob_pend rob1 (el_C (excommit_next s) @ el_Xi x)"
      "busy_for {dst_C (excommit_next s), dst_X x} busy1" "dst_C (excommit_next s) = 0 \<or> dst_C (excommit_next s) \<noteq> dst_X x"
      "ie_valid x \<longrightarrow> (\<exists>ins. P (ucast (ie_pc x)) = Some ins \<and> ex_ok ins f x)"
  shows "steps_to P f pc s (front_dist s)"
proof -
  let ?t = "Issue_stage32 s"
  have f: "id_reg ?t = id_reg s" "fetch_reg ?t = fetch_reg s" "pcgen_reg ?t = pcgen_reg s" "r6_next_pc ?t = r6_next_pc s"
    "r6_btb ?t = r6_btb s"
    by (simp_all add: t)
  obtain I F G nxt ras where m:
    "front_stages ?t = Inr (?t\<lparr>id_next := I, fetch_next := F, pcgen_next := G, r6_ras := ras, r6_next_pc := nxt\<rparr>)"
    "front_ok P I F G" "pred_ok P (r6_btb s) ras" "el_I I = el_F (fetch_reg s)" "el_F F = el_G (pcgen_reg s)"
    "\<exists>e. el_G G = [e] \<and> fst e = r6_next_pc s \<and> pred_next e = nxt"
    by (rule front_move[of ?t P, unfolded f])
      (use e fl near_fetch[OF e fl] in \<open>auto simp: t executed_def held_def\<close>)
  obtain g where g: "el_G G = [g]" "fst g = r6_next_pc s" "pred_next g = nxt" using m(6) by blast
  have old: "path pc (el_I (id_reg s) @ el_F (fetch_reg s) @ el_G (pcgen_reg s)) (r6_next_pc s)" "list_all (elem_ok P) (el_I (id_reg s))"
    using e fl by (simp_all add: executed_def front_ok_def)
  have pa: "path pc (el_X x @ el_I I @ el_F F @ el_G G) nxt"
    using path_append[OF old(1) g(2)] g by (simp add: x(1) m(4,5))
  have v: "ie_valid x = ii_valid (id_reg s)" "ii_valid I = fi_valid (fetch_reg s)" "fi_valid F = pg_valid (pcgen_reg s)" "pg_valid G"
    using x(1) m(4,5) g(1) by (auto simp: el_defs split: if_splits)
  have c: "f = pending (excommit_next s) (rf (r6_regs s))" "plain_C (excommit_next s)" "\<not> r6_dmi_valid s" "\<not> r6_mem_dmi s"
    "program_at P (pf_mem (r6_pf s))" "\<not> stop_seen32 s"
    using e by (simp_all add: executed_def Let_def)
  let ?u = "?t\<lparr>id_next := I, fetch_next := F, pcgen_next := G, r6_ras := ras, r6_next_pc := nxt\<rparr>"
  have "back_ok P f ?u"
    unfolding back_ok_def Let_def using x(2-5) c(1,2) by (simp add: t)
  then have "pipe_rel P f pc ?u"
    unfolding pipe_rel_def using m(2,3) pa old(2) c(3-6) fl x(1) by (simp add: t stop_seen32_def)
  then show ?thesis
    by (rule steps_toI[OF m(1)]) (use v in \<open>simp_all add: t dist_def front_dist_def\<close>)
qed

lemma executed_bubble:
  assumes e: "executed P f pc s" and fl: "\<not> r6_flush s" and i: "\<not> ii_valid (id_reg s)"
  shows "steps_to P f pc s (front_dist s)"
proof -
  let ?x = "(issue_next s)\<lparr>ie_valid := False\<rparr>"
  have t: "Issue_stage32 s = s\<lparr>r6_stall_pcgen := False, r6_stall_fetch := False, r6_stall_issue := False, r6_rob := r6_rob s,
      issue_next := ?x, r6_busy := r6_busy s\<rparr>"
    using issue_off i by simp
  have x: "el_X ?x = el_I (id_reg s)" "el_Xi ?x = []" "dst_X ?x = 0" "\<not> ie_valid ?x"
    using i by (simp_all add: el_X_def el_I_def el_Xi_def dst_X_def)
  have b: "rob_pend (r6_rob s) (el_C (excommit_next s))" "busy_for {dst_C (excommit_next s), 0} (r6_busy s)"
    using e by (auto simp: executed_def Let_def busy_for_def)
  show ?thesis by (rule executed_moves[OF e fl t x(1)]) (use b x in auto)
qed

lemma executed_issue:
  assumes e: "executed P f pc s" and fl: "\<not> r6_flush s" and i: "ii_valid (id_reg s)"
    and p: "P (ucast (ii_pc (id_reg s))) = Some ins"
    and b: "dst_C (excommit_next s) = 0 \<or> dst_C (excommit_next s) \<noteq> fst (rv_sources ins) \<and>
        dst_C (excommit_next s) \<noteq> snd (rv_sources ins) \<and> dst_C (excommit_next s) \<noteq> rv_dest ins"
  shows "steps_to P f pc s (front_dist s)"
proof -
  let ?c = "excommit_next s"
  have io: "id_ok ins (id_reg s)" using e i p by (simp add: executed_def front_ok_def)
  have bz: "busy_for {dst_C ?c} (r6_busy s)" "rob_pend (r6_rob s) (el_C ?c)" "f = pending ?c (rf (r6_regs s))"
    using e by (simp_all add: executed_def Let_def)
  have l: "length (el_C ?c) < 32" by (simp add: el_C_def)
  have b': "dst_C ?c = 0 \<or> dst_C ?c \<noteq> fst (rv_sources ins) \<and> dst_C ?c \<noteq> snd (rv_sources ins)" using b by blast
  obtain k rob1 where t:
    "Issue_stage32 s = s\<lparr>r6_stall_pcgen := False, r6_stall_fetch := False, r6_stall_issue := False, r6_rob := rob1,
       issue_next := issue_latch32 k (r6_regs s) (id_reg s),
       r6_busy := (if rv_dest ins = 0 then r6_busy s else (r6_busy s)[unat (rv_dest ins) := True])\<rparr>"
    "rob_pend rob1 (el_C ?c @ [k])"
    by (rule issue_go[OF fl i io bz(1) b' bz(2) l])
  let ?x = "issue_latch32 k (r6_regs s) (id_reg s)"
  have src: "f (fst (rv_sources ins)) = rf (r6_regs s) (fst (rv_sources ins))"
    "f (snd (rv_sources ins)) = rf (r6_regs s) (snd (rv_sources ins))"
    using b' by (auto simp: bz(3) pending_def dst_C_def wr_def)
  have xok: "ex_ok ins f ?x"
    using io by (simp add: ex_ok_def id_ok_def issue_latch32_def dec32_fields getValue_rf src)
  have xf: "el_X ?x = el_I (id_reg s)" "el_Xi ?x = [k]" "dst_X ?x = rv_dest ins" "ie_pc ?x = ii_pc (id_reg s)"
    using i io by (simp_all add: el_X_def el_I_def el_Xi_def dst_X_def issue_latch32_def id_ok_def dec32_fields ucast_rd)
  show ?thesis
    by (rule executed_moves[OF e fl t(1) xf(1)])
      (use b p t(2) xf xok busy_set[OF bz(1), of "rv_dest ins"] in auto)
qed

text \<open>Together: issue and the front end after an instruction that writes \<^verbatim>\<open>dst_C\<close>.\<close>

lemma executed_run:
  assumes e: "executed P f pc s" and p: "P (ucast pc) = Some ins" and w: "waw_ok (dst_C (excommit_next s)) ins"
  shows "steps_to P f pc s 4" "dst_C (excommit_next s) = 0 \<Longrightarrow> \<not> r6_flush s \<Longrightarrow> steps_to P f pc s (front_dist s)"
proof -
  have pc: "ii_pc (id_reg s) = pc" if "ii_valid (id_reg s)" "\<not> r6_flush s"
    using e that by (simp add: executed_def el_I_def)
  have m: "steps_to P f pc s (front_dist s) \<Longrightarrow> steps_to P f pc s 4"
    unfolding steps_to_def front_dist_def by (auto split: if_splits)
  show "steps_to P f pc s (front_dist s)" if "dst_C (excommit_next s) = 0" "\<not> r6_flush s"
    using that executed_bubble[OF e that(2)] executed_issue[OF e that(2)] pc p by blast
  show "steps_to P f pc s 4"
  proof (cases "r6_flush s \<or> \<not> ii_valid (id_reg s)")
    case True
    then show ?thesis using executed_flush[OF e] executed_bubble[OF e] m by blast
  next
    case False
    then have "id_ok ins (id_reg s)" using e p pc by (simp add: executed_def front_ok_def)
    then show ?thesis
      using False w p pc executed_stall[OF e] executed_issue[OF e] m unfolding waw_ok_def by metis
  qed
qed

section \<open>Commit and execute\<close>

text \<open>What the other processes may do between two clock edges: anything but changing main memory or
  stopping the simulation.\<close>

definition benign :: "(Platform \<Rightarrow> Platform) \<Rightarrow> bool" where
  "benign env \<longleftrightarrow> (\<forall>pf. pf_mem (env pf) = pf_mem pf \<and> pf_stopped (env pf) = pf_stopped pf)"

definition at_edge :: "(Platform \<Rightarrow> Platform) \<Rightarrow> R6 \<Rightarrow> R6" where
  "at_edge env s = transfer_latches32 (s\<lparr>r6_pf := env (r6_pf s)\<rparr>)"

text \<open>The state after commit: the front end is unchanged and the registers are those of \<^verbatim>\<open>f\<close>.\<close>

definition committed :: "(u64 \<Rightarrow> rv_instr option) \<Rightarrow> (5 word \<Rightarrow> u32) \<Rightarrow> u32 \<Rightarrow> R6 \<Rightarrow> bool" where
  "committed P f pc s \<longleftrightarrow>
     rob_pend (r6_rob s) (el_Xi (issue_reg s)) \<and> f = rf (r6_regs s) \<and> busy_for {dst_X (issue_reg s)} (r6_busy s) \<and>
     (ie_valid (issue_reg s) \<longrightarrow> (\<exists>ins. P (ucast (ie_pc (issue_reg s))) = Some ins \<and> ex_ok ins f (issue_reg s))) \<and>
     held s \<and> front_ok P (id_reg s) (fetch_reg s) (pcgen_reg s) \<and> list_all (elem_ok P) (el_X (issue_reg s)) \<and>
     path pc (el_X (issue_reg s) @ el_I (id_reg s) @ el_F (fetch_reg s) @ el_G (pcgen_reg s)) (r6_next_pc s) \<and>
     pred_ok P (r6_btb s) (r6_ras s) \<and> \<not> r6_flush s \<and>
     \<not> r6_dmi_valid s \<and> \<not> r6_mem_dmi s \<and> program_at P (pf_mem (r6_pf s)) \<and> \<not> stop_seen32 s"

lemma commit_committed:
  assumes r: "pipe_rel P f pc s" and e: "benign env"
  obtains s1 where "Commit_stage32 (at_edge env s) = Inr s1" "committed P f pc s1" "issue_reg s1 = issue_next s"
    "id_reg s1 = id_next s" "fetch_reg s1 = fetch_next s" "pcgen_reg s1 = pcgen_next s"
proof -
  let ?s = "at_edge env s"
  have q: "rob_pend (r6_rob ?s) (el_C (excommit_reg ?s) @ el_Xi (issue_next s))" "plain_C (excommit_reg ?s)"
    "busy_for {dst_C (excommit_reg ?s), dst_X (issue_next s)} (r6_busy ?s)"
    "dst_C (excommit_reg ?s) = 0 \<or> dst_C (excommit_reg ?s) \<noteq> dst_X (issue_next s)"
    "f = pending (excommit_reg ?s) (rf (r6_regs ?s))"
    using r by (simp_all add: pipe_rel_def back_ok_def Let_def at_edge_def transfer_latches32_def)
  have xo: "ie_valid (issue_next s) \<longrightarrow> (\<exists>ins. P (ucast (ie_pc (issue_next s))) = Some ins \<and> ex_ok ins f (issue_next s))"
    using r unfolding pipe_rel_def back_ok_def Let_def by blast
  obtain rob1 r1 busy1 where c: "Commit_stage32 ?s = Inr (?s\<lparr>r6_regs := r1, r6_rob := rob1, r6_busy := busy1\<rparr>)"
    "rob_pend rob1 (el_Xi (issue_next s))" "rf r1 = pending (excommit_reg ?s) (rf (r6_regs ?s))" "busy_for {dst_X (issue_next s)} busy1"
    by (rule commit_stage32_run[OF q(1-4)])
  have "f = rf r1" using q(5) c(3) by simp
  then have "committed P f pc (?s\<lparr>r6_regs := r1, r6_rob := rob1, r6_busy := busy1\<rparr>)"
    using r e c(2,4) xo
    by (simp add: committed_def pipe_rel_def at_edge_def transfer_latches32_def held_def benign_def stop_seen32_def)
  then show thesis using that[OF c(1)] by (simp add: at_edge_def transfer_latches32_def)
qed

lemma execute_bubble:
  assumes c: "committed P f pc s" and x: "\<not> ie_valid (issue_reg s)" and n: "near 0 pc"
  obtains s2 where "EX_stage32 s = Inr s2" "executed P f pc s2" "rf (r6_regs s2) = f" "dst_C (excommit_next s2) = 0"
    "\<not> r6_flush s2" "front_dist s2 = front_dist s"
proof -
  let ?c = "(excommit_next s)\<lparr>ec_valid := False\<rparr>"
  have d: "el_Xi (issue_reg s) = []" "dst_X (issue_reg s) = 0" "el_X (issue_reg s) = []" "el_C ?c = []" "dst_C ?c = 0"
    "plain_C ?c" "\<And>g. pending ?c g = g"
    using x by (simp_all add: el_Xi_def dst_X_def el_X_def el_C_def dst_C_def plain_C_def pending_def)
  show thesis
    by (rule that[OF ex_stage32_idle[OF x]])
      (use c d n in \<open>simp_all add: executed_def committed_def held_def stop_seen32_def front_dist_def\<close>)
qed

lemma predicted_right:
  assumes "elem_ok P (ie_pc x, ie_predicted_taken x, ie_predicted_target x)" "P (ucast (ie_pc x)) = Some ins" "ex_ok ins f x"
    "\<not> (is_ctrl ins \<and> mispredict32 x)"
  shows "pred_next (ie_pc x, ie_predicted_taken x, ie_predicted_target x) = snd (rv_step ins (f, ie_pc x))"
  using assms ex32_spec[OF assms(3) refl]
  by (cases "is_ctrl ins") (auto simp: elem_ok_def mispredict32_def branch_next32_def)

lemma execute_instr:
  assumes c: "committed P f pc s" and x: "ie_valid (issue_reg s)" and code: "code_ok P" and p: "P (ucast pc) = Some ins"
    and n: "near 0 (snd (rv_step ins (f, pc)))"
  obtains s2 where "EX_stage32 s = Inr s2" "executed P (fst (rv_step ins (f, pc))) (snd (rv_step ins (f, pc))) s2"
    "rf (r6_regs s2) = f" "dst_C (excommit_next s2) = rv_dest ins"
proof -
  let ?x = "issue_reg s"
  have pc: "ie_pc ?x = pc" and el: "elem_ok P (pc, ie_predicted_taken ?x, ie_predicted_target ?x)"
    and pa: "path (pred_next (pc, ie_predicted_taken ?x, ie_predicted_target ?x))
        (el_I (id_reg s) @ el_F (fetch_reg s) @ el_G (pcgen_reg s)) (r6_next_pc s)"
    using c x by (auto simp: committed_def el_X_def)
  have ok: "ex_ok ins f ?x" using c x p pc by (auto simp: committed_def)
  have st: "rv_step ins (f, pc) = (wr (rv_dest ins) (ex_result32 ?x) f, if is_ctrl ins then branch_next32 ?x else pc + 4)"
    by (rule ex32_spec[OF ok pc])
  have pr: "pred_ok P (r6_btb s) (r6_ras s)" "\<not> r6_flush s" using c by (simp_all add: committed_def)
  obtain btb bht ras rt fl where r:
    "resolve32 ?x s = s\<lparr>r6_btb := btb, r6_bht := bht, r6_ras := ras, r6_redirect_target := rt, r6_flush := fl\<rparr>"
    "pred_ok P btb ras" "fl \<longleftrightarrow> is_ctrl ins \<and> mispredict32 ?x" "fl \<longrightarrow> rt = branch_next32 ?x"
    by (rule resolve32_run[OF code, of ?x ins f s]) (use p pc ok pr n in simp_all)
  let ?c = "commit_latch32 (ex_result32 ?x) ?x (excommit_next s)"
  note cl = commit_latch_run[OF ok, of "excommit_next s"]
  let ?s = "s\<lparr>r6_btb := btb, r6_bht := bht, r6_ras := ras, r6_redirect_target := rt, r6_flush := fl, excommit_next := ?c\<rparr>"
  have run: "EX_stage32 s = Inr ?s" using ex_stage32_plain[OF x ok] r(1) by simp
  have xf: "el_Xi ?x = el_C ?c" "dst_X ?x = dst_C ?c"
    using x cl ok by (simp_all add: el_Xi_def el_C_def dst_X_def ex_ok_def ucast_rd)
  obtain f' pc' where st': "rv_step ins (f, pc) = (f', pc')" by (cases "rv_step ins (f, pc)")
  have nx: "if fl then rt = pc' else path pc' (el_I (id_reg s) @ el_F (fetch_reg s) @ el_G (pcgen_reg s)) (r6_next_pc s)"
    using r(3,4) pa predicted_right[of P ?x ins f] el p ok pc st st' by auto
  have f': "f' = pending ?c (rf (r6_regs s))" "near 0 pc'"
    using st st' cl(5) c n by (simp_all add: committed_def)
  have "executed P f' pc' ?s"
    using c nx f' r(2) cl(1) xf by (simp add: executed_def committed_def held_def stop_seen32_def)
  then show thesis using that[OF run] c cl(4) st' by (simp add: committed_def)
qed

section \<open>One cycle\<close>

lemma cycle_from_stages:
  assumes "Commit_stage32 (at_edge env s) = Inr s1" "EX_stage32 s1 = Inr s2" "steps_to P f pc s2 d"
  obtains s' where "cycle_step32 env s = Inr s'" "pipe_rel P f pc s'" "r6_regs s' = r6_regs s2" "dist s' \<le> d"
proof -
  obtain s3 where s3: "front_stages (Issue_stage32 s2) = Inr s3" "pipe_rel P f pc s3" "r6_regs s3 = r6_regs s2" "dist s3 \<le> d"
      "r6_flush s2 \<or> pg_valid (pcgen_next s3)"
    using assms(3) by (auto simp: steps_to_def)
  let ?s = "s3\<lparr>r6_cycles := r6_cycles s3 + 1\<rparr>"
  have "cycle_step32 env s = Inr (end_cycle32 (r6_flush s2) s3)"
    using assms(1,2) s3(1) unfolding at_edge_def
    by (auto simp: cycle_step32_def run_stages32_def front_stages_def and_then_Inr Let_def)
  also have "end_cycle32 (r6_flush s2) s3 = ?s" using s3(5) by (auto simp: end_cycle32_def Let_def)
  finally have c: "cycle_step32 env s = Inr ?s" .
  have "pipe_rel P f pc ?s" using s3(2) by (simp add: pipe_rel_def back_ok_def stop_seen32_def)
  moreover have "dist ?s = dist s3" by (simp add: dist_def cong: if_cong)
  ultimately show thesis using that[OF c] s3(3,4) by simp
qed

lemma cycle_instr:
  assumes r: "pipe_rel P f pc s" and e: "benign env" and code: "code_ok P" and x: "dist s = 0"
    and p: "P (ucast pc) = Some ins" "rv_step ins (f, pc) = (f', pc')" "P (ucast pc') = Some ins'" "waw_ok (rv_dest ins) ins'"
  obtains s' where "cycle_step32 env s = Inr s'" "pipe_rel P f' pc' s'" "rf (r6_regs s') = f" "dist s' \<le> 4"
proof -
  obtain s1 where s1: "Commit_stage32 (at_edge env s) = Inr s1" "committed P f pc s1" "issue_reg s1 = issue_next s"
    by (rule commit_committed[OF r e])
  have v: "ie_valid (issue_reg s1)" using x s1(3) by (auto simp: dist_def split: if_splits)
  have n: "near 0 (snd (rv_step ins (f, pc)))" using code p by (simp add: code_ok_def)
  obtain s2 where s2: "EX_stage32 s1 = Inr s2" "executed P f' pc' s2" "rf (r6_regs s2) = f" "dst_C (excommit_next s2) = rv_dest ins"
    using execute_instr[OF s1(2) v code p(1) n] p(2) by auto
  show thesis
    by (rule cycle_from_stages[OF s1(1) s2(1) executed_run(1)[OF s2(2) p(3)]]) (use p(4) s2 that in auto)
qed

lemma cycle_bubble:
  assumes r: "pipe_rel P f pc s" and e: "benign env" and code: "code_ok P" and x: "dist s = Suc d"
    and p: "P (ucast pc) = Some ins"
  obtains s' where "cycle_step32 env s = Inr s'" "pipe_rel P f pc s'" "rf (r6_regs s') = f" "dist s' \<le> d"
proof -
  obtain s1 where s1: "Commit_stage32 (at_edge env s) = Inr s1" "committed P f pc s1" "issue_reg s1 = issue_next s"
    "id_reg s1 = id_next s" "fetch_reg s1 = fetch_next s" "pcgen_reg s1 = pcgen_next s"
    by (rule commit_committed[OF r e])
  have v: "\<not> ie_valid (issue_reg s1)" "front_dist s1 = d" using x s1(3-6) by (auto simp: dist_def front_dist_def split: if_splits)
  have n: "near 0 pc" using code p by (simp add: code_ok_def)
  obtain s2 where s2: "EX_stage32 s1 = Inr s2" "executed P f pc s2" "rf (r6_regs s2) = f" "dst_C (excommit_next s2) = 0"
    "\<not> r6_flush s2" "front_dist s2 = d"
    using execute_bubble[OF s1(2) v(1) n] v(2) by metis
  have w: "waw_ok (dst_C (excommit_next s2)) ins" using s2(4) by (simp add: waw_ok_def)
  show thesis
    by (rule cycle_from_stages[OF s1(1) s2(1) executed_run(2)[OF s2(2) p w s2(4,5)]]) (use s2 that in auto)
qed

section \<open>Programs\<close>

text \<open>The programs the pipeline runs correctly: along the run, no instruction overwrites the destination
  of its predecessor without reading it.\<close>

fun hazard_free :: "(u64 \<Rightarrow> rv_instr option) \<Rightarrow> nat \<Rightarrow> 32 rv_state \<Rightarrow> bool" where
  "hazard_free P 0 s \<longleftrightarrow> P (ucast (snd s)) \<noteq> None"
| "hazard_free P (Suc n) s \<longleftrightarrow> (case P (ucast (snd s)) of None \<Rightarrow> False | Some ins \<Rightarrow>
     (case P (ucast (snd (rv_step ins s))) of None \<Rightarrow> False | Some ins' \<Rightarrow> waw_ok (rv_dest ins) ins') \<and>
     hazard_free P n (rv_step ins s))"

lemma hazard_free_next:
  assumes "hazard_free P (Suc n) (f, pc)"
  obtains ins f' pc' ins' where "P (ucast pc) = Some ins" "rv_step ins (f, pc) = (f', pc')" "P (ucast pc') = Some ins'"
    "waw_ok (rv_dest ins) ins'" "hazard_free P n (f', pc')"
proof -
  obtain ins where i: "P (ucast pc) = Some ins" using assms by (auto split: option.splits)
  obtain f' pc' where st: "rv_step ins (f, pc) = (f', pc')" by (cases "rv_step ins (f, pc)")
  show thesis using that[OF i st] assms i st by (auto split: option.splits)
qed

lemma cycle_thread32_append:
  "cycle_thread32 (xs @ ys) s = and_then (cycle_thread32 xs s) (cycle_thread32 ys)"
proof (induction xs arbitrary: s)
  case Nil
  then show ?case by simp
next
  case (Cons env xs)
  have stop: "stop_seen32 s \<Longrightarrow> cycle_thread32 ys s = Inr s" by (cases ys) simp_all
  show ?case
    using Cons.IH stop by (cases "cycle_step32 env s") simp_all
qed

lemma upt_split: "a \<le> b \<Longrightarrow> b \<le> c \<Longrightarrow> [a..<c] = [a..<b] @ [b..<c]"
  using upt_add_eq_append[of a b "c - b"] by simp

lemma thread_join:
  assumes "cycle_thread32 (map e [a..<b]) s = Inr s1" "cycle_thread32 (map e [b..<c]) s1 = Inr s2" "a \<le> b" "b \<le> c"
  shows "cycle_thread32 (map e [a..<c]) s = Inr s2"
  using assms by (simp add: upt_split[of a b c] cycle_thread32_append)

lemma thread_one:
  assumes "pipe_rel P f pc s" "cycle_step32 (e a) s = Inr s'"
  shows "cycle_thread32 (map e [a..<Suc a]) s = Inr s'"
  using assms by (simp add: pipe_rel_def)

lemma pipeline_instr:
  assumes e: "\<And>i. benign (e i)" and code: "code_ok P" and r: "pipe_rel P f pc s"
    and p: "P (ucast pc) = Some ins" "rv_step ins (f, pc) = (f', pc')" "P (ucast pc') = Some ins'" "waw_ok (rv_dest ins) ins'"
  shows "\<exists>b s'. a \<le> b \<and> b \<le> a + Suc (dist s) \<and> cycle_thread32 (map e [a..<b]) s = Inr s' \<and> pipe_rel P f' pc' s' \<and> dist s' \<le> 4"
  using r
proof (induction "dist s" arbitrary: s a rule: less_induct)
  case less
  show ?case
  proof (cases "dist s")
    case 0
    obtain s' where s': "cycle_step32 (e a) s = Inr s'" "pipe_rel P f' pc' s'" "dist s' \<le> 4"
      using cycle_instr[OF less.prems e code 0 p] by metis
    then show ?thesis using thread_one[of P f pc s e a s'] less.prems 0 by (intro exI[of _ "Suc a"] exI[of _ s']) simp
  next
    case (Suc d)
    obtain s1 where s1: "cycle_step32 (e a) s = Inr s1" "pipe_rel P f pc s1" "dist s1 \<le> d"
      using cycle_bubble[OF less.prems e code Suc p(1)] by metis
    obtain b s' where b: "Suc a \<le> b" "b \<le> Suc a + Suc (dist s1)" "cycle_thread32 (map e [Suc a..<b]) s1 = Inr s'"
        "pipe_rel P f' pc' s'" "dist s' \<le> 4"
      using less.hyps[of s1 "Suc a"] s1 Suc by auto
    have "cycle_thread32 (map e [a..<b]) s = Inr s'"
      by (rule thread_join[OF thread_one[where e = e and a = a, OF less.prems s1(1)] b(3)]) (use b(1) in simp_all)
    then show ?thesis using b s1(3) Suc by (intro exI[of _ b] exI[of _ s']) simp
  qed
qed

lemma pipeline_run:
  assumes e: "\<And>i. benign (e i)" and code: "code_ok P"
  shows "pipe_rel P f pc s \<Longrightarrow> dist s \<le> 4 \<Longrightarrow> hazard_free P (Suc n) (f, pc) \<Longrightarrow> rv_run P n (f, pc) = Some (fn, pcn) \<Longrightarrow>
     \<exists>b s'. a \<le> b \<and> b \<le> a + (5 * n + 1) \<and> cycle_thread32 (map e [a..<b]) s = Inr s' \<and> rf (r6_regs s') = fn"
proof (induction n arbitrary: f pc s a)
  case 0
  obtain ins f' pc' ins' where p: "P (ucast pc) = Some ins" "rv_step ins (f, pc) = (f', pc')" "P (ucast pc') = Some ins'"
    "waw_ok (rv_dest ins) ins'"
    by (rule hazard_free_next[OF 0(3)])
  have "\<exists>s'. cycle_step32 (e a) s = Inr s' \<and> rf (r6_regs s') = f"
  proof (cases "dist s")
    case z: 0
    show ?thesis by (rule cycle_instr[OF 0(1) e code z p]) blast
  next
    case (Suc d)
    show ?thesis by (rule cycle_bubble[OF 0(1) e code Suc p(1)]) blast
  qed
  then obtain s' where "cycle_step32 (e a) s = Inr s'" "rf (r6_regs s') = f" by blast
  then show ?case using thread_one[where e = e and a = a, OF 0(1)] 0(4) by (intro exI[of _ "Suc a"] exI[of _ s']) simp
next
  case (Suc n)
  obtain ins f' pc' ins' where p: "P (ucast pc) = Some ins" "rv_step ins (f, pc) = (f', pc')" "P (ucast pc') = Some ins'"
    "waw_ok (rv_dest ins) ins'" and h: "hazard_free P (Suc n) (f', pc')"
    by (rule hazard_free_next[OF Suc.prems(3)])
  obtain b1 s1 where b1: "a \<le> b1" "b1 \<le> a + Suc (dist s)" "cycle_thread32 (map e [a..<b1]) s = Inr s1" "pipe_rel P f' pc' s1"
      "dist s1 \<le> 4"
    using pipeline_instr[where e = e and a = a, OF e code Suc.prems(1) p] by blast
  have "rv_run P n (f', pc') = Some (fn, pcn)" using Suc.prems(4) p by simp
  then obtain b s' where b: "b1 \<le> b" "b \<le> b1 + (5 * n + 1)" "cycle_thread32 (map e [b1..<b]) s1 = Inr s'" "rf (r6_regs s') = fn"
    using Suc.IH[OF b1(4,5) h] by blast
  have "cycle_thread32 (map e [a..<b]) s = Inr s'" by (rule thread_join[OF b1(3) b(3) b1(1) b(1)])
  then show ?case using b b1 Suc.prems(2) by (intro exI[of _ b] exI[of _ s']) simp
qed

lemma init_rel:
  fixes bht0
  assumes "code_ok P" "program_at P (pf_mem pf)" "pf_stopped pf = []" "P (ucast PC) \<noteq> None"
  defines "s \<equiv> R6_init PC bht0 False pf"
  shows "pipe_rel P (rf (r6_regs s)) PC s" "dist s = 4"
proof -
  have b: "busy_for {0} (replicate 32 False)" using unat5_less by (auto simp: busy_for_def)
  note rp = rob_pend_init
  have pr: "pred_ok P (replicate 128 \<lparr>bt_target = 0, bt_valid = False, bt_is_return = False\<rparr>) []" by (simp add: pred_ok_def)
  have k: "back_ok P (rf (r6_regs s)) s"
    unfolding back_ok_def using b rp
    by (simp add: s_def R6_init_def EX_Commit32_default_def Issue_EX32_default_def el_C_def el_Xi_def dst_C_def dst_X_def plain_C_def
        pending_def Let_def)
  show "pipe_rel P (rf (r6_regs s)) PC s" "dist s = 4"
    using assms pr k
    by (simp_all add: pipe_rel_def R6_init_def PCGen_Fetch32_default_def Fetch_ID32_default_def ID_Issue32_default_def
        Issue_EX32_default_def el_defs front_ok_def dist_def stop_seen32_def)
qed

end
