(* ===== verification/R6_Props.thy ===== *)
theory R6_Props
  imports R6_Refine
begin

unbundle bit_operations_syntax

text \<open>
  Properties of the six-stage 32-bit core: programs without overwritten results run as the
  reference semantics prescribes, and what goes wrong with the others.
\<close>

section \<open>Programs run as specified\<close>

text \<open>C2: The six-stage 32-bit core implements the reference semantics on hazard-free programs.  From reset, with a
  program of register, jump and branch instructions in the first 256 MB of DRAM, none of whose
  control transfers shares a branch target entry with another kind of instruction, whatever the
  uninitialised branch history holds and whatever the other devices do, as long as they leave main
  memory alone: if the reference semantics executes n instructions and none of them or the next
  overwrites its predecessor's destination without reading it, then after at most 5n + 1 clock cycles
  the register file holds exactly the reference registers.\<close>

theorem six_stage32_runs_program:
  fixes bht0 :: "u8 list"
  assumes "code_ok P" "program_at P (pf_mem pf)" "pf_stopped pf = []" "\<And>i. benign (e i)"
    and "s0 = R6_init PC bht0 False pf"
    and "hazard_free P (Suc n) (rv_abs (r6_regs s0))" "rv_run P n (rv_abs (r6_regs s0)) = Some (f, pc)"
  shows "\<exists>m s'. m \<le> 5 * n + 1 \<and> cycle_thread32 (map e [0..<m]) s0 = Inr s' \<and> fst (rv_abs (r6_regs s')) = f"
proof -
  have a: "rv_abs (r6_regs s0) = (rf (r6_regs s0), PC)"
    by (simp add: assms(5) R6_init_def rf_def rv_abs_def setValue_def setPC_def)
  note h = assms(6)[unfolded a] and rn = assms(7)[unfolded a]
  have "P (ucast PC) \<noteq> None" by (rule hazard_free_next[OF h]) simp
  then have r: "pipe_rel P (rf (r6_regs s0)) PC s0" "dist s0 \<le> 4"
    using init_rel[OF assms(1-3), of PC bht0] by (simp_all add: assms(5))
  show ?thesis
    using pipeline_run[where e = e and a = 0, OF assms(4) assms(1) r h rn] unfolding rf_def by auto
qed

section \<open>Overwritten results\<close>

text \<open>C7: The busy bit of a register does not count its writers.  When an instruction that writes register rd commits
  while the next one, which writes rd as well, executes, an instruction after them that reads rd is issued in
  the same cycle, with the older of the two results: the younger one is still in the commit latch.\<close>

theorem overwritten_result_read_stale:
  assumes "rob_pend (r6_rob s) [ec_rob_index (excommit_reg s), ie_rob_index (issue_reg s)]" "busy_for {rd} (r6_busy s)"
    "\<not> r6_flush s" "rd \<noteq> 0"
    and "ec_valid (excommit_reg s)" "\<not> ec_is_store (excommit_reg s)" "ec_rd (excommit_reg s) = ucast rd"
    and "ie_valid (issue_reg s)" "ex_ok ins f (issue_reg s)" "rv_dest ins = rd" "\<not> is_ctrl ins"
    and "ii_valid (id_reg s)" "id_ok ins' (id_reg s)" "fst (rv_sources ins') = rd" "snd (rv_sources ins') \<in> {0, rd}"
  shows "\<exists>s1 s2. Commit_stage32 s = Inr s1 \<and> EX_stage32 s1 = Inr s2 \<and>
     ec_valid (excommit_next s2) \<and> ec_rd (excommit_next s2) = ucast rd \<and>
     ec_result (excommit_next s2) = ex_result32 (issue_reg s) \<and>
     ie_valid (issue_next (Issue_stage32 s2)) \<and> ie_pc (issue_next (Issue_stage32 s2)) = ii_pc (id_reg s) \<and>
     ie_rs1_val (issue_next (Issue_stage32 s2)) = ec_result (excommit_reg s)"
proof -
  let ?x = "issue_reg s" and ?v = "ec_result (excommit_reg s)"
  obtain rob1 r1 where c:
    "Commit_stage32 s = Inr (s\<lparr>r6_regs := r1, r6_rob := rob1, r6_busy := (if rd = 0 then r6_busy s else (r6_busy s)[unat rd := False])\<rparr>)"
    "rob_pend rob1 [ie_rob_index ?x]" "rf r1 = wr rd ?v (rf (r6_regs s))"
    by (rule commit_one[OF assms(1,5,6,7)])
  let ?s1 = "s\<lparr>r6_regs := r1, r6_rob := rob1, r6_busy := (if rd = 0 then r6_busy s else (r6_busy s)[unat rd := False])\<rparr>"
  have nc: "\<not> is_ctrl_opcode (ie_opcode ?x)" using assms(9,11) dec32_fields(4)[of ins] by (simp add: ex_ok_def)
  let ?c = "commit_latch32 (ex_result32 ?x) ?x (excommit_next s)"
  let ?s2 = "?s1\<lparr>excommit_next := ?c\<rparr>"
  have e: "EX_stage32 ?s1 = Inr ?s2"
    using ex_stage32_plain[of ?s1 ins f] assms(8,9) nc by (simp add: resolve32_def)
  have b: "busy_for {0} (r6_busy ?s2)"
    using busy_clear[of rd 0 "r6_busy s"] assms(2,4) by (auto simp: busy_for_def)
  have l: "ec_valid ?c" "ec_rd ?c = ucast rd" "ec_result ?c = ex_result32 ?x"
    using assms(9,10) by (simp_all add: commit_latch32_def ex_ok_def Let_def)
  obtain k rob2 where i: "Issue_stage32 ?s2 = ?s2\<lparr>r6_stall_pcgen := False, r6_stall_fetch := False, r6_stall_issue := False, r6_rob := rob2,
       issue_next := issue_latch32 k (r6_regs ?s2) (id_reg ?s2),
       r6_busy := (if rv_dest ins' = 0 then r6_busy ?s2 else (r6_busy ?s2)[unat (rv_dest ins') := True])\<rparr>"
    by (rule issue_go[of ?s2 ins' 0 "[ie_rob_index ?x]"]) (use assms(3,12,13) b c(2) in auto)
  have "getValue (unat (ii_rs1 (id_reg s))) r1 = ?v"
    using assms(4,13,14) by (simp add: id_ok_def dec32_fields getValue_rf c(3) wr_def)
  then have v: "ie_valid (issue_next (Issue_stage32 ?s2))" "ie_pc (issue_next (Issue_stage32 ?s2)) = ii_pc (id_reg s)"
    "ie_rs1_val (issue_next (Issue_stage32 ?s2)) = ?v"
    by (simp_all add: i issue_latch32_def)
  show ?thesis
    by (rule exI[of _ ?s1], rule exI[of _ ?s2]) (use c(1) e l v in simp)
qed

section \<open>Witnesses\<close>

lemma ucast_lit: "(ucast (a :: u32) :: u64) = ucast b \<longleftrightarrow> a = b"
proof
  have e: "(ucast (ucast c :: u64) :: u32) = c" for c :: u32 by (auto intro!: bit_word_eqI simp: bit_unsigned_iff)
  assume "(ucast a :: u64) = ucast b"
  then show "a = b" by (metis e)
qed simp

lemma demo_prog_dom:
  assumes "demo_prog (ucast (a :: u32)) = Some ins"
  shows "a = 0x80000000 \<and> ins = I_OPI R_ADDI 1 0 5 \<or> a = 0x80000004 \<and> ins = I_OPI R_ADDI 0 1 7 \<or>
     a = 0x80000008 \<and> ins = I_OP R_SUB 2 0 1 \<or> a = 0x8000000C \<and> ins = I_BR R_BLT 2 0 0xFFA"
  using assms ucast_lit[of a "0x80000000"] ucast_lit[of a "0x80000004"] ucast_lit[of a "0x80000008"] ucast_lit[of a "0x8000000C"]
  by (auto simp: demo_prog_def demo_code_def split: if_splits)

lemma demo_code_ok: "code_ok demo_prog"
  unfolding code_ok_def
proof (intro allI impI)
  fix a ins assume p: "demo_prog (ucast (a :: u32)) = Some ins"
  have i: "is_ctrl ins' = is_ctrl ins" if "demo_prog (ucast (b :: u32)) = Some ins'" "btb_index32 b = btb_index32 a" for b ins'
    using demo_prog_dom[OF p] demo_prog_dom[OF that(1)] that(2) by (elim disjE) (simp_all add: btb_index32_def)
  have "near 0 a \<and> pred_option (near 0) (static_target ins a)"
    using demo_prog_dom[OF p] by (elim disjE) (simp_all add: near_def)
  then show "near 0 a \<and> pred_option (near 0) (static_target ins a) \<and>
      (\<forall>b ins'. demo_prog (ucast (b :: u32)) = Some ins' \<longrightarrow> btb_index32 b = btb_index32 a \<longrightarrow> is_ctrl ins' = is_ctrl ins)"
    using i by blast
qed

lemma demo_hazard_free:
  fixes x :: "5 word \<Rightarrow> u32"
  assumes "x 0 = 0"
  shows "hazard_free demo_prog 5 (x, 0x80000000)"
proof -
  note s = demo_rv_steps[of x, OF assms] demo_rv_steps(1)[of "x(1 := 5, 2 := - 5)"]
  have n: "(5 :: nat) = Suc (Suc (Suc (Suc (Suc 0))))" by simp
  show ?thesis unfolding n using s assms by (simp add: demo_fetch waw_ok_def del: rv_step.simps)
qed

definition demo_r6 :: R6 where
  "demo_r6 = R6_init 0x80000000 (replicate 256 1) False (platform_init\<lparr>pf_mem := demo_mem\<rparr>)"

definition demo_tick :: "Platform \<Rightarrow> Platform" where
  "demo_tick pf = pf\<lparr>pf_now := pf_now pf + 10\<rparr>"

theorem six_stage32_runs_program_witness:
  "\<exists>m s'. m \<le> 21 \<and> cycle_thread32 (map (\<lambda>_. demo_tick) [0..<m]) demo_r6 = Inr s' \<and>
     register_bank (r6_regs s') 1 = 5 \<and> register_bank (r6_regs s') 2 = - 5"
proof -
  obtain x where a: "rv_abs (r6_regs demo_r6) = (x, 0x80000000)" "x 0 = 0"
    by (simp add: demo_r6_def R6_init_def rv_abs_def setValue_def setPC_def Registers_init_def)
  have n: "(4 :: nat) = Suc (Suc (Suc (Suc 0)))" "Suc 4 = 5" by simp_all
  have pr: "program_at demo_prog (pf_mem (platform_init\<lparr>pf_mem := demo_mem\<rparr>))"
    using demo_loaded by (simp add: demo_cpu_def CPU_init_def Let_def)
  have st: "pf_stopped (platform_init\<lparr>pf_mem := demo_mem\<rparr>) = []" by (simp add: platform_init_def)
  have b: "benign demo_tick" by (simp add: benign_def demo_tick_def)
  have h: "hazard_free demo_prog (Suc 4) (rv_abs (r6_regs demo_r6))"
    unfolding a(1) n(2) by (rule demo_hazard_free[of x, OF a(2)])
  have r: "rv_run demo_prog 4 (rv_abs (r6_regs demo_r6)) = Some (x(1 := 5, 2 := - 5), 0x80000000)"
    unfolding a(1) n(1) by (rule demo_steps[of x, OF a(2)])
  obtain m s' where m: "m \<le> 5 * 4 + 1" "cycle_thread32 (map (\<lambda>_. demo_tick) [0..<m]) demo_r6 = Inr s'"
    "fst (rv_abs (r6_regs s')) = x(1 := 5, 2 := - 5)"
    using six_stage32_runs_program[where e = "\<lambda>_. demo_tick", OF demo_code_ok pr st b demo_r6_def h r] by blast
  have "register_bank (r6_regs s') 1 = 5" "register_bank (r6_regs s') 2 = - 5"
    using fun_cong[OF m(3), of 1] fun_cong[OF m(3), of 2] by (simp_all add: rv_abs_def)
  then show ?thesis using m(1,2) by auto
qed

text \<open>Three instructions, \<^verbatim>\<open>addi x1, x0, 5; addi x1, x0, 7; add x2, x1, x0\<close>, the first about to commit.\<close>

definition rob_issue :: "u64 \<Rightarrow> ReorderBuffer \<Rightarrow> ReorderBuffer" where
  "rob_issue pc r = rob_setup (fst (rob_allocate r)) pc False False (snd (rob_allocate r))"

lemma rob_pend_issue:
  "rob_pend r es \<Longrightarrow> length es < 32 \<Longrightarrow> rob_pend (rob_issue pc r) (es @ [fst (rob_allocate r)])"
  by (metis rob_pend_allocate rob_issue_def fst_conv snd_conv)

definition stale_core :: R6 where
  "stale_core = demo_r6
     \<lparr>r6_rob := rob_issue 0x80000004 (rob_issue 0x80000000 (rob_init 32)), r6_busy := (replicate 32 False)[1 := True],
      excommit_reg := EX_Commit32_default\<lparr>ec_result := 5, ec_rd := 1, ec_rob_index := 0, ec_valid := True\<rparr>,
      issue_reg := issue_latch32 1 (r6_regs demo_r6) (dec32 (I_OPI R_ADDI 1 0 7)),
      id_reg := dec32 (I_OP R_ADD 2 1 0)\<rparr>"

lemma stale_rob: "rob_pend (r6_rob stale_core) [0, 1]"
proof -
  let ?r = "rob_issue 0x80000000 (rob_init 32)"
  have i: "fst (rob_allocate (rob_init 32)) = 0" "fst (rob_allocate ?r) = 1"
    by (simp_all add: rob_allocate_def rob_is_full_def rob_init_def rob_size_def rob_issue_def rob_setup_def)
  have "rob_pend ?r [0]" using rob_pend_issue[OF rob_pend_init] by (simp add: i)
  then show ?thesis using rob_pend_issue[of ?r "[0]"] by (simp add: i stale_core_def)
qed

lemma stale_busy: "busy_for {1} (r6_busy stale_core)"
proof -
  have u: "Suc 0 = unat r \<longleftrightarrow> r = 1" for r :: "5 word" using unat5_eq[of 1 r] by auto
  show ?thesis using unat5_less by (auto simp: busy_for_def stale_core_def nth_list_update u)
qed

theorem overwritten_result_read_stale_witness:
  "\<exists>s1 s2. Commit_stage32 stale_core = Inr s1 \<and> EX_stage32 s1 = Inr s2 \<and> ec_result (excommit_next s2) = 7 \<and>
     ie_rs1_val (issue_next (Issue_stage32 s2)) = 5"
proof -
  have x: "ex_ok (I_OPI R_ADDI 1 0 7) (rf (r6_regs demo_r6)) (issue_reg stale_core)"
    by (simp add: stale_core_def ex_ok_def issue_latch32_def dec32_fields getValue_rf getValue_rf[of 0, simplified])
  have r: "ex_result32 (issue_reg stale_core) = 7"
    using ex32_spec[OF x refl] fun_cong[of _ _ 1]
    by (simp add: stale_core_def issue_latch32_def wr_def fun_eq_iff demo_r6_def R6_init_def rf_def rv_abs_def setValue_def
        setPC_def Registers_init_def split: if_splits)
  have f: "ec_valid (excommit_reg stale_core)" "\<not> ec_is_store (excommit_reg stale_core)"
    "ec_rd (excommit_reg stale_core) = ucast (1 :: 5 word)" "ie_valid (issue_reg stale_core)" "ii_valid (id_reg stale_core)"
    "id_ok (I_OP R_ADD 2 1 0) (id_reg stale_core)" "\<not> r6_flush stale_core" "ec_result (excommit_reg stale_core) = 5"
    "ec_rob_index (excommit_reg stale_core) = 0" "ie_rob_index (issue_reg stale_core) = 1"
    by (simp_all add: stale_core_def EX_Commit32_default_def issue_latch32_def id_ok_def dec32_def decode_latch32_def Let_def
        Fetch_ID32_default_def demo_r6_def R6_init_def)
  show ?thesis
    using overwritten_result_read_stale[of stale_core 1 "I_OPI R_ADDI 1 0 7" "rf (r6_regs demo_r6)" "I_OP R_ADD 2 1 0"]
      stale_rob stale_busy x r f by auto
qed

end
