(* ===== verification/CPU_P2.thy ===== *)
theory CPU_P2
  imports CPU_Simple
begin

unbundle bit_operations_syntax

text \<open>
  The two-stage cores.  First the loosely-timed ones (src/src/CPU_P32_2.cpp, src/src/CPU_P64_2.cpp, classes
  CPURV32P2 and CPURV64P2), then the clocked ones (src/src/CPU_P32_2_Cycle.cpp,
  src/src/CPU_P64_2_Cycle.cpp, classes CPURV32P2_Cycle and CPURV64P2_Cycle); within each pair the two
  classes differ in the register width and in what is marked below.  Both pipelines fetch into a
  latch, advance the program counter at fetch, and execute from the latch in the next
  cycle.  Statistics are left out.
\<close>

section \<open>The loosely-timed cores\<close>

text \<open>The base-class state is the record of the functional core; the fetch transaction reads into the
  latch's instruction, which is its member \<^verbatim>\<open>INSTR\<close> here.\<close>

record 'T P2 =
  p2_core :: "'T CPU"
  p2_pc :: 'T
  p2_valid :: bool
  p2_flush :: bool

definition P2_init :: "'w::len word \<Rightarrow> bool \<Rightarrow> Platform \<Rightarrow> 'w word P2" where
  "P2_init PC dmi pf = \<lparr>p2_core = CPU_init PC dmi pf, p2_pc = 0, p2_valid = False, p2_flush = False\<rparr>"

definition p2_regs :: "'T P2 \<Rightarrow> 'T Registers" where
  "p2_regs s = regs (hart (p2_core s))"

definition inc_fetched :: "u32 \<Rightarrow> 'w::len word CPU \<Rightarrow> 'w word CPU" where
  "inc_fetched instr c = upd_hart (upd_regs (if instr AND 0x3 \<noteq> 0x3 then incPCby2 else incPC)) c"

definition IF_stage_P2 :: "'w::len word P2 \<Rightarrow> sim_error + 'w word P2" where
  "IF_stage_P2 s =
     (if p2_flush s then
        Inr (s\<lparr>p2_valid := False, p2_core := (p2_core s)\<lparr>INSTR := 0\<rparr>, p2_pc := 0, p2_flush := False\<rparr>)
      else
        and_then (fetch (p2_core s))
          (\<lambda>c. Inr (s\<lparr>p2_core := inc_fetched (INSTR c) c, p2_pc := getPC (p2_regs s), p2_valid := True\<rparr>)))"

text \<open>Decoding and execution common to all two-stage cores.  The result tells whether the instruction
  is a control transfer, whether it has set the program counter, and whether it is a breakpoint.\<close>

definition execute_P2 :: "u32 \<Rightarrow> 'w::len word Machine \<Rightarrow> sim_error + bool \<times> bool \<times> bool \<times> 'w word Machine" where
  "execute_P2 instr m =
     (let deco = decode instr in
      if deco \<noteq> OP_ERROR then
        (let opc = instr AND 0x7F in
         and_then (exec_instruction instr deco m)
           (\<lambda>(ok, bp, m). Inr (opc = 0x63 \<or> opc = 0x6F \<or> opc = 0x67, \<not> ok, bp, m)))
      else let c_deco = C_decode TYPE('w) instr in
      if c_deco \<noteq> OP_C_ERROR then
        and_then (C_exec_instruction instr c_deco m)
          (\<lambda>(ok, bp, m). Inr (c_deco \<in> {OP_C_J, OP_C_JAL, OP_C_JR, OP_C_JALR, OP_C_BEQZ, OP_C_BNEZ}, \<not> ok, bp, m))
      else let m_deco = M_decode instr in
      if m_deco \<noteq> OP_M_ERROR then and_then (M_exec_instruction instr m_deco m) (\<lambda>(ok, m). Inr (False, \<not> ok, False, m))
      else let a_deco = A_decode instr in
      if a_deco \<noteq> OP_A_ERROR then and_then (A_exec_instruction instr a_deco m) (\<lambda>(ok, m). Inr (False, \<not> ok, False, m))
      else Inr (False, False, False, NOP m))"

definition EX_stage_P2 :: "'w::len word P2 \<Rightarrow> sim_error + bool \<times> 'w word P2" where
  "EX_stage_P2 s =
     (if \<not> p2_valid s then Inr (False, s)
      else
        and_then (execute_P2 (INSTR (p2_core s)) (hart (p2_core s)))
          (\<lambda>(is_branch, pc_changed, breakpoint, m).
             Inr (breakpoint, s\<lparr>p2_core := (p2_core s)\<lparr>hart := m\<rparr>,
                                p2_flush := (is_branch \<and> pc_changed \<or> p2_flush s)\<rparr>)))"

definition CPU_step_P2 :: "'w::len word P2 \<Rightarrow> sim_error + bool \<times> 'w word P2" where
  "CPU_step_P2 s =
     and_then (EX_stage_P2 s)
       (\<lambda>(breakpoint, s). and_then (IF_stage_P2 s)
         (\<lambda>s. Inr (breakpoint, s\<lparr>p2_core := upd_hart wait_cycle (p2_core s)\<rparr>)))"

definition process_IRQ_P2 :: "'w::len word P2 \<Rightarrow> bool \<times> 'w word P2" where
  "process_IRQ_P2 s =
     (let (taken, c) = cpu_process_IRQ (p2_core s) in
      (taken, if taken then s\<lparr>p2_core := c, p2_flush := True, p2_valid := False\<rparr> else s\<lparr>p2_core := c\<rparr>))"

definition call_interrupt_P2 :: "payload \<Rightarrow> 'w::len word P2 \<Rightarrow> 'w word P2" where
  "call_interrupt_P2 m_trans s = s\<lparr>p2_core := call_interrupt m_trans (p2_core s)\<rparr>"

text \<open>The thread of the base class adds a wait of its own for pipelined cores.\<close>

fun CPU_thread_P2 :: "nat \<Rightarrow> 'w::len word P2 \<Rightarrow> sim_error + 'w word P2" where
  "CPU_thread_P2 0 s = Inr s"
| "CPU_thread_P2 (Suc n) s =
     and_then (CPU_step_P2 s)
       (\<lambda>(_, s). if stopping (p2_core s) then Inr s
         else let s = snd (process_IRQ_P2 s)
              in CPU_thread_P2 n (s\<lparr>p2_core := upd_hart wait_cycle (p2_core s)\<rparr>))"

section \<open>The clocked cores\<close>

datatype MemState = MEM_IDLE | FETCH_PENDING | FETCH_COMPLETE

record 'T P2_Latch =
  l2_instruction :: u32
  l2_pc :: 'T
  l2_valid :: bool

record 'T P2C =
  c2_core :: "'T CPU"
  c2_latch :: "'T P2_Latch"
  c2_next :: "'T P2_Latch"
  c2_flush :: bool
  c2_if_stall :: bool
  c2_ex_stall :: bool
  c2_mem_state :: MemState
  c2_latency :: nat

text \<open>The configured latencies: the members of \<^verbatim>\<open>LatencyConfig\<close>, which nothing changes.\<close>

definition fetch_latency :: nat where "fetch_latency = 1"

definition P2C_init :: "'w::len word \<Rightarrow> bool \<Rightarrow> Platform \<Rightarrow> 'w word P2C" where
  "P2C_init PC dmi pf =
     \<lparr>c2_core = upd_hart (upd_regs (setValue 2 (of_nat (Memory_SIZE div 4 - 1)))) (CPU_init PC dmi pf),
      c2_latch = \<lparr>l2_instruction = 0, l2_pc = 0, l2_valid = False\<rparr>,
      c2_next = \<lparr>l2_instruction = 0, l2_pc = 0, l2_valid = False\<rparr>,
      c2_flush = False, c2_if_stall = False, c2_ex_stall = False, c2_mem_state = MEM_IDLE, c2_latency = 0\<rparr>"

text \<open>\<^verbatim>\<open>fetch_instruction\<close> receives the local variable of \<^verbatim>\<open>IF_stage\<close>, zero at every call, and returns it with
  whether the fetch is complete.  The word a bus transaction reads is lost when the call that
  started it returns.  When the latency is zero only the 64-bit core completes at once.\<close>

definition start_fetch :: "'w::len word \<Rightarrow> 'w word P2C \<Rightarrow> sim_error + bool \<times> u32 \<times> 'w word P2C" where
  "start_fetch pc s =
     (let c = c2_core s; pf = platform (hart c) in
      and_then (bus_transport bus_fuel (rd_payload (ucast pc) 4) pf)
        (\<lambda>(tr, pf).
           if p_response tr \<noteq> TLM_OK_RESPONSE then Inl SC_ERROR
           else
             let hint = (if served_by_memory (ucast pc) then mem_dmi_allowed c else trans_dmi_allowed c);
                 c = upd_hart (\<lambda>m. m\<lparr>platform := pf\<rparr>)
                       (c\<lparr>trans_dmi_allowed := hint, dmi_ptr_valid := hint \<and> mem_dmi_allowed c\<rparr>);
                 s = s\<lparr>c2_core := c, c2_mem_state := FETCH_PENDING, c2_latency := fetch_latency\<rparr>
             in if fetch_latency > 0 then Inr (False, of_bytes (p_data tr), s)
                else if is_rv32 TYPE('w) then Inr (False, of_bytes (p_data tr), s)
                else Inr (True, of_bytes (p_data tr), s\<lparr>c2_mem_state := MEM_IDLE\<rparr>)))"

definition fetch_instruction_P2C :: "'w::len word \<Rightarrow> 'w word P2C \<Rightarrow> sim_error + bool \<times> u32 \<times> 'w word P2C" where
  "fetch_instruction_P2C pc s =
     (let c = c2_core s in
      if dmi_ptr_valid c then
        (if unat pc + 4 \<le> Memory_SIZE
         then Inr (True, of_bytes (mem_read (pf_mem (platform (hart c))) (unat pc) 4), s\<lparr>c2_mem_state := MEM_IDLE\<rparr>)
         else Inl UNDEFINED_BEHAVIOUR)
      else case c2_mem_state s of
        MEM_IDLE \<Rightarrow> start_fetch pc s
      | FETCH_COMPLETE \<Rightarrow> Inr (True, 0, s\<lparr>c2_mem_state := MEM_IDLE\<rparr>)
      | FETCH_PENDING \<Rightarrow> Inr (False, 0, s))"

definition fetch_into_latch :: "'w::len word P2C \<Rightarrow> sim_error + 'w word P2C" where
  "fetch_into_latch s =
     (let current_pc = getPC (regs (hart (c2_core s))) in
      and_then (fetch_instruction_P2C current_pc s)
        (\<lambda>(ok, instr, s). Inr (
           if ok then s\<lparr>c2_next := \<lparr>l2_instruction = instr, l2_pc = current_pc, l2_valid = True\<rparr>,
                        c2_core := inc_fetched instr (c2_core s)\<rparr>
           else s\<lparr>c2_next := (c2_next s)\<lparr>l2_valid := False\<rparr>, c2_if_stall := True\<rparr>)))"

definition IF_stage_P2C :: "'w::len word P2C \<Rightarrow> sim_error + 'w word P2C" where
  "IF_stage_P2C s =
     (if c2_mem_state s = FETCH_PENDING then
        (if c2_latency s > 0 then Inr (s\<lparr>c2_latency := c2_latency s - 1, c2_if_stall := True\<rparr>)
         else fetch_into_latch (s\<lparr>c2_mem_state := FETCH_COMPLETE, c2_if_stall := False\<rparr>))
      else fetch_into_latch s)"

definition EX_stage_P2C :: "'w::len word P2C \<Rightarrow> sim_error + 'w word P2C" where
  "EX_stage_P2C s =
     (if \<not> l2_valid (c2_latch s) then Inr s
      else
        and_then (execute_P2 (l2_instruction (c2_latch s)) (hart (c2_core s)))
          (\<lambda>(is_branch, pc_changed, breakpoint, m).
             Inr (s\<lparr>c2_core := (c2_core s)\<lparr>hart := m\<rparr>, c2_flush := (pc_changed \<or> c2_flush s)\<rparr>)))"

text \<open>The interrupt of the 64-bit clocked core carries the cause 11.\<close>

definition irq_cause_P2C :: "'w::len word" where
  "irq_cause_P2C = (if is_rv32 TYPE('w) then 0x80000000 else 0x8000000B)"

definition process_IRQ_P2C :: "'w::len word P2C \<Rightarrow> bool \<times> 'w word P2C" where
  "process_IRQ_P2C s =
     (let (taken, c) = cpu_process_IRQ (c2_core s) in
      if taken then
        (True, s\<lparr>c2_core := upd_hart (upd_regs (setCSR CSR_MCAUSE irq_cause_P2C)) c, c2_flush := True,
                 c2_latch := (c2_latch s)\<lparr>l2_valid := False\<rparr>, c2_next := (c2_next s)\<lparr>l2_valid := False\<rparr>\<rparr>)
      else (False, s\<lparr>c2_core := c\<rparr>))"

definition on_posedge :: "'w::len word P2C \<Rightarrow> sim_error + 'w word P2C" where
  "on_posedge s =
     (let s = snd (process_IRQ_P2C s) in
      if c2_flush s then Inr (s\<lparr>c2_latch := \<lparr>l2_instruction = 0, l2_pc = 0, l2_valid = False\<rparr>, c2_flush := False\<rparr>)
      else if c2_ex_stall s then Inr s
      else EX_stage_P2C (s\<lparr>c2_latch := c2_next s\<rparr>))"

definition on_negedge :: "'w::len word P2C \<Rightarrow> sim_error + 'w word P2C" where
  "on_negedge s =
     (if c2_mem_state s = FETCH_PENDING then IF_stage_P2C s
      else if c2_if_stall s \<or> c2_flush s then Inr s
      else IF_stage_P2C s)"

definition call_interrupt_P2C :: "payload \<Rightarrow> 'w::len word P2C \<Rightarrow> 'w word P2C" where
  "call_interrupt_P2C m_trans s = s\<lparr>c2_core := call_interrupt m_trans (c2_core s)\<rparr>"

text \<open>Two threads drive the pipeline: \<^verbatim>\<open>cycle_thread\<close>, and the thread of the base class, whose \<^verbatim>\<open>CPU_step\<close> runs both
  edges as well and which polls the interrupt.  The relation below is one action of either,
  of the interrupt socket, or of the other processes on the platform.\<close>

inductive p2c_action :: "'w::len word P2C \<Rightarrow> 'w word P2C \<Rightarrow> bool" where
  posedge: "on_posedge s = Inr s' \<Longrightarrow> p2c_action s s'"
| negedge: "on_negedge s = Inr s' \<Longrightarrow> p2c_action s s'"
| poll: "p2c_action s (snd (process_IRQ_P2C s))"
| irq_line: "p2c_action s (call_interrupt_P2C tr s)"
| others: "p2c_action s (s\<lparr>c2_core := upd_hart (\<lambda>m. m\<lparr>platform := env (platform m)\<rparr>) (c2_core s)\<rparr>)"

inductive_cases p2c_actionE: "p2c_action s s'"

text \<open>The latency the clocked cores account for an instruction.\<close>

definition get_instruction_latency :: "u32 \<Rightarrow> nat" where
  "get_instruction_latency instruction =
     (let opc = instruction AND 0x7F; funct3 = drop_bit 12 instruction AND 0x7; funct7 = drop_bit 25 instruction AND 0x7F in
      if opc = 0x33 \<and> funct7 = 0x01 then if funct3 < 4 then 3 else 32
      else if opc = 0x03 then 1
      else if opc = 0x23 then 1
      else 1)"

end
