(* ===== verification/P2_Props.thy ===== *)
theory P2_Props
  imports CPU_P2 ISA_Fields ISA_Props
begin

unbundle bit_operations_syntax

text \<open>
  Properties of the two-stage cores.  The program counter is advanced at fetch, before the latched
  instruction executes: instructions that do not read it run as specified, the others see
  the address of their successor.
\<close>

section \<open>Executing an encoded instruction\<close>

fun raw_regs :: "rv_instr \<Rightarrow> 'w::len word Registers \<Rightarrow> 'w word Registers" where
  "raw_regs (I_OP f rd rs1 rs2) r = alu_exec f (encode (I_OP f rd rs1 rs2)) r"
| "raw_regs (I_OPI f rd rs1 imm) r = alui_exec f (encode (I_OPI f rd rs1 imm)) r"
| "raw_regs (I_LUI rd imm) r = Exec_LUI (encode (I_LUI rd imm)) r"
| "raw_regs (I_AUIPC rd imm) r = Exec_AUIPC (encode (I_AUIPC rd imm)) r"
| "raw_regs (I_JAL rd half) r = Exec_JAL (encode (I_JAL rd half)) r"
| "raw_regs (I_JALR rd rs1 imm) r = Exec_JALR (encode (I_JALR rd rs1 imm)) r"
| "raw_regs (I_BR c rs1 rs2 half) r = br_exec c (encode (I_BR c rs1 rs2 half)) r"

lemma exec_encoded:
  "exec_instruction (encode ins) (instr_code ins) m = Inr (\<not> is_ctrl ins, False, m\<lparr>regs := raw_regs ins (regs m)\<rparr>)"
proof (cases ins)
  case (I_OP f rd rs1 rs2)
  then show ?thesis by (cases f) (simp_all add: exec_instruction_def reg_step_def upd_regs_def)
next
  case (I_OPI f rd rs1 imm)
  then show ?thesis by (cases f) (simp_all add: exec_instruction_def reg_step_def upd_regs_def)
next
  case (I_BR c rs1 rs2 half)
  then show ?thesis by (cases c) (simp_all add: exec_instruction_def jump_step_def upd_regs_def)
qed (simp_all add: exec_instruction_def reg_step_def jump_step_def upd_regs_def)

lemma instr_code_ok: "instr_code ins \<noteq> OP_ERROR"
proof (cases ins)
  case (I_OP f rd rs1 rs2) then show ?thesis by (cases f) simp_all
next
  case (I_OPI f rd rs1 imm) then show ?thesis by (cases f) simp_all
next
  case (I_BR c rs1 rs2 half) then show ?thesis by (cases c) simp_all
qed simp_all

text \<open>The registers after an instruction executed with the program counter at \<^verbatim>\<open>pc\<close>: those of the reference; only
  control transfers move the program counter.\<close>

lemma raw_regs_spec:
  fixes r :: "'w::len word Registers"
  assumes x: "xlen_ok TYPE('w)"
  shows "rv_abs (raw_regs ins r) =
     (fst (rv_step ins (rv_abs r)), if is_ctrl ins then snd (rv_step ins (rv_abs r)) else snd (rv_abs r))"
proof -
  obtain regs pc where a: "rv_abs r = (regs, pc)" by (cases "rv_abs r")
  show ?thesis
    by (cases ins)
      (simp_all add: alu_exec_spec[OF x] alui_exec_spec[OF x refl] br_exec_spec[OF x refl] getValue_abs a
        Exec_LUI_def Exec_AUIPC_def Exec_JAL_def Exec_JALR_def upper_imm imm_I_value[OF x] imm_J_value[OF x] Let_def)
qed

lemma encode_opcode:
  "(encode ins AND 0x7F = 0x63 \<or> encode ins AND 0x7F = 0x6F \<or> encode ins AND 0x7F = 0x67) = is_ctrl ins"
  by (cases ins) (simp_all add: fields)

lemma encode_wide: "encode ins AND 0x3 = 0x3"
proof -
  have "encode ins AND 0x3 = (encode ins AND 0x7F) AND 0x3" by (simp add: and.assoc)
  then show ?thesis by (cases ins) (simp_all add: fields)
qed

lemma execute_P2_encoded:
  "execute_P2 (encode ins) m = Inr (is_ctrl ins, is_ctrl ins, False, m\<lparr>regs := raw_regs ins (regs m)\<rparr>)"
  using encode_opcode[of ins] by (simp add: execute_P2_def decode_encode instr_code_ok exec_encoded Let_def)

section \<open>The pipeline\<close>

text \<open>The latch holds the instruction of the program at its address, and the program counter is already past it.\<close>

definition p2_latched :: "rv_instr \<Rightarrow> 'w::len word P2 \<Rightarrow> bool" where
  "p2_latched ins s \<longleftrightarrow> p2_valid s \<and> \<not> p2_flush s \<and> INSTR (p2_core s) = encode ins \<and> getPC (p2_regs s) = p2_pc s + 4"

lemma ex_stage_encoded:
  fixes s :: "'w::len word P2"
  assumes x: "xlen_ok TYPE('w)" and l: "p2_latched ins s"
  defines "c \<equiv> p2_core s"
  shows "EX_stage_P2 s = Inr (False, s\<lparr>p2_core := c\<lparr>hart := (hart c)\<lparr>regs := raw_regs ins (p2_regs s)\<rparr>\<rparr>, p2_flush := is_ctrl ins\<rparr>)"
  using l by (simp add: EX_stage_P2_def p2_latched_def execute_P2_encoded c_def p2_regs_def)

section \<open>Programs that do not read the program counter\<close>

text \<open>Register operations and indirect jumps that keep no return address.\<close>

fun pc_free :: "rv_instr \<Rightarrow> bool" where
  "pc_free (I_OP _ _ _ _) = True" | "pc_free (I_OPI _ _ _ _) = True" | "pc_free (I_LUI _ _) = True"
| "pc_free (I_JALR rd _ _) \<longleftrightarrow> rd = 0" | "pc_free _ = False"

fun pc_free_run :: "(u64 \<Rightarrow> rv_instr option) \<Rightarrow> nat \<Rightarrow> 'w::len rv_state \<Rightarrow> bool" where
  "pc_free_run P 0 s \<longleftrightarrow> P (ucast (snd s)) \<noteq> None"
| "pc_free_run P (Suc n) s \<longleftrightarrow>
     (case P (ucast (snd s)) of None \<Rightarrow> False | Some ins \<Rightarrow> pc_free ins \<and> pc_free_run P n (rv_step ins s))"

lemma pc_free_step:
  assumes "pc_free ins"
  shows "fst (rv_step ins (x, a)) = fst (rv_step ins (x, b))"
    "is_ctrl ins \<Longrightarrow> snd (rv_step ins (x, a)) = snd (rv_step ins (x, b))" "\<not> is_ctrl ins \<Longrightarrow> snd (rv_step ins (x, a)) = a + 4"
  using assms by (cases ins; simp add: wr_def)+

definition p2_rel :: "(u64 \<Rightarrow> rv_instr option) \<Rightarrow> 'w::len rv_state \<Rightarrow> 'w word P2 \<Rightarrow> bool" where
  "p2_rel P st s \<longleftrightarrow> quiet (p2_core s) \<and> program_at P (pf_mem (platform (hart (p2_core s)))) \<and> \<not> p2_flush s \<and>
     fst (rv_abs (p2_regs s)) = fst st \<and>
     (if p2_valid s then p2_pc s = snd st \<and> (\<exists>ins. P (ucast (snd st)) = Some ins \<and> p2_latched ins s)
      else getPC (p2_regs s) = snd st)"

definition fetches_dram :: "'w::len word P2 \<Rightarrow> bool" where
  "fetches_dram s \<longleftrightarrow> dram_range (ucast (getPC (p2_regs s))) 4"

lemma fetches_program:
  "program_at P (pf_mem (platform (hart (p2_core s)))) \<Longrightarrow> P (ucast (getPC (p2_regs s))) = Some ins \<Longrightarrow> fetches_dram s"
  by (simp add: program_at_def fetches_dram_def)

lemma if_stage_program:
  fixes s :: "'w::len word P2"
  assumes q: "quiet (p2_core s)" "\<not> p2_flush s" and p: "program_at P (pf_mem (platform (hart (p2_core s))))"
    "P (ucast (getPC (p2_regs s))) = Some ins"
  obtains s' where "IF_stage_P2 s = Inr s'" "quiet (p2_core s')" "p2_latched ins s'" "p2_pc s' = getPC (p2_regs s)"
    "fst (rv_abs (p2_regs s')) = fst (rv_abs (p2_regs s))" "platform (hart (p2_core s')) = platform (hart (p2_core s))"
proof -
  let ?c = "p2_core s"
  have m: "dram_range (ucast (getPC (regs (hart ?c)))) 4"
    "mem_read (pf_mem (platform (hart ?c))) (dram_offset (ucast (getPC (regs (hart ?c))))) 4 = to_bytes 4 (encode ins)"
    using p by (simp_all add: program_at_def p2_regs_def)
  have d: "\<not> dmi_ptr_valid ?c" using q by (simp add: quiet_def)
  obtain h v where f: "fetch ?c = Inr (?c\<lparr>INSTR := encode ins, trans_dmi_allowed := h, dmi_ptr_valid := v\<rparr>)"
    and v: "v \<longrightarrow> mem_dmi_allowed ?c"
    using fetch_dram[OF d m] by blast
  let ?s = "s\<lparr>p2_core := inc_fetched (encode ins) (?c\<lparr>INSTR := encode ins, trans_dmi_allowed := h, dmi_ptr_valid := v\<rparr>),
      p2_pc := getPC (p2_regs s), p2_valid := True\<rparr>"
  have run: "IF_stage_P2 s = Inr ?s" using q(2) f by (simp add: IF_stage_P2_def)
  show thesis
    by (rule that[OF run])
      (use q v in \<open>auto simp: quiet_def stopping_def p2_latched_def inc_fetched_def encode_wide upd_hart_def upd_regs_def p2_regs_def
        rv_abs_def incPC_def getPC_def\<close>)
qed

text \<open>The rest of a turn of the thread, with no interrupt outstanding, changes the time and \<^verbatim>\<open>mip\<close> only.\<close>

lemma p2_rel_wait: "p2_rel P st s \<Longrightarrow> p2_rel P st (s\<lparr>p2_core := upd_hart wait_cycle (p2_core s)\<rparr>)"
  by (auto simp: p2_rel_def quiet_def stopping_def upd_hart_def wait_cycle_def p2_regs_def p2_latched_def)

lemma p2_rel_irq: "p2_rel P st s \<Longrightarrow> p2_rel P st (snd (process_IRQ_P2 s))"
  by (auto simp: p2_rel_def quiet_def stopping_def process_IRQ_P2_def cpu_process_IRQ_def p2_regs_def p2_latched_def rv_abs_def
      setCSR_def getPC_def Let_def)

lemma p2_fetch_stages:
  assumes r: "p2_rel P st s" and v: "\<not> p2_valid s" and p: "P (ucast (snd st)) = Some ins"
  obtains s' where "EX_stage_P2 s = Inr (False, s)" "fetches_dram s" "IF_stage_P2 s = Inr s'" "p2_rel P st s'" "p2_valid s'"
proof -
  have e: "EX_stage_P2 s = Inr (False, s)" using v by (simp add: EX_stage_P2_def)
  have q: "quiet (p2_core s)" "\<not> p2_flush s" "program_at P (pf_mem (platform (hart (p2_core s))))"
    "P (ucast (getPC (p2_regs s))) = Some ins"
    using r v p by (simp_all add: p2_rel_def)
  obtain s' where s': "IF_stage_P2 s = Inr s'" "quiet (p2_core s')" "p2_latched ins s'" "p2_pc s' = getPC (p2_regs s)"
    "fst (rv_abs (p2_regs s')) = fst (rv_abs (p2_regs s))" "platform (hart (p2_core s')) = platform (hart (p2_core s))"
    by (rule if_stage_program[OF q])
  have "p2_rel P st s'" "p2_valid s'" using r v p s' by (auto simp: p2_rel_def p2_latched_def)
  then show thesis using e fetches_program[OF q(3,4)] s'(1) that by blast
qed

lemma p2_execute_stages:
  fixes s :: "'w::len word P2"
  assumes x: "xlen_ok TYPE('w)" and r: "p2_rel P st s" and v: "p2_valid s"
    and p: "P (ucast (snd st)) = Some ins" "pc_free ins" "P (ucast (snd (rv_step ins st))) = Some ins'"
  obtains s1 s' where "EX_stage_P2 s = Inr (False, s1)" "fetches_dram s1" "IF_stage_P2 s1 = Inr s'" "p2_rel P (rv_step ins st) s'"
proof -
  let ?c = "p2_core s"
  let ?s1 = "s\<lparr>p2_core := ?c\<lparr>hart := (hart ?c)\<lparr>regs := raw_regs ins (p2_regs s)\<rparr>\<rparr>, p2_flush := is_ctrl ins\<rparr>"
  obtain f pc where st: "st = (f, pc)" by (cases st)
  have l: "p2_latched ins s" "p2_pc s = pc" "fst (rv_abs (p2_regs s)) = f" "quiet ?c" "program_at P (pf_mem (platform (hart ?c)))"
    using r v p(1) st by (auto simp: p2_rel_def)
  have a: "rv_abs (p2_regs s) = (f, pc + 4)"
    using l by (auto simp: p2_latched_def getValue_abs(2) intro: prod_eqI)
  have e: "EX_stage_P2 s = Inr (False, ?s1)" by (rule ex_stage_encoded[OF x l(1)])
  have r1: "rv_abs (p2_regs ?s1) = rv_step ins st"
    using raw_regs_spec[OF x, of ins "p2_regs s"] pc_free_step(1,2)[OF p(2), of f "pc + 4" pc] pc_free_step(3)[OF p(2), of f pc]
    by (auto simp: p2_regs_def a[unfolded p2_regs_def] st intro: prod_eqI)
  have q1: "quiet (p2_core ?s1)" "program_at P (pf_mem (platform (hart (p2_core ?s1))))"
    using l(4,5) by (simp_all add: quiet_def stopping_def)
  have f1: "P (ucast (getPC (p2_regs ?s1))) = Some ins'" using r1 p(3) by (simp add: getValue_abs(2))
  note d = fetches_program[OF q1(2) f1]
  show thesis
  proof (cases "is_ctrl ins")
    case True
    have i: "IF_stage_P2 ?s1 = Inr (?s1\<lparr>p2_valid := False, p2_core := (p2_core ?s1)\<lparr>INSTR := 0\<rparr>, p2_pc := 0, p2_flush := False\<rparr>)"
      using True by (simp add: IF_stage_P2_def)
    have "p2_rel P (rv_step ins st) (?s1\<lparr>p2_valid := False, p2_core := (p2_core ?s1)\<lparr>INSTR := 0\<rparr>, p2_pc := 0, p2_flush := False\<rparr>)"
      using q1 r1 by (simp add: p2_rel_def p2_regs_def quiet_def stopping_def getValue_abs(2))
    then show thesis by (rule that[OF e d i])
  next
    case False
    then have nf: "\<not> p2_flush ?s1" by simp
    obtain s' where s': "IF_stage_P2 ?s1 = Inr s'" "quiet (p2_core s')" "p2_latched ins' s'" "p2_pc s' = getPC (p2_regs ?s1)"
      "fst (rv_abs (p2_regs s')) = fst (rv_abs (p2_regs ?s1))" "platform (hart (p2_core s')) = platform (hart (p2_core ?s1))"
      by (rule if_stage_program[OF q1(1) nf q1(2) f1])
    have "p2_rel P (rv_step ins st) s'"
      using s' q1 r1 p(3) by (auto simp: p2_rel_def p2_latched_def getValue_abs(2))
    then show thesis by (rule that[OF e d s'(1)])
  qed
qed

lemma pc_free_run_defined: "pc_free_run P n st \<Longrightarrow> \<exists>ins. P (ucast (snd st)) = Some ins"
  by (cases n) (auto split: option.splits)

section \<open>Threads that drive the stages\<close>

text \<open>What a thread promises: an iteration runs the two stages, and with no interrupt outstanding the rest of it changes
  nothing the relation sees.\<close>

locale p2_driver =
  fixes run :: "nat \<Rightarrow> 'w::len word P2 \<Rightarrow> sim_error + 'w word P2"
  assumes run_zero: "run 0 s = Inr s"
    and run_turn: "EX_stage_P2 s = Inr (b, s1) \<Longrightarrow> fetches_dram s1 \<Longrightarrow> IF_stage_P2 s1 = Inr s2 \<Longrightarrow> p2_rel P st s2 \<Longrightarrow>
      \<exists>s'. (\<forall>n. run (Suc n) s = run n s') \<and> p2_rel P st s' \<and> p2_valid s' = p2_valid s2"
begin

text \<open>From a state whose latch is valid at most one turn, else at most two, execute the next instruction.\<close>

lemma run_program:
  fixes s :: "'w word P2"
  assumes x: "xlen_ok TYPE('w)"
  shows "p2_rel P st s \<Longrightarrow> pc_free_run P n st \<Longrightarrow> rv_run P n st = Some st' \<Longrightarrow>
     \<exists>m s'. m \<le> 2 * n \<and> run m s = Inr s' \<and> p2_rel P st' s'"
proof (induction n arbitrary: st s)
  case 0
  then show ?case by (auto simp: run_zero)
next
  case (Suc n)
  obtain ins where p: "P (ucast (snd st)) = Some ins" "pc_free ins" "pc_free_run P n (rv_step ins st)"
    using Suc.prems(2) by (auto split: option.splits)
  obtain ins' where p': "P (ucast (snd (rv_step ins st))) = Some ins'" using pc_free_run_defined[OF p(3)] by blast
  have rn: "rv_run P n (rv_step ins st) = Some st'" using Suc.prems(3) p(1) by simp
  have ex: "\<exists>m s'. m \<le> 2 * n + 1 \<and> run m t = Inr s' \<and> p2_rel P st' s'" if t: "p2_rel P st t" "p2_valid t" for t
  proof -
    obtain t1 t2 where e: "EX_stage_P2 t = Inr (False, t1)" "fetches_dram t1" "IF_stage_P2 t1 = Inr t2" "p2_rel P (rv_step ins st) t2"
      by (rule p2_execute_stages[OF x t p(1,2) p'])
    obtain u where u: "\<forall>k. run (Suc k) t = run k u" "p2_rel P (rv_step ins st) u" using run_turn[OF e] by blast
    obtain m s' where "m \<le> 2 * n" "run m u = Inr s'" "p2_rel P st' s'" using Suc.IH[OF u(2) p(3) rn] by blast
    then show ?thesis using u(1) by (intro exI[of _ "Suc m"] exI[of _ s']) simp
  qed
  show ?case
  proof (cases "p2_valid s")
    case True
    obtain m s' where "m \<le> 2 * n + 1" "run m s = Inr s'" "p2_rel P st' s'" using ex[OF Suc.prems(1) True] by blast
    then show ?thesis by (intro exI[of _ m] exI[of _ s']) simp
  next
    case False
    obtain t2 where e: "EX_stage_P2 s = Inr (False, s)" "fetches_dram s" "IF_stage_P2 s = Inr t2" "p2_rel P st t2" "p2_valid t2"
      by (rule p2_fetch_stages[OF Suc.prems(1) False p(1)])
    obtain u where u: "\<forall>k. run (Suc k) s = run k u" "p2_rel P st u" "p2_valid u" using run_turn[OF e(1-4)] e(5) by blast
    obtain m s' where "m \<le> 2 * n + 1" "run m u = Inr s'" "p2_rel P st' s'" using ex[OF u(2,3)] by blast
    then show ?thesis using u(1) by (intro exI[of _ "Suc m"] exI[of _ s']) simp
  qed
qed

end

lemma p2_turn:
  assumes "EX_stage_P2 s = Inr (b, s1)" "IF_stage_P2 s1 = Inr s2" "p2_rel P st s2"
  shows "\<exists>s'. (\<forall>n. CPU_thread_P2 (Suc n) s = CPU_thread_P2 n s') \<and> p2_rel P st s' \<and> p2_valid s' = p2_valid s2"
proof -
  let ?t = "s2\<lparr>p2_core := upd_hart wait_cycle (p2_core s2)\<rparr>"
  have t: "p2_rel P st ?t" by (rule p2_rel_wait[OF assms(3)])
  have ns: "\<not> stopping (p2_core ?t)" using t by (simp add: p2_rel_def quiet_def)
  have step: "CPU_step_P2 s = Inr (b, ?t)" using assms(1,2) by (simp add: CPU_step_P2_def)
  let ?u = "snd (process_IRQ_P2 ?t)"
  have "CPU_thread_P2 (Suc n) s = CPU_thread_P2 n (?u\<lparr>p2_core := upd_hart wait_cycle (p2_core ?u)\<rparr>)" for n
    using step ns by (simp add: Let_def)
  moreover have "p2_valid ?u = p2_valid s2"
    using t by (simp add: p2_rel_def quiet_def process_IRQ_P2_def cpu_process_IRQ_def Let_def)
  ultimately show ?thesis using p2_rel_wait[OF p2_rel_irq[OF t]]
    by (intro exI[of _ "?u\<lparr>p2_core := upd_hart wait_cycle (p2_core ?u)\<rparr>"]) simp
qed

interpretation lt: p2_driver CPU_thread_P2
  by unfold_locales (simp, rule p2_turn)

lemma p2_init_rel:
  assumes "program_at P (pf_mem pf)" "pf_stopped pf = []"
  shows "p2_rel P (rv_abs (p2_regs (P2_init PC False pf))) (P2_init PC False pf)"
  using assms by (simp add: p2_rel_def P2_init_def CPU_init_def quiet_def stopping_def p2_regs_def getValue_abs(2) Let_def)

section \<open>Properties\<close>

text \<open>C9: The two-stage cores implement the reference semantics on programs that do not read the program counter.  For
  both register widths, from reset, with a program in DRAM and no interrupt: if the reference semantics executes
  n instructions, all register operations, upper immediates and indirect jumps without a link, then the
  core's thread reaches, within 2n iterations, a state with exactly the reference registers.\<close>

theorem two_stage_runs_pc_free_program:
  fixes PC :: "'w::len word"
  assumes "xlen_ok TYPE('w)" "program_at P (pf_mem pf)" "pf_stopped pf = []"
    and "s0 = P2_init PC False pf" "pc_free_run P n (rv_abs (p2_regs s0))" "rv_run P n (rv_abs (p2_regs s0)) = Some (f, pc)"
  shows "\<exists>m s'. m \<le> 2 * n \<and> CPU_thread_P2 m s0 = Inr s' \<and> fst (rv_abs (p2_regs s')) = f"
proof -
  have r: "p2_rel P (rv_abs (p2_regs s0)) s0" using p2_init_rel[OF assms(2,3)] assms(4) by simp
  show ?thesis using lt.run_program[OF assms(1) r assms(5,6)] by (auto simp: p2_rel_def)
qed


text \<open>An interrupt taken while the latch is full loses the latched instruction: the latch is
  emptied and \<^verbatim>\<open>mepc\<close> is the address after it.\<close>

lemma two_stage_interrupt_loses_latched:
  fixes s :: "'w::len word P2"
  assumes "p2_latched ins s" "process_IRQ_P2 s = (True, s')"
  shows "\<not> p2_valid s' \<and> CSR (p2_regs s') CSR_MEPC = ucast (p2_pc s + 4)"
  using assms by (auto simp: process_IRQ_P2_def cpu_process_IRQ_def p2_latched_def p2_regs_def Let_def setCSR_def getPC_def split: if_splits)

section \<open>The clocked cores without direct memory access\<close>

definition p2c_inv :: "'w::len word P2C \<Rightarrow> bool" where
  "p2c_inv s \<longleftrightarrow> \<not> dmi_ptr_valid (c2_core s) \<and> \<not> mem_dmi_allowed (c2_core s) \<and> \<not> c2_ex_stall s \<and>
     (l2_valid (c2_next s) \<longrightarrow> l2_instruction (c2_next s) = 0) \<and> (l2_valid (c2_latch s) \<longrightarrow> l2_instruction (c2_latch s) = 0)"

lemma irq_dmi [simp]:
  "dmi_ptr_valid (snd (cpu_process_IRQ c)) = dmi_ptr_valid c" "mem_dmi_allowed (snd (cpu_process_IRQ c)) = mem_dmi_allowed c"
  by (simp_all add: cpu_process_IRQ_def Let_def)

lemma p2c_inv_irq: "p2c_inv s \<Longrightarrow> p2c_inv (snd (process_IRQ_P2C s))"
  using irq_dmi[of "c2_core s"] by (cases "cpu_process_IRQ (c2_core s)") (auto simp: process_IRQ_P2C_def p2c_inv_def upd_hart_def)

lemma p2c_inv_fetch: "p2c_inv s \<Longrightarrow> fetch_into_latch s = Inr s' \<Longrightarrow> p2c_inv s'"
  by (auto simp: p2c_inv_def fetch_into_latch_def fetch_instruction_P2C_def start_fetch_def and_then_Inr inc_fetched_def
      fetch_latency_def upd_hart_def Let_def split: MemState.splits if_splits)

lemma p2c_inv_IF: "p2c_inv s \<Longrightarrow> IF_stage_P2C s = Inr s' \<Longrightarrow> p2c_inv s'"
  using p2c_inv_fetch[of s s'] p2c_inv_fetch[of "s\<lparr>c2_mem_state := FETCH_COMPLETE, c2_if_stall := False\<rparr>" s']
  by (auto simp: IF_stage_P2C_def p2c_inv_def split: if_splits)

lemma p2c_inv_EX: "p2c_inv s \<Longrightarrow> EX_stage_P2C s = Inr s' \<Longrightarrow> p2c_inv s'"
  by (auto simp: EX_stage_P2C_def p2c_inv_def and_then_Inr split: if_splits)

lemma p2c_inv_posedge:
  assumes i: "p2c_inv s" and r: "on_posedge s = Inr s'"
  shows "p2c_inv s'"
proof -
  let ?t = "snd (process_IRQ_P2C s)"
  have t: "p2c_inv ?t" by (rule p2c_inv_irq[OF i])
  then have u: "p2c_inv (?t\<lparr>c2_latch := c2_next ?t\<rparr>)" by (simp add: p2c_inv_def)
  show ?thesis
    using r t p2c_inv_EX[OF u, of s'] by (auto simp: on_posedge_def p2c_inv_def Let_def split: if_splits)
qed

lemma p2c_inv_action: "p2c_action s s' \<Longrightarrow> p2c_inv s \<Longrightarrow> p2c_inv s'"
proof (induction rule: p2c_action.induct)
  case (negedge s s')
  then show ?case using p2c_inv_IF[of s s'] by (auto simp: on_negedge_def split: if_splits)
qed (auto simp: p2c_inv_posedge p2c_inv_irq, auto simp: p2c_inv_def call_interrupt_P2C_def call_interrupt_def upd_hart_def)

lemma p2c_inv_reach: "p2c_action\<^sup>*\<^sup>* s s' \<Longrightarrow> p2c_inv s \<Longrightarrow> p2c_inv s'"
  by (induction rule: rtranclp_induct) (auto intro: p2c_inv_action)

text \<open>C11: Without direct memory access the clocked two-stage cores execute no program.  In every state reachable
  from reset, for both register widths and whatever order the two threads that drive the
  pipeline, the interrupt line and the other devices act in, every valid instruction in a latch is the word
  zero: the word a fetch reads from the bus is discarded when its latency begins.\<close>

theorem two_stage_clocked_fetches_zero:
  fixes PC :: "'w::len word"
  assumes "p2c_action\<^sup>*\<^sup>* (P2C_init PC False pf) s"
  shows "(l2_valid (c2_latch s) \<longrightarrow> l2_instruction (c2_latch s) = 0) \<and> (l2_valid (c2_next s) \<longrightarrow> l2_instruction (c2_next s) = 0)"
proof -
  have "p2c_inv (P2C_init PC False pf)"
    by (simp add: p2c_inv_def P2C_init_def CPU_init_def upd_hart_def Let_def)
  then have "p2c_inv s" by (rule p2c_inv_reach[OF assms])
  then show ?thesis by (simp add: p2c_inv_def)
qed

section \<open>Witnesses\<close>

text \<open>\<^verbatim>\<open>addi x1, x0, 5; lui x3, 0x80000; jalr x0, 0(x3)\<close>, a loop at the start of DRAM.\<close>

definition p2_code :: "rv_instr list" where
  "p2_code = [I_OPI R_ADDI 1 0 5, I_LUI 3 0x80000, I_JALR 0 3 0]"

definition p2_prog :: "u64 \<Rightarrow> rv_instr option" where
  "p2_prog = map_of (zip [0x80000000, 0x80000004, 0x80000008] p2_code)"

definition p2_mem :: bytemem where
  "p2_mem = mem_write (\<lambda>_. 0) 0 (concat (map (\<lambda>ins. to_bytes 4 (encode ins)) p2_code))"

lemma p2_loaded: "program_at p2_prog p2_mem"
proof -
  have m: "mem_read p2_mem (4 * k) 4 = to_bytes 4 (encode (p2_code ! k))" if "k < 3" for k
  proof -
    have "k \<in> {0, 1, 2}" using that by auto
    then show ?thesis
      unfolding p2_mem_def p2_code_def insert_iff empty_iff
      by (elim disjE) (simp_all del: encode.simps add: mem_read_write_sub)
  qed
  show ?thesis
    using m[of 0] m[of 1] m[of 2]
    by (auto simp del: encode.simps simp: program_at_def p2_prog_def p2_code_def dram_range_def dram_offset_def split: if_splits)
qed

definition p2_platform :: Platform where
  "p2_platform = platform_init\<lparr>pf_mem := p2_mem\<rparr>"

lemma p2_rv_steps:
  fixes x :: "5 word \<Rightarrow> u32"
  assumes "x 0 = 0"
  shows "rv_step (I_OPI R_ADDI 1 0 5) (x, 0x80000000) = (x(1 := 5), 0x80000004)"
    "rv_step (I_LUI 3 0x80000) (x(1 := 5), 0x80000004) = (x(1 := 5, 3 := 0x80000000), 0x80000008)"
    "rv_step (I_JALR 0 3 0) (x(1 := 5, 3 := 0x80000000), 0x80000008) = (x(1 := 5, 3 := 0x80000000), 0x80000000)"
proof -
  have n: "(- 0x80000000 :: u32) = 0x80000000" by code_simp
  show "rv_step (I_OPI R_ADDI 1 0 5) (x, 0x80000000) = (x(1 := 5), 0x80000004)"
    "rv_step (I_LUI 3 0x80000) (x(1 := 5), 0x80000004) = (x(1 := 5, 3 := 0x80000000), 0x80000008)"
    "rv_step (I_JALR 0 3 0) (x(1 := 5, 3 := 0x80000000), 0x80000008) = (x(1 := 5, 3 := 0x80000000), 0x80000000)"
    using assms by (simp_all add: wr_def n)
qed

lemma p2_fetches:
  "p2_prog 0x80000000 = Some (I_OPI R_ADDI 1 0 5)" "p2_prog 0x80000004 = Some (I_LUI 3 0x80000)"
  "p2_prog 0x80000008 = Some (I_JALR 0 3 0)"
  by (simp_all add: p2_prog_def p2_code_def)

lemma p2_demo_run:
  obtains x where "pc_free_run p2_prog 3 (rv_abs (p2_regs (P2_init (0x80000000 :: u32) False p2_platform)))"
    "rv_run p2_prog 3 (rv_abs (p2_regs (P2_init (0x80000000 :: u32) False p2_platform))) = Some (x(1 := 5, 3 := 0x80000000), 0x80000000)"
proof -
  let ?s = "P2_init (0x80000000 :: u32) False p2_platform"
  obtain x where a: "rv_abs (p2_regs ?s) = (x, 0x80000000)" "x 0 = 0"
    by (simp add: P2_init_def CPU_init_def p2_regs_def rv_abs_def setValue_def setPC_def Registers_init_def Let_def)
  note st = p2_rv_steps[of x, OF a(2)]
  have n: "(3 :: nat) = Suc (Suc (Suc 0))" by simp
  show thesis by (rule that[of x]; unfold a n; use st in \<open>simp add: p2_fetches del: rv_step.simps\<close>)
qed

lemma p2_demo_platform: "program_at p2_prog (pf_mem p2_platform)" "pf_stopped p2_platform = []"
  using p2_loaded by (simp_all add: p2_platform_def platform_init_def)

lemma p2_demo_registers:
  assumes "fst (rv_abs r) = x(1 := 5, 3 := 0x80000000)"
  shows "register_bank r 1 = 5 \<and> register_bank r 3 = 0x80000000"
  using fun_cong[OF assms, of 1] fun_cong[OF assms, of 3] by (simp add: rv_abs_def)

theorem two_stage_runs_pc_free_program_witness:
  "\<exists>m s'. m \<le> 6 \<and> CPU_thread_P2 m (P2_init (0x80000000 :: u32) False p2_platform) = Inr s' \<and>
     register_bank (p2_regs s') 1 = 5 \<and> register_bank (p2_regs s') 3 = 0x80000000"
proof -
  let ?s = "P2_init (0x80000000 :: u32) False p2_platform"
  obtain x where r: "pc_free_run p2_prog 3 (rv_abs (p2_regs ?s))"
    "rv_run p2_prog 3 (rv_abs (p2_regs ?s)) = Some (x(1 := 5, 3 := 0x80000000), 0x80000000)"
    by (rule p2_demo_run)
  have x: "xlen_ok TYPE(32)" by simp
  obtain m s' where m: "m \<le> 2 * 3" "CPU_thread_P2 m ?s = Inr s'" "fst (rv_abs (p2_regs s')) = x(1 := 5, 3 := 0x80000000)"
    using two_stage_runs_pc_free_program[OF x p2_demo_platform refl r] by blast
  then show ?thesis using p2_demo_registers by auto
qed

text \<open>\<^verbatim>\<open>jal x1, 16\<close> at 0x80000000 goes to 0x80000014 and links 0x80000008.\<close>

definition p2_jal :: "u32 P2" where
  "p2_jal = (P2_init 0x80000004 False p2_platform)
     \<lparr>p2_core := (CPU_init 0x80000004 False p2_platform)\<lparr>INSTR := encode (I_JAL 1 8)\<rparr>, p2_pc := 0x80000000, p2_valid := True\<rparr>"


text \<open>Three falling edges bring the first instruction into the latch: zero, although the program counter points to
  another word.\<close>

definition p2c_start :: "u32 P2C" where
  "p2c_start = P2C_init 0x80000000 False p2_platform"

lemma p2c_start_pc: "getPC (regs (hart (c2_core p2c_start))) = 0x80000000" "platform (hart (c2_core p2c_start)) = p2_platform"
  by (simp_all add: p2c_start_def P2C_init_def CPU_init_def upd_hart_def upd_regs_def getPC_def setPC_def setValue_def Registers_init_def
      Let_def)

lemma p2c_first_edges:
  obtains s where "p2c_action\<^sup>*\<^sup>* p2c_start s" "l2_valid (c2_next s)" "l2_pc (c2_next s) = 0x80000000"
proof -
  let ?c = "c2_core p2c_start"
  have d: "dram_range (0x80000000 :: u64) 4" by (simp add: dram_range_def)
  obtain tr where b: "bus_transport bus_fuel (rd_payload 0x80000000 4) p2_platform = Inr (tr, p2_platform)"
    "p_response tr = TLM_OK_RESPONSE"
    using bus_dram[of "rd_payload 0x80000000 4" bus_fuel p2_platform] d by (simp add: rd_payload_def with_response_def)
  have f: "\<not> dmi_ptr_valid ?c" "\<not> mem_dmi_allowed ?c" "\<not> trans_dmi_allowed ?c" "c2_mem_state p2c_start = MEM_IDLE"
    "\<not> c2_if_stall p2c_start" "\<not> c2_flush p2c_start"
    by (simp_all add: p2c_start_def P2C_init_def CPU_init_def upd_hart_def Let_def)
  let ?c1 = "upd_hart (\<lambda>m. m\<lparr>platform := p2_platform\<rparr>) (?c\<lparr>trans_dmi_allowed := False, dmi_ptr_valid := False\<rparr>)"
  let ?s1 = "p2c_start\<lparr>c2_core := ?c1, c2_mem_state := FETCH_PENDING, c2_latency := 1, c2_next := (c2_next p2c_start)\<lparr>l2_valid := False\<rparr>,
      c2_if_stall := True\<rparr>"
  have e1: "on_negedge p2c_start = Inr ?s1"
    using f b p2c_start_pc by (simp add: on_negedge_def IF_stage_P2C_def fetch_into_latch_def fetch_instruction_P2C_def start_fetch_def
        fetch_latency_def Let_def)
  let ?s2 = "?s1\<lparr>c2_latency := 0\<rparr>"
  have e2: "on_negedge ?s1 = Inr ?s2" by (simp add: on_negedge_def IF_stage_P2C_def)
  let ?s3 = "?s2\<lparr>c2_mem_state := MEM_IDLE, c2_if_stall := False,
      c2_next := \<lparr>l2_instruction = 0, l2_pc = 0x80000000, l2_valid = True\<rparr>, c2_core := inc_fetched 0 ?c1\<rparr>"
  have pc: "getPC (regs (hart ?c1)) = 0x80000000" using p2c_start_pc by (simp add: upd_hart_def)
  have e3: "on_negedge ?s2 = Inr ?s3"
    using f pc by (simp add: on_negedge_def IF_stage_P2C_def fetch_into_latch_def fetch_instruction_P2C_def upd_hart_def Let_def)
  have "p2c_action\<^sup>*\<^sup>* p2c_start ?s3"
    using negedge[OF e1] negedge[OF e2] negedge[OF e3] by (meson rtranclp.rtrancl_refl rtranclp.rtrancl_into_rtrancl)
  then show thesis using that by simp
qed

theorem two_stage_clocked_fetches_zero_witness:
  "\<exists>s. p2c_action\<^sup>*\<^sup>* p2c_start s \<and> l2_valid (c2_next s) \<and> l2_pc (c2_next s) = 0x80000000 \<and> l2_instruction (c2_next s) = 0 \<and>
     p2_prog 0x80000000 = Some (I_OPI R_ADDI 1 0 5)"
proof -
  obtain s where s: "p2c_action\<^sup>*\<^sup>* p2c_start s" "l2_valid (c2_next s)" "l2_pc (c2_next s) = 0x80000000"
    by (rule p2c_first_edges)
  show ?thesis using two_stage_clocked_fetches_zero[OF s(1)[unfolded p2c_start_def]] s p2_fetches(1) by blast
qed

end
