(* ===== verification/CPU_AT.thy ===== *)
theory CPU_AT
  imports CPU_P2
begin

unbundle bit_operations_syntax

text \<open>
  The approximately-timed two-stage cores (src/src/CPU_P32_2_AT.cpp and src/src/CPU_P64_2_AT.cpp, classes
  CPURV32P2_AT and CPURV64P2_AT).  They fetch with the non-blocking TLM-2.0 protocol: a request is accepted, updated or
  completed by the target's socket, and an open request is answered on the backward path through a
  payload event queue.  The socket of the target is SystemC's and is a parameter, the function a
  forward call computes.  What happens while a thread waits is a list of wake-ups: what the other
  processes do to the platform, the phases the event queue delivers, and the time since the wait
  began.  Statistics are left out.
\<close>

section \<open>The protocol\<close>

datatype tlm_phase = BEGIN_REQ | END_REQ | BEGIN_RESP | END_RESP

datatype tlm_sync_enum = TLM_ACCEPTED | TLM_UPDATED | TLM_COMPLETED

type_synonym nb_port = "tlm_phase \<Rightarrow> payload \<Rightarrow> Platform \<Rightarrow> tlm_sync_enum \<times> tlm_phase \<times> payload \<times> Platform"

record at_wake =
  wk_env :: "Platform \<Rightarrow> Platform"
  wk_phases :: "(tlm_phase \<times> payload) list"
  wk_elapsed :: nat

text \<open>The wake-ups that follow a request sent to a platform.\<close>

type_synonym at_wakes = "payload \<Rightarrow> Platform \<Rightarrow> at_wake list"

section \<open>State\<close>

text \<open>\<^verbatim>\<open>a2_buffer\<close> is the static variable \<^verbatim>\<open>instr_buffer\<close>, \<^verbatim>\<open>a2_clk\<close> the period in ns of the clock that is set, if any.\<close>

record 'T P2A =
  a2_core :: "'T CPU"
  a2_clk :: "nat option"
  a2_period :: nat
  a2_latch :: "'T P2_Latch"
  a2_next :: "'T P2_Latch"
  a2_flush :: bool
  a2_busy :: bool
  a2_fetched :: u32
  a2_buffer :: u32

definition P2A_init :: "'w::len word \<Rightarrow> bool \<Rightarrow> Platform \<Rightarrow> 'w word P2A" where
  "P2A_init PC dmi pf =
     \<lparr>a2_core = upd_hart (upd_regs (setValue 2 (of_nat (Memory_SIZE div 4 - 1)))) (CPU_init PC dmi pf),
      a2_clk = None, a2_period = 10,
      a2_latch = \<lparr>l2_instruction = 0, l2_pc = 0, l2_valid = False\<rparr>,
      a2_next = \<lparr>l2_instruction = 0, l2_pc = 0, l2_valid = False\<rparr>,
      a2_flush = False, a2_busy = False, a2_fetched = 0, a2_buffer = 0\<rparr>"

definition set_clock_AT :: "nat option \<Rightarrow> 'T P2A \<Rightarrow> 'T P2A" where
  "set_clock_AT c s = s\<lparr>a2_clk := c, a2_period := (case c of None \<Rightarrow> a2_period s | Some p \<Rightarrow> p)\<rparr>"

definition at_platform :: "'T P2A \<Rightarrow> Platform" where
  "at_platform s = platform (hart (a2_core s))"

definition put_platform :: "Platform \<Rightarrow> 'w::len word P2A \<Rightarrow> 'w word P2A" where
  "put_platform pf s = s\<lparr>a2_core := upd_hart (\<lambda>m. m\<lparr>platform := pf\<rparr>) (a2_core s)\<rparr>"

section \<open>Fetching\<close>

text \<open>A response has arrived: the word is kept and the transaction is closed.\<close>

definition end_response :: "nb_port \<Rightarrow> payload \<Rightarrow> Platform \<Rightarrow> Platform" where
  "end_response port tr pf = (case port END_RESP tr pf of (_, _, _, pf') \<Rightarrow> pf')"

definition keep_word :: "payload \<Rightarrow> 'w::len word P2A \<Rightarrow> 'w word P2A" where
  "keep_word tr s = s\<lparr>a2_buffer := of_bytes (p_data tr), a2_fetched := of_bytes (p_data tr), a2_busy := False\<rparr>"

definition peq_callback :: "nb_port \<Rightarrow> tlm_phase \<times> payload \<Rightarrow> 'w::len word P2A \<Rightarrow> sim_error + 'w word P2A" where
  "peq_callback port ev s =
     (case ev of (phase, tr) \<Rightarrow>
        (case phase of
           END_REQ \<Rightarrow> Inr s
         | BEGIN_RESP \<Rightarrow>
             (if p_response tr \<noteq> TLM_OK_RESPONSE then Inl SC_ERROR
              else Inr (put_platform (end_response port tr (at_platform s)) (keep_word tr s)))
         | _ \<Rightarrow> Inl SC_ERROR))"

fun peq_callbacks :: "nb_port \<Rightarrow> (tlm_phase \<times> payload) list \<Rightarrow> 'w::len word P2A \<Rightarrow> sim_error + 'w word P2A" where
  "peq_callbacks port [] s = Inr s"
| "peq_callbacks port (ev # evs) s = and_then (peq_callback port ev s) (peq_callbacks port evs)"

definition fetch_request :: "'w::len word \<Rightarrow> 'w word P2A \<Rightarrow> payload" where
  "fetch_request address s = (rd_payload (ucast address) 4)\<lparr>p_data := to_bytes 4 (a2_buffer s)\<rparr>"

definition initiate_fetch :: "nb_port \<Rightarrow> 'w::len word \<Rightarrow> 'w word P2A \<Rightarrow> sim_error + bool \<times> 'w word P2A" where
  "initiate_fetch port address s =
     (case port BEGIN_REQ (fetch_request address s) (at_platform s) of
        (status, phase, tr, pf) \<Rightarrow>
          (let s = put_platform pf (s\<lparr>a2_buffer := of_bytes (p_data tr)\<rparr>); ok = (p_response tr = TLM_OK_RESPONSE) in
           case status of
             TLM_ACCEPTED \<Rightarrow> Inr (True, s\<lparr>a2_busy := True\<rparr>)
           | TLM_UPDATED \<Rightarrow>
               (if phase = END_REQ then Inr (True, s\<lparr>a2_busy := True\<rparr>)
                else if phase = BEGIN_RESP \<and> ok
                then Inr (True, put_platform (end_response port tr (at_platform s)) (keep_word tr s))
                else Inr (False, s))
           | TLM_COMPLETED \<Rightarrow> (if ok then Inr (True, keep_word tr s) else Inl SC_ERROR)))"

text \<open>\<^verbatim>\<open>None\<close>: the thread still waits when the list of wake-ups ends.\<close>

fun wait_loop :: "nb_port \<Rightarrow> at_wake list \<Rightarrow> 'w::len word P2A \<Rightarrow> sim_error + 'w word P2A option" where
  "wait_loop port [] s = Inr (if a2_busy s then None else Some s)"
| "wait_loop port (w # ws) s =
     (if \<not> a2_busy s then Inr (Some s)
      else and_then (peq_callbacks port (wk_phases w) (put_platform (wk_env w (at_platform s)) s))
        (\<lambda>s. if wk_elapsed w > 100 * a2_period s then Inl SC_ERROR else wait_loop port ws s))"

definition wait_for_fetch :: "nb_port \<Rightarrow> at_wake list \<Rightarrow> 'w::len word P2A \<Rightarrow> sim_error + 'w word P2A option" where
  "wait_for_fetch port ws s =
     (if a2_busy s then if a2_clk s = None then Inl UNDEFINED_BEHAVIOUR else wait_loop port ws s
      else Inr (Some s))"

section \<open>The stages\<close>

definition load_next :: "u32 \<Rightarrow> 'w::len word \<Rightarrow> 'w word P2A \<Rightarrow> 'w word P2A" where
  "load_next instr pc s =
     s\<lparr>a2_next := \<lparr>l2_instruction = instr, l2_pc = pc, l2_valid = True\<rparr>, a2_core := inc_fetched instr (a2_core s)\<rparr>"

definition bubble :: "'w::len word P2A \<Rightarrow> 'w word P2A" where
  "bubble s = s\<lparr>a2_next := \<lparr>l2_instruction = 0, l2_pc = 0, l2_valid = False\<rparr>\<rparr>"

definition IF_stage_AT :: "nb_port \<Rightarrow> at_wakes \<Rightarrow> 'w::len word P2A \<Rightarrow> sim_error + 'w word P2A option" where
  "IF_stage_AT port wakes s =
     (if a2_flush s then Inr (Some ((bubble s)\<lparr>a2_flush := False\<rparr>))
      else
        let current_pc = getPC (regs (hart (a2_core s))) in
        if dmi_ptr_valid (a2_core s) then
          (if unat current_pc + 4 \<le> Memory_SIZE
           then Inr (Some (load_next (of_bytes (mem_read (pf_mem (at_platform s)) (unat current_pc) 4)) current_pc s))
           else Inl UNDEFINED_BEHAVIOUR)
        else
          and_then (initiate_fetch port current_pc s)
            (\<lambda>(ok, s').
               if ok then
                 and_then (wait_for_fetch port (wakes (fetch_request current_pc s) (at_platform s)) s')
                   (\<lambda>r. case r of None \<Rightarrow> Inr None | Some s \<Rightarrow> Inr (Some (load_next (a2_fetched s) current_pc s)))
               else Inr (Some (bubble s'))))"

definition EX_stage_AT :: "'w::len word P2A \<Rightarrow> sim_error + bool \<times> 'w word P2A" where
  "EX_stage_AT s =
     (if \<not> l2_valid (a2_latch s) then Inr (False, s)
      else
        and_then (execute_P2 (l2_instruction (a2_latch s)) (hart (a2_core s)))
          (\<lambda>(is_branch, pc_changed, breakpoint, m).
             Inr (breakpoint, s\<lparr>a2_core := (a2_core s)\<lparr>hart := m\<rparr>, a2_flush := (is_branch \<and> pc_changed \<or> a2_flush s)\<rparr>)))"

text \<open>The 64-bit core marks the interrupt in the top bit of its own width.\<close>

definition irq_cause_AT :: "'w::len word" where
  "irq_cause_AT = (if is_rv32 TYPE('w) then 0x80000000 else 0x8000000000000000)"

definition process_IRQ_AT :: "'w::len word P2A \<Rightarrow> bool \<times> 'w word P2A" where
  "process_IRQ_AT s =
     (let (taken, c) = cpu_process_IRQ (a2_core s) in
      if taken then
        (True, s\<lparr>a2_core := upd_hart (upd_regs (setCSR CSR_MCAUSE irq_cause_AT)) c, a2_flush := True,
                 a2_latch := (a2_latch s)\<lparr>l2_valid := False\<rparr>, a2_next := (a2_next s)\<lparr>l2_valid := False\<rparr>\<rparr>)
      else (False, s\<lparr>a2_core := c\<rparr>))"

definition call_interrupt_AT :: "payload \<Rightarrow> 'w::len word P2A \<Rightarrow> 'w word P2A" where
  "call_interrupt_AT m_trans s = s\<lparr>a2_core := call_interrupt m_trans (a2_core s)\<rparr>"

section \<open>The threads\<close>

text \<open>Both \<^verbatim>\<open>pipeline_thread\<close> and \<^verbatim>\<open>CPU_step\<close>, which the thread of the base class calls, transfer the latch and run the
  two stages; only the former polls the interrupt itself.\<close>

definition run_stages_AT :: "nb_port \<Rightarrow> at_wakes \<Rightarrow> 'w::len word P2A \<Rightarrow> sim_error + (bool \<times> 'w word P2A) option" where
  "run_stages_AT port wakes s =
     and_then (EX_stage_AT (s\<lparr>a2_latch := a2_next s\<rparr>))
       (\<lambda>(breakpoint, s). and_then (IF_stage_AT port wakes s)
         (\<lambda>r. Inr (map_option (\<lambda>s. (breakpoint, s)) r)))"

definition CPU_step_AT :: "nb_port \<Rightarrow> at_wakes \<Rightarrow> (Platform \<Rightarrow> Platform) \<Rightarrow> 'w::len word P2A \<Rightarrow>
    sim_error + (bool \<times> 'w word P2A) option" where
  "CPU_step_AT port wakes env s =
     and_then (run_stages_AT port wakes s)
       (\<lambda>r. Inr (map_option (\<lambda>(breakpoint, s). (breakpoint, put_platform (env (at_platform s)) s)) r))"

fun pipeline_thread :: "nb_port \<Rightarrow> (at_wakes \<times> (Platform \<Rightarrow> Platform)) list \<Rightarrow> 'w::len word P2A \<Rightarrow>
    sim_error + 'w word P2A option" where
  "pipeline_thread port [] s = Inr (Some s)"
| "pipeline_thread port ((wakes, env) # cs) s =
     and_then (run_stages_AT port wakes s)
       (\<lambda>r. case r of
          None \<Rightarrow> Inr None
        | Some (_, s) \<Rightarrow>
            let s = snd (process_IRQ_AT s) in
            if stopping (a2_core s) then Inr (Some s)
            else pipeline_thread port cs (put_platform (env (at_platform s)) s))"

end
