(* ===== verification/AT_Props.thy ===== *)
theory AT_Props
  imports CPU_AT P2_Props
begin

text \<open>
  The approximately-timed core against the loosely-timed one: whatever route of the non-blocking protocol
  the target takes to answer a fetch, a cycle of the pipeline is a cycle of the loosely-timed
  core in which the other processes act during the fetch.
\<close>

section \<open>Targets that answer\<close>

definition only_end_req :: "(tlm_phase \<times> payload) list \<Rightarrow> bool" where
  "only_end_req es \<longleftrightarrow> list_all (\<lambda>e. fst e = END_REQ) es"

text \<open>An open request is answered by a list of wake-ups: requests may be ended first, the response comes
  before the time-out, and nothing else arrives.\<close>

fun open_answer :: "nat \<Rightarrow> at_wake list \<Rightarrow> Platform \<Rightarrow> payload \<Rightarrow> Platform \<Rightarrow> bool" where
  "open_answer T [] pf tr pf' \<longleftrightarrow> False"
| "open_answer T (w # ws) pf tr pf' \<longleftrightarrow> wk_elapsed w \<le> 100 * T \<and>
     (if only_end_req (wk_phases w) then open_answer T ws (wk_env w pf) tr pf'
      else only_end_req (butlast (wk_phases w)) \<and> last (wk_phases w) = (BEGIN_RESP, tr) \<and> wk_env w pf = pf')"

definition delivered :: "nat \<Rightarrow> nb_port \<Rightarrow> at_wake list \<Rightarrow> payload \<Rightarrow> Platform \<Rightarrow> payload \<Rightarrow> Platform \<Rightarrow> bool" where
  "delivered T port ws tr pf tr' pf' \<longleftrightarrow>
     (case port BEGIN_REQ tr pf of
        (TLM_COMPLETED, _, t, p) \<Rightarrow> t = tr' \<and> p = pf'
      | (TLM_UPDATED, phase, t, p) \<Rightarrow>
          (if phase = BEGIN_RESP then t = tr' \<and> p = pf' else phase = END_REQ \<and> open_answer T ws p tr' pf')
      | (TLM_ACCEPTED, _, t, p) \<Rightarrow> open_answer T ws p tr' pf')"

text \<open>A target that serves the bus: every request is answered, by any route, with what the bus does after the
  other processes have acted on the platform by \<^verbatim>\<open>env\<close>; ending a response changes nothing.\<close>

definition answers :: "nat \<Rightarrow> nb_port \<Rightarrow> at_wakes \<Rightarrow> (Platform \<Rightarrow> Platform) \<Rightarrow> bool" where
  "answers T port wakes env \<longleftrightarrow> (\<forall>tr pf. end_response port tr pf = pf) \<and>
     (\<forall>tr pf tr' pf'. bus_transport bus_fuel tr (env pf) = Inr (tr', pf') \<longrightarrow> delivered T port (wakes tr pf) tr pf tr' pf')"

lemma peq_end_req: "only_end_req es \<Longrightarrow> peq_callbacks port (es @ es') s = peq_callbacks port es' s"
  by (induction es) (auto simp: only_end_req_def peq_callback_def)

lemma put_platform_simps [simp]:
  "at_platform (put_platform pf s) = pf" "a2_busy (put_platform pf s) = a2_busy s" "a2_period (put_platform pf s) = a2_period s"
  "a2_clk (put_platform pf s) = a2_clk s" "a2_fetched (put_platform pf s) = a2_fetched s" "a2_flush (put_platform pf s) = a2_flush s"
  "put_platform pf (put_platform pf' s) = put_platform pf s" "put_platform (at_platform s) s = s"
  "keep_word tr (put_platform pf s) = put_platform pf (keep_word tr s)" "at_platform (keep_word tr s) = at_platform s"
  by (simp_all add: put_platform_def at_platform_def upd_hart_def keep_word_def)

lemma keep_word_simps [simp]:
  "a2_busy (keep_word tr s) = False" "a2_fetched (keep_word tr s) = of_bytes (p_data tr)" "a2_core (keep_word tr s) = a2_core s"
  "a2_clk (keep_word tr s) = a2_clk s" "a2_period (keep_word tr s) = a2_period s" "a2_flush (keep_word tr s) = a2_flush s"
  "keep_word tr (s\<lparr>a2_busy := b\<rparr>) = keep_word tr s" "keep_word tr (s\<lparr>a2_buffer := x\<rparr>) = keep_word tr s"
  by (simp_all add: keep_word_def)

lemma wait_loop_open:
  assumes e: "\<forall>tr pf. end_response port tr pf = pf" and ok: "p_response tr = TLM_OK_RESPONSE"
  shows "open_answer (a2_period s) ws (at_platform s) tr pf' \<Longrightarrow> a2_busy s \<Longrightarrow>
     wait_loop port ws s = Inr (Some (put_platform pf' (keep_word tr s)))"
proof (induction ws arbitrary: s)
  case (Cons w ws)
  let ?s = "put_platform (wk_env w (at_platform s)) s"
  show ?case
  proof (cases "only_end_req (wk_phases w)")
    case True
    then have "peq_callbacks port (wk_phases w) ?s = Inr ?s" using peq_end_req[OF True, of port "[]" ?s] by simp
    then show ?thesis using Cons.prems Cons.IH[of ?s] True by simp
  next
    case False
    then have ne: "wk_phases w \<noteq> []" by (auto simp: only_end_req_def)
    have a: "only_end_req (butlast (wk_phases w))" "last (wk_phases w) = (BEGIN_RESP, tr)" "wk_env w (at_platform s) = pf'"
      using Cons.prems(1) False by simp_all
    have "peq_callbacks port (wk_phases w) ?s = peq_callbacks port [(BEGIN_RESP, tr)] ?s"
      using peq_end_req[OF a(1), of port "[(BEGIN_RESP, tr)]" ?s] a(2) ne by (metis append_butlast_last_id)
    then have "peq_callbacks port (wk_phases w) ?s = Inr (put_platform pf' (keep_word tr s))"
      using e ok a(3) by (simp add: peq_callback_def)
    then show ?thesis using Cons.prems by (cases ws) simp_all
  qed
qed simp

lemma fetch_delivered:
  fixes s :: "'w::len word P2A"
  assumes e: "\<forall>tr pf. end_response port tr pf = pf" and ok: "p_response tr = TLM_OK_RESPONSE"
    and d: "delivered (a2_period s) port ws (fetch_request pc s) (at_platform s) tr pf'" and s: "\<not> a2_busy s" "a2_clk s \<noteq> None"
  shows "and_then (initiate_fetch port pc s) (\<lambda>(ok, s'). if ok then and_then (wait_for_fetch port ws s') f else g s') =
     f (Some (put_platform pf' (keep_word tr s)))"
proof -
  obtain st ph t p where r: "port BEGIN_REQ (fetch_request pc s) (at_platform s) = (st, ph, t, p)" by (metis surj_pair)
  let ?s = "put_platform p (s\<lparr>a2_buffer := of_bytes (p_data t), a2_busy := True\<rparr>)"
  have w: "wait_for_fetch port ws ?s = Inr (Some (put_platform pf' (keep_word tr s)))" if "open_answer (a2_period s) ws p tr pf'"
    using wait_loop_open[OF e ok, of ?s ws pf'] that s by (simp add: wait_for_fetch_def)
  have p: "put_platform q (s\<lparr>a2_buffer := b\<rparr>)\<lparr>a2_busy := c\<rparr> = put_platform q (s\<lparr>a2_buffer := b, a2_busy := c\<rparr>)" for q b c
    by (simp add: put_platform_def)
  show ?thesis
    using d ok s w e unfolding delivered_def initiate_fetch_def r
    by (auto simp: Let_def p wait_for_fetch_def[of port ws "put_platform pf' (keep_word tr s)"] split: tlm_sync_enum.splits if_splits)
qed

section \<open>The cycle\<close>

definition at_ready :: "'T P2A \<Rightarrow> bool" where
  "at_ready s \<longleftrightarrow> \<not> a2_busy s \<and> a2_clk s \<noteq> None \<and>
     \<not> dmi_ptr_valid (a2_core s) \<and> \<not> mem_dmi_allowed (a2_core s) \<and> \<not> trans_dmi_allowed (a2_core s)"

definition at_abs :: "'T P2A \<Rightarrow> 'T P2" where
  "at_abs s = \<lparr>p2_core = (a2_core s)\<lparr>INSTR := l2_instruction (a2_next s)\<rparr>, p2_pc = l2_pc (a2_next s), p2_valid = l2_valid (a2_next s),
     p2_flush = a2_flush s\<rparr>"

text \<open>A cycle of the loosely-timed core in which the other processes act while it fetches; fetching outside DRAM is not
  considered.\<close>

definition delay_P2 :: "(Platform \<Rightarrow> Platform) \<Rightarrow> 'w::len word P2 \<Rightarrow> 'w word P2" where
  "delay_P2 env s = s\<lparr>p2_core := upd_hart (\<lambda>m. m\<lparr>platform := env (platform m)\<rparr>) (p2_core s)\<rparr>"

definition lt_cycle :: "(Platform \<Rightarrow> Platform) \<Rightarrow> 'w::len word P2 \<Rightarrow> sim_error + 'w word P2" where
  "lt_cycle env s =
     and_then (EX_stage_P2 s)
       (\<lambda>(_, s). if p2_flush s then and_then (IF_stage_P2 s) (\<lambda>s. Inr (snd (process_IRQ_P2 s)))
         else if fetches_dram s
         then and_then (IF_stage_P2 (delay_P2 env s)) (\<lambda>s. Inr (snd (process_IRQ_P2 s)))
         else Inl UNDEFINED_BEHAVIOUR)"

lemma ex_stage_at:
  "EX_stage_P2 (at_abs s) = Inr (b, t) \<Longrightarrow> at_ready s \<Longrightarrow>
     \<exists>s'. EX_stage_AT (s\<lparr>a2_latch := a2_next s\<rparr>) = Inr (b, s') \<and> at_abs s' = t \<and> at_ready s' \<and> a2_period s' = a2_period s"
  by (cases "execute_P2 (l2_instruction (a2_next s)) (hart (a2_core s))")
    (auto simp: EX_stage_P2_def EX_stage_AT_def at_abs_def at_ready_def split: if_splits)

lemma fetch_dram_no_dmi:
  fixes c :: "'w::len word CPU"
  assumes "\<not> dmi_ptr_valid c" "\<not> mem_dmi_allowed c" "\<not> trans_dmi_allowed c" "dram_range (ucast (getPC (regs (hart c)))) 4"
  shows "fetch c = Inr (c\<lparr>INSTR := of_bytes (mem_read (pf_mem (platform (hart c))) (dram_offset (ucast (getPC (regs (hart c))))) 4)\<rparr>)"
proof -
  let ?a = "ucast (getPC (regs (hart c))) :: u64" and ?pf = "platform (hart c)"
  let ?t = "(rd_payload ?a 4)\<lparr>p_data := to_bytes 4 (INSTR c)\<rparr>"
  have "bus_transport bus_fuel ?t ?pf = Inr (with_response TLM_OK_RESPONSE (?t\<lparr>p_data := mem_read (pf_mem ?pf) (dram_offset ?a) 4\<rparr>), ?pf)"
    using bus_dram[of ?t bus_fuel ?pf] assms(4) by (simp add: rd_payload_def)
  then show ?thesis using assms(1-3) unfolding fetch_def Let_def by (cases c) (simp add: upd_hart_def)
qed

lemma if_stage_at:
  fixes s :: "'w::len word P2A"
  assumes r: "at_ready s" and a: "answers (a2_period s) port wakes env" and f: "\<not> a2_flush s"
    and d: "dram_range (ucast (getPC (regs (hart (a2_core s))))) 4"
  shows "\<exists>s'. IF_stage_AT port wakes s = Inr (Some s') \<and> IF_stage_P2 (delay_P2 env (at_abs s)) = Inr (at_abs s') \<and> at_ready s' \<and>
     a2_period s' = a2_period s"
proof -
  let ?pc = "getPC (regs (hart (a2_core s)))" and ?pf = "env (at_platform s)"
  let ?bs = "mem_read (pf_mem ?pf) (dram_offset (ucast ?pc)) 4" and ?tr = "fetch_request ?pc s"
  let ?t = "with_response TLM_OK_RESPONSE (?tr\<lparr>p_data := ?bs\<rparr>)"
  have b: "bus_transport bus_fuel ?tr ?pf = Inr (?t, ?pf)"
    using bus_dram[of ?tr bus_fuel ?pf] d by (simp add: fetch_request_def rd_payload_def)
  have e: "\<forall>tr pf. end_response port tr pf = pf" using a by (simp add: answers_def)
  have dl: "delivered (a2_period s) port (wakes ?tr (at_platform s)) ?tr (at_platform s) ?t ?pf" using a b by (simp add: answers_def)
  let ?s = "load_next (of_bytes ?bs) ?pc (put_platform ?pf (keep_word ?t s))"
  have i: "IF_stage_AT port wakes s = Inr (Some ?s)"
    using r f fetch_delivered[OF e _ dl, of "\<lambda>r. case r of None \<Rightarrow> Inr None | Some s \<Rightarrow> Inr (Some (load_next (a2_fetched s) ?pc s))"
        "\<lambda>s. Inr (Some (bubble s))"]
    by (simp add: IF_stage_AT_def at_ready_def Let_def)
  let ?c = "p2_core (delay_P2 env (at_abs s))"
  have "\<not> dmi_ptr_valid ?c" "\<not> mem_dmi_allowed ?c" "\<not> trans_dmi_allowed ?c" "dram_range (ucast (getPC (regs (hart ?c)))) 4"
    using r d by (simp_all add: at_ready_def delay_P2_def at_abs_def upd_hart_def)
  from fetch_dram_no_dmi[OF this] have "fetch ?c = Inr (?c\<lparr>INSTR := of_bytes ?bs\<rparr>)"
    by (simp add: delay_P2_def at_abs_def upd_hart_def at_platform_def)
  then have "IF_stage_P2 (delay_P2 env (at_abs s)) = Inr (at_abs ?s)"
    using f by (simp add: IF_stage_P2_def load_next_def at_abs_def delay_P2_def put_platform_def keep_word_def p2_regs_def
        inc_fetched_def upd_hart_def upd_regs_def at_platform_def)
  moreover have "at_ready ?s" "a2_period ?s = a2_period s"
    using r by (simp_all add: at_ready_def load_next_def put_platform_def inc_fetched_def upd_hart_def)
  ultimately show ?thesis using i by blast
qed

lemma irq_at:
  fixes s :: "u32 P2A"
  assumes "at_ready s"
  shows "at_abs (snd (process_IRQ_AT s)) = snd (process_IRQ_P2 (at_abs s))" "at_ready (snd (process_IRQ_AT s))"
    "a2_period (snd (process_IRQ_AT s)) = a2_period s"
  using assms
  by (auto simp: process_IRQ_AT_def process_IRQ_P2_def cpu_process_IRQ_def at_abs_def at_ready_def irq_cause_AT_def setCSR_def setPC_def getPC_def
      upd_hart_def upd_regs_def Let_def)

lemma cycle_at:
  fixes s :: "u32 P2A"
  assumes r: "at_ready s" and a: "answers (a2_period s) port wakes env" and l: "lt_cycle env (at_abs s) = Inr t"
  obtains b s' where "run_stages_AT port wakes s = Inr (Some (b, s'))" "at_abs (snd (process_IRQ_AT s')) = t"
    "at_ready (snd (process_IRQ_AT s'))" "a2_period (snd (process_IRQ_AT s')) = a2_period s"
proof -
  obtain b t1 where e: "EX_stage_P2 (at_abs s) = Inr (b, t1)" using l by (cases "EX_stage_P2 (at_abs s)") (auto simp: lt_cycle_def)
  obtain s1 where s1: "EX_stage_AT (s\<lparr>a2_latch := a2_next s\<rparr>) = Inr (b, s1)" "at_abs s1 = t1" "at_ready s1" "a2_period s1 = a2_period s"
    using ex_stage_at[OF e r] by blast
  have "\<exists>s'. IF_stage_AT port wakes s1 = Inr (Some s') \<and> at_ready s' \<and> a2_period s' = a2_period s \<and>
      snd (process_IRQ_P2 (at_abs s')) = t"
  proof (cases "a2_flush s1")
    case True
    then show ?thesis using s1 l e
      by (auto simp: lt_cycle_def at_abs_def IF_stage_AT_def IF_stage_P2_def bubble_def at_ready_def)
  next
    case False
    then have d: "dram_range (ucast (getPC (regs (hart (a2_core s1))))) 4"
      using l e s1(2) by (auto simp: lt_cycle_def fetches_dram_def at_abs_def p2_regs_def split: if_splits)
    show ?thesis using if_stage_at[OF s1(3) _ False d, of port wakes env] a s1 l e False d
      by (auto simp: lt_cycle_def fetches_dram_def at_abs_def p2_regs_def split: if_splits)
  qed
  then obtain s' where s': "IF_stage_AT port wakes s1 = Inr (Some s')" "at_ready s'" "a2_period s' = a2_period s"
    "snd (process_IRQ_P2 (at_abs s')) = t" by blast
  have "run_stages_AT port wakes s = Inr (Some (b, s'))" using s1(1) s'(1) by (simp add: run_stages_AT_def)
  then show thesis using that irq_at[OF s'(2)] s'(3,4) by simp
qed

text \<open>A run of the loosely-timed core: the other processes act during the fetch of each cycle and between cycles.\<close>

fun lt_run :: "((Platform \<Rightarrow> Platform) \<times> (Platform \<Rightarrow> Platform)) list \<Rightarrow> 'w::len word P2 \<Rightarrow> sim_error + 'w word P2" where
  "lt_run [] s = Inr s"
| "lt_run ((during, after) # es) s =
     and_then (lt_cycle during s) (\<lambda>s. if stopping (p2_core s) then Inr s else lt_run es (delay_P2 after s))"

definition same_env :: "nat \<Rightarrow> nb_port \<Rightarrow> at_wakes \<times> (Platform \<Rightarrow> Platform) \<Rightarrow> (Platform \<Rightarrow> Platform) \<times> (Platform \<Rightarrow> Platform) \<Rightarrow> bool" where
  "same_env T port c e \<longleftrightarrow> snd c = snd e \<and> answers T port (fst c) (fst e)"

lemma delay_at: "at_ready s \<Longrightarrow> at_abs (put_platform (env (at_platform s)) s) = delay_P2 env (at_abs s)"
  "at_ready s \<Longrightarrow> at_ready (put_platform pf s)"
  by (simp_all add: at_abs_def at_ready_def put_platform_def delay_P2_def upd_hart_def at_platform_def)

lemma thread_at:
  fixes s :: "u32 P2A"
  shows "list_all2 (same_env (a2_period s) port) cs es \<Longrightarrow> at_ready s \<Longrightarrow> lt_run es (at_abs s) = Inr t \<Longrightarrow>
     \<exists>s'. pipeline_thread port cs s = Inr (Some s') \<and> at_abs s' = t"
proof (induction cs arbitrary: es s)
  case (Cons c cs)
  obtain wakes after where c: "c = (wakes, after)" by (cases c)
  obtain e es'' where "es = e # es''" "same_env (a2_period s) port c e" "list_all2 (same_env (a2_period s) port) cs es''"
    using Cons.prems(1) by (auto simp: list_all2_Cons1)
  then obtain during es' where es: "es = (during, after) # es'" "answers (a2_period s) port wakes during" "list_all2 (same_env (a2_period s) port) cs es'"
    using c by (cases e) (auto simp: same_env_def)
  obtain t1 where t1: "lt_cycle during (at_abs s) = Inr t1" using Cons.prems(3) es(1) by (cases "lt_cycle during (at_abs s)") auto
  obtain b s1 where s1: "run_stages_AT port wakes s = Inr (Some (b, s1))" "at_abs (snd (process_IRQ_AT s1)) = t1"
    "at_ready (snd (process_IRQ_AT s1))" "a2_period (snd (process_IRQ_AT s1)) = a2_period s"
    by (rule cycle_at[OF Cons.prems(2) es(2) t1])
  let ?u = "snd (process_IRQ_AT s1)"
  have st: "stopping (a2_core ?u) = stopping (p2_core t1)" using s1(2) by (auto simp: at_abs_def stopping_def)
  show ?case
  proof (cases "stopping (p2_core t1)")
    case True
    then show ?thesis using s1 t1 es(1) c st Cons.prems(3) by (simp add: Let_def)
  next
    case False
    let ?v = "put_platform (after (at_platform ?u)) ?u"
    have "lt_run es' (at_abs ?v) = Inr t" using Cons.prems(3) t1 es(1) False s1(2) delay_at(1)[OF s1(3)] by simp
    then have "\<exists>s'. pipeline_thread port cs ?v = Inr (Some s') \<and> at_abs s' = t"
      using Cons.IH[of ?v es'] es(3) s1(4) delay_at(2)[OF s1(3)] by simp
    then show ?thesis using s1(1) c st False by (simp add: Let_def)
  qed
qed simp

section \<open>Running programs\<close>

lemma lt_run_turn:
  fixes s :: "'a::len word P2"
  assumes "EX_stage_P2 s = Inr (b, s1)" "fetches_dram s1" "IF_stage_P2 s1 = Inr s2" "p2_rel P st s2"
  shows "\<exists>s'. (\<forall>n. lt_run (replicate (Suc n) (id, id)) s = lt_run (replicate n (id, id)) s') \<and> p2_rel P st s' \<and> p2_valid s' = p2_valid s2"
proof -
  let ?u = "snd (process_IRQ_P2 s2)"
  have d: "delay_P2 id t = t" for t :: "'a::len word P2" by (simp add: delay_P2_def upd_hart_def)
  have r: "p2_rel P st ?u" by (rule p2_rel_irq[OF assms(4)])
  then have ns: "\<not> stopping (p2_core ?u)" by (simp add: p2_rel_def quiet_def)
  have "p2_valid ?u = p2_valid s2"
    using assms(4) by (simp add: p2_rel_def quiet_def process_IRQ_P2_def cpu_process_IRQ_def Let_def)
  moreover have "lt_run (replicate (Suc n) (id, id)) s = lt_run (replicate n (id, id)) ?u" for n
    using assms(1-3) ns by (simp add: lt_cycle_def d)
  ultimately show ?thesis using r by blast
qed

interpretation lt_stages: p2_driver "\<lambda>n. lt_run (replicate n (id, id))"
  by unfold_locales (simp, rule lt_run_turn)

section \<open>Properties\<close>


text \<open>A target that accepts every request, ends it after 10 ns and responds after 20 ns.\<close>

definition accept_port :: nb_port where
  "accept_port phase tr pf = (TLM_ACCEPTED, phase, tr, pf)"

definition slow_wakes :: at_wakes where
  "slow_wakes tr pf =
     \<lparr>wk_env = id, wk_phases = [(END_REQ, tr)], wk_elapsed = 10\<rparr> #
     (case bus_transport bus_fuel tr pf of
        Inl _ \<Rightarrow> []
      | Inr (tr', pf') \<Rightarrow> [\<lparr>wk_env = (\<lambda>_. pf'), wk_phases = [(BEGIN_RESP, tr')], wk_elapsed = 20\<rparr>])"

lemma slow_target_answers: "answers 10 accept_port slow_wakes id"
  by (simp add: answers_def end_response_def accept_port_def delivered_def slow_wakes_def only_end_req_def)


end
