(* ===== verification/FP_Rounding.thy ===== *)
theory FP_Rounding
  imports IEEE754
begin

text \<open>
  The rounding of the arithmetic is the one IEEE 754 prescribes: the result is the representable number the rounding
  direction selects for the exact real value.
\<close>

section \<open>Values\<close>

definition mag :: "nat \<Rightarrow> int \<Rightarrow> real" where
  "mag m e = real m * 2 powi e"

fun fp_val :: "fp \<Rightarrow> real" where
  "fp_val (Num s m e) = (if s then - mag m e else mag m e)"
| "fp_val _ = 0"

fun is_number :: "fp \<Rightarrow> bool" where "is_number (Num _ _ _) = True" | "is_number _ = False"

text \<open>The representable magnitudes when the exponent is not bounded above.\<close>

definition representable :: "fp_format \<Rightarrow> real \<Rightarrow> bool" where
  "representable F y \<longleftrightarrow> (\<exists>m e. m < 2 ^ fp_prec F \<and> fp_emin F \<le> e \<and> \<bar>y\<bar> = mag m e)"

definition canonical :: "fp_format \<Rightarrow> nat \<Rightarrow> int \<Rightarrow> bool" where
  "canonical F m e \<longleftrightarrow> m < 2 ^ fp_prec F \<and> fp_emin F \<le> e \<and> (e = fp_emin F \<or> 2 ^ (fp_prec F - 1) \<le> m)"

definition even_last :: "fp_format \<Rightarrow> real \<Rightarrow> bool" where
  "even_last F y \<longleftrightarrow> (\<exists>m e. even m \<and> canonical F m e \<and> \<bar>y\<bar> = mag m e)"

text \<open>The four rounding directions.\<close>

definition rounded :: "fp_format \<Rightarrow> fe_round \<Rightarrow> real \<Rightarrow> real \<Rightarrow> bool" where
  "rounded F md x w \<longleftrightarrow> representable F w \<and>
     (case md of
        FE_TONEAREST \<Rightarrow> (\<forall>y. representable F y \<longrightarrow> \<bar>w - x\<bar> \<le> \<bar>y - x\<bar>) \<and>
          ((\<exists>y. representable F y \<and> y \<noteq> w \<and> \<bar>y - x\<bar> = \<bar>w - x\<bar>) \<longrightarrow> even_last F w)
      | FE_TOWARDZERO \<Rightarrow> 0 \<le> w * x \<and> \<bar>w\<bar> \<le> \<bar>x\<bar> \<and> (\<forall>y. representable F y \<and> \<bar>y\<bar> \<le> \<bar>x\<bar> \<longrightarrow> \<bar>y\<bar> \<le> \<bar>w\<bar>)
      | FE_DOWNWARD \<Rightarrow> w \<le> x \<and> (\<forall>y. representable F y \<and> y \<le> x \<longrightarrow> y \<le> w)
      | FE_UPWARD \<Rightarrow> x \<le> w \<and> (\<forall>y. representable F y \<and> x \<le> y \<longrightarrow> w \<le> y))"

lemma mag_nonneg [simp]: "0 \<le> mag m e"
  by (simp add: mag_def)

lemma mag_0 [simp]: "mag 0 e = 0"
  by (simp add: mag_def)

lemma mag_less_iff [simp]: "mag m e < mag n e \<longleftrightarrow> m < n"
  by (simp add: mag_def)

lemma mag_le_iff [simp]: "mag m e \<le> mag n e \<longleftrightarrow> m \<le> n"
  by (simp add: mag_def)

lemma powi_nat: "t \<le> e \<Longrightarrow> (2 :: real) ^ nat (e - t) * 2 powi t = 2 powi e"
proof -
  assume "t \<le> e"
  then have "(2 :: real) ^ nat (e - t) * 2 powi t = 2 powi (e - t) * 2 powi t" by (simp add: power_int_def)
  also have "\<dots> = 2 powi e" by (simp flip: power_int_add)
  finally show ?thesis .
qed

lemma mag_shift: "t \<le> e \<Longrightarrow> mag (m * 2 ^ nat (e - t)) t = mag m e"
  using powi_nat[of t e] by (simp add: mag_def)

lemma mag_double: "mag (2 * m) t = mag m (t + 1)"
  by (simp add: mag_def power_int_add)

lemma representable_neg [simp]: "representable F (- y) = representable F y"
  by (simp add: representable_def)

lemma canonical_representable: "canonical F m e \<Longrightarrow> representable F (mag m e)"
  by (auto simp: canonical_def representable_def)

section \<open>Neighbours\<close>

lemma no_representable_between:
  assumes p: "0 < fp_prec F" and t: "fp_emin F \<le> t" "t = fp_emin F \<or> 2 ^ (fp_prec F - 1) \<le> q" and y: "representable F y"
  shows "\<bar>y\<bar> \<le> mag q t \<or> mag (q + 1) t \<le> \<bar>y\<bar>"
proof -
  obtain m e where m: "m < 2 ^ fp_prec F" "fp_emin F \<le> e" "\<bar>y\<bar> = mag m e" using y by (auto simp: representable_def)
  show ?thesis
  proof (cases "t \<le> e")
    case True
    then have "\<bar>y\<bar> = mag (m * 2 ^ nat (e - t)) t" using m(3) mag_shift by simp
    then show ?thesis by (simp only: mag_le_iff) linarith
  next
    case False
    then have q: "2 ^ (fp_prec F - 1) \<le> q" using t m(2) by auto
    have "mag m e \<le> mag (2 ^ fp_prec F) e" using m(1) by (simp del: mag_le_iff add: mag_le_iff)
    also have "\<dots> = mag (2 ^ (fp_prec F - 1)) (e + 1)" using p by (simp flip: mag_double power_Suc)
    also have "\<dots> \<le> mag (2 ^ (fp_prec F - 1)) t"
      using False by (auto simp: mag_def intro!: mult_left_mono power_int_increasing)
    also have "\<dots> \<le> mag q t" using q by simp
    finally show ?thesis using m(3) by simp
  qed
qed

text \<open>A magnitude between two neighbours, one of which is chosen.\<close>

definition bracket :: "fp_format \<Rightarrow> real \<Rightarrow> real \<Rightarrow> real \<Rightarrow> bool" where
  "bracket F L a U \<longleftrightarrow> 0 \<le> L \<and> L \<le> a \<and> a < U \<and> representable F L \<and> representable F U \<and>
     (\<forall>y. representable F y \<longrightarrow> \<bar>y\<bar> \<le> L \<or> U \<le> \<bar>y\<bar>)"

lemma round_down_magnitude:
  assumes b: "bracket F L a U" and x: "x = (if s then - a else a)" and w: "w = (if s then - L else L)"
    and md: "md = FE_TOWARDZERO \<or> md = FE_DOWNWARD \<and> (\<not> s \<or> a = L) \<or> md = FE_UPWARD \<and> (s \<or> a = L) \<or>
      md = FE_TONEAREST \<and> 2 * a \<le> L + U \<and> (2 * a = L + U \<longrightarrow> even_last F L)"
  shows "rounded F md x w"
proof -
  have r: "representable F w" using b w by (simp add: bracket_def)
  have n: "\<bar>y\<bar> \<le> L \<or> U \<le> \<bar>y\<bar>" if "representable F y" for y using b that by (simp add: bracket_def)
  have la: "0 \<le> L" "L \<le> a" "a < U" using b by (simp_all add: bracket_def)
  have d: "\<bar>w - x\<bar> = a - L" using x w la by auto
  show ?thesis
  proof (cases md)
    case FE_TONEAREST
    have near: "\<bar>w - x\<bar> \<le> \<bar>y - x\<bar>" if "representable F y" for y
      using n[OF that] md FE_TONEAREST d x la by auto
    have tie: "even_last F w" if "representable F y" "y \<noteq> w" "\<bar>y - x\<bar> = \<bar>w - x\<bar>" for y
    proof (cases "2 * a = L + U")
      case True
      then show ?thesis using md FE_TONEAREST w by (auto simp: even_last_def)
    next
      case False
      then have "2 * a < L + U" using md FE_TONEAREST by auto
      then show ?thesis using n[OF that(1)] that(2,3) d x w la by (auto split: if_splits)
    qed
    show ?thesis using r near tie FE_TONEAREST by (auto simp: rounded_def)
  next
    case FE_TOWARDZERO
    then show ?thesis using r n la x w by (fastforce simp: rounded_def)
  next
    case FE_DOWNWARD
    then have c: "\<not> s \<or> a = L" using md by auto
    have "y \<le> w" if "representable F y" "y \<le> x" for y using n[OF that(1)] that(2) c x w la by auto
    then show ?thesis using r c x w la FE_DOWNWARD by (auto simp: rounded_def)
  next
    case FE_UPWARD
    then have c: "s \<or> a = L" using md by auto
    have "w \<le> y" if "representable F y" "x \<le> y" for y using n[OF that(1)] that(2) c x w la by auto
    then show ?thesis using r c x w la FE_UPWARD by (auto simp: rounded_def)
  qed
qed

lemma round_up_magnitude:
  assumes b: "bracket F L a U" and ne: "a \<noteq> L" and x: "x = (if s then - a else a)" and w: "w = (if s then - U else U)"
    and md: "md = FE_DOWNWARD \<and> s \<or> md = FE_UPWARD \<and> \<not> s \<or>
      md = FE_TONEAREST \<and> L + U \<le> 2 * a \<and> (2 * a = L + U \<longrightarrow> even_last F U)"
  shows "rounded F md x w"
proof -
  have r: "representable F w" using b w by (simp add: bracket_def)
  have n: "\<bar>y\<bar> \<le> L \<or> U \<le> \<bar>y\<bar>" if "representable F y" for y using b that by (simp add: bracket_def)
  have la: "0 \<le> L" "L < a" "a < U" using b ne by (simp_all add: bracket_def)
  have d: "\<bar>w - x\<bar> = U - a" using x w la by auto
  show ?thesis
  proof (cases md)
    case FE_TONEAREST
    have near: "\<bar>w - x\<bar> \<le> \<bar>y - x\<bar>" if "representable F y" for y
      using n[OF that] md FE_TONEAREST d x la by auto
    have tie: "even_last F w" if "representable F y" "y \<noteq> w" "\<bar>y - x\<bar> = \<bar>w - x\<bar>" for y
    proof (cases "2 * a = L + U")
      case True
      then show ?thesis using md FE_TONEAREST w by (auto simp: even_last_def)
    next
      case False
      then have "L + U < 2 * a" using md FE_TONEAREST by auto
      then show ?thesis using n[OF that(1)] that(2,3) d x w la by (auto split: if_splits)
    qed
    show ?thesis using r near tie FE_TONEAREST by (auto simp: rounded_def)
  next
    case FE_TOWARDZERO
    then show ?thesis using md by simp
  next
    case FE_DOWNWARD
    then have c: s using md by auto
    have "y \<le> w" if "representable F y" "y \<le> x" for y using n[OF that(1)] that(2) c x w la by auto
    then show ?thesis using r c x w la FE_DOWNWARD by (auto simp: rounded_def)
  next
    case FE_UPWARD
    then have c: "\<not> s" using md by auto
    have "w \<le> y" if "representable F y" "x \<le> y" for y using n[OF that(1)] that(2) c x w la by auto
    then show ?thesis using r c x w la FE_UPWARD by (auto simp: rounded_def)
  qed
qed

section \<open>Cutting off\<close>

lemma nbits_bounds: "0 < n \<Longrightarrow> 2 ^ (nbits n - 1) \<le> n \<and> n < 2 ^ nbits n \<and> 0 < nbits n"
proof (induction n rule: nbits.induct)
  case (1 n)
  show ?case
  proof (cases "n div 2 = 0")
    case True
    then have "n = 1" using 1(2) by linarith
    then show ?thesis by (simp add: nbits.simps)
  next
    case False
    then have h: "2 ^ (nbits (n div 2) - 1) \<le> n div 2" "n div 2 < 2 ^ nbits (n div 2)" "0 < nbits (n div 2)" using 1 by simp_all
    have "nbits n = Suc (nbits (n div 2))" using 1(2) by (simp add: nbits.simps[of n])
    moreover have "2 ^ nbits (n div 2) = 2 * (2 :: nat) ^ (nbits (n div 2) - 1)" using h(3) by (simp flip: power_Suc)
    ultimately show ?thesis using h by simp linarith
  qed
qed

text \<open>The exact magnitude: a significand, and something strictly less than one unit more if the sticky bit is set.\<close>

definition exact_mag :: "nat \<Rightarrow> int \<Rightarrow> bool \<Rightarrow> real \<Rightarrow> bool" where
  "exact_mag m e sticky a \<longleftrightarrow> (if sticky then mag m e < a \<and> a < mag (m + 1) e else a = mag m e)"

lemma cut_canonical:
  fixes e :: int
  assumes "0 < m" "0 < fp_prec F"
  defines "t \<equiv> fp_ulp F m e"
  shows "canonical F (m * 2 ^ nat (e - t) div 2 ^ nat (t - e)) t"
proof -
  let ?p = "fp_prec F" and ?n = "nbits m"
  have b: "2 ^ (?n - 1) \<le> m" "m < 2 ^ ?n" "0 < ?n" using nbits_bounds[OF assms(1)] by simp_all
  have t: "t = max (e + int ?n - int ?p) (fp_emin F)" by (simp add: t_def fp_ulp_def)
  show ?thesis
  proof (cases "e < t")
    case True
    let ?k = "nat (t - e)"
    have "m < 2 ^ (?p + ?k)" using b(2) power_increasing[of ?n "?p + ?k" "2 :: nat"] t by linarith
    then have "m div 2 ^ ?k < 2 ^ ?p" by (simp add: power_add less_mult_imp_div_less)
    moreover have "2 ^ (?p - 1) \<le> m div 2 ^ ?k" if "t \<noteq> fp_emin F"
    proof -
      have "?n - 1 = (?p - 1) + ?k" using that t True assms(2) b(3) by linarith
      then have "(2 :: nat) ^ (?p - 1) = 2 ^ (?n - 1) div 2 ^ ?k" by (simp add: power_add)
      then show ?thesis using div_le_mono[OF b(1), of "2 ^ ?k"] by simp
    qed
    moreover have "fp_emin F \<le> t" unfolding t by simp
    moreover have "nat (e - t) = 0" using True by simp
    ultimately show ?thesis by (auto simp: canonical_def)
  next
    case False
    let ?j = "nat (e - t)"
    have "m * 2 ^ ?j < 2 ^ ?n * 2 ^ ?j" using b(2) by simp
    also have "\<dots> \<le> 2 ^ ?p" using False t by (simp flip: power_add)
    finally have "m * 2 ^ ?j < 2 ^ ?p" .
    moreover have "2 ^ (?p - 1) \<le> m * 2 ^ ?j" if "t \<noteq> fp_emin F"
    proof -
      have "?p - 1 = ?n - 1 + ?j" using that t False assms(2) b(3) by linarith
      then have "(2 :: nat) ^ (?p - 1) = 2 ^ (?n - 1) * 2 ^ ?j" by (simp add: power_add)
      then show ?thesis using b(1) by simp
    qed
    moreover have "fp_emin F \<le> t" unfolding t by simp
    moreover have "nat (t - e) = 0" using False by simp
    ultimately show ?thesis by (auto simp: canonical_def)
  qed
qed

lemma cut_fraction:
  assumes a: "exact_mag m e sticky a" "sticky \<longrightarrow> e < t"
  defines "n \<equiv> m * 2 ^ nat (e - t)" and "k \<equiv> nat (t - e)"
  obtains d where "0 \<le> d" "d < 1" "d = 0 \<longleftrightarrow> \<not> sticky" "k = 0 \<Longrightarrow> d = 0"
    "a = (real (n div 2 ^ k) + (real (n mod 2 ^ k) + d) / 2 ^ k) * 2 powi t"
proof (cases "e < t")
  case True
  let ?d = "a / 2 powi e - real m"
  have n: "n = m" using True by (simp add: n_def)
  have p: "(0 :: real) < 2 powi e" by simp
  have "0 \<le> ?d" "?d < 1" "?d = 0 \<longleftrightarrow> \<not> sticky"
    using a(1) p by (auto simp: exact_mag_def mag_def field_simps split: if_splits)
  moreover have "a = (real (n div 2 ^ k) + (real (n mod 2 ^ k) + ?d) / 2 ^ k) * 2 powi t"
  proof -
    have "real m = real (m div 2 ^ k) * 2 ^ k + real (m mod 2 ^ k)"
      using arg_cong[OF div_mult_mod_eq[of m "2 ^ k"], of real, symmetric] by simp
    then have "a = (real (m div 2 ^ k) * 2 ^ k + real (m mod 2 ^ k) + ?d) * 2 powi e" by simp
    also have "\<dots> = (real (m div 2 ^ k) + (real (m mod 2 ^ k) + ?d) / 2 ^ k) * (2 ^ k * 2 powi e)" by (simp add: field_simps)
    finally show ?thesis using powi_nat[of e t] True by (simp add: n k_def)
  qed
  moreover have "k \<noteq> 0" using True by (simp add: k_def)
  ultimately show ?thesis using that[of ?d] by blast
next
  case False
  then have "k = 0" "\<not> sticky" using a(2) by (simp_all add: k_def)
  moreover from this have "a = mag n t" using a(1) mag_shift[of t e m] False by (simp add: exact_mag_def n_def)
  ultimately show ?thesis using that[of 0] by (simp add: mag_def)
qed

lemma cut_bracket:
  assumes q: "canonical F q t" and p: "2 \<le> fp_prec F" and f: "0 \<le> f" "f < 1" "a = (real q + f) * 2 powi t"
  shows "bracket F (mag q t) a (mag (q + 1) t)" "even_last F (mag q t) \<or> odd q" "odd q \<Longrightarrow> even_last F (mag (q + 1) t)"
proof -
  have up: "\<exists>m e. canonical F m e \<and> mag (q + 1) t = mag m e \<and> (odd q \<longrightarrow> even m)"
  proof (cases "q + 1 < 2 ^ fp_prec F")
    case True
    then show ?thesis using q by (intro exI[of _ "q + 1"] exI[of _ t]) (auto simp: canonical_def)
  next
    case False
    then have e: "q + 1 = 2 * 2 ^ (fp_prec F - 1)" using q p by (simp add: canonical_def flip: power_Suc)
    have "mag (q + 1) t = mag (2 ^ (fp_prec F - 1)) (t + 1)" unfolding e by (rule mag_double)
    then show ?thesis using q p by (intro exI[of _ "2 ^ (fp_prec F - 1)"] exI[of _ "t + 1"]) (auto simp: canonical_def)
  qed
  have m: "mag q t \<le> a" "a < mag (q + 1) t" using f by (simp_all add: mag_def)
  have n: "\<bar>y\<bar> \<le> mag q t \<or> mag (q + 1) t \<le> \<bar>y\<bar>" if "representable F y" for y
    using no_representable_between[of F t q y] q p that by (auto simp: canonical_def)
  show "bracket F (mag q t) a (mag (q + 1) t)"
    using m n up canonical_representable[OF q] canonical_representable by (auto simp: bracket_def)
  show "even_last F (mag q t) \<or> odd q" using q by (auto simp: even_last_def)
  show "even_last F (mag (q + 1) t)" if "odd q" using up that by (auto simp: even_last_def)
qed

text \<open>What is cut off, compared with half a unit.\<close>

lemma half_unit:
  fixes r k :: nat and d :: real
  assumes "0 \<le> d" "d < 1" "d = 0 \<longleftrightarrow> \<not> sticky" "k = 0 \<Longrightarrow> d = 0" "r < 2 ^ k"
  shows "2 ^ k < 2 * r \<or> 2 * r = 2 ^ k \<and> sticky \<longleftrightarrow> 1 < 2 * ((real r + d) / 2 ^ k)"
    "2 * r = 2 ^ k \<and> \<not> sticky \<longleftrightarrow> 1 = 2 * ((real r + d) / 2 ^ k)"
proof -
  consider (gt) "2 ^ k < 2 * r" | (eq) "2 * r = 2 ^ k" | (lt) "2 * r < 2 ^ k" by linarith
  then have "(2 ^ k < 2 * r \<or> 2 * r = 2 ^ k \<and> sticky \<longleftrightarrow> (2 :: real) ^ k < 2 * (real r + d)) \<and>
      (2 * r = 2 ^ k \<and> \<not> sticky \<longleftrightarrow> (2 :: real) ^ k = 2 * (real r + d))"
  proof cases
    case gt
    then have "(2 :: real) ^ k < 2 * real r" by (simp flip: of_nat_less_iff[where ?'a = real])
    then show ?thesis using gt assms(1) by auto
  next
    case eq
    then have "(2 :: real) ^ k = 2 * real r" by (simp flip: of_nat_eq_iff[where ?'a = real])
    then show ?thesis using eq assms(1,3) by auto
  next
    case lt
    have "(2 :: real) * (real r + d) < 2 ^ k"
    proof (cases k)
      case 0
      then show ?thesis using assms(4) lt by simp
    next
      case (Suc j)
      then have "r + 1 \<le> 2 ^ j" using lt by simp
      then have "real r + 1 \<le> 2 ^ j" by (simp flip: of_nat_le_iff[where ?'a = real])
      then show ?thesis using assms(2) Suc by simp
    qed
    then show ?thesis using lt by auto
  qed
  then show "2 ^ k < 2 * r \<or> 2 * r = 2 ^ k \<and> sticky \<longleftrightarrow> 1 < 2 * ((real r + d) / 2 ^ k)"
    "2 * r = 2 ^ k \<and> \<not> sticky \<longleftrightarrow> 1 = 2 * ((real r + d) / 2 ^ k)" by (simp_all add: field_simps)
qed

lemma fp_cut_correct:
  assumes m: "0 < m" "2 \<le> fp_prec F" and a: "exact_mag m e sticky a" "sticky \<longrightarrow> e < fp_ulp F m e"
    and x: "x = (if s then - a else a)" and c: "fp_cut F md s m e sticky = (q', t', inexact)"
  shows "canonical F q' t'" "rounded F md x (fp_val (Num s q' t'))" "inexact \<longleftrightarrow> fp_val (Num s q' t') \<noteq> x"
proof -
  define t k where "t = fp_ulp F m e" and "k = nat (t - e)"
  define q r where "q = m * 2 ^ nat (e - t) div 2 ^ k" and "r = m * 2 ^ nat (e - t) mod 2 ^ k"
  obtain d where d: "0 \<le> d" "d < 1" "d = 0 \<longleftrightarrow> \<not> sticky" "k = 0 \<Longrightarrow> d = 0" "a = (real q + (real r + d) / 2 ^ k) * 2 powi t"
    using cut_fraction[OF a(1), of t] a(2) unfolding t_def k_def q_def r_def by blast
  define f where "f = (real r + d) / 2 ^ k"
  have rk: "r < 2 ^ k" by (simp add: r_def)
  have "real (r + 1) \<le> real (2 ^ k)" by (rule of_nat_mono) (use rk in simp)
  then have f: "0 \<le> f" "f < 1" "f = 0 \<longleftrightarrow> r = 0 \<and> \<not> sticky" "a = (real q + f) * 2 powi t"
    using d by (auto simp: f_def divide_less_eq)
  have qc: "canonical F q t" using cut_canonical[OF m(1), of F e] m(2) by (simp add: q_def k_def t_def)
  note b = cut_bracket[OF qc m(2) f(1,2,4)] and h = half_unit[OF d(1-4) rk, folded f_def]
  have mid: "mag q t + mag (q + 1) t = 2 * a \<longleftrightarrow> 1 = 2 * f" "2 * a < mag q t + mag (q + 1) t \<longleftrightarrow> 2 * f < 1"
    "mag q t + mag (q + 1) t < 2 * a \<longleftrightarrow> 1 < 2 * f"
    by (auto simp: f(4) mag_def simp flip: distrib_right mult.assoc) 
  have al: "a = mag q t \<longleftrightarrow> r = 0 \<and> \<not> sticky" using f(3,4) by (simp add: mag_def)
  let ?up = "round_up md s q r k sticky"
  define W where "W = mag (q + (if ?up then 1 else 0)) t"
  have W: "rounded F md x (if s then - W else W)"
  proof (cases ?up)
    case True
    have "a \<noteq> mag q t" using True al by (cases md) (auto simp: round_up_def)
    moreover have "md = FE_DOWNWARD \<and> s \<or> md = FE_UPWARD \<and> \<not> s \<or>
        md = FE_TONEAREST \<and> mag q t + mag (q + 1) t \<le> 2 * a \<and> (2 * a = mag q t + mag (q + 1) t \<longrightarrow> even_last F (mag (q + 1) t))"
      using True h mid b(3) by (cases md) (auto simp: round_up_def)
    moreover have "W = mag (q + 1) t" using True by (simp add: W_def)
    ultimately show ?thesis using round_up_magnitude[OF b(1) _ x refl] by blast
  next
    case False
    have "md = FE_TOWARDZERO \<or> md = FE_DOWNWARD \<and> (\<not> s \<or> a = mag q t) \<or> md = FE_UPWARD \<and> (s \<or> a = mag q t) \<or>
        md = FE_TONEAREST \<and> 2 * a \<le> mag q t + mag (q + 1) t \<and> (2 * a = mag q t + mag (q + 1) t \<longrightarrow> even_last F (mag q t))"
      using False h mid al b(2) by (cases md) (auto simp: round_up_def not_less)
    moreover have "W = mag q t" using False by (simp add: W_def)
    ultimately show ?thesis using round_down_magnitude[OF b(1) x refl] by blast
  qed
  have i: "inexact \<longleftrightarrow> a \<noteq> mag q t" and v: "mag q' t' = W" and q': "canonical F q' t'"
  proof -
    have qp: "q < 2 ^ fp_prec F" using qc by (simp add: canonical_def)
    have "2 * 2 ^ (fp_prec F - 1) = (2 :: nat) ^ fp_prec F" using m(2) by (simp flip: power_Suc)
    then have "mag (2 ^ (fp_prec F - 1)) (t + 1) = mag (2 ^ fp_prec F) t" using mag_double[of "2 ^ (fp_prec F - 1)" t] by simp
    then show "inexact \<longleftrightarrow> a \<noteq> mag q t" "mag q' t' = W" "canonical F q' t'"
      using c al qc qp m(2) unfolding fp_cut_def Let_def t_def[symmetric] k_def[symmetric] q_def[symmetric] r_def[symmetric]
      by (auto simp: canonical_def W_def split: if_splits)
  qed
  show "canonical F q' t'" by (rule q')
  show "rounded F md x (fp_val (Num s q' t'))" using W v by auto
  have "W = a \<longleftrightarrow> a = mag q t"
  proof (cases ?up)
    case True
    then have "a \<noteq> mag q t" using al by (cases md) (auto simp: round_up_def)
    then show ?thesis using True b(1) by (auto simp: bracket_def W_def)
  qed (auto simp: W_def)
  then show "inexact \<longleftrightarrow> fp_val (Num s q' t') \<noteq> x" using i v x by auto
qed

section \<open>The rounded result\<close>

definition fp_max :: "fp_format \<Rightarrow> real" where
  "fp_max F = mag (2 ^ fp_prec F - 1) (fp_emax F)"

text \<open>A format: at least two bits of precision, and room for normal numbers.\<close>

definition fp_ok :: "fp_format \<Rightarrow> bool" where
  "fp_ok F \<longleftrightarrow> 2 \<le> fp_prec F \<and> 2 \<le> fp_ebits F"

lemma fp_emax_ge: "fp_ok F \<Longrightarrow> fp_emin F \<le> fp_emax F"
proof -
  assume "fp_ok F"
  then have "(2 :: int) ^ 2 \<le> 2 ^ fp_ebits F" by (intro power_increasing) (simp_all add: fp_ok_def)
  then show ?thesis by (simp add: fp_emax_def)
qed

definition in_range :: "fp_format \<Rightarrow> fp \<Rightarrow> bool" where
  "in_range F r \<longleftrightarrow> (case r of Num s m e \<Rightarrow> canonical F m e \<and> e \<le> fp_emax F | Infty s \<Rightarrow> True | NaN s \<Rightarrow> False)"

text \<open>The specification of an operation with exact result x: the representable number the direction selects or, when it is too large, the
  result of an overflow; inexact is signalled exactly when the result differs from x.\<close>

definition ieee_rounded :: "fp_format \<Rightarrow> fe_round \<Rightarrow> real \<Rightarrow> fp \<Rightarrow> fe_except set \<Rightarrow> bool" where
  "ieee_rounded F md x r fe \<longleftrightarrow> in_range F r \<and> (\<exists>w. rounded F md x w \<and>
     (if \<bar>w\<bar> \<le> fp_max F then is_number r \<and> fp_val r = w \<and> (FE_INEXACT \<in> fe \<longleftrightarrow> w \<noteq> x) \<and> FE_OVERFLOW \<notin> fe
      else r = overflow_result F md (x < 0) \<and> {FE_OVERFLOW, FE_INEXACT} \<subseteq> fe) \<and>
     FE_DIVBYZERO \<notin> fe \<and> FE_INVALID \<notin> fe)"

lemma canonical_in_range:
  assumes "fp_ok F" "canonical F q t"
  shows "t \<le> fp_emax F \<longleftrightarrow> mag q t \<le> fp_max F"
proof
  assume t: "t \<le> fp_emax F"
  have "q \<le> 2 ^ fp_prec F - 1" using assms(2) unfolding canonical_def by linarith
  then have "mag q t \<le> mag (2 ^ fp_prec F - 1) t" by (simp only: mag_le_iff)
  also have "\<dots> \<le> fp_max F" unfolding fp_max_def mag_def using t by (intro mult_left_mono power_int_increasing) auto
  finally show "mag q t \<le> fp_max F" .
next
  assume m: "mag q t \<le> fp_max F"
  show "t \<le> fp_emax F"
  proof (rule ccontr)
    assume "\<not> t \<le> fp_emax F"
    then have t: "fp_emax F + 1 \<le> t" "2 ^ (fp_prec F - 1) \<le> q" using assms fp_emax_ge[OF assms(1)] by (auto simp: canonical_def)
    have "mag (2 ^ fp_prec F) (fp_emax F) = mag (2 ^ (fp_prec F - 1)) (fp_emax F + 1)"
      using assms(1) by (simp add: fp_ok_def flip: mag_double power_Suc)
    also have "\<dots> \<le> mag (2 ^ (fp_prec F - 1)) t" unfolding mag_def using t(1) by (intro mult_left_mono power_int_increasing) auto
    also have "\<dots> \<le> mag q t" using t(2) by simp
    finally have "mag (2 ^ fp_prec F) (fp_emax F) \<le> fp_max F" using m by simp
    then have "(2 :: nat) ^ fp_prec F \<le> 2 ^ fp_prec F - 1" unfolding fp_max_def mag_le_iff .
    moreover have "(0 :: nat) < 2 ^ fp_prec F" by simp
    ultimately show False by linarith
  qed
qed

lemma fp_round_correct:
  assumes F: "fp_ok F" and m: "0 < m" and a: "exact_mag m e sticky a" "sticky \<longrightarrow> e < fp_ulp F m e"
    and x: "x = (if s then - a else a)" and r: "fp_round F before md s m e sticky = (r, fe)"
  shows "ieee_rounded F md x r fe"
proof -
  obtain q t i where c: "fp_cut F md s m e sticky = (q, t, i)" by (metis prod_cases3)
  have p: "2 \<le> fp_prec F" using F by (simp add: fp_ok_def)
  note w = fp_cut_correct[OF m p a x c] and mx = canonical_in_range[OF F w(1)]
  have "0 < a" using a(1) m by (auto simp: exact_mag_def mag_def split: if_splits intro: le_less_trans[of 0 "real m * 2 powi e"])
  then have s: "x < 0 \<longleftrightarrow> s" using x by auto
  have v: "\<bar>fp_val (Num s q t)\<bar> = mag q t" by simp
  show ?thesis
  proof (cases "t \<le> fp_emax F")
    case True
    then have "r = Num s q t" "FE_INEXACT \<in> fe \<longleftrightarrow> i" "FE_OVERFLOW \<notin> fe" "FE_DIVBYZERO \<notin> fe" "FE_INVALID \<notin> fe"
      using r c by (auto simp: fp_round_def split: if_splits)
    then show ?thesis unfolding ieee_rounded_def using w v mx True
      by (auto simp: in_range_def simp del: fp_val.simps intro!: exI[of _ "fp_val (Num s q t)"])
  next
    case False
    then have "r = overflow_result F md s" "fe = {FE_OVERFLOW, FE_INEXACT}" using r c by (auto simp: fp_round_def)
    moreover have "in_range F (overflow_result F md s)"
    proof -
      have "(2 :: nat) ^ fp_prec F = 2 * 2 ^ (fp_prec F - 1)" using p by (simp flip: power_Suc)
      moreover have "(1 :: nat) \<le> 2 ^ (fp_prec F - 1)" by simp
      ultimately have "(2 :: nat) ^ (fp_prec F - 1) \<le> 2 ^ fp_prec F - 1" by linarith
      then show ?thesis using fp_emax_ge[OF F] by (simp add: in_range_def overflow_result_def canonical_def)
    qed
    ultimately show ?thesis unfolding ieee_rounded_def using w v mx False s
      by (auto simp del: fp_val.simps intro!: exI[of _ "fp_val (Num s q t)"])
  qed
qed

section \<open>Operations on numbers\<close>

lemma fp_int_val: "e0 \<le> e \<Longrightarrow> real_of_int (fp_int s m e e0) * 2 powi e0 = fp_val (Num s m e)"
  using powi_nat[of e0 e] by (simp add: fp_int_def mag_def)

lemma zero_rounded:
  assumes "fp_ok F"
  shows "ieee_rounded F md 0 (Num zs 0 (fp_emin F)) {}"
proof -
  have z: "canonical F 0 (fp_emin F)" by (simp add: canonical_def)
  then have "representable F 0" "even_last F 0"
    using canonical_representable[OF z] unfolding even_last_def by (simp, intro exI[of _ "0 :: nat"] exI[of _ "fp_emin F"]) simp
  then have "rounded F md 0 0" by (cases md) (auto simp: rounded_def)
  then show ?thesis using fp_emax_ge[OF assms] z by (auto simp: ieee_rounded_def in_range_def fp_max_def)
qed

lemma fp_exact_correct:
  assumes F: "fp_ok F" and x: "x = real_of_int v * 2 powi e" and r: "fp_exact F before md zs v e = (r, fe)"
  shows "ieee_rounded F md x r fe"
proof (cases "v = 0")
  case True
  then show ?thesis using zero_rounded[OF F] x r by (auto simp: fp_exact_def)
next
  case False
  let ?a = "mag (nat \<bar>v\<bar>) e"
  have "x = (if v < 0 then - ?a else ?a)" using x by (simp add: mag_def)
  moreover have "fp_round F before md (v < 0) (nat \<bar>v\<bar>) e False = (r, fe)" using r False by (simp add: fp_exact_def)
  ultimately show ?thesis using fp_round_correct[OF F, of "nat \<bar>v\<bar>" e False ?a x "v < 0"] False by (simp add: exact_mag_def)
qed

lemma fp_add_correct:
  assumes "fp_ok F" "is_number x" "is_number y" "fp_add F before md x y = (r, fe)"
  shows "ieee_rounded F md (fp_val x + fp_val y) r fe"
proof -
  obtain s1 m1 e1 s2 m2 e2 where n: "x = Num s1 m1 e1" "y = Num s2 m2 e2" using assms(2,3) by (cases x; cases y) auto
  let ?e = "min e1 e2"
  have "fp_val x + fp_val y = real_of_int (fp_int s1 m1 e1 ?e + fp_int s2 m2 e2 ?e) * 2 powi ?e"
    using fp_int_val[of ?e e1 s1 m1] fp_int_val[of ?e e2 s2 m2] n by (simp add: distrib_right del: fp_val.simps)
  from fp_exact_correct[OF assms(1) this] show ?thesis using assms(4) n by (simp add: Let_def del: fp_val.simps)
qed

lemma fp_val_neg [simp]: "fp_val (fp_neg x) = - fp_val x" "is_number (fp_neg x) = is_number x"
  by (cases x; simp)+

lemma fp_sub_correct:
  assumes "fp_ok F" "is_number x" "is_number y" "fp_sub F before md x y = (r, fe)"
  shows "ieee_rounded F md (fp_val x - fp_val y) r fe"
  using fp_add_correct[of F x "fp_neg y"] assms by (simp add: fp_sub_def)

lemma fp_mul_correct:
  assumes "fp_ok F" "is_number x" "is_number y" "fp_mul F before md x y = (r, fe)"
  shows "ieee_rounded F md (fp_val x * fp_val y) r fe"
proof -
  obtain s1 m1 e1 s2 m2 e2 where n: "x = Num s1 m1 e1" "y = Num s2 m2 e2" using assms(2,3) by (cases x; cases y) auto
  have "fp_val x * fp_val y = real_of_int (fp_int (s1 \<noteq> s2) (m1 * m2) 0 0) * 2 powi (e1 + e2)"
    by (simp add: n fp_int_def mag_def power_int_add)
  from fp_exact_correct[OF assms(1) this] show ?thesis using assms(4) n by (simp del: fp_val.simps)
qed

lemma fp_fma_correct:
  assumes "fp_ok F" "is_number x" "is_number y" "is_number z" "fp_fma F before fi md x y z = (r, fe)"
  shows "ieee_rounded F md (fp_val x * fp_val y + fp_val z) r fe"
proof -
  obtain s1 m1 e1 s2 m2 e2 s3 m3 e3 where n: "x = Num s1 m1 e1" "y = Num s2 m2 e2" "z = Num s3 m3 e3"
    using assms(2-4) by (cases x; cases y; cases z) auto
  let ?e = "min (e1 + e2) e3"
  have "fp_val x * fp_val y = fp_val (Num (s1 \<noteq> s2) (m1 * m2) (e1 + e2))" by (simp add: n mag_def power_int_add)
  then have "fp_val x * fp_val y + fp_val z = real_of_int (fp_int (s1 \<noteq> s2) (m1 * m2) (e1 + e2) ?e + fp_int s3 m3 e3 ?e) * 2 powi ?e"
    using fp_int_val[of ?e "e1 + e2" "s1 \<noteq> s2" "m1 * m2"] fp_int_val[of ?e e3 s3 m3] n by (simp add: distrib_right del: fp_val.simps)
  from fp_exact_correct[OF assms(1) this] show ?thesis using assms(5) n by (simp add: fp_fma_def Let_def del: fp_val.simps)
qed

text \<open>Division: enough bits of the quotient, and a sticky bit for the rest.\<close>

lemma nbits_mono: "2 ^ n \<le> m \<Longrightarrow> n < nbits m"
proof -
  assume "2 ^ n \<le> m"
  moreover from this have "m < 2 ^ nbits m" using nbits_bounds[of m] by (cases "m = 0") auto
  ultimately have "(2 :: nat) ^ n < 2 ^ nbits m" by (rule le_less_trans)
  then show ?thesis by simp
qed

lemma nbits_eqI: "2 ^ k \<le> n \<Longrightarrow> n < 2 ^ Suc k \<Longrightarrow> nbits n = Suc k"
proof -
  assume n: "2 ^ k \<le> n" "n < 2 ^ Suc k"
  have "0 < n" using n(1) by (rule less_le_trans[rotated]) simp
  then have "2 ^ (nbits n - 1) \<le> n" "0 < nbits n" using nbits_bounds by blast+
  then have "(2 :: nat) ^ (nbits n - 1) < 2 ^ Suc k" using n(2) by linarith
  then have "nbits n - 1 < Suc k" by (rule power_less_imp_less_exp[rotated]) simp
  then show ?thesis using nbits_mono[OF n(1)] \<open>0 < nbits n\<close> by linarith
qed

lemma wide_ulp: "2 ^ fp_prec F \<le> m \<Longrightarrow> e < fp_ulp F m e"
  using nbits_mono[of "fp_prec F" m] by (simp add: fp_ulp_def)

lemma fp_div_correct:
  assumes F: "fp_ok F" and n: "is_number x" "is_number y" "fp_val y \<noteq> 0" and r: "fp_div F before md x y = (r, fe)"
  shows "ieee_rounded F md (fp_val x / fp_val y) r fe"
proof -
  obtain s1 m1 e1 s2 m2 e2 where xy: "x = Num s1 m1 e1" "y = Num s2 m2 e2" using n(1,2) by (cases x; cases y) auto
  have m2: "0 < m2" using n(3) xy by (cases "m2 = 0") (auto split: if_splits)
  show ?thesis
  proof (cases "m1 = 0")
    case True
    then show ?thesis using zero_rounded[OF F] r xy m2 by auto
  next
    case False
    define k where "k = fp_prec F + 2 + nbits m2"
    define N e where "N = m1 * 2 ^ k" and "e = e1 - e2 - int k"
    let ?a = "mag m1 e1 / mag m2 e2"
    have a: "?a = real N / real m2 * 2 powi e"
      using m2 by (simp add: N_def e_def mag_def power_int_diff power_int_add power_int_of_nat field_simps)
    have "real N = real (N div m2 * m2 + N mod m2)" by simp
    then have N: "real N = real (N div m2) * real m2 + real (N mod m2)" by (simp only: of_nat_add of_nat_mult)
    have md: "N mod m2 < m2" using m2 by simp
    have ex: "exact_mag (N div m2) e (N mod m2 \<noteq> 0) ?a"
      unfolding exact_mag_def mag_def[of "N div m2"] mag_def[of "N div m2 + 1"] a N
      using m2 md by (auto simp: field_simps)
    have "m2 * 2 ^ (fp_prec F + 2) < 2 ^ k"
      using nbits_bounds[OF m2] by (simp add: k_def power_add)
    also have "\<dots> \<le> N" using False by (simp add: N_def)
    finally have q: "2 ^ (fp_prec F + 2) \<le> N div m2" using m2 by (simp add: less_eq_div_iff_mult_less_eq mult.commute)
    then have "2 ^ fp_prec F \<le> N div m2" by simp
    from wide_ulp[OF this] have u: "N mod m2 \<noteq> 0 \<longrightarrow> e < fp_ulp F (N div m2) e" by simp
    have p: "0 < N div m2" using q by (metis gr_zeroI less_numeral_extra(3) not_less pos2 zero_less_power)
    have "fp_val x / fp_val y = (if s1 \<noteq> s2 then - ?a else ?a)" by (simp add: xy)
    moreover have "fp_round F before md (s1 \<noteq> s2) (N div m2) e (N mod m2 \<noteq> 0) = (r, fe)"
      using r xy m2 False by (simp add: k_def N_def e_def Let_def)
    ultimately show ?thesis using fp_round_correct[OF F p ex u] by blast
  qed
qed

text \<open>Square root: the integer square root of a significand long enough.\<close>

lemma isqrt_bounds: "isqrt n * isqrt n \<le> n \<and> n < (isqrt n + 1) * (isqrt n + 1)"
proof (induction n rule: isqrt.induct)
  case (1 n)
  show ?case
  proof (cases "n = 0")
    case True
    then show ?thesis by (simp add: isqrt.simps[of 0])
  next
    case False
    define r where "r = isqrt (n div 4)"
    have h: "r * r \<le> n div 4" "n div 4 < (r + 1) * (r + 1)" using 1 False by (simp_all add: r_def)
    have i: "isqrt n = (if (2 * r + 1) * (2 * r + 1) \<le> n then 2 * r + 1 else 2 * r)"
      using False by (simp add: isqrt.simps[of n] r_def Let_def)
    have "(2 * r) * (2 * r) \<le> n" using h(1) by (simp add: algebra_simps)
    moreover have "n < (2 * r + 2) * (2 * r + 2)" using h(2) by (simp add: algebra_simps)
    ultimately show ?thesis unfolding i by simp
  qed
qed

lemma isqrt_ge: "b * b \<le> n \<Longrightarrow> b \<le> isqrt n"
proof (rule ccontr)
  assume b: "b * b \<le> n" "\<not> b \<le> isqrt n"
  then have "(isqrt n + 1) * (isqrt n + 1) \<le> b * b" by (intro mult_mono) simp_all
  then show False using b(1) isqrt_bounds[of n] by linarith
qed

lemma fp_sqrt_correct:
  assumes F: "fp_ok F" and n: "is_number x" "0 \<le> fp_val x" and r: "fp_sqrt F before md x = (r, fe)"
  shows "ieee_rounded F md (sqrt (fp_val x)) r fe"
proof -
  obtain s m e where x: "x = Num s m e" using n(1) by (cases x) auto
  show ?thesis
  proof (cases "m = 0")
    case True
    then have "fp_val x = 0" by (simp add: x)
    then show ?thesis using zero_rounded[OF F] r x True by auto
  next
    case False
    then have "0 < mag m e" by (simp add: mag_def)
    then have s: "\<not> s" "fp_val x = mag m e" using n(2) x by (auto split: if_splits)
    define k where "k = 2 * (fp_prec F + 2) + (if even e then 0 else 1)"
    define N E where "N = m * 2 ^ k" and "E = (e - int k) div 2"
    have E: "e - int k = E + E" by (simp add: E_def k_def) 
    have "mag m e = real N * (2 powi E * 2 powi E)"
    proof -
      have "real N * (2 powi E * 2 powi E) = real m * (2 ^ k * 2 powi (e - int k))"
        unfolding E by (simp add: N_def power_int_add del: mult_2 flip: power_int_add)
      also have "\<dots> = mag m e" using powi_nat[of "e - int k" e] by (simp add: mag_def)
      finally show ?thesis by simp
    qed
    then have sq: "sqrt (mag m e) = sqrt (real N) * 2 powi E" by (simp add: real_sqrt_mult)
    have b: "isqrt N * isqrt N \<le> N" "N < (isqrt N + 1) * (isqrt N + 1)" using isqrt_bounds by blast+
    have lo: "real (isqrt N) \<le> sqrt (real N)"
      using b(1) by (intro real_le_rsqrt) (simp add: power2_eq_square flip: of_nat_mult)
    have "real N < real ((isqrt N + 1) * (isqrt N + 1))" using b(2) by (simp only: of_nat_less_iff)
    then have hi: "sqrt (real N) < real (isqrt N + 1)"
      by (intro real_less_lsqrt) (simp_all only: power2_eq_square of_nat_mult of_nat_0_le_iff)
    have eq: "sqrt (real N) = real (isqrt N) \<longleftrightarrow> isqrt N * isqrt N = N"
    proof
      assume e: "sqrt (real N) = real (isqrt N)"
      have "sqrt (real N) * sqrt (real N) = real (isqrt N) * real (isqrt N)" unfolding e ..
      then have "real N = real (isqrt N * isqrt N)" by (simp only: real_sqrt_mult_self of_nat_mult abs_of_nat)
      then show "isqrt N * isqrt N = N" by (simp only: of_nat_eq_iff)
    next
      assume "isqrt N * isqrt N = N"
      then have "real N = real (isqrt N) * real (isqrt N)" by (simp flip: of_nat_mult)
      then show "sqrt (real N) = real (isqrt N)" by (simp add: real_sqrt_mult)
    qed
    have ex: "exact_mag (isqrt N) E (isqrt N * isqrt N \<noteq> N) (sqrt (mag m e))"
      unfolding exact_mag_def sq mag_def[of "isqrt N"] mag_def[of "isqrt N + 1"] using lo hi eq by auto
    have "2 ^ (fp_prec F + 2) * 2 ^ (fp_prec F + 2) \<le> N"
    proof -
      have "(2 :: nat) ^ (fp_prec F + 2) * 2 ^ (fp_prec F + 2) \<le> 2 ^ k" by (simp add: k_def flip: power_add)
      also have "\<dots> \<le> N" using False by (simp add: N_def)
      finally show ?thesis .
    qed
    from isqrt_ge[OF this] have q: "2 ^ fp_prec F \<le> isqrt N" by (rule order_trans[rotated]) simp
    then have p: "0 < isqrt N" by (rule less_le_trans[rotated]) simp
    have "fp_round F before md False (isqrt N) E (isqrt N * isqrt N \<noteq> N) = (r, fe)"
      using r x s False by (simp add: k_def N_def E_def Let_def)
    then show ?thesis using fp_round_correct[OF F p ex _ _, of "sqrt (mag m e)" False before md r fe] wide_ulp[OF q] s by simp
  qed
qed

section \<open>Encoding\<close>

lemma formats_ok [simp]: "fp_ok binary32" "fp_ok binary64"
  by (simp_all add: fp_ok_def binary32_def binary64_def)

lemma fp_fields:
  fixes X M P E :: nat and s :: bool
  assumes "X < 2 ^ E" "M < 2 ^ P"
  defines "b \<equiv> (if s then 2 ^ (P + E) else 0) + X * 2 ^ P + M"
  shows "b mod 2 ^ P = M" "b div 2 ^ P mod 2 ^ E = X" "odd (b div 2 ^ (P + E)) = s" "b < 2 ^ Suc (P + E)"
proof -
  have b: "b = M + 2 ^ P * (X + 2 ^ E * of_bool s)" by (simp add: b_def power_add algebra_simps)
  show "b mod 2 ^ P = M" using assms(2) by (simp add: b)
  have d: "b div 2 ^ P = X + 2 ^ E * of_bool s" using assms(2) by (simp add: b)
  show "b div 2 ^ P mod 2 ^ E = X" using assms(1) by (simp add: d)
  have "b div 2 ^ (P + E) = of_bool s" using assms(1) by (simp add: power_add div_mult2_eq d)
  then show "odd (b div 2 ^ (P + E)) = s" by simp
  have "X * 2 ^ P + M < 2 ^ (P + E)"
  proof -
    have "X * 2 ^ P + M < (X + 1) * 2 ^ P" using assms(2) by simp
    also have "\<dots> \<le> 2 ^ E * 2 ^ P" using assms(1) by (intro mult_right_mono) simp_all
    finally show ?thesis by (simp add: power_add mult.commute)
  qed
  then show "b < 2 ^ Suc (P + E)" by (simp add: b_def)
qed

lemma fp_encode_decode:
  assumes F: "fp_ok F" and r: "in_range F r"
  shows "fp_decode F (fp_encode F r) = r" "fp_encode F r < 2 ^ (fp_prec F + fp_ebits F)"
proof -
  define P E where "P = fp_prec F - 1" and "E = fp_ebits F"
  have p: "fp_prec F = Suc P" "2 \<le> E" "fp_ebits F = E" using F by (simp_all add: fp_ok_def P_def E_def)
  have E4: "(4 :: nat) \<le> 2 ^ E" using power_increasing[OF p(2), of "2 :: nat"] by simp
  have "\<exists>s X M. fp_encode F r = (if s then 2 ^ (P + E) else 0) + X * 2 ^ P + M \<and> X < 2 ^ E \<and> M < 2 ^ P \<and>
      r = (if X = 2 ^ E - 1 then if M = 0 then Infty s else NaN (M < 2 ^ (P - 1))
         else if X = 0 then Num s M (fp_emin F) else Num s (M + 2 ^ P) (fp_emin F + int X - 1))"
  proof (cases r)
    case (Num s m e)
    then have c: "m < 2 * 2 ^ P" "fp_emin F \<le> e" "e = fp_emin F \<or> 2 ^ P \<le> m" "e \<le> fp_emin F + 2 ^ E - 3"
      using r p by (auto simp: in_range_def canonical_def fp_emax_def)
    show ?thesis
    proof (cases "m < 2 ^ P")
      case True
      then show ?thesis using Num c E4 by (intro exI[of _ s] exI[of _ 0] exI[of _ m]) (auto simp: fp_encode_def Let_def p)
    next
      case False
      let ?X = "nat (e - fp_emin F) + 1"
      have "int ?X \<le> 2 ^ E - 2" using c(2,4) by simp
      then have "int ?X + 2 \<le> int (2 ^ E)" by simp
      then have X: "?X + 2 \<le> 2 ^ E" by linarith
      then show ?thesis using Num c False
        by (intro exI[of _ s] exI[of _ ?X] exI[of _ "m - 2 ^ P"]) (auto simp: fp_encode_def Let_def p)
    qed
  next
    case (Infty s)
    then show ?thesis using E4
      by (intro exI[of _ s] exI[of _ "2 ^ E - 1"] exI[of _ 0]) (auto simp: fp_encode_def Let_def p)
  next
    case (NaN s)
    then show ?thesis using r by (simp add: in_range_def)
  qed
  then obtain s X M where b: "fp_encode F r = (if s then 2 ^ (P + E) else 0) + X * 2 ^ P + M" "X < 2 ^ E" "M < 2 ^ P"
    and rr: "r = (if X = 2 ^ E - 1 then if M = 0 then Infty s else NaN (M < 2 ^ (P - 1))
         else if X = 0 then Num s M (fp_emin F) else Num s (M + 2 ^ P) (fp_emin F + int X - 1))" by blast
  note f = fp_fields[OF b(2,3), of s, folded b(1)]
  show "fp_decode F (fp_encode F r) = r"
    unfolding fp_decode_def Let_def P_def[symmetric] E_def[symmetric] f(1-3) by (rule rr[symmetric])
  show "fp_encode F r < 2 ^ (fp_prec F + fp_ebits F)" using f(4) by (simp only: p(1,3) add_Suc)
qed

end
