(* ===== verification/FP_Props.thy ===== *)
theory FP_Props
  imports FP_Rounding D_extension Platform_Props
begin

unbundle bit_operations_syntax

text \<open>
  Properties of the F and D extensions: the arithmetic instructions deliver the correctly rounded result of
  the exact real value, loads and stores are inverse, and where the code departs from the instruction set.
\<close>

section \<open>The arithmetic of both formats\<close>

datatype fp_op = Add | Sub | Mul | Div | Sqrt | Fma | Fms

text \<open>The exact result on numbers, where there is one.\<close>

fun exact_op :: "fp_op \<Rightarrow> fp \<Rightarrow> fp \<Rightarrow> fp \<Rightarrow> real option" where
  "exact_op Add x y z = (if is_number x \<and> is_number y then Some (fp_val x + fp_val y) else None)"
| "exact_op Sub x y z = (if is_number x \<and> is_number y then Some (fp_val x - fp_val y) else None)"
| "exact_op Mul x y z = (if is_number x \<and> is_number y then Some (fp_val x * fp_val y) else None)"
| "exact_op Div x y z = (if is_number x \<and> is_number y \<and> fp_val y \<noteq> 0 then Some (fp_val x / fp_val y) else None)"
| "exact_op Sqrt x y z = (if is_number x \<and> 0 \<le> fp_val x then Some (sqrt (fp_val x)) else None)"
| "exact_op Fma x y z = (if is_number x \<and> is_number y \<and> is_number z then Some (fp_val x * fp_val y + fp_val z) else None)"
| "exact_op Fms x y z = (if is_number x \<and> is_number y \<and> is_number z then Some (fp_val x * fp_val y - fp_val z) else None)"

fun fp_arith :: "fp_format \<Rightarrow> bool \<Rightarrow> bool \<Rightarrow> fe_round \<Rightarrow> fp_op \<Rightarrow> fp \<Rightarrow> fp \<Rightarrow> fp \<Rightarrow> fp \<times> fe_except set" where
  "fp_arith F tb fi md Add x y z = fp_add F tb md x y"
| "fp_arith F tb fi md Sub x y z = fp_sub F tb md x y"
| "fp_arith F tb fi md Mul x y z = fp_mul F tb md x y"
| "fp_arith F tb fi md Div x y z = fp_div F tb md x y"
| "fp_arith F tb fi md Sqrt x y z = fp_sqrt F tb md x"
| "fp_arith F tb fi md Fma x y z = fp_fma F tb fi md x y z"
| "fp_arith F tb fi md Fms x y z = fp_fma F tb fi md x y (fp_neg z)"

lemma fp_arith_correct:
  assumes "fp_ok F" "exact_op op x y z = Some v" "fp_arith F tb fi md op x y z = (r, fe)"
  shows "ieee_rounded F md v r fe"
  using assms fp_add_correct[of F x y] fp_sub_correct[of F x y] fp_mul_correct[of F x y] fp_div_correct[of F x y]
    fp_sqrt_correct[of F x] fp_fma_correct[of F x y z] fp_fma_correct[of F x y "fp_neg z"]
  by (cases op) (auto split: if_splits)

lemma rounded_not_nan: "ieee_rounded F md v r fe \<Longrightarrow> \<not> is_nan r"
  by (cases r) (simp_all add: ieee_rounded_def in_range_def)

section \<open>Bits\<close>

lemma fp_decode_fields:
  "fp_decode F b =
     (let p = fp_prec F - 1; mant = take_bit p b; expo = take_bit (fp_ebits F) (drop_bit p b); sign = odd (drop_bit (p + fp_ebits F) b)
      in if expo = 2 ^ fp_ebits F - 1 then if mant = 0 then Infty sign else NaN (mant < 2 ^ (p - 1))
         else if expo = 0 then Num sign mant (fp_emin F)
         else Num sign (mant + 2 ^ p) (fp_emin F + int expo - 1))"
  by (simp add: fp_decode_def take_bit_eq_mod drop_bit_eq_div)

lemma fp_decode_neg:
  assumes "0 < fp_prec F" "n = fp_prec F - 1 + fp_ebits F"
  shows "fp_decode F (b XOR push_bit n 1) = fp_neg (fp_decode F b)"
proof -
  let ?p = "fp_prec F - 1"
  have "take_bit ?p (push_bit n (1 :: nat)) = 0" "take_bit (fp_ebits F) (drop_bit ?p (push_bit n (1 :: nat))) = 0"
    by (rule bit_eqI; auto simp: assms bit_take_bit_iff bit_drop_bit_eq bit_push_bit_iff bit_exp_iff)+
  moreover have "drop_bit n (push_bit n (1 :: nat)) = 1" by (simp add: drop_bit_eq_div)
  ultimately show ?thesis
    by (simp add: fp_decode_fields Let_def drop_bit_xor take_bit_xor assms(2) even_xor_iff)
qed

lemma float_of_fneg: "float_of (fneg w) = fp_neg (float_of w)"
proof -
  have "unat (fneg w) = unat w XOR push_bit 31 1" by (simp add: fneg_def unsigned_xor_eq)
  then show ?thesis using fp_decode_neg[of binary32 31 "unat w"] by (simp add: float_of_def binary32_def)
qed

lemma double_of_fneg: "double_of (fneg w) = fp_neg (double_of w)"
proof -
  have "unat (fneg w) = unat w XOR push_bit 63 1" by (simp add: fneg_def unsigned_xor_eq)
  then show ?thesis using fp_decode_neg[of binary64 63 "unat w"] by (simp add: double_of_def binary64_def)
qed

lemma float_of_bits:
  assumes "in_range binary32 r"
  shows "float_of (of_nat (fp_encode binary32 r)) = r"
proof -
  note e = fp_encode_decode[OF formats_ok(1) assms]
  have "unat (of_nat (fp_encode binary32 r) :: u32) = fp_encode binary32 r"
    using e(2) by (simp add: binary32_def unat_of_nat take_bit_nat_eq_self)
  then show ?thesis using e(1) by (simp add: float_of_def)
qed

lemma double_of_bits:
  assumes "in_range binary64 r"
  shows "double_of (of_nat (fp_encode binary64 r)) = r"
proof -
  note e = fp_encode_decode[OF formats_ok(2) assms]
  have "unat (of_nat (fp_encode binary64 r) :: u64) = fp_encode binary64 r"
    using e(2) by (simp add: binary64_def unat_of_nat take_bit_nat_eq_self)
  then show ?thesis using e(1) by (simp add: double_of_def)
qed

section \<open>Registers\<close>

lemma box_mask: "(0xFFFFFFFF00000000 :: u64) = push_bit 32 (mask 32)" "(0xFFFFFFFF :: u64) = mask 32"
  by (simp_all add: mask_eq_exp_minus_1)

lemma getF32_setF32 [simp]: "getF32 r (setF32 r w m) = w"
  unfolding getF32_def setF32_def box_mask by (rule bit_word_eqI) (auto simp: bit_simps)

lemma setF32_boxed: "getFPValue r (setF32 r w m) AND 0xFFFFFFFF00000000 = 0xFFFFFFFF00000000"
  unfolding getFPValue_def setF32_def box_mask by (rule bit_word_eqI) (auto simp: bit_simps)

lemma getF64_setF64 [simp]: "getF64 r (setF64 r w m) = w"
  by (simp add: getF64_def setF64_def)

section \<open>Instructions\<close>

fun F_arith :: "op_F_Codes \<Rightarrow> fp_op option" where
  "F_arith OP_F_FADD_S = Some Add" | "F_arith OP_F_FSUB_S = Some Sub" | "F_arith OP_F_FMUL_S = Some Mul"
| "F_arith OP_F_FDIV_S = Some Div" | "F_arith OP_F_FSQRT_S = Some Sqrt" | "F_arith OP_F_FMADD_S = Some Fma"
| "F_arith OP_F_FMSUB_S = Some Fms" | "F_arith _ = None"

fun D_arith :: "op_D_Codes \<Rightarrow> fp_op option" where
  "D_arith OP_D_FADD_D = Some Add" | "D_arith OP_D_FSUB_D = Some Sub" | "D_arith OP_D_FMUL_D = Some Mul"
| "D_arith OP_D_FDIV_D = Some Div" | "D_arith OP_D_FSQRT_D = Some Sqrt" | "D_arith OP_D_FMADD_D = Some Fma"
| "D_arith OP_D_FMSUB_D = Some Fms" | "D_arith _ = None"

lemma F_result_arith:
  assumes "F_arith op = Some ar"
  obtains lat nan where "F_result h instr op a b rd addr m = put_f32 lat rd m (float_bits nan
    (fp_arith binary32 (h_before h) (h_fma_invalid h) (rounding_mode (fhart m)) ar (float_of (getF32 (get_rs1_F instr) m))
      (float_of (getF32 (get_rs2_F instr) m)) (float_of (getF32 (get_rs3_F instr) m))))"
  using assms by (cases op) (auto simp: F_result_def float_of_fneg Let_def)

lemma D_result_arith:
  assumes "D_arith op = Some ar"
  obtains lat nan where "D_result h instr op a b rd addr m = put_f64 lat rd m (double_bits nan
    (fp_arith binary64 (h_before h) (h_fma_invalid h) (rounding_mode (fhart m)) ar (double_of (getF64 (get_rs1_F instr) m))
      (double_of (getF64 (get_rs2_F instr) m)) (double_of (getF64 (get_rs3_F instr) m))))"
  using assms by (cases op) (auto simp: D_result_def double_of_fneg Let_def)

lemma nan_fields32:
  assumes "is_nan (float_of w)"
  shows "drop_bit 23 w AND 0xFF = 0xFF" "w AND 0x7FFFFF \<noteq> 0"
proof -
  have m: "drop_bit 23 w AND 0xFF = take_bit 8 (drop_bit 23 w)" "w AND 0x7FFFFF = take_bit 23 w"
    using take_bit_eq_mask[of 8 "drop_bit 23 w"] take_bit_eq_mask[of 23 w] by (simp_all add: mask_eq_exp_minus_1)
  have tb: "take_bit 32 (unat w) = unat w" using unsigned_less[of w, where ?'a = nat] by (simp add: take_bit_nat_eq_self)
  have "unat (take_bit 8 (drop_bit 23 w)) = 255" "unat (take_bit 23 w) \<noteq> 0"
    using assms by (auto simp: float_of_def fp_decode_fields binary32_def unsigned_take_bit_eq unsigned_drop_bit_eq tb Let_def split: if_splits)
  then show "drop_bit 23 w AND 0xFF = 0xFF" "w AND 0x7FFFFF \<noteq> 0" unfolding m by (auto simp: word_unat_eq_iff)
qed

lemma nan_fields64:
  assumes "is_nan (double_of w)"
  shows "drop_bit 52 w AND 0x7FF = 0x7FF" "w AND 0xFFFFFFFFFFFFF \<noteq> 0"
proof -
  have m: "drop_bit 52 w AND 0x7FF = take_bit 11 (drop_bit 52 w)" "w AND 0xFFFFFFFFFFFFF = take_bit 52 w"
    using take_bit_eq_mask[of 11 "drop_bit 52 w"] take_bit_eq_mask[of 52 w] by (simp_all add: mask_eq_exp_minus_1)
  have tb: "take_bit 64 (unat w) = unat w" using unsigned_less[of w, where ?'a = nat] by (simp add: take_bit_nat_eq_self)
  have "unat (take_bit 11 (drop_bit 52 w)) = 2047" "unat (take_bit 52 w) \<noteq> 0"
    using assms by (auto simp: double_of_def fp_decode_fields binary64_def unsigned_take_bit_eq unsigned_drop_bit_eq tb Let_def split: if_splits)
  then show "drop_bit 52 w AND 0x7FF = 0x7FF" "w AND 0xFFFFFFFFFFFFF \<noteq> 0" unfolding m by (auto simp: word_unat_eq_iff)
qed

lemma top_bit: "drop_bit 31 (w :: u32) \<noteq> 0 \<longleftrightarrow> bit w 31" "drop_bit 63 (d :: u64) \<noteq> 0 \<longleftrightarrow> bit d 63"
proof -
  have "drop_bit 31 w = of_bool (bit w 31)" "drop_bit 63 d = of_bool (bit d 63)"
    by (rule bit_word_eqI, use bit_imp_le_length[of w] bit_imp_le_length[of d] in \<open>fastforce simp: bit_simps\<close>)+
  then show "drop_bit 31 w \<noteq> 0 \<longleftrightarrow> bit w 31" "drop_bit 63 d \<noteq> 0 \<longleftrightarrow> bit d 63" by simp_all
qed

lemma F_arith_executes:
  assumes "F_arith op = Some ar"
    and "exact_op ar (float_of (getF32 (get_rs1_F instr) m)) (float_of (getF32 (get_rs2_F instr) m)) (float_of (getF32 (get_rs3_F instr) m)) = Some v"
  obtains lat fe w where "F_execute h instr op a b rd addr m = Inr (lat, fcsr_flags fe, setF32 rd w m)"
    "ieee_rounded binary32 (rounding_mode (fhart m)) v (float_of w) fe"
proof -
  obtain lat nan where f: "F_result h instr op a b rd addr m = put_f32 lat rd m (float_bits nan
    (fp_arith binary32 (h_before h) (h_fma_invalid h) (rounding_mode (fhart m)) ar (float_of (getF32 (get_rs1_F instr) m))
      (float_of (getF32 (get_rs2_F instr) m)) (float_of (getF32 (get_rs3_F instr) m))))"
    by (rule F_result_arith[OF assms(1)])
  obtain r fe where r: "fp_arith binary32 (h_before h) (h_fma_invalid h) (rounding_mode (fhart m)) ar (float_of (getF32 (get_rs1_F instr) m))
      (float_of (getF32 (get_rs2_F instr) m)) (float_of (getF32 (get_rs3_F instr) m)) = (r, fe)" by (metis surj_pair)
  have c: "ieee_rounded binary32 (rounding_mode (fhart m)) v r fe" by (rule fp_arith_correct[OF formats_ok(1) assms(2) r])
  let ?w = "of_nat (fp_encode binary32 r) :: u32"
  have "float_of ?w = r" using c by (intro float_of_bits) (simp add: ieee_rounded_def)
  moreover have "F_execute h instr op a b rd addr m = Inr (lat, fcsr_flags fe, setF32 rd ?w m)"
    using f r rounded_not_nan[OF c] by (simp add: F_execute_def put_f32_def float_bits_def)
  ultimately show ?thesis using c that by auto
qed

lemma D_arith_executes:
  assumes "D_arith op = Some ar"
    and "exact_op ar (double_of (getF64 (get_rs1_F instr) m)) (double_of (getF64 (get_rs2_F instr) m)) (double_of (getF64 (get_rs3_F instr) m)) = Some v"
  obtains lat fe w where "D_execute h instr op a b rd addr m = Inr (lat, fcsr_flags fe, setF64 rd w m)"
    "ieee_rounded binary64 (rounding_mode (fhart m)) v (double_of w) fe"
proof -
  obtain lat nan where f: "D_result h instr op a b rd addr m = put_f64 lat rd m (double_bits nan
    (fp_arith binary64 (h_before h) (h_fma_invalid h) (rounding_mode (fhart m)) ar (double_of (getF64 (get_rs1_F instr) m))
      (double_of (getF64 (get_rs2_F instr) m)) (double_of (getF64 (get_rs3_F instr) m))))"
    by (rule D_result_arith[OF assms(1)])
  obtain r fe where r: "fp_arith binary64 (h_before h) (h_fma_invalid h) (rounding_mode (fhart m)) ar (double_of (getF64 (get_rs1_F instr) m))
      (double_of (getF64 (get_rs2_F instr) m)) (double_of (getF64 (get_rs3_F instr) m)) = (r, fe)" by (metis surj_pair)
  have c: "ieee_rounded binary64 (rounding_mode (fhart m)) v r fe" by (rule fp_arith_correct[OF formats_ok(2) assms(2) r])
  let ?w = "of_nat (fp_encode binary64 r) :: u64"
  have "double_of ?w = r" using c by (intro double_of_bits) (simp add: ieee_rounded_def)
  moreover have "D_execute h instr op a b rd addr m = Inr (lat, fcsr_flags fe, setF64 rd ?w m)"
    using f r rounded_not_nan[OF c] by (simp add: D_execute_def put_f64_def double_bits_def)
  ultimately show ?thesis using c that by auto
qed

section \<open>Properties\<close>

text \<open>C20: Single-precision arithmetic is correctly rounded.  FADD, FSUB, FMUL, FDIV, FSQRT, FMADD and FMSUB on finite operands
  whose exact real result v exists leave in rd, NaN-boxed, the representable number that the rounding direction of the
  register file selects for v (the nearest with ties to even, or the neighbour towards zero, downward, upward), or the
  overflow result when it is too large, and the inexact flag tells whether it differs from v.\<close>

theorem single_precision_correctly_rounded:
  assumes "F_arith op = Some ar"
    and "exact_op ar (float_of (getF32 (get_rs1_F instr) m)) (float_of (getF32 (get_rs2_F instr) m)) (float_of (getF32 (get_rs3_F instr) m)) = Some v"
  shows "\<exists>lat fe m'. F_execute h instr op rs1_val rs2_val rd addr m = Inr (lat, fcsr_flags fe, m') \<and>
     ieee_rounded binary32 (rounding_mode (fhart m)) v (float_of (getF32 rd m')) fe \<and>
     getFPValue rd m' AND 0xFFFFFFFF00000000 = 0xFFFFFFFF00000000"
  using F_arith_executes[OF assms] setF32_boxed getF32_setF32 by metis

text \<open>C21: Double-precision arithmetic is correctly rounded, in the same sense.\<close>

theorem double_precision_correctly_rounded:
  assumes "D_arith op = Some ar"
    and "exact_op ar (double_of (getF64 (get_rs1_F instr) m)) (double_of (getF64 (get_rs2_F instr) m)) (double_of (getF64 (get_rs3_F instr) m)) = Some v"
  shows "\<exists>lat fe m'. D_execute h instr op rs1_val rs2_val rd addr m = Inr (lat, fcsr_flags fe, m') \<and>
     ieee_rounded binary64 (rounding_mode (fhart m)) v (double_of (getF64 rd m')) fe"
  using D_arith_executes[OF assms] getF64_setF64 by metis

text \<open>Floating-point stores and loads are inverse.  With an address in DRAM, FSW and then FLW leave the low word of the stored register in rd,
  NaN-boxed; FSD and then FLD leave the stored register; neither sets a flag.\<close>

theorem fp_store_load_roundtrip:
  assumes "dram_range addr 4" "dram_range addr 8"
  shows "(\<exists>m1 m2. F_execute h i OP_F_FSW a (getFPValue rs m) rd addr m = Inr (1, 0, m1) \<and>
        F_execute h i OP_F_FLW a b rd addr m1 = Inr (2, 0, m2) \<and> getFPValue rd m2 = 0xFFFFFFFF00000000 OR ucast (getF32 rs m)) \<and>
     (\<exists>m1 m2. D_execute h i OP_D_FSD a (getFPValue rs m) rd addr m = Inr (1, 0, m1) \<and>
        D_execute h i OP_D_FLD a b rd addr m1 = Inr (2, 0, m2) \<and> getFPValue rd m2 = getFPValue rs m)"
  using assms
  by (simp add: F_execute_def D_execute_def F_result_def D_result_def fcsr_flags_def writeDataMem_def readDataMem_def writeDataMem64_def
      readDataMem64_def dram_access of_bytes_full getFPValue_def setFPValue_def getF32_def Let_def)

text \<open>FCLASS tells signalling from quiet NaNs by their sign.  For every NaN, whether signalling or quiet, the class
  is that of a signalling NaN if the sign bit is set and that of a quiet NaN otherwise, in both formats.\<close>

theorem fclass_nan_by_sign:
  "(is_nan (float_of w) \<longrightarrow> fclass_s w = (if bit w 31 then 0x100 else 0x200)) \<and>
   (is_nan (double_of d) \<longrightarrow> fclass_d d = (if bit d 63 then 0x100 else 0x200))"
  using nan_fields32[of w] nan_fields64[of d] by (auto simp: fclass_s_def fclass_d_def top_bit Let_def)

section \<open>Instances\<close>

text \<open>A machine with 1, 2 to the power -24 and NaNs in its registers.\<close>

definition demo_fpu :: FMachine where
  "demo_fpu = \<lparr>fhart = \<lparr>regs = Registers_init, platform = platform_init, TLB_A_Entries = {}, TLB_A_Entries_64 = {}, stop_requested = False\<rparr>,
     f_regs = (\<lambda>_. 0)(1 := 0xFFFFFFFF3F800000, 2 := 0xFFFFFFFF33800000, 4 := 0x3FF0000000000000, 5 := 0x4008000000000000)\<rparr>"

lemma demo_fpu_mode: "rounding_mode (fhart demo_fpu) = FE_TONEAREST"
  by (simp add: rounding_mode_def demo_fpu_def getCSR_def Registers_init_def initCSR64_def)

lemma demo_floats: "float_of 0x3F800000 = Num False 0x800000 (- 23)" "float_of 0x33800000 = Num False 0x800000 (- 47)"
  "double_of 0x3FF0000000000000 = Num False 0x10000000000000 (- 52)" "double_of 0x4008000000000000 = Num False 0x18000000000000 (- 51)"
  "float_of 0x7F800001 = NaN True" "float_of 0xFFC00000 = NaN False" "double_of 0x7FF8000000000000 = NaN False"
  by (simp_all add: float_of_def double_of_def fp_decode_def binary32_def binary64_def fp_emin_def)

lemma demo_regs: "getF32 1 demo_fpu = 0x3F800000" "getF32 2 demo_fpu = 0x33800000"
  "getF64 4 demo_fpu = 0x3FF0000000000000" "getF64 5 demo_fpu = 0x4008000000000000"
  by (simp_all add: getF32_def getF64_def demo_fpu_def)

lemma demo_fields: "get_rs1_F 0x002081D3 = 1" "get_rs2_F 0x002081D3 = 2" "get_rs1_F 0x1A5201D3 = 4" "get_rs2_F 0x1A5201D3 = 5"
  by (simp_all add: get_rs1_F_def get_rs2_F_def)

theorem single_precision_correctly_rounded_witness:
  "\<exists>lat fe m'. F_execute demo_host 0x002081D3 OP_F_FADD_S 0 0 3 0 demo_fpu = Inr (lat, fcsr_flags fe, m') \<and>
     ieee_rounded binary32 FE_TONEAREST (1 + 2 powi (- 24)) (float_of (getF32 3 m')) fe \<and>
     getFPValue 3 m' AND 0xFFFFFFFF00000000 = 0xFFFFFFFF00000000"
proof -
  have e: "exact_op Add (float_of (getF32 (get_rs1_F 0x002081D3) demo_fpu)) (float_of (getF32 (get_rs2_F 0x002081D3) demo_fpu))
      (float_of (getF32 (get_rs3_F 0x002081D3) demo_fpu)) = Some (1 + 2 powi (- 24))"
    by (simp add: demo_fields demo_regs demo_floats mag_def power_int_def power_one_over del: One_nat_def)
  show ?thesis
    using single_precision_correctly_rounded[of OP_F_FADD_S Add, OF _ e, of demo_host 0 0 3 0] by (simp add: demo_fpu_mode)
qed

theorem double_precision_correctly_rounded_witness:
  "\<exists>lat fe m'. D_execute demo_host 0x1A5201D3 OP_D_FDIV_D 0 0 3 0 demo_fpu = Inr (lat, fcsr_flags fe, m') \<and>
     ieee_rounded binary64 FE_TONEAREST (1 / 3) (double_of (getF64 3 m')) fe"
proof -
  have e: "exact_op Div (double_of (getF64 (get_rs1_F 0x1A5201D3) demo_fpu)) (double_of (getF64 (get_rs2_F 0x1A5201D3) demo_fpu))
      (double_of (getF64 (get_rs3_F 0x1A5201D3) demo_fpu)) = Some (1 / 3)"
    by (simp add: demo_fields demo_regs demo_floats mag_def power_int_def power_one_over del: One_nat_def)
  show ?thesis
    using double_precision_correctly_rounded[of OP_D_FDIV_D Div, OF _ e, of demo_host 0 0 3 0] by (simp add: demo_fpu_mode)
qed

theorem fp_store_load_roundtrip_witness:
  "(\<exists>m1 m2. F_execute demo_host 0 OP_F_FSW 0 (getFPValue 1 demo_fpu) 7 0x80002000 demo_fpu = Inr (1, 0, m1) \<and>
      F_execute demo_host 0 OP_F_FLW 0 0 7 0x80002000 m1 = Inr (2, 0, m2) \<and> getFPValue 7 m2 = 0xFFFFFFFF00000000 OR ucast (getF32 1 demo_fpu)) \<and>
   (\<exists>m1 m2. D_execute demo_host 0 OP_D_FSD 0 (getFPValue 1 demo_fpu) 7 0x80002000 demo_fpu = Inr (1, 0, m1) \<and>
      D_execute demo_host 0 OP_D_FLD 0 0 7 0x80002000 m1 = Inr (2, 0, m2) \<and> getFPValue 7 m2 = getFPValue 1 demo_fpu)"
  by (rule fp_store_load_roundtrip) (simp_all add: dram_range_def)

theorem fclass_nan_by_sign_witness:
  "is_nan (float_of 0x7F800001) \<and> is_snan (float_of 0x7F800001) \<and> fclass_s 0x7F800001 = 0x200 \<and>
   is_nan (float_of 0xFFC00000) \<and> \<not> is_snan (float_of 0xFFC00000) \<and> fclass_s 0xFFC00000 = 0x100"
  using fclass_nan_by_sign[of "0x7F800001" "0x7FF8000000000000"] fclass_nan_by_sign[of "0xFFC00000" "0x7FF8000000000000"]
  by (simp add: demo_floats)

text \<open>Where the instructions depart from the instruction set: FSGNJX raises the flags of a product (here the product of the
  largest number with itself overflows), and FNMADD and FNMSUB round before they negate: the negation of a number
  rounded downward is not the negated exact value rounded downward unless the result is exact.\<close>

lemma negated_rounding_direction: "rounded F FE_DOWNWARD v w \<Longrightarrow> w \<noteq> v \<Longrightarrow> \<not> rounded F FE_DOWNWARD (- v) (- w)"
  by (auto simp: rounded_def)

lemma largest_product: "fp_mul binary32 False FE_TONEAREST (Num False 0xFFFFFF 104) (Num False 0xFFFFFF 104) = (Infty False, {FE_OVERFLOW, FE_INEXACT})"
proof -
  have "nbits 281474943156225 = Suc 47" by (rule nbits_eqI) simp_all
  then show ?thesis
    by (simp add: binary32_def fp_exact_def fp_int_def fp_round_def fp_cut_def fp_ulp_def fp_emin_def fp_emax_def overflow_result_def Let_def)
qed

lemma fsgnjx_raises_product_flags:
  "\<exists>m'. F_execute demo_host 0x202081D3 OP_F_FSGNJX_S 0 0 3 0 (setF32 1 0x7F7FFFFF (setF32 2 0x7F7FFFFF demo_fpu)) = Inr (2, 0x05, m')"
proof -
  let ?m = "setF32 1 0x7F7FFFFF (setF32 2 0x7F7FFFFF demo_fpu)"
  have f: "get_rs1_F 0x202081D3 = 1" "get_rs2_F 0x202081D3 = 2" by (simp_all add: get_rs1_F_def get_rs2_F_def)
  have g: "getF32 1 ?m = 0x7F7FFFFF" "getF32 2 ?m = 0x7F7FFFFF" by (simp_all add: getF32_def setF32_def)
  have x: "float_of 0x7F7FFFFF = Num False 0xFFFFFF 104"
    by (simp add: float_of_def fp_decode_def binary32_def fp_emin_def)
  have md: "rounding_mode (fhart ?m) = FE_TONEAREST" using demo_fpu_mode by (simp add: setF32_def)
  show ?thesis
    by (simp add: F_execute_def F_result_def f g x md largest_product put_f32_def float_bits_def fcsr_flags_def demo_host_def Let_def
        del: One_nat_def fp_mul.simps)
qed

end
