(* ===== verification/P6_FP_Props.thy ===== *)
theory P6_FP_Props
  imports P6_Retire FP_Props
begin

unbundle bit_operations_syntax

text \<open>
  Floating-point instructions in the six-stage core: the execute stage applies the F and D extensions to the
  register bank as the instruction passes, ahead of commit.  The arithmetic is correctly rounded there; what follows from
  writing registers and memory early is shown after it.
\<close>

section \<open>The execute stage\<close>

text \<open>The execute latch holds the decoded word w, and its scoreboard entry names the floating-point unit.\<close>

definition fp_latched :: "u32 \<Rightarrow> P6 \<Rightarrow> bool" where
  "fp_latched w s \<longleftrightarrow> (\<exists>d rob v1 v2. issue_ex_reg s = ex_latch (decode32 w (d\<lparr>d_instr := w\<rparr>)) rob v1 v2) \<and>
     sb_fus (scoreboard s) ! nat (x_rob_index (issue_ex_reg s)) = FU_FPU"

definition ex_ready :: "P6 \<Rightarrow> bool" where
  "ex_ready s \<longleftrightarrow> core_wf s \<and> youngest (issue_ex_reg s) (scoreboard s) \<and> \<not> flush_pipeline s \<and> \<not> trap_pending s"

definition fp_rd :: "u32 \<Rightarrow> nat" where "fp_rd w = unat (drop_bit 7 w AND 0x1F)"

lemma unat_reg_field: "unat (ucast (v AND 0x1F :: u32) :: u8) = unat (v AND 0x1F)"
proof -
  have "v AND 0x1F = take_bit 5 v" using take_bit_eq_mask[of 5 v] by (simp add: mask_eq_exp_minus_1)
  then show ?thesis by (simp add: unsigned_ucast_eq unsigned_take_bit_eq)
qed

lemma fp_latched_fields:
  assumes "fp_latched w s"
  shows "x_instr (issue_ex_reg s) = w" "\<not> x_is_compressed (issue_ex_reg s)" "x_valid (issue_ex_reg s)"
    "x_opcode (issue_ex_reg s) = ucast (w AND 0x7F)"
    "x_opcode (issue_ex_reg s) \<notin> {0x23, 0x27, 0x63} \<Longrightarrow> unat (x_rd (issue_ex_reg s)) = fp_rd w"
proof -
  obtain d rob v1 v2 where x: "issue_ex_reg s = ex_latch (decode32 w (d\<lparr>d_instr := w\<rparr>)) rob v1 v2"
    using assms by (auto simp: fp_latched_def)
  show "x_instr (issue_ex_reg s) = w" "\<not> x_is_compressed (issue_ex_reg s)" "x_valid (issue_ex_reg s)"
    "x_opcode (issue_ex_reg s) = ucast (w AND 0x7F)"
    by (simp_all add: x ex_latch_def decode32_def Let_def)
  note opc = this(4)
  have "x_rd (issue_ex_reg s) = (if ucast (w AND 0x7F) \<in> {0x23, 0x27, 0x63 :: u8} then 0 else ucast (drop_bit 7 w AND 0x1F))"
    by (simp add: x ex_latch_def decode32_def Let_def)
  then show "x_opcode (issue_ex_reg s) \<notin> {0x23, 0x27, 0x63} \<Longrightarrow> unat (x_rd (issue_ex_reg s)) = fp_rd w"
    unfolding opc fp_rd_def by (simp only: if_False unat_reg_field)
qed

lemma F_arith_opcode: "F_arith (F_decode w) = Some ar \<Longrightarrow> w AND 0x7F \<in> {0x43, 0x47, 0x53}"
  by (auto simp: F_decode_def Let_def split: if_splits)

lemma D_arith_opcode:
  assumes "D_arith (D_decode w) = Some ar"
  shows "w AND 0x7F \<in> {0x43, 0x47, 0x53}" "F_decode w = OP_F_ERROR"
proof -
  have c: "(w AND 0x7F = 0x43 \<or> w AND 0x7F = 0x47) \<and> drop_bit 25 w AND 0x3 = 1 \<or>
      w AND 0x7F = 0x53 \<and> drop_bit 25 w AND 0x7F \<in> {0x01, 0x05, 0x09, 0x0D, 0x2D}"
    using assms unfolding D_decode_def Let_def by (auto split: if_split_asm)
  then show "w AND 0x7F \<in> {0x43, 0x47, 0x53}" by auto
  show "F_decode w = OP_F_ERROR" using c unfolding F_decode_def Let_def by (elim disjE conjE insertE emptyE) simp_all
qed

lemma tick_units_fp [simp]:
  "cpu_host (tick_units s) = cpu_host s" "cpu_fregs (tick_units s) = cpu_fregs s" "cpu_pf (tick_units s) = cpu_pf s"
  "pending_priv_switch (tick_units s) = pending_priv_switch s" "store_buffer (tick_units s) = store_buffer s"
  "cpu_mmu (tick_units s) = cpu_mmu s" "dcache (tick_units s) = dcache s"
  by (simp_all add: tick_units_def Let_def split: prod.splits)

lemma fpu_view_tick [simp]: "fpu_view (tick_units (s\<lparr>stall_ex := b\<rparr>)) = fpu_view s"
  by (simp add: fpu_view_def)

lemma fp_operate_tick [simp]: "fp_operate pa (tick_units (s\<lparr>stall_ex := b\<rparr>)) = fp_operate pa s"
  by (simp add: fp_operate_def Let_def)

lemma set_fflags_0 [simp]: "set_fflags 0 c = c"
  by (simp add: set_fflags_def)

lemma fp_complete_fields [simp]:
  "cpu_fregs (fp_complete miss lat v s) = cpu_fregs s" "cpu_regs (fp_complete miss lat v s) = cpu_regs s"
  "cpu_pf (fp_complete miss lat v s) = cpu_pf s" "cpu_csr (fp_complete miss lat v s) = cpu_csr s"
  "trap_pending (fp_complete miss lat v s) = trap_pending s"
  "pending_priv_switch (fp_complete miss lat v s) = pending_priv_switch s"
  by (simp_all add: fp_complete_def Let_def start_miss_def ex_complete_def upd_sb_def)

lemma fp_retire_fields:
  assumes "fp_retire miss lat flags m s = (s', mc, v)"
  shows "mc" "cpu_fregs s' = f_regs m" "cpu_regs s' = regs (fhart m)" "cpu_pf s' = platform (fhart m)"
    "cpu_csr s' = set_fflags flags (cpu_csr s)" "trap_pending s' = trap_pending s"
    "pending_priv_switch s' = pending_priv_switch s"
  using assms
  by (cases "flags = 0"; cases "x_opcode (issue_ex_reg s) = 0x27"; auto simp: fp_retire_def fpu_put_def upd_sb_def Let_def)+

lemma ex_stage_fp:
  assumes r: "ex_ready s" and l: "fp_latched w s"
    and a: "fp_access (tick_units (s\<lparr>stall_ex := False\<rparr>)) = Inr (Inr (pa, miss, t))" "\<not> trap_pending t"
    and o: "fp_operate pa t = Some (Inr (lat, flags, m))"
  shows "EX_stage s = Inr (fst (fp_retire miss lat flags m t))"
proof -
  let ?s = "tick_units (s\<lparr>stall_ex := False\<rparr>)"
  have w: "core_wf ?s" "back_same (s\<lparr>stall_ex := False\<rparr>) ?s"
    using r tick_units_wf[of "s\<lparr>stall_ex := False\<rparr>"] by (simp_all add: ex_ready_def core_wf_def)
  have x: "issue_ex_reg ?s = issue_ex_reg s" "flush_pipeline ?s = flush_pipeline s" "sb_fus (scoreboard ?s) = sb_fus (scoreboard s)"
    using w(2) by (simp_all add: back_same_def)
  have y: "nat (x_rob_index (issue_ex_reg s)) < sb_size (scoreboard ?s)" "fp_opcode (x_opcode (issue_ex_reg s))"
    using r l w(1) fp_latched_fields(3)[OF l] by (auto simp: ex_ready_def fp_latched_def youngest_def core_wf_def sb_ok_def)
  have f: "sb_fu (sb_get_entry (scoreboard ?s) (x_rob_index (issue_ex_reg ?s))) = FU_FPU"
    using l sb_fus_at[OF y(1)] x by (simp add: fp_latched_def sb_get_entry_def)
  obtain u mc v where u: "fp_retire miss lat flags m t = (u, mc, v)" by (metis prod_cases3)
  have "ex_run ?s = Inr (u, mc, v)"
    using ex_body_fp[of ?s] y(2) x f a(1) o u by (simp add: ex_run_def ex_fpu_def)
  then show ?thesis
    using r x fp_latched_fields(3)[OF l] fp_retire_fields[OF u] a(2) u
    by (simp add: EX_stage_def Let_def ex_ready_def ex_done_def)
qed

text \<open>The address a trap would save is not changed by the execution of a floating-point instruction.\<close>

definition sb_heads :: "Scoreboard \<Rightarrow> nat \<times> nat \<times> u64 list" where
  "sb_heads sb = (sb_head sb, sb_count sb, map sb_pc (sb_entries sb))"

lemma sb_heads_complete [simp]: "sb_heads (sb_complete i v d sb) = sb_heads sb"
proof -
  have u: "map sb_pc (es[k := e]) = map sb_pc es" if "sb_pc e = sb_pc (es ! k)" for es k e
    using that by (metis list_update_id map_update)
  show ?thesis by (auto simp: sb_heads_def sb_complete_def u)
qed

lemma sb_heads_tick [simp]: "sb_heads (scoreboard (tick_units s)) = sb_heads (scoreboard s)"
  by (rule tick_units_pres[where P = "\<lambda>sb. sb_heads sb = sb_heads (scoreboard s)"]) simp_all

lemma fp_retire_heads:
  assumes "fp_retire miss lat flags m s = (s', mc, v)" "x_opcode (issue_ex_reg s) \<noteq> 0x27"
  shows "sb_heads (scoreboard s') = sb_heads (scoreboard s)"
proof -
  have c: "sb_heads (scoreboard (fp_complete miss lat k t)) = sb_heads (scoreboard t)" for k t
    by (simp add: fp_complete_def Let_def start_miss_def ex_complete_def upd_sb_def)
  show ?thesis using assms by (cases "flags = 0") (auto simp: fp_retire_def fpu_put_def Let_def c)
qed

lemma ex_stage_fp_reg:
  assumes r: "ex_ready s" and l: "fp_latched w s" and c: "w AND 0x7F \<in> {0x43, 0x47, 0x53}"
    and o: "fp_operate 0 s = Some (Inr (lat, flags, m))"
  obtains s' where "EX_stage s = Inr s'" "fpu_view s' = m\<lparr>fhart := fhart (fpu_view s')\<rparr>" "cpu_regs s' = regs (fhart m)"
    "cpu_pf s' = platform (fhart m)" "cpu_csr s' = set_fflags flags (cpu_csr s)" "\<not> trap_pending s'"
    "core_wf s'" "pending_priv_switch s' = pending_priv_switch s" "sb_heads (scoreboard s') = sb_heads (scoreboard s)"
proof -
  let ?s = "tick_units (s\<lparr>stall_ex := False\<rparr>)"
  have x: "x_opcode (issue_ex_reg s) \<noteq> 0x07" "x_opcode (issue_ex_reg s) \<noteq> 0x27"
    using c fp_latched_fields(4)[OF l] by auto
  have a: "fp_access ?s = Inr (Inr (0, False, ?s))" using x by (simp add: fp_access_def)
  have o': "fp_operate 0 ?s = Some (Inr (lat, flags, m))" using o by simp
  have n: "\<not> trap_pending ?s" using r by (simp add: ex_ready_def)
  obtain u mc v where u: "fp_retire False lat flags m ?s = (u, mc, v)" by (metis prod_cases3)
  have e: "EX_stage s = Inr u" using ex_stage_fp[OF r l a n o'] u by simp
  have "core_wf u" using EX_stage_wf[OF e] r by (simp add: ex_ready_def)
  then show ?thesis
    using that[OF e] fp_retire_fields[OF u] fp_retire_heads[OF u] n x by (simp add: fpu_view_def)
qed



section \<open>Rounding\<close>

lemma core_rounding_mode: "core_wf s \<Longrightarrow> rounding_mode (fhart (fpu_view s)) = FE_TONEAREST"
  by (simp add: core_wf_def rounding_mode_def fpu_view_def getCSR_def initCSR64_def)

lemma getF_view: "fpu_view s' = (setF32 r w m)\<lparr>fhart := h\<rparr> \<Longrightarrow> getF32 r (fpu_view s') = w"
  "fpu_view s' = (setF64 r d m)\<lparr>fhart := h\<rparr> \<Longrightarrow> getF64 r (fpu_view s') = d"
  using getF32_setF32[of r w m] getF64_setF64[of r d m] by (simp_all add: getF32_def getF64_def)

lemma arith_rd:
  assumes "fp_latched w s" "w AND 0x7F \<in> {0x43, 0x47, 0x53}"
  shows "unat (x_rd (issue_ex_reg s)) = fp_rd w" "fp_instr (issue_ex_reg s) = w"
proof -
  have "x_opcode (issue_ex_reg s) \<notin> {0x23, 0x27, 0x63}" using fp_latched_fields(4)[OF assms(1)] assms(2) by auto
  then show "unat (x_rd (issue_ex_reg s)) = fp_rd w" "fp_instr (issue_ex_reg s) = w"
    using fp_latched_fields[OF assms(1)] by (simp_all add: fp_instr_def Let_def)
qed

lemma ex_stage_single:
  assumes "ex_ready s" "fp_latched w s" "F_arith (F_decode w) = Some ar"
    and "exact_op ar (float_of (getF32 (get_rs1_F w) (fpu_view s))) (float_of (getF32 (get_rs2_F w) (fpu_view s)))
           (float_of (getF32 (get_rs3_F w) (fpu_view s))) = Some v"
  obtains s' fe where "EX_stage s = Inr s'" "ieee_rounded binary32 FE_TONEAREST v (float_of (getF32 (fp_rd w) (fpu_view s'))) fe"
    "cpu_csr s' = set_fflags (fcsr_flags fe) (cpu_csr s)" "cpu_regs s' = cpu_regs s" "cpu_pf s' = cpu_pf s"
    "core_wf s'" "pending_priv_switch s' = pending_priv_switch s" "sb_heads (scoreboard s') = sb_heads (scoreboard s)"
proof -
  note c = F_arith_opcode[OF assms(3)]
  note rd = arith_rd[OF assms(2) c]
  let ?x = "issue_ex_reg s"
  obtain lat fe k where e: "F_execute (cpu_host s) w (F_decode w) (x_rs1_val ?x) (x_rs2_val ?x) (fp_rd w) 0 (fpu_view s) =
      Inr (lat, fcsr_flags fe, setF32 (fp_rd w) k (fpu_view s))"
    and k: "ieee_rounded binary32 (rounding_mode (fhart (fpu_view s))) v (float_of k) fe"
    by (rule F_arith_executes[OF assms(3,4)])
  have "F_decode w \<noteq> OP_F_ERROR" using assms(3) by auto
  then have "fp_operate 0 s = Some (Inr (lat, fcsr_flags fe, setF32 (fp_rd w) k (fpu_view s)))"
    using rd e by (simp add: fp_operate_def Let_def)
  then obtain s' where s': "EX_stage s = Inr s'" "fpu_view s' = (setF32 (fp_rd w) k (fpu_view s))\<lparr>fhart := fhart (fpu_view s')\<rparr>"
    "cpu_regs s' = regs (fhart (setF32 (fp_rd w) k (fpu_view s)))" "cpu_pf s' = platform (fhart (setF32 (fp_rd w) k (fpu_view s)))"
    "cpu_csr s' = set_fflags (fcsr_flags fe) (cpu_csr s)"
    "core_wf s'" "pending_priv_switch s' = pending_priv_switch s" "sb_heads (scoreboard s') = sb_heads (scoreboard s)"
    by (rule ex_stage_fp_reg[OF assms(1,2) c])
  show ?thesis
    by (rule that[OF s'(1)]) (use s' k getF_view(1)[OF s'(2)] core_rounding_mode[of s] assms(1) in
        \<open>simp_all add: ex_ready_def, simp_all add: fpu_view_def setF32_def\<close>)
qed


lemma ex_stage_double:
  assumes "ex_ready s" "fp_latched w s" "D_arith (D_decode w) = Some ar"
    and "exact_op ar (double_of (getF64 (get_rs1_F w) (fpu_view s))) (double_of (getF64 (get_rs2_F w) (fpu_view s)))
           (double_of (getF64 (get_rs3_F w) (fpu_view s))) = Some v"
  obtains s' fe where "EX_stage s = Inr s'" "ieee_rounded binary64 FE_TONEAREST v (double_of (getF64 (fp_rd w) (fpu_view s'))) fe"
    "cpu_csr s' = set_fflags (fcsr_flags fe) (cpu_csr s)" "cpu_regs s' = cpu_regs s" "cpu_pf s' = cpu_pf s"
proof -
  note c = D_arith_opcode[OF assms(3)]
  note rd = arith_rd[OF assms(2) c(1)]
  let ?x = "issue_ex_reg s"
  obtain lat fe k where e: "D_execute (cpu_host s) w (D_decode w) (x_rs1_val ?x) (x_rs2_val ?x) (fp_rd w) 0 (fpu_view s) =
      Inr (lat, fcsr_flags fe, setF64 (fp_rd w) k (fpu_view s))"
    and k: "ieee_rounded binary64 (rounding_mode (fhart (fpu_view s))) v (double_of k) fe"
    by (rule D_arith_executes[OF assms(3,4)])
  have "D_decode w \<noteq> OP_D_ERROR" using assms(3) by auto
  then have "fp_operate 0 s = Some (Inr (lat, fcsr_flags fe, setF64 (fp_rd w) k (fpu_view s)))"
    using rd c(2) e by (simp add: fp_operate_def Let_def)
  then obtain s' where s': "EX_stage s = Inr s'" "fpu_view s' = (setF64 (fp_rd w) k (fpu_view s))\<lparr>fhart := fhart (fpu_view s')\<rparr>"
    "cpu_regs s' = regs (fhart (setF64 (fp_rd w) k (fpu_view s)))" "cpu_pf s' = platform (fhart (setF64 (fp_rd w) k (fpu_view s)))"
    "cpu_csr s' = set_fflags (fcsr_flags fe) (cpu_csr s)"
    by (rule ex_stage_fp_reg[OF assms(1,2) c(1)])
  show ?thesis
    by (rule that[OF s'(1)]) (use s' k getF_view(2)[OF s'(2)] core_rounding_mode[of s] assms(1) in
        \<open>simp_all add: ex_ready_def, simp_all add: fpu_view_def setF64_def\<close>)
qed



text \<open>C22: A floating-point result survives the interrupt that undoes its instruction.  A single-precision arithmetic instruction
  that is the oldest in flight writes its register and the accumulated flags in EX_stage.  If the
  core then takes an interrupt, the instruction is dropped from the scoreboard and the trap return goes back to
  it, but its result stays in the register, so that it executes a second time, on its own result where rd is one of its
  sources.\<close>

theorem interrupt_keeps_fp_result:
  assumes "ex_ready s" "fp_latched w s" "F_arith (F_decode w) = Some ar"
    and "exact_op ar (float_of (getF32 (get_rs1_F w) (fpu_view s))) (float_of (getF32 (get_rs2_F w) (fpu_view s)))
           (float_of (getF32 (get_rs3_F w) (fpu_view s))) = Some v"
    and oldest: "\<not> sb_is_empty (scoreboard s)" "sb_pc (sb_get_head (scoreboard s)) = x_pc (issue_ex_reg s)" "pending_priv_switch s = None"
    and run: "EX_stage s = Inr s1" "process_IRQ s1 = (True, t)"
  shows "sb_is_empty (scoreboard t) \<and>
     (if priv (cpu_csr t) = PrivMode_M then fst (mret (cpu_csr t)) else fst (sret (cpu_csr t))) = x_pc (issue_ex_reg s) \<and>
     (\<exists>fe. ieee_rounded binary32 FE_TONEAREST v (float_of (getF32 (fp_rd w) (fpu_view t))) fe)"
proof -
  obtain fe where s1: "ieee_rounded binary32 FE_TONEAREST v (float_of (getF32 (fp_rd w) (fpu_view s1))) fe"
    "core_wf s1" "pending_priv_switch s1 = None" "sb_heads (scoreboard s1) = sb_heads (scoreboard s)"
    using ex_stage_single[OF assms(1-4)] run(1) oldest(3) by (metis Inr_inject)
  have wf: "sb_ok (scoreboard s)" "sb_ok (scoreboard s1)" using assms(1) s1(2) by (simp_all add: ex_ready_def core_wf_def)
  have h: "sb_head (scoreboard s1) = sb_head (scoreboard s)" "sb_count (scoreboard s1) = sb_count (scoreboard s)"
    "map sb_pc (sb_entries (scoreboard s1)) ! sb_head (scoreboard s) = map sb_pc (sb_entries (scoreboard s)) ! sb_head (scoreboard s)"
    using s1(4) by (simp_all add: sb_heads_def)
  have "sb_head (scoreboard s) < 32"
    using wf(1) ring_wfD[OF sb_wf_ring[of "scoreboard s"]] by (auto simp: sb_ok_def sb_size_def)
  then have "irq_epc s1 = x_pc (issue_ex_reg s)"
    using h wf oldest(1,2) s1(3) by (simp add: irq_epc_def sb_is_empty_def sb_get_head_def sb_ok_def sb_size_def)
  moreover have p: "0 \<le> pending_interrupt (cpu_csr s1)"
    using run(2) by (auto simp: process_IRQ_def Let_def split: if_splits)
  note q = process_IRQ_taken[OF s1(2) p]
  have "cpu_fregs t = cpu_fregs s1"
    using run(2) p by (auto simp: process_IRQ_def Let_def redirect_def split: prod.splits if_splits)
  then have "getF32 (fp_rd w) (fpu_view t) = getF32 (fp_rd w) (fpu_view s1)" by (simp add: fpu_view_def getF32_def)
  ultimately show ?thesis using interrupt_return[OF q(2)] q(4) run(2) s1(1) by auto
qed


section \<open>Loads\<close>

lemma translate_machine_mode: "priv (cpu_csr s) = PrivMode_M \<Longrightarrow> p6_translate va a s =
    Inr (\<lparr>r_ok = True, r_fault = False, r_fault_cause = 0, r_paddr = va, r_stall_cycles = 0\<rparr>, s)"
  by (simp add: p6_translate_def translate_def)

lemma fld_fields:
  assumes "D_decode w = OP_D_FLD" "fp_latched w s"
  shows "x_opcode (issue_ex_reg s) = 0x07" "x_funct3 (issue_ex_reg s) = 3" "F_decode w = OP_F_ERROR"
    "unat (x_rd (issue_ex_reg s)) = fp_rd w" "fp_instr (issue_ex_reg s) = w"
proof -
  have d: "w AND 0x7F = 0x07" "drop_bit 12 w AND 0x7 = 0x3"
    using assms(1) unfolding D_decode_def Let_def by (auto split: if_split_asm)
  note f = fp_latched_fields[OF assms(2)]
  show o: "x_opcode (issue_ex_reg s) = 0x07" using f(4) d(1) by simp
  obtain l rob v1 v2 where x: "issue_ex_reg s = ex_latch (decode32 w (l\<lparr>d_instr := w\<rparr>)) rob v1 v2"
    using assms(2) by (auto simp: fp_latched_def)
  have "x_funct3 (issue_ex_reg s) = ucast (drop_bit 12 w AND 0x7)" by (simp add: x ex_latch_def decode32_def Let_def)
  then show "x_funct3 (issue_ex_reg s) = 3" using d(2) by simp
  show "F_decode w = OP_F_ERROR" using d unfolding F_decode_def Let_def by simp
  show "unat (x_rd (issue_ex_reg s)) = fp_rd w" "fp_instr (issue_ex_reg s) = w" using f o by (simp_all add: fp_instr_def Let_def)
qed

text \<open>C23: Floating-point loads do not see buffered stores.  When an FLD finds, at its address, a store that still waits in the store
  buffer, and whose data the integer load path forwards, EX_stage loads the old contents of memory instead.\<close>

theorem fp_load_misses_buffered_store:
  assumes va: "x_rs1_val (issue_ex_reg s) + x_imm (issue_ex_reg s) = va"
    and "ex_ready s" "fp_latched w s" "D_decode w = OP_D_FLD"
    and access: "va AND 7 = 0" "priv (cpu_csr s) = PrivMode_M" "pmp_check va 8 False False (cpu_csr s)"
    and buffered: "forward_load va 8 (store_buffer s) = FWD_HIT new"
    and memory: "readDataMem64 va 8 (cpu_pf s) = Inr (old, pf)"
  shows "(\<exists>s'. EX_stage s = Inr s' \<and> getFPValue (fp_rd w) (fpu_view s') = old) \<and>
     ex_load s = Inr ((start_hit new s, True, 0), False)"
proof
  let ?s = "tick_units (s\<lparr>stall_ex := False\<rparr>)" and ?x = "issue_ex_reg s"
  note f = fld_fields[OF assms(4,3)]
  obtain hit c where c: "cache_access va (dcache s) = (hit, c)" by fastforce
  let ?t = "?s\<lparr>dcache := c\<rparr>"
  have a: "fp_access ?s = Inr (Inr (va, \<not> hit, ?t))"
    using f access c by (simp add: fp_access_def translate_machine_mode fp_misaligned_def fp_is_double_def va Let_def)
  have n: "\<not> trap_pending ?t" using assms(2) by (simp add: ex_ready_def)
  let ?m = "setFPValue (fp_rd w) old ((fpu_view s)\<lparr>fhart := (fhart (fpu_view s))\<lparr>platform := pf\<rparr>\<rparr>)"
  have "D_execute (cpu_host s) w OP_D_FLD (x_rs1_val ?x) (x_rs2_val ?x) (fp_rd w) va (fpu_view s) = Inr (2, fcsr_flags {}, ?m)"
    using memory by (simp add: D_execute_def D_result_def Let_def fpu_view_def)
  moreover have "fp_operate va ?t = fp_operate va s" by (simp add: fp_operate_def fpu_view_def Let_def)
  ultimately have o: "fp_operate va ?t = Some (Inr (2, fcsr_flags {}, ?m))"
    using f assms(4) by (simp add: fp_operate_def Let_def)
  obtain u mc v where u: "fp_retire (\<not> hit) 2 (fcsr_flags {}) ?m ?t = (u, mc, v)" by (metis prod_cases3)
  have "EX_stage s = Inr u" using ex_stage_fp[OF assms(2,3) a n o] u by simp
  then show "\<exists>s'. EX_stage s = Inr s' \<and> getFPValue (fp_rd w) (fpu_view s') = old"
    using fp_retire_fields(2)[OF u] by (auto simp: fpu_view_def getFPValue_def setFPValue_def)
  show "ex_load s = Inr ((start_hit new s, True, 0), False)"
    using f access buffered by (simp add: ex_load_def Let_def translate_machine_mode load_misaligned_def load_size_def load_value_def va)
qed


section \<open>Instances\<close>

text \<open>FADD.S f3, f1, f2 and FLD f3, 0(x0) in the execute latch of a core at reset, with 1 and 2 to the power -24 in f1 and f2.\<close>

definition demo_fp :: "u32 \<Rightarrow> u64 \<Rightarrow> P6" where
  "demo_fp w v1 = demo_core\<lparr>
     issue_ex_reg := ex_latch (decode32 w (id_latch_init\<lparr>d_pc := 0x80000100, d_instr := w\<rparr>)) 0 v1 0,
     scoreboard := set_entry 0 (\<lambda>e. e\<lparr>sb_pc := 0x80000100, sb_fu := FU_FPU\<rparr>) (snd (sb_allocate (sb_init 32))),
     cpu_fregs := f_regs demo_fpu\<rparr>"

lemma demo_fp_fields:
  "issue_ex_reg (demo_fp w v) = ex_latch (decode32 w (id_latch_init\<lparr>d_pc := 0x80000100, d_instr := w\<rparr>)) 0 v 0"
  "cpu_fregs (demo_fp w v) = f_regs demo_fpu" "sb_fus (scoreboard (demo_fp w v)) ! 0 = FU_FPU"
  "sb_tail (scoreboard (demo_fp w v)) = 1" "\<not> sb_is_empty (scoreboard (demo_fp w v))"
  "sb_pc (sb_get_head (scoreboard (demo_fp w v))) = 0x80000100"
  by (simp_all add: demo_fp_def sb_fus_def set_entry_def sb_allocate_def sb_init_def sb_is_full_def sb_size_def sb_is_empty_def sb_get_head_def)

lemma demo_fp_latched: "fp_latched w (demo_fp w v)"
  unfolding fp_latched_def demo_fp_fields(1)
  by (intro conjI exI[of _ "id_latch_init\<lparr>d_pc := 0x80000100\<rparr>"] exI[of _ 0] exI[of _ v])
    (simp_all add: ex_latch_def demo_fp_fields)

lemma demo_fp_ready: "fp_opcode (ucast (w AND 0x7F)) \<Longrightarrow> ex_ready (demo_fp w v)"
proof -
  assume o: "fp_opcode (ucast (w AND 0x7F))"
  have "sb_ok (snd (sb_allocate (sb_init 32)))"
    using sb_init_wf[of 32] by (intro sb_ok_ops) (simp add: sb_ok_def, simp add: sb_init_def sb_size_def)
  then have "sb_ok (scoreboard (demo_fp w v))" unfolding demo_fp_def by (simp add: sb_ok_entry)
  then have "core_wf (demo_fp w v)" using demo_core_inv by (simp add: p6_inv_def core_wf_def demo_fp_def)
  moreover have "youngest (issue_ex_reg (demo_fp w v)) (scoreboard (demo_fp w v))"
    using fp_latched_fields(4)[OF demo_fp_latched[of w v]] o demo_fp_fields(4)
    by (simp add: youngest_def) (simp add: demo_fp_fields(1) ex_latch_def)
  ultimately show ?thesis by (simp add: ex_ready_def) (simp add: demo_fp_def demo_core_def P6_init_def)
qed

lemma demo_fp_view:
  "getF32 r (fpu_view (demo_fp w v)) = getF32 r demo_fpu" "getF64 r (fpu_view (demo_fp w v)) = getF64 r demo_fpu"
  by (simp_all add: getF32_def getF64_def fpu_view_def demo_fp_fields)


lemma demo_fadd:
  "F_arith (F_decode 0x002081D3) = Some Add" "fp_rd 0x002081D3 = 3"
  "exact_op Add (float_of (getF32 (get_rs1_F 0x002081D3) demo_fpu)) (float_of (getF32 (get_rs2_F 0x002081D3) demo_fpu))
      (float_of (getF32 (get_rs3_F 0x002081D3) demo_fpu)) = Some (1 + 2 powi (- 24))"
  by (simp_all add: F_decode_def Let_def fp_rd_def)
    (simp add: demo_fields demo_regs demo_floats mag_def power_int_def power_one_over del: One_nat_def)



text \<open>The same addition with a timer interrupt pending.\<close>

definition demo_fp_irq :: P6 where
  "demo_fp_irq = (demo_fp 0x002081D3 0)\<lparr>cpu_csr := CSR_File_init\<lparr>mie := 0x80, mip := 0x80, priv := PrivMode_U, mtvec := 0x80001000\<rparr>\<rparr>"

lemma demo_fp_irq_ready: "ex_ready demo_fp_irq" "fp_latched 0x002081D3 demo_fp_irq"
proof -
  have "csr_wf (CSR_File_init\<lparr>mie := 0x80, mip := 0x80, priv := PrivMode_U, mtvec := 0x80001000\<rparr>)"
    using CSR_File_init_wf by (simp add: csr_wf_def MIE_MASK_def)
  then show "ex_ready demo_fp_irq" "fp_latched 0x002081D3 demo_fp_irq"
    using demo_fp_ready[of "0x002081D3" 0] demo_fp_latched[of "0x002081D3" 0]
    by (simp_all add: ex_ready_def core_wf_def demo_fp_irq_def fp_opcode_def fp_latched_def)
qed

theorem interrupt_keeps_fp_result_witness:
  "\<exists>s1 t. EX_stage demo_fp_irq = Inr s1 \<and> process_IRQ s1 = (True, t) \<and> sb_is_empty (scoreboard t) \<and>
     (if priv (cpu_csr t) = PrivMode_M then fst (mret (cpu_csr t)) else fst (sret (cpu_csr t))) = 0x80000100 \<and>
     (\<exists>fe. ieee_rounded binary32 FE_TONEAREST (1 + 2 powi (- 24)) (float_of (getF32 3 (fpu_view t))) fe)"
proof -
  have v: "getF32 r (fpu_view demo_fp_irq) = getF32 r demo_fpu" for r
    using demo_fp_view(1) by (simp add: demo_fp_irq_def fpu_view_def getF32_def)
  note e = demo_fadd(3)[folded v]
  obtain s1 fe where s1: "EX_stage demo_fp_irq = Inr s1" "cpu_csr s1 = set_fflags (fcsr_flags fe) (cpu_csr demo_fp_irq)" "core_wf s1"
    by (rule ex_stage_single[OF demo_fp_irq_ready demo_fadd(1) e])
  have "0 \<le> pending_interrupt (cpu_csr s1)"
    unfolding s1(2) by (simp add: demo_fp_irq_def pending_interrupt_def set_fflags_def CSR_File_init_def)
  from process_IRQ_taken(1)[OF s1(3) this] obtain t where t: "process_IRQ s1 = (True, t)" by metis
  have o: "\<not> sb_is_empty (scoreboard demo_fp_irq)" "sb_pc (sb_get_head (scoreboard demo_fp_irq)) = x_pc (issue_ex_reg demo_fp_irq)"
    "pending_priv_switch demo_fp_irq = None" "x_pc (issue_ex_reg demo_fp_irq) = 0x80000100"
    by (simp_all add: demo_fp_irq_def demo_fp_fields, simp_all add: ex_latch_def decode32_def Let_def demo_fp_def demo_core_def P6_init_def)
  show ?thesis
    using interrupt_keeps_fp_result[OF demo_fp_irq_ready demo_fadd(1) e o(1-3) s1(1) t] s1(1) t o(4) demo_fadd(2) by auto
qed

text \<open>A load from an address for which a store of 7 waits in the store buffer.\<close>

definition demo_fld :: P6 where
  "demo_fld = (demo_fp 0x00003187 0x80002000)\<lparr>store_buffer := snd (add_store 0x80002000 7 8 0 (stb_init 4 4))\<rparr>"

lemma demo_fld_ready: "ex_ready demo_fld" "fp_latched 0x00003187 demo_fld"
proof -
  have "stb_ok (snd (add_store 0x80002000 7 8 0 (stb_init 4 4)))"
    using stb_init_clean[of 4 4] by (intro stb_ok_ops) (simp add: stb_ok_def stb_clean_def, simp add: stb_init_def stb_defs)
  then show "ex_ready demo_fld" "fp_latched 0x00003187 demo_fld"
    using demo_fp_ready[of "0x00003187" "0x80002000"] demo_fp_latched[of "0x00003187" "0x80002000"]
    by (simp_all add: ex_ready_def core_wf_def demo_fld_def fp_opcode_def fp_latched_def)
qed

theorem fp_load_misses_buffered_store_witness:
  "(\<exists>s'. EX_stage demo_fld = Inr s' \<and> getFPValue 3 (fpu_view s') = 0) \<and> ex_load demo_fld = Inr ((start_hit 7 demo_fld, True, 0), False)"
proof -
  have va: "x_rs1_val (issue_ex_reg demo_fld) + x_imm (issue_ex_reg demo_fld) = 0x80002000"
    by (simp add: demo_fld_def demo_fp_fields ex_latch_def decode32_def Let_def imm32_def)
  have p: "pmp_check 0x80002000 8 False False (cpu_csr demo_fld)" "priv (cpu_csr demo_fld) = PrivMode_M"
    "D_decode 0x00003187 = OP_D_FLD" "fp_rd 0x00003187 = 3"
  proof -
    have c: "cpu_csr demo_fld = CSR_File_init" by (simp add: demo_fld_def demo_fp_def demo_core_def P6_init_def)
    show "pmp_check 0x80002000 8 False False (cpu_csr demo_fld)" "priv (cpu_csr demo_fld) = PrivMode_M"
      unfolding c by (simp_all add: pmp_check_def list_ex_iff pmp_a_def pmp_cfg_def CSR_File_init_def)
    show "D_decode 0x00003187 = OP_D_FLD" "fp_rd 0x00003187 = 3" by (simp_all add: D_decode_def fp_rd_def Let_def)
  qed
  have f: "forward_load 0x80002000 8 (store_buffer demo_fld) = FWD_HIT 7"
    by (simp add: demo_fld_def add_store_def stb_init_def stb_defs forward_load_def fwd_loop.simps fwd_entry_def Let_def)
  have m: "readDataMem64 0x80002000 8 (cpu_pf demo_fld) = Inr (0, cpu_pf demo_fld)"
    by (simp add: demo_fld_def demo_fp_def demo_core_def P6_init_def readDataMem64_def dram_access dram_range_def
        platform_init_def mem_read_def upt_rec)
  show ?thesis
    using fp_load_misses_buffered_store[OF va demo_fld_ready p(3) _ p(2,1) f m] p(4) by simp
qed

end
