(* ===== verification/Instruction.thy ===== *)
theory Instruction
  imports VP_Prelude
begin

unbundle bit_operations_syntax

text \<open>
  The classification of an instruction word by extension (src/src/Instruction.cpp).
\<close>

datatype extension_t = BASE_EXTENSION | M_EXTENSION | A_EXTENSION | F_EXTENSION | D_EXTENSION | Q_EXTENSION | L_EXTENSION
  | C_EXTENSION | R_EXTENSION | J_EXTENSION | P_EXTENSION | V_EXTENSION | N_EXTENSION | UNKNOWN_EXTENSION

definition check_extension :: "u32 \<Rightarrow> extension_t" where
  "check_extension m_instr =
     (if (m_instr AND 0x7F = 0x33 \<or> m_instr AND 0x7F = 0x3B) \<and> drop_bit 25 (m_instr AND 0x7F000000) = 1 then M_EXTENSION
      else if m_instr AND 0x7F = 0x2F then A_EXTENSION
      else if m_instr AND 0x3 = 0 then C_EXTENSION
      else if m_instr AND 0x3 = 1 then C_EXTENSION
      else if m_instr AND 0x3 = 2 then C_EXTENSION
      else BASE_EXTENSION)"

text \<open>The class of a word is that of its low two bits: compressed exactly when they are not 3.\<close>

lemma low_bits: "(w :: u32) AND 0x3 = (w AND 0x7F) AND 0x3"
  by (simp add: and.assoc)

lemma check_extension_compressed: "check_extension w = C_EXTENSION \<longleftrightarrow> w AND 0x3 \<noteq> 3"
proof -
  have "w AND 0x3 = take_bit 2 w" using take_bit_eq_mask[of 2 w] by (simp add: mask_eq_exp_minus_1)
  then have "uint (w AND 0x3) < 4" using take_bit_int_less_exp[of 2 "uint w"] by (simp add: unsigned_take_bit_eq)
  moreover have "0 \<le> uint (w AND 0x3)" by simp
  ultimately have "uint (w AND 0x3) \<in> {0, 1, 2, 3}" by (simp only: insert_iff empty_iff) presburger
  then have "w AND 0x3 \<in> {0, 1, 2, 3}" by (auto simp: word_uint_eq_iff)
  then show ?thesis using low_bits[of w] by (auto simp: check_extension_def)
qed

text \<open>The mask 0x7F000000 leaves out the top bit of funct7: a word with funct7 0x41 counts as a multiplication.\<close>

lemma check_extension_ignores_sign: "check_extension (w XOR push_bit 31 1) = check_extension w"
proof -
  have "(w XOR push_bit 31 1) AND m = w AND m" if "\<not> bit m 31" for m :: u32
  proof (rule bit_word_eqI)
    fix n assume "n < LENGTH(32)"
    then show "bit ((w XOR push_bit 31 1) AND m) n = bit (w AND m) n"
      using that by (cases "n = 31") (auto simp: bit_simps simp del: push_bit_of_1)
  qed
  then show ?thesis by (simp add: check_extension_def)
qed

end
