(* ===== verification/Spec2Isabelle.thy ===== *)
theory Spec2Isabelle
  imports ROB Scoreboard StoreBuffer CSR_Props PMP_Props Cache Platform_Props Memory_Loader P6_Props P6_MulDiv P6_Retire R6_Props
    P2_Props AT_Props P6_FP_Props Instruction
begin

text \<open>
  \<^bold>\<open>The RISC-V virtual platform.\<close>

  \<^bold>\<open>The program.\<close>  A SystemC/TLM-2.0 model of a RISC-V system.  A processor, chosen at build time among a functional core
  (CPU_Simple), two-stage cores in three timing styles (CPU_P32_2, CPU_P64_2 and their Cycle and AT variants) and two
  six-stage pipelines (CPU_P32_6_Cycle, CPU_P64_6_Cycle), fetches and accesses data through MemoryInterface
  over the bus controller (BusCtrl), whose targets are main memory, UART, CLINT, PLIC, timer, trace port, DMA engine and
  syscall stub.  The functional and two-stage cores execute instructions with the extension classes (BASE_ISA, M, A and
  C_extension) on a register bank (Registers).  The RV64 six-stage core has its own datapath, and owns a scoreboard, a
  store buffer, a CSR file with physical memory protection, an MMU with TLBs and a page-table walker, two caches, and the
  F and D extensions.  The peripherals raise interrupts: UART through PLIC, timer and software through CLINT.

  \<^bold>\<open>Conventions.\<close>  A C++ unsigned integer is a word of its width; an int index is an int or, where it cannot be negative, a nat.
  A class is a record, a method a function that returns the new state, a struct template parameter the length of a list.
  A step that can end abnormally returns \<^verbatim>\<open>sim_error + state\<close> (TLM): SC_REPORT_ERROR, undefined behaviour of
  C++, or exhausted fuel.  Signed overflow in the datapaths wraps, as the supported compilers generate it.  Text
  blocks in front of the properties carry the claims, numbered C1 to C40.

  \<^bold>\<open>Prelude and interfaces.\<close>  VP_Prelude holds the word types, bit fields, byte lists and memories, result chaining, ring-buffer lemmas
  and the named collections; TLM the payload.  Fifo states the contract of a bounded queue as the locale
  bounded_fifo, interpreted by ROB, Scoreboard, StoreBuffer and UART; MMU states the memory a page-table walk relies on as pt_memory,
  interpreted in Platform_Props on the real bus; P2_Props states what drives the stages of a two-stage core as p2_driver, interpreted on the
  thread of the loosely-timed core and, in AT_Props, on its stages with other processes acting during a fetch, to which the
  approximately-timed core reduces.

  \<^bold>\<open>Queues.\<close>  ROB (inc/ROB.h), Scoreboard (inc/Scoreboard.h), StoreBuffer (inc/StoreBuffer.h): every operation, refinement of lists of
  in-flight instructions, the squash loop (its fuel is SIZE, and the loop is shown to end within it),
  store-to-load forwarding against memory after all stores, program order of the stores that reach memory, draining
  (recursion on the committed count).

  \<^bold>\<open>Privileged architecture.\<close>  CSR_File, CSR_Props, PMP_Props (inc/CSR_File.h): registers with their masks, traps and returns, interrupt
  arbitration, PMP.  TLB (inc/TLB.h), MMU (inc/MMU.h): Sv39 translation, the walk against the Sv39 relation, flushes.  The walker takes its memory
  as arguments; Platform_Props and P6_State instantiate them with the bus.  Cache (inc/Cache.h): hits, replacement, LFSR and LRU.

  \<^bold>\<open>Platform.\<close>  CLINT, PLIC, UART, Peripherals (Memory, Timer, Trace, SyscallIf), Memory_Loader (Intel HEX and binary
  loading of src/Memory.cpp), Platform (BusCtrl, DMA, MemoryInterface, the wiring of VPTop), Platform_Props.  Bus and DMA call each
  other; the recursion has fuel, bus_fuel = 16, and it is shown that a transfer within memory ends with it
  and that a transfer into the DMA control register exhausts every fuel.

  \<^bold>\<open>Instruction sets.\<close>  Registers, ISA_Common, BASE_ISA, M_extension, A_extension, C_extension: every decoder, Exec method and dispatcher, for a
  register width 'w of 32 or 64.  Instruction: check_extension.  ISA_Encoding and ISA_Fields give the encodings, ISA_Spec a reference
  semantics on integers; CPU_Simple (src/CPU_Simple.cpp, src/CPU.cpp) is the functional core, and ISA_Props shows
  that its thread runs programs as the reference prescribes.  CPU_thread n is n iterations of the endless loop.

  \<^bold>\<open>Floating point.\<close>  IEEE754 is the arithmetic of the language's float and double: numbers as integers times powers of two, one rounding per
  operation, and the exception flags.  FP_Rounding proves that the rounding is the one the standard prescribes on real
  numbers.  F_extension and D_extension (inc/F_extension.h, inc/D_extension.h) model decoders and execution; FP_Props the correct rounding
  of their instructions and their departures from the instruction set.  What IEEE 754 and C++ leave to the host (NaN
  payloads, the moment tininess is judged, the flags of conversions, which of two equal operands fmin returns) is the parameter fp_host.

  \<^bold>\<open>Two-stage cores.\<close>  CPU_P2 models the loosely-timed and the clocked cores, CPU_AT the approximately-timed ones, for both widths.
  The clocked cores are driven by two threads, whose interleavings are lists of p2c_action.  The target's socket of the AT
  cores is a parameter (nb_port), the times at which other processes run are lists of wake-ups.  P2_Props and AT_Props: which programs
  run as specified, what the early increment of the program counter breaks, and that the AT core refines the LT one.

  \<^bold>\<open>The RV32 six-stage core.\<close>  R6_Core holds state and stages; R6_Datapath, R6_Front, R6_Stages and R6_Refine build the simulation between clock
  cycles and instructions, R6_Props the result: hazard-free programs of n instructions run within 5n + 1 cycles, and a
  register overwritten in flight is read stale.

  \<^bold>\<open>The RV64 six-stage core.\<close>  P6_State (inc/CPU_P64_6_Cycle.h), P6_Frontend (PCGen, Fetch), P6_Decode, P6_Issue, P6_ALU, P6_Execute, P6_FPU, P6_System
  (EX_stage) and P6_Cycle (Commit, interrupts, the clocked thread) follow src/CPU_P64_6_Cycle.cpp stage by stage; cycle_thread
  takes a list with one entry per cycle, the effect of the other processes of the simulation on the platform.  The branch
  history table, which the source does not initialise, is an argument of P6_init, as is the host arithmetic.  P6_Invariant: well-formedness is kept by
  every stage.  P6_Datapath, P6_Props: the execute stage implements the reference instruction set, whatever was predicted.  P6_MulDiv: multiplier and divider, value
  and latency.  P6_Retire: commit ports, precise interrupts and traps.  P6_FP_Props: floating-point
  instructions in the pipeline.

  \<^bold>\<open>Not modelled.\<close>  The AXI interconnect (src/axi, inc/axi), an optional timing model compiled in by ENABLE_AXI_CONTENTION; simulated time, except
  where a register or a decision reads it; statistics, traces, logs and dumps, on which no modelled value depends; the performance counters and
  TimingModel.h (names and defaults for reports); the debugger stub (Debug.cpp) and the terminal and xterm processes of UART and trace port, which are host
  input and output; the front ends (VPMain.cpp, Simulator.cpp), which parse options and elaborate the system; and the tools under src/tools.
\<close>

end
